(* ===== verification/Prelude.thy ===== *)
theory Prelude
  imports
    Complex_Main
    "HOL-Library.Product_Lexorder"
    "HOL-Library.List_Lexorder"
    "HOL-Library.Char_ord"
begin

text \<open>
  The vocabulary every other theory of the development uses: Python exceptions as values
  of a sum type, \<open>datetime\<close> values (aware or naive), numbers that may be non-finite or of
  the wrong class, the stable \<open>list.sort(key=...)\<close> followed by \<open>[0]\<close>, and the
  hint collections of the proofs.

  The root theory Spec2Isabelle describes the whole development.
\<close>

named_theorems eval_defs \<open>definitions unfolded to evaluate a component on concrete data\<close>

section \<open>Exceptions\<close>

text \<open>
  The exceptions the modelled code raises. \<open>NonFiniteOperand\<close> is not a Python exception:
  it marks the places where the code would compute with a NaN or an infinity, which the
  numbers of this model do not represent.
\<close>

datatype pyerr =
    ValueError
  | TypeError
  | AttributeError
  | RuntimeError
  | InvalidOperation
  | DivisionByZero
  | NonFiniteOperand

type_synonym 'a result = "pyerr + 'a"

definition rbind :: "'a result \<Rightarrow> ('a \<Rightarrow> 'b result) \<Rightarrow> 'b result" where
  "rbind m f = (case m of Inl e \<Rightarrow> Inl e | Inr x \<Rightarrow> f x)"

lemma rbind_simps [simp]:
  "rbind (Inl e) f = Inl e"
  "rbind (Inr x) f = f x"
  by (simp_all add: rbind_def)

text \<open>
  Congruences that evaluate the scrutinee before the branches; with them the simplifier runs
  the monadic definitions on concrete data without entering the continuations.
\<close>

lemma rbind_weak_cong: "m = m' \<Longrightarrow> rbind m f = rbind m' f"
  by simp

lemmas strict_congs = rbind_weak_cong let_weak_cong option.case_cong_weak list.case_cong_weak
  prod.case_cong_weak sum.case_cong_weak bool.case_cong_weak

lemma rbind_Inr_iff: "rbind m f = Inr y \<longleftrightarrow> (\<exists>x. m = Inr x \<and> f x = Inr y)"
  by (cases m) auto

lemma rbind_Inl_iff: "rbind m f = Inl e \<longleftrightarrow> m = Inl e \<or> (\<exists>x. m = Inr x \<and> f x = Inl e)"
  by (cases m) auto

text \<open>A list comprehension whose condition may raise: the first exception, in list order.\<close>

fun filter_result :: "('a \<Rightarrow> bool result) \<Rightarrow> 'a list \<Rightarrow> 'a list result" where
  "filter_result p [] = Inr []"
| "filter_result p (x # xs) =
     rbind (p x) (\<lambda>b. rbind (filter_result p xs) (\<lambda>ys. Inr (if b then x # ys else ys)))"

lemma filter_result_Inr:
  "filter_result (\<lambda>x. Inr (p x)) xs = Inr (filter p xs)"
  by (induction xs) auto

lemma filter_result_subset:
  "filter_result p xs = Inr ys \<Longrightarrow> y \<in> set ys \<Longrightarrow> y \<in> set xs \<and> p y = Inr True"
  by (induction xs arbitrary: ys) (auto simp: rbind_Inr_iff split: if_splits)

lemma filter_result_eq_filter:
  "filter_result p xs = Inr ys \<Longrightarrow> ys = filter (\<lambda>x. p x = Inr True) xs"
  by (induction xs arbitrary: ys) (auto simp: rbind_Inr_iff split: if_splits)

lemma filter_result_append_False:
  "\<forall>y\<in>set ys. p y = Inr False \<Longrightarrow> filter_result p (xs @ ys) = filter_result p xs"
proof (induction xs)
  case Nil
  then show ?case by (induction ys) auto
qed simp

lemma filter_result_cong:
  "(\<And>x. x \<in> set xs \<Longrightarrow> p x = q x) \<Longrightarrow> filter_result p xs = filter_result q xs"
  by (induction xs) auto

section \<open>Numbers\<close>

text \<open>
  \<open>Fin x\<close> is a finite \<open>Decimal\<close> (or \<open>float\<close>, where the code uses one) with numeric
  value \<open>x\<close>; \<open>NonFin\<close> is a NaN or an infinity, which only \<open>is_finite()\<close> and
  \<open>math.isfinite\<close> tell apart from the others; \<open>NotDec\<close> is a value that fails the code's
  \<open>isinstance(x, Decimal)\<close> tests.
\<close>

datatype pynum = Fin (num_value: rat) | NonFin | NotDec
  where "num_value NonFin = 0" | "num_value NotDec = 0"

fun finite_num :: "pynum \<Rightarrow> bool" where
  "finite_num (Fin x) = True"
| "finite_num NonFin = False"
| "finite_num NotDec = False"

fun positive_num :: "pynum \<Rightarrow> bool" where
  "positive_num (Fin x) = (x > 0)"
| "positive_num NonFin = False"
| "positive_num NotDec = False"

fun nonneg_num :: "pynum \<Rightarrow> bool" where
  "nonneg_num (Fin x) = (x \<ge> 0)"
| "nonneg_num NonFin = False"
| "nonneg_num NotDec = False"

lemma positive_numE: "positive_num n \<Longrightarrow> (\<And>x. n = Fin x \<Longrightarrow> 0 < x \<Longrightarrow> P) \<Longrightarrow> P"
  by (cases n) auto

lemma nonneg_numE: "nonneg_num n \<Longrightarrow> (\<And>x. n = Fin x \<Longrightarrow> 0 \<le> x \<Longrightarrow> P) \<Longrightarrow> P"
  by (cases n) auto

lemma positive_num_value: "positive_num n \<Longrightarrow> 0 < num_value n"
  by (cases n) auto

section \<open>Timestamps\<close>

text \<open>
  A \<open>datetime\<close>: timezone aware, given by its UTC instant in microseconds since the Unix
  epoch (its offset matters to the code's messages only), or naive, given by its wall
  clock. Comparing an aware with a naive one raises \<open>TypeError\<close>.
\<close>

datatype datetime = Aware (instant: int) | Naive int
  where "instant (Naive w) = w"

fun is_aware :: "datetime \<Rightarrow> bool" where
  "is_aware (Aware u) = True"
| "is_aware (Naive w) = False"

fun datetime_le :: "datetime \<Rightarrow> datetime \<Rightarrow> bool result" where
  "datetime_le (Aware a) (Aware b) = Inr (a \<le> b)"
| "datetime_le (Naive a) (Naive b) = Inr (a \<le> b)"
| "datetime_le _ _ = Inl TypeError"

text \<open>
  \<open>dt.astimezone(timezone.utc)\<close>: a naive value is read in the host's local time zone,
  which is a parameter (the UTC offset, in microseconds, of a local wall clock).
\<close>

fun astimezone_utc :: "(int \<Rightarrow> int) \<Rightarrow> datetime \<Rightarrow> int" where
  "astimezone_utc host (Aware u) = u"
| "astimezone_utc host (Naive w) = w - host w"

text \<open>\<open>dt.replace(tzinfo=timezone.utc)\<close> for a naive value, \<open>astimezone\<close> for an aware one.\<close>

fun assume_utc :: "datetime \<Rightarrow> int" where
  "assume_utc (Aware u) = u"
| "assume_utc (Naive w) = w"

definition second :: int where "second = 1000000"
definition minute :: int where "minute = 60 * second"
definition hour :: int where "hour = 60 * minute"
definition day :: int where "day = 24 * hour"

lemmas time_units [eval_defs] = second_def minute_def hour_def day_def

section \<open>Strings\<close>

text \<open>\<open>str.strip()\<close> on ASCII text.\<close>

definition py_space :: "char \<Rightarrow> bool" where
  "py_space c \<longleftrightarrow> (let n = of_char c :: nat in (9 \<le> n \<and> n \<le> 13) \<or> (28 \<le> n \<and> n \<le> 32))"

definition py_strip :: "string \<Rightarrow> string" where
  "py_strip s = rev (dropWhile py_space (rev (dropWhile py_space s)))"

text \<open>\<open>str.upper()\<close> on ASCII text.\<close>

definition py_upper_char :: "char \<Rightarrow> char" where
  "py_upper_char c = (let n = of_char c :: nat in if 97 \<le> n \<and> n \<le> 122 then char_of (n - 32) else c)"

definition py_upper :: "string \<Rightarrow> string" where
  "py_upper = map py_upper_char"

section \<open>Sorting and taking the first\<close>

text \<open>
  Python's \<open>list.sort(key=k)\<close> is stable, as \<open>sort_key\<close> is. The code's pattern
  ``filter, sort, take \<open>[0]\<close> if there is one'' selects the first element of least key.
\<close>

definition first_sorted :: "('a \<Rightarrow> 'k::linorder) \<Rightarrow> 'a list \<Rightarrow> 'a option" where
  "first_sorted key xs = (case sort_key key xs of [] \<Rightarrow> None | z # _ \<Rightarrow> Some z)"

lemma first_sorted_None [simp]: "first_sorted key xs = None \<longleftrightarrow> xs = []"
proof -
  have "sort_key key xs = [] \<longleftrightarrow> xs = []"
    by (metis length_0_conv length_sort)
  then show ?thesis by (auto simp: first_sorted_def split: list.splits)
qed

lemma first_sorted_least:
  assumes "first_sorted key xs = Some z"
  shows "z \<in> set xs \<and> (\<forall>y\<in>set xs. key z \<le> key y)"
proof -
  from assms obtain zs where zs: "sort_key key xs = z # zs"
    by (auto simp: first_sorted_def split: list.splits)
  have "sorted (map key (sort_key key xs))" by simp
  with zs have "\<forall>y\<in>set zs. key z \<le> key y" by simp
  moreover from zs have "set xs = insert z (set zs)"
    by (metis list.simps(15) set_sort)
  ultimately show ?thesis by auto
qed

text \<open>
  The interface of a point-in-time selector: what the planner relies on when it resolves
  a zone, whatever the sort key is. \<open>select\<close> sees eligible elements only, so evidence
  that is not eligible (inactive, or created after the decision time) cannot change it.
\<close>

locale pit_selector =
  fixes ok :: "'a \<Rightarrow> bool"
    and key :: "'a \<Rightarrow> 'k::linorder"
    and select :: "'a list \<Rightarrow> 'a option"
  assumes select_eligible: "select xs = select (filter ok xs)"
    and select_none: "select xs = None \<longleftrightarrow> filter ok xs = []"
    and select_least: "select xs = Some z \<Longrightarrow>
      z \<in> set xs \<and> ok z \<and> (\<forall>y\<in>set xs. ok y \<longrightarrow> key z \<le> key y)"
begin

lemma select_causal:
  "filter ok xs = filter ok ys \<Longrightarrow> select xs = select ys"
  by (metis select_eligible)

lemma select_ignores:
  "\<forall>y\<in>set ys. \<not> ok y \<Longrightarrow> select (xs @ ys) = select xs"
  by (rule select_causal) (simp add: filter_empty_conv)

lemma select_exists:
  "x \<in> set xs \<Longrightarrow> ok x \<Longrightarrow> \<exists>z. select xs = Some z"
  by (metis filter_empty_conv not_None_eq select_none)

end

lemma first_sorted_filter_selector:
  "pit_selector ok key (\<lambda>xs. first_sorted key (filter ok xs))"
  by unfold_locales (auto dest: first_sorted_least)

section \<open>Lists\<close>

lemma sort_key_ConsD:
  assumes "sort_key k xs = z # zs"
  shows "z \<in> set xs \<and> set zs \<subseteq> set xs \<and> (\<forall>y\<in>set xs. k z \<le> k y)"
proof -
  have "first_sorted k xs = Some z" using assms by (simp add: first_sorted_def)
  moreover have "set zs \<subseteq> set xs" using assms by (metis set_sort set_subset_Cons)
  ultimately show ?thesis by (simp add: first_sorted_least)
qed

lemma sort_key_Nil [simp]: "sort_key k xs = [] \<longleftrightarrow> xs = []"
  by (metis length_0_conv length_sort)

fun find_first :: "('a \<Rightarrow> bool) \<Rightarrow> 'a list \<Rightarrow> 'a option" where
  "find_first p [] = None"
| "find_first p (x # xs) = (if p x then Some x else find_first p xs)"

lemma find_first_Some: "find_first p xs = Some x \<Longrightarrow> x \<in> set xs \<and> p x"
  by (induction xs) (auto split: if_splits)

lemma find_first_None: "find_first p xs = None \<longleftrightarrow> (\<forall>x\<in>set xs. \<not> p x)"
  by (induction xs) (auto split: if_splits)

lemma find_first_split:
  "find_first p xs = Some x \<Longrightarrow> \<exists>ys zs. xs = ys @ x # zs \<and> p x \<and> (\<forall>y\<in>set ys. \<not> p y)"
proof (induction xs)
  case (Cons a xs)
  show ?case
  proof (cases "p a")
    case True
    with Cons.prems show ?thesis by (intro exI [of _ "[]"] exI [of _ xs]) simp
  next
    case False
    with Cons obtain ys zs where "xs = ys @ x # zs" "p x" "\<forall>y\<in>set ys. \<not> p y" by auto
    with False show ?thesis by (intro exI [of _ "a # ys"] exI [of _ zs]) simp
  qed
qed simp

lemma find_first_sorted:
  assumes "find_first p (sort_key k xs) = Some x"
  shows "x \<in> set xs \<and> p x \<and> (\<forall>y\<in>set xs. p y \<longrightarrow> k x \<le> k y)"
proof -
  from find_first_split [OF assms] obtain ys zs
    where eq: "sort_key k xs = ys @ x # zs" and px: "p x" and ys: "\<forall>y\<in>set ys. \<not> p y" by blast
  have srt: "sorted (map k (ys @ x # zs))" by (simp flip: eq)
  have xs: "set xs = set (ys @ x # zs)" by (metis eq set_sort)
  with srt ys px show ?thesis by (auto simp: sorted_append)
qed

lemma find_first_sorted_None: "find_first p (sort_key k xs) = None \<longleftrightarrow> (\<forall>x\<in>set xs. \<not> p x)"
  by (simp add: find_first_None)

lemmas [eval_defs] = first_sorted_def py_space_def py_strip_def py_upper_char_def py_upper_def

end
