(* ===== verification/Decimal_Arith.thy ===== *)
theory Decimal_Arith
  imports Prelude "HOL-Library.Log_Nat"
begin

text \<open>
  Arithmetic of Python's \<open>decimal\<close> module in its default context: a result is the exact
  one rounded to 28 significant digits, ties to even. A \<open>Decimal\<close> is represented by its
  numeric value. The locale \<open>rounding\<close> is what the risk components rely on; it is
  interpreted on \<open>dround\<close>.
\<close>

section \<open>Rounding to an integer, ties to even\<close>

definition rhe :: "rat \<Rightarrow> int" where
  "rhe x = (let f = \<lfloor>x\<rfloor>; d = x - of_int f in
     if d < 1 / 2 then f
     else if d > 1 / 2 then f + 1
     else if even f then f else f + 1)"

lemma rhe_cases: "rhe x = \<lfloor>x\<rfloor> \<or> rhe x = \<lfloor>x\<rfloor> + 1"
  by (auto simp: rhe_def Let_def)

lemma rhe_of_int [simp]: "rhe (of_int k) = k"
  by (simp add: rhe_def)

lemma rhe_zero [simp]: "rhe 0 = 0"
  using rhe_of_int [of 0] by simp

lemma rhe_mono: "x \<le> y \<Longrightarrow> rhe x \<le> rhe y"
proof -
  assume xy: "x \<le> y"
  then have fl: "\<lfloor>x\<rfloor> \<le> \<lfloor>y\<rfloor>" by (rule floor_mono)
  show ?thesis
  proof (cases "\<lfloor>x\<rfloor> = \<lfloor>y\<rfloor>")
    case True
    with xy show ?thesis by (auto simp: rhe_def Let_def)
  next
    case False
    with fl have "\<lfloor>x\<rfloor> + 1 \<le> \<lfloor>y\<rfloor>" by simp
    with rhe_cases [of x] rhe_cases [of y] show ?thesis by auto
  qed
qed

lemma rhe_error: "\<bar>x - of_int (rhe x)\<bar> \<le> 1 / 2"
proof -
  define f where "f = \<lfloor>x\<rfloor>"
  have "of_int f \<le> x" "x < of_int f + 1" unfolding f_def by linarith+
  then show ?thesis
    unfolding rhe_def Let_def f_def [symmetric] by (auto simp: abs_if not_less)
qed

lemma floor_minus_nonint: "x \<noteq> of_int \<lfloor>x\<rfloor> \<Longrightarrow> \<lfloor>- x\<rfloor> = - \<lfloor>x\<rfloor> - 1" for x :: rat
  by linarith

lemma rhe_minus: "rhe (- x) = - rhe x"
proof (cases "x = of_int \<lfloor>x\<rfloor>")
  case True
  then show ?thesis by (metis of_int_minus rhe_of_int)
next
  case False
  then show ?thesis
    by (simp add: rhe_def floor_minus_nonint Let_def)
qed

section \<open>The exponent of the leading digit\<close>

definition lead_expo :: "nat \<Rightarrow> rat \<Rightarrow> int" where
  "lead_expo b x =
     (if 1 \<le> x then int (floorlog b (nat \<lfloor>x\<rfloor>)) - 1
      else - int (floorlog b (nat (\<lceil>1 / x\<rceil> - 1))))"

lemma floorlog_pos_bounds:
  assumes "0 < n" "1 < b"
  shows "\<exists>k. floorlog b n = Suc k \<and> b ^ k \<le> n \<and> n < b ^ Suc k"
proof -
  from assms have "floorlog b n \<noteq> 0" by (simp add: floorlog_eq_zero_iff)
  then obtain k where k: "floorlog b n = Suc k" by (cases "floorlog b n") auto
  from floorlog_bounds [OF assms(1,2)] k show ?thesis by auto
qed

lemma lead_expo_bounds:
  fixes x :: rat
  assumes x: "0 < x" and b: "1 < b"
  shows "of_nat b powi lead_expo b x \<le> x \<and> x < of_nat b powi (lead_expo b x + 1)"
proof (cases "1 \<le> x")
  case True
  then have "0 < nat \<lfloor>x\<rfloor>" by simp
  from floorlog_pos_bounds [OF this b] obtain k
    where k: "floorlog b (nat \<lfloor>x\<rfloor>) = Suc k" "b ^ k \<le> nat \<lfloor>x\<rfloor>" "nat \<lfloor>x\<rfloor> < b ^ Suc k"
    by blast
  have e: "lead_expo b x = int k" using True k(1) by (simp add: lead_expo_def)
  have fx: "of_nat (nat \<lfloor>x\<rfloor>) = (of_int \<lfloor>x\<rfloor> :: rat)" using True by simp
  have "(of_nat (b ^ k) :: rat) \<le> of_nat (nat \<lfloor>x\<rfloor>)" using k(2) by (simp only: of_nat_le_iff)
  then have lo: "(of_nat b :: rat) ^ k \<le> x" unfolding fx by simp linarith
  have "nat \<lfloor>x\<rfloor> + 1 \<le> b ^ Suc k" using k(3) by simp
  then have "(of_nat (nat \<lfloor>x\<rfloor> + 1) :: rat) \<le> of_nat (b ^ Suc k)" by (simp only: of_nat_le_iff)
  then have "(of_int \<lfloor>x\<rfloor> :: rat) + 1 \<le> of_nat b ^ Suc k" using fx by simp
  then have hi: "x < (of_nat b :: rat) ^ Suc k" by linarith
  have e1: "lead_expo b x + 1 = int (Suc k)" using e by simp
  show ?thesis unfolding e1 unfolding e using lo hi by (simp only: power_int_of_nat)
next
  case False
  let ?m = "\<lceil>1 / x\<rceil>"
  from False x have "1 < 1 / x" by simp
  then have m2: "2 \<le> ?m" by linarith
  then have "0 < nat (?m - 1)" by simp
  from floorlog_pos_bounds [OF this b] obtain k
    where k: "floorlog b (nat (?m - 1)) = Suc k" "b ^ k \<le> nat (?m - 1)" "nat (?m - 1) < b ^ Suc k"
    by blast
  have e: "lead_expo b x = - int (Suc k)" using False k(1) by (simp add: lead_expo_def)
  have "0 \<le> ?m - 1" using m2 by linarith
  then have "(of_nat (nat (?m - 1)) :: rat) = of_int (?m - 1)" by (rule of_nat_nat)
  then have fm: "of_nat (nat (?m - 1)) = (of_int ?m - 1 :: rat)" by simp
  have "(of_nat (b ^ k) :: rat) \<le> of_nat (nat (?m - 1))" using k(2) by (simp only: of_nat_le_iff)
  then have "(of_nat b :: rat) ^ k \<le> of_int ?m - 1" unfolding fm by simp
  then have lo: "(of_nat b :: rat) ^ k < 1 / x" by linarith
  have "nat (?m - 1) + 1 \<le> b ^ Suc k" using k(3) by simp
  then have "(of_nat (nat (?m - 1) + 1) :: rat) \<le> of_nat (b ^ Suc k)" by (simp only: of_nat_le_iff)
  then have "(of_int ?m :: rat) \<le> of_nat b ^ Suc k" using fm by simp
  then have hi: "1 / x \<le> (of_nat b :: rat) ^ Suc k" by linarith
  have bpos: "0 < (of_nat b :: rat)" using b by simp
  have "inverse ((of_nat b :: rat) ^ Suc k) \<le> x"
    using hi x bpos by (simp add: field_simps del: power_Suc)
  moreover have "x < inverse ((of_nat b :: rat) ^ k)"
    using lo x bpos by (simp add: field_simps)
  moreover have e1: "lead_expo b x + 1 = - int k" using e by simp
  ultimately show ?thesis unfolding e1 unfolding e
    by (simp only: power_int_minus power_int_of_nat)
qed

lemma powi_le_cancel:
  fixes b :: rat
  assumes "1 < b" and "b powi m < b powi n"
  shows "m < n"
  using assms by (meson leD linorder_not_less power_int_increasing less_imp_le)

lemma lead_expo_mono:
  assumes "0 < x" "x \<le> y" "1 < b"
  shows "lead_expo b x \<le> lead_expo b y"
proof -
  have y: "0 < y" using assms by simp
  have "(of_nat b :: rat) powi lead_expo b x \<le> x"
    using lead_expo_bounds [OF assms(1,3)] by simp
  also have "\<dots> \<le> y" by (rule assms(2))
  also have "\<dots> < of_nat b powi (lead_expo b y + 1)"
    using lead_expo_bounds [OF y assms(3)] by simp
  finally show ?thesis
    using powi_le_cancel [of "of_nat b" "lead_expo b x" "lead_expo b y + 1"] assms(3) by simp
qed

section \<open>Rounding to significant digits\<close>

definition sig_round :: "nat \<Rightarrow> nat \<Rightarrow> rat \<Rightarrow> rat" where
  "sig_round b p x =
     (if x = 0 then 0
      else let u = of_nat b powi (lead_expo b \<bar>x\<bar> - (int p - 1))
           in of_int (rhe (x / u)) * u)"

lemma sig_round_zero [simp]: "sig_round b p 0 = 0"
  by (simp add: sig_round_def)

lemma sig_round_minus: "sig_round b p (- x) = - sig_round b p x"
  by (simp add: sig_round_def Let_def rhe_minus)

lemma sig_round_bounds:
  assumes x: "0 < x" and b: "1 < b" and p: "0 < p"
  shows "of_nat b powi lead_expo b x \<le> sig_round b p x
    \<and> sig_round b p x \<le> of_nat b powi (lead_expo b x + 1)"
proof -
  define e where "e = lead_expo b x"
  define u where "u = (of_nat b :: rat) powi (e - (int p - 1))"
  define B where "B = (of_nat b :: rat) ^ (p - 1)"
  have bpos: "0 < (of_nat b :: rat)" and bne: "(of_nat b :: rat) \<noteq> 0" using b by simp_all
  have upos: "0 < u" unfolding u_def using bpos by (rule zero_less_power_int)
  have e_split: "of_nat b powi e = B * u"
  proof -
    have "e = int (p - 1) + (e - (int p - 1))" using p by simp
    then have "of_nat b powi e = (of_nat b :: rat) powi (int (p - 1) + (e - (int p - 1)))" by simp
    also have "\<dots> = B * u" unfolding B_def u_def using bne
      by (simp add: power_int_add power_int_of_nat)
    finally show ?thesis .
  qed
  have e1_split: "of_nat b powi (e + 1) = (of_nat b * B) * u"
    using bne e_split by (simp add: power_int_add)
  have bd: "of_nat b powi e \<le> x" "x < of_nat b powi (e + 1)"
    using lead_expo_bounds [OF x b] by (simp_all add: e_def)
  have "B \<le> x / u" using bd(1) upos e_split by (simp add: field_simps)
  moreover have "x / u \<le> of_nat b * B" using bd(2) upos e1_split by (simp add: field_simps)
  moreover have "B = of_int (int (b ^ (p - 1)))" unfolding B_def by simp
  moreover have "of_nat b * B = of_int (int (b * b ^ (p - 1)))" unfolding B_def by simp
  ultimately have "int (b ^ (p - 1)) \<le> rhe (x / u)" "rhe (x / u) \<le> int (b * b ^ (p - 1))"
    using rhe_mono [of "of_int (int (b ^ (p - 1)))" "x / u"]
      rhe_mono [of "x / u" "of_int (int (b * b ^ (p - 1)))"]
    by (simp_all only: rhe_of_int) 
  then have "of_int (int (b ^ (p - 1))) \<le> (of_int (rhe (x / u)) :: rat)"
    and "(of_int (rhe (x / u)) :: rat) \<le> of_int (int (b * b ^ (p - 1)))"
    by (simp_all only: of_int_le_iff)
  then have "B \<le> of_int (rhe (x / u))" "of_int (rhe (x / u)) \<le> of_nat b * B"
    unfolding B_def by simp_all
  then have "B * u \<le> of_int (rhe (x / u)) * u" "of_int (rhe (x / u)) * u \<le> (of_nat b * B) * u"
    using upos by (simp_all add: mult_right_mono)
  moreover have "sig_round b p x = of_int (rhe (x / u)) * u"
    using x by (simp add: sig_round_def u_def e_def Let_def)
  ultimately show ?thesis using e_split e1_split by (simp add: e_def)
qed

lemma sig_round_pos:
  assumes "0 < x" "1 < b" "0 < p"
  shows "0 < sig_round b p x"
proof -
  have "0 < (of_nat b :: rat) powi lead_expo b x" using assms(2) by simp
  also have "\<dots> \<le> sig_round b p x" using sig_round_bounds [OF assms] by simp
  finally show ?thesis .
qed

lemma sig_round_mono_pos:
  assumes x: "0 < x" and xy: "x \<le> y" and b: "1 < b" and p: "0 < p"
  shows "sig_round b p x \<le> sig_round b p y"
proof (cases "lead_expo b x = lead_expo b y")
  case True
  let ?u = "(of_nat b :: rat) powi (lead_expo b x - (int p - 1))"
  have upos: "0 < ?u" using b by simp
  have "x / ?u \<le> y / ?u" using xy upos by (simp add: divide_right_mono)
  then have "rhe (x / ?u) \<le> rhe (y / ?u)" by (rule rhe_mono)
  with x xy upos True show ?thesis by (simp add: sig_round_def Let_def mult_right_mono)
next
  case False
  have y: "0 < y" using x xy by simp
  have "lead_expo b x \<le> lead_expo b y" using x xy b by (rule lead_expo_mono)
  with False have le: "lead_expo b x + 1 \<le> lead_expo b y" by simp
  have "sig_round b p x \<le> of_nat b powi (lead_expo b x + 1)"
    using sig_round_bounds [OF x b p] by simp
  also have "\<dots> \<le> of_nat b powi lead_expo b y"
    using le b by (intro power_int_increasing) simp_all
  also have "\<dots> \<le> sig_round b p y"
    using sig_round_bounds [OF y b p] by simp
  finally show ?thesis .
qed

lemma sig_round_mono:
  assumes xy: "x \<le> y" and b: "1 < b" and p: "0 < p"
  shows "sig_round b p x \<le> sig_round b p y"
proof -
  consider "0 < x" | "x \<le> 0" "0 \<le> y" | "y < 0" by linarith
  then show ?thesis
  proof cases
    case 1
    then show ?thesis using sig_round_mono_pos xy b p by blast
  next
    case 2
    have "sig_round b p x \<le> 0"
      using 2 sig_round_pos [of "- x" b p] b p sig_round_minus [of b p x] by (cases "x = 0") auto
    moreover have "0 \<le> sig_round b p y"
      using 2 sig_round_pos [of y b p] b p by (cases "y = 0") auto
    ultimately show ?thesis by simp
  next
    case 3
    then have "sig_round b p (- y) \<le> sig_round b p (- x)"
      using xy b p by (intro sig_round_mono_pos) auto
    then show ?thesis by (simp add: sig_round_minus)
  qed
qed


lemma sig_round_of_int_powi:
  assumes b: "1 < b" and p: "0 < p" and k: "0 < k" "k < int b ^ p"
  shows "sig_round b p (of_int k * of_nat b powi j) = of_int k * of_nat b powi j"
proof -
  let ?x = "(of_int k :: rat) * of_nat b powi j"
  define e where "e = lead_expo b ?x"
  define n where "n = nat (j - (e - (int p - 1)))"
  have bne: "(of_nat b :: rat) \<noteq> 0" and bpos: "0 < (of_nat b :: rat)" using b by simp_all
  have x: "0 < ?x" using k bpos by simp
  have kr: "(of_int k :: rat) < of_nat b ^ p"
    using k(2) by (metis of_int_less_iff of_int_of_nat_eq of_int_power)
  have "of_nat b powi e \<le> ?x" using lead_expo_bounds [OF x b] by (simp add: e_def)
  also have "\<dots> < of_nat b ^ p * of_nat b powi j"
    using kr bpos by (simp add: mult_strict_right_mono)
  also have "\<dots> = of_nat b powi (int p + j)"
    using bne by (simp add: power_int_add power_int_of_nat)
  finally have "e < int p + j" using b by (intro powi_le_cancel [of "of_nat b"]) simp_all
  then have j: "j = (e - (int p - 1)) + int n" by (simp add: n_def)
  let ?u = "(of_nat b :: rat) powi (e - (int p - 1))"
  have u: "?u \<noteq> 0" using bne by simp
  have "(of_nat b :: rat) powi j = ?u * of_nat b ^ n"
    by (subst j) (simp only: power_int_add [OF disjI1, OF bne] power_int_of_nat)
  then have xu: "?x = (of_int k * of_nat b ^ n) * ?u" by simp
  have "?x / ?u = of_int k * of_nat b ^ n"
    unfolding xu using u by (rule nonzero_mult_div_cancel_right)
  also have "\<dots> = of_int (k * int b ^ n)" by simp
  finally have "of_int (rhe (?x / ?u)) * ?u = ?x" using xu by (simp only: rhe_of_int) simp
  moreover have "\<bar>?x\<bar> = ?x" using x by simp
  ultimately show ?thesis using x unfolding sig_round_def e_def Let_def by simp
qed

lemma sig_round_idem:
  assumes b: "1 < b" and p: "0 < p"
  shows "sig_round b p (sig_round b p x) = sig_round b p x"
proof -
  have pos: "sig_round b p (sig_round b p y) = sig_round b p y" if y: "0 < y" for y
  proof -
    define e where "e = lead_expo b y"
    define u where "u = (of_nat b :: rat) powi (e - (int p - 1))"
    define k where "k = rhe (y / u)"
    have bne: "(of_nat b :: rat) \<noteq> 0" using b by simp
    have upos: "0 < u" unfolding u_def using b by simp
    have eq: "sig_round b p y = of_int k * u"
      using y by (simp add: sig_round_def k_def u_def e_def Let_def)
    have kpos: "0 < k"
      using sig_round_pos [OF y b p] eq upos by (simp add: zero_less_mult_iff)
    have top: "of_nat b powi (e + 1) = of_nat b ^ p * u"
    proof -
      have "e + 1 = int p + (e - (int p - 1))" by simp
      then show ?thesis unfolding u_def using bne by (metis power_int_add power_int_of_nat)
    qed
    have "of_int k * u \<le> of_nat b ^ p * u"
      using sig_round_bounds [OF y b p] eq top by (simp add: e_def)
    then have "(of_int k :: rat) \<le> of_nat b ^ p" using upos by simp
    then have kle: "k \<le> int b ^ p"
      by (metis of_int_le_iff of_int_of_nat_eq of_int_power)
    show ?thesis
    proof (cases "k = int b ^ p")
      case True
      then have "of_int k * u = of_int 1 * of_nat b powi (e + 1)" using top by simp
      moreover have "1 < int b ^ p" using b p by (simp add: one_less_power)
      ultimately show ?thesis
        using sig_round_of_int_powi [OF b p, of 1 "e + 1"] eq by simp
    next
      case False
      with kle have "k < int b ^ p" by simp
      from sig_round_of_int_powi [OF b p kpos this] show ?thesis unfolding eq u_def .
    qed
  qed
  consider "0 < x" | "x = 0" | "0 < - x" by linarith
  then show ?thesis
  proof cases
    case 3
    from pos [OF 3] show ?thesis by (simp add: sig_round_minus)
  qed (simp_all add: pos)
qed

section \<open>The interface the risk components use\<close>

locale rounding =
  fixes rnd :: "rat \<Rightarrow> rat"
  assumes rnd_mono: "x \<le> y \<Longrightarrow> rnd x \<le> rnd y"
    and rnd_minus: "rnd (- x) = - rnd x"
    and rnd_idem: "rnd (rnd x) = rnd x"
    and rnd_pos: "0 < x \<Longrightarrow> 0 < rnd x"
begin

lemma rnd_zero [simp]: "rnd 0 = 0"
  using rnd_minus [of 0] by simp

lemma rnd_pos_iff [simp]: "0 < rnd x \<longleftrightarrow> 0 < x"
  using rnd_pos rnd_mono [of x 0] by (cases "0 < x") auto

lemma rnd_nonpos_iff [simp]: "rnd x \<le> 0 \<longleftrightarrow> x \<le> 0"
  using rnd_pos_iff [of x] by linarith

lemma rnd_neg_iff [simp]: "rnd x < 0 \<longleftrightarrow> x < 0"
  using rnd_pos_iff [of "- x"] by (simp add: rnd_minus)

lemma rnd_nonneg_iff [simp]: "0 \<le> rnd x \<longleftrightarrow> 0 \<le> x"
  using rnd_neg_iff [of x] by linarith

lemma rnd_strict: "rnd x < rnd y \<Longrightarrow> x < y"
  using rnd_mono [of y x] by (meson leD not_le)

text \<open>A representable bound survives rounding.\<close>

lemma rnd_lower: "rnd c = c \<Longrightarrow> c \<le> x \<Longrightarrow> c \<le> rnd x"
  using rnd_mono [of c x] by simp

lemma rnd_upper: "rnd c = c \<Longrightarrow> x \<le> c \<Longrightarrow> rnd x \<le> c"
  using rnd_mono [of x c] by simp

lemma rnd_add_ge: "rnd c = c \<Longrightarrow> 0 \<le> y \<Longrightarrow> c \<le> rnd (c + y)"
  by (rule rnd_lower) simp_all

lemma rnd_sub_le: "rnd c = c \<Longrightarrow> 0 \<le> y \<Longrightarrow> rnd (c - y) \<le> c"
  by (rule rnd_upper) simp_all

lemma rnd_mid:
  assumes "rnd a = a" "rnd b = b" "a \<le> b"
    and "rnd (2 * a) = 2 * a" "rnd (2 * b) = 2 * b"
  shows "a \<le> rnd (rnd (a + b) / 2) \<and> rnd (rnd (a + b) / 2) \<le> b"
proof -
  have "2 * a \<le> rnd (a + b)" using assms by (intro rnd_lower) simp_all
  moreover have "rnd (a + b) \<le> 2 * b" using assms by (intro rnd_upper) simp_all
  ultimately show ?thesis using assms by (intro conjI rnd_lower rnd_upper) simp_all
qed

end

section \<open>The default decimal context\<close>

definition dround :: "rat \<Rightarrow> rat" where
  "dround = sig_round 10 28"

interpretation dec: rounding dround
proof
  show "dround x \<le> dround y" if "x \<le> y" for x y
    unfolding dround_def using that by (rule sig_round_mono) simp_all
  show "dround (- x) = - dround x" for x
    unfolding dround_def by (rule sig_round_minus)
  show "dround (dround x) = dround x" for x
    unfolding dround_def by (rule sig_round_idem) simp_all
  show "0 < dround x" if "0 < x" for x
    unfolding dround_def using that by (rule sig_round_pos) simp_all
qed

text \<open>
  The context operations on finite decimals. Division by zero raises in Python; every
  modelled division has a divisor its caller has checked to be positive.
\<close>

definition dadd :: "rat \<Rightarrow> rat \<Rightarrow> rat" where "dadd x y = dround (x + y)"
definition dsub :: "rat \<Rightarrow> rat \<Rightarrow> rat" where "dsub x y = dround (x - y)"
definition dmul :: "rat \<Rightarrow> rat \<Rightarrow> rat" where "dmul x y = dround (x * y)"
definition ddiv :: "rat \<Rightarrow> rat \<Rightarrow> rat" where "ddiv x y = dround (x / y)"

text \<open>\<open>Decimal.quantize(Decimal("0.0001"))\<close>, which raises when the result needs more than 28 digits.\<close>

definition quantize4 :: "rat \<Rightarrow> rat result" where
  "quantize4 x =
     (let k = rhe (x * 10000)
      in if \<bar>k\<bar> < 10 ^ 28 then Inr (of_int k / 10000) else Inl InvalidOperation)"

lemma dsub_pos_iff [simp]: "0 < dsub x y \<longleftrightarrow> y < x"
  by (simp add: dsub_def)

lemma dsub_nonpos_iff [simp]: "dsub x y \<le> 0 \<longleftrightarrow> x \<le> y"
  by (simp add: dsub_def)

lemma dsub_nonneg_iff [simp]: "0 \<le> dsub x y \<longleftrightarrow> y \<le> x"
  by (simp add: dsub_def)

lemma dadd_nonneg: "0 \<le> x \<Longrightarrow> 0 \<le> y \<Longrightarrow> 0 \<le> dadd x y"
  by (simp add: dadd_def)

lemma dmul_nonneg: "0 \<le> x \<Longrightarrow> 0 \<le> y \<Longrightarrow> 0 \<le> dmul x y"
  by (simp add: dmul_def)

lemma dmul_pos: "0 < x \<Longrightarrow> 0 < y \<Longrightarrow> 0 < dmul x y"
  by (simp add: dmul_def)

lemma ddiv_pos: "0 < x \<Longrightarrow> 0 < y \<Longrightarrow> 0 < ddiv x y"
  by (simp add: ddiv_def)

lemma ddiv_nonneg: "0 \<le> x \<Longrightarrow> 0 \<le> y \<Longrightarrow> 0 \<le> ddiv x y"
  by (simp add: ddiv_def)

lemma dadd_dround [simp]: "dround (dadd x y) = dadd x y"
  by (simp add: dadd_def dec.rnd_idem)

lemma dsub_dround [simp]: "dround (dsub x y) = dsub x y"
  by (simp add: dsub_def dec.rnd_idem)

lemma dround_decimal:
  assumes "\<bar>k\<bar> < 10 ^ 28"
  shows "dround (of_int k * 10 powi j) = of_int k * 10 powi j"
proof -
  have pos: "dround (of_int m * 10 powi j) = of_int m * 10 powi j" if "0 < m" "m < 10 ^ 28" for m
    using sig_round_of_int_powi [of 10 28 m j] that by (simp add: dround_def)
  consider "0 < k" | "k = 0" | "0 < - k" by linarith
  then show ?thesis
  proof cases
    case 1
    from assms have "k < 10 ^ 28" by (simp only: abs_less_iff)
    with 1 show ?thesis by (rule pos)
  next
    case 3
    from assms have "- k < 10 ^ 28" by (simp only: abs_less_iff)
    with 3 have eq: "dround (of_int (- k) * 10 powi j) = of_int (- k) * 10 powi j" by (rule pos)
    have "of_int k * 10 powi j = - (of_int (- k) * 10 powi j :: rat)" by simp
    then have "dround (of_int k * 10 powi j) = - dround (of_int (- k) * 10 powi j)"
      by (simp only: dec.rnd_minus)
    also have "\<dots> = of_int k * 10 powi j" unfolding eq by simp
    finally show ?thesis .
  qed simp
qed

lemma dround_milli: "\<bar>k\<bar> < 10 ^ 28 \<Longrightarrow> dround (of_int k / 1000) = of_int k / 1000"
proof -
  assume "\<bar>k\<bar> < 10 ^ 28"
  moreover have "(10 :: rat) powi (- 3) = 1 / 1000" by (simp add: power_int_def eval_nat_numeral)
  ultimately show ?thesis using dround_decimal [of k "- 3"] by (simp only:) simp
qed

text \<open>
  Decimals with at most fifteen fractional digits are their own rounding: the rules that
  evaluate a calculation on concrete prices.
\<close>

lemma dround_numeral:
  assumes "(numeral n :: int) < 10000000000000000000000000000"
  shows "dround (numeral n) = numeral n"
  using dround_decimal [of "numeral n" 0] assms by simp

lemma dround_quotient_aux:
  fixes B n d :: int
  assumes B: "B = 10 ^ 15" and md: "B mod d = 0" and d: "0 < d" and n: "0 < n" "n * (B div d) < 10 ^ 28"
  shows "dround (of_int n / of_int d) = of_int n / of_int d"
proof -
  have "d * (B div d) = B" using md by (metis add.right_neutral mult_div_mod_eq)
  then have dB: "(of_int d * of_int (B div d) :: rat) = of_int B" by (metis of_int_mult)
  have Bp: "(10 :: rat) powi (- 15) = 1 / of_int B" unfolding B by (simp add: power_int_def power_one_over)
  have "0 < B" using B by simp
  then have "0 \<le> B div d" using d by (simp add: pos_imp_zdiv_nonneg_iff)
  with n have k: "\<bar>n * (B div d)\<bar> < 10 ^ 28" by (simp add: zero_le_mult_iff)
  have q: "of_int (B div d) \<noteq> (0 :: rat)" using dB \<open>0 < B\<close> by force
  have "of_int (n * (B div d)) * (10 :: rat) powi (- 15) = of_int n * (of_int (B div d) / (of_int d * of_int (B div d)))"
    unfolding Bp dB by simp
  also have "\<dots> = of_int n / of_int d"
    using q d by simp
  finally show ?thesis using dround_decimal [OF k, of "- 15"] by (simp only:)
qed

lemma dround_quotient:
  assumes "(1000000000000000 :: int) mod numeral d = 0"
    and "(numeral n :: int) * (1000000000000000 div numeral d) < 10000000000000000000000000000"
  shows "dround (numeral n / numeral d) = numeral n / numeral d"
  using dround_quotient_aux [of 1000000000000000 "numeral d" "numeral n"] assms by simp

lemma dround_unit_fraction:
  assumes "(1000000000000000 :: int) mod numeral d = 0"
    and "(1000000000000000 div numeral d :: int) < 10000000000000000000000000000"
  shows "dround (1 / numeral d) = 1 / numeral d"
  using dround_quotient_aux [of 1000000000000000 "numeral d" 1] assms by simp

lemma dround_one: "dround 1 = 1"
  using dround_decimal [of 1 0] by simp

lemmas dround_eval = dround_numeral dround_quotient dround_unit_fraction dround_one dec.rnd_minus

lemmas [eval_defs] = rhe_def quantize4_def dadd_def dsub_def dmul_def ddiv_def dround_eval

end
