(* ===== verification/Core_Types.thy ===== *)
theory Core_Types
  imports Decimal_Arith
begin

text \<open>
  The value objects of \<open>engine/core/types.py\<close> that the modelled components exchange:
  enumerations as datatypes, frozen dataclasses as records. A record field carries the
  Python name, with a short prefix where two classes use the same one. \<open>Decimal\<close> fields
  that the code checks with \<open>is_finite()\<close> or \<open>isinstance\<close> are \<open>pynum\<close>, the others \<open>rat\<close>.
\<close>

section \<open>Enumerations\<close>

datatype regime_type =
  BULL_TREND | BEAR_TREND | RANGE | HIGH_VOLATILITY | TRANSITION_REGIME | UNKNOWN_REGIME

datatype structure_type = HH | HL | LH | LL | CONSOLIDATION | UNKNOWN_STRUCTURE

datatype bos_type = BOS_BULLISH | BOS_BEARISH | BOS_NONE

datatype swing_type = SWING_HIGH | SWING_LOW

datatype user_decision = BUY | WAIT | AVOID | SELL

datatype signal_state =
    NO_TRADE | AVOID_STATE | WATCH | READY | BUY_WINDOW | FORCE_WAIT
  | WATCH_LONG | READY_LONG | WATCH_SHORT | READY_SHORT | SELL_WINDOW | CONFLICT

datatype signal_side = SIG_LONG | SIG_SHORT | SIG_NEUTRAL

datatype feed_criticality = CRITICAL | OPTIONAL | INFORMATIONAL

datatype feed_health = HEALTHY | UNHEALTHY | STALE | TRANSITION | MISSING | UNKNOWN_HEALTH

datatype volume_evidence_type = REAL_VOLUME | TICK_VOLUME | PROXY_VOLUME | VOLUME_UNAVAILABLE

datatype entry_execution_policy = NEXT_BAR_OPEN | MARKET_AFTER_SIGNAL | LIMIT_ZONE

datatype intrabar_policy =
  LOWER_TIMEFRAME_REPLAY | CONSERVATIVE_SL_FIRST | WORST_CASE | SKIP_AMBIGUOUS

datatype barrier_hit_type = TP_FIRST | SL_FIRST | UNRESOLVED | SKIPPED

datatype risk_side = LONG | SHORT

datatype risk_candidate_status =
  VALID_LONG_RISK_CANDIDATE | VALID_SHORT_RISK_CANDIDATE | INVALID_RISK_CANDIDATE

datatype phase5_calibration_status =
  PENDING_PHASE6 | CANDIDATE_NOT_FROZEN | REVALIDATED_RESEARCH

section \<open>The \<open>value\<close> of the enumerations that are serialised\<close>

fun user_decision_value :: "user_decision \<Rightarrow> string" where
  "user_decision_value BUY = ''BUY''"
| "user_decision_value WAIT = ''WAIT''"
| "user_decision_value AVOID = ''AVOID''"
| "user_decision_value SELL = ''SELL''"

fun signal_state_value :: "signal_state \<Rightarrow> string" where
  "signal_state_value NO_TRADE = ''NO_TRADE''"
| "signal_state_value AVOID_STATE = ''AVOID''"
| "signal_state_value WATCH = ''WATCH''"
| "signal_state_value READY = ''READY''"
| "signal_state_value BUY_WINDOW = ''BUY_WINDOW''"
| "signal_state_value FORCE_WAIT = ''FORCE_WAIT''"
| "signal_state_value WATCH_LONG = ''WATCH_LONG''"
| "signal_state_value READY_LONG = ''READY_LONG''"
| "signal_state_value WATCH_SHORT = ''WATCH_SHORT''"
| "signal_state_value READY_SHORT = ''READY_SHORT''"
| "signal_state_value SELL_WINDOW = ''SELL_WINDOW''"
| "signal_state_value CONFLICT = ''CONFLICT''"

fun volume_evidence_value :: "volume_evidence_type \<Rightarrow> string" where
  "volume_evidence_value REAL_VOLUME = ''REAL_VOLUME''"
| "volume_evidence_value TICK_VOLUME = ''TICK_VOLUME''"
| "volume_evidence_value PROXY_VOLUME = ''PROXY_VOLUME''"
| "volume_evidence_value VOLUME_UNAVAILABLE = ''UNAVAILABLE''"

fun execution_policy_value :: "entry_execution_policy \<Rightarrow> string" where
  "execution_policy_value NEXT_BAR_OPEN = ''NEXT_BAR_OPEN''"
| "execution_policy_value MARKET_AFTER_SIGNAL = ''MARKET_AFTER_SIGNAL''"
| "execution_policy_value LIMIT_ZONE = ''LIMIT_ZONE''"

fun risk_side_value :: "risk_side \<Rightarrow> string" where
  "risk_side_value LONG = ''LONG''"
| "risk_side_value SHORT = ''SHORT''"

fun phase5_calibration_value :: "phase5_calibration_status \<Rightarrow> string" where
  "phase5_calibration_value PENDING_PHASE6 = ''PENDING_PHASE6''"
| "phase5_calibration_value CANDIDATE_NOT_FROZEN = ''CANDIDATE_NOT_FROZEN''"
| "phase5_calibration_value REVALIDATED_RESEARCH = ''REVALIDATED_RESEARCH''"

fun feed_criticality_value :: "feed_criticality \<Rightarrow> string" where
  "feed_criticality_value CRITICAL = ''CRITICAL''"
| "feed_criticality_value OPTIONAL = ''OPTIONAL''"
| "feed_criticality_value INFORMATIONAL = ''INFORMATIONAL''"

lemma feed_criticality_value_inj [simp]:
  "feed_criticality_value a = feed_criticality_value b \<longleftrightarrow> a = b"
  by (cases a; cases b) simp_all

lemma user_decision_value_inj [simp]:
  "user_decision_value a = user_decision_value b \<longleftrightarrow> a = b"
  by (cases a; cases b) simp_all

lemma signal_state_value_inj [simp]:
  "signal_state_value a = signal_state_value b \<longleftrightarrow> a = b"
  by (cases a; cases b) simp_all

lemma volume_evidence_value_inj [simp]:
  "volume_evidence_value a = volume_evidence_value b \<longleftrightarrow> a = b"
  by (cases a; cases b) simp_all

lemma execution_policy_value_inj [simp]:
  "execution_policy_value a = execution_policy_value b \<longleftrightarrow> a = b"
  by (cases a; cases b) simp_all

lemma risk_side_value_inj [simp]:
  "risk_side_value a = risk_side_value b \<longleftrightarrow> a = b"
  by (cases a; cases b) simp_all

lemma phase5_calibration_value_inj [simp]:
  "phase5_calibration_value a = phase5_calibration_value b \<longleftrightarrow> a = b"
  by (cases a; cases b) simp_all

datatype session_type = ASIA | LONDON_PREOPEN | LONDON_SESSION | LONDON_NY_OVERLAP | NEW_YORK | US_LATE

section \<open>Market data\<close>

record candle =
  timestamp_open :: datetime
  timestamp_close :: datetime
  c_open :: pynum
  c_high :: pynum
  c_low :: pynum
  c_close :: pynum
  volume :: pynum
  is_closed :: bool
  source_id :: string
  quote_rate :: "pynum option"
  close_usd :: "pynum option"
  volume_evidence :: volume_evidence_type

record quote =
  q_timestamp :: datetime
  bid :: pynum
  ask :: pynum
  q_source :: string

record structure_zone =
  zone_type :: string
  price_low :: rat
  price_high :: rat
  created_at :: datetime
  touches :: int
  is_active :: bool

record swing_point =
  sw_index :: nat
  sw_timestamp :: datetime
  detected_at :: datetime
  sw_price :: rat
  swing_kind :: swing_type
  is_confirmed :: bool

record structure_result =
  st_timestamp :: datetime
  st_type :: structure_type
  st_bos :: bos_type
  last_swing_high :: "swing_point option"
  last_swing_low :: "swing_point option"
  swings :: "swing_point list"
  zones :: "structure_zone list"

section \<open>Feed health and gate outcomes\<close>

record runtime_feed_health =
  primary_15m :: feed_health
  primary_1h :: feed_health
  primary_4h :: feed_health
  primary_1d :: feed_health
  secondary_provider :: feed_health
  secondary_provider_disagreement :: bool
  macro_blackout_feed :: feed_health
  is_macro_blackout :: bool
  volume_feed :: feed_health
  phase3a_feed :: feed_health
  phase3b_feed :: feed_health
  is_unclosed_candle :: bool

definition default_feed_health :: runtime_feed_health where
  "default_feed_health = \<lparr>
     primary_15m = UNKNOWN_HEALTH, primary_1h = UNKNOWN_HEALTH, primary_4h = UNKNOWN_HEALTH,
     primary_1d = UNKNOWN_HEALTH, secondary_provider = UNKNOWN_HEALTH,
     secondary_provider_disagreement = False, macro_blackout_feed = UNKNOWN_HEALTH,
     is_macro_blackout = False, volume_feed = UNKNOWN_HEALTH, phase3a_feed = UNKNOWN_HEALTH,
     phase3b_feed = UNKNOWN_HEALTH, is_unclosed_candle = False\<rparr>"

text \<open>
  The direction and the timing score of one side with its components. Scores are finite
  floats; the descriptive reason of a component is not represented.
\<close>

record component_score =
  co_name :: string
  co_score :: rat
  co_max :: rat
  co_available :: bool

record side_score =
  sc_side :: signal_side
  total_score :: "rat option"
  sc_max :: rat
  sc_components :: "component_score list"
  sc_valid :: bool
  sc_ready :: bool

text \<open>The reasons of a blocked gate, one constructor per message of the code.\<close>

datatype gate_reason =
    UnclosedCandle
  | MacroBlackoutActive
  | CriticalFeed string feed_health
  | StaleFeed
  | ProviderTransition
  | MissingXau
  | MissingNormalization

record hard_gate_evaluation =
  is_blocked :: bool
  override_state :: "signal_state option"
  block_reasons :: "gate_reason list"
  hg_health :: runtime_feed_health

text \<open>Resolution reasons: the code's constant strings, or the joined hard gate reasons.\<close>

datatype resolution = Joined "gate_reason list" | Resolved string

record candidate_gate_result =
  cg_state :: signal_state
  cg_decision :: user_decision
  cg_reason :: resolution
  cg_valid :: bool

record signal_snapshot =
  sg_timestamp :: datetime
  sg_instrument :: string
  sg_timeframe :: string
  sg_state :: signal_state
  sg_decision :: user_decision
  candidate_state :: signal_state
  candidate_decision :: user_decision
  sg_long_direction :: side_score
  sg_short_direction :: side_score
  sg_long_timing :: side_score
  sg_short_timing :: side_score
  sg_hard_gate :: hard_gate_evaluation
  sg_candidate_reason :: resolution
  analysis_fingerprint :: string
  phase4_policy_fingerprint :: string
  sg_code_revision :: string

section \<open>Risk plans, fills and barrier resolutions\<close>

text \<open>The reasons of a risk plan: one constructor per message, with the numbers it prints.\<close>

datatype plan_reason =
    SourceNotEligible risk_side signal_state user_decision
  | PolicyNotConfigured risk_side
  | MissingZone risk_side
  | AtrNotPositive
  | IncompletePolicy risk_side
  | StopInsideZone risk_side
  | StopNotBeyondEntry risk_side
  | StopTooWide rat rat
  | InvalidRiskDistance
  | MissingTarget risk_side
  | RewardTooSmall rat rat rat
  | InvalidStopArchitecture
  | InvalidRewardArchitecture
  | InvalidCandidate
  | AtrUnavailable
  | ValidPlan risk_side rat rat rat

record risk_plan =
  rp_side :: risk_side
  rp_source_fingerprint :: string
  rp_source_state :: signal_state
  rp_source_decision :: user_decision
  rp_generated_at :: datetime
  entry_min :: "rat option"
  entry_mid :: "rat option"
  entry_max :: "rat option"
  stop_structure :: "rat option"
  stop_atr :: "rat option"
  stop_final :: "rat option"
  stop_distance_atr :: "rat option"
  tp1 :: "rat option"
  tp2 :: "rat option"
  rr_tp1 :: "rat option"
  rr_tp2 :: "rat option"
  rp_valid :: bool
  rp_status :: risk_candidate_status
  simulation_eligible :: bool
  candidate_action :: user_decision
  publication_action :: user_decision
  rp_reasons :: "plan_reason list"
  entry_zone_fp :: "string option"
  tp1_zone_fp :: "string option"
  tp2_zone_fp :: "string option"
  rp_policy_fp :: string
  risk_plan_fp :: string
  rp_risk_version :: string
  rp_code_revision :: string

datatype evidence_type = QUOTE_EVIDENCE | CANDLE_EVIDENCE

datatype fill_reason =
    NoQuote | NoCandle
  | FilledMarket risk_side int rat rat
  | FilledNextBar risk_side int rat rat rat
  | LimitQuote risk_side int
  | LimitTouched risk_side int
  | MidBarActivation
  | LimitNotReached

record fill_result =
  fr_side :: risk_side
  fr_policy :: entry_execution_policy
  raw_price :: "rat option"
  fill_price :: "rat option"
  fill_ts :: "int option"
  latency :: rat
  observed_spread :: rat
  synthetic_spread :: rat
  adverse_slippage :: rat
  is_filled :: bool
  fr_reason :: fill_reason
  evidence_kind :: "evidence_type option"
  evidence_fp :: "string option"
  execution_fp :: string

datatype resolve_reason =
    ParentInvalid | FillPriceNotFinite
  | BarrierOrder risk_side rat rat rat
  | FillTimestampNaive | NoBarrierTouched
  | SingleTp risk_side | SingleSl risk_side
  | AmbiguousConservative | AmbiguousWorstCase rat | AmbiguousSkipped
  | FallbackHigherTf | Fallback15m
  | SubBarTp risk_side int | SubBarSl risk_side int | SubBarAmbiguous int

record intrabar_result =
  ir_side :: risk_side
  barrier_hit :: barrier_hit_type
  ir_exit_price :: "rat option"
  ir_exit_ts :: "int option"
  policy_applied :: intrabar_policy
  replay_count :: nat
  ir_reasons :: "resolve_reason list"

lemmas enum_congs = pynum.case_cong_weak risk_side.case_cong_weak barrier_hit_type.case_cong_weak
  intrabar_policy.case_cong_weak entry_execution_policy.case_cong_weak signal_state.case_cong_weak
  user_decision.case_cong_weak feed_health.case_cong_weak

lemmas eval_congs = strict_congs enum_congs

end
