(* ===== verification/Fingerprints.thy ===== *)
theory Fingerprints
  imports Core_Types
begin

text \<open>
  \<open>engine/risk/xauusd_fingerprints.py\<close>: the canonical payloads of zones, quotes, candles,
  policies, plans and fills. The digest of a payload (\<open>json.dumps\<close> with sorted keys, then
  SHA-256) is the parameter \<open>sha\<close>; the payloads themselves are modelled field by field,
  so what a fingerprint binds is a theorem. \<open>Decimal\<close> values are rendered by their numeric
  value; two spellings of one number (trailing zeros) are identified.
\<close>

section \<open>Payload values\<close>

datatype jval = JStr string | JNum pynum | JInt int | JTime int | JObj "(string \<times> jval) list"

type_synonym payload = "(string \<times> jval) list"
type_synonym digest = "payload \<Rightarrow> string"

definition enc_bool :: "bool \<Rightarrow> jval" where
  "enc_bool b = JStr (if b then ''TRUE'' else ''FALSE'')"

definition enc_opt :: "('a \<Rightarrow> jval) \<Rightarrow> 'a option \<Rightarrow> jval" where
  "enc_opt f v = (case v of None \<Rightarrow> JStr ''NONE'' | Some x \<Rightarrow> f x)"

definition enc_rat :: "rat option \<Rightarrow> jval" where
  "enc_rat = enc_opt (\<lambda>x. JNum (Fin x))"

lemma enc_bool_inj [simp]: "enc_bool a = enc_bool b \<longleftrightarrow> a = b"
  by (cases a; cases b) (simp_all add: enc_bool_def)

lemma enc_num_inj [simp]: "enc_opt JNum a = enc_opt JNum b \<longleftrightarrow> a = b"
  by (cases a; cases b) (simp_all add: enc_opt_def)

lemma enc_rat_inj [simp]: "enc_rat a = enc_rat b \<longleftrightarrow> a = b"
  by (cases a; cases b) (simp_all add: enc_rat_def enc_opt_def)

text \<open>\<open>_enc_flt\<close>: \<open>NONE\<close>, an error for a non-finite float, else its exact rendering.\<close>

definition enc_flt :: "pynum option \<Rightarrow> jval result" where
  "enc_flt v = (case v of
       None \<Rightarrow> Inr (JStr ''NONE'')
     | Some x \<Rightarrow> if finite_num x then Inr (JNum x) else Inl ValueError)"

lemma enc_flt_inj: "enc_flt a = Inr v \<Longrightarrow> enc_flt b = Inr v \<Longrightarrow> a = b"
  by (auto simp: enc_flt_def split: option.splits if_splits)

section \<open>Timestamps\<close>

text \<open>
  The canonical string is a fixed-width UTC rendering with microseconds, so it orders and
  compares as the instant it renders, which stands for it here.
\<close>

definition canonical_utc_timestamp :: "datetime \<Rightarrow> int result" where
  "canonical_utc_timestamp dt = (if is_aware dt then Inr (instant dt) else Inl ValueError)"

lemma canonical_aware [simp]: "canonical_utc_timestamp (Aware u) = Inr u"
  by (simp add: canonical_utc_timestamp_def)

lemma canonical_naive [simp]: "canonical_utc_timestamp (Naive w) = Inl ValueError"
  by (simp add: canonical_utc_timestamp_def)

lemma canonical_of_aware: "is_aware t \<Longrightarrow> canonical_utc_timestamp t = Inr (instant t)"
  by (simp add: canonical_utc_timestamp_def)

section \<open>Evidence fingerprints\<close>

definition zone_payload :: "int \<Rightarrow> structure_zone \<Rightarrow> payload" where
  "zone_payload ts z =
     [(''zone_type'', JStr (zone_type z)),
      (''price_low'', JNum (Fin (price_low z))),
      (''price_high'', JNum (Fin (price_high z))),
      (''created_at'', JTime ts),
      (''touches'', JInt (touches z)),
      (''is_active'', enc_bool (is_active z))]"

definition compute_zone_fingerprint :: "digest \<Rightarrow> structure_zone \<Rightarrow> string result" where
  "compute_zone_fingerprint sha z =
     rbind (canonical_utc_timestamp (created_at z)) (\<lambda>ts. Inr (sha (zone_payload ts z)))"

definition compute_quote_evidence_fingerprint :: "digest \<Rightarrow> quote \<Rightarrow> string result" where
  "compute_quote_evidence_fingerprint sha q =
     rbind (canonical_utc_timestamp (q_timestamp q)) (\<lambda>ts. Inr (sha
       [(''evidence_type'', JStr ''QUOTE''),
        (''timestamp'', JTime ts),
        (''bid'', JNum (bid q)),
        (''ask'', JNum (ask q)),
        (''source'', JStr (q_source q))]))"

definition compute_candle_evidence_fingerprint :: "digest \<Rightarrow> candle \<Rightarrow> string result" where
  "compute_candle_evidence_fingerprint sha c =
     rbind (canonical_utc_timestamp (timestamp_open c)) (\<lambda>t0.
     rbind (canonical_utc_timestamp (timestamp_close c)) (\<lambda>t1. Inr (sha
       [(''evidence_type'', JStr ''CANDLE''),
        (''timestamp_open'', JTime t0),
        (''timestamp_close'', JTime t1),
        (''open'', JNum (c_open c)),
        (''high'', JNum (c_high c)),
        (''low'', JNum (c_low c)),
        (''close'', JNum (c_close c)),
        (''volume'', JNum (volume c)),
        (''is_closed'', enc_bool (is_closed c)),
        (''source_id'', JStr (source_id c)),
        (''quote_rate'', enc_opt JNum (quote_rate c)),
        (''close_usd'', enc_opt JNum (close_usd c)),
        (''volume_evidence'', JStr (volume_evidence_value (volume_evidence c)))])))"

section \<open>Plan and execution fingerprints\<close>

definition compute_risk_plan_fingerprint ::
  "digest \<Rightarrow> risk_plan \<Rightarrow> pynum \<Rightarrow> string result" where
  "compute_risk_plan_fingerprint sha p atr_value =
     rbind (canonical_utc_timestamp (rp_generated_at p)) (\<lambda>ts. Inr (sha
       [(''source_phase4_fingerprint'', JStr (rp_source_fingerprint p)),
        (''source_candidate_state'', JStr (signal_state_value (rp_source_state p))),
        (''source_candidate_decision'', JStr (user_decision_value (rp_source_decision p))),
        (''side'', JStr (risk_side_value (rp_side p))),
        (''authoritative_timestamp'', JTime ts),
        (''entry_min'', enc_rat (entry_min p)),
        (''entry_mid'', enc_rat (entry_mid p)),
        (''entry_max'', enc_rat (entry_max p)),
        (''stop_structure'', enc_rat (stop_structure p)),
        (''stop_atr'', enc_rat (stop_atr p)),
        (''stop_final'', enc_rat (stop_final p)),
        (''stop_distance_atr'', enc_rat (stop_distance_atr p)),
        (''tp1'', enc_rat (tp1 p)),
        (''tp2'', enc_rat (tp2 p)),
        (''planned_rr_tp1'', enc_rat (rr_tp1 p)),
        (''planned_rr_tp2'', enc_rat (rr_tp2 p)),
        (''entry_zone_fingerprint'', enc_opt JStr (entry_zone_fp p)),
        (''tp1_zone_fingerprint'', enc_opt JStr (tp1_zone_fp p)),
        (''tp2_zone_fingerprint'', enc_opt JStr (tp2_zone_fp p)),
        (''atr_value'', JNum atr_value),
        (''phase5_policy_fingerprint'', JStr (rp_policy_fp p)),
        (''risk_version'', JStr (rp_risk_version p)),
        (''code_revision'', JStr (rp_code_revision p))]))"

definition evidence_type_value :: "evidence_type \<Rightarrow> string" where
  "evidence_type_value e = (case e of QUOTE_EVIDENCE \<Rightarrow> ''QUOTE'' | CANDLE_EVIDENCE \<Rightarrow> ''CANDLE'')"

definition compute_execution_fingerprint ::
  "digest \<Rightarrow> string \<Rightarrow> int \<Rightarrow> int \<Rightarrow> string \<Rightarrow> string \<Rightarrow> fill_result \<Rightarrow> string" where
  "compute_execution_fingerprint sha source_fp signal_ts earliest policy_fp code_revision r =
     sha
       [(''source_phase4_fingerprint'', JStr source_fp),
        (''side'', JStr (risk_side_value (fr_side r))),
        (''execution_policy'', JStr (execution_policy_value (fr_policy r))),
        (''signal_timestamp'', JTime signal_ts),
        (''earliest_exec_ts'', JTime earliest),
        (''is_filled'', enc_bool (is_filled r)),
        (''raw_executable_price'', enc_rat (raw_price r)),
        (''fill_price'', enc_rat (fill_price r)),
        (''fill_timestamp'', enc_opt JTime (fill_ts r)),
        (''observed_spread'', JNum (Fin (observed_spread r))),
        (''synthetic_spread'', JNum (Fin (synthetic_spread r))),
        (''adverse_slippage'', JNum (Fin (adverse_slippage r))),
        (''source_evidence_type'', enc_opt (\<lambda>e. JStr (evidence_type_value e)) (evidence_kind r)),
        (''source_evidence_fingerprint'', enc_opt JStr (evidence_fp r)),
        (''phase5_policy_fingerprint'', JStr policy_fp),
        (''code_revision'', JStr code_revision)]"

section \<open>What the fingerprints bind\<close>

lemma zone_payload_inj:
  "zone_payload t z = zone_payload t' z' \<Longrightarrow> t = t' \<and>
     zone_type z = zone_type z' \<and> price_low z = price_low z' \<and> price_high z = price_high z' \<and>
     touches z = touches z' \<and> is_active z = is_active z'"
  by (simp add: zone_payload_def)

lemma zone_fingerprint_aware [simp]:
  "is_aware (created_at z) \<Longrightarrow>
     compute_zone_fingerprint sha z = Inr (sha (zone_payload (instant (created_at z)) z))"
  by (simp add: compute_zone_fingerprint_def canonical_of_aware)

lemma zone_eq_from_payload:
  assumes "is_aware (created_at z)" "is_aware (created_at z')"
    and "zone_payload (instant (created_at z)) z = zone_payload (instant (created_at z')) z'"
  shows "z = z'"
  using assms zone_payload_inj [OF assms(3)]
  by (cases "created_at z"; cases "created_at z'") (auto intro!: structure_zone.equality)

lemma zone_fingerprint_Inr:
  "compute_zone_fingerprint sha z = Inr fp \<longleftrightarrow>
     is_aware (created_at z) \<and> fp = sha (zone_payload (instant (created_at z)) z)"
  by (cases "created_at z") (auto simp: compute_zone_fingerprint_def)

lemma zone_fingerprint_Inl:
  "compute_zone_fingerprint sha z = Inl e \<longleftrightarrow> \<not> is_aware (created_at z) \<and> e = ValueError"
  by (cases "created_at z") (auto simp: compute_zone_fingerprint_def)

text \<open>
  Zone fingerprints are lossless: as long as the digest does not collide on the two
  payloads, different zones have different fingerprints; all six fields are bound, the
  creation time by its instant.
\<close>

theorem zone_fingerprint_lossless:
  assumes "inj_on sha {zone_payload (instant (created_at z)) z, zone_payload (instant (created_at z')) z'}"
    and "is_aware (created_at z)" "is_aware (created_at z')"
    and "z \<noteq> z'"
  shows "compute_zone_fingerprint sha z \<noteq> compute_zone_fingerprint sha z'"
proof
  assume "compute_zone_fingerprint sha z = compute_zone_fingerprint sha z'"
  with assms(2,3) have "sha (zone_payload (instant (created_at z)) z)
      = sha (zone_payload (instant (created_at z')) z')" by simp
  then have "zone_payload (instant (created_at z)) z = zone_payload (instant (created_at z')) z'"
    by (rule inj_onD [OF assms(1)]) simp_all
  with zone_eq_from_payload [OF assms(2,3)] assms(4) show False by simp
qed

theorem zone_fingerprint_lossless_witness:
  "compute_zone_fingerprint (\<lambda>p. if (''touches'', JInt 2) \<in> set p then ''a'' else ''b'')
     \<lparr>zone_type = ''SUPPORT'', price_low = 1, price_high = 2, created_at = Aware 0, touches = 2, is_active = True\<rparr> \<noteq>
   compute_zone_fingerprint (\<lambda>p. if (''touches'', JInt 2) \<in> set p then ''a'' else ''b'')
     \<lparr>zone_type = ''SUPPORT'', price_low = 1, price_high = 2, created_at = Aware 0, touches = 3, is_active = True\<rparr>"
  by (rule zone_fingerprint_lossless) (simp_all add: zone_payload_def)

end
