(* ===== verification/Signal_Profile.thy ===== *)
theory Signal_Profile
  imports Fingerprints
begin

text \<open>
  \<open>engine/signals/profile.py\<close>: the weights and thresholds of the signal engine, their
  validation, which answers, or raises on a number it rejects, and the profile's guard.
  Weights are floats; \<open>fround\<close> is rounding to a 53 bit significand (no overflow or
  underflow occurs at these magnitudes).
\<close>

section \<open>Floats\<close>

definition fround :: "rat \<Rightarrow> rat" where
  "fround = sig_round 2 53"

interpretation flt: rounding fround
proof
  show "fround x \<le> fround y" if "x \<le> y" for x y
    unfolding fround_def using that by (rule sig_round_mono) simp_all
  show "fround (- x) = - fround x" for x
    unfolding fround_def by (rule sig_round_minus)
  show "fround (fround x) = fround x" for x
    unfolding fround_def by (rule sig_round_idem) simp_all
  show "0 < fround x" if "0 < x" for x
    unfolding fround_def using that by (rule sig_round_pos) simp_all
qed

text \<open>
  \<open>sum\<close> of floats, since Python 3.12 with a compensation term: \<open>h\<close> is the running sum,
  \<open>c\<close> what its roundings lost.
\<close>

fun fsum_from :: "rat \<Rightarrow> rat \<Rightarrow> rat list \<Rightarrow> rat" where
  "fsum_from h c [] = (if c \<noteq> 0 then fround (h + c) else h)"
| "fsum_from h c (x # xs) =
     (let t = fround (h + x)
      in if \<bar>h\<bar> \<ge> \<bar>x\<bar> then fsum_from t (fround (c + fround (fround (h - t) + x))) xs
         else fsum_from t (fround (c + fround (fround (x - t) + h))) xs)"

definition fsum :: "rat list \<Rightarrow> rat" where
  "fsum = fsum_from 0 0"

section \<open>Instruments\<close>

definition normalize_xauusd_target :: "string option \<Rightarrow> string result" where
  "normalize_xauusd_target target =
     (case target of
        None \<Rightarrow> Inl ValueError
      | Some s \<Rightarrow>
          if s = [] then Inl ValueError
          else if py_upper (py_strip s) = ''XAUUSD'' \<or> py_upper (py_strip s) = ''XAU/USD''
          then Inr ''XAUUSD'' else Inl ValueError)"

section \<open>Policies of one side\<close>

record side_direction_policy =
  weight_regime :: "pynum option"
  weight_trend_1h :: "pynum option"
  weight_trend_4h :: "pynum option"
  weight_trend_1d :: "pynum option"
  weight_structure_bos :: "pynum option"
  weight_pullback :: "pynum option"
  weight_momentum :: "pynum option"
  weight_volume :: "pynum option"

record side_timing_policy =
  weight_entry_zone :: "pynum option"
  weight_reversal_confirmation_15m :: "pynum option"
  weight_momentum_turn_15m_1h :: "pynum option"
  weight_phase3a :: "pynum option"
  weight_volume_response :: "pynum option"

record side_gate_policy =
  threshold_watch_direction :: "pynum option"
  threshold_ready_direction :: "pynum option"
  threshold_ready_timing :: "pynum option"
  threshold_window_direction :: "pynum option"
  threshold_window_timing :: "pynum option"

text \<open>Weights: incomplete is \<open>False\<close>; a non-finite or negative one, or a wrong total, raises.\<close>

definition weights_configured :: "pynum option list \<Rightarrow> bool result" where
  "weights_configured ws =
     (if None \<in> set ws then Inr False
      else if \<exists>w \<in> set ws. \<not> nonneg_num (the w) then Inl ValueError
      else if \<bar>fround (fsum (map (\<lambda>w. num_value (the w)) ws) - 100)\<bar> > fround (1 / 10000) then Inl ValueError
      else Inr True)"

definition direction_configured :: "side_direction_policy \<Rightarrow> bool result" where
  "direction_configured p = weights_configured
     [weight_regime p, weight_trend_1h p, weight_trend_4h p, weight_trend_1d p,
      weight_structure_bos p, weight_pullback p, weight_momentum p, weight_volume p]"

definition timing_configured :: "side_timing_policy \<Rightarrow> bool result" where
  "timing_configured p = weights_configured
     [weight_entry_zone p, weight_reversal_confirmation_15m p, weight_momentum_turn_15m_1h p,
      weight_phase3a p, weight_volume_response p]"

definition threshold_ok :: "pynum option \<Rightarrow> bool" where
  "threshold_ok t = (case t of Some (Fin x) \<Rightarrow> 0 \<le> x \<and> x \<le> 100 | _ \<Rightarrow> False)"

definition threshold :: "pynum option \<Rightarrow> rat" where
  "threshold t = num_value (the t)"

definition gate_configured :: "side_gate_policy \<Rightarrow> bool result" where
  "gate_configured p =
     (let th = [threshold_watch_direction p, threshold_ready_direction p, threshold_ready_timing p,
                threshold_window_direction p, threshold_window_timing p]
      in if None \<in> set th then Inr False
         else if \<exists>t \<in> set th. \<not> threshold_ok t then Inl ValueError
         else if \<not> (threshold (threshold_watch_direction p) \<le> threshold (threshold_ready_direction p) \<and>
                    threshold (threshold_ready_direction p) \<le> threshold (threshold_window_direction p))
         then Inl ValueError
         else if \<not> threshold (threshold_ready_timing p) \<le> threshold (threshold_window_timing p)
         then Inl ValueError
         else Inr True)"

record feed_policy =
  fp_primary_15m :: feed_criticality
  fp_primary_1h :: feed_criticality
  fp_primary_4h :: feed_criticality
  fp_primary_1d :: feed_criticality
  fp_secondary_provider :: feed_criticality
  fp_macro_blackout :: feed_criticality
  fp_volume :: feed_criticality
  fp_phase3a :: feed_criticality
  fp_phase3b :: feed_criticality
  fp_dxy_yields_futures :: feed_criticality

definition default_feed_policy :: feed_policy where
  "default_feed_policy = \<lparr>fp_primary_15m = CRITICAL, fp_primary_1h = OPTIONAL, fp_primary_4h = OPTIONAL,
     fp_primary_1d = OPTIONAL, fp_secondary_provider = OPTIONAL, fp_macro_blackout = CRITICAL,
     fp_volume = OPTIONAL, fp_phase3a = OPTIONAL, fp_phase3b = INFORMATIONAL,
     fp_dxy_yields_futures = INFORMATIONAL\<rparr>"

section \<open>The profile\<close>

datatype phase4_calibration_status =
  LEGACY_REFERENCE | P4_PENDING_PHASE6 | P4_CANDIDATE_NOT_FROZEN | P4_REVALIDATED_RESEARCH

fun phase4_calibration_value :: "phase4_calibration_status \<Rightarrow> string" where
  "phase4_calibration_value LEGACY_REFERENCE = ''LEGACY_REFERENCE''"
| "phase4_calibration_value P4_PENDING_PHASE6 = ''PENDING_PHASE6''"
| "phase4_calibration_value P4_CANDIDATE_NOT_FROZEN = ''CANDIDATE_NOT_FROZEN''"
| "phase4_calibration_value P4_REVALIDATED_RESEARCH = ''REVALIDATED_RESEARCH''"

lemma phase4_calibration_value_inj [simp]:
  "phase4_calibration_value a = phase4_calibration_value b \<longleftrightarrow> a = b"
  by (cases a; cases b) simp_all

text \<open>The \<open>details\<close> mapping is free-form data; the field holds its encoding.\<close>

record signal_profile =
  sp_name :: string
  sp_target :: "string option"
  sp_calibration :: phase4_calibration_status
  sp_timeframe :: string
  long_direction_policy :: side_direction_policy
  short_direction_policy :: side_direction_policy
  long_timing_policy :: side_timing_policy
  short_timing_policy :: side_timing_policy
  long_gate :: side_gate_policy
  short_gate :: side_gate_policy
  sp_feed_policy :: feed_policy
  sp_details :: jval

text \<open>\<open>__post_init__\<close>: the stored target is the canonical one.\<close>

definition make_signal_profile :: "signal_profile \<Rightarrow> signal_profile result" where
  "make_signal_profile sp =
     rbind (normalize_xauusd_target (sp_target sp)) (\<lambda>t.
       if sp_calibration sp = LEGACY_REFERENCE then Inl ValueError
       else Inr (sp\<lparr>sp_target := Some t\<rparr>))"

text \<open>Python's \<open>a and b\<close> on conditions that may raise.\<close>

definition rand :: "bool result \<Rightarrow> bool result \<Rightarrow> bool result" where
  "rand a b = rbind a (\<lambda>x. if x then b else Inr False)"

definition is_fully_configured :: "signal_profile \<Rightarrow> bool result" where
  "is_fully_configured sp =
     rand (direction_configured (long_direction_policy sp))
    (rand (direction_configured (short_direction_policy sp))
    (rand (timing_configured (long_timing_policy sp))
    (rand (timing_configured (short_timing_policy sp))
    (rand (gate_configured (long_gate sp))
          (gate_configured (short_gate sp))))))"

definition is_production_authorized :: "signal_profile \<Rightarrow> bool" where
  "is_production_authorized sp = False"

definition empty_direction_policy :: side_direction_policy where
  "empty_direction_policy = \<lparr>weight_regime = None, weight_trend_1h = None, weight_trend_4h = None,
     weight_trend_1d = None, weight_structure_bos = None, weight_pullback = None,
     weight_momentum = None, weight_volume = None\<rparr>"

definition empty_timing_policy :: side_timing_policy where
  "empty_timing_policy = \<lparr>weight_entry_zone = None, weight_reversal_confirmation_15m = None,
     weight_momentum_turn_15m_1h = None, weight_phase3a = None, weight_volume_response = None\<rparr>"

definition empty_gate_policy :: side_gate_policy where
  "empty_gate_policy = \<lparr>threshold_watch_direction = None, threshold_ready_direction = None,
     threshold_ready_timing = None, threshold_window_direction = None, threshold_window_timing = None\<rparr>"

definition uncalibrated_xauusd_signal_profile :: signal_profile where
  "uncalibrated_xauusd_signal_profile = \<lparr>sp_name = ''XAUUSD_UNCALIBRATED'', sp_target = Some ''XAUUSD'',
     sp_calibration = P4_PENDING_PHASE6, sp_timeframe = ''15m'',
     long_direction_policy = empty_direction_policy, short_direction_policy = empty_direction_policy,
     long_timing_policy = empty_timing_policy, short_timing_policy = empty_timing_policy,
     long_gate = empty_gate_policy, short_gate = empty_gate_policy,
     sp_feed_policy = default_feed_policy,
     sp_details = JObj [(''reason'', JStr ''Awaiting Phase 6 empirical calibration''), (''status'', JStr ''UNCALIBRATED'')]\<rparr>"

section \<open>Policy fingerprint\<close>

text \<open>A section of the payload: encode every field, the first rejected float raises.\<close>

fun enc_fields :: "(string \<times> pynum option) list \<Rightarrow> (string \<times> jval) list result" where
  "enc_fields [] = Inr []"
| "enc_fields ((k, v) # kvs) =
     rbind (enc_flt v) (\<lambda>j. rbind (enc_fields kvs) (\<lambda>js. Inr ((k, j) # js)))"

definition direction_fields :: "side_direction_policy \<Rightarrow> (string \<times> pynum option) list" where
  "direction_fields p =
     [(''weight_regime'', weight_regime p), (''weight_trend_1h'', weight_trend_1h p),
      (''weight_trend_4h'', weight_trend_4h p), (''weight_trend_1d'', weight_trend_1d p),
      (''weight_structure_bos'', weight_structure_bos p), (''weight_pullback'', weight_pullback p),
      (''weight_momentum'', weight_momentum p), (''weight_volume'', weight_volume p)]"

definition timing_fields :: "side_timing_policy \<Rightarrow> (string \<times> pynum option) list" where
  "timing_fields p =
     [(''weight_entry_zone'', weight_entry_zone p),
      (''weight_reversal_confirmation_15m'', weight_reversal_confirmation_15m p),
      (''weight_momentum_turn_15m_1h'', weight_momentum_turn_15m_1h p),
      (''weight_phase3a'', weight_phase3a p), (''weight_volume_response'', weight_volume_response p)]"

definition gate_fields :: "side_gate_policy \<Rightarrow> (string \<times> pynum option) list" where
  "gate_fields p =
     [(''threshold_watch_direction'', threshold_watch_direction p),
      (''threshold_ready_direction'', threshold_ready_direction p),
      (''threshold_ready_timing'', threshold_ready_timing p),
      (''threshold_window_direction'', threshold_window_direction p),
      (''threshold_window_timing'', threshold_window_timing p)]"

definition feed_fields :: "feed_policy \<Rightarrow> (string \<times> jval) list" where
  "feed_fields p =
     [(''primary_15m'', JStr (feed_criticality_value (fp_primary_15m p))),
      (''primary_1h'', JStr (feed_criticality_value (fp_primary_1h p))),
      (''primary_4h'', JStr (feed_criticality_value (fp_primary_4h p))),
      (''primary_1d'', JStr (feed_criticality_value (fp_primary_1d p))),
      (''secondary_provider'', JStr (feed_criticality_value (fp_secondary_provider p))),
      (''macro_blackout'', JStr (feed_criticality_value (fp_macro_blackout p))),
      (''volume'', JStr (feed_criticality_value (fp_volume p))),
      (''phase3a'', JStr (feed_criticality_value (fp_phase3a p))),
      (''phase3b'', JStr (feed_criticality_value (fp_phase3b p))),
      (''dxy_yields_futures'', JStr (feed_criticality_value (fp_dxy_yields_futures p)))]"

definition phase4_policy_payload :: "signal_profile \<Rightarrow> payload result" where
  "phase4_policy_payload sp =
     rbind (enc_fields (direction_fields (long_direction_policy sp))) (\<lambda>ld.
     rbind (enc_fields (direction_fields (short_direction_policy sp))) (\<lambda>sd.
     rbind (enc_fields (timing_fields (long_timing_policy sp))) (\<lambda>lt.
     rbind (enc_fields (timing_fields (short_timing_policy sp))) (\<lambda>st.
     rbind (enc_fields (gate_fields (long_gate sp))) (\<lambda>lg.
     rbind (enc_fields (gate_fields (short_gate sp))) (\<lambda>sg. Inr
       [(''name'', JStr (sp_name sp)),
        (''target_instrument'', enc_opt JStr (sp_target sp)),
        (''calibration_status'', JStr (phase4_calibration_value (sp_calibration sp))),
        (''timeframe'', JStr (sp_timeframe sp)),
        (''long_direction'', JObj ld), (''short_direction'', JObj sd),
        (''long_timing'', JObj lt), (''short_timing'', JObj st),
        (''long_gate'', JObj lg), (''short_gate'', JObj sg),
        (''feed_policy'', JObj (feed_fields (sp_feed_policy sp))),
        (''details'', sp_details sp)]))))))"

definition compute_phase4_policy_fingerprint :: "digest \<Rightarrow> signal_profile \<Rightarrow> string result" where
  "compute_phase4_policy_fingerprint sha sp = rbind (phase4_policy_payload sp) (\<lambda>p. Inr (sha p))"

lemma enc_fields_inj:
  "enc_fields a = Inr x \<Longrightarrow> enc_fields b = Inr x \<Longrightarrow> a = b"
proof (induction a arbitrary: b x)
  case Nil
  then show ?case by (cases b) (auto simp: rbind_Inr_iff)
next
  case (Cons kv a)
  obtain k v where kv: "kv = (k, v)" by fastforce
  from Cons.prems(1) kv obtain j js where x: "x = (k, j) # js" "enc_flt v = Inr j" "enc_fields a = Inr js"
    by (auto simp: rbind_Inr_iff)
  with Cons.prems(2) obtain w b' where "b = (k, w) # b'" "enc_flt w = Inr j" "enc_fields b' = Inr js"
    by (cases b) (auto simp: rbind_Inr_iff)
  with x kv Cons.IH [of js b'] enc_flt_inj [of v j w] show ?case by simp
qed

lemma section_fields_inj [simp]:
  "direction_fields p = direction_fields q \<longleftrightarrow> p = q"
  "timing_fields p' = timing_fields q' \<longleftrightarrow> p' = q'"
  "gate_fields p'' = gate_fields q'' \<longleftrightarrow> p'' = q''"
  "feed_fields f = feed_fields g \<longleftrightarrow> f = g"
  by (auto simp: direction_fields_def timing_fields_def gate_fields_def feed_fields_def
      intro!: side_direction_policy.equality side_timing_policy.equality side_gate_policy.equality feed_policy.equality)

lemma phase4_policy_payload_inj:
  assumes "phase4_policy_payload p = Inr v" "phase4_policy_payload q = Inr v"
    and "sp_target p \<noteq> None" "sp_target q \<noteq> None"
  shows "p = q"
proof -
  from assms(1) obtain ld sd lt st lg sg where
    p: "enc_fields (direction_fields (long_direction_policy p)) = Inr ld"
      "enc_fields (direction_fields (short_direction_policy p)) = Inr sd"
      "enc_fields (timing_fields (long_timing_policy p)) = Inr lt"
      "enc_fields (timing_fields (short_timing_policy p)) = Inr st"
      "enc_fields (gate_fields (long_gate p)) = Inr lg" "enc_fields (gate_fields (short_gate p)) = Inr sg"
    and v: "v = [(''name'', JStr (sp_name p)), (''target_instrument'', enc_opt JStr (sp_target p)),
        (''calibration_status'', JStr (phase4_calibration_value (sp_calibration p))),
        (''timeframe'', JStr (sp_timeframe p)), (''long_direction'', JObj ld), (''short_direction'', JObj sd),
        (''long_timing'', JObj lt), (''short_timing'', JObj st), (''long_gate'', JObj lg), (''short_gate'', JObj sg),
        (''feed_policy'', JObj (feed_fields (sp_feed_policy p))), (''details'', sp_details p)]"
    unfolding phase4_policy_payload_def rbind_Inr_iff by blast
  from assms(2) [unfolded v] have q: "enc_fields (direction_fields (long_direction_policy q)) = Inr ld"
      "enc_fields (direction_fields (short_direction_policy q)) = Inr sd"
      "enc_fields (timing_fields (long_timing_policy q)) = Inr lt"
      "enc_fields (timing_fields (short_timing_policy q)) = Inr st"
      "enc_fields (gate_fields (long_gate q)) = Inr lg" "enc_fields (gate_fields (short_gate q)) = Inr sg"
    and e: "sp_name q = sp_name p" "enc_opt JStr (sp_target q) = enc_opt JStr (sp_target p)"
      "sp_calibration q = sp_calibration p" "sp_timeframe q = sp_timeframe p"
      "feed_fields (sp_feed_policy q) = feed_fields (sp_feed_policy p)" "sp_details q = sp_details p"
    by (simp_all add: phase4_policy_payload_def rbind_Inr_iff)
  have "long_direction_policy p = long_direction_policy q" using enc_fields_inj [OF p(1) q(1)] by simp
  moreover have "short_direction_policy p = short_direction_policy q" using enc_fields_inj [OF p(2) q(2)] by simp
  moreover have "long_timing_policy p = long_timing_policy q" using enc_fields_inj [OF p(3) q(3)] by simp
  moreover have "short_timing_policy p = short_timing_policy q" using enc_fields_inj [OF p(4) q(4)] by simp
  moreover have "long_gate p = long_gate q" using enc_fields_inj [OF p(5) q(5)] by simp
  moreover have "short_gate p = short_gate q" using enc_fields_inj [OF p(6) q(6)] by simp
  moreover have "sp_target p = sp_target q" using assms(3,4) e(2) by (auto simp: enc_opt_def)
  ultimately show ?thesis using e by (intro signal_profile.equality) simp_all
qed

section \<open>What configuration guarantees\<close>

lemma rand_True [simp]: "rand a b = Inr True \<longleftrightarrow> a = Inr True \<and> b = Inr True"
  by (auto simp: rand_def rbind_Inr_iff split: if_splits)

lemma fully_configured_gates:
  "is_fully_configured sp = Inr True \<Longrightarrow> gate_configured (long_gate sp) = Inr True \<and> gate_configured (short_gate sp) = Inr True"
  by (simp add: is_fully_configured_def)

text \<open>The thresholds of a configured gate are a chain within 0 and 100.\<close>

definition monotone_gate :: "side_gate_policy \<Rightarrow> bool" where
  "monotone_gate g \<longleftrightarrow>
     0 \<le> threshold (threshold_watch_direction g) \<and>
     threshold (threshold_watch_direction g) \<le> threshold (threshold_ready_direction g) \<and>
     threshold (threshold_ready_direction g) \<le> threshold (threshold_window_direction g) \<and>
     threshold (threshold_window_direction g) \<le> 100 \<and>
     0 \<le> threshold (threshold_ready_timing g) \<and>
     threshold (threshold_ready_timing g) \<le> threshold (threshold_window_timing g) \<and>
     threshold (threshold_window_timing g) \<le> 100"

lemma threshold_okE: "threshold_ok t \<Longrightarrow> 0 \<le> threshold t \<and> threshold t \<le> 100"
  by (auto simp: threshold_ok_def threshold_def split: option.splits pynum.splits)

lemma gate_configured_monotone: "gate_configured g = Inr True \<Longrightarrow> monotone_gate g"
  by (auto simp: gate_configured_def monotone_gate_def Let_def dest!: threshold_okE split: if_splits)

lemma uncalibrated_not_fully_configured:
  "is_fully_configured uncalibrated_xauusd_signal_profile = Inr False"
  by (simp add: is_fully_configured_def uncalibrated_xauusd_signal_profile_def rand_def
      direction_configured_def empty_direction_policy_def weights_configured_def)

lemmas [eval_defs] = enc_flt_def enc_opt_def fsum_def normalize_xauusd_target_def weights_configured_def direction_configured_def
  timing_configured_def threshold_ok_def threshold_def gate_configured_def default_feed_policy_def rand_def
  is_fully_configured_def is_production_authorized_def empty_direction_policy_def empty_timing_policy_def
  empty_gate_policy_def uncalibrated_xauusd_signal_profile_def direction_fields_def timing_fields_def
  gate_fields_def feed_fields_def phase4_policy_payload_def compute_phase4_policy_fingerprint_def
  py_strip_def py_upper_def py_upper_char_def py_space_def

section \<open>Properties\<close>

text \<open>
  The signal policy fingerprint is lossless: as long as the digest does not collide on their
  two payloads, two constructed profiles with one fingerprint are the same profile, every
  weight, threshold and feed criticality included.
\<close>

theorem phase4_fingerprint_lossless:
  assumes "make_signal_profile p0 = Inr p" "make_signal_profile q0 = Inr q"
    and "compute_phase4_policy_fingerprint sha p = Inr fp" "compute_phase4_policy_fingerprint sha q = Inr fp"
    and "inj_on sha {v. phase4_policy_payload p = Inr v \<or> phase4_policy_payload q = Inr v}"
  shows "p = q"
proof -
  from assms(3,4) obtain v w where v: "phase4_policy_payload p = Inr v" and w: "phase4_policy_payload q = Inr w"
    and "sha v = sha w"
    by (auto simp: compute_phase4_policy_fingerprint_def rbind_Inr_iff)
  with assms(5) have "v = w" by (auto simp: inj_on_def)
  moreover have "sp_target p \<noteq> None" "sp_target q \<noteq> None"
    using assms(1,2) by (auto simp: make_signal_profile_def rbind_Inr_iff split: if_splits)
  ultimately show ?thesis using v w phase4_policy_payload_inj by blast
qed

definition sha_of_name :: digest where
  "sha_of_name v = (case v of (k, JStr s) # _ \<Rightarrow> s | _ \<Rightarrow> [])"

theorem phase4_fingerprint_lossless_witness:
  "compute_phase4_policy_fingerprint sha_of_name uncalibrated_xauusd_signal_profile = Inr ''XAUUSD_UNCALIBRATED'' \<and>
   uncalibrated_xauusd_signal_profile\<lparr>sp_timeframe := ''15m''\<rparr> = uncalibrated_xauusd_signal_profile"
proof
  show fp: "compute_phase4_policy_fingerprint sha_of_name uncalibrated_xauusd_signal_profile = Inr ''XAUUSD_UNCALIBRATED''"
    by (simp add: eval_defs sha_of_name_def cong: strict_congs)
  let ?u = "uncalibrated_xauusd_signal_profile" and ?v = "uncalibrated_xauusd_signal_profile\<lparr>sp_timeframe := ''15m''\<rparr>"
  have same: "?v = ?u" by (simp add: uncalibrated_xauusd_signal_profile_def)
  have mk: "make_signal_profile ?u = Inr ?u"
    by (simp add: make_signal_profile_def eval_defs Let_def cong: strict_congs)
  show "?v = ?u"
    by (rule phase4_fingerprint_lossless [of ?v ?v ?u ?u sha_of_name "''XAUUSD_UNCALIBRATED''"])
      (use mk fp in \<open>auto simp: same inj_on_def\<close>)
qed

end
