(* ===== verification/Signal_Gate.thy ===== *)
theory Signal_Gate
  imports Signal_Profile
begin

text \<open>
  \<open>engine/signals/gate.py\<close>: the hard safety gates, the selective gate of the legacy XAUT
  engine and the candidate gate of the XAUUSD engine, with the abstract rule of conflicts
  that the matrix of sixteen cases implements.
\<close>

section \<open>The legacy gates\<close>

record legacy_gate =
  lg_blocked :: bool
  lg_override :: "signal_state option"
  lg_reasons :: "gate_reason list"
  lg_stale :: bool
  lg_transition :: bool
  lg_blackout :: bool
  lg_missing_xau :: bool
  lg_missing_normalization :: bool
  lg_unclosed :: bool

definition evaluate_hard_gates :: "bool \<Rightarrow> bool \<Rightarrow> bool \<Rightarrow> bool \<Rightarrow> bool \<Rightarrow> bool \<Rightarrow> legacy_gate" where
  "evaluate_hard_gates stale transition blackout missing_xau missing_norm unclosed =
     (let reasons =
        (if unclosed then [UnclosedCandle] else []) @
        (if stale then [StaleFeed] else []) @
        (if transition then [ProviderTransition] else []) @
        (if blackout then [MacroBlackoutActive] else []) @
        (if missing_xau then [MissingXau] else []) @
        (if missing_norm then [MissingNormalization] else [])
      in \<lparr>lg_blocked = (length reasons > 0),
          lg_override = (if length reasons > 0 then Some FORCE_WAIT else None),
          lg_reasons = reasons, lg_stale = stale, lg_transition = transition, lg_blackout = blackout,
          lg_missing_xau = missing_xau, lg_missing_normalization = missing_norm, lg_unclosed = unclosed\<rparr>)"

definition evaluate_selective_gate ::
  "rat \<Rightarrow> rat \<Rightarrow> regime_type option \<Rightarrow> structure_type option \<Rightarrow> legacy_gate \<Rightarrow> bool \<Rightarrow> bool \<Rightarrow> bool \<Rightarrow>
    signal_state \<times> user_decision" where
  "evaluate_selective_gate direction timing regime structure gate reversal near_support sufficient =
     (if lg_blocked gate then (FORCE_WAIT, WAIT)
      else if \<not> sufficient \<or> regime = None \<or> structure = None then (NO_TRADE, WAIT)
      else if the regime \<in> {BEAR_TREND, HIGH_VOLATILITY} then (AVOID_STATE, AVOID)
      else if the structure \<in> {LL, LH} \<and> direction < 40 then (AVOID_STATE, AVOID)
      else if direction \<ge> 80 \<and> timing \<ge> 80 \<and> reversal then (BUY_WINDOW, BUY)
      else if direction \<ge> 75 \<and> timing \<ge> 70 \<and> near_support then (READY, WAIT)
      else if direction \<ge> 70 then (WATCH, WAIT)
      else (NO_TRADE, WAIT))"

section \<open>The XAUUSD hard gate\<close>

definition unhealthy_statuses :: "feed_health set" where
  "unhealthy_statuses = {UNKNOWN_HEALTH, MISSING, UNHEALTHY, STALE, TRANSITION}"

text \<open>The feeds with their criticalities, in the code's order; no profile: the defaults.\<close>

definition feeds_to_check :: "runtime_feed_health \<Rightarrow> feed_policy option \<Rightarrow> (string \<times> feed_health \<times> feed_criticality) list" where
  "feeds_to_check rfh pol =
     (let fp = (case pol of Some p \<Rightarrow> p | None \<Rightarrow> default_feed_policy) in
      [(''primary_15m'', primary_15m rfh, fp_primary_15m fp),
       (''primary_1h'', primary_1h rfh, fp_primary_1h fp),
       (''primary_4h'', primary_4h rfh, fp_primary_4h fp),
       (''primary_1d'', primary_1d rfh, fp_primary_1d fp),
       (''secondary_provider'', secondary_provider rfh, fp_secondary_provider fp),
       (''macro_blackout'', macro_blackout_feed rfh, fp_macro_blackout fp),
       (''volume'', volume_feed rfh, fp_volume fp),
       (''phase3a'', phase3a_feed rfh, fp_phase3a fp),
       (''phase3b'', phase3b_feed rfh, fp_phase3b fp)])"

definition critical_reasons :: "(string \<times> feed_health \<times> feed_criticality) list \<Rightarrow> gate_reason list" where
  "critical_reasons feeds =
     map (\<lambda>(name, status, _). CriticalFeed name status)
       (filter (\<lambda>(name, status, crit). crit = CRITICAL \<and> status \<in> unhealthy_statuses) feeds)"

definition evaluate_xauusd_hard_gates ::
  "runtime_feed_health option \<Rightarrow> feed_policy option \<Rightarrow> hard_gate_evaluation" where
  "evaluate_xauusd_hard_gates health pol =
     (let rfh = (case health of Some h \<Rightarrow> h | None \<Rightarrow> default_feed_health);
          reasons =
            (if is_unclosed_candle rfh then [UnclosedCandle] else []) @
            (if is_macro_blackout rfh then [MacroBlackoutActive] else []) @
            critical_reasons (feeds_to_check rfh pol)
      in \<lparr>is_blocked = (length reasons > 0),
          override_state = (if length reasons > 0 then Some FORCE_WAIT else None),
          block_reasons = reasons, hg_health = rfh\<rparr>)"

section \<open>The candidate gate\<close>

definition score_or_zero :: "side_score \<Rightarrow> rat" where
  "score_or_zero s = (case total_score s of Some x \<Rightarrow> x | None \<Rightarrow> 0)"

definition classify_long :: "side_gate_policy \<Rightarrow> rat \<Rightarrow> rat \<Rightarrow> signal_state" where
  "classify_long g dir tim =
     (if dir \<ge> threshold (threshold_window_direction g) \<and> tim \<ge> threshold (threshold_window_timing g) then BUY_WINDOW
      else if dir \<ge> threshold (threshold_ready_direction g) \<and> tim \<ge> threshold (threshold_ready_timing g) then READY_LONG
      else if dir \<ge> threshold (threshold_watch_direction g) then WATCH_LONG
      else NO_TRADE)"

definition classify_short :: "side_gate_policy \<Rightarrow> rat \<Rightarrow> rat \<Rightarrow> signal_state" where
  "classify_short g dir tim =
     (if dir \<ge> threshold (threshold_window_direction g) \<and> tim \<ge> threshold (threshold_window_timing g) then SELL_WINDOW
      else if dir \<ge> threshold (threshold_ready_direction g) \<and> tim \<ge> threshold (threshold_ready_timing g) then READY_SHORT
      else if dir \<ge> threshold (threshold_watch_direction g) then WATCH_SHORT
      else NO_TRADE)"

definition cg_result :: "signal_state \<Rightarrow> user_decision \<Rightarrow> string \<Rightarrow> candidate_gate_result" where
  "cg_result st dec reason = \<lparr>cg_state = st, cg_decision = dec, cg_reason = Resolved reason, cg_valid = True\<rparr>"

definition conflict_matrix :: "signal_state \<Rightarrow> signal_state \<Rightarrow> candidate_gate_result" where
  "conflict_matrix long_tier short_tier =
     (if long_tier = BUY_WINDOW then
        (if short_tier = SELL_WINDOW then cg_result CONFLICT WAIT ''SAME_TIER_WINDOW_CONFLICT''
         else if short_tier = READY_SHORT then cg_result CONFLICT WAIT ''WINDOW_VS_READY_CONFLICT''
         else if short_tier = WATCH_SHORT then cg_result BUY_WINDOW BUY ''LONG_WINDOW_OVER_SHORT_WATCH''
         else cg_result BUY_WINDOW BUY ''LONG_QUALIFIED'')
      else if long_tier = READY_LONG then
        (if short_tier = SELL_WINDOW then cg_result CONFLICT WAIT ''READY_VS_WINDOW_CONFLICT''
         else if short_tier = READY_SHORT then cg_result CONFLICT WAIT ''SAME_TIER_READY_CONFLICT''
         else if short_tier = WATCH_SHORT then cg_result READY_LONG WAIT ''LONG_READY_OVER_SHORT_WATCH''
         else cg_result READY_LONG WAIT ''LONG_SETUP_DEVELOPING'')
      else if long_tier = WATCH_LONG then
        (if short_tier = SELL_WINDOW then cg_result SELL_WINDOW SELL ''SHORT_WINDOW_OVER_LONG_WATCH''
         else if short_tier = READY_SHORT then cg_result READY_SHORT WAIT ''SHORT_READY_OVER_LONG_WATCH''
         else if short_tier = WATCH_SHORT then cg_result CONFLICT WAIT ''SAME_TIER_WATCH_CONFLICT''
         else cg_result WATCH_LONG WAIT ''LONG_BIAS_DETECTED'')
      else
        (if short_tier = SELL_WINDOW then cg_result SELL_WINDOW SELL ''SHORT_QUALIFIED''
         else if short_tier = READY_SHORT then cg_result READY_SHORT WAIT ''SHORT_SETUP_DEVELOPING''
         else if short_tier = WATCH_SHORT then cg_result WATCH_SHORT WAIT ''SHORT_BIAS_DETECTED''
         else cg_result NO_TRADE WAIT ''NO_SETUP_ACTIVE''))"

definition evaluate_xauusd_candidate_gate ::
  "side_score \<Rightarrow> side_score \<Rightarrow> side_score \<Rightarrow> side_score \<Rightarrow> hard_gate_evaluation \<Rightarrow> signal_profile option \<Rightarrow>
    candidate_gate_result result" where
  "evaluate_xauusd_candidate_gate l_dir s_dir l_tim s_tim hg profile =
     (let not_configured = \<lparr>cg_state = NO_TRADE, cg_decision = WAIT,
            cg_reason = Resolved ''PROFILE_OR_SCORES_NOT_CONFIGURED'', cg_valid = False\<rparr>
      in if is_blocked hg
         then Inr \<lparr>cg_state = FORCE_WAIT, cg_decision = WAIT,
                cg_reason = (if block_reasons hg \<noteq> [] then Joined (block_reasons hg) else Resolved ''HARD_GATE_BLOCKED''),
                cg_valid = True\<rparr>
         else case profile of
           None \<Rightarrow> Inr not_configured
         | Some sp \<Rightarrow> rbind (is_fully_configured sp) (\<lambda>ok.
             if \<not> ok \<or> \<not> sc_valid l_dir \<or> \<not> sc_valid s_dir \<or> \<not> sc_valid l_tim \<or> \<not> sc_valid s_tim
             then Inr not_configured
             else Inr (conflict_matrix
               (classify_long (long_gate sp) (score_or_zero l_dir) (score_or_zero l_tim))
               (classify_short (short_gate sp) (score_or_zero s_dir) (score_or_zero s_tim)))))"

section \<open>Tiers\<close>

text \<open>The abstract strength of one side's candidate, a linear order.\<close>

datatype tier = T_NONE | T_WATCH | T_READY | T_WINDOW

fun tier_rank :: "tier \<Rightarrow> nat" where
  "tier_rank T_NONE = 0"
| "tier_rank T_WATCH = 1"
| "tier_rank T_READY = 2"
| "tier_rank T_WINDOW = 3"

lemma tier_rank_inj: "tier_rank a = tier_rank b \<longleftrightarrow> a = b"
  by (cases a; cases b) simp_all

instantiation tier :: linorder
begin

definition less_eq_tier :: "tier \<Rightarrow> tier \<Rightarrow> bool" where
  "less_eq_tier a b \<longleftrightarrow> tier_rank a \<le> tier_rank b"

definition less_tier :: "tier \<Rightarrow> tier \<Rightarrow> bool" where
  "less_tier a b \<longleftrightarrow> tier_rank a < tier_rank b"

instance
  by standard (auto simp: less_eq_tier_def less_tier_def tier_rank_inj)

end

lemmas tier_order = less_eq_tier_def less_tier_def

fun side_state :: "risk_side \<Rightarrow> tier \<Rightarrow> signal_state" where
  "side_state s T_NONE = NO_TRADE"
| "side_state LONG T_WATCH = WATCH_LONG"
| "side_state LONG T_READY = READY_LONG"
| "side_state LONG T_WINDOW = BUY_WINDOW"
| "side_state SHORT T_WATCH = WATCH_SHORT"
| "side_state SHORT T_READY = READY_SHORT"
| "side_state SHORT T_WINDOW = SELL_WINDOW"

fun side_decision :: "risk_side \<Rightarrow> tier \<Rightarrow> user_decision" where
  "side_decision LONG T_WINDOW = BUY"
| "side_decision SHORT T_WINDOW = SELL"
| "side_decision s t = WAIT"

definition tier_of :: "side_gate_policy \<Rightarrow> rat \<Rightarrow> rat \<Rightarrow> tier" where
  "tier_of g dir tim =
     (if dir \<ge> threshold (threshold_window_direction g) \<and> tim \<ge> threshold (threshold_window_timing g) then T_WINDOW
      else if dir \<ge> threshold (threshold_ready_direction g) \<and> tim \<ge> threshold (threshold_ready_timing g) then T_READY
      else if dir \<ge> threshold (threshold_watch_direction g) then T_WATCH
      else T_NONE)"

text \<open>
  The rule the matrix implements: two active sides conflict when they are of one tier or both
  at least READY; otherwise the stronger side stands, with its own state and decision.
\<close>

definition conflict_rule :: "tier \<Rightarrow> tier \<Rightarrow> signal_state \<times> user_decision" where
  "conflict_rule l s =
     (if l = T_NONE \<and> s = T_NONE then (NO_TRADE, WAIT)
      else if l = s \<or> (T_READY \<le> l \<and> T_READY \<le> s) then (CONFLICT, WAIT)
      else if s < l then (side_state LONG l, side_decision LONG l)
      else (side_state SHORT s, side_decision SHORT s))"

lemma classify_tier:
  "classify_long g dir tim = side_state LONG (tier_of g dir tim)"
  "classify_short g dir tim = side_state SHORT (tier_of g dir tim)"
  by (simp_all add: classify_long_def classify_short_def tier_of_def)

lemma conflict_matrix_rule:
  "(cg_state (conflict_matrix (side_state LONG l) (side_state SHORT s)),
    cg_decision (conflict_matrix (side_state LONG l) (side_state SHORT s))) = conflict_rule l s"
  by (cases l; cases s) (simp_all add: conflict_matrix_def conflict_rule_def cg_result_def tier_order)

lemma conflict_matrix_valid: "cg_valid (conflict_matrix a b)"
  by (simp add: conflict_matrix_def cg_result_def)

lemma tier_of_mono:
  assumes "monotone_gate g" "dir \<le> dir'" "tim \<le> tim'"
  shows "tier_of g dir tim \<le> tier_of g dir' tim'"
  using assms by (auto simp: tier_of_def monotone_gate_def tier_order)

text \<open>The mirror of a candidate state and of a decision.\<close>

fun mirror_state :: "signal_state \<Rightarrow> signal_state" where
  "mirror_state WATCH_LONG = WATCH_SHORT"
| "mirror_state READY_LONG = READY_SHORT"
| "mirror_state BUY_WINDOW = SELL_WINDOW"
| "mirror_state WATCH_SHORT = WATCH_LONG"
| "mirror_state READY_SHORT = READY_LONG"
| "mirror_state SELL_WINDOW = BUY_WINDOW"
| "mirror_state s = s"

fun mirror_decision :: "user_decision \<Rightarrow> user_decision" where
  "mirror_decision BUY = SELL"
| "mirror_decision SELL = BUY"
| "mirror_decision d = d"

lemma conflict_rule_symmetric:
  "conflict_rule s l = map_prod mirror_state mirror_decision (conflict_rule l s)"
  by (cases l; cases s) (simp_all add: conflict_rule_def tier_order)

lemma conflict_rule_decision:
  "snd (conflict_rule l s) = BUY \<longleftrightarrow> l = T_WINDOW \<and> s < T_READY"
  "snd (conflict_rule l s) = SELL \<longleftrightarrow> s = T_WINDOW \<and> l < T_READY"
  by (cases l; cases s; simp add: conflict_rule_def tier_order)+

lemma hard_gate_blocked_iff:
  "is_blocked (evaluate_xauusd_hard_gates health pol) \<longleftrightarrow>
     (let rfh = (case health of Some h \<Rightarrow> h | None \<Rightarrow> default_feed_health) in
      is_unclosed_candle rfh \<or> is_macro_blackout rfh \<or>
      (\<exists>(name, status, crit) \<in> set (feeds_to_check rfh pol). crit = CRITICAL \<and> status \<noteq> HEALTHY))"
proof -
  have u: "status \<in> unhealthy_statuses \<longleftrightarrow> status \<noteq> HEALTHY" for status
    by (cases status) (simp_all add: unhealthy_statuses_def)
  show ?thesis
    by (auto simp: evaluate_xauusd_hard_gates_def critical_reasons_def Let_def u filter_empty_conv)
qed

lemma candidate_gate_Inr:
  assumes "evaluate_xauusd_candidate_gate l_dir s_dir l_tim s_tim hg profile = Inr r"
  shows "(is_blocked hg \<and> cg_state r = FORCE_WAIT \<and> cg_decision r = WAIT) \<or>
    (\<not> is_blocked hg \<and> \<not> cg_valid r \<and> cg_state r = NO_TRADE \<and> cg_decision r = WAIT \<and>
       \<not> (\<exists>sp. profile = Some sp \<and> is_fully_configured sp = Inr True \<and>
         sc_valid l_dir \<and> sc_valid s_dir \<and> sc_valid l_tim \<and> sc_valid s_tim)) \<or>
    (\<not> is_blocked hg \<and> cg_valid r \<and> (\<exists>sp. profile = Some sp \<and> is_fully_configured sp = Inr True \<and>
       sc_valid l_dir \<and> sc_valid s_dir \<and> sc_valid l_tim \<and> sc_valid s_tim \<and>
       (cg_state r, cg_decision r) = conflict_rule
         (tier_of (long_gate sp) (score_or_zero l_dir) (score_or_zero l_tim))
         (tier_of (short_gate sp) (score_or_zero s_dir) (score_or_zero s_tim))))"
proof (cases "is_blocked hg")
  case True
  with assms show ?thesis by (auto simp: evaluate_xauusd_candidate_gate_def Let_def)
next
  case False
  show ?thesis
  proof (cases "\<exists>sp. profile = Some sp \<and> is_fully_configured sp = Inr True \<and>
       sc_valid l_dir \<and> sc_valid s_dir \<and> sc_valid l_tim \<and> sc_valid s_tim")
    case True
    then obtain sp where "profile = Some sp" "is_fully_configured sp = Inr True"
      "sc_valid l_dir" "sc_valid s_dir" "sc_valid l_tim" "sc_valid s_tim" by blast
    with assms False show ?thesis
      by (auto simp: evaluate_xauusd_candidate_gate_def Let_def classify_tier conflict_matrix_rule conflict_matrix_valid)
  next
    case no: False
    with assms False show ?thesis
      by (auto simp: evaluate_xauusd_candidate_gate_def Let_def rbind_Inr_iff split: option.splits if_splits)
  qed
qed

lemmas [eval_defs] = unhealthy_statuses_def feeds_to_check_def critical_reasons_def evaluate_xauusd_hard_gates_def
  score_or_zero_def classify_long_def classify_short_def cg_result_def conflict_matrix_def
  evaluate_xauusd_candidate_gate_def default_feed_health_def

section \<open>Properties\<close>

text \<open>
  Stronger evidence never weakens a candidate: with the thresholds of a configured gate,
  raising the direction and the timing score of a side never lowers its tier, on both sides.
\<close>

theorem classification_monotone:
  assumes "gate_configured g = Inr True" and "dir \<le> dir'" "tim \<le> tim'"
  shows "\<exists>a b. a \<le> b \<and>
    classify_long g dir tim = side_state LONG a \<and> classify_long g dir' tim' = side_state LONG b \<and>
    classify_short g dir tim = side_state SHORT a \<and> classify_short g dir' tim' = side_state SHORT b"
  using tier_of_mono [OF gate_configured_monotone [OF assms(1)] assms(2,3)] classify_tier by blast

definition sample_thresholds :: side_gate_policy where
  "sample_thresholds = \<lparr>threshold_watch_direction = Some (Fin 20), threshold_ready_direction = Some (Fin 40),
     threshold_ready_timing = Some (Fin 40), threshold_window_direction = Some (Fin 60),
     threshold_window_timing = Some (Fin 60)\<rparr>"

theorem classification_monotone_witness:
  "\<exists>a b. a \<le> b \<and> side_state LONG a = READY_LONG \<and> side_state LONG b = BUY_WINDOW"
proof -
  have "gate_configured sample_thresholds = Inr True"
    by (simp add: sample_thresholds_def eval_defs Let_def cong: strict_congs)
  moreover have "classify_long sample_thresholds 50 45 = READY_LONG" "classify_long sample_thresholds 70 60 = BUY_WINDOW"
    by (simp_all add: classify_long_def sample_thresholds_def threshold_def)
  ultimately show ?thesis using classification_monotone [of sample_thresholds 50 70 45 60]
    by auto metis
qed

end
