(* ===== verification/Risk_Policy.thy ===== *)
theory Risk_Policy
  imports Fingerprints
begin

text \<open>
  \<open>engine/risk/xauusd_policy.py\<close>: the risk and execution policies of one side, their
  completeness checks, the risk profile with its construction guard, and the profile's
  fingerprint payload (\<open>xauusd_fingerprints.py\<close>).
\<close>

section \<open>Side risk policy\<close>

record side_risk_policy =
  structure_buffer :: "pynum option"
  atr_multiplier :: "pynum option"
  max_stop_distance_atr :: "pynum option"
  min_rr_tp1 :: "pynum option"
  tp2_atr_multiplier :: "pynum option"

definition empty_risk_policy :: side_risk_policy where
  "empty_risk_policy = \<lparr>structure_buffer = None, atr_multiplier = None,
     max_stop_distance_atr = None, min_rr_tp1 = None, tp2_atr_multiplier = None\<rparr>"

definition risk_is_configured :: "side_risk_policy \<Rightarrow> bool" where
  "risk_is_configured p =
     (let core = [structure_buffer p, atr_multiplier p, max_stop_distance_atr p, min_rr_tp1 p]
      in if \<exists>v \<in> set core. v = None then False
         else if \<exists>v \<in> set core. \<not> positive_num (the v) then False
         else (case tp2_atr_multiplier p of
                 None \<Rightarrow> True
               | Some v \<Rightarrow> positive_num v))"

lemma risk_is_configured_iff:
  "risk_is_configured p \<longleftrightarrow>
     (\<exists>b m x r. structure_buffer p = Some (Fin b) \<and> 0 < b \<and> atr_multiplier p = Some (Fin m) \<and> 0 < m \<and>
        max_stop_distance_atr p = Some (Fin x) \<and> 0 < x \<and> min_rr_tp1 p = Some (Fin r) \<and> 0 < r) \<and>
     (tp2_atr_multiplier p = None \<or> (\<exists>t. tp2_atr_multiplier p = Some (Fin t) \<and> 0 < t))"
  by (cases "structure_buffer p"; cases "atr_multiplier p"; cases "max_stop_distance_atr p";
      cases "min_rr_tp1 p"; cases "tp2_atr_multiplier p")
    (auto simp: risk_is_configured_def elim!: positive_numE)

lemma risk_is_configuredE:
  assumes "risk_is_configured p"
  obtains b m x r where
    "structure_buffer p = Some (Fin b)" "0 < b" "atr_multiplier p = Some (Fin m)" "0 < m"
    "max_stop_distance_atr p = Some (Fin x)" "0 < x" "min_rr_tp1 p = Some (Fin r)" "0 < r"
    "tp2_atr_multiplier p = None \<or> (\<exists>t. tp2_atr_multiplier p = Some (Fin t) \<and> 0 < t)"
  using assms that by (auto simp: risk_is_configured_iff)

section \<open>Execution policy\<close>

record execution_policy =
  latency_seconds :: "pynum option"
  synthetic_spread_pct :: "pynum option"
  slippage_pct :: "pynum option"
  synthetic_spread_points :: "pynum option"
  point_size :: "pynum option"
  modeled_execution_gap_points :: "pynum option"

definition empty_execution_policy :: execution_policy where
  "empty_execution_policy = \<lparr>latency_seconds = None, synthetic_spread_pct = None,
     slippage_pct = None, synthetic_spread_points = None, point_size = Some (Fin (1 / 1000)),
     modeled_execution_gap_points = None\<rparr>"

text \<open>\<open>v is not None and v.is_finite() and v >= 0\<close>\<close>

definition has_nonneg :: "pynum option \<Rightarrow> bool" where
  "has_nonneg v = (case v of None \<Rightarrow> False | Some x \<Rightarrow> nonneg_num x)"

definition is_configured_for :: "execution_policy \<Rightarrow> entry_execution_policy \<Rightarrow> bool" where
  "is_configured_for e pol =
     (if \<not> has_nonneg (latency_seconds e) then False
      else if \<not> (has_nonneg (slippage_pct e) \<or> has_nonneg (modeled_execution_gap_points e)) then False
      else (case pol of
              MARKET_AFTER_SIGNAL \<Rightarrow> True
            | NEXT_BAR_OPEN \<Rightarrow>
                has_nonneg (synthetic_spread_pct e) \<or> has_nonneg (synthetic_spread_points e)
            | LIMIT_ZONE \<Rightarrow> True))"

lemma has_nonneg_iff: "has_nonneg v \<longleftrightarrow> (\<exists>x. v = Some (Fin x) \<and> 0 \<le> x)"
  by (auto simp: has_nonneg_def split: option.splits elim!: nonneg_numE)

lemma is_configured_for_latency:
  "is_configured_for e pol \<Longrightarrow> \<exists>l. latency_seconds e = Some (Fin l) \<and> 0 \<le> l"
  by (auto simp: is_configured_for_def has_nonneg_iff split: if_splits)

section \<open>Risk profile\<close>

record risk_profile =
  pr_name :: string
  pr_target :: string
  pr_calibration :: phase5_calibration_status
  long_risk_policy :: side_risk_policy
  short_risk_policy :: side_risk_policy
  long_execution_policy :: execution_policy
  short_execution_policy :: execution_policy
  pr_production_authorized :: bool
  pr_risk_version :: string

text \<open>\<open>__post_init__\<close>: construction raises, so every profile object that exists passed it.\<close>

definition make_risk_profile :: "risk_profile \<Rightarrow> risk_profile result" where
  "make_risk_profile pr =
     (if pr_target pr \<noteq> ''XAUUSD'' then Inl ValueError
      else if pr_production_authorized pr then Inl ValueError
      else Inr pr)"

definition uncalibrated_xauusd_risk_profile :: risk_profile where
  "uncalibrated_xauusd_risk_profile = \<lparr>
     pr_name = ''XAUUSD_UNCALIBRATED'', pr_target = ''XAUUSD'', pr_calibration = PENDING_PHASE6,
     long_risk_policy = empty_risk_policy, short_risk_policy = empty_risk_policy,
     long_execution_policy = empty_execution_policy,
     short_execution_policy = empty_execution_policy,
     pr_production_authorized = False, pr_risk_version = ''5.0.0-xauusd-v1''\<rparr>"

lemma uncalibrated_not_configured:
  "\<not> risk_is_configured (long_risk_policy uncalibrated_xauusd_risk_profile)"
  "\<not> risk_is_configured (short_risk_policy uncalibrated_xauusd_risk_profile)"
  by (simp_all add: uncalibrated_xauusd_risk_profile_def empty_risk_policy_def risk_is_configured_iff)

lemma uncalibrated_makes:
  "make_risk_profile uncalibrated_xauusd_risk_profile = Inr uncalibrated_xauusd_risk_profile"
  by (simp add: make_risk_profile_def uncalibrated_xauusd_risk_profile_def)

section \<open>Policy fingerprint\<close>

definition enc_side_risk :: "side_risk_policy \<Rightarrow> jval" where
  "enc_side_risk p = JObj
     [(''structure_buffer'', enc_opt JNum (structure_buffer p)),
      (''atr_multiplier'', enc_opt JNum (atr_multiplier p)),
      (''max_stop_distance_atr'', enc_opt JNum (max_stop_distance_atr p)),
      (''min_rr_tp1'', enc_opt JNum (min_rr_tp1 p)),
      (''tp2_atr_multiplier'', enc_opt JNum (tp2_atr_multiplier p))]"

definition enc_exec :: "execution_policy \<Rightarrow> jval result" where
  "enc_exec e = rbind (enc_flt (latency_seconds e)) (\<lambda>l. Inr (JObj
     [(''latency_seconds'', l),
      (''synthetic_spread_pct'', enc_opt JNum (synthetic_spread_pct e)),
      (''slippage_pct'', enc_opt JNum (slippage_pct e)),
      (''synthetic_spread_points'', enc_opt JNum (synthetic_spread_points e)),
      (''point_size'', enc_opt JNum (point_size e)),
      (''modeled_execution_gap_points'', enc_opt JNum (modeled_execution_gap_points e))]))"

definition phase5_policy_payload :: "risk_profile \<Rightarrow> payload result" where
  "phase5_policy_payload pr =
     rbind (enc_exec (long_execution_policy pr)) (\<lambda>le.
     rbind (enc_exec (short_execution_policy pr)) (\<lambda>se. Inr
       [(''name'', JStr (pr_name pr)),
        (''target'', JStr (pr_target pr)),
        (''calibration'', JStr (phase5_calibration_value (pr_calibration pr))),
        (''long_risk'', enc_side_risk (long_risk_policy pr)),
        (''short_risk'', enc_side_risk (short_risk_policy pr)),
        (''long_exec'', le),
        (''short_exec'', se),
        (''is_production_authorized'', enc_bool (pr_production_authorized pr)),
        (''risk_version'', JStr (pr_risk_version pr))]))"

definition compute_phase5_policy_fingerprint :: "digest \<Rightarrow> risk_profile \<Rightarrow> string result" where
  "compute_phase5_policy_fingerprint sha pr =
     rbind (phase5_policy_payload pr) (\<lambda>p. Inr (sha p))"

lemma enc_side_risk_inj: "enc_side_risk p = enc_side_risk q \<Longrightarrow> p = q"
  by (simp add: enc_side_risk_def)

lemma enc_exec_inj: "enc_exec p = Inr v \<Longrightarrow> enc_exec q = Inr v \<Longrightarrow> p = q"
  by (auto simp: enc_exec_def rbind_Inr_iff dest: enc_flt_inj
      intro!: execution_policy.equality)

lemma phase5_policy_payload_inj:
  "phase5_policy_payload p = Inr v \<Longrightarrow> phase5_policy_payload q = Inr v \<Longrightarrow> p = q"
  by (auto simp: phase5_policy_payload_def rbind_Inr_iff
      dest: enc_exec_inj enc_side_risk_inj intro!: risk_profile.equality)

text \<open>
  The policy fingerprint is lossless: as long as the digest does not collide on their two
  payloads, risk profiles that differ in any number of either side, the calibration status,
  the name or the version have different fingerprints.
\<close>

theorem policy_fingerprint_lossless:
  assumes "phase5_policy_payload p = Inr v" "phase5_policy_payload q = Inr w"
    and "inj_on sha {v, w}" and "p \<noteq> q"
  shows "compute_phase5_policy_fingerprint sha p \<noteq> compute_phase5_policy_fingerprint sha q"
proof
  assume "compute_phase5_policy_fingerprint sha p = compute_phase5_policy_fingerprint sha q"
  with assms(1,2) have "sha v = sha w" by (simp add: compute_phase5_policy_fingerprint_def)
  then have "v = w" by (rule inj_onD [OF assms(3)]) simp_all
  with assms(1,2,4) phase5_policy_payload_inj [of p v q] show False by simp
qed

lemmas [eval_defs] = is_configured_for_def has_nonneg_def risk_is_configured_def

end
