(* ===== verification/Samples.thy ===== *)
theory Samples
  imports Risk_Policy
begin

text \<open>
  Concrete market data for the witnesses: constructors of candles, quotes and zones with
  default provenance fields, a calibrated risk policy and an execution policy.
\<close>

definition bar_at :: "int \<Rightarrow> int \<Rightarrow> rat \<Rightarrow> rat \<Rightarrow> rat \<Rightarrow> rat \<Rightarrow> candle" where
  "bar_at t0 t1 op hi lo cl = \<lparr>timestamp_open = Aware (t0 * second), timestamp_close = Aware (t1 * second),
     c_open = Fin op, c_high = Fin hi, c_low = Fin lo, c_close = Fin cl, volume = Fin 10,
     is_closed = True, source_id = ''XAU'', quote_rate = None, close_usd = None,
     volume_evidence = TICK_VOLUME\<rparr>"

definition quote_at :: "int \<Rightarrow> rat \<Rightarrow> rat \<Rightarrow> quote" where
  "quote_at t b a = \<lparr>q_timestamp = Aware (t * second), bid = Fin b, ask = Fin a, q_source = ''XAU''\<rparr>"

definition zone_at :: "string \<Rightarrow> int \<Rightarrow> rat \<Rightarrow> rat \<Rightarrow> structure_zone" where
  "zone_at k t lo hi = \<lparr>zone_type = k, price_low = lo, price_high = hi, created_at = Aware (t * second),
     touches = 2, is_active = True\<rparr>"

definition sample_risk_policy :: side_risk_policy where
  "sample_risk_policy = \<lparr>structure_buffer = Some (Fin 1), atr_multiplier = Some (Fin 2),
     max_stop_distance_atr = Some (Fin 5), min_rr_tp1 = Some (Fin (3 / 2)), tp2_atr_multiplier = Some (Fin 20)\<rparr>"

definition sample_exec_policy :: execution_policy where
  "sample_exec_policy = \<lparr>latency_seconds = Some (Fin 1), synthetic_spread_pct = Some (Fin 0),
     slippage_pct = Some (Fin (12 / 5)), synthetic_spread_points = None, point_size = Some (Fin (1 / 1000)),
     modeled_execution_gap_points = None\<rparr>"

definition sample_profile :: risk_profile where
  "sample_profile = uncalibrated_xauusd_risk_profile\<lparr>long_risk_policy := sample_risk_policy,
     short_risk_policy := sample_risk_policy, long_execution_policy := sample_exec_policy,
     short_execution_policy := sample_exec_policy\<rparr>"

definition sample_structure :: "structure_zone list \<Rightarrow> structure_result" where
  "sample_structure zs = \<lparr>st_timestamp = Aware 0, st_type = HH, st_bos = BOS_NONE,
     last_swing_high = None, last_swing_low = None, swings = [], zones = zs\<rparr>"

definition no_score :: "signal_side \<Rightarrow> side_score" where
  "no_score s = \<lparr>sc_side = s, total_score = None, sc_max = 0, sc_components = [], sc_valid = False, sc_ready = False\<rparr>"

definition sample_signal :: "signal_state \<Rightarrow> user_decision \<Rightarrow> int \<Rightarrow> signal_snapshot" where
  "sample_signal st dec t = \<lparr>sg_timestamp = Aware (t * second), sg_instrument = ''XAUUSD'', sg_timeframe = ''15m'',
     sg_state = NO_TRADE, sg_decision = WAIT, candidate_state = st, candidate_decision = dec,
     sg_long_direction = no_score SIG_LONG, sg_short_direction = no_score SIG_SHORT,
     sg_long_timing = no_score SIG_LONG, sg_short_timing = no_score SIG_SHORT,
     sg_hard_gate = \<lparr>is_blocked = False, override_state = None, block_reasons = [], hg_health = default_feed_health\<rparr>,
     sg_candidate_reason = Resolved [], analysis_fingerprint = ''p4'', phase4_policy_fingerprint = ''pp'',
     sg_code_revision = ''rev''\<rparr>"

text \<open>A digest that returns the first field of a payload, when that is a string.\<close>

definition sample_digest :: digest where
  "sample_digest p = (case p of (_, JStr s) # _ \<Rightarrow> s | _ \<Rightarrow> [])"

lemma sample_fingerprints [eval_defs]:
  "sample_digest (zone_payload t z) = zone_type z"
  "compute_risk_plan_fingerprint sample_digest p a =
     (if is_aware (rp_generated_at p) then Inr (rp_source_fingerprint p) else Inl ValueError)"
  "compute_execution_fingerprint sample_digest fp s e pf rv r = fp"
  "compute_quote_evidence_fingerprint sample_digest q =
     (if is_aware (q_timestamp q) then Inr ''QUOTE'' else Inl ValueError)"
  "compute_candle_evidence_fingerprint sample_digest c =
     (if is_aware (timestamp_open c) \<and> is_aware (timestamp_close c) then Inr ''CANDLE'' else Inl ValueError)"
  by (simp_all add: sample_digest_def zone_payload_def compute_risk_plan_fingerprint_def canonical_utc_timestamp_def
      compute_execution_fingerprint_def compute_quote_evidence_fingerprint_def compute_candle_evidence_fingerprint_def)

lemmas sample_defs [eval_defs] = bar_at_def quote_at_def zone_at_def sample_risk_policy_def sample_exec_policy_def
  sample_profile_def sample_structure_def no_score_def sample_signal_def

theorem policy_fingerprint_lossless_witness:
  "compute_phase5_policy_fingerprint (\<lambda>p. if p = projr (phase5_policy_payload sample_profile) then ''a'' else ''b'')
     sample_profile \<noteq>
   compute_phase5_policy_fingerprint (\<lambda>p. if p = projr (phase5_policy_payload sample_profile) then ''a'' else ''b'')
     uncalibrated_xauusd_risk_profile"
proof (rule policy_fingerprint_lossless)
  show "phase5_policy_payload sample_profile = Inr (projr (phase5_policy_payload sample_profile))"
    by (simp add: phase5_policy_payload_def enc_exec_def enc_flt_def sample_defs uncalibrated_xauusd_risk_profile_def)
  show "phase5_policy_payload uncalibrated_xauusd_risk_profile
      = Inr (projr (phase5_policy_payload uncalibrated_xauusd_risk_profile))"
    by (simp add: phase5_policy_payload_def enc_exec_def enc_flt_def uncalibrated_xauusd_risk_profile_def
        empty_execution_policy_def)
  show "sample_profile \<noteq> uncalibrated_xauusd_risk_profile"
    by (simp add: sample_defs uncalibrated_xauusd_risk_profile_def empty_risk_policy_def)
qed (auto simp: inj_on_def)

end
