(* ===== verification/Direction.thy ===== *)
theory Direction
  imports Signal_Profile Samples
begin

text \<open>
  \<open>engine/signals/direction.py\<close>: \<open>calculate_xauusd_dual_direction\<close>, the direction scores of
  both sides, in float arithmetic. Features are finite floats and decimals; the texts that
  explain a component are not represented.
\<close>

section \<open>Float arithmetic\<close>

definition fadd :: "rat \<Rightarrow> rat \<Rightarrow> rat" where "fadd x y = fround (x + y)"
definition fsub :: "rat \<Rightarrow> rat \<Rightarrow> rat" where "fsub x y = fround (x - y)"
definition fmul :: "rat \<Rightarrow> rat \<Rightarrow> rat" where "fmul x y = fround (x * y)"
definition fdiv :: "rat \<Rightarrow> rat \<Rightarrow> rat" where "fdiv x y = fround (x / y)"

text \<open>\<open>round(x, 2)\<close> of a float: the nearest multiple of 0.01, ties to even, as a float.\<close>

definition round2 :: "rat \<Rightarrow> rat" where
  "round2 x = fround (of_int (rhe (x * 100)) / 100)"

text \<open>\<open>float(round(max(0.0, min(100.0, x)), 2))\<close>.\<close>

definition clamp_score :: "rat \<Rightarrow> rat \<Rightarrow> rat" where
  "clamp_score hi x = round2 (max 0 (min hi x))"

section \<open>Evidence\<close>

record feature_snapshot =
  fs_timestamp :: datetime
  ema20 :: "rat option"
  ema50 :: "rat option"
  ema200 :: "rat option"
  ema_slope_20 :: "rat option"
  ema_alignment :: int
  adx :: "rat option"
  plus_di :: "rat option"
  minus_di :: "rat option"
  rsi14 :: "rat option"
  macd_line :: "rat option"
  macd_signal :: "rat option"
  macd_hist :: "rat option"
  roc12 :: "rat option"
  atr14 :: "rat option"
  atr_pct :: "rat option"
  bb_upper :: "rat option"
  bb_middle :: "rat option"
  bb_lower :: "rat option"
  bb_bandwidth :: "rat option"
  realized_vol_20 :: "rat option"
  volume_ratio_20 :: "rat option"
  volume_zscore_20 :: "rat option"
  fs_volume_evidence :: volume_evidence_type
  volume_usable :: bool
  volume_reason :: "string option"

record regime_result =
  rg_regime :: regime_type
  rg_confidence :: rat
  rg_timestamp :: datetime

text \<open>\<open>x or 0.0\<close> and the truth value of an optional number.\<close>

definition or_zero :: "rat option \<Rightarrow> rat" where
  "or_zero x = (case x of Some v \<Rightarrow> v | None \<Rightarrow> 0)"

definition truthy :: "rat option \<Rightarrow> bool" where
  "truthy x = (case x of Some v \<Rightarrow> v \<noteq> 0 | None \<Rightarrow> False)"

section \<open>Direction\<close>

record direction_weights =
  w_regime :: rat
  w_1h :: rat
  w_4h :: rat
  w_1d :: rat
  w_struct :: rat
  w_pullback :: rat
  w_mom :: rat
  w_vol :: rat

definition direction_weights_of :: "bool \<Rightarrow> side_direction_policy option \<Rightarrow> direction_weights" where
  "direction_weights_of calibrated pol =
     (case (calibrated, pol) of
        (True, Some p) \<Rightarrow> \<lparr>w_regime = threshold (weight_regime p), w_1h = threshold (weight_trend_1h p),
           w_4h = threshold (weight_trend_4h p), w_1d = threshold (weight_trend_1d p),
           w_struct = threshold (weight_structure_bos p), w_pullback = threshold (weight_pullback p),
           w_mom = threshold (weight_momentum p), w_vol = threshold (weight_volume p)\<rparr>
      | _ \<Rightarrow> \<lparr>w_regime = 15, w_1h = 10, w_4h = 10, w_1d = 10, w_struct = 20, w_pullback = 15, w_mom = 10, w_vol = 10\<rparr>)"

definition regime_score :: "signal_side \<Rightarrow> rat \<Rightarrow> regime_result option \<Rightarrow> rat" where
  "regime_score side w regime =
     (case regime of
        None \<Rightarrow> 0
      | Some r \<Rightarrow>
          if rg_regime r = (if side = SIG_LONG then BULL_TREND else BEAR_TREND)
          then round2 (fmul w (rg_confidence r))
          else if rg_regime r = RANGE then round2 (fmul (fdiv w 3) (rg_confidence r))
          else 0)"

text \<open>One trend feed. The same block of code serves the 1h, the 4h and the daily features.\<close>

definition trend_score :: "signal_side \<Rightarrow> rat \<Rightarrow> feature_snapshot option \<Rightarrow> rat" where
  "trend_score side w features =
     (case features of
        None \<Rightarrow> 0
      | Some f \<Rightarrow>
          let a = (if ema_alignment f = (if side = SIG_LONG then 1 else -1)
                   then fadd 0 (fmul w (fround (3 / 5))) else 0);
              b = (case ema_slope_20 f of
                     Some s \<Rightarrow> if (side = SIG_LONG \<and> s > 0) \<or> (side = SIG_SHORT \<and> s < 0)
                               then fadd a (fmul w (fround (1 / 5))) else a
                   | None \<Rightarrow> a)
          in (case adx f of
                Some x \<Rightarrow>
                  if x > 20 \<and> ((side = SIG_LONG \<and> or_zero (plus_di f) > or_zero (minus_di f)) \<or>
                               (side = SIG_SHORT \<and> or_zero (minus_di f) > or_zero (plus_di f)))
                  then fadd b (fmul w (fround (1 / 5))) else b
              | None \<Rightarrow> b))"

definition structure_score :: "signal_side \<Rightarrow> rat \<Rightarrow> structure_result option \<Rightarrow> rat" where
  "structure_score side w structure =
     (case structure of
        None \<Rightarrow> 0
      | Some s \<Rightarrow>
          let base = (if st_type s \<in> (if side = SIG_LONG then {HH, HL} else {LH, LL})
                      then fadd 0 (fmul w (fround (1 / 2)))
                      else if st_type s = CONSOLIDATION then fadd 0 (fmul w (fround (1 / 5)))
                      else 0)
          in if st_bos s = (if side = SIG_LONG then BOS_BULLISH else BOS_BEARISH)
             then fadd base (fmul w (fround (1 / 2)))
             else if st_bos s = (if side = SIG_LONG then BOS_BEARISH else BOS_BULLISH)
             then max 0 (fsub base (fmul w (fround (1 / 4))))
             else base)"

text \<open>The retracement of the last swing, when there is a swing of positive range and an EMA.\<close>

definition retracement :: "signal_side \<Rightarrow> structure_result option \<Rightarrow> feature_snapshot option \<Rightarrow> rat option" where
  "retracement side structure features =
     (case (structure, features) of
        (Some s, Some f) \<Rightarrow>
          (case (last_swing_high s, last_swing_low s, ema20 f) of
             (Some h, Some l, Some e) \<Rightarrow>
               if e = 0 then None
               else let high_p = fround (sw_price h); low_p = fround (sw_price l);
                        range_p = fsub high_p low_p; curr_p = fround e
                    in if range_p > 0
                       then Some (if side = SIG_LONG then fdiv (fsub high_p curr_p) range_p
                                  else fdiv (fsub curr_p low_p) range_p)
                       else None
           | _ \<Rightarrow> None)
      | _ \<Rightarrow> None)"

definition pullback_score :: "rat \<Rightarrow> rat option \<Rightarrow> rat" where
  "pullback_score w ret =
     (case ret of
        None \<Rightarrow> 0
      | Some x \<Rightarrow>
          if fround (382 / 1000) \<le> x \<and> x \<le> fround (618 / 1000) then w
          else if (fround (236 / 1000) \<le> x \<and> x < fround (382 / 1000)) \<or>
                  (fround (618 / 1000) < x \<and> x \<le> fround (786 / 1000))
          then fmul w (fround (1 / 2)) else 0)"

definition rsi_points :: "signal_side \<Rightarrow> rat \<Rightarrow> rat option \<Rightarrow> rat" where
  "rsi_points side w r =
     (case r of
        None \<Rightarrow> 0
      | Some x \<Rightarrow>
          if side = SIG_LONG
          then (if 45 \<le> x \<and> x \<le> 65 then fadd 0 (fmul w (fround (1 / 2)))
                else if 35 \<le> x \<and> x < 45 then fadd 0 (fmul w (fround (1 / 4))) else 0)
          else (if 35 \<le> x \<and> x \<le> 55 then fadd 0 (fmul w (fround (1 / 2)))
                else if 55 < x \<and> x \<le> 65 then fadd 0 (fmul w (fround (1 / 4))) else 0))"

definition momentum_score :: "signal_side \<Rightarrow> rat \<Rightarrow> feature_snapshot option \<Rightarrow> rat" where
  "momentum_score side w features =
     (case features of
        None \<Rightarrow> 0
      | Some f \<Rightarrow>
          let a = rsi_points side w (rsi14 f)
          in (case (macd_hist f, macd_line f, macd_signal f) of
                (Some hist, Some line, Some sig) \<Rightarrow>
                  if side = SIG_LONG
                  then (if hist > 0 \<and> line \<ge> sig then fadd a (fmul w (fround (1 / 2)))
                        else if hist > 0 then fadd a (fmul w (fround (1 / 4))) else a)
                  else (if hist < 0 \<and> line \<le> sig then fadd a (fmul w (fround (1 / 2)))
                        else if hist < 0 then fadd a (fmul w (fround (1 / 4))) else a)
              | _ \<Rightarrow> a))"

definition volume_score :: "rat \<Rightarrow> feature_snapshot option \<Rightarrow> rat" where
  "volume_score w features =
     (case features of
        None \<Rightarrow> 0
      | Some f \<Rightarrow>
          (case volume_ratio_20 f of
             None \<Rightarrow> 0
           | Some r \<Rightarrow> if r \<ge> fround (6 / 5) then w
                       else if r \<ge> fround (9 / 10) then fmul w (fround (3 / 5))
                       else fmul w (fround (1 / 5))))"

definition volume_available :: "feature_snapshot option \<Rightarrow> bool" where
  "volume_available features = (case features of None \<Rightarrow> False | Some f \<Rightarrow> volume_ratio_20 f \<noteq> None)"

record direction_evidence =
  ev_regime :: "regime_result option"
  ev_15m :: "feature_snapshot option"
  ev_1h :: "feature_snapshot option"
  ev_4h :: "feature_snapshot option"
  ev_1d :: "feature_snapshot option"
  ev_structure :: "structure_result option"

definition component :: "bool \<Rightarrow> string \<Rightarrow> rat \<Rightarrow> rat \<Rightarrow> bool \<Rightarrow> component_score" where
  "component calibrated name score w available = \<lparr>co_name = name,
     co_score = (if calibrated then score else 0), co_max = (if calibrated then w else 0),
     co_available = available\<rparr>"

definition direction_components ::
  "bool \<Rightarrow> signal_side \<Rightarrow> direction_weights \<Rightarrow> direction_evidence \<Rightarrow> component_score list" where
  "direction_components cal side w ev =
     [component cal ''Market Regime Quality'' (regime_score side (w_regime w) (ev_regime ev)) (w_regime w)
        (ev_regime ev \<noteq> None),
      component cal ''1H Trend Alignment'' (round2 (trend_score side (w_1h w) (ev_1h ev))) (w_1h w) (ev_1h ev \<noteq> None),
      component cal ''4H Trend Alignment'' (round2 (trend_score side (w_4h w) (ev_4h ev))) (w_4h w) (ev_4h ev \<noteq> None),
      component cal ''1D Macro Trend'' (round2 (trend_score side (w_1d w) (ev_1d ev))) (w_1d w) (ev_1d ev \<noteq> None),
      component cal ''Market Structure & BOS'' (round2 (structure_score side (w_struct w) (ev_structure ev))) (w_struct w)
        (ev_structure ev \<noteq> None),
      component cal ''Pullback Quality'' (round2 (pullback_score (w_pullback w) (retracement side (ev_structure ev) (ev_15m ev))))
        (w_pullback w) (retracement side (ev_structure ev) (ev_15m ev) \<noteq> None),
      component cal ''Momentum State'' (round2 (momentum_score side (w_mom w) (ev_15m ev))) (w_mom w) (ev_15m ev \<noteq> None),
      component cal ''Volume Confirmation'' (round2 (volume_score (w_vol w) (ev_15m ev))) (w_vol w)
        (volume_available (ev_15m ev))]"

text \<open>\<open>th or 70.0\<close>.\<close>

definition threshold_or_70 :: "pynum option \<Rightarrow> rat" where
  "threshold_or_70 t = (if truthy (map_option num_value t) then threshold t else 70)"

text \<open>The total of the components, or an invalid score when the profile is not calibrated.\<close>

definition side_result ::
  "bool \<Rightarrow> signal_side \<Rightarrow> pynum option \<Rightarrow> component_score list \<Rightarrow> side_score" where
  "side_result cal side th cs =
     (if \<not> cal then \<lparr>sc_side = side, total_score = None, sc_max = 0, sc_components = cs, sc_valid = False, sc_ready = False\<rparr>
      else let total = clamp_score 100 (fsum (map co_score cs))
           in \<lparr>sc_side = side, total_score = Some total, sc_max = 100, sc_components = cs, sc_valid = True,
               sc_ready = (total \<ge> threshold_or_70 th)\<rparr>)"

record dual_scores =
  ds_long :: side_score
  ds_short :: side_score

definition profile_calibrated :: "signal_profile option \<Rightarrow> bool result" where
  "profile_calibrated profile = (case profile of None \<Rightarrow> Inr False | Some sp \<Rightarrow> is_fully_configured sp)"

definition profile_threshold :: "(side_gate_policy \<Rightarrow> pynum option) \<Rightarrow> (signal_profile \<Rightarrow> side_gate_policy) \<Rightarrow> signal_profile option \<Rightarrow> pynum option" where
  "profile_threshold f g profile = (case profile of None \<Rightarrow> None | Some sp \<Rightarrow> f (g sp))"

definition calculate_xauusd_dual_direction ::
  "direction_evidence \<Rightarrow> signal_profile option \<Rightarrow> dual_scores result" where
  "calculate_xauusd_dual_direction ev profile =
     rbind (profile_calibrated profile) (\<lambda>cal. Inr
       \<lparr>ds_long = side_result cal SIG_LONG (profile_threshold threshold_watch_direction long_gate profile)
          (direction_components cal SIG_LONG (direction_weights_of cal (map_option long_direction_policy profile)) ev),
        ds_short = side_result cal SIG_SHORT (profile_threshold threshold_watch_direction short_gate profile)
          (direction_components cal SIG_SHORT (direction_weights_of cal (map_option short_direction_policy profile)) ev)\<rparr>)"

lemmas [eval_defs] = fadd_def fsub_def fmul_def fdiv_def round2_def clamp_score_def or_zero_def truthy_def
  direction_weights_of_def regime_score_def trend_score_def structure_score_def retracement_def
  pullback_score_def rsi_points_def momentum_score_def volume_score_def volume_available_def component_def
  direction_components_def threshold_or_70_def side_result_def profile_calibrated_def profile_threshold_def
  calculate_xauusd_dual_direction_def

section \<open>Bounds of a score\<close>

lemma fround_dyadic:
  assumes "\<bar>k\<bar> < 2 ^ 53"
  shows "fround (of_int k * 2 powi j) = of_int k * 2 powi j"
proof -
  have pos: "fround (of_int m * 2 powi j) = of_int m * 2 powi j" if "0 < m" "m < 2 ^ 53" for m
    using sig_round_of_int_powi [of 2 53 m j] that by (simp add: fround_def)
  consider "0 < k" | "k = 0" | "0 < - k" by linarith
  then show ?thesis
  proof cases
    case 1
    with assms show ?thesis by (intro pos) simp_all
  next
    case 3
    with assms have "fround (of_int (- k) * 2 powi j) = of_int (- k) * 2 powi j" by (intro pos) simp_all
    then show ?thesis using flt.rnd_minus [of "of_int (- k) * 2 powi j"] by simp
  qed simp
qed

text \<open>Evaluation on concrete floats: small dyadic numbers are exact, the others are bounded.\<close>

lemma fround_numeral: "(numeral n :: int) < 9007199254740992 \<Longrightarrow> fround (numeral n) = numeral n"
  using fround_dyadic [of "numeral n" 0] by simp

lemma fround_one: "fround 1 = 1"
  using fround_dyadic [of 1 0] by simp

lemma fround_quotient_aux:
  fixes n d :: int
  assumes md: "1048576 mod d = 0" and d: "0 < d" and n: "0 < n" "n * (1048576 div d) < 2 ^ 53"
  shows "fround (of_int n / of_int d) = of_int n / of_int d"
proof -
  have "d * (1048576 div d) = 1048576" using md by (metis add.right_neutral mult_div_mod_eq)
  then have dB: "(of_int d * of_int (1048576 div d) :: rat) = 1048576" by (metis of_int_mult of_int_numeral)
  have B: "(2 :: rat) powi (- 20) = 1 / 1048576" by (simp add: power_int_def power_one_over)
  have "0 \<le> 1048576 div d" using d by (simp add: pos_imp_zdiv_nonneg_iff)
  with n have k: "\<bar>n * (1048576 div d)\<bar> < 2 ^ 53" by (simp add: zero_le_mult_iff)
  have q: "of_int (1048576 div d) \<noteq> (0 :: rat)" using dB by force
  have "of_int (n * (1048576 div d)) * (2 :: rat) powi (- 20)
      = of_int n * (of_int (1048576 div d) / (of_int d * of_int (1048576 div d)))"
    unfolding B dB by simp
  also have "\<dots> = of_int n / of_int d" using q d by simp
  finally show ?thesis using fround_dyadic [OF k, of "- 20"] by (simp only:)
qed

lemma fround_quotient:
  assumes "(1048576 :: int) mod numeral d = 0" and "(numeral n :: int) * (1048576 div numeral d) < 9007199254740992"
  shows "fround (numeral n / numeral d) = numeral n / numeral d"
  using fround_quotient_aux [of "numeral d" "numeral n"] assms by simp

lemma fround_unit_fraction:
  assumes "(1048576 :: int) mod numeral d = 0"
  shows "fround (1 / numeral d) = 1 / numeral d"
proof -
  have "1048576 div e < 2 ^ 53" if "0 < e" for e :: int
    using zdiv_mono2 [of 1048576 1 e] that by simp
  then have "1 * (1048576 div numeral d) < (2 :: int) ^ 53" by (metis mult_1 zero_less_numeral)
  with assms have "fround (of_int 1 / of_int (numeral d)) = of_int 1 / of_int (numeral d)"
    by (intro fround_quotient_aux) simp_all
  then show ?thesis by simp
qed

lemma fround_le_numeral:
  "(numeral k :: int) < 9007199254740992 \<Longrightarrow> x \<le> numeral k \<Longrightarrow> fround x \<le> numeral k"
  "x \<le> 1 \<Longrightarrow> fround x \<le> 1"
  by (auto intro!: flt.rnd_upper simp: fround_numeral fround_one)

lemmas fround_eval [eval_defs] = fround_numeral fround_quotient fround_unit_fraction fround_one
  fround_le_numeral flt.rnd_minus

lemma round2_mono: "x \<le> y \<Longrightarrow> round2 x \<le> round2 y"
  unfolding round2_def by (intro flt.rnd_mono divide_right_mono) (simp_all add: rhe_mono)

lemma round2_bounds [simp]: "round2 0 = 0" "round2 100 = 100"
  using fround_dyadic [of 100 0] rhe_of_int [of 10000] by (simp_all add: round2_def)

lemma round2_nonneg: "0 \<le> x \<Longrightarrow> 0 \<le> round2 x"
  using round2_mono [of 0 x] by simp

lemma clamp_score_bounds: "0 \<le> clamp_score 100 x \<and> clamp_score 100 x \<le> 100"
  unfolding clamp_score_def using round2_mono [of "max 0 (min 100 x)" 100]
  by (simp add: round2_nonneg del: max_less_iff_conj)

lemma side_result_bounds:
  "total_score (side_result cal side th cs) = Some x \<Longrightarrow> 0 \<le> x \<and> x \<le> 100"
  using clamp_score_bounds by (auto simp: side_result_def Let_def split: if_splits)

lemma side_result_valid [simp]:
  "sc_valid (side_result cal side th cs) = cal"
  "(total_score (side_result cal side th cs) = None) = (\<not> cal)"
  "sc_side (side_result cal side th cs) = side"
  by (simp_all add: side_result_def Let_def)

section \<open>The mirror of the evidence\<close>

fun opposite :: "signal_side \<Rightarrow> signal_side" where
  "opposite SIG_LONG = SIG_SHORT"
| "opposite SIG_SHORT = SIG_LONG"
| "opposite SIG_NEUTRAL = SIG_NEUTRAL"

definition mirror_features :: "feature_snapshot \<Rightarrow> feature_snapshot" where
  "mirror_features f = f\<lparr>
     ema20 := map_option uminus (ema20 f), ema50 := map_option uminus (ema50 f),
     ema200 := map_option uminus (ema200 f), ema_slope_20 := map_option uminus (ema_slope_20 f),
     ema_alignment := - ema_alignment f, plus_di := minus_di f, minus_di := plus_di f,
     rsi14 := map_option (\<lambda>r. 100 - r) (rsi14 f), macd_line := map_option uminus (macd_line f),
     macd_signal := map_option uminus (macd_signal f), macd_hist := map_option uminus (macd_hist f),
     roc12 := map_option uminus (roc12 f), bb_upper := map_option uminus (bb_lower f),
     bb_middle := map_option uminus (bb_middle f), bb_lower := map_option uminus (bb_upper f)\<rparr>"

fun mirror_regime_type :: "regime_type \<Rightarrow> regime_type" where
  "mirror_regime_type BULL_TREND = BEAR_TREND"
| "mirror_regime_type BEAR_TREND = BULL_TREND"
| "mirror_regime_type r = r"

definition mirror_regime :: "regime_result \<Rightarrow> regime_result" where
  "mirror_regime r = r\<lparr>rg_regime := mirror_regime_type (rg_regime r)\<rparr>"

fun mirror_structure_type :: "structure_type \<Rightarrow> structure_type" where
  "mirror_structure_type HH = LL"
| "mirror_structure_type LL = HH"
| "mirror_structure_type HL = LH"
| "mirror_structure_type LH = HL"
| "mirror_structure_type t = t"

fun mirror_bos :: "bos_type \<Rightarrow> bos_type" where
  "mirror_bos BOS_BULLISH = BOS_BEARISH"
| "mirror_bos BOS_BEARISH = BOS_BULLISH"
| "mirror_bos BOS_NONE = BOS_NONE"

definition mirror_swing :: "swing_point \<Rightarrow> swing_point" where
  "mirror_swing p = p\<lparr>sw_price := - sw_price p\<rparr>"

definition mirror_structure :: "structure_result \<Rightarrow> structure_result" where
  "mirror_structure s = s\<lparr>st_type := mirror_structure_type (st_type s), st_bos := mirror_bos (st_bos s),
     last_swing_high := map_option mirror_swing (last_swing_low s),
     last_swing_low := map_option mirror_swing (last_swing_high s)\<rparr>"

definition mirror_direction :: "direction_evidence \<Rightarrow> direction_evidence" where
  "mirror_direction ev = \<lparr>ev_regime = map_option mirror_regime (ev_regime ev),
     ev_15m = map_option mirror_features (ev_15m ev), ev_1h = map_option mirror_features (ev_1h ev),
     ev_4h = map_option mirror_features (ev_4h ev), ev_1d = map_option mirror_features (ev_1d ev),
     ev_structure = map_option mirror_structure (ev_structure ev)\<rparr>"

lemma regime_score_mirror:
  "regime_score SIG_SHORT w (map_option mirror_regime r) = regime_score SIG_LONG w r"
proof (cases r)
  case (Some q)
  then show ?thesis by (cases "rg_regime q") (simp_all add: regime_score_def mirror_regime_def)
qed (simp add: regime_score_def)

lemma trend_score_mirror:
  "trend_score SIG_SHORT w (map_option mirror_features f) = trend_score SIG_LONG w f"
  by (cases f) (auto simp: trend_score_def mirror_features_def Let_def split: option.split)

lemma structure_score_mirror:
  "structure_score SIG_SHORT w (map_option mirror_structure s) = structure_score SIG_LONG w s"
proof (cases s)
  case (Some q)
  then show ?thesis
    by (cases "st_type q"; cases "st_bos q") (simp_all add: structure_score_def mirror_structure_def)
qed (simp add: structure_score_def)

lemma fsub_minus: "fsub (- x) (- y) = fsub y x"
  by (simp add: fsub_def)

lemma retracement_mirror:
  "retracement SIG_SHORT (map_option mirror_structure s) (map_option mirror_features f) = retracement SIG_LONG s f"
  by (cases s; cases f)
    (simp_all add: retracement_def mirror_structure_def mirror_features_def mirror_swing_def Let_def
      flt.rnd_minus fsub_minus split: option.split)

lemma momentum_score_mirror:
  "momentum_score SIG_SHORT w (map_option mirror_features f) = momentum_score SIG_LONG w f"
proof (cases f)
  case (Some q)
  have "rsi_points SIG_SHORT w (map_option (\<lambda>r. 100 - r) r) = rsi_points SIG_LONG w r" for r
    by (cases r) (auto simp: rsi_points_def)
  with Some show ?thesis
    by (simp add: momentum_score_def mirror_features_def Let_def split: option.split)
qed (simp add: momentum_score_def)

lemma volume_mirror [simp]:
  "volume_score w (map_option mirror_features f) = volume_score w f"
  "volume_available (map_option mirror_features f) = volume_available f"
  by (cases f; simp add: volume_score_def volume_available_def mirror_features_def)+

lemma direction_components_mirror:
  "direction_components cal SIG_SHORT w (mirror_direction ev) = direction_components cal SIG_LONG w ev"
  by (simp add: direction_components_def mirror_direction_def regime_score_mirror trend_score_mirror
      structure_score_mirror retracement_mirror momentum_score_mirror)

end
