(* ===== verification/Timing.thy ===== *)
theory Timing
  imports Direction
begin

text \<open>
  \<open>engine/signals/timing.py\<close>: the authority check of the cycle score
  (\<open>extract_xauusd_phase3a_score\<close>) and the timing scores of both sides
  (\<open>calculate_xauusd_dual_timing\<close>).
\<close>

section \<open>The cycle score\<close>

datatype cycle_status = CY_LEGACY_REFERENCE | CY_PENDING_DATA | CY_CANDIDATE_NOT_FROZEN | CY_PRODUCTION_FROZEN

fun cycle_status_value :: "cycle_status \<Rightarrow> string" where
  "cycle_status_value CY_LEGACY_REFERENCE = ''LEGACY_REFERENCE''"
| "cycle_status_value CY_PENDING_DATA = ''PENDING_DATA''"
| "cycle_status_value CY_CANDIDATE_NOT_FROZEN = ''CANDIDATE_NOT_FROZEN''"
| "cycle_status_value CY_PRODUCTION_FROZEN = ''PRODUCTION_FROZEN''"

record cycle_profile =
  cp_name :: string
  cp_status :: cycle_status
  cp_target :: "string option"
  cp_timeframe :: "string option"

text \<open>
  The fields of a cycle snapshot that the engines read; its session, swing and calendar
  contexts are summed up in the score.
\<close>

record macro_context =
  is_in_blackout :: bool
  minutes_to_next_event :: "int option"
  minutes_since_last_event :: "int option"
  active_event_name :: "string option"
  point_in_time_value :: "string option"
  is_feed_healthy :: bool

record cycle_snapshot =
  cy_timestamp :: datetime
  cy_macro :: "macro_context option"
  cy_version :: string
  cy_profile_name :: string
  cy_status :: string
  cy_score :: rat

text \<open>\<open>str.lower()\<close> on ASCII text.\<close>

definition py_lower :: "string \<Rightarrow> string" where
  "py_lower = map (\<lambda>c. let n = of_char c :: nat in if 65 \<le> n \<and> n \<le> 90 then char_of (n + 32) else c)"

text \<open>The guards of the code, in order; each failing one yields 0.\<close>

definition cycle_authority :: "cycle_snapshot \<Rightarrow> cycle_profile \<Rightarrow> string \<Rightarrow> bool" where
  "cycle_authority cy cp timeframe \<longleftrightarrow>
     normalize_xauusd_target (cp_target cp) = Inr ''XAUUSD'' \<and>
     cp_status cp = CY_PRODUCTION_FROZEN \<and>
     cy_profile_name cy = cp_name cp \<and>
     cy_status cy = cycle_status_value (cp_status cp) \<and>
     (case cp_timeframe cp of None \<Rightarrow> False | Some tf \<Rightarrow>
        py_strip tf \<noteq> [] \<and> py_strip timeframe \<noteq> [] \<and>
        py_lower (py_strip tf) = py_lower (py_strip timeframe))"

definition extract_xauusd_phase3a_score ::
  "cycle_snapshot option \<Rightarrow> cycle_profile option \<Rightarrow> rat \<Rightarrow> string \<Rightarrow> rat" where
  "extract_xauusd_phase3a_score cycle profile max_points timeframe =
     (case (cycle, profile) of
        (Some cy, Some cp) \<Rightarrow> if cycle_authority cy cp timeframe then clamp_score max_points (cy_score cy) else 0
      | _ \<Rightarrow> 0)"

section \<open>Timing\<close>

record timing_weights =
  w_zone :: rat
  w_rev :: rat
  w_turn :: rat
  w_p3a :: rat
  w_resp :: rat

definition timing_weights_of :: "bool \<Rightarrow> side_timing_policy option \<Rightarrow> timing_weights" where
  "timing_weights_of calibrated pol =
     (case (calibrated, pol) of
        (True, Some p) \<Rightarrow> \<lparr>w_zone = threshold (weight_entry_zone p), w_rev = threshold (weight_reversal_confirmation_15m p),
           w_turn = threshold (weight_momentum_turn_15m_1h p), w_p3a = threshold (weight_phase3a p),
           w_resp = threshold (weight_volume_response p)\<rparr>
      | _ \<Rightarrow> \<lparr>w_zone = 25, w_rev = 25, w_turn = 20, w_p3a = 20, w_resp = 10\<rparr>)"

definition zone_available :: "candle option \<Rightarrow> feature_snapshot option \<Rightarrow> bool" where
  "zone_available c features =
     (case (c, features) of (Some _, Some f) \<Rightarrow> truthy (atr14 f) | _ \<Rightarrow> False)"

definition entry_zone_score :: "rat \<Rightarrow> candle option \<Rightarrow> feature_snapshot option \<Rightarrow> rat" where
  "entry_zone_score w co features =
     (case (co, features) of
        (Some c, Some f) \<Rightarrow>
          if \<not> truthy (atr14 f) then 0
          else let atr = fround (the (atr14 f));
                   close_p = fround (num_value (c_close c));
                   ref_p = (if truthy (ema20 f) then fround (the (ema20 f)) else close_p);
                   dist = (if atr > 0 then fdiv \<bar>fsub close_p ref_p\<bar> atr else 999)
               in if dist \<le> fround (1 / 2) then w
                  else if dist \<le> 1 then fmul w (fround (3 / 5))
                  else fmul w (fround (1 / 5))
      | _ \<Rightarrow> 0)"

definition reversal_score :: "signal_side \<Rightarrow> rat \<Rightarrow> candle option \<Rightarrow> rat" where
  "reversal_score side w co =
     (case co of
        None \<Rightarrow> 0
      | Some c \<Rightarrow>
          let o_p = fround (num_value (c_open c)); h_p = fround (num_value (c_high c));
              l_p = fround (num_value (c_low c)); c_p = fround (num_value (c_close c));
              span = fsub h_p l_p
          in if span > 0
             then (if side = SIG_LONG
                   then (if fdiv (fsub (min o_p c_p) l_p) span \<ge> fround (35 / 100) \<and>
                            fdiv (fsub c_p l_p) span \<ge> fround (60 / 100) then w
                         else if c_p > o_p then fmul w (fround (3 / 5)) else 0)
                   else (if fdiv (fsub h_p (max o_p c_p)) span \<ge> fround (35 / 100) \<and>
                            fdiv (fsub h_p c_p) span \<ge> fround (60 / 100) then w
                         else if c_p < o_p then fmul w (fround (3 / 5)) else 0))
             else 0)"

definition turn_score :: "signal_side \<Rightarrow> rat \<Rightarrow> feature_snapshot option \<Rightarrow> feature_snapshot option \<Rightarrow> rat" where
  "turn_score side w features features_1h =
     (case features of
        None \<Rightarrow> 0
      | Some f \<Rightarrow>
          let a = (case rsi14 f of
                     None \<Rightarrow> 0
                   | Some x \<Rightarrow>
                       if side = SIG_LONG
                       then (if 45 \<le> x \<and> x \<le> 65 then fadd 0 (fmul w (fround (1 / 2)))
                             else if x < 45 \<and> truthy (roc12 f) \<and> the (roc12 f) > 0
                             then fadd 0 (fmul w (fround (3 / 10))) else 0)
                       else (if 35 \<le> x \<and> x \<le> 55 then fadd 0 (fmul w (fround (1 / 2)))
                             else if x > 55 \<and> truthy (roc12 f) \<and> the (roc12 f) < 0
                             then fadd 0 (fmul w (fround (3 / 10))) else 0));
              rsi_1h = (case features_1h of None \<Rightarrow> None | Some g \<Rightarrow> rsi14 g)
          in (case rsi_1h of
                None \<Rightarrow> a
              | Some y \<Rightarrow>
                  if side = SIG_LONG \<and> y \<ge> 45 then fadd a (fmul w (fround (1 / 2)))
                  else if side = SIG_SHORT \<and> y \<le> 55 then fadd a (fmul w (fround (1 / 2)))
                  else a))"

record timing_evidence =
  tv_15m :: "feature_snapshot option"
  tv_1h :: "feature_snapshot option"
  tv_cycle :: "cycle_snapshot option"
  tv_cycle_profile :: "cycle_profile option"

definition timing_components ::
  "bool \<Rightarrow> signal_side \<Rightarrow> timing_weights \<Rightarrow> candle option \<Rightarrow> timing_evidence \<Rightarrow> component_score list" where
  "timing_components cal side w co ev =
     (let p3a = extract_xauusd_phase3a_score (tv_cycle ev) (tv_cycle_profile ev) 100 ''15m'' in
     [component cal ''Entry Zone Proximity'' (round2 (entry_zone_score (w_zone w) co (tv_15m ev))) (w_zone w)
        (zone_available co (tv_15m ev)),
      component cal ''15m Reversal Confirmation'' (round2 (reversal_score side (w_rev w) co)) (w_rev w) (co \<noteq> None),
      component cal ''15m + 1H Momentum Turn'' (round2 (turn_score side (w_turn w) (tv_15m ev) (tv_1h ev))) (w_turn w)
        (tv_15m ev \<noteq> None),
      component cal ''Phase 3A Cycle Timing'' (round2 (fmul p3a (fdiv (w_p3a w) 100))) (w_p3a w) (p3a > 0),
      component cal ''Volume Response'' (round2 (volume_score (w_resp w) (tv_15m ev))) (w_resp w)
        (volume_available (tv_15m ev))])"

text \<open>The prices of the trigger candle must be finite for the float arithmetic of this model.\<close>

definition finite_candle :: "candle \<Rightarrow> bool" where
  "finite_candle c \<longleftrightarrow> finite_num (c_open c) \<and> finite_num (c_high c) \<and> finite_num (c_low c) \<and> finite_num (c_close c)"

definition calculate_xauusd_dual_timing ::
  "candle option \<Rightarrow> timing_evidence \<Rightarrow> signal_profile option \<Rightarrow> dual_scores result" where
  "calculate_xauusd_dual_timing co ev profile =
     rbind (profile_calibrated profile) (\<lambda>cal.
     if (case co of None \<Rightarrow> False | Some c \<Rightarrow> \<not> finite_candle c) then Inl NonFiniteOperand
     else Inr
       \<lparr>ds_long = side_result cal SIG_LONG (profile_threshold threshold_ready_timing long_gate profile)
          (timing_components cal SIG_LONG (timing_weights_of cal (map_option long_timing_policy profile)) co ev),
        ds_short = side_result cal SIG_SHORT (profile_threshold threshold_ready_timing short_gate profile)
          (timing_components cal SIG_SHORT (timing_weights_of cal (map_option short_timing_policy profile)) co ev)\<rparr>)"

lemmas [eval_defs] = py_lower_def cycle_authority_def extract_xauusd_phase3a_score_def timing_weights_of_def
  zone_available_def entry_zone_score_def reversal_score_def turn_score_def timing_components_def
  finite_candle_def calculate_xauusd_dual_timing_def

section \<open>Authority of the cycle score\<close>

lemma phase3a_needs_authority:
  "extract_xauusd_phase3a_score cycle profile m tf \<noteq> 0 \<Longrightarrow>
     \<exists>cy cp. cycle = Some cy \<and> profile = Some cp \<and> cycle_authority cy cp tf"
  by (auto simp: extract_xauusd_phase3a_score_def split: option.splits if_splits)

section \<open>The mirror of the evidence\<close>

definition neg_num :: "pynum \<Rightarrow> pynum" where
  "neg_num n = (case n of Fin x \<Rightarrow> Fin (- x) | _ \<Rightarrow> n)"

lemma neg_num_simps [simp]: "num_value (neg_num n) = - num_value n" "finite_num (neg_num n) = finite_num n"
  by (cases n; simp add: neg_num_def)+

definition mirror_candle :: "candle \<Rightarrow> candle" where
  "mirror_candle c = c\<lparr>c_open := neg_num (c_open c), c_high := neg_num (c_low c),
     c_low := neg_num (c_high c), c_close := neg_num (c_close c)\<rparr>"

definition mirror_timing :: "timing_evidence \<Rightarrow> timing_evidence" where
  "mirror_timing ev = ev\<lparr>tv_15m := map_option mirror_features (tv_15m ev), tv_1h := map_option mirror_features (tv_1h ev)\<rparr>"

lemma zone_available_mirror:
  "zone_available (map_option mirror_candle co) (map_option mirror_features f) = zone_available co f"
  by (cases co; cases f) (simp_all add: zone_available_def mirror_features_def)

lemma entry_zone_score_mirror:
  "entry_zone_score w (map_option mirror_candle co) (map_option mirror_features f) = entry_zone_score w co f"
proof (cases co)
  case (Some c)
  show ?thesis
  proof (cases f)
    case f: (Some q)
    have neg: "\<bar>fsub (- x) (- y)\<bar> = \<bar>fsub x y\<bar>" for x y
      using flt.rnd_minus [of "x - y"] by (simp add: fsub_def)
    show ?thesis
      by (cases "ema20 q"; cases "atr14 q")
        (simp_all add: Some f entry_zone_score_def mirror_candle_def mirror_features_def truthy_def Let_def
          flt.rnd_minus neg)
  qed (simp add: Some entry_zone_score_def)
qed (simp add: entry_zone_score_def)

lemma reversal_score_mirror:
  "reversal_score SIG_SHORT w (map_option mirror_candle co) = reversal_score SIG_LONG w co"
proof (cases co)
  case (Some c)
  have mx: "max (- x) (- y) = - min x y" for x y :: rat by (simp add: min_def max_def)
  from Some show ?thesis
    by (simp add: reversal_score_def mirror_candle_def Let_def flt.rnd_minus fsub_minus mx)
qed (simp add: reversal_score_def)

lemma turn_score_mirror:
  "turn_score SIG_SHORT w (map_option mirror_features f) (map_option mirror_features g) = turn_score SIG_LONG w f g"
proof (cases f)
  case (Some q)
  have r: "(case map_option mirror_features g of None \<Rightarrow> None | Some g \<Rightarrow> rsi14 g) =
      map_option (\<lambda>r. 100 - r) (case g of None \<Rightarrow> None | Some g \<Rightarrow> rsi14 g)"
    by (cases g) (simp_all add: mirror_features_def)
  show ?thesis unfolding turn_score_def Some option.case option.map r
    by (cases "rsi14 q"; cases "roc12 q"; cases "case g of None \<Rightarrow> None | Some g \<Rightarrow> rsi14 g")
      (auto simp: mirror_features_def truthy_def Let_def)
qed (simp add: turn_score_def)

lemma timing_components_mirror:
  "timing_components cal SIG_SHORT w (map_option mirror_candle co) (mirror_timing ev) = timing_components cal SIG_LONG w co ev"
  by (simp add: timing_components_def mirror_timing_def zone_available_mirror entry_zone_score_mirror
      reversal_score_mirror turn_score_mirror)

end
