(* ===== verification/Signal_Engine.thy ===== *)
theory Signal_Engine
  imports Signal_Gate Timing "HOL-Library.Multiset"
begin

text \<open>
  \<open>engine/signals/engine.py\<close>, class \<open>XauUsdSignalEngine\<close>: the point-in-time filter, the
  decision time, the runtime health it derives, both scores, the gates, the two layers of the
  decision and, from \<open>explainer.py\<close>, the segregated explanation.
\<close>

section \<open>Point in time\<close>

fun pit_walk :: "int \<Rightarrow> candle list \<Rightarrow> candle list \<times> bool" where
  "pit_walk t [] = ([], False)"
| "pit_walk t (c # cs) =
     (let (eligible, unclosed) = pit_walk t cs in
      if assume_utc (timestamp_close c) > t then (eligible, unclosed)
      else if \<not> is_closed c then (eligible, True)
      else (c # eligible, unclosed))"

definition filter_pit_candles :: "candle list option \<Rightarrow> datetime \<Rightarrow> candle list \<times> bool" where
  "filter_pit_candles candles as_of =
     (case candles of None \<Rightarrow> ([], False) | Some cs \<Rightarrow> pit_walk (assume_utc as_of) cs)"

lemma pit_walk_filter:
  "pit_walk t cs = (filter (\<lambda>c. assume_utc (timestamp_close c) \<le> t \<and> is_closed c) cs,
     \<exists>c \<in> set cs. assume_utc (timestamp_close c) \<le> t \<and> \<not> is_closed c)"
  by (induction cs) (auto simp: Let_def split: prod.split)

definition decision_timestamp :: "candle list \<Rightarrow> datetime option \<Rightarrow> int result" where
  "decision_timestamp c15 as_of =
     (case as_of of
        Some t \<Rightarrow> Inr (assume_utc t)
      | None \<Rightarrow>
          if c15 = [] then Inl ValueError
          else (let closed = filter is_closed c15 in
                Inr (assume_utc (timestamp_close (if closed = [] then last c15 else last closed)))))"

section \<open>The decision\<close>

record signal_request =
  sr_15m :: "candle list"
  sr_1h :: "candle list option"
  sr_4h :: "candle list option"
  sr_1d :: "candle list option"
  sr_regime :: "regime_result option"
  sr_features_15m :: "feature_snapshot option"
  sr_features_1h :: "feature_snapshot option"
  sr_features_4h :: "feature_snapshot option"
  sr_features_1d :: "feature_snapshot option"
  sr_structure :: "structure_result option"
  sr_cycle :: "cycle_snapshot option"
  sr_cycle_profile :: "cycle_profile option"
  sr_health :: "runtime_feed_health option"
  sr_profile :: "signal_profile option"
  sr_instrument :: "string option"
  sr_timeframe :: string
  sr_as_of :: "datetime option"

definition direction_evidence_of :: "signal_request \<Rightarrow> direction_evidence" where
  "direction_evidence_of sr = \<lparr>ev_regime = sr_regime sr, ev_15m = sr_features_15m sr, ev_1h = sr_features_1h sr,
     ev_4h = sr_features_4h sr, ev_1d = sr_features_1d sr, ev_structure = sr_structure sr\<rparr>"

definition timing_evidence_of :: "signal_request \<Rightarrow> timing_evidence" where
  "timing_evidence_of sr = \<lparr>tv_15m = sr_features_15m sr, tv_1h = sr_features_1h sr,
     tv_cycle = sr_cycle sr, tv_cycle_profile = sr_cycle_profile sr\<rparr>"

text \<open>The reason that is published: one constructor per message of the code.\<close>

datatype publication_reason =
    SafetyHold "gate_reason list"
  | GovernanceLock signal_state user_decision
  | PendingCalibration signal_state user_decision
  | CandidateReason resolution

record explanation =
  ex_long_pos :: "component_score list"
  ex_long_neg :: "component_score list"
  ex_short_pos :: "component_score list"
  ex_short_neg :: "component_score list"
  ex_hard_gate :: "gate_reason list"
  ex_candidate :: resolution
  ex_publication :: publication_reason

record signal_decision =
  sd_timestamp :: int
  sd_instrument :: string
  sd_timeframe :: string
  sd_state :: signal_state
  sd_decision :: user_decision
  sd_candidate :: candidate_gate_result
  sd_direction :: dual_scores
  sd_timing :: dual_scores
  sd_hard_gate :: hard_gate_evaluation
  sd_explanation :: explanation
  sd_policy_fp :: string
  sd_profile_name :: string
  sd_calibration :: string

text \<open>The health the gates see: an unclosed candle at or before the decision time marks it.\<close>

definition effective_health :: "runtime_feed_health option \<Rightarrow> bool \<Rightarrow> runtime_feed_health" where
  "effective_health health unclosed =
     (let rfh = (case health of Some h \<Rightarrow> h | None \<Rightarrow> default_feed_health)
      in if unclosed then rfh\<lparr>is_unclosed_candle := True\<rparr> else rfh)"

text \<open>Layer B: what is published of a candidate.\<close>

definition publish :: "signal_profile \<Rightarrow> hard_gate_evaluation \<Rightarrow> candidate_gate_result \<Rightarrow> signal_state \<times> user_decision" where
  "publish sp hg cand =
     (if is_production_authorized sp then (cg_state cand, cg_decision cand)
      else if is_blocked hg then (FORCE_WAIT, WAIT)
      else (NO_TRADE, WAIT))"

text \<open>The components that count, split at three fifths of their maximum.\<close>

definition favourable :: "component_score \<Rightarrow> bool" where
  "favourable c \<longleftrightarrow> co_score c \<ge> fmul (co_max c) (fround (3 / 5))"

definition explain_side :: "side_score \<Rightarrow> side_score \<Rightarrow> component_score list \<times> component_score list" where
  "explain_side dir tim =
     (let cs = filter (\<lambda>c. co_max c > 0) (sc_components dir @ sc_components tim)
      in (filter favourable cs, filter (\<lambda>c. \<not> favourable c) cs))"

definition published_reason ::
  "hard_gate_evaluation \<Rightarrow> candidate_gate_result \<Rightarrow> bool \<Rightarrow> phase4_calibration_status \<Rightarrow> publication_reason" where
  "published_reason hg cand authorized status =
     (if is_blocked hg then SafetyHold (block_reasons hg)
      else if \<not> authorized
      then (if py_upper (py_strip (phase4_calibration_value status)) \<in>
                {''REVALIDATED_RESEARCH'', ''CANDIDATE_NOT_FROZEN'', ''FROZEN''}
            then GovernanceLock (cg_state cand) (cg_decision cand)
            else PendingCalibration (cg_state cand) (cg_decision cand))
      else CandidateReason (cg_reason cand))"

definition explain_dual_side_signal ::
  "dual_scores \<Rightarrow> dual_scores \<Rightarrow> hard_gate_evaluation \<Rightarrow> candidate_gate_result \<Rightarrow> bool \<Rightarrow> phase4_calibration_status \<Rightarrow> explanation" where
  "explain_dual_side_signal dir tim hg cand authorized status =
     (let l = explain_side (ds_long dir) (ds_long tim); s = explain_side (ds_short dir) (ds_short tim)
      in \<lparr>ex_long_pos = fst l, ex_long_neg = snd l, ex_short_pos = fst s, ex_short_neg = snd s,
          ex_hard_gate = block_reasons hg, ex_candidate = cg_reason cand,
          ex_publication = published_reason hg cand authorized status\<rparr>)"

text \<open>The closed 15m candles at time \<open>t\<close>, and whether some feed has an unclosed one by then.\<close>

definition pit_context :: "signal_request \<Rightarrow> int \<Rightarrow> candle list \<times> bool" where
  "pit_context sr t =
     (fst (filter_pit_candles (Some (sr_15m sr)) (Aware t)),
      snd (filter_pit_candles (Some (sr_15m sr)) (Aware t)) \<or>
      snd (filter_pit_candles (sr_1h sr) (Aware t)) \<or>
      snd (filter_pit_candles (sr_4h sr) (Aware t)) \<or>
      snd (filter_pit_candles (sr_1d sr) (Aware t)))"

definition feed_reported_unhealthy :: "runtime_feed_health option \<Rightarrow> bool" where
  "feed_reported_unhealthy health = (case health of Some h \<Rightarrow> primary_15m h \<noteq> HEALTHY | None \<Rightarrow> False)"

text \<open>Gates, candidate (Layer A), publication (Layer B) and explanation for given scores.\<close>

definition decide ::
  "signal_profile \<Rightarrow> dual_scores \<Rightarrow> dual_scores \<Rightarrow> runtime_feed_health \<Rightarrow> int \<Rightarrow> string \<Rightarrow> string \<Rightarrow> string \<Rightarrow>
    signal_decision result" where
  "decide sp dir tim rfh t instrument timeframe policy_fp =
     (let hg = evaluate_xauusd_hard_gates (Some rfh) (Some (sp_feed_policy sp)) in
      rbind (evaluate_xauusd_candidate_gate (ds_long dir) (ds_short dir) (ds_long tim) (ds_short tim) hg (Some sp))
        (\<lambda>cand. Inr \<lparr>sd_timestamp = t, sd_instrument = instrument, sd_timeframe = timeframe,
           sd_state = fst (publish sp hg cand), sd_decision = snd (publish sp hg cand),
           sd_candidate = cand, sd_direction = dir, sd_timing = tim, sd_hard_gate = hg,
           sd_explanation = explain_dual_side_signal dir tim hg cand (is_production_authorized sp) (sp_calibration sp),
           sd_policy_fp = policy_fp, sd_profile_name = sp_name sp,
           sd_calibration = phase4_calibration_value (sp_calibration sp)\<rparr>))"

definition profile_of :: "signal_request \<Rightarrow> signal_profile" where
  "profile_of sr = (case sr_profile sr of Some p \<Rightarrow> p | None \<Rightarrow> uncalibrated_xauusd_signal_profile)"

definition analyze :: "digest \<Rightarrow> signal_request \<Rightarrow> signal_decision result" where
  "analyze sha sr =
     rbind (normalize_xauusd_target (sr_instrument sr)) (\<lambda>instrument.
     let sp = profile_of sr in
     rbind (compute_phase4_policy_fingerprint sha sp) (\<lambda>policy_fp.
     rbind (decision_timestamp (sr_15m sr) (sr_as_of sr)) (\<lambda>t.
     let pit15 = fst (pit_context sr t);
         unclosed = snd (pit_context sr t);
         latest = (if pit15 = [] then None else Some (last pit15))
     in if pit15 = [] \<and> \<not> unclosed \<and> \<not> feed_reported_unhealthy (sr_health sr) then Inl ValueError
        else rbind (calculate_xauusd_dual_direction (direction_evidence_of sr) (Some sp)) (\<lambda>dir.
             rbind (calculate_xauusd_dual_timing latest (timing_evidence_of sr) (Some sp)) (\<lambda>tim.
             decide sp dir tim
               (effective_health (sr_health sr) (unclosed \<or> (latest \<noteq> None \<and> \<not> is_closed (the latest))))
               t instrument (sr_timeframe sr) policy_fp)))))"

lemmas [eval_defs] = filter_pit_candles_def decision_timestamp_def direction_evidence_of_def timing_evidence_of_def
  effective_health_def publish_def favourable_def explain_side_def published_reason_def explain_dual_side_signal_def
  pit_context_def feed_reported_unhealthy_def decide_def profile_of_def analyze_def

section \<open>Lemmas\<close>

lemma publish_waits: "snd (publish sp hg cand) = WAIT \<and> fst (publish sp hg cand) \<in> {FORCE_WAIT, NO_TRADE}"
  by (simp add: publish_def is_production_authorized_def)

lemma publish_forced: "fst (publish sp hg cand) = FORCE_WAIT \<longleftrightarrow> is_blocked hg"
  by (simp add: publish_def is_production_authorized_def)

lemma normalize_target_canonical: "normalize_xauusd_target x = Inr i \<Longrightarrow> i = ''XAUUSD''"
  by (auto simp: normalize_xauusd_target_def split: option.splits if_splits)

text \<open>A successful analysis is a decision for some time, scores and health.\<close>

lemma analyze_Inr:
  assumes "analyze sha sr = Inr d"
  obtains t latest dir tim rfh fp where
    "decision_timestamp (sr_15m sr) (sr_as_of sr) = Inr t"
    "latest = (if fst (pit_context sr t) = [] then None else Some (last (fst (pit_context sr t))))"
    "calculate_xauusd_dual_direction (direction_evidence_of sr) (Some (profile_of sr)) = Inr dir"
    "calculate_xauusd_dual_timing latest (timing_evidence_of sr) (Some (profile_of sr)) = Inr tim"
    "rfh = effective_health (sr_health sr) (snd (pit_context sr t) \<or> (latest \<noteq> None \<and> \<not> is_closed (the latest)))"
    "compute_phase4_policy_fingerprint sha (profile_of sr) = Inr fp"
    "decide (profile_of sr) dir tim rfh t ''XAUUSD'' (sr_timeframe sr) fp = Inr d"
    "normalize_xauusd_target (sr_instrument sr) = Inr ''XAUUSD''"
    "fst (pit_context sr t) \<noteq> [] \<or> snd (pit_context sr t) \<or> feed_reported_unhealthy (sr_health sr)"
proof -
  from assms obtain i fp t where i: "normalize_xauusd_target (sr_instrument sr) = Inr i"
    and fp: "compute_phase4_policy_fingerprint sha (profile_of sr) = Inr fp"
    and t: "decision_timestamp (sr_15m sr) (sr_as_of sr) = Inr t"
    and rest: "(let pit15 = fst (pit_context sr t); unclosed = snd (pit_context sr t);
         latest = (if pit15 = [] then None else Some (last pit15))
     in if pit15 = [] \<and> \<not> unclosed \<and> \<not> feed_reported_unhealthy (sr_health sr) then Inl ValueError
        else rbind (calculate_xauusd_dual_direction (direction_evidence_of sr) (Some (profile_of sr))) (\<lambda>dir.
             rbind (calculate_xauusd_dual_timing latest (timing_evidence_of sr) (Some (profile_of sr))) (\<lambda>tim.
             decide (profile_of sr) dir tim
               (effective_health (sr_health sr) (unclosed \<or> (latest \<noteq> None \<and> \<not> is_closed (the latest))))
               t i (sr_timeframe sr) fp))) = Inr d"
    unfolding analyze_def rbind_Inr_iff Let_def [of "profile_of sr"] by blast
  define latest where "latest = (if fst (pit_context sr t) = [] then None else Some (last (fst (pit_context sr t))))"
  from rest obtain dir tim where
    "calculate_xauusd_dual_direction (direction_evidence_of sr) (Some (profile_of sr)) = Inr dir"
    "calculate_xauusd_dual_timing latest (timing_evidence_of sr) (Some (profile_of sr)) = Inr tim"
    "decide (profile_of sr) dir tim (effective_health (sr_health sr)
       (snd (pit_context sr t) \<or> (latest \<noteq> None \<and> \<not> is_closed (the latest)))) t i (sr_timeframe sr) fp = Inr d"
    "fst (pit_context sr t) \<noteq> [] \<or> snd (pit_context sr t) \<or> feed_reported_unhealthy (sr_health sr)"
    unfolding Let_def latest_def [symmetric] by (simp only: rbind_Inr_iff sum.distinct split: if_splits; blast)
  with t fp i normalize_target_canonical [OF i] latest_def show ?thesis by (intro that) simp_all
qed

text \<open>An analysis with data is the decision on its scores.\<close>
lemma analyze_step:
  assumes "normalize_xauusd_target (sr_instrument sr) = Inr i"
    and "compute_phase4_policy_fingerprint sha (profile_of sr) = Inr fp"
    and "decision_timestamp (sr_15m sr) (sr_as_of sr) = Inr t"
    and "latest = (if fst (pit_context sr t) = [] then None else Some (last (fst (pit_context sr t))))"
    and "fst (pit_context sr t) \<noteq> [] \<or> snd (pit_context sr t) \<or> feed_reported_unhealthy (sr_health sr)"
    and "calculate_xauusd_dual_direction (direction_evidence_of sr) (Some (profile_of sr)) = Inr dir"
    and "calculate_xauusd_dual_timing latest (timing_evidence_of sr) (Some (profile_of sr)) = Inr tim"
  shows "analyze sha sr = decide (profile_of sr) dir tim (effective_health (sr_health sr)
      (snd (pit_context sr t) \<or> (latest \<noteq> None \<and> \<not> is_closed (the latest)))) t i (sr_timeframe sr) fp"
  using assms(5) unfolding analyze_def Let_def assms(1-3) rbind_simps assms(4) [symmetric] assms(6,7) by auto

lemma decide_Inr:
  assumes "decide sp dir tim rfh t i tf fp = Inr d"
  shows "sd_hard_gate d = evaluate_xauusd_hard_gates (Some rfh) (Some (sp_feed_policy sp))"
    and "evaluate_xauusd_candidate_gate (ds_long dir) (ds_short dir) (ds_long tim) (ds_short tim) (sd_hard_gate d) (Some sp)
      = Inr (sd_candidate d)"
    and "sd_state d = fst (publish sp (sd_hard_gate d) (sd_candidate d))"
    and "sd_decision d = snd (publish sp (sd_hard_gate d) (sd_candidate d))"
    and "sd_timestamp d = t" "sd_instrument d = i" "sd_direction d = dir" "sd_timing d = tim"
  using assms by (auto simp: decide_def Let_def rbind_Inr_iff)

lemma last_pit_closed:
  "fst (pit_context sr t) \<noteq> [] \<Longrightarrow> is_closed (last (fst (pit_context sr t)))"
  using last_in_set [of "fst (pit_context sr t)"] by (auto simp: pit_context_def filter_pit_candles_def pit_walk_filter)

lemma pit_walk_future:
  "\<forall>c \<in> set late. assume_utc (timestamp_close c) > t \<Longrightarrow> pit_walk t (cs @ late) = pit_walk t cs"
  by (auto simp: pit_walk_filter filter_empty_conv)

section \<open>A sample\<close>

definition sample_direction_policy :: side_direction_policy where
  "sample_direction_policy = \<lparr>weight_regime = Some (Fin 40), weight_trend_1h = Some (Fin 0),
     weight_trend_4h = Some (Fin 0), weight_trend_1d = Some (Fin 0), weight_structure_bos = Some (Fin 40),
     weight_pullback = Some (Fin 0), weight_momentum = Some (Fin 0), weight_volume = Some (Fin 20)\<rparr>"

definition sample_timing_policy :: side_timing_policy where
  "sample_timing_policy = \<lparr>weight_entry_zone = Some (Fin 0), weight_reversal_confirmation_15m = Some (Fin 80),
     weight_momentum_turn_15m_1h = Some (Fin 0), weight_phase3a = Some (Fin 0), weight_volume_response = Some (Fin 20)\<rparr>"

definition sample_signal_profile :: signal_profile where
  "sample_signal_profile = \<lparr>sp_name = ''P'', sp_target = Some ''XAUUSD'', sp_calibration = P4_REVALIDATED_RESEARCH,
     sp_timeframe = ''15m'', long_direction_policy = sample_direction_policy,
     short_direction_policy = sample_direction_policy, long_timing_policy = sample_timing_policy,
     short_timing_policy = sample_timing_policy, long_gate = sample_thresholds, short_gate = sample_thresholds,
     sp_feed_policy = default_feed_policy, sp_details = JObj []\<rparr>"

definition healthy :: runtime_feed_health where
  "healthy = \<lparr>primary_15m = HEALTHY, primary_1h = HEALTHY, primary_4h = HEALTHY, primary_1d = HEALTHY,
     secondary_provider = HEALTHY, secondary_provider_disagreement = False, macro_blackout_feed = HEALTHY,
     is_macro_blackout = False, volume_feed = HEALTHY, phase3a_feed = HEALTHY, phase3b_feed = HEALTHY,
     is_unclosed_candle = False\<rparr>"

definition sample_signal_request :: "runtime_feed_health option \<Rightarrow> candle list \<Rightarrow> signal_request" where
  "sample_signal_request health cs = \<lparr>sr_15m = cs, sr_1h = None, sr_4h = None, sr_1d = None,
     sr_regime = Some \<lparr>rg_regime = BULL_TREND, rg_confidence = 1, rg_timestamp = Aware 0\<rparr>, sr_features_15m = None, sr_features_1h = None,
     sr_features_4h = None, sr_features_1d = None,
     sr_structure = Some ((sample_structure [])\<lparr>st_bos := BOS_BULLISH\<rparr>), sr_cycle = None, sr_cycle_profile = None,
     sr_health = health, sr_profile = Some sample_signal_profile, sr_instrument = Some ''XAUUSD'',
     sr_timeframe = ''15m'', sr_as_of = Some (Aware (900 * second))\<rparr>"

lemmas [eval_defs] = sample_thresholds_def sample_direction_policy_def sample_timing_policy_def sample_signal_profile_def
  healthy_def sample_signal_request_def

lemma conflict_rule_not_forced: "fst (conflict_rule l s) \<noteq> FORCE_WAIT"
  by (cases l; cases s) (simp_all add: conflict_rule_def)


lemma analyze_decides:
  assumes "analyze sha sr = Inr d"
  shows "\<exists>t (latest :: candle option) dir tim fp. decide (profile_of sr) dir tim (effective_health (sr_health sr)
    (snd (pit_context sr t) \<or> (latest \<noteq> None \<and> \<not> is_closed (the latest)))) t ''XAUUSD'' (sr_timeframe sr) fp = Inr d"
proof (rule analyze_Inr [OF assms])
  fix t dir tim rfh fp and latest :: "candle option"
  assume rfh: "rfh = effective_health (sr_health sr) (snd (pit_context sr t) \<or> (latest \<noteq> None \<and> \<not> is_closed (the latest)))"
    and d: "decide (profile_of sr) dir tim rfh t ''XAUUSD'' (sr_timeframe sr) fp = Inr d"
  from d show ?thesis unfolding rfh by (intro exI)
qed

lemma analyze_timestamp:
  assumes "analyze sha sr = Inr d"
  shows "decision_timestamp (sr_15m sr) (sr_as_of sr) = Inr (sd_timestamp d)"
  using assms by (elim analyze_Inr) (simp add: decide_Inr(5))

text \<open>A blocked gate is a \<open>FORCE_WAIT\<close> on both layers, and an unhealthy critical primary feed blocks.\<close>

lemma blocked_waits:
  assumes "analyze sha sr = Inr d" "is_blocked (sd_hard_gate d)"
  shows "sd_state d = FORCE_WAIT \<and> sd_decision d = WAIT \<and>
    cg_state (sd_candidate d) = FORCE_WAIT \<and> cg_decision (sd_candidate d) = WAIT"
proof -
  from analyze_decides [OF assms(1)] obtain t dir tim fp h where
    d: "decide (profile_of sr) dir tim h t ''XAUUSD'' (sr_timeframe sr) fp = Inr d" by blast
  note dd = decide_Inr [OF d]
  from candidate_gate_Inr [OF dd(2)] assms(2) show ?thesis
    by (auto simp: dd(3,4) publish_def is_production_authorized_def)
qed

lemma unhealthy_blocks:
  assumes "analyze sha sr = Inr d" "fp_primary_15m (sp_feed_policy (profile_of sr)) = CRITICAL"
    and "case sr_health sr of None \<Rightarrow> True | Some h \<Rightarrow> primary_15m h \<noteq> HEALTHY"
  shows "is_blocked (sd_hard_gate d)"
proof -
  from analyze_decides [OF assms(1)] obtain t dir tim fp u where
    d: "decide (profile_of sr) dir tim (effective_health (sr_health sr) u) t ''XAUUSD'' (sr_timeframe sr) fp = Inr d" by blast
  from assms(3) have "is_unclosed_candle (effective_health (sr_health sr) u) \<or> primary_15m (effective_health (sr_health sr) u) \<noteq> HEALTHY"
    by (auto simp: effective_health_def default_feed_health_def Let_def split: option.splits)
  with assms(2) show ?thesis
    by (auto simp: decide_Inr(1) [OF d] hard_gate_blocked_iff feeds_to_check_def Let_def)
qed

section \<open>Properties\<close>

lemma sample_analysis:
  "case analyze sample_digest (sample_signal_request (Some healthy) [bar_at 0 900 100 100 96 100]) of
     Inl e \<Rightarrow> False
   | Inr d \<Rightarrow> sd_state d = NO_TRADE \<and> sd_decision d = WAIT \<and> cg_state (sd_candidate d) = BUY_WINDOW \<and>
       cg_decision (sd_candidate d) = BUY \<and> cg_valid (sd_candidate d) \<and> \<not> is_blocked (sd_hard_gate d)"
  by (simp add: eval_defs Let_def cong: eval_congs)

text \<open>Every score of an analysis is a \<open>side_result\<close> for the calibration of the profile.\<close>

definition scored :: "bool \<Rightarrow> side_score \<Rightarrow> bool" where
  "scored cal s \<longleftrightarrow> (\<exists>side th cs. s = side_result cal side th cs)"

lemma scoredI [simp]: "scored cal (side_result cal side th cs)"
  by (auto simp: scored_def)

lemma scored_valid: "scored cal s \<Longrightarrow> sc_valid s = cal"
  by (auto simp: scored_def)

lemma scored_value:
  "scored cal s \<Longrightarrow> (case total_score s of None \<Rightarrow> \<not> sc_valid s | Some x \<Rightarrow> sc_valid s \<and> 0 \<le> x \<and> x \<le> 100)"
  using clamp_score_bounds by (auto simp: scored_def side_result_def Let_def)

lemma scored_or_zero: "scored cal s \<Longrightarrow> sc_valid s \<Longrightarrow> score_or_zero s = the (total_score s)"
  by (auto simp: scored_def side_result_def score_or_zero_def Let_def split: if_splits)

lemma score_results:
  assumes "calculate_xauusd_dual_direction ev p = Inr dir" "calculate_xauusd_dual_timing co tv p = Inr tim"
  obtains cal where "profile_calibrated p = Inr cal"
    "\<forall>s \<in> {ds_long dir, ds_short dir, ds_long tim, ds_short tim}. scored cal s"
  using assms unfolding calculate_xauusd_dual_direction_def calculate_xauusd_dual_timing_def rbind_Inr_iff
  by (auto split: if_splits)

text \<open>
  C30. Nothing is published while production authority is off: every analysis publishes WAIT, as
  \<open>FORCE_WAIT\<close> exactly when the hard gate blocks and as \<open>NO_TRADE\<close> otherwise, whatever the
  candidate is; a blocked gate forces the candidate to wait as well.
\<close>

theorem publication_always_waits:
  assumes "analyze sha sr = Inr d"
  shows "sd_decision d = WAIT \<and>
    sd_state d = (if is_blocked (sd_hard_gate d) then FORCE_WAIT else NO_TRADE) \<and>
    (cg_state (sd_candidate d) = FORCE_WAIT \<longleftrightarrow> is_blocked (sd_hard_gate d))"
proof -
  from assms obtain dir tim rfh t fp where
    d: "decide (profile_of sr) dir tim rfh t ''XAUUSD'' (sr_timeframe sr) fp = Inr d"
    by (elim analyze_Inr) blast
  note dd = decide_Inr [OF d]
  have "cg_state (sd_candidate d) \<noteq> FORCE_WAIT"
    if "(cg_state (sd_candidate d), cg_decision (sd_candidate d)) = conflict_rule l s" for l s
    using that conflict_rule_not_forced [of l s] by (metis fst_conv)
  with candidate_gate_Inr [OF dd(2)] have "cg_state (sd_candidate d) = FORCE_WAIT \<longleftrightarrow> is_blocked (sd_hard_gate d)"
    by auto
  with dd(3,4) show ?thesis by (simp add: publish_def is_production_authorized_def)
qed

theorem publication_always_waits_witness:
  "case analyze sample_digest (sample_signal_request (Some healthy) [bar_at 0 900 100 100 96 100]) of
     Inl e \<Rightarrow> False
   | Inr d \<Rightarrow> cg_decision (sd_candidate d) = BUY \<and> sd_decision d = WAIT"
  using sample_analysis publication_always_waits
    [of sample_digest "sample_signal_request (Some healthy) [bar_at 0 900 100 100 96 100]"]
  by (auto split: sum.splits)

text \<open>
  C31. Missing evidence fails closed: without any runtime health, with an unhealthy primary feed,
  or with an unclosed candle at or before the decision time on any timeframe, the analysis (when
  it does not raise) ends in \<open>FORCE_WAIT\<close> on both layers, for every profile that keeps the
  primary feed critical.
\<close>

theorem missing_evidence_forces_wait:
  assumes "analyze sha sr = Inr d" and "fp_primary_15m (sp_feed_policy (profile_of sr)) = CRITICAL"
    and "(case sr_health sr of None \<Rightarrow> True | Some h \<Rightarrow> primary_15m h \<noteq> HEALTHY) \<or>
      (\<exists>c \<in> set (sr_15m sr). assume_utc (timestamp_close c) \<le> sd_timestamp d \<and> \<not> is_closed c) \<or>
      (\<exists>cs \<in> set_option (sr_1h sr) \<union> set_option (sr_4h sr) \<union> set_option (sr_1d sr).
         \<exists>c \<in> set cs. assume_utc (timestamp_close c) \<le> sd_timestamp d \<and> \<not> is_closed c)"
  shows "sd_state d = FORCE_WAIT \<and> sd_decision d = WAIT \<and>
    cg_state (sd_candidate d) = FORCE_WAIT \<and> cg_decision (sd_candidate d) = WAIT"
proof -
  from analyze_decides [OF assms(1)] obtain t dir tim fp and latest :: "candle option" where
    d: "decide (profile_of sr) dir tim (effective_health (sr_health sr)
      (snd (pit_context sr t) \<or> (latest \<noteq> None \<and> \<not> is_closed (the latest)))) t ''XAUUSD'' (sr_timeframe sr) fp = Inr d"
    by (elim exE)
  define rfh where rfh: "rfh = effective_health (sr_health sr)
      (snd (pit_context sr t) \<or> (latest \<noteq> None \<and> \<not> is_closed (the latest)))"
  note d = d [folded rfh]
  note dd = decide_Inr [OF d]
  have "is_unclosed_candle rfh \<or> primary_15m rfh \<noteq> HEALTHY"
  proof (cases "snd (pit_context sr t)")
    case True
    then show ?thesis by (simp add: rfh effective_health_def Let_def)
  next
    case False
    then have "\<not> (\<exists>c \<in> set (sr_15m sr). assume_utc (timestamp_close c) \<le> t \<and> \<not> is_closed c)"
      "\<not> (\<exists>cs \<in> set_option (sr_1h sr) \<union> set_option (sr_4h sr) \<union> set_option (sr_1d sr).
         \<exists>c \<in> set cs. assume_utc (timestamp_close c) \<le> t \<and> \<not> is_closed c)"
      by (auto simp: pit_context_def filter_pit_candles_def pit_walk_filter)
    with assms(3) have "case sr_health sr of None \<Rightarrow> True | Some h \<Rightarrow> primary_15m h \<noteq> HEALTHY"
      unfolding dd(5) by blast
    then show ?thesis by (auto simp: rfh effective_health_def default_feed_health_def Let_def split: option.splits)
  qed
  with assms(2) have b: "is_blocked (sd_hard_gate d)"
    by (auto simp: dd(1) hard_gate_blocked_iff feeds_to_check_def Let_def)
  from blocked_waits [OF assms(1) b] show ?thesis .
qed

theorem missing_evidence_forces_wait_witness:
  "case analyze sample_digest (sample_signal_request None [bar_at 0 900 100 100 96 100]) of
     Inl e \<Rightarrow> False | Inr d \<Rightarrow> sd_state d = FORCE_WAIT"
proof -
  have ok: "case analyze sample_digest (sample_signal_request None [bar_at 0 900 100 100 96 100]) of
     Inl e \<Rightarrow> False | Inr d \<Rightarrow> True"
    by (simp add: eval_defs Let_def cong: eval_congs)
  have "fp_primary_15m (sp_feed_policy (profile_of (sample_signal_request None cs))) = CRITICAL"
    "sr_health (sample_signal_request None cs) = None" for cs
    by (simp_all add: sample_signal_request_def profile_of_def sample_signal_profile_def default_feed_policy_def)
  with ok show ?thesis
    using missing_evidence_forces_wait [of sample_digest "sample_signal_request None [bar_at 0 900 100 100 96 100]"]
    by (auto split: sum.splits)
qed

text \<open>
  C3. An analysis at a given time is causal: candles of any timeframe that close after it,
  closed or not, change nothing, the policy fingerprint and the explanation included.
\<close>

theorem analysis_ignores_future:
  assumes "sr_as_of sr = Some t"
    and "\<forall>c \<in> set late15 \<union> set late1h \<union> set late4h \<union> set late1d. assume_utc t < assume_utc (timestamp_close c)"
  shows "analyze sha (sr\<lparr>sr_15m := sr_15m sr @ late15, sr_1h := map_option (\<lambda>cs. cs @ late1h) (sr_1h sr),
      sr_4h := map_option (\<lambda>cs. cs @ late4h) (sr_4h sr), sr_1d := map_option (\<lambda>cs. cs @ late1d) (sr_1d sr)\<rparr>)
    = analyze sha sr"
proof -
  let ?sr = "sr\<lparr>sr_15m := sr_15m sr @ late15, sr_1h := map_option (\<lambda>cs. cs @ late1h) (sr_1h sr),
      sr_4h := map_option (\<lambda>cs. cs @ late4h) (sr_4h sr), sr_1d := map_option (\<lambda>cs. cs @ late1d) (sr_1d sr)\<rparr>"
  have f: "filter_pit_candles (map_option (\<lambda>cs. cs @ late) co) (Aware (assume_utc t)) =
      filter_pit_candles co (Aware (assume_utc t))"
    if "\<forall>c \<in> set late. assume_utc t < assume_utc (timestamp_close c)" for late co
    using that by (cases co) (simp_all add: filter_pit_candles_def pit_walk_future)
  have "pit_context ?sr (assume_utc t) = pit_context sr (assume_utc t)"
    using assms(2) f [of late15 "Some (sr_15m sr)"] f [of late1h "sr_1h sr"] f [of late4h "sr_4h sr"] f [of late1d "sr_1d sr"]
    by (simp add: pit_context_def)
  moreover have "decision_timestamp (sr_15m ?sr) (sr_as_of ?sr) = Inr (assume_utc t)"
    "decision_timestamp (sr_15m sr) (sr_as_of sr) = Inr (assume_utc t)"
    by (simp_all add: decision_timestamp_def assms(1))
  moreover have "profile_of ?sr = profile_of sr" "direction_evidence_of ?sr = direction_evidence_of sr"
    "timing_evidence_of ?sr = timing_evidence_of sr" "sr_instrument ?sr = sr_instrument sr"
    "sr_health ?sr = sr_health sr" "sr_timeframe ?sr = sr_timeframe sr"
    by (simp_all add: profile_of_def direction_evidence_of_def timing_evidence_of_def)
  ultimately show ?thesis unfolding analyze_def by (simp only: rbind_simps)
qed

theorem analysis_ignores_future_witness:
  "analyze sample_digest (sample_signal_request (Some healthy) [bar_at 0 900 100 100 96 100, bar_at 900 1800 100 120 99 119])
    = analyze sample_digest (sample_signal_request (Some healthy) [bar_at 0 900 100 100 96 100])"
  using analysis_ignores_future [of "sample_signal_request (Some healthy) [bar_at 0 900 100 100 96 100]"
      "Aware (900 * second)" "[bar_at 900 1800 100 120 99 119]" "[]" "[]" "[]" sample_digest]
  by (simp add: sample_signal_request_def bar_at_def second_def)

text \<open>
  Scores stay in range: every score of an analysis is either absent and invalid or between 0
  and 100, and the four are valid exactly when the profile is fully configured.
\<close>

theorem analysis_score_bounds:
  assumes "analyze sha sr = Inr d"
  shows "\<forall>s \<in> {ds_long (sd_direction d), ds_short (sd_direction d), ds_long (sd_timing d), ds_short (sd_timing d)}.
    (case total_score s of None \<Rightarrow> \<not> sc_valid s | Some x \<Rightarrow> sc_valid s \<and> 0 \<le> x \<and> x \<le> 100) \<and>
    (sc_valid s \<longleftrightarrow> is_fully_configured (profile_of sr) = Inr True)"
proof -
  from assms obtain t latest dir tim rfh fp where
    dir: "calculate_xauusd_dual_direction (direction_evidence_of sr) (Some (profile_of sr)) = Inr dir"
    and tim: "calculate_xauusd_dual_timing latest (timing_evidence_of sr) (Some (profile_of sr)) = Inr tim"
    and d: "decide (profile_of sr) dir tim rfh t ''XAUUSD'' (sr_timeframe sr) fp = Inr d"
    by (elim analyze_Inr) blast
  obtain cal where cal: "profile_calibrated (Some (profile_of sr)) = Inr cal"
    and sc: "\<forall>s \<in> {ds_long dir, ds_short dir, ds_long tim, ds_short tim}. scored cal s"
    by (rule score_results [OF dir tim])
  from cal have "cal \<longleftrightarrow> is_fully_configured (profile_of sr) = Inr True"
    by (auto simp: profile_calibrated_def)
  with sc show ?thesis unfolding decide_Inr(7,8) [OF d] by (metis scored_valid scored_value)
qed

theorem analysis_score_bounds_witness:
  "case analyze sample_digest (sample_signal_request (Some healthy) [bar_at 0 900 100 100 96 100]) of
     Inl e \<Rightarrow> False
   | Inr d \<Rightarrow> sc_valid (ds_long (sd_direction d)) \<and> (\<exists>x. total_score (ds_long (sd_direction d)) = Some x \<and> x \<le> 100)"
proof -
  have "is_fully_configured (profile_of (sample_signal_request (Some healthy) cs)) = Inr True" for cs
    by (simp add: eval_defs cong: eval_congs)
  then show ?thesis
    using sample_analysis
      analysis_score_bounds [of sample_digest "sample_signal_request (Some healthy) [bar_at 0 900 100 100 96 100]"]
    by (auto split: sum.splits option.splits)
qed

text \<open>The candidate of every analysis, with the tiers and the configuration named.\<close>

lemma candidate_of_analysis:
  assumes "analyze sha sr = Inr d"
    and "l = tier_of (long_gate (profile_of sr)) (the (total_score (ds_long (sd_direction d)))) (the (total_score (ds_long (sd_timing d))))"
    and "s = tier_of (short_gate (profile_of sr)) (the (total_score (ds_short (sd_direction d)))) (the (total_score (ds_short (sd_timing d))))"
    and "configured \<longleftrightarrow> is_fully_configured (profile_of sr) = Inr True"
  shows "(cg_state (sd_candidate d), cg_decision (sd_candidate d)) =
      (if is_blocked (sd_hard_gate d) then (FORCE_WAIT, WAIT)
       else if \<not> configured then (NO_TRADE, WAIT) else conflict_rule l s) \<and>
    (\<not> is_blocked (sd_hard_gate d) \<longrightarrow> cg_valid (sd_candidate d) = configured) \<and>
    (cg_decision (sd_candidate d) = BUY \<longleftrightarrow> \<not> is_blocked (sd_hard_gate d) \<and> configured \<and> l = T_WINDOW \<and> s < T_READY) \<and>
    (cg_decision (sd_candidate d) = SELL \<longleftrightarrow> \<not> is_blocked (sd_hard_gate d) \<and> configured \<and> s = T_WINDOW \<and> l < T_READY)"
proof -
  from assms(1) obtain t latest dir tim rfh fp where
    dir: "calculate_xauusd_dual_direction (direction_evidence_of sr) (Some (profile_of sr)) = Inr dir"
    and tim: "calculate_xauusd_dual_timing latest (timing_evidence_of sr) (Some (profile_of sr)) = Inr tim"
    and d: "decide (profile_of sr) dir tim rfh t ''XAUUSD'' (sr_timeframe sr) fp = Inr d"
    by (elim analyze_Inr) blast
  note dd = decide_Inr [OF d] and gate = candidate_gate_Inr [OF decide_Inr(2) [OF d]]
  obtain cal where cal: "profile_calibrated (Some (profile_of sr)) = Inr cal"
    and sc: "\<forall>s \<in> {ds_long dir, ds_short dir, ds_long tim, ds_short tim}. scored cal s"
    by (rule score_results [OF dir tim])
  from cal assms(4) have "cal \<longleftrightarrow> configured" by (auto simp: profile_calibrated_def)
  with sc scored_valid have v: "sc_valid (ds_long dir) = configured" "sc_valid (ds_short dir) = configured"
      "sc_valid (ds_long tim) = configured" "sc_valid (ds_short tim) = configured" by auto
  have eq: "score_or_zero (ds_long dir) = the (total_score (ds_long dir))" "score_or_zero (ds_short dir) = the (total_score (ds_short dir))"
    "score_or_zero (ds_long tim) = the (total_score (ds_long tim))" "score_or_zero (ds_short tim) = the (total_score (ds_short tim))"
    if configured using that v sc by (auto intro: scored_or_zero)
  have rule: "(cg_state (sd_candidate d), cg_decision (sd_candidate d)) =
      (if is_blocked (sd_hard_gate d) then (FORCE_WAIT, WAIT)
       else if \<not> configured then (NO_TRADE, WAIT) else conflict_rule l s)"
    using gate v eq assms(4) unfolding assms(2,3) dd(7,8) by auto
  moreover have "\<not> is_blocked (sd_hard_gate d) \<longrightarrow> cg_valid (sd_candidate d) = configured"
    using gate v assms(4) by auto
  moreover have "cg_decision (sd_candidate d) = snd (if is_blocked (sd_hard_gate d) then (FORCE_WAIT, WAIT)
       else if \<not> configured then (NO_TRADE, WAIT) else conflict_rule l s)"
    using rule by (metis snd_conv)
  ultimately show ?thesis by (auto simp: conflict_rule_decision)
qed

text \<open>
  C32. Every analysis refines one rule: when the hard gates block, the candidate is FORCE_WAIT;
  when they do not and the profile is not fully configured, it is NO_TRADE and invalid; otherwise
  it is the abstract conflict rule on the tiers of both sides' scores, of two active sides of one
  tier, or both at least READY, neither stands and otherwise the stronger one does. It says BUY
  (SELL) only in this last case, from the window of that side against a side below READY.
\<close>

theorem candidate_refines_conflict_rule:
  assumes "analyze sha sr = Inr d"
  shows "let sp = profile_of sr;
      l = tier_of (long_gate sp) (the (total_score (ds_long (sd_direction d)))) (the (total_score (ds_long (sd_timing d))));
      s = tier_of (short_gate sp) (the (total_score (ds_short (sd_direction d)))) (the (total_score (ds_short (sd_timing d))));
      configured = (is_fully_configured sp = Inr True);
      blocked = is_blocked (sd_hard_gate d);
      cand = sd_candidate d
    in (cg_state cand, cg_decision cand) =
        (if blocked then (FORCE_WAIT, WAIT) else if \<not> configured then (NO_TRADE, WAIT) else conflict_rule l s) \<and>
      (blocked \<or> cg_valid cand = configured) \<and>
      (cg_decision cand = BUY \<longleftrightarrow> \<not> blocked \<and> configured \<and> l = T_WINDOW \<and> s < T_READY) \<and>
      (cg_decision cand = SELL \<longleftrightarrow> \<not> blocked \<and> configured \<and> s = T_WINDOW \<and> l < T_READY)"
  using candidate_of_analysis [OF assms refl refl refl] unfolding Let_def by blast

theorem candidate_refines_conflict_rule_witness:
  "case analyze sample_digest (sample_signal_request (Some healthy) [bar_at 0 900 100 100 96 100]) of
     Inl e \<Rightarrow> False
   | Inr d \<Rightarrow> cg_decision (sd_candidate d) = BUY \<and>
       tier_of (long_gate (profile_of (sample_signal_request (Some healthy) [bar_at 0 900 100 100 96 100])))
         (the (total_score (ds_long (sd_direction d)))) (the (total_score (ds_long (sd_timing d)))) = T_WINDOW"
  using sample_analysis
    candidate_refines_conflict_rule [of sample_digest "sample_signal_request (Some healthy) [bar_at 0 900 100 100 96 100]"]
  by (auto simp: Let_def split: sum.splits)

text \<open>
  The explanation loses and invents nothing: the components of a side that carry weight are
  split, each exactly once and in order, into those that reached three fifths of their maximum
  and the others; unweighted components appear nowhere.
\<close>

theorem explanation_partitions:
  "mset (ex_long_pos (explain_dual_side_signal dir tim hg cand auth st)) +
     mset (ex_long_neg (explain_dual_side_signal dir tim hg cand auth st)) =
     filter_mset (\<lambda>c. co_max c > 0) (mset (sc_components (ds_long dir)) + mset (sc_components (ds_long tim))) \<and>
   mset (ex_short_pos (explain_dual_side_signal dir tim hg cand auth st)) +
     mset (ex_short_neg (explain_dual_side_signal dir tim hg cand auth st)) =
     filter_mset (\<lambda>c. co_max c > 0) (mset (sc_components (ds_short dir)) + mset (sc_components (ds_short tim)))"
proof -
  have part: "mset (filter favourable cs) + mset (filter (\<lambda>c. \<not> favourable c) cs) = mset cs" for cs
    by (simp add: multiset_partition [symmetric])
  have "mset (fst (explain_side a b)) + mset (snd (explain_side a b)) =
      filter_mset (\<lambda>c. co_max c > 0) (mset (sc_components a) + mset (sc_components b))" for a b
    unfolding explain_side_def Let_def fst_conv snd_conv part by simp
  then show ?thesis by (simp add: explain_dual_side_signal_def Let_def)
qed

end
