(* ===== verification/Signal_Mirror.thy ===== *)
theory Signal_Mirror
  imports Signal_Engine
begin

text \<open>
  The XAUUSD analysis treats both sides alike: the mirror image of a request (prices negated,
  sides exchanged) has the mirror image of its candidate.
\<close>

section \<open>The mirror of a request\<close>

definition mirror_profile :: "signal_profile \<Rightarrow> signal_profile" where
  "mirror_profile sp = sp\<lparr>
     long_direction_policy := short_direction_policy sp, short_direction_policy := long_direction_policy sp,
     long_timing_policy := short_timing_policy sp, short_timing_policy := long_timing_policy sp,
     long_gate := short_gate sp, short_gate := long_gate sp\<rparr>"

definition mirror_request :: "signal_request \<Rightarrow> signal_request" where
  "mirror_request sr = sr\<lparr>sr_15m := map mirror_candle (sr_15m sr),
     sr_regime := map_option mirror_regime (sr_regime sr),
     sr_features_15m := map_option mirror_features (sr_features_15m sr),
     sr_features_1h := map_option mirror_features (sr_features_1h sr),
     sr_features_4h := map_option mirror_features (sr_features_4h sr),
     sr_features_1d := map_option mirror_features (sr_features_1d sr),
     sr_structure := map_option mirror_structure (sr_structure sr),
     sr_profile := map_option mirror_profile (sr_profile sr)\<rparr>"

section \<open>Mirroring twice\<close>

lemma neg_num_twice [simp]: "neg_num (neg_num n) = n"
  by (cases n) (simp_all add: neg_num_def)

lemma option_map_id: "(\<And>y. f (g y) = y) \<Longrightarrow> map_option f (map_option g x) = x"
  by (cases x) simp_all

lemma mirror_features_twice [simp]: "mirror_features (mirror_features f) = f"
  unfolding mirror_features_def
  by (rule feature_snapshot.equality) (simp_all add: option.map_comp comp_def option.map_ident)

lemma mirror_regime_twice [simp]: "mirror_regime (mirror_regime r) = r"
proof -
  have "mirror_regime_type (mirror_regime_type t) = t" for t by (cases t) simp_all
  then show ?thesis by (simp add: mirror_regime_def)
qed

lemma mirror_structure_twice [simp]: "mirror_structure (mirror_structure s) = s"
proof -
  have "mirror_structure_type (mirror_structure_type t) = t" for t by (cases t) simp_all
  moreover have "mirror_bos (mirror_bos b) = b" for b by (cases b) simp_all
  moreover have "mirror_swing (mirror_swing p) = p" for p by (simp add: mirror_swing_def)
  ultimately show ?thesis
    unfolding mirror_structure_def
    by (intro structure_result.equality) (simp_all add: option_map_id)
qed

lemma mirror_candle_twice [simp]: "mirror_candle (mirror_candle c) = c"
  by (simp add: mirror_candle_def)

lemma mirror_direction_twice [simp]: "mirror_direction (mirror_direction ev) = ev"
  by (simp add: mirror_direction_def option_map_id)

lemma mirror_timing_twice [simp]: "mirror_timing (mirror_timing ev) = ev"
  by (simp add: mirror_timing_def option_map_id)

lemma direction_components_mirror':
  "direction_components cal SIG_LONG w (mirror_direction ev) = direction_components cal SIG_SHORT w ev"
  using direction_components_mirror [of cal w "mirror_direction ev"] by simp

lemma timing_components_mirror':
  "timing_components cal SIG_LONG w (map_option mirror_candle co) (mirror_timing ev) = timing_components cal SIG_SHORT w co ev"
  using timing_components_mirror [of cal w "map_option mirror_candle co" "mirror_timing ev"]
  by (simp add: option_map_id)

section \<open>The scores of mirrored evidence\<close>

definition on_side :: "signal_side \<Rightarrow> side_score \<Rightarrow> side_score" where
  "on_side side s = s\<lparr>sc_side := side\<rparr>"

definition swap_scores :: "dual_scores \<Rightarrow> dual_scores" where
  "swap_scores ds = \<lparr>ds_long = on_side SIG_LONG (ds_short ds), ds_short = on_side SIG_SHORT (ds_long ds)\<rparr>"

lemma on_side_result: "on_side side (side_result cal side' th cs) = side_result cal side th cs"
  by (simp add: on_side_def side_result_def Let_def)

lemma on_side_fields [simp]:
  "total_score (on_side side s) = total_score s" "sc_valid (on_side side s) = sc_valid s"
  by (simp_all add: on_side_def)

lemma fully_configured_mirror:
  "is_fully_configured (mirror_profile sp) = Inr True \<longleftrightarrow> is_fully_configured sp = Inr True"
  by (auto simp: is_fully_configured_def mirror_profile_def)

lemma dual_direction_mirror:
  assumes "is_fully_configured sp = Inr True" "calculate_xauusd_dual_direction ev (Some sp) = Inr dir"
  shows "calculate_xauusd_dual_direction (mirror_direction ev) (Some (mirror_profile sp)) = Inr (swap_scores dir)"
  using assms fully_configured_mirror [of sp]
  by (auto simp: calculate_xauusd_dual_direction_def profile_calibrated_def swap_scores_def on_side_result
      direction_components_mirror direction_components_mirror' profile_threshold_def mirror_profile_def)

lemma dual_timing_mirror:
  assumes "is_fully_configured sp = Inr True" "calculate_xauusd_dual_timing co ev (Some sp) = Inr tim"
  shows "calculate_xauusd_dual_timing (map_option mirror_candle co) (mirror_timing ev) (Some (mirror_profile sp))
    = Inr (swap_scores tim)"
proof -
  have "finite_candle (mirror_candle c) = finite_candle c" for c
    by (auto simp: finite_candle_def mirror_candle_def)
  then have "(case map_option mirror_candle co of None \<Rightarrow> False | Some c \<Rightarrow> \<not> finite_candle c) =
      (case co of None \<Rightarrow> False | Some c \<Rightarrow> \<not> finite_candle c)"
    by (cases co) simp_all
  with assms fully_configured_mirror [of sp] show ?thesis
    unfolding calculate_xauusd_dual_timing_def profile_calibrated_def
    by (simp add: swap_scores_def timing_components_mirror timing_components_mirror' profile_threshold_def
        mirror_profile_def split: if_splits) (auto simp: on_side_result)
qed

section \<open>The decision on mirrored evidence\<close>

lemma payload_mirror:
  assumes "compute_phase4_policy_fingerprint sha sp = Inr fp"
  shows "\<exists>fp'. compute_phase4_policy_fingerprint sha (mirror_profile sp) = Inr fp'"
  using assms by (auto simp: compute_phase4_policy_fingerprint_def phase4_policy_payload_def mirror_profile_def rbind_Inr_iff)

lemma candidate_mirror:
  assumes "is_fully_configured sp = Inr True"
    and "evaluate_xauusd_candidate_gate (ds_long dir) (ds_short dir) (ds_long tim) (ds_short tim) hg (Some sp) = Inr r"
  shows "\<exists>r'. evaluate_xauusd_candidate_gate (ds_long (swap_scores dir)) (ds_short (swap_scores dir))
      (ds_long (swap_scores tim)) (ds_short (swap_scores tim)) hg (Some (mirror_profile sp)) = Inr r' \<and>
    cg_state r' = mirror_state (cg_state r) \<and> cg_decision r' = mirror_decision (cg_decision r) \<and> cg_valid r' = cg_valid r"
proof -
  have eq: "(cg_state (conflict_matrix (side_state LONG s) (side_state SHORT l)),
        cg_decision (conflict_matrix (side_state LONG s) (side_state SHORT l))) =
      map_prod mirror_state mirror_decision
       (cg_state (conflict_matrix (side_state LONG l) (side_state SHORT s)),
        cg_decision (conflict_matrix (side_state LONG l) (side_state SHORT s)))" for l s
    unfolding conflict_matrix_rule by (rule conflict_rule_symmetric)
  have z: "score_or_zero (on_side side s) = score_or_zero s" for side s by (simp add: score_or_zero_def)
  have cfg: "is_fully_configured (mirror_profile sp) = Inr True" using assms(1) by (simp add: fully_configured_mirror)
  note ev = evaluate_xauusd_candidate_gate_def Let_def option.case rbind_simps cfg assms(1)
  consider "is_blocked hg"
    | "\<not> is_blocked hg" "\<not> (sc_valid (ds_long dir) \<and> sc_valid (ds_short dir) \<and> sc_valid (ds_long tim) \<and> sc_valid (ds_short tim))"
    | "\<not> is_blocked hg" "sc_valid (ds_long dir)" "sc_valid (ds_short dir)" "sc_valid (ds_long tim)" "sc_valid (ds_short tim)"
    by blast
  then show ?thesis
  proof cases
    case 3
    let ?l = "tier_of (long_gate sp) (score_or_zero (ds_long dir)) (score_or_zero (ds_long tim))"
    let ?s = "tier_of (short_gate sp) (score_or_zero (ds_short dir)) (score_or_zero (ds_short tim))"
    from assms(2) 3 have r: "r = conflict_matrix (side_state LONG ?l) (side_state SHORT ?s)"
      by (simp add: ev classify_tier)
    have "evaluate_xauusd_candidate_gate (ds_long (swap_scores dir)) (ds_short (swap_scores dir))
      (ds_long (swap_scores tim)) (ds_short (swap_scores tim)) hg (Some (mirror_profile sp)) =
      Inr (conflict_matrix (side_state LONG ?s) (side_state SHORT ?l))"
      using 3 by (simp add: ev classify_tier swap_scores_def z) (simp add: mirror_profile_def)
    with r eq [of ?s ?l] show ?thesis by (simp add: conflict_matrix_valid)
  qed (use assms(2) in \<open>auto simp: ev swap_scores_def\<close>)
qed

lemma pit_mirror: "pit_walk t (map mirror_candle cs) = map_prod (map mirror_candle) id (pit_walk t cs)"
  by (simp add: pit_walk_filter filter_map comp_def mirror_candle_def)

lemma pit_context_mirror:
  "pit_context (mirror_request sr) t = map_prod (map mirror_candle) id (pit_context sr t)"
  by (simp add: pit_context_def filter_pit_candles_def mirror_request_def pit_mirror)

section \<open>The analysis of a mirrored market\<close>

lemma request_mirror:
  assumes "sr_profile sr = Some q"
  shows "profile_of (mirror_request sr) = mirror_profile (profile_of sr)"
    "direction_evidence_of (mirror_request sr) = mirror_direction (direction_evidence_of sr)"
    "timing_evidence_of (mirror_request sr) = mirror_timing (timing_evidence_of sr)"
    "sr_health (mirror_request sr) = sr_health sr" "sr_timeframe (mirror_request sr) = sr_timeframe sr"
    "sr_instrument (mirror_request sr) = sr_instrument sr"
  using assms by (simp_all add: profile_of_def direction_evidence_of_def mirror_direction_def timing_evidence_of_def
      mirror_timing_def mirror_request_def)

lemma decision_timestamp_mirror:
  "decision_timestamp (sr_15m sr) (sr_as_of sr) = Inr t \<Longrightarrow>
    decision_timestamp (sr_15m (mirror_request sr)) (sr_as_of (mirror_request sr)) = Inr t"
  by (auto simp: decision_timestamp_def mirror_request_def filter_map comp_def mirror_candle_def last_map
      Let_def split: option.splits if_splits)

lemma decide_mirror:
  assumes "is_fully_configured sp = Inr True" and d: "decide sp dir tim rfh t inst tf fp = Inr d"
  obtains d' where "decide (mirror_profile sp) (swap_scores dir) (swap_scores tim) rfh t inst tf fp' = Inr d'"
    "cg_state (sd_candidate d') = mirror_state (cg_state (sd_candidate d))"
    "cg_decision (sd_candidate d') = mirror_decision (cg_decision (sd_candidate d))"
    "sd_direction d' = swap_scores dir" "sd_timing d' = swap_scores tim" "sd_hard_gate d' = sd_hard_gate d"
    "sd_state d' = sd_state d" "sd_timestamp d' = t"
proof -
  note dd = decide_Inr [OF d]
  have hg: "sp_feed_policy (mirror_profile sp) = sp_feed_policy sp" by (simp add: mirror_profile_def)
  obtain r where r: "evaluate_xauusd_candidate_gate (ds_long (swap_scores dir)) (ds_short (swap_scores dir))
      (ds_long (swap_scores tim)) (ds_short (swap_scores tim)) (sd_hard_gate d) (Some (mirror_profile sp)) = Inr r"
    "cg_state r = mirror_state (cg_state (sd_candidate d))" "cg_decision r = mirror_decision (cg_decision (sd_candidate d))"
    using candidate_mirror [OF assms(1) dd(2)] by blast
  have "\<exists>d'. decide (mirror_profile sp) (swap_scores dir) (swap_scores tim) rfh t inst tf fp' = Inr d'"
    unfolding decide_def Let_def hg dd(1) [symmetric] r(1) by simp
  then obtain d' where d': "decide (mirror_profile sp) (swap_scores dir) (swap_scores tim) rfh t inst tf fp' = Inr d'" by blast
  from d' have "sd_candidate d' = r" "sd_direction d' = swap_scores dir" "sd_timing d' = swap_scores tim"
    "sd_hard_gate d' = sd_hard_gate d" "sd_timestamp d' = t" "sd_state d' = fst (publish (mirror_profile sp) (sd_hard_gate d) r)"
    unfolding decide_def Let_def hg dd(1) [symmetric] r(1) by auto
  with r(2,3) dd show thesis
    by (intro that [OF d']) (simp_all add: publish_def is_production_authorized_def)
qed

text \<open>
  C15. Neither side is favoured: with both sides' policies exchanged and the market mirrored
  (prices negated, RSI reflected at 50, trends, structure and DI exchanged) the analysis is
  valid again and its candidate is the mirror image, BUY for SELL and window for window; health,
  gate, time and publication are the same.
\<close>

theorem analysis_mirror_symmetric:
  assumes "analyze sha sr = Inr d" and "is_fully_configured (profile_of sr) = Inr True"
  shows "case analyze sha (mirror_request sr) of
      Inl e \<Rightarrow> False
    | Inr d' \<Rightarrow> cg_state (sd_candidate d') = mirror_state (cg_state (sd_candidate d)) \<and>
        cg_decision (sd_candidate d') = mirror_decision (cg_decision (sd_candidate d)) \<and>
        sd_direction d' = swap_scores (sd_direction d) \<and> sd_timing d' = swap_scores (sd_timing d) \<and>
        sd_hard_gate d' = sd_hard_gate d \<and> sd_state d' = sd_state d \<and> sd_timestamp d' = sd_timestamp d"
proof -
  let ?m = "mirror_request sr" and ?sp = "profile_of sr"
  from assms(2) obtain q where q: "sr_profile sr = Some q"
    by (cases "sr_profile sr") (simp_all add: profile_of_def uncalibrated_not_fully_configured)
  note rm = request_mirror [OF q]
  from assms(1) show ?thesis
  proof (rule analyze_Inr)
    fix t dir tim rfh fp and latest :: "candle option"
    assume t: "decision_timestamp (sr_15m sr) (sr_as_of sr) = Inr t"
      and latest: "latest = (if fst (pit_context sr t) = [] then None else Some (last (fst (pit_context sr t))))"
      and dir: "calculate_xauusd_dual_direction (direction_evidence_of sr) (Some ?sp) = Inr dir"
      and tim: "calculate_xauusd_dual_timing latest (timing_evidence_of sr) (Some ?sp) = Inr tim"
      and rfh: "rfh = effective_health (sr_health sr) (snd (pit_context sr t) \<or> (latest \<noteq> None \<and> \<not> is_closed (the latest)))"
      and fp: "compute_phase4_policy_fingerprint sha ?sp = Inr fp"
      and d: "decide ?sp dir tim rfh t ''XAUUSD'' (sr_timeframe sr) fp = Inr d"
      and i: "normalize_xauusd_target (sr_instrument sr) = Inr ''XAUUSD''"
      and some: "fst (pit_context sr t) \<noteq> [] \<or> snd (pit_context sr t) \<or> feed_reported_unhealthy (sr_health sr)"
    let ?l = "if fst (pit_context ?m t) = [] then None else Some (last (fst (pit_context ?m t)))"
    have l: "?l = map_option mirror_candle latest" by (simp add: latest pit_context_mirror last_map)
    have cl: "(?l \<noteq> None \<and> \<not> is_closed (the ?l)) = (latest \<noteq> None \<and> \<not> is_closed (the latest))"
      unfolding l by (cases latest) (simp_all add: mirror_candle_def)
    have dir': "calculate_xauusd_dual_direction (direction_evidence_of ?m) (Some (profile_of ?m)) = Inr (swap_scores dir)"
      unfolding rm by (rule dual_direction_mirror [OF assms(2) dir])
    have tim': "calculate_xauusd_dual_timing ?l (timing_evidence_of ?m) (Some (profile_of ?m)) = Inr (swap_scores tim)"
      unfolding rm l by (rule dual_timing_mirror [OF assms(2) tim])
    obtain fp' where fp': "compute_phase4_policy_fingerprint sha (profile_of ?m) = Inr fp'"
      using payload_mirror [OF fp] unfolding rm by blast
    have "analyze sha ?m = decide (mirror_profile ?sp) (swap_scores dir) (swap_scores tim) rfh t ''XAUUSD'' (sr_timeframe sr) fp'"
    proof -
      have pit: "snd (pit_context ?m t) = snd (pit_context sr t)" by (simp add: pit_context_mirror)
      have "fst (pit_context ?m t) \<noteq> [] \<or> snd (pit_context ?m t) \<or> feed_reported_unhealthy (sr_health ?m)"
        using some by (simp add: pit_context_mirror rm(4))
      from analyze_step [OF _ fp' decision_timestamp_mirror [OF t] refl this dir' tim'] i show ?thesis
        unfolding rm(1,4,5,6) pit cl rfh by blast
    qed
    with decide_mirror [OF assms(2) d, of fp'] decide_Inr [OF d] show ?thesis by force
  qed
qed

theorem analysis_mirror_symmetric_witness:
  "case analyze sample_digest (mirror_request (sample_signal_request (Some healthy) [bar_at 0 900 100 100 96 100])) of
     Inl e \<Rightarrow> False
   | Inr d' \<Rightarrow> cg_state (sd_candidate d') = SELL_WINDOW \<and> cg_decision (sd_candidate d') = SELL"
proof -
  have "is_fully_configured (profile_of (sample_signal_request (Some healthy) cs)) = Inr True" for cs
    by (simp add: eval_defs cong: eval_congs)
  then show ?thesis
    using sample_analysis
      analysis_mirror_symmetric [of sample_digest "sample_signal_request (Some healthy) [bar_at 0 900 100 100 96 100]"]
    by (auto split: sum.splits)
qed

end
