(* ===== verification/Stops.thy ===== *)
theory Stops
  imports Samples
begin

text \<open>
  \<open>engine/risk/xauusd_stops.py\<close>: the structure stop, the ATR guard and the composite stop
  of each side, with their validity gates. The code writes the two sides out separately;
  the theory proves that the SHORT calculation is the LONG one of the mirrored market.
\<close>

record stop_calc =
  sl_structure :: rat
  sl_atr :: rat
  sl_final :: rat
  sl_distance :: rat
  sl_ok :: bool
  sl_error :: "plan_reason option"

definition stop_failure :: "rat \<Rightarrow> rat \<Rightarrow> rat \<Rightarrow> rat \<Rightarrow> plan_reason \<Rightarrow> stop_calc" where
  "stop_failure s a f d r = \<lparr>sl_structure = s, sl_atr = a, sl_final = f, sl_distance = d,
     sl_ok = False, sl_error = Some r\<rparr>"

text \<open>
  The decimal operands of the calculation. An unset field is the code's ``incomplete''
  branch; a NaN or an infinity is outside the model (the planner checks before it calls).
\<close>

definition stop_operands :: "side_risk_policy \<Rightarrow> (rat \<times> rat \<times> rat) option result" where
  "stop_operands p =
     (case (structure_buffer p, atr_multiplier p, max_stop_distance_atr p) of
        (Some (Fin b), Some (Fin m), Some (Fin x)) \<Rightarrow> Inr (Some (b, m, x))
      | (Some _, Some _, Some _) \<Rightarrow> Inl NonFiniteOperand
      | _ \<Rightarrow> Inr None)"

definition calculate_long_stops ::
  "structure_zone option \<Rightarrow> rat \<Rightarrow> rat \<Rightarrow> rat \<Rightarrow> pynum \<Rightarrow> side_risk_policy \<Rightarrow> stop_calc result" where
  "calculate_long_stops support_zone e_min e_mid e_max atr14 policy =
     (if \<not> positive_num atr14 then Inr (stop_failure 0 0 0 0 AtrNotPositive)
      else case support_zone of
        None \<Rightarrow> Inr (stop_failure 0 0 0 0 (MissingZone LONG))
      | Some z \<Rightarrow> rbind (stop_operands policy) (\<lambda>ops. case ops of
          None \<Rightarrow> Inr (stop_failure 0 0 0 0 (IncompletePolicy LONG))
        | Some (buffer, mult, max_dist) \<Rightarrow>
            (let s_structure = dsub (price_low z) buffer;
                 s_atr = dsub e_mid (dmul mult (num_value atr14));
                 s_final = min s_structure s_atr;
                 planned_risk = dsub e_max s_final
             in if planned_risk \<le> 0
                then Inr (stop_failure s_structure s_atr s_final 0 (StopInsideZone LONG))
                else let dist = ddiv planned_risk (num_value atr14)
                in if s_final \<ge> e_min
                   then Inr (stop_failure s_structure s_atr s_final dist (StopNotBeyondEntry LONG))
                   else if dist > max_dist
                   then Inr (stop_failure s_structure s_atr s_final dist (StopTooWide dist max_dist))
                   else Inr \<lparr>sl_structure = s_structure, sl_atr = s_atr, sl_final = s_final,
                          sl_distance = dist, sl_ok = True, sl_error = None\<rparr>)))"

definition calculate_short_stops ::
  "structure_zone option \<Rightarrow> rat \<Rightarrow> rat \<Rightarrow> rat \<Rightarrow> pynum \<Rightarrow> side_risk_policy \<Rightarrow> stop_calc result" where
  "calculate_short_stops resistance_zone e_min e_mid e_max atr14 policy =
     (if \<not> positive_num atr14 then Inr (stop_failure 0 0 0 0 AtrNotPositive)
      else case resistance_zone of
        None \<Rightarrow> Inr (stop_failure 0 0 0 0 (MissingZone SHORT))
      | Some z \<Rightarrow> rbind (stop_operands policy) (\<lambda>ops. case ops of
          None \<Rightarrow> Inr (stop_failure 0 0 0 0 (IncompletePolicy SHORT))
        | Some (buffer, mult, max_dist) \<Rightarrow>
            (let s_structure = dadd (price_high z) buffer;
                 s_atr = dadd e_mid (dmul mult (num_value atr14));
                 s_final = max s_structure s_atr;
                 planned_risk = dsub s_final e_min
             in if planned_risk \<le> 0
                then Inr (stop_failure s_structure s_atr s_final 0 (StopInsideZone SHORT))
                else let dist = ddiv planned_risk (num_value atr14)
                in if s_final \<le> e_max
                   then Inr (stop_failure s_structure s_atr s_final dist (StopNotBeyondEntry SHORT))
                   else if dist > max_dist
                   then Inr (stop_failure s_structure s_atr s_final dist (StopTooWide dist max_dist))
                   else Inr \<lparr>sl_structure = s_structure, sl_atr = s_atr, sl_final = s_final,
                          sl_distance = dist, sl_ok = True, sl_error = None\<rparr>)))"

section \<open>Well-defined calculations\<close>

lemma stop_operands_configured:
  "risk_is_configured p \<Longrightarrow> \<exists>b m x. stop_operands p = Inr (Some (b, m, x)) \<and> 0 < b \<and> 0 < m \<and> 0 < x \<and>
     max_stop_distance_atr p = Some (Fin x)"
  by (elim risk_is_configuredE) (simp add: stop_operands_def)

lemma long_stops_total:
  "risk_is_configured p \<Longrightarrow> \<exists>s. calculate_long_stops z a b c atr p = Inr s"
  using stop_operands_configured [of p]
  by (auto simp: calculate_long_stops_def Let_def split: option.split)

lemma short_stops_total:
  "risk_is_configured p \<Longrightarrow> \<exists>s. calculate_short_stops z a b c atr p = Inr s"
  using stop_operands_configured [of p]
  by (auto simp: calculate_short_stops_def Let_def split: option.split)

lemma stop_failure_ok [simp]: "sl_ok (stop_failure s a f d r) = False"
  by (simp add: stop_failure_def)

lemma stop_failure_error [simp]: "sl_error (stop_failure s a f d r) = Some r"
  by (simp add: stop_failure_def)

lemma long_stops_okE:
  assumes "calculate_long_stops zo e_min e_mid e_max atr p = Inr s" and "sl_ok s"
  obtains z a b m x where
    "zo = Some z" "atr = Fin a" "0 < a" "stop_operands p = Inr (Some (b, m, x))"
    "sl_structure s = dsub (price_low z) b" "sl_atr s = dsub e_mid (dmul m a)"
    "sl_final s = min (sl_structure s) (sl_atr s)"
    "sl_distance s = ddiv (dsub e_max (sl_final s)) a"
    "sl_final s < e_max" "sl_final s < e_min" "sl_distance s \<le> x"
proof -
  from assms obtain a where a: "atr = Fin a" "0 < a"
    by (cases atr) (auto simp: calculate_long_stops_def split: if_splits)
  with assms obtain z where z: "zo = Some z"
    by (cases zo) (auto simp: calculate_long_stops_def)
  with a assms obtain b m x where ops: "stop_operands p = Inr (Some (b, m, x))"
    by (cases "stop_operands p") (auto simp: calculate_long_stops_def split: option.splits)
  show thesis
    by (rule that [OF z a ops])
      (use assms a z ops in \<open>auto simp: calculate_long_stops_def Let_def split: if_splits\<close>)
qed

lemma short_stops_okE:
  assumes "calculate_short_stops zo e_min e_mid e_max atr p = Inr s" and "sl_ok s"
  obtains z a b m x where
    "zo = Some z" "atr = Fin a" "0 < a" "stop_operands p = Inr (Some (b, m, x))"
    "sl_structure s = dadd (price_high z) b" "sl_atr s = dadd e_mid (dmul m a)"
    "sl_final s = max (sl_structure s) (sl_atr s)"
    "sl_distance s = ddiv (dsub (sl_final s) e_min) a"
    "e_min < sl_final s" "e_max < sl_final s" "sl_distance s \<le> x"
proof -
  from assms obtain a where a: "atr = Fin a" "0 < a"
    by (cases atr) (auto simp: calculate_short_stops_def split: if_splits)
  with assms obtain z where z: "zo = Some z"
    by (cases zo) (auto simp: calculate_short_stops_def)
  with a assms obtain b m x where ops: "stop_operands p = Inr (Some (b, m, x))"
    by (cases "stop_operands p") (auto simp: calculate_short_stops_def split: option.splits)
  show thesis
    by (rule that [OF z a ops])
      (use assms a z ops in \<open>auto simp: calculate_short_stops_def Let_def split: if_splits\<close>)
qed

lemma long_stops_error: "calculate_long_stops zo a b c atr p = Inr s \<Longrightarrow> sl_ok s \<longleftrightarrow> sl_error s = None"
  by (cases zo; cases "stop_operands p"; cases "projr (stop_operands p)")
    (auto simp: calculate_long_stops_def Let_def split: if_splits)

lemma short_stops_error: "calculate_short_stops zo a b c atr p = Inr s \<Longrightarrow> sl_ok s \<longleftrightarrow> sl_error s = None"
  by (cases zo; cases "stop_operands p"; cases "projr (stop_operands p)")
    (auto simp: calculate_short_stops_def Let_def split: if_splits)

section \<open>The two sides mirror each other\<close>

definition mirror_zone :: "structure_zone \<Rightarrow> structure_zone" where
  "mirror_zone z = z\<lparr>price_low := - price_high z, price_high := - price_low z\<rparr>"

fun mirror_side :: "risk_side \<Rightarrow> risk_side" where
  "mirror_side LONG = SHORT"
| "mirror_side SHORT = LONG"

fun mirror_reason :: "plan_reason \<Rightarrow> plan_reason" where
  "mirror_reason (MissingZone s) = MissingZone (mirror_side s)"
| "mirror_reason (IncompletePolicy s) = IncompletePolicy (mirror_side s)"
| "mirror_reason (StopInsideZone s) = StopInsideZone (mirror_side s)"
| "mirror_reason (StopNotBeyondEntry s) = StopNotBeyondEntry (mirror_side s)"
| "mirror_reason r = r"

definition mirror_stops :: "stop_calc \<Rightarrow> stop_calc" where
  "mirror_stops s = s\<lparr>sl_structure := - sl_structure s, sl_atr := - sl_atr s,
     sl_final := - sl_final s, sl_error := map_option mirror_reason (sl_error s)\<rparr>"

lemma dadd_minus: "dadd (- x) y = - dsub x y"
  using dec.rnd_minus [of "x - y"] by (simp add: dadd_def dsub_def)

lemma dsub_minus: "dsub (- x) (- y) = dsub y x"
  by (simp add: dsub_def)

lemma dsub_minus': "dsub (- x) y = - dadd x y"
  using dec.rnd_minus [of "x + y"] by (simp add: dadd_def dsub_def)

lemma mirror_stop_failure:
  "mirror_stops (stop_failure s a f d r) = stop_failure (- s) (- a) (- f) d (mirror_reason r)"
  by (simp add: mirror_stops_def stop_failure_def)

text \<open>
  The SHORT stop calculation is the LONG one with every price negated: on all inputs,
  failures included, \<open>calculate_short_stops\<close> of the mirrored zone and entries returns the
  mirrored result of \<open>calculate_long_stops\<close> (same distance in ATR, same verdict).
\<close>

theorem short_stops_mirror:
  "calculate_short_stops (map_option mirror_zone zo) (- e_max) (- e_mid) (- e_min) atr p =
     map_sum id mirror_stops (calculate_long_stops zo e_min e_mid e_max atr p)"
proof -
  have mx: "max (- x) (- y) = - min x y" for x y :: rat by (simp add: min_def max_def)
  show ?thesis
  proof (cases "stop_operands p")
    case (Inl e)
    then show ?thesis
      by (cases zo) (simp_all add: calculate_short_stops_def calculate_long_stops_def mirror_stop_failure)
  next
    case (Inr ops)
    then show ?thesis
      by (cases zo; cases ops)
        (auto simp: calculate_short_stops_def calculate_long_stops_def stop_failure_def
          mirror_zone_def dadd_minus dsub_minus mx Let_def mirror_stops_def)
  qed
qed

text \<open>
  An accepted LONG stop sits strictly below both entry bounds and at or below the
  structure stop and the ATR stop; its distance is positive and within the policy's maximum.
\<close>

theorem long_stop_geometry:
  assumes "calculate_long_stops zo e_min e_mid e_max atr p = Inr s" and "sl_ok s"
  shows "sl_final s < e_min \<and> sl_final s < e_max
    \<and> sl_final s \<le> sl_structure s \<and> sl_final s \<le> sl_atr s
    \<and> 0 < sl_distance s \<and> (\<exists>x. max_stop_distance_atr p = Some (Fin x) \<and> sl_distance s \<le> x)"
  using assms
proof (rule long_stops_okE)
  fix z a b m x
  assume h: "atr = Fin a" "0 < a" "stop_operands p = Inr (Some (b, m, x))"
    "sl_final s = min (sl_structure s) (sl_atr s)"
    "sl_distance s = ddiv (dsub e_max (sl_final s)) a"
    "sl_final s < e_max" "sl_final s < e_min" "sl_distance s \<le> x"
  have "max_stop_distance_atr p = Some (Fin x)"
    using h(3) by (auto simp: stop_operands_def split: option.splits pynum.splits)
  with h show ?thesis by (auto intro: ddiv_pos)
qed

theorem long_stop_geometry_witness:
  "\<exists>s. calculate_long_stops (Some (zone_at ''SUPPORT'' 0 100 104)) 100 102 104 (Fin 5) sample_risk_policy = Inr s \<and>
     sl_ok s \<and> sl_final s < 100 \<and> 0 < sl_distance s"
proof -
  let ?s = "\<lparr>sl_structure = 99, sl_atr = 92, sl_final = 92, sl_distance = 12 / 5, sl_ok = True, sl_error = None\<rparr>"
  have c: "calculate_long_stops (Some (zone_at ''SUPPORT'' 0 100 104)) 100 102 104 (Fin 5) sample_risk_policy = Inr ?s"
    by (simp add: eval_defs calculate_long_stops_def stop_operands_def Let_def cong: eval_congs)
  from long_stop_geometry [OF this] c show ?thesis by (intro exI [of _ ?s]) simp
qed

lemmas [eval_defs] = stop_failure_def stop_operands_def calculate_long_stops_def calculate_short_stops_def

end
