(* ===== verification/Targets.thy ===== *)
theory Targets
  imports Stops
begin

text \<open>
  \<open>engine/risk/xauusd_targets.py\<close>: point-in-time collection and deduplication of structure
  zones, TP1 and TP2 resolution in a total deterministic order, and the reward-to-risk gate.
  The authoritative time is an aware timestamp (the planner checks it), given by its instant.
\<close>

section \<open>Point-in-time zones\<close>

definition zone_in_time :: "int \<Rightarrow> structure_zone \<Rightarrow> bool" where
  "zone_in_time t z \<longleftrightarrow> is_aware (created_at z) \<and> instant (created_at z) \<le> t \<and> is_active z"

definition pit_zones :: "int \<Rightarrow> structure_result option \<Rightarrow> structure_zone list" where
  "pit_zones t so = (case so of
       None \<Rightarrow> []
     | Some s \<Rightarrow> if is_aware (st_timestamp s) \<and> instant (st_timestamp s) \<le> t
                then filter (zone_in_time t) (zones s) else [])"

text \<open>The fingerprint of an eligible zone, which is aware, so the code's call returns it.\<close>

definition zone_fp :: "digest \<Rightarrow> structure_zone \<Rightarrow> string" where
  "zone_fp sha z = sha (zone_payload (instant (created_at z)) z)"

lemma zone_fp_computed: "zone_in_time t z \<Longrightarrow> compute_zone_fingerprint sha z = Inr (zone_fp sha z)"
  by (simp add: zone_in_time_def zone_fp_def)

text \<open>The dictionary keyed by fingerprint keeps the first zone of each, in insertion order.\<close>

fun dedup_by :: "('a \<Rightarrow> 'k) \<Rightarrow> 'k list \<Rightarrow> 'a list \<Rightarrow> 'a list" where
  "dedup_by f seen [] = []"
| "dedup_by f seen (z # zs) =
     (if f z \<in> set seen then dedup_by f seen zs else z # dedup_by f (f z # seen) zs)"

definition collect_pit_zones ::
  "digest \<Rightarrow> structure_result option \<Rightarrow> structure_result option \<Rightarrow> int \<Rightarrow> structure_zone list" where
  "collect_pit_zones sha structure_15m structure_4h t =
     dedup_by (zone_fp sha) [] (pit_zones t structure_15m @ pit_zones t structure_4h)"

lemma dedup_by_subset: "z \<in> set (dedup_by f seen zs) \<Longrightarrow> z \<in> set zs \<and> f z \<notin> set seen"
  by (induction f seen zs rule: dedup_by.induct) (auto split: if_splits)

lemma dedup_by_covers:
  "z \<in> set zs \<Longrightarrow> f z \<in> set seen \<or> (\<exists>y \<in> set (dedup_by f seen zs). f y = f z)"
  by (induction f seen zs rule: dedup_by.induct) auto

lemma dedup_by_distinct: "distinct (map f (dedup_by f seen zs))"
  by (induction f seen zs rule: dedup_by.induct) (auto dest: dedup_by_subset)

lemma pit_zones_in_time: "z \<in> set (pit_zones t so) \<Longrightarrow> zone_in_time t z"
  by (auto simp: pit_zones_def split: option.splits if_splits)

lemma collect_in_time:
  "z \<in> set (collect_pit_zones sha a b t) \<Longrightarrow>
     zone_in_time t z \<and> z \<in> set (pit_zones t a) \<union> set (pit_zones t b)"
  by (auto simp: collect_pit_zones_def dest!: dedup_by_subset intro: pit_zones_in_time)

section \<open>Sort orders\<close>

definition long_target_key :: "digest \<Rightarrow> structure_zone \<Rightarrow> rat \<times> int \<times> rat \<times> string" where
  "long_target_key sha z = (price_low z, instant (created_at z), price_high z, zone_fp sha z)"

definition short_target_key :: "digest \<Rightarrow> structure_zone \<Rightarrow> rat \<times> int \<times> rat \<times> string" where
  "short_target_key sha z = (- price_high z, instant (created_at z), - price_low z, zone_fp sha z)"

lemma long_key_price: "long_target_key sha y \<le> long_target_key sha z \<Longrightarrow> price_low y \<le> price_low z"
  by (auto simp: long_target_key_def less_eq_prod_def)

lemma short_key_price: "short_target_key sha y \<le> short_target_key sha z \<Longrightarrow> price_high z \<le> price_high y"
  by (auto simp: short_target_key_def less_eq_prod_def)

section \<open>Targets of one side\<close>

record target_calc =
  tg_tp1 :: "rat option"
  tg_tp2 :: "rat option"
  tg_rr1 :: "rat option"
  tg_rr2 :: "rat option"
  tg_fp1 :: "string option"
  tg_fp2 :: "string option"
  tg_ok :: bool
  tg_error :: "plan_reason option"

definition no_targets :: "plan_reason \<Rightarrow> target_calc" where
  "no_targets r = \<lparr>tg_tp1 = None, tg_tp2 = None, tg_rr1 = None, tg_rr2 = None,
     tg_fp1 = None, tg_fp2 = None, tg_ok = False, tg_error = Some r\<rparr>"

text \<open>The optional multiplier of the synthetic TP2, and the minimum RR, as finite decimals.\<close>

definition finite_opt :: "pynum option \<Rightarrow> rat option result" where
  "finite_opt v = (case v of None \<Rightarrow> Inr None | Some (Fin x) \<Rightarrow> Inr (Some x) | _ \<Rightarrow> Inl NonFiniteOperand)"

definition long_tp2 ::
  "digest \<Rightarrow> structure_zone list \<Rightarrow> rat \<Rightarrow> rat \<Rightarrow> rat \<Rightarrow> side_risk_policy \<Rightarrow> (rat \<times> string option) option result" where
  "long_tp2 sha rest p1 e_mid atr14 policy =
     (case find_first (\<lambda>c. price_low c > p1) rest of
        Some c \<Rightarrow> Inr (Some (price_low c, Some (zone_fp sha c)))
      | None \<Rightarrow> rbind (finite_opt (tp2_atr_multiplier policy)) (\<lambda>mo. case mo of
          None \<Rightarrow> Inr None
        | Some m \<Rightarrow> (let syn = dadd e_mid (dmul m atr14)
                     in Inr (if syn > p1 then Some (syn, None) else None))))"

definition calculate_long_targets ::
  "digest \<Rightarrow> rat \<Rightarrow> rat \<Rightarrow> rat \<Rightarrow> rat \<Rightarrow> structure_result option \<Rightarrow> rat \<Rightarrow> int \<Rightarrow> side_risk_policy \<Rightarrow>
    structure_result option \<Rightarrow> target_calc result" where
  "calculate_long_targets sha e_min e_mid e_max stop structure_15m atr14 t policy structure_4h =
     (let planned_risk = dsub e_max stop
      in if planned_risk \<le> 0 then Inr (no_targets InvalidRiskDistance)
      else if min_rr_tp1 policy = None then Inr (no_targets (IncompletePolicy LONG))
      else case sort_key (long_target_key sha)
             (filter (\<lambda>z. zone_type z = ''RESISTANCE'' \<and> price_low z > e_max)
               (collect_pit_zones sha structure_15m structure_4h t)) of
        [] \<Rightarrow> Inr (no_targets (MissingTarget LONG))
      | z1 # rest \<Rightarrow>
          (let p1 = price_low z1;
               rr1 = ddiv (dsub p1 e_max) planned_risk
           in rbind (long_tp2 sha rest p1 e_mid atr14 policy) (\<lambda>t2.
              rbind (finite_opt (min_rr_tp1 policy)) (\<lambda>min_rr.
                (let calc = \<lparr>tg_tp1 = Some p1, tg_tp2 = map_option fst t2, tg_rr1 = Some rr1,
                       tg_rr2 = map_option (\<lambda>x. ddiv (dsub (fst x) e_max) planned_risk) t2,
                       tg_fp1 = Some (zone_fp sha z1), tg_fp2 = Option.bind t2 snd,
                       tg_ok = True, tg_error = None\<rparr>
                 in if rr1 < the min_rr
                    then Inr (calc\<lparr>tg_ok := False, tg_error := Some (RewardTooSmall p1 rr1 (the min_rr))\<rparr>)
                    else Inr calc)))))"

definition short_tp2 ::
  "digest \<Rightarrow> structure_zone list \<Rightarrow> rat \<Rightarrow> rat \<Rightarrow> rat \<Rightarrow> side_risk_policy \<Rightarrow> (rat \<times> string option) option result" where
  "short_tp2 sha rest p1 e_mid atr14 policy =
     (case find_first (\<lambda>c. price_high c < p1) rest of
        Some c \<Rightarrow> Inr (Some (price_high c, Some (zone_fp sha c)))
      | None \<Rightarrow> rbind (finite_opt (tp2_atr_multiplier policy)) (\<lambda>mo. case mo of
          None \<Rightarrow> Inr None
        | Some m \<Rightarrow> (let syn = dsub e_mid (dmul m atr14)
                     in Inr (if syn < p1 then Some (syn, None) else None))))"

definition calculate_short_targets ::
  "digest \<Rightarrow> rat \<Rightarrow> rat \<Rightarrow> rat \<Rightarrow> rat \<Rightarrow> structure_result option \<Rightarrow> rat \<Rightarrow> int \<Rightarrow> side_risk_policy \<Rightarrow>
    structure_result option \<Rightarrow> target_calc result" where
  "calculate_short_targets sha e_min e_mid e_max stop structure_15m atr14 t policy structure_4h =
     (let planned_risk = dsub stop e_min
      in if planned_risk \<le> 0 then Inr (no_targets InvalidRiskDistance)
      else if min_rr_tp1 policy = None then Inr (no_targets (IncompletePolicy SHORT))
      else case sort_key (short_target_key sha)
             (filter (\<lambda>z. zone_type z = ''SUPPORT'' \<and> price_high z < e_min)
               (collect_pit_zones sha structure_15m structure_4h t)) of
        [] \<Rightarrow> Inr (no_targets (MissingTarget SHORT))
      | z1 # rest \<Rightarrow>
          (let p1 = price_high z1;
               rr1 = ddiv (dsub e_min p1) planned_risk
           in rbind (short_tp2 sha rest p1 e_mid atr14 policy) (\<lambda>t2.
              rbind (finite_opt (min_rr_tp1 policy)) (\<lambda>min_rr.
                (let calc = \<lparr>tg_tp1 = Some p1, tg_tp2 = map_option fst t2, tg_rr1 = Some rr1,
                       tg_rr2 = map_option (\<lambda>x. ddiv (dsub e_min (fst x)) planned_risk) t2,
                       tg_fp1 = Some (zone_fp sha z1), tg_fp2 = Option.bind t2 snd,
                       tg_ok = True, tg_error = None\<rparr>
                 in if rr1 < the min_rr
                    then Inr (calc\<lparr>tg_ok := False, tg_error := Some (RewardTooSmall p1 rr1 (the min_rr))\<rparr>)
                    else Inr calc)))))"


section \<open>What an accepted target calculation says\<close>

lemma no_targets_simps [simp]:
  "tg_ok (no_targets r) = False" "tg_error (no_targets r) = Some r"
  "tg_tp1 (no_targets r) = None" "tg_tp2 (no_targets r) = None"
  by (simp_all add: no_targets_def)

lemma finite_opt_Inr: "finite_opt v = Inr o' \<longleftrightarrow>
    (v = None \<and> o' = None) \<or> (\<exists>x. v = Some (Fin x) \<and> o' = Some x)"
  by (auto simp: finite_opt_def split: option.splits pynum.splits)

lemma finite_opt_total:
  "risk_is_configured p \<Longrightarrow> \<exists>r. finite_opt (min_rr_tp1 p) = Inr (Some r) \<and> 0 < r"
  "risk_is_configured p \<Longrightarrow> \<exists>m. finite_opt (tp2_atr_multiplier p) = Inr m"
  by (elim risk_is_configuredE, auto simp: finite_opt_def)+

lemma long_tp2_beyond: "long_tp2 sha rest p1 m a p = Inr (Some (x, f)) \<Longrightarrow> p1 < x"
  by (auto simp: long_tp2_def rbind_Inr_iff Let_def split: option.splits if_splits
      dest: find_first_Some)

lemma short_tp2_beyond: "short_tp2 sha rest p1 m a p = Inr (Some (x, f)) \<Longrightarrow> x < p1"
  by (auto simp: short_tp2_def rbind_Inr_iff Let_def split: option.splits if_splits
      dest: find_first_Some)

lemma long_tp2_total: "risk_is_configured p \<Longrightarrow> \<exists>r. long_tp2 sha rest p1 m a p = Inr r"
  using finite_opt_total(2) [of p]
  by (auto simp: long_tp2_def Let_def split: option.splits)

lemma short_tp2_total: "risk_is_configured p \<Longrightarrow> \<exists>r. short_tp2 sha rest p1 m a p = Inr r"
  using finite_opt_total(2) [of p]
  by (auto simp: short_tp2_def Let_def split: option.splits)

lemma long_targets_total:
  assumes conf: "risk_is_configured p"
  shows "\<exists>g. calculate_long_targets sha a b c s s15 atr t p s4 = Inr g"
proof (cases "sort_key (long_target_key sha) (filter (\<lambda>z. zone_type z = ''RESISTANCE'' \<and> price_low z > c) (collect_pit_zones sha s15 s4 t))")
  case Nil
  then show ?thesis unfolding calculate_long_targets_def Let_def by simp
next
  case (Cons z rest)
  obtain r where "finite_opt (min_rr_tp1 p) = Inr (Some r)" using finite_opt_total(1) [OF conf] by blast
  moreover obtain t2 where "long_tp2 sha rest (price_low z) b atr p = Inr t2"
    using long_tp2_total [OF conf] by blast
  ultimately show ?thesis using Cons unfolding calculate_long_targets_def Let_def by simp
qed

lemma short_targets_total:
  assumes conf: "risk_is_configured p"
  shows "\<exists>g. calculate_short_targets sha a b c s s15 atr t p s4 = Inr g"
proof (cases "sort_key (short_target_key sha) (filter (\<lambda>z. zone_type z = ''SUPPORT'' \<and> price_high z < a) (collect_pit_zones sha s15 s4 t))")
  case Nil
  then show ?thesis unfolding calculate_short_targets_def Let_def by simp
next
  case (Cons z rest)
  obtain r where "finite_opt (min_rr_tp1 p) = Inr (Some r)" using finite_opt_total(1) [OF conf] by blast
  moreover obtain t2 where "short_tp2 sha rest (price_high z) b atr p = Inr t2"
    using short_tp2_total [OF conf] by blast
  ultimately show ?thesis using Cons unfolding calculate_short_targets_def Let_def by simp
qed

lemma long_targets_okE:
  assumes "calculate_long_targets sha e_min e_mid e_max s s15 atr t p s4 = Inr g" and "tg_ok g"
  obtains z rest t2 r where
    "s < e_max"
    "sort_key (long_target_key sha) (filter (\<lambda>z. zone_type z = ''RESISTANCE'' \<and> price_low z > e_max)
       (collect_pit_zones sha s15 s4 t)) = z # rest"
    "long_tp2 sha rest (price_low z) e_mid atr p = Inr t2"
    "min_rr_tp1 p = Some (Fin r)"
    "r \<le> ddiv (dsub (price_low z) e_max) (dsub e_max s)"
    "tg_tp1 g = Some (price_low z)" "tg_tp2 g = map_option fst t2"
    "tg_rr1 g = Some (ddiv (dsub (price_low z) e_max) (dsub e_max s))"
    "tg_fp1 g = Some (zone_fp sha z)"
  using assms that
  by (auto simp: calculate_long_targets_def Let_def rbind_Inr_iff finite_opt_Inr
      split: if_splits list.splits)

lemma short_targets_okE:
  assumes "calculate_short_targets sha e_min e_mid e_max s s15 atr t p s4 = Inr g" and "tg_ok g"
  obtains z rest t2 r where
    "e_min < s"
    "sort_key (short_target_key sha) (filter (\<lambda>z. zone_type z = ''SUPPORT'' \<and> price_high z < e_min)
       (collect_pit_zones sha s15 s4 t)) = z # rest"
    "short_tp2 sha rest (price_high z) e_mid atr p = Inr t2"
    "min_rr_tp1 p = Some (Fin r)"
    "r \<le> ddiv (dsub e_min (price_high z)) (dsub s e_min)"
    "tg_tp1 g = Some (price_high z)" "tg_tp2 g = map_option fst t2"
    "tg_rr1 g = Some (ddiv (dsub e_min (price_high z)) (dsub s e_min))"
    "tg_fp1 g = Some (zone_fp sha z)"
  using assms that
  by (auto simp: calculate_short_targets_def Let_def rbind_Inr_iff finite_opt_Inr
      split: if_splits list.splits)

text \<open>
  The abstract specification of a target: structural, in time, on the right side of the
  entry, nearest among the collected zones, with TP2 strictly beyond and enough reward.
\<close>

definition long_target_spec ::
  "structure_zone list \<Rightarrow> int \<Rightarrow> rat \<Rightarrow> rat \<Rightarrow> side_risk_policy \<Rightarrow> target_calc \<Rightarrow> bool" where
  "long_target_spec zs t e_max s p g \<longleftrightarrow>
     (\<exists>z \<in> set zs. zone_in_time t z \<and> zone_type z = ''RESISTANCE'' \<and> e_max < price_low z \<and>
        tg_tp1 g = Some (price_low z) \<and>
        (\<forall>y \<in> set zs. zone_type y = ''RESISTANCE'' \<and> e_max < price_low y \<longrightarrow> price_low z \<le> price_low y) \<and>
        (\<forall>x. tg_tp2 g = Some x \<longrightarrow> price_low z < x) \<and>
        (\<exists>r rr. min_rr_tp1 p = Some (Fin r) \<and> tg_rr1 g = Some rr \<and> r \<le> rr \<and>
          rr = ddiv (dsub (price_low z) e_max) (dsub e_max s)))"

definition short_target_spec ::
  "structure_zone list \<Rightarrow> int \<Rightarrow> rat \<Rightarrow> rat \<Rightarrow> side_risk_policy \<Rightarrow> target_calc \<Rightarrow> bool" where
  "short_target_spec zs t e_min s p g \<longleftrightarrow>
     (\<exists>z \<in> set zs. zone_in_time t z \<and> zone_type z = ''SUPPORT'' \<and> price_high z < e_min \<and>
        tg_tp1 g = Some (price_high z) \<and>
        (\<forall>y \<in> set zs. zone_type y = ''SUPPORT'' \<and> price_high y < e_min \<longrightarrow> price_high y \<le> price_high z) \<and>
        (\<forall>x. tg_tp2 g = Some x \<longrightarrow> x < price_high z) \<and>
        (\<exists>r rr. min_rr_tp1 p = Some (Fin r) \<and> tg_rr1 g = Some rr \<and> r \<le> rr \<and>
          rr = ddiv (dsub e_min (price_high z)) (dsub s e_min)))"

lemma long_targets_meet_spec:
  assumes "calculate_long_targets sha e_min e_mid e_max s s15 atr t p s4 = Inr g" and "tg_ok g"
  shows "long_target_spec (collect_pit_zones sha s15 s4 t) t e_max s p g"
  using assms
proof (rule long_targets_okE)
  fix z rest t2 r
  let ?zs = "collect_pit_zones sha s15 s4 t"
  assume srt: "sort_key (long_target_key sha) (filter (\<lambda>z. zone_type z = ''RESISTANCE'' \<and> price_low z > e_max) ?zs)
      = z # rest"
    and h: "long_tp2 sha rest (price_low z) e_mid atr p = Inr t2"
    "min_rr_tp1 p = Some (Fin r)" "r \<le> ddiv (dsub (price_low z) e_max) (dsub e_max s)"
    "tg_tp1 g = Some (price_low z)" "tg_tp2 g = map_option fst t2"
    "tg_rr1 g = Some (ddiv (dsub (price_low z) e_max) (dsub e_max s))"
  from sort_key_ConsD [OF srt] have z: "z \<in> set ?zs" "zone_type z = ''RESISTANCE''" "e_max < price_low z"
    and least: "\<forall>y\<in>set ?zs. zone_type y = ''RESISTANCE'' \<and> e_max < price_low y \<longrightarrow> price_low z \<le> price_low y"
    by (auto intro: long_key_price)
  moreover from z(1) have "zone_in_time t z" by (auto dest: collect_in_time)
  moreover from h(1,5) have "\<forall>x. tg_tp2 g = Some x \<longrightarrow> price_low z < x"
    by (auto dest: long_tp2_beyond)
  ultimately show ?thesis using h unfolding long_target_spec_def by blast
qed

lemma short_targets_meet_spec:
  assumes "calculate_short_targets sha e_min e_mid e_max s s15 atr t p s4 = Inr g" and "tg_ok g"
  shows "short_target_spec (collect_pit_zones sha s15 s4 t) t e_min s p g"
  using assms
proof (rule short_targets_okE)
  fix z rest t2 r
  let ?zs = "collect_pit_zones sha s15 s4 t"
  assume srt: "sort_key (short_target_key sha) (filter (\<lambda>z. zone_type z = ''SUPPORT'' \<and> price_high z < e_min) ?zs)
      = z # rest"
    and h: "short_tp2 sha rest (price_high z) e_mid atr p = Inr t2"
    "min_rr_tp1 p = Some (Fin r)" "r \<le> ddiv (dsub e_min (price_high z)) (dsub s e_min)"
    "tg_tp1 g = Some (price_high z)" "tg_tp2 g = map_option fst t2"
    "tg_rr1 g = Some (ddiv (dsub e_min (price_high z)) (dsub s e_min))"
  from sort_key_ConsD [OF srt] have z: "z \<in> set ?zs" "zone_type z = ''SUPPORT''" "price_high z < e_min"
    and least: "\<forall>y\<in>set ?zs. zone_type y = ''SUPPORT'' \<and> price_high y < e_min \<longrightarrow> price_high y \<le> price_high z"
    by (auto intro: short_key_price)
  moreover from z(1) have "zone_in_time t z" by (auto dest: collect_in_time)
  moreover from h(1,5) have "\<forall>x. tg_tp2 g = Some x \<longrightarrow> x < price_high z"
    by (auto dest: short_tp2_beyond)
  ultimately show ?thesis using h unfolding short_target_spec_def by blast
qed

section \<open>Causality\<close>

text \<open>Two views of the market that agree on what existed and was active at time \<open>t\<close>.\<close>

definition same_past :: "int \<Rightarrow> structure_result option \<Rightarrow> structure_result option \<Rightarrow> bool" where
  "same_past t a b \<longleftrightarrow> pit_zones t a = pit_zones t b"

lemma same_past_refl [simp]: "same_past t a a"
  by (simp add: same_past_def)

lemma same_past_collect:
  "same_past t a a' \<Longrightarrow> same_past t b b' \<Longrightarrow>
     collect_pit_zones sha a b t = collect_pit_zones sha a' b' t"
  by (simp add: same_past_def collect_pit_zones_def)

lemma same_past_append:
  "\<forall>z \<in> set extra. \<not> zone_in_time t z \<Longrightarrow>
     same_past t (Some (s\<lparr>zones := zones s @ extra\<rparr>)) (Some s)"
  by (simp add: same_past_def pit_zones_def)

lemma long_targets_causal:
  assumes "same_past t a a'" "same_past t b b'"
  shows "calculate_long_targets sha x y z s a atr t p b = calculate_long_targets sha x y z s a' atr t p b'"
  unfolding calculate_long_targets_def same_past_collect [OF assms] by (rule refl)

lemma short_targets_causal:
  assumes "same_past t a a'" "same_past t b b'"
  shows "calculate_short_targets sha x y z s a atr t p b = calculate_short_targets sha x y z s a' atr t p b'"
  unfolding calculate_short_targets_def same_past_collect [OF assms] by (rule refl)

lemmas [eval_defs] = zone_in_time_def pit_zones_def zone_fp_def collect_pit_zones_def long_target_key_def
  short_target_key_def no_targets_def finite_opt_def long_tp2_def short_tp2_def calculate_long_targets_def
  calculate_short_targets_def

end
