(* ===== verification/Planner.thy ===== *)
theory Planner
  imports Targets
begin

text \<open>
  \<open>engine/risk/xauusd_planner.py\<close>: the risk planner. It turns a Phase 4 candidate into a
  plan (entry zone, stops, targets, verdict) for one side, or into a demoted invalid plan.
\<close>

section \<open>Construction\<close>

record planner =
  pl_code_revision :: string
  pl_profile :: risk_profile
  pl_risk_version :: string
  pl_policy_fp :: string

definition make_planner :: "digest \<Rightarrow> string \<Rightarrow> risk_profile option \<Rightarrow> string \<Rightarrow> planner result" where
  "make_planner sha rev_id profile version =
     (if py_strip rev_id = [] then Inl ValueError
      else let pr = (case profile of Some q \<Rightarrow> q | None \<Rightarrow> uncalibrated_xauusd_risk_profile)
           in rbind (compute_phase5_policy_fingerprint sha pr) (\<lambda>fp. Inr
                \<lparr>pl_code_revision = py_strip rev_id, pl_profile = pr,
                 pl_risk_version = version, pl_policy_fp = fp\<rparr>))"

section \<open>Building snapshots\<close>

text \<open>
  The keyword arguments of the snapshot constructors: the identification of the source,
  every optional level \<open>None\<close> until it is set.
\<close>

definition base_plan :: "planner \<Rightarrow> risk_side \<Rightarrow> signal_snapshot \<Rightarrow> risk_plan" where
  "base_plan pl side sg = \<lparr>
     rp_side = side, rp_source_fingerprint = analysis_fingerprint sg,
     rp_source_state = candidate_state sg, rp_source_decision = candidate_decision sg,
     rp_generated_at = sg_timestamp sg,
     entry_min = None, entry_mid = None, entry_max = None,
     stop_structure = None, stop_atr = None, stop_final = None, stop_distance_atr = None,
     tp1 = None, tp2 = None, rr_tp1 = None, rr_tp2 = None,
     rp_valid = False, rp_status = INVALID_RISK_CANDIDATE, simulation_eligible = False,
     candidate_action = WAIT, publication_action = WAIT, rp_reasons = [],
     entry_zone_fp = None, tp1_zone_fp = None, tp2_zone_fp = None,
     rp_policy_fp = pl_policy_fp pl, risk_plan_fp = [],
     rp_risk_version = pl_risk_version pl, rp_code_revision = pl_code_revision pl\<rparr>"

definition with_entry :: "rat \<Rightarrow> rat \<Rightarrow> rat \<Rightarrow> string \<Rightarrow> risk_plan \<Rightarrow> risk_plan" where
  "with_entry a b c fp p = p\<lparr>entry_min := Some a, entry_mid := Some b, entry_max := Some c,
     entry_zone_fp := Some fp\<rparr>"

definition with_stops :: "stop_calc \<Rightarrow> risk_plan \<Rightarrow> risk_plan" where
  "with_stops s p = p\<lparr>stop_structure := Some (sl_structure s), stop_atr := Some (sl_atr s),
     stop_final := Some (sl_final s), stop_distance_atr := Some (sl_distance s)\<rparr>"

definition with_targets :: "target_calc \<Rightarrow> risk_plan \<Rightarrow> risk_plan" where
  "with_targets g p = p\<lparr>tp1 := tg_tp1 g, tp2 := tg_tp2 g, rr_tp1 := tg_rr1 g, rr_tp2 := tg_rr2 g,
     tp1_zone_fp := tg_fp1 g, tp2_zone_fp := tg_fp2 g\<rparr>"

definition build_invalid_snapshot ::
  "digest \<Rightarrow> risk_plan \<Rightarrow> pynum \<Rightarrow> plan_reason list \<Rightarrow> risk_plan result" where
  "build_invalid_snapshot sha p atr_value reasons =
     rbind (compute_risk_plan_fingerprint sha p atr_value) (\<lambda>fp. Inr (p\<lparr>
       rp_valid := False, rp_status := INVALID_RISK_CANDIDATE, simulation_eligible := False,
       candidate_action := WAIT, publication_action := WAIT,
       rp_reasons := (if reasons = [] then [InvalidCandidate] else reasons),
       risk_plan_fp := fp\<rparr>))"

definition build_valid_snapshot ::
  "digest \<Rightarrow> risk_plan \<Rightarrow> pynum \<Rightarrow> risk_candidate_status \<Rightarrow> user_decision \<Rightarrow> plan_reason \<Rightarrow> risk_plan result" where
  "build_valid_snapshot sha p atr_value status action reason =
     rbind (compute_risk_plan_fingerprint sha p atr_value) (\<lambda>fp. Inr (p\<lparr>
       rp_valid := True, rp_status := status, simulation_eligible := True,
       candidate_action := action, publication_action := WAIT,
       rp_reasons := [reason], risk_plan_fp := fp\<rparr>))"

text \<open>The ATR that an early demotion records: zero unless it is a finite \<open>Decimal\<close>.\<close>

definition recorded_atr :: "pynum \<Rightarrow> pynum" where
  "recorded_atr a = (if finite_num a then a else Fin 0)"

section \<open>Entry zones\<close>

definition visible_zones :: "int \<Rightarrow> structure_result option \<Rightarrow> structure_zone list" where
  "visible_zones t so = (case so of
       None \<Rightarrow> []
     | Some s \<Rightarrow> if is_aware (st_timestamp s) \<and> instant (st_timestamp s) \<le> t then zones s else [])"

definition support_key :: "digest \<Rightarrow> structure_zone \<Rightarrow> rat \<times> int \<times> rat \<times> string" where
  "support_key sha z = (- price_high z, instant (created_at z), price_low z, zone_fp sha z)"

definition resistance_key :: "digest \<Rightarrow> structure_zone \<Rightarrow> rat \<times> int \<times> rat \<times> string" where
  "resistance_key sha z = (price_low z, instant (created_at z), - price_high z, zone_fp sha z)"

definition select_support :: "digest \<Rightarrow> int \<Rightarrow> structure_zone list \<Rightarrow> structure_zone option" where
  "select_support sha t zs = first_sorted (support_key sha)
     (filter (\<lambda>z. zone_type z = ''SUPPORT'' \<and> zone_in_time t z) zs)"

definition select_resistance :: "digest \<Rightarrow> int \<Rightarrow> structure_zone list \<Rightarrow> structure_zone option" where
  "select_resistance sha t zs = first_sorted (resistance_key sha)
     (filter (\<lambda>z. zone_type z = ''RESISTANCE'' \<and> zone_in_time t z) zs)"

interpretation support: pit_selector
  "\<lambda>z. zone_type z = ''SUPPORT'' \<and> zone_in_time t z" "support_key sha" "select_support sha t"
  for t sha
  unfolding select_support_def by (rule first_sorted_filter_selector)

interpretation resistance: pit_selector
  "\<lambda>z. zone_type z = ''RESISTANCE'' \<and> zone_in_time t z" "resistance_key sha" "select_resistance sha t"
  for t sha
  unfolding select_resistance_def by (rule first_sorted_filter_selector)

lemma pit_zones_visible: "pit_zones t so = filter (zone_in_time t) (visible_zones t so)"
  by (simp add: pit_zones_def visible_zones_def split: option.split)

lemma filter_type_in_time:
  "filter (\<lambda>z. zone_type z = k \<and> zone_in_time t z) (visible_zones t so) =
     filter (\<lambda>z. zone_type z = k) (pit_zones t so)"
  by (simp add: pit_zones_visible conj_commute)

lemma select_support_causal:
  "same_past t a b \<Longrightarrow> select_support sha t (visible_zones t a) = select_support sha t (visible_zones t b)"
  by (rule support.select_causal) (simp only: filter_type_in_time same_past_def)

lemma select_resistance_causal:
  "same_past t a b \<Longrightarrow>
     select_resistance sha t (visible_zones t a) = select_resistance sha t (visible_zones t b)"
  by (rule resistance.select_causal) (simp only: filter_type_in_time same_past_def)

section \<open>Planning a LONG\<close>

definition plan_long_levels ::
  "digest \<Rightarrow> planner \<Rightarrow> signal_snapshot \<Rightarrow> structure_result option \<Rightarrow> pynum \<Rightarrow> structure_result option \<Rightarrow>
    structure_zone \<Rightarrow> risk_plan result" where
  "plan_long_levels sha pl sg structure_15m atr14 structure_4h z =
     (let policy = long_risk_policy (pl_profile pl);
          t = instant (sg_timestamp sg);
          e_min = price_low z; e_max = price_high z; e_mid = ddiv (dadd e_min e_max) 2;
          p0 = with_entry e_min e_mid e_max (zone_fp sha z) (base_plan pl LONG sg)
      in rbind (calculate_long_stops (Some z) e_min e_mid e_max atr14 policy) (\<lambda>s.
         let p1 = with_stops s p0 in
         if \<not> sl_ok s
         then build_invalid_snapshot sha p1 atr14
           [case sl_error s of Some r \<Rightarrow> r | None \<Rightarrow> InvalidStopArchitecture]
         else rbind (calculate_long_targets sha e_min e_mid e_max (sl_final s) structure_15m
                       (num_value atr14) t policy structure_4h) (\<lambda>g.
           let p2 = with_targets g p1 in
           if \<not> tg_ok g
           then build_invalid_snapshot sha p2 atr14
             [case tg_error g of Some r \<Rightarrow> r | None \<Rightarrow> InvalidRewardArchitecture]
           else build_valid_snapshot sha p2 atr14 VALID_LONG_RISK_CANDIDATE BUY
             (ValidPlan LONG (sl_final s) (the (tg_tp1 g)) (the (tg_rr1 g))))))"

definition plan_long ::
  "digest \<Rightarrow> planner \<Rightarrow> signal_snapshot \<Rightarrow> structure_result option \<Rightarrow> pynum \<Rightarrow> structure_result option \<Rightarrow>
    risk_plan result" where
  "plan_long sha pl sg structure_15m atr14 structure_4h =
     (if sg_instrument sg \<noteq> ''XAUUSD'' then Inl ValueError
      else if \<not> is_aware (sg_timestamp sg) then Inl ValueError
      else if candidate_state sg \<noteq> BUY_WINDOW \<or> candidate_decision sg \<noteq> BUY
      then build_invalid_snapshot sha (base_plan pl LONG sg) (recorded_atr atr14)
        [SourceNotEligible LONG (candidate_state sg) (candidate_decision sg)]
      else if \<not> risk_is_configured (long_risk_policy (pl_profile pl))
      then build_invalid_snapshot sha (base_plan pl LONG sg) (recorded_atr atr14) [PolicyNotConfigured LONG]
      else let t = instant (sg_timestamp sg)
      in case select_support sha t (visible_zones t structure_15m) of
        None \<Rightarrow> build_invalid_snapshot sha (base_plan pl LONG sg) atr14 [MissingZone LONG]
      | Some z \<Rightarrow> plan_long_levels sha pl sg structure_15m atr14 structure_4h z)"

section \<open>Planning a SHORT\<close>

definition plan_short_levels ::
  "digest \<Rightarrow> planner \<Rightarrow> signal_snapshot \<Rightarrow> structure_result option \<Rightarrow> pynum \<Rightarrow> structure_result option \<Rightarrow>
    structure_zone \<Rightarrow> risk_plan result" where
  "plan_short_levels sha pl sg structure_15m atr14 structure_4h z =
     (let policy = short_risk_policy (pl_profile pl);
          t = instant (sg_timestamp sg);
          e_min = price_low z; e_max = price_high z; e_mid = ddiv (dadd e_min e_max) 2;
          p0 = with_entry e_min e_mid e_max (zone_fp sha z) (base_plan pl SHORT sg)
      in rbind (calculate_short_stops (Some z) e_min e_mid e_max atr14 policy) (\<lambda>s.
         let p1 = with_stops s p0 in
         if \<not> sl_ok s
         then build_invalid_snapshot sha p1 atr14
           [case sl_error s of Some r \<Rightarrow> r | None \<Rightarrow> InvalidStopArchitecture]
         else rbind (calculate_short_targets sha e_min e_mid e_max (sl_final s) structure_15m
                       (num_value atr14) t policy structure_4h) (\<lambda>g.
           let p2 = with_targets g p1 in
           if \<not> tg_ok g
           then build_invalid_snapshot sha p2 atr14
             [case tg_error g of Some r \<Rightarrow> r | None \<Rightarrow> InvalidRewardArchitecture]
           else build_valid_snapshot sha p2 atr14 VALID_SHORT_RISK_CANDIDATE SELL
             (ValidPlan SHORT (sl_final s) (the (tg_tp1 g)) (the (tg_rr1 g))))))"

definition plan_short ::
  "digest \<Rightarrow> planner \<Rightarrow> signal_snapshot \<Rightarrow> structure_result option \<Rightarrow> pynum \<Rightarrow> structure_result option \<Rightarrow>
    risk_plan result" where
  "plan_short sha pl sg structure_15m atr14 structure_4h =
     (if sg_instrument sg \<noteq> ''XAUUSD'' then Inl ValueError
      else if \<not> is_aware (sg_timestamp sg) then Inl ValueError
      else if candidate_state sg \<noteq> SELL_WINDOW \<or> candidate_decision sg \<noteq> SELL
      then build_invalid_snapshot sha (base_plan pl SHORT sg) (recorded_atr atr14)
        [SourceNotEligible SHORT (candidate_state sg) (candidate_decision sg)]
      else if \<not> risk_is_configured (short_risk_policy (pl_profile pl))
      then build_invalid_snapshot sha (base_plan pl SHORT sg) (recorded_atr atr14) [PolicyNotConfigured SHORT]
      else let t = instant (sg_timestamp sg)
      in case select_resistance sha t (visible_zones t structure_15m) of
        None \<Rightarrow> build_invalid_snapshot sha (base_plan pl SHORT sg) atr14 [MissingZone SHORT]
      | Some z \<Rightarrow> plan_short_levels sha pl sg structure_15m atr14 structure_4h z)"

section \<open>Snapshot lemmas\<close>

named_theorems plan_fields \<open>fields of the snapshot constructors\<close>

lemma base_plan_fields [plan_fields]:
  "rp_generated_at (base_plan pl side sg) = sg_timestamp sg"
  "rp_side (base_plan pl side sg) = side"
  "rp_generated_at (with_entry a b c fp p) = rp_generated_at p"
  "rp_generated_at (with_stops s p) = rp_generated_at p"
  "rp_generated_at (with_targets g p) = rp_generated_at p"
  "rp_side (with_entry a b c fp p) = rp_side p"
  "rp_side (with_stops s p) = rp_side p"
  "rp_side (with_targets g p) = rp_side p"
  by (simp_all add: base_plan_def with_entry_def with_stops_def with_targets_def)

lemma level_fields [plan_fields]:
  "entry_min (with_targets g (with_stops s (with_entry a b c fp p))) = Some a"
  "entry_mid (with_targets g (with_stops s (with_entry a b c fp p))) = Some b"
  "entry_max (with_targets g (with_stops s (with_entry a b c fp p))) = Some c"
  "stop_final (with_targets g (with_stops s p)) = Some (sl_final s)"
  "tp1 (with_targets g p) = tg_tp1 g"
  "tp2 (with_targets g p) = tg_tp2 g"
  "rr_tp1 (with_targets g p) = tg_rr1 g"
  by (simp_all add: with_entry_def with_stops_def with_targets_def)

lemma plan_fingerprint_total:
  "is_aware (rp_generated_at p) \<Longrightarrow> \<exists>fp. compute_risk_plan_fingerprint sha p a = Inr fp"
  by (simp add: compute_risk_plan_fingerprint_def canonical_of_aware)

lemma build_invalid_total:
  "is_aware (rp_generated_at p) \<Longrightarrow> \<exists>q. build_invalid_snapshot sha p a rs = Inr q"
  using plan_fingerprint_total [of p sha a] by (auto simp: build_invalid_snapshot_def)

lemma build_valid_total:
  "is_aware (rp_generated_at p) \<Longrightarrow> \<exists>q. build_valid_snapshot sha p a st act r = Inr q"
  using plan_fingerprint_total [of p sha a] by (auto simp: build_valid_snapshot_def)

lemma build_invalid_fields:
  "build_invalid_snapshot sha p a rs = Inr q \<Longrightarrow>
     \<not> rp_valid q \<and> \<not> simulation_eligible q \<and> rp_status q = INVALID_RISK_CANDIDATE \<and>
     candidate_action q = WAIT \<and> publication_action q = WAIT \<and> rp_side q = rp_side p \<and> rp_reasons q \<noteq> []"
  by (auto simp: build_invalid_snapshot_def rbind_Inr_iff split: if_splits)

lemma build_valid_fields:
  "build_valid_snapshot sha p a st act r = Inr q \<Longrightarrow>
     rp_valid q \<and> simulation_eligible q \<and> rp_status q = st \<and> candidate_action q = act \<and>
     publication_action q = WAIT \<and> rp_side q = rp_side p \<and> rp_reasons q = [r] \<and>
     entry_min q = entry_min p \<and> entry_mid q = entry_mid p \<and> entry_max q = entry_max p \<and>
     stop_final q = stop_final p \<and> tp1 q = tp1 p \<and> tp2 q = tp2 p \<and> rr_tp1 q = rr_tp1 p"
  by (auto simp: build_valid_snapshot_def rbind_Inr_iff)

section \<open>LONG and SHORT planning, case by case\<close>

lemma plan_long_levels_total:
  assumes "is_aware (sg_timestamp sg)" and conf: "risk_is_configured (long_risk_policy (pl_profile pl))"
  shows "\<exists>p. plan_long_levels sha pl sg s15 atr s4 z = Inr p"
proof -
  obtain s where "calculate_long_stops (Some z) (price_low z) (ddiv (dadd (price_low z) (price_high z)) 2)
      (price_high z) atr (long_risk_policy (pl_profile pl)) = Inr s"
    using long_stops_total [OF conf] by blast
  moreover obtain g where "calculate_long_targets sha (price_low z) (ddiv (dadd (price_low z) (price_high z)) 2)
      (price_high z) (sl_final s) s15 (num_value atr) (instant (sg_timestamp sg))
      (long_risk_policy (pl_profile pl)) s4 = Inr g"
    using long_targets_total [OF conf] by blast
  ultimately show ?thesis using assms(1)
    by (simp add: plan_long_levels_def Let_def build_invalid_total build_valid_total plan_fields)
qed

lemma plan_long_error:
  "plan_long sha pl sg s15 atr s4 = Inl e \<longleftrightarrow>
     (sg_instrument sg \<noteq> ''XAUUSD'' \<or> \<not> is_aware (sg_timestamp sg)) \<and> e = ValueError"
proof (cases "sg_instrument sg \<noteq> ''XAUUSD'' \<or> \<not> is_aware (sg_timestamp sg)")
  case True
  then show ?thesis by (auto simp: plan_long_def)
next
  case False
  then have "\<exists>p. plan_long sha pl sg s15 atr s4 = Inr p"
    using plan_long_levels_total [of sg pl sha s15 atr s4]
    by (simp add: plan_long_def Let_def build_invalid_total plan_fields split: option.split)
  with False show ?thesis by auto
qed

lemma plan_long_validE:
  assumes "plan_long sha pl sg s15 atr s4 = Inr p" and "rp_valid p"
  obtains z s g a where
    "candidate_state sg = BUY_WINDOW" "candidate_decision sg = BUY"
    "risk_is_configured (long_risk_policy (pl_profile pl))"
    "select_support sha (instant (sg_timestamp sg)) (visible_zones (instant (sg_timestamp sg)) s15) = Some z"
    "calculate_long_stops (Some z) (price_low z) (ddiv (dadd (price_low z) (price_high z)) 2)
       (price_high z) atr (long_risk_policy (pl_profile pl)) = Inr s" "sl_ok s"
    "calculate_long_targets sha (price_low z) (ddiv (dadd (price_low z) (price_high z)) 2)
       (price_high z) (sl_final s) s15 (num_value atr) (instant (sg_timestamp sg))
       (long_risk_policy (pl_profile pl)) s4 = Inr g" "tg_ok g"
    "build_valid_snapshot sha
       (with_targets g (with_stops s (with_entry (price_low z) (ddiv (dadd (price_low z) (price_high z)) 2)
         (price_high z) (zone_fp sha z) (base_plan pl LONG sg)))) atr VALID_LONG_RISK_CANDIDATE BUY a = Inr p"
  using assms that
  by (auto simp: plan_long_def plan_long_levels_def Let_def rbind_Inr_iff
      dest: build_invalid_fields split: if_splits option.splits)

lemma plan_long_invalid:
  assumes "plan_long sha pl sg s15 atr s4 = Inr p" and "\<not> rp_valid p"
  shows "\<not> simulation_eligible p \<and> rp_status p = INVALID_RISK_CANDIDATE \<and>
     candidate_action p = WAIT \<and> publication_action p = WAIT \<and> rp_side p = LONG \<and> rp_reasons p \<noteq> []"
  using assms
  by (auto simp: plan_long_def plan_long_levels_def Let_def rbind_Inr_iff plan_fields
      dest!: build_invalid_fields build_valid_fields split: if_splits option.splits)

lemma plan_long_valid:
  assumes "plan_long sha pl sg s15 atr s4 = Inr p" and "rp_valid p"
  shows "simulation_eligible p \<and> rp_status p = VALID_LONG_RISK_CANDIDATE \<and>
     candidate_action p = BUY \<and> publication_action p = WAIT \<and> rp_side p = LONG \<and>
     candidate_state sg = BUY_WINDOW \<and> candidate_decision sg = BUY"
  using assms by (elim plan_long_validE) (auto dest!: build_valid_fields simp: plan_fields)

lemma plan_long_causal:
  assumes "same_past (instant (sg_timestamp sg)) a a'" and "same_past (instant (sg_timestamp sg)) b b'"
  shows "plan_long sha pl sg a atr b = plan_long sha pl sg a' atr b'"
  unfolding plan_long_def plan_long_levels_def Let_def
    select_support_causal [OF assms(1)] long_targets_causal [OF assms] by (rule refl)

lemma plan_short_levels_total:
  assumes "is_aware (sg_timestamp sg)" and conf: "risk_is_configured (short_risk_policy (pl_profile pl))"
  shows "\<exists>p. plan_short_levels sha pl sg s15 atr s4 z = Inr p"
proof -
  obtain s where "calculate_short_stops (Some z) (price_low z) (ddiv (dadd (price_low z) (price_high z)) 2)
      (price_high z) atr (short_risk_policy (pl_profile pl)) = Inr s"
    using short_stops_total [OF conf] by blast
  moreover obtain g where "calculate_short_targets sha (price_low z) (ddiv (dadd (price_low z) (price_high z)) 2)
      (price_high z) (sl_final s) s15 (num_value atr) (instant (sg_timestamp sg))
      (short_risk_policy (pl_profile pl)) s4 = Inr g"
    using short_targets_total [OF conf] by blast
  ultimately show ?thesis using assms(1)
    by (simp add: plan_short_levels_def Let_def build_invalid_total build_valid_total plan_fields)
qed

lemma plan_short_error:
  "plan_short sha pl sg s15 atr s4 = Inl e \<longleftrightarrow>
     (sg_instrument sg \<noteq> ''XAUUSD'' \<or> \<not> is_aware (sg_timestamp sg)) \<and> e = ValueError"
proof (cases "sg_instrument sg \<noteq> ''XAUUSD'' \<or> \<not> is_aware (sg_timestamp sg)")
  case True
  then show ?thesis by (auto simp: plan_short_def)
next
  case False
  then have "\<exists>p. plan_short sha pl sg s15 atr s4 = Inr p"
    using plan_short_levels_total [of sg pl sha s15 atr s4]
    by (simp add: plan_short_def Let_def build_invalid_total plan_fields split: option.split)
  with False show ?thesis by auto
qed

lemma plan_short_validE:
  assumes "plan_short sha pl sg s15 atr s4 = Inr p" and "rp_valid p"
  obtains z s g a where
    "candidate_state sg = SELL_WINDOW" "candidate_decision sg = SELL"
    "risk_is_configured (short_risk_policy (pl_profile pl))"
    "select_resistance sha (instant (sg_timestamp sg)) (visible_zones (instant (sg_timestamp sg)) s15) = Some z"
    "calculate_short_stops (Some z) (price_low z) (ddiv (dadd (price_low z) (price_high z)) 2)
       (price_high z) atr (short_risk_policy (pl_profile pl)) = Inr s" "sl_ok s"
    "calculate_short_targets sha (price_low z) (ddiv (dadd (price_low z) (price_high z)) 2)
       (price_high z) (sl_final s) s15 (num_value atr) (instant (sg_timestamp sg))
       (short_risk_policy (pl_profile pl)) s4 = Inr g" "tg_ok g"
    "build_valid_snapshot sha
       (with_targets g (with_stops s (with_entry (price_low z) (ddiv (dadd (price_low z) (price_high z)) 2)
         (price_high z) (zone_fp sha z) (base_plan pl SHORT sg)))) atr VALID_SHORT_RISK_CANDIDATE SELL a = Inr p"
  using assms that
  by (auto simp: plan_short_def plan_short_levels_def Let_def rbind_Inr_iff
      dest: build_invalid_fields split: if_splits option.splits)

lemma plan_short_invalid:
  assumes "plan_short sha pl sg s15 atr s4 = Inr p" and "\<not> rp_valid p"
  shows "\<not> simulation_eligible p \<and> rp_status p = INVALID_RISK_CANDIDATE \<and>
     candidate_action p = WAIT \<and> publication_action p = WAIT \<and> rp_side p = SHORT \<and> rp_reasons p \<noteq> []"
  using assms
  by (auto simp: plan_short_def plan_short_levels_def Let_def rbind_Inr_iff plan_fields
      dest!: build_invalid_fields build_valid_fields split: if_splits option.splits)

lemma plan_short_valid:
  assumes "plan_short sha pl sg s15 atr s4 = Inr p" and "rp_valid p"
  shows "simulation_eligible p \<and> rp_status p = VALID_SHORT_RISK_CANDIDATE \<and>
     candidate_action p = SELL \<and> publication_action p = WAIT \<and> rp_side p = SHORT \<and>
     candidate_state sg = SELL_WINDOW \<and> candidate_decision sg = SELL"
  using assms by (elim plan_short_validE) (auto dest!: build_valid_fields simp: plan_fields)

lemma plan_short_causal:
  assumes "same_past (instant (sg_timestamp sg)) a a'" and "same_past (instant (sg_timestamp sg)) b b'"
  shows "plan_short sha pl sg a atr b = plan_short sha pl sg a' atr b'"
  unfolding plan_short_def plan_short_levels_def Let_def
    select_resistance_causal [OF assms(1)] short_targets_causal [OF assms] by (rule refl)

section \<open>The contract of a side planner\<close>

text \<open>
  What the execution side relies on, whichever side plans: when planning raises, that an
  invalid plan is demoted to WAIT, that a valid one repeats the source decision, and that
  only the past counts. \<open>window\<close> and \<open>act\<close> are the candidate state and decision of the side.
\<close>

locale side_planner =
  fixes plan :: "signal_snapshot \<Rightarrow> structure_result option \<Rightarrow> pynum \<Rightarrow> structure_result option \<Rightarrow> risk_plan result"
    and side :: risk_side
    and window :: signal_state
    and act :: user_decision
  assumes plan_error: "plan sg a r b = Inl e \<longleftrightarrow>
      (sg_instrument sg \<noteq> ''XAUUSD'' \<or> \<not> is_aware (sg_timestamp sg)) \<and> e = ValueError"
    and plan_valid: "plan sg a r b = Inr p \<Longrightarrow> rp_valid p \<Longrightarrow>
      simulation_eligible p \<and> candidate_action p = act \<and> publication_action p = WAIT \<and> rp_side p = side \<and>
      candidate_state sg = window \<and> candidate_decision sg = act"
    and plan_invalid: "plan sg a r b = Inr p \<Longrightarrow> \<not> rp_valid p \<Longrightarrow>
      \<not> simulation_eligible p \<and> candidate_action p = WAIT \<and> publication_action p = WAIT \<and> rp_side p = side \<and>
      rp_reasons p \<noteq> []"
    and plan_causal: "same_past (instant (sg_timestamp sg)) a a' \<Longrightarrow>
      same_past (instant (sg_timestamp sg)) b b' \<Longrightarrow> plan sg a r b = plan sg a' r b'"
begin

lemma plan_returns:
  "sg_instrument sg = ''XAUUSD'' \<Longrightarrow> is_aware (sg_timestamp sg) \<Longrightarrow> \<exists>p. plan sg a r b = Inr p"
  using plan_error by (cases "plan sg a r b") auto

lemma published_wait: "plan sg a r b = Inr p \<Longrightarrow> publication_action p = WAIT"
  using plan_valid plan_invalid by blast

lemma eligible_iff_valid: "plan sg a r b = Inr p \<Longrightarrow> simulation_eligible p \<longleftrightarrow> rp_valid p"
  using plan_valid plan_invalid by blast

lemma no_promotion:
  "plan sg a r b = Inr p \<Longrightarrow>
     candidate_action p = WAIT \<or> (candidate_action p = candidate_decision sg \<and> candidate_state sg = window \<and> rp_valid p)"
  using plan_valid plan_invalid by metis

lemma wait_stays_wait:
  "plan sg a r b = Inr p \<Longrightarrow> candidate_decision sg = WAIT \<Longrightarrow> candidate_action p = WAIT"
  using no_promotion by fastforce

lemma later_zones_ignored:
  "\<forall>z \<in> set extra. \<not> zone_in_time (instant (sg_timestamp sg)) z \<Longrightarrow>
     plan sg (Some (st\<lparr>zones := zones st @ extra\<rparr>)) r b = plan sg (Some st) r b"
  by (rule plan_causal) (simp_all add: same_past_append)

end

interpretation long_planner: side_planner "plan_long sha pl" LONG BUY_WINDOW BUY for sha pl
proof unfold_locales
  show "plan_long sha pl sg a r b = plan_long sha pl sg a' r b'"
    if "same_past (instant (sg_timestamp sg)) a a'" "same_past (instant (sg_timestamp sg)) b b'" for sg a a' r b b'
    using that by (rule plan_long_causal)
qed (simp_all add: plan_long_error plan_long_valid plan_long_invalid)

interpretation short_planner: side_planner "plan_short sha pl" SHORT SELL_WINDOW SELL for sha pl
proof unfold_locales
  show "plan_short sha pl sg a r b = plan_short sha pl sg a' r b'"
    if "same_past (instant (sg_timestamp sg)) a a'" "same_past (instant (sg_timestamp sg)) b b'" for sg a a' r b b'
    using that by (rule plan_short_causal)
qed (simp_all add: plan_short_error plan_short_valid plan_short_invalid)

lemmas [eval_defs] = base_plan_def with_entry_def with_stops_def with_targets_def build_invalid_snapshot_def
  build_valid_snapshot_def recorded_atr_def visible_zones_def support_key_def resistance_key_def select_support_def
  select_resistance_def plan_long_levels_def plan_long_def plan_short_levels_def plan_short_def

section \<open>Properties\<close>

lemma plan_long_geometry:
  assumes "plan_long sha pl sg s15 atr s4 = Inr p" and "rp_valid p"
  shows "\<exists>lo hi sl t1 rr r. entry_min p = Some lo \<and> entry_max p = Some hi \<and> stop_final p = Some sl \<and>
    tp1 p = Some t1 \<and> rr_tp1 p = Some rr \<and> sl < lo \<and> sl < hi \<and> hi < t1 \<and>
    (\<forall>t2. tp2 p = Some t2 \<longrightarrow> t1 < t2) \<and> min_rr_tp1 (long_risk_policy (pl_profile pl)) = Some (Fin r) \<and> r \<le> rr \<and>
    rr = ddiv (dsub t1 hi) (dsub hi sl)"
  using assms
proof (rule plan_long_validE)
  fix z s g a
  assume st: "calculate_long_stops (Some z) (price_low z) (ddiv (dadd (price_low z) (price_high z)) 2)
      (price_high z) atr (long_risk_policy (pl_profile pl)) = Inr s" "sl_ok s"
    and tg: "calculate_long_targets sha (price_low z) (ddiv (dadd (price_low z) (price_high z)) 2)
      (price_high z) (sl_final s) s15 (num_value atr) (instant (sg_timestamp sg))
      (long_risk_policy (pl_profile pl)) s4 = Inr g" "tg_ok g"
    and p: "build_valid_snapshot sha (with_targets g (with_stops s (with_entry (price_low z)
      (ddiv (dadd (price_low z) (price_high z)) 2) (price_high z) (zone_fp sha z) (base_plan pl LONG sg))))
      atr VALID_LONG_RISK_CANDIDATE BUY a = Inr p"
  have "sl_final s < price_low z" "sl_final s < price_high z"
    by (rule long_stops_okE [OF st], simp)+
  with build_valid_fields [OF p] long_targets_meet_spec [OF tg] show ?thesis
    by (auto simp: plan_fields long_target_spec_def)
qed

lemma plan_short_geometry:
  assumes "plan_short sha pl sg s15 atr s4 = Inr p" and "rp_valid p"
  shows "\<exists>lo hi sl t1 rr r. entry_min p = Some lo \<and> entry_max p = Some hi \<and> stop_final p = Some sl \<and>
    tp1 p = Some t1 \<and> rr_tp1 p = Some rr \<and> hi < sl \<and> lo < sl \<and> t1 < lo \<and>
    (\<forall>t2. tp2 p = Some t2 \<longrightarrow> t2 < t1) \<and> min_rr_tp1 (short_risk_policy (pl_profile pl)) = Some (Fin r) \<and> r \<le> rr \<and>
    rr = ddiv (dsub lo t1) (dsub sl lo)"
  using assms
proof (rule plan_short_validE)
  fix z s g a
  assume st: "calculate_short_stops (Some z) (price_low z) (ddiv (dadd (price_low z) (price_high z)) 2)
      (price_high z) atr (short_risk_policy (pl_profile pl)) = Inr s" "sl_ok s"
    and tg: "calculate_short_targets sha (price_low z) (ddiv (dadd (price_low z) (price_high z)) 2)
      (price_high z) (sl_final s) s15 (num_value atr) (instant (sg_timestamp sg))
      (short_risk_policy (pl_profile pl)) s4 = Inr g" "tg_ok g"
    and p: "build_valid_snapshot sha (with_targets g (with_stops s (with_entry (price_low z)
      (ddiv (dadd (price_low z) (price_high z)) 2) (price_high z) (zone_fp sha z) (base_plan pl SHORT sg))))
      atr VALID_SHORT_RISK_CANDIDATE SELL a = Inr p"
  have "price_high z < sl_final s" "price_low z < sl_final s"
    by (rule short_stops_okE [OF st], simp)+
  with build_valid_fields [OF p] short_targets_meet_spec [OF tg] show ?thesis
    by (auto simp: plan_fields short_target_spec_def)
qed

definition sample_planner :: planner where
  "sample_planner = \<lparr>pl_code_revision = ''rev'', pl_profile = sample_profile, pl_risk_version = ''v'',
     pl_policy_fp = ''pf''\<rparr>"

definition sample_market :: "structure_result option" where
  "sample_market = Some (sample_structure [zone_at ''SUPPORT'' 0 100 104, zone_at ''RESISTANCE'' 0 140 144])"

lemmas [eval_defs] = sample_planner_def sample_market_def uncalibrated_xauusd_risk_profile_def

lemma sample_long_plan:
  "plan_long sample_digest sample_planner (sample_signal BUY_WINDOW BUY 0) sample_market (Fin 5) None = Inr p \<Longrightarrow>
     rp_valid p \<and> candidate_action p = BUY \<and> entry_max p = Some 104 \<and> stop_final p = Some 92 \<and> tp1 p = Some 140"
  by (simp add: eval_defs Let_def cong: eval_congs) auto

lemma sample_long_plan_returns:
  "\<exists>p. plan_long sample_digest sample_planner (sample_signal BUY_WINDOW BUY 0) sample_market (Fin 5) None = Inr p"
  by (rule long_planner.plan_returns) (simp_all add: sample_defs)

lemma sample_short_plan:
  "plan_short sample_digest sample_planner (sample_signal SELL_WINDOW SELL 0) sample_market (Fin 5) None = Inr p \<Longrightarrow>
     rp_valid p \<and> candidate_action p = SELL \<and> entry_min p = Some 140 \<and> stop_final p = Some 152 \<and> tp1 p = Some 104"
  by (simp add: eval_defs Let_def cong: eval_congs) auto

lemma sample_short_plan_returns:
  "\<exists>p. plan_short sample_digest sample_planner (sample_signal SELL_WINDOW SELL 0) sample_market (Fin 5) None = Inr p"
  by (rule short_planner.plan_returns) (simp_all add: sample_defs)

text \<open>
  The planner never promotes: whatever it returns publishes WAIT; a plan is eligible for
  simulation exactly when it is valid; and its action is WAIT unless the plan is valid and the
  source was in the side's own window, and then it is the source's decision.
\<close>

theorem plan_never_promotes:
  assumes "(window = BUY_WINDOW \<and> plan_long sha pl sg s15 atr s4 = Inr p) \<or>
           (window = SELL_WINDOW \<and> plan_short sha pl sg s15 atr s4 = Inr p)"
  shows "publication_action p = WAIT \<and> (simulation_eligible p \<longleftrightarrow> rp_valid p) \<and>
    (candidate_action p = WAIT \<or>
     (candidate_action p = candidate_decision sg \<and> candidate_state sg = window \<and> rp_valid p))"
  using assms
proof (elim disjE conjE)
  assume p: "plan_long sha pl sg s15 atr s4 = Inr p" and w: "window = BUY_WINDOW"
  show ?thesis
    using long_planner.published_wait [OF p] long_planner.eligible_iff_valid [OF p] long_planner.no_promotion [OF p] w
    by simp
next
  assume p: "plan_short sha pl sg s15 atr s4 = Inr p" and w: "window = SELL_WINDOW"
  show ?thesis
    using short_planner.published_wait [OF p] short_planner.eligible_iff_valid [OF p] short_planner.no_promotion [OF p] w
    by simp
qed

theorem plan_never_promotes_witness:
  "\<exists>p. plan_long sample_digest sample_planner (sample_signal BUY_WINDOW BUY 0) sample_market (Fin 5) None = Inr p \<and>
     publication_action p = WAIT \<and> rp_valid p \<and> simulation_eligible p"
proof -
  from sample_long_plan_returns obtain p
    where p: "plan_long sample_digest sample_planner (sample_signal BUY_WINDOW BUY 0) sample_market (Fin 5) None = Inr p" ..
  with plan_never_promotes [of BUY_WINDOW sample_digest sample_planner "sample_signal BUY_WINDOW BUY 0" sample_market
      "Fin 5" None p] sample_long_plan [OF p]
  show ?thesis by auto
qed

text \<open>
  C11. Geometry of a valid LONG plan: the stop lies below the whole entry zone, the first
  target above it and the second target beyond the first; the reward to risk ratio of the
  worst entry is the recorded one and reaches the policy's minimum.
\<close>

theorem valid_long_plan_geometry:
  assumes "plan_long sha pl sg s15 atr s4 = Inr p" and "rp_valid p"
  shows "\<exists>lo hi sl t1 rr r. entry_min p = Some lo \<and> entry_max p = Some hi \<and> stop_final p = Some sl \<and>
    tp1 p = Some t1 \<and> rr_tp1 p = Some rr \<and> sl < lo \<and> sl < hi \<and> hi < t1 \<and>
    (\<forall>t2. tp2 p = Some t2 \<longrightarrow> t1 < t2) \<and> min_rr_tp1 (long_risk_policy (pl_profile pl)) = Some (Fin r) \<and> r \<le> rr \<and>
    rr = ddiv (dsub t1 hi) (dsub hi sl)"
  using assms by (rule plan_long_geometry)

theorem valid_long_plan_geometry_witness:
  "\<exists>p. plan_long sample_digest sample_planner (sample_signal BUY_WINDOW BUY 0) sample_market (Fin 5) None = Inr p \<and>
     rp_valid p \<and> the (stop_final p) < the (entry_min p) \<and> the (entry_max p) < the (tp1 p)"
proof -
  from sample_long_plan_returns obtain p
    where p: "plan_long sample_digest sample_planner (sample_signal BUY_WINDOW BUY 0) sample_market (Fin 5) None = Inr p" ..
  from sample_long_plan [OF p] have v: "rp_valid p" by simp
  from valid_long_plan_geometry [OF p v] p v show ?thesis by auto
qed

text \<open>
  C12. Geometry of a valid SHORT plan, the same with the order of prices reversed.
\<close>

theorem valid_short_plan_geometry:
  assumes "plan_short sha pl sg s15 atr s4 = Inr p" and "rp_valid p"
  shows "\<exists>lo hi sl t1 rr r. entry_min p = Some lo \<and> entry_max p = Some hi \<and> stop_final p = Some sl \<and>
    tp1 p = Some t1 \<and> rr_tp1 p = Some rr \<and> hi < sl \<and> lo < sl \<and> t1 < lo \<and>
    (\<forall>t2. tp2 p = Some t2 \<longrightarrow> t2 < t1) \<and> min_rr_tp1 (short_risk_policy (pl_profile pl)) = Some (Fin r) \<and> r \<le> rr \<and>
    rr = ddiv (dsub lo t1) (dsub sl lo)"
  using assms by (rule plan_short_geometry)

theorem valid_short_plan_geometry_witness:
  "\<exists>p. plan_short sample_digest sample_planner (sample_signal SELL_WINDOW SELL 0) sample_market (Fin 5) None = Inr p \<and>
     rp_valid p \<and> the (entry_max p) < the (stop_final p) \<and> the (tp1 p) < the (entry_min p)"
proof -
  from sample_short_plan_returns obtain p
    where p: "plan_short sample_digest sample_planner (sample_signal SELL_WINDOW SELL 0) sample_market (Fin 5) None = Inr p" ..
  from sample_short_plan [OF p] have v: "rp_valid p" by simp
  from valid_short_plan_geometry [OF p v] p v show ?thesis by auto
qed

text \<open>
  Planning fails in two cases only: it raises \<open>ValueError\<close> for an instrument other than
  XAUUSD or a naive timestamp, and otherwise returns a plan, whatever the structure, the ATR
  (absent, NaN, negative) and the policy are.
\<close>

theorem plan_raises_iff:
  "(plan_long sha pl sg s15 atr s4 = Inl e \<longleftrightarrow>
      \<not> (sg_instrument sg = ''XAUUSD'' \<and> is_aware (sg_timestamp sg)) \<and> e = ValueError) \<and>
   (plan_short sha pl sg s15 atr s4 = Inl e \<longleftrightarrow>
      \<not> (sg_instrument sg = ''XAUUSD'' \<and> is_aware (sg_timestamp sg)) \<and> e = ValueError)"
  by (auto simp: plan_long_error plan_short_error)

text \<open>
  Plans are causal: zones that are inactive or were created after the signal change
  neither side's plan, fingerprints included, when they are added to the 15m or to the 4h
  structure.
\<close>

theorem plan_ignores_future_zones:
  assumes "\<forall>z \<in> set later. \<not> zone_in_time (instant (sg_timestamp sg)) z"
  shows "plan_long sha pl sg (Some (s15\<lparr>zones := zones s15 @ later\<rparr>)) atr (Some (s4\<lparr>zones := zones s4 @ later\<rparr>))
      = plan_long sha pl sg (Some s15) atr (Some s4) \<and>
    plan_short sha pl sg (Some (s15\<lparr>zones := zones s15 @ later\<rparr>)) atr (Some (s4\<lparr>zones := zones s4 @ later\<rparr>))
      = plan_short sha pl sg (Some s15) atr (Some s4)"
  using assms by (intro conjI long_planner.plan_causal short_planner.plan_causal same_past_append)

theorem plan_ignores_future_zones_witness:
  "plan_long sample_digest sample_planner (sample_signal BUY_WINDOW BUY 0)
     (Some (the sample_market\<lparr>zones := zones (the sample_market) @ [zone_at ''SUPPORT'' 900 103 105]\<rparr>)) (Fin 5)
     (Some (the sample_market\<lparr>zones := zones (the sample_market) @ [zone_at ''SUPPORT'' 900 103 105]\<rparr>))
   = plan_long sample_digest sample_planner (sample_signal BUY_WINDOW BUY 0) (Some (the sample_market)) (Fin 5)
       (Some (the sample_market))"
  by (rule plan_ignores_future_zones [THEN conjunct1]) (simp add: zone_in_time_def sample_defs time_units)

end
