(* ===== verification/Execution.thy ===== *)
theory Execution
  imports Planner
begin

text \<open>
  \<open>engine/risk/xauusd_execution.py\<close>: quote and candle validation, and the simulation of a
  market order, a next-bar-open order and a limit order. \<open>host\<close> is the host's UTC offset,
  which the code uses when a caller passes a naive deadline. Instants are in microseconds.
\<close>

section \<open>Evidence validation\<close>

definition validate_xauusd_quote :: "quote \<Rightarrow> bool" where
  "validate_xauusd_quote q =
     (if \<not> is_aware (q_timestamp q) then False
      else if \<not> positive_num (bid q) then False
      else if \<not> positive_num (ask q) then False
      else if num_value (bid q) > num_value (ask q) then False
      else True)"

definition validate_xauusd_candle :: "candle \<Rightarrow> bool" where
  "validate_xauusd_candle c =
     (if \<not> is_aware (timestamp_open c) then False
      else if \<not> is_aware (timestamp_close c) then False
      else if instant (timestamp_close c) \<le> instant (timestamp_open c) then False
      else if \<not> (\<forall>p \<in> set [c_open c, c_high c, c_low c, c_close c]. positive_num p) then False
      else if \<not> nonneg_num (volume c) then False
      else if num_value (c_low c) > num_value (c_high c) then False
      else if num_value (c_high c) < num_value (c_open c) \<or> num_value (c_high c) < num_value (c_close c) then False
      else if num_value (c_low c) > num_value (c_open c) \<or> num_value (c_low c) > num_value (c_close c) then False
      else True)"

lemma validate_quoteE:
  assumes "validate_xauusd_quote q"
  obtains u b a where "q_timestamp q = Aware u" "bid q = Fin b" "ask q = Fin a" "0 < b" "b \<le> a"
  using assms
  by (cases "q_timestamp q") (auto simp: validate_xauusd_quote_def split: if_splits elim!: positive_numE)

lemma validate_candleE:
  assumes "validate_xauusd_candle c"
  obtains t0 t1 po ph pl pc where "timestamp_open c = Aware t0" "timestamp_close c = Aware t1" "t0 < t1"
    "c_open c = Fin po" "c_high c = Fin ph" "c_low c = Fin pl" "c_close c = Fin pc"
    "0 < pl" "pl \<le> po" "po \<le> ph" "pl \<le> pc" "pc \<le> ph"
  using assms
  by (cases "timestamp_open c"; cases "timestamp_close c")
    (auto simp: validate_xauusd_candle_def split: if_splits elim!: positive_numE)

section \<open>The execution model\<close>

record exec_model =
  em_code_revision :: string
  em_policy :: execution_policy
  em_policy_fp :: string

definition make_exec_model :: "string \<Rightarrow> execution_policy \<Rightarrow> string \<Rightarrow> exec_model result" where
  "make_exec_model rev_id policy fp =
     (if py_strip rev_id = [] then Inl ValueError
      else if py_strip fp = [] \<or> py_upper (py_strip fp) = ''NONE'' then Inl ValueError
      else Inr \<lparr>em_code_revision = py_strip rev_id, em_policy = policy, em_policy_fp = py_strip fp\<rparr>)"

text \<open>\<open>timedelta(seconds=x)\<close> rounds to the nearest microsecond, ties to even.\<close>

definition timedelta_us :: "rat \<Rightarrow> int" where
  "timedelta_us x = rhe (x * 1000000)"

lemma timedelta_us_nonneg: "0 \<le> x \<Longrightarrow> 0 \<le> timedelta_us x"
  using rhe_mono [of 0 "x * 1000000"] by (simp add: timedelta_us_def)

definition opt_finite_or :: "rat \<Rightarrow> pynum option \<Rightarrow> rat result" where
  "opt_finite_or d v = rbind (finite_opt v) (\<lambda>o'. Inr (case o' of None \<Rightarrow> d | Some x \<Rightarrow> x))"

definition model_latency :: "exec_model \<Rightarrow> rat" where
  "model_latency em = (case latency_seconds (em_policy em) of Some l \<Rightarrow> num_value l | None \<Rightarrow> 0)"

definition in_deadline :: "int option \<Rightarrow> int \<Rightarrow> bool" where
  "in_deadline d u \<longleftrightarrow> (case d of None \<Rightarrow> True | Some x \<Rightarrow> u \<le> x)"

definition no_fill :: "risk_side \<Rightarrow> entry_execution_policy \<Rightarrow> rat \<Rightarrow> fill_reason \<Rightarrow> fill_result" where
  "no_fill side pol lat reason = \<lparr>fr_side = side, fr_policy = pol, raw_price = None, fill_price = None,
     fill_ts = None, latency = lat, observed_spread = 0, synthetic_spread = 0, adverse_slippage = 0,
     is_filled = False, fr_reason = reason, evidence_kind = None, evidence_fp = None, execution_fp = []\<rparr>"

text \<open>Every result carries the fingerprint of its own fields and of the pinned policy.\<close>

definition seal_fill :: "digest \<Rightarrow> exec_model \<Rightarrow> string \<Rightarrow> int \<Rightarrow> int \<Rightarrow> fill_result \<Rightarrow> fill_result" where
  "seal_fill sha em source_fp sig earliest r =
     r\<lparr>execution_fp := compute_execution_fingerprint sha source_fp sig earliest
         (em_policy_fp em) (em_code_revision em) r\<rparr>"

section \<open>Market order\<close>

definition simulate_market_after_signal ::
  "digest \<Rightarrow> (int \<Rightarrow> int) \<Rightarrow> exec_model \<Rightarrow> risk_side \<Rightarrow> datetime \<Rightarrow> quote list \<Rightarrow> string \<Rightarrow> datetime option \<Rightarrow>
    fill_result result" where
  "simulate_market_after_signal sha host em side signal_at quotes source_fp fill_deadline =
     (if \<not> is_aware signal_at then Inl ValueError
      else if \<not> is_configured_for (em_policy em) MARKET_AFTER_SIGNAL then Inl ValueError
      else
        let lat = model_latency em;
            sig = instant signal_at;
            earliest = sig + timedelta_us lat;
            deadline = map_option (astimezone_utc host) fill_deadline;
            valid = filter (\<lambda>q. validate_xauusd_quote q \<and> earliest \<le> instant (q_timestamp q) \<and>
                      in_deadline deadline (instant (q_timestamp q))) quotes
        in case first_sorted (\<lambda>q. instant (q_timestamp q)) valid of
          None \<Rightarrow> Inr (seal_fill sha em source_fp sig earliest (no_fill side MARKET_AFTER_SIGNAL lat NoQuote))
        | Some q \<Rightarrow> rbind (opt_finite_or 0 (slippage_pct (em_policy em))) (\<lambda>sl_pct.
            let raw = num_value (case side of LONG \<Rightarrow> ask q | SHORT \<Rightarrow> bid q);
                slip = dmul raw (ddiv sl_pct 100);
                final = (case side of LONG \<Rightarrow> dadd raw slip | SHORT \<Rightarrow> dsub raw slip);
                ts = instant (q_timestamp q)
            in rbind (compute_quote_evidence_fingerprint sha q) (\<lambda>efp.
                 Inr (seal_fill sha em source_fp sig earliest
                   \<lparr>fr_side = side, fr_policy = MARKET_AFTER_SIGNAL, raw_price = Some raw,
                    fill_price = Some final, fill_ts = Some ts, latency = lat,
                    observed_spread = dsub (num_value (ask q)) (num_value (bid q)),
                    synthetic_spread = 0, adverse_slippage = slip, is_filled = True,
                    fr_reason = FilledMarket side ts raw slip, evidence_kind = Some QUOTE_EVIDENCE,
                    evidence_fp = Some efp, execution_fp = []\<rparr>))))"

section \<open>Next bar open\<close>

text \<open>
  An absolute amount in broker points takes precedence over a percentage of the price.
\<close>

definition friction_amount :: "pynum option \<Rightarrow> pynum option \<Rightarrow> pynum option \<Rightarrow> rat \<Rightarrow> rat result" where
  "friction_amount points pt_size pct raw =
     (case points of
        Some pts \<Rightarrow> rbind (finite_opt (Some pts)) (\<lambda>p.
          rbind (opt_finite_or (1 / 1000) pt_size) (\<lambda>pt. Inr (dmul (the p) pt)))
      | None \<Rightarrow> rbind (opt_finite_or 0 pct) (\<lambda>x. Inr (dmul raw (ddiv x 100))))"

definition simulate_next_bar_open ::
  "digest \<Rightarrow> (int \<Rightarrow> int) \<Rightarrow> exec_model \<Rightarrow> risk_side \<Rightarrow> datetime \<Rightarrow> candle list \<Rightarrow> string \<Rightarrow> datetime option \<Rightarrow>
    fill_result result" where
  "simulate_next_bar_open sha host em side signal_at candles source_fp fill_deadline =
     (if \<not> is_aware signal_at then Inl ValueError
      else if \<not> is_configured_for (em_policy em) NEXT_BAR_OPEN then Inl ValueError
      else
        let e = em_policy em;
            lat = model_latency em;
            sig = instant signal_at;
            earliest = sig + timedelta_us lat;
            deadline = map_option (astimezone_utc host) fill_deadline;
            valid = filter (\<lambda>c. validate_xauusd_candle c \<and> earliest \<le> instant (timestamp_open c) \<and>
                      in_deadline deadline (instant (timestamp_open c))) candles
        in case first_sorted (\<lambda>c. instant (timestamp_open c)) valid of
          None \<Rightarrow> Inr (seal_fill sha em source_fp sig earliest (no_fill side NEXT_BAR_OPEN lat NoCandle))
        | Some c \<Rightarrow>
            let raw = num_value (c_open c); ts = instant (timestamp_open c)
            in rbind (friction_amount (synthetic_spread_points e) (point_size e) (synthetic_spread_pct e) raw) (\<lambda>spread.
               rbind (friction_amount (modeled_execution_gap_points e) (point_size e) (slippage_pct e) raw) (\<lambda>slip.
               rbind (compute_candle_evidence_fingerprint sha c) (\<lambda>efp.
                 Inr (seal_fill sha em source_fp sig earliest
                   \<lparr>fr_side = side, fr_policy = NEXT_BAR_OPEN, raw_price = Some raw,
                    fill_price = Some (case side of LONG \<Rightarrow> dadd (dadd raw spread) slip
                                                  | SHORT \<Rightarrow> dsub (dsub raw spread) slip),
                    fill_ts = Some ts, latency = lat, observed_spread = 0,
                    synthetic_spread = spread, adverse_slippage = slip, is_filled = True,
                    fr_reason = FilledNextBar side ts raw spread slip,
                    evidence_kind = Some CANDLE_EVIDENCE, evidence_fp = Some efp, execution_fp = []\<rparr>)))))"

section \<open>Limit order\<close>

definition limit_quote_hit :: "risk_side \<Rightarrow> rat \<Rightarrow> quote \<Rightarrow> bool" where
  "limit_quote_hit side limit q = (case side of
       LONG \<Rightarrow> num_value (ask q) \<le> limit
     | SHORT \<Rightarrow> num_value (bid q) \<ge> limit)"

definition limit_bar_hit :: "risk_side \<Rightarrow> rat \<Rightarrow> candle \<Rightarrow> bool" where
  "limit_bar_hit side limit c = (case side of
       LONG \<Rightarrow> num_value (c_low c) \<le> limit
     | SHORT \<Rightarrow> num_value (c_high c) \<ge> limit)"

definition limit_quote_fill ::
  "digest \<Rightarrow> exec_model \<Rightarrow> risk_side \<Rightarrow> rat \<Rightarrow> string \<Rightarrow> int \<Rightarrow> int \<Rightarrow> rat \<Rightarrow> quote \<Rightarrow> fill_result result" where
  "limit_quote_fill sha em side limit source_fp sig earliest sl_pct q =
     (let raw = num_value (case side of LONG \<Rightarrow> ask q | SHORT \<Rightarrow> bid q);
          slip = dmul raw (ddiv sl_pct 100);
          final = (case side of LONG \<Rightarrow> min limit (dadd raw slip) | SHORT \<Rightarrow> max limit (dsub raw slip));
          ts = instant (q_timestamp q)
      in rbind (compute_quote_evidence_fingerprint sha q) (\<lambda>efp.
           Inr (seal_fill sha em source_fp sig earliest
             \<lparr>fr_side = side, fr_policy = LIMIT_ZONE, raw_price = Some raw, fill_price = Some final,
              fill_ts = Some ts, latency = model_latency em,
              observed_spread = dsub (num_value (ask q)) (num_value (bid q)),
              synthetic_spread = 0, adverse_slippage = slip, is_filled = True,
              fr_reason = LimitQuote side ts, evidence_kind = Some QUOTE_EVIDENCE,
              evidence_fp = Some efp, execution_fp = []\<rparr>)))"

definition limit_bar_fill ::
  "digest \<Rightarrow> exec_model \<Rightarrow> risk_side \<Rightarrow> rat \<Rightarrow> string \<Rightarrow> int \<Rightarrow> int \<Rightarrow> candle \<Rightarrow> fill_result result" where
  "limit_bar_fill sha em side limit source_fp sig earliest c =
     rbind (compute_candle_evidence_fingerprint sha c) (\<lambda>efp.
       Inr (seal_fill sha em source_fp sig earliest
         \<lparr>fr_side = side, fr_policy = LIMIT_ZONE, raw_price = Some limit, fill_price = Some limit,
          fill_ts = Some (instant (timestamp_open c)), latency = model_latency em,
          observed_spread = 0, synthetic_spread = 0, adverse_slippage = 0, is_filled = True,
          fr_reason = LimitTouched side (instant (timestamp_open c)),
          evidence_kind = Some CANDLE_EVIDENCE, evidence_fp = Some efp, execution_fp = []\<rparr>))"

definition limit_from_candles ::
  "digest \<Rightarrow> exec_model \<Rightarrow> risk_side \<Rightarrow> rat \<Rightarrow> string \<Rightarrow> int \<Rightarrow> int \<Rightarrow> int option \<Rightarrow> candle list option \<Rightarrow>
    fill_result result" where
  "limit_from_candles sha em side limit source_fp sig earliest deadline candles =
     (let unfilled = (\<lambda>reason. Inr (seal_fill sha em source_fp sig earliest
            (no_fill side LIMIT_ZONE (model_latency em) reason)))
      in case candles of
        None \<Rightarrow> unfilled LimitNotReached
      | Some cs \<Rightarrow>
          let valid = filter validate_xauusd_candle cs;
              midbar = (\<lambda>c. instant (timestamp_open c) < earliest \<and> earliest < instant (timestamp_close c));
              eligible = sort_key (\<lambda>c. instant (timestamp_open c))
                (filter (\<lambda>c. \<not> midbar c \<and> earliest \<le> instant (timestamp_open c) \<and>
                   in_deadline deadline (instant (timestamp_open c))) valid)
          in case find_first (limit_bar_hit side limit) eligible of
            Some c \<Rightarrow> limit_bar_fill sha em side limit source_fp sig earliest c
          | None \<Rightarrow> if (\<exists>c \<in> set valid. midbar c) \<and> eligible = [] then unfilled MidBarActivation
                    else unfilled LimitNotReached)"

definition simulate_limit_zone ::
  "digest \<Rightarrow> (int \<Rightarrow> int) \<Rightarrow> exec_model \<Rightarrow> risk_side \<Rightarrow> datetime \<Rightarrow> pynum \<Rightarrow> string \<Rightarrow> quote list option \<Rightarrow>
    candle list option \<Rightarrow> datetime option \<Rightarrow> fill_result result" where
  "simulate_limit_zone sha host em side signal_at limit_price source_fp quotes candles fill_deadline =
     (if \<not> is_aware signal_at then Inl ValueError
      else if \<not> positive_num limit_price then Inl ValueError
      else if \<not> is_configured_for (em_policy em) LIMIT_ZONE then Inl ValueError
      else
        let limit = num_value limit_price;
            sig = instant signal_at;
            earliest = sig + timedelta_us (model_latency em);
            deadline = map_option (astimezone_utc host) fill_deadline;
            valid = sort_key (\<lambda>q. instant (q_timestamp q))
              (filter (\<lambda>q. validate_xauusd_quote q \<and> earliest \<le> instant (q_timestamp q) \<and>
                 in_deadline deadline (instant (q_timestamp q)))
                (case quotes of None \<Rightarrow> [] | Some qs \<Rightarrow> qs))
        in case find_first (limit_quote_hit side limit) valid of
          Some q \<Rightarrow> rbind (opt_finite_or 0 (slippage_pct (em_policy em))) (\<lambda>sl_pct.
            limit_quote_fill sha em side limit source_fp sig earliest sl_pct q)
        | None \<Rightarrow> limit_from_candles sha em side limit source_fp sig earliest deadline candles)"


section \<open>Shape of the results\<close>

lemma seal_fill_fields [simp]:
  "fr_side (seal_fill sha em f s e r) = fr_side r"
  "fr_policy (seal_fill sha em f s e r) = fr_policy r"
  "raw_price (seal_fill sha em f s e r) = raw_price r"
  "fill_price (seal_fill sha em f s e r) = fill_price r"
  "fill_ts (seal_fill sha em f s e r) = fill_ts r"
  "latency (seal_fill sha em f s e r) = latency r"
  "observed_spread (seal_fill sha em f s e r) = observed_spread r"
  "synthetic_spread (seal_fill sha em f s e r) = synthetic_spread r"
  "adverse_slippage (seal_fill sha em f s e r) = adverse_slippage r"
  "is_filled (seal_fill sha em f s e r) = is_filled r"
  "fr_reason (seal_fill sha em f s e r) = fr_reason r"
  "evidence_kind (seal_fill sha em f s e r) = evidence_kind r"
  "evidence_fp (seal_fill sha em f s e r) = evidence_fp r"
  by (simp_all add: seal_fill_def)

lemma no_fill_fields [simp]:
  "fr_side (no_fill side pol lat reason) = side"
  "fr_policy (no_fill side pol lat reason) = pol"
  "fill_price (no_fill side pol lat reason) = None"
  "raw_price (no_fill side pol lat reason) = None"
  "fill_ts (no_fill side pol lat reason) = None"
  "is_filled (no_fill side pol lat reason) = False"
  "fr_reason (no_fill side pol lat reason) = reason"
  by (simp_all add: no_fill_def)

text \<open>The instant a model may fill from, and what counts as usable evidence.\<close>

definition earliest_exec :: "exec_model \<Rightarrow> datetime \<Rightarrow> int" where
  "earliest_exec em s = instant s + timedelta_us (model_latency em)"

definition usable_quote :: "exec_model \<Rightarrow> (int \<Rightarrow> int) \<Rightarrow> datetime \<Rightarrow> datetime option \<Rightarrow> quote \<Rightarrow> bool" where
  "usable_quote em host s dl q \<longleftrightarrow> validate_xauusd_quote q \<and> earliest_exec em s \<le> instant (q_timestamp q) \<and>
     in_deadline (map_option (astimezone_utc host) dl) (instant (q_timestamp q))"

definition usable_bar :: "exec_model \<Rightarrow> (int \<Rightarrow> int) \<Rightarrow> datetime \<Rightarrow> datetime option \<Rightarrow> candle \<Rightarrow> bool" where
  "usable_bar em host s dl c \<longleftrightarrow> validate_xauusd_candle c \<and> earliest_exec em s \<le> instant (timestamp_open c) \<and>
     in_deadline (map_option (astimezone_utc host) dl) (instant (timestamp_open c))"

lemma usable_eta:
  "usable_quote em host s dl = (\<lambda>q. validate_xauusd_quote q \<and>
     instant s + timedelta_us (model_latency em) \<le> instant (q_timestamp q) \<and>
     in_deadline (map_option (astimezone_utc host) dl) (instant (q_timestamp q)))"
  "usable_bar em host s dl = (\<lambda>c. validate_xauusd_candle c \<and>
     instant s + timedelta_us (model_latency em) \<le> instant (timestamp_open c) \<and>
     in_deadline (map_option (astimezone_utc host) dl) (instant (timestamp_open c)))"
  by (auto simp: fun_eq_iff usable_quote_def usable_bar_def earliest_exec_def)

lemma usable_bar_bounds: "usable_bar em host s dl c \<Longrightarrow>
    earliest_exec em s \<le> instant (timestamp_open c) \<and>
    in_deadline (map_option (astimezone_utc host) dl) (instant (timestamp_open c))"
  by (simp add: usable_bar_def)

lemma usable_quote_bounds: "usable_quote em host s dl q \<Longrightarrow>
    earliest_exec em s \<le> instant (q_timestamp q) \<and>
    in_deadline (map_option (astimezone_utc host) dl) (instant (q_timestamp q))"
  by (simp add: usable_quote_def)

lemma market_result:
  assumes "simulate_market_after_signal sha host em side s quotes fp dl = Inr r"
  shows "is_aware s \<and> is_configured_for (em_policy em) MARKET_AFTER_SIGNAL \<and> fr_side r = side \<and>
    fr_policy r = MARKET_AFTER_SIGNAL \<and>
    ((\<not> is_filled r \<and> fill_price r = None \<and> fill_ts r = None \<and> (\<forall>q \<in> set quotes. \<not> usable_quote em host s dl q)) \<or>
     (\<exists>q sl. q \<in> set quotes \<and> usable_quote em host s dl q \<and>
        (\<forall>q' \<in> set quotes. usable_quote em host s dl q' \<longrightarrow> instant (q_timestamp q) \<le> instant (q_timestamp q')) \<and>
        opt_finite_or 0 (slippage_pct (em_policy em)) = Inr sl \<and>
        is_filled r \<and> fill_ts r = Some (instant (q_timestamp q)) \<and>
        raw_price r = Some (num_value (case side of LONG \<Rightarrow> ask q | SHORT \<Rightarrow> bid q)) \<and>
        adverse_slippage r = dmul (num_value (case side of LONG \<Rightarrow> ask q | SHORT \<Rightarrow> bid q)) (ddiv sl 100) \<and>
        fill_price r = Some (case side of
            LONG \<Rightarrow> dadd (num_value (ask q)) (adverse_slippage r)
          | SHORT \<Rightarrow> dsub (num_value (bid q)) (adverse_slippage r))))"
proof -
  let ?v = "filter (usable_quote em host s dl) quotes"
  have v: "filter (\<lambda>q. validate_xauusd_quote q \<and> instant s + timedelta_us (model_latency em) \<le> instant (q_timestamp q) \<and>
      in_deadline (map_option (astimezone_utc host) dl) (instant (q_timestamp q))) quotes = ?v"
    by (simp only: usable_eta)
  show ?thesis
  proof (cases "first_sorted (\<lambda>q. instant (q_timestamp q)) ?v")
    case None
    then have "\<forall>q \<in> set quotes. \<not> usable_quote em host s dl q" by (simp add: filter_empty_conv)
    with assms [unfolded simulate_market_after_signal_def Let_def v None] show ?thesis
      by (auto split: if_splits)
  next
    case (Some q)
    from first_sorted_least [OF this] have q: "q \<in> set quotes" "usable_quote em host s dl q"
      "\<forall>q' \<in> set quotes. usable_quote em host s dl q' \<longrightarrow> instant (q_timestamp q) \<le> instant (q_timestamp q')"
      by auto
    with Some assms v show ?thesis
      by (cases side) (fastforce simp: simulate_market_after_signal_def Let_def rbind_Inr_iff split: if_splits)+
  qed
qed

lemma next_bar_result:
  assumes "simulate_next_bar_open sha host em side s candles fp dl = Inr r"
  shows "is_aware s \<and> is_configured_for (em_policy em) NEXT_BAR_OPEN \<and> fr_side r = side \<and> fr_policy r = NEXT_BAR_OPEN \<and>
    ((\<not> is_filled r \<and> fill_price r = None \<and> fill_ts r = None \<and> (\<forall>c \<in> set candles. \<not> usable_bar em host s dl c)) \<or>
     (\<exists>c. c \<in> set candles \<and> usable_bar em host s dl c \<and>
        (\<forall>c' \<in> set candles. usable_bar em host s dl c' \<longrightarrow> instant (timestamp_open c) \<le> instant (timestamp_open c')) \<and>
        is_filled r \<and> fill_ts r = Some (instant (timestamp_open c)) \<and> raw_price r = Some (num_value (c_open c)) \<and>
        friction_amount (synthetic_spread_points (em_policy em)) (point_size (em_policy em))
          (synthetic_spread_pct (em_policy em)) (num_value (c_open c)) = Inr (synthetic_spread r) \<and>
        friction_amount (modeled_execution_gap_points (em_policy em)) (point_size (em_policy em))
          (slippage_pct (em_policy em)) (num_value (c_open c)) = Inr (adverse_slippage r) \<and>
        fill_price r = Some (case side of
            LONG \<Rightarrow> dadd (dadd (num_value (c_open c)) (synthetic_spread r)) (adverse_slippage r)
          | SHORT \<Rightarrow> dsub (dsub (num_value (c_open c)) (synthetic_spread r)) (adverse_slippage r))))"
proof -
  let ?v = "filter (usable_bar em host s dl) candles"
  have v: "filter (\<lambda>c. validate_xauusd_candle c \<and> instant s + timedelta_us (model_latency em) \<le> instant (timestamp_open c) \<and>
      in_deadline (map_option (astimezone_utc host) dl) (instant (timestamp_open c))) candles = ?v"
    by (simp only: usable_eta)
  show ?thesis
  proof (cases "first_sorted (\<lambda>c. instant (timestamp_open c)) ?v")
    case None
    then have "\<forall>c \<in> set candles. \<not> usable_bar em host s dl c" by (simp add: filter_empty_conv)
    with assms [unfolded simulate_next_bar_open_def Let_def v None] show ?thesis
      by (auto split: if_splits)
  next
    case (Some c)
    from first_sorted_least [OF this] have c: "c \<in> set candles" "usable_bar em host s dl c"
      "\<forall>c' \<in> set candles. usable_bar em host s dl c' \<longrightarrow> instant (timestamp_open c) \<le> instant (timestamp_open c')"
      by auto
    with Some assms v show ?thesis
      by (cases side) (fastforce simp: simulate_next_bar_open_def Let_def rbind_Inr_iff split: if_splits)+
  qed
qed

lemma limit_quote_fill_Inr:
  assumes "limit_quote_fill sha em side limit fp sig e sl q = Inr r"
  shows "is_filled r \<and> fr_side r = side \<and> fr_policy r = LIMIT_ZONE \<and> fill_ts r = Some (instant (q_timestamp q)) \<and>
    fill_price r = Some (case side of
        LONG \<Rightarrow> min limit (dadd (num_value (ask q)) (dmul (num_value (ask q)) (ddiv sl 100)))
      | SHORT \<Rightarrow> max limit (dsub (num_value (bid q)) (dmul (num_value (bid q)) (ddiv sl 100))))"
  using assms by (cases side) (auto simp: limit_quote_fill_def Let_def rbind_Inr_iff)

lemma limit_bar_fill_Inr:
  assumes "limit_bar_fill sha em side limit fp sig e c = Inr r"
  shows "is_filled r \<and> fr_side r = side \<and> fr_policy r = LIMIT_ZONE \<and> fill_ts r = Some (instant (timestamp_open c)) \<and>
    fill_price r = Some limit"
  using assms by (auto simp: limit_bar_fill_def rbind_Inr_iff)

lemma limit_candles_result:
  assumes "limit_from_candles sha em side limit fp (instant s) (earliest_exec em s)
      (map_option (astimezone_utc host) dl) candles = Inr r"
  shows "fr_side r = side \<and> fr_policy r = LIMIT_ZONE \<and>
    ((\<not> is_filled r \<and> fill_price r = None \<and> fill_ts r = None \<and>
       (\<forall>c \<in> set (case candles of None \<Rightarrow> [] | Some cs \<Rightarrow> cs). usable_bar em host s dl c \<longrightarrow> \<not> limit_bar_hit side limit c)) \<or>
     (\<exists>cs c. candles = Some cs \<and> c \<in> set cs \<and> usable_bar em host s dl c \<and> limit_bar_hit side limit c \<and>
        is_filled r \<and> fill_ts r = Some (instant (timestamp_open c)) \<and> fill_price r = Some limit))"
proof (cases candles)
  case None
  with assms show ?thesis by (auto simp: limit_from_candles_def)
next
  case (Some cs)
  let ?e = "earliest_exec em s" and ?d = "map_option (astimezone_utc host) dl"
  let ?mid = "\<lambda>c. instant (timestamp_open c) < ?e \<and> ?e < instant (timestamp_close c)"
  let ?el = "filter (usable_bar em host s dl) cs"
  have el: "filter (\<lambda>c. \<not> ?mid c \<and> ?e \<le> instant (timestamp_open c) \<and> in_deadline ?d (instant (timestamp_open c)))
      (filter validate_xauusd_candle cs) = ?el"
    by (auto simp: usable_bar_def intro!: filter_cong)
  show ?thesis
  proof (cases "find_first (limit_bar_hit side limit) (sort_key (\<lambda>c. instant (timestamp_open c)) ?el)")
    case None
    then have no: "\<forall>c\<in>set cs. usable_bar em host s dl c \<longrightarrow> \<not> limit_bar_hit side limit c"
      by (simp add: find_first_sorted_None)
    with assms [unfolded limit_from_candles_def Let_def Some option.case el None] Some show ?thesis
      by (auto split: if_splits)
  next
    case (Some c)
    from find_first_sorted [OF this] have c: "c \<in> set cs" "usable_bar em host s dl c" "limit_bar_hit side limit c" by auto
    from assms [unfolded limit_from_candles_def Let_def \<open>candles = Some cs\<close> option.case el Some]
    have "limit_bar_fill sha em side limit fp (instant s) ?e c = Inr r" by simp
    from limit_bar_fill_Inr [OF this] c \<open>candles = Some cs\<close> show ?thesis by blast
  qed
qed

definition quote_list :: "quote list option \<Rightarrow> quote list" where
  "quote_list quotes = (case quotes of None \<Rightarrow> [] | Some qs \<Rightarrow> qs)"

definition candle_list :: "candle list option \<Rightarrow> candle list" where
  "candle_list candles = (case candles of None \<Rightarrow> [] | Some cs \<Rightarrow> cs)"

lemma limit_zone_result:
  assumes "simulate_limit_zone sha host em side s lp fp quotes candles dl = Inr r"
  shows "is_aware s \<and> is_configured_for (em_policy em) LIMIT_ZONE \<and> positive_num lp \<and>
    fr_side r = side \<and> fr_policy r = LIMIT_ZONE \<and>
    ((\<not> is_filled r \<and> fill_price r = None \<and> fill_ts r = None \<and>
        (\<forall>q \<in> set (quote_list quotes). usable_quote em host s dl q \<longrightarrow> \<not> limit_quote_hit side (num_value lp) q) \<and>
        (\<forall>c \<in> set (candle_list candles). usable_bar em host s dl c \<longrightarrow> \<not> limit_bar_hit side (num_value lp) c)) \<or>
     (\<exists>q sl. q \<in> set (quote_list quotes) \<and> usable_quote em host s dl q \<and> limit_quote_hit side (num_value lp) q \<and>
        (\<forall>q' \<in> set (quote_list quotes). usable_quote em host s dl q' \<longrightarrow> limit_quote_hit side (num_value lp) q' \<longrightarrow>
           instant (q_timestamp q) \<le> instant (q_timestamp q')) \<and>
        opt_finite_or 0 (slippage_pct (em_policy em)) = Inr sl \<and>
        is_filled r \<and> fill_ts r = Some (instant (q_timestamp q)) \<and>
        fill_price r = Some (case side of
            LONG \<Rightarrow> min (num_value lp) (dadd (num_value (ask q)) (dmul (num_value (ask q)) (ddiv sl 100)))
          | SHORT \<Rightarrow> max (num_value lp) (dsub (num_value (bid q)) (dmul (num_value (bid q)) (ddiv sl 100))))) \<or>
     (\<exists>c \<in> set (candle_list candles). usable_bar em host s dl c \<and> limit_bar_hit side (num_value lp) c \<and>
        (\<forall>q \<in> set (quote_list quotes). usable_quote em host s dl q \<longrightarrow> \<not> limit_quote_hit side (num_value lp) q) \<and>
        is_filled r \<and> fill_ts r = Some (instant (timestamp_open c)) \<and> fill_price r = Some (num_value lp)))"
proof -
  let ?v = "filter (usable_quote em host s dl) (quote_list quotes)"
  have v: "filter (\<lambda>q. validate_xauusd_quote q \<and> instant s + timedelta_us (model_latency em) \<le> instant (q_timestamp q) \<and>
      in_deadline (map_option (astimezone_utc host) dl) (instant (q_timestamp q)))
      (case quotes of None \<Rightarrow> [] | Some qs \<Rightarrow> qs) = ?v"
    by (simp only: usable_eta quote_list_def)
  have pre: "is_aware s" "positive_num lp" "is_configured_for (em_policy em) LIMIT_ZONE"
    using assms by (auto simp: simulate_limit_zone_def split: if_splits)
  show ?thesis
  proof (cases "find_first (limit_quote_hit side (num_value lp)) (sort_key (\<lambda>q. instant (q_timestamp q)) ?v)")
    case None
    then have no: "\<forall>q \<in> set (quote_list quotes). usable_quote em host s dl q \<longrightarrow> \<not> limit_quote_hit side (num_value lp) q"
      by (simp add: find_first_sorted_None)
    from assms [unfolded simulate_limit_zone_def Let_def v None] pre
    have "limit_from_candles sha em side (num_value lp) fp (instant s) (earliest_exec em s)
        (map_option (astimezone_utc host) dl) candles = Inr r"
      by (simp add: earliest_exec_def)
    from limit_candles_result [OF this] pre no show ?thesis
      by (auto simp: candle_list_def split: option.splits)
  next
    case (Some q)
    from find_first_sorted [OF this] have q: "q \<in> set (quote_list quotes)" "usable_quote em host s dl q"
      "limit_quote_hit side (num_value lp) q"
      "\<forall>q' \<in> set (quote_list quotes). usable_quote em host s dl q' \<longrightarrow> limit_quote_hit side (num_value lp) q' \<longrightarrow>
         instant (q_timestamp q) \<le> instant (q_timestamp q')"
      by auto
    from assms [unfolded simulate_limit_zone_def Let_def v Some] pre
    obtain sl where sl: "opt_finite_or 0 (slippage_pct (em_policy em)) = Inr sl"
      "limit_quote_fill sha em side (num_value lp) fp (instant s) (instant s + timedelta_us (model_latency em)) sl q = Inr r"
      by (auto simp: rbind_Inr_iff)
    from limit_quote_fill_Inr [OF sl(2)] sl(1) q pre show ?thesis by blast
  qed
qed


section \<open>The contract of a fill simulation\<close>

text \<open>
  What the outcome engine relies on, whichever order type fills the trade: a naive signal
  raises, the fields of a fill agree, and the fill time lies in the model's window.
\<close>

locale fill_simulation =
  fixes sim :: "risk_side \<Rightarrow> datetime \<Rightarrow> 'e \<Rightarrow> datetime option \<Rightarrow> fill_result result"
    and em :: exec_model
    and host :: "int \<Rightarrow> int"
    and pol :: entry_execution_policy
  assumes naive_raises: "\<not> is_aware s \<Longrightarrow> sim side s e dl = Inl ValueError"
    and configured: "sim side s e dl = Inr r \<Longrightarrow> is_configured_for (em_policy em) pol"
    and labelled: "sim side s e dl = Inr r \<Longrightarrow> fr_side r = side \<and> fr_policy r = pol"
    and filled_fields: "sim side s e dl = Inr r \<Longrightarrow>
      (is_filled r \<longleftrightarrow> fill_price r \<noteq> None) \<and> (is_filled r \<longleftrightarrow> fill_ts r \<noteq> None)"
    and fill_window: "sim side s e dl = Inr r \<Longrightarrow> fill_ts r = Some u \<Longrightarrow>
      earliest_exec em s \<le> u \<and> in_deadline (map_option (astimezone_utc host) dl) u"
begin

lemma fill_not_before_signal:
  assumes "sim side s e dl = Inr r" "fill_ts r = Some u"
  shows "instant s \<le> u"
proof -
  from is_configured_for_latency [OF configured [OF assms(1)]]
  have "0 \<le> model_latency em" by (auto simp: model_latency_def)
  then have "0 \<le> timedelta_us (model_latency em)" by (rule timedelta_us_nonneg)
  with fill_window [OF assms] show ?thesis by (simp add: earliest_exec_def)
qed

lemma fill_not_after_deadline:
  assumes "sim side s e (Some d) = Inr r" "fill_ts r = Some u"
  shows "u \<le> astimezone_utc host d"
  using fill_window [OF assms] by (simp add: in_deadline_def)

lemma closed_window_never_fills:
  assumes "sim side s e (Some d) = Inr r" and "astimezone_utc host d < earliest_exec em s"
  shows "\<not> is_filled r"
proof
  assume "is_filled r"
  with filled_fields [OF assms(1)] obtain u where u: "fill_ts r = Some u" by auto
  from fill_window [OF assms(1) u] assms(2) show False by (simp add: in_deadline_def)
qed

lemma returned_aware: "sim side s e dl = Inr r \<Longrightarrow> is_aware s"
  using naive_raises [of s] by (cases "is_aware s") auto

end

lemma market_filled_iff:
  assumes "simulate_market_after_signal sha host em side s quotes fp dl = Inr r"
  shows "is_filled r \<longleftrightarrow> (\<exists>q \<in> set quotes. usable_quote em host s dl q)"
  using market_result [OF assms] by blast

lemma next_bar_filled_iff:
  assumes "simulate_next_bar_open sha host em side s candles fp dl = Inr r"
  shows "is_filled r \<longleftrightarrow> (\<exists>c \<in> set candles. usable_bar em host s dl c)"
  using next_bar_result [OF assms] by blast

lemma limit_zone_filled_iff:
  assumes "simulate_limit_zone sha host em side s lp fp quotes candles dl = Inr r"
  shows "is_filled r \<longleftrightarrow>
    (\<exists>q \<in> set (quote_list quotes). usable_quote em host s dl q \<and> limit_quote_hit side (num_value lp) q) \<or>
    (\<exists>c \<in> set (candle_list candles). usable_bar em host s dl c \<and> limit_bar_hit side (num_value lp) c)"
  using limit_zone_result [OF assms] by blast

interpretation market_order: fill_simulation
  "\<lambda>side s quotes dl. simulate_market_after_signal sha host em side s quotes fp dl"
  em host MARKET_AFTER_SIGNAL for sha host em fp
proof
  show "simulate_market_after_signal sha host em side s e fp dl = Inl ValueError" if "\<not> is_aware s" for side s e dl
    using that by (simp add: simulate_market_after_signal_def)
  fix side s e dl r
  assume "simulate_market_after_signal sha host em side s e fp dl = Inr r"
  note R = market_result [OF this]
  show "is_configured_for (em_policy em) MARKET_AFTER_SIGNAL" using R by simp
  show "fr_side r = side \<and> fr_policy r = MARKET_AFTER_SIGNAL" using R by simp
  show "(is_filled r \<longleftrightarrow> fill_price r \<noteq> None) \<and> (is_filled r \<longleftrightarrow> fill_ts r \<noteq> None)" using R by auto
  show "earliest_exec em s \<le> u \<and> in_deadline (map_option (astimezone_utc host) dl) u" if "fill_ts r = Some u" for u
    using R that by (auto dest: usable_quote_bounds)
qed

interpretation next_bar_order: fill_simulation
  "\<lambda>side s candles dl. simulate_next_bar_open sha host em side s candles fp dl"
  em host NEXT_BAR_OPEN for sha host em fp
proof
  show "simulate_next_bar_open sha host em side s e fp dl = Inl ValueError" if "\<not> is_aware s" for side s e dl
    using that by (simp add: simulate_next_bar_open_def)
  fix side s e dl r
  assume "simulate_next_bar_open sha host em side s e fp dl = Inr r"
  note R = next_bar_result [OF this]
  show "is_configured_for (em_policy em) NEXT_BAR_OPEN" using R by simp
  show "fr_side r = side \<and> fr_policy r = NEXT_BAR_OPEN" using R by simp
  show "(is_filled r \<longleftrightarrow> fill_price r \<noteq> None) \<and> (is_filled r \<longleftrightarrow> fill_ts r \<noteq> None)" using R by auto
  show "earliest_exec em s \<le> u \<and> in_deadline (map_option (astimezone_utc host) dl) u" if "fill_ts r = Some u" for u
    using R that by (auto dest: usable_bar_bounds)
qed

interpretation limit_order: fill_simulation
  "\<lambda>side s e dl. simulate_limit_zone sha host em side s (fst e) fp (fst (snd e)) (snd (snd e)) dl"
  em host LIMIT_ZONE for sha host em fp
proof
  show "simulate_limit_zone sha host em side s (fst e) fp (fst (snd e)) (snd (snd e)) dl = Inl ValueError"
    if "\<not> is_aware s" for side s e dl
    using that by (simp add: simulate_limit_zone_def)
  fix side s e dl r
  assume "simulate_limit_zone sha host em side s (fst e) fp (fst (snd e)) (snd (snd e)) dl = Inr r"
  note R = limit_zone_result [OF this]
  show "is_configured_for (em_policy em) LIMIT_ZONE" using R by simp
  show "fr_side r = side \<and> fr_policy r = LIMIT_ZONE" using R by simp
  show "(is_filled r \<longleftrightarrow> fill_price r \<noteq> None) \<and> (is_filled r \<longleftrightarrow> fill_ts r \<noteq> None)" using R by auto
  show "earliest_exec em s \<le> u \<and> in_deadline (map_option (astimezone_utc host) dl) u" if "fill_ts r = Some u" for u
    using R that by (auto dest: usable_bar_bounds usable_quote_bounds)
qed

lemmas [eval_defs] = validate_xauusd_quote_def validate_xauusd_candle_def timedelta_us_def opt_finite_or_def
  model_latency_def in_deadline_def no_fill_def seal_fill_def friction_amount_def simulate_market_after_signal_def
  simulate_next_bar_open_def limit_quote_hit_def limit_bar_hit_def limit_quote_fill_def limit_bar_fill_def
  limit_from_candles_def simulate_limit_zone_def usable_quote_def usable_bar_def earliest_exec_def
  quote_list_def candle_list_def

section \<open>Properties\<close>

definition sample_model :: exec_model where
  "sample_model = \<lparr>em_code_revision = ''rev'', em_policy = sample_exec_policy, em_policy_fp = ''pf''\<rparr>"

lemmas [eval_defs] = sample_model_def

text \<open>
  A market order is never filled better than the quote: with a slippage percentage that
  is unset or non-negative, and quotes of at most 28 significant digits, the fill is made on
  the earliest usable quote, at its ask or above for a LONG, at its bid or below for a SHORT.
\<close>

theorem market_fill_adverse:
  assumes "simulate_market_after_signal sha host em side s quotes fp dl = Inr r" and "is_filled r"
    and "slippage_pct (em_policy em) = None \<or> has_nonneg (slippage_pct (em_policy em))"
    and "\<forall>q \<in> set quotes. dround (num_value (ask q)) = num_value (ask q) \<and> dround (num_value (bid q)) = num_value (bid q)"
  shows "\<exists>q \<in> set quotes. \<exists>p. usable_quote em host s dl q \<and>
    (\<forall>q' \<in> set quotes. usable_quote em host s dl q' \<longrightarrow> instant (q_timestamp q) \<le> instant (q_timestamp q')) \<and>
    fill_ts r = Some (instant (q_timestamp q)) \<and> fill_price r = Some p \<and>
    (case side of LONG \<Rightarrow> num_value (ask q) \<le> p | SHORT \<Rightarrow> p \<le> num_value (bid q))"
proof -
  from market_result [OF assms(1)] assms(2) obtain q sl where q: "q \<in> set quotes" "usable_quote em host s dl q"
    "\<forall>q' \<in> set quotes. usable_quote em host s dl q' \<longrightarrow> instant (q_timestamp q) \<le> instant (q_timestamp q')"
    and sl: "opt_finite_or 0 (slippage_pct (em_policy em)) = Inr sl"
    and r: "fill_ts r = Some (instant (q_timestamp q))"
      "adverse_slippage r = dmul (num_value (case side of LONG \<Rightarrow> ask q | SHORT \<Rightarrow> bid q)) (ddiv sl 100)"
      "fill_price r = Some (case side of LONG \<Rightarrow> dadd (num_value (ask q)) (adverse_slippage r)
        | SHORT \<Rightarrow> dsub (num_value (bid q)) (adverse_slippage r))" by auto
  have "0 \<le> sl" using sl assms(3) by (auto simp: opt_finite_or_def finite_opt_def has_nonneg_iff)
  moreover obtain b a where "bid q = Fin b" "ask q = Fin a" "0 < b" "b \<le> a"
    using q(2) by (auto simp: usable_quote_def elim: validate_quoteE)
  ultimately have slip: "0 \<le> adverse_slippage r"
    using r(2) by (cases side) (auto intro!: dmul_nonneg ddiv_nonneg)
  from assms(4) q(1) have exact: "dround (num_value (ask q)) = num_value (ask q)" "dround (num_value (bid q)) = num_value (bid q)"
    by auto
  show ?thesis
  proof (cases side)
    case LONG
    with q r dec.rnd_add_ge [OF exact(1) slip] show ?thesis by (auto simp: dadd_def)
  next
    case SHORT
    with q r dec.rnd_sub_le [OF exact(2) slip] show ?thesis by (auto simp: dsub_def)
  qed
qed

lemma sample_market_fill:
  "simulate_market_after_signal sample_digest (\<lambda>_. 0) sample_model LONG (Aware 0)
     [quote_at 9 101 102, quote_at 5 99 100, quote_at 0 97 98] ''p4'' None = Inr r \<longleftrightarrow>
   r = \<lparr>fr_side = LONG, fr_policy = MARKET_AFTER_SIGNAL, raw_price = Some 100, fill_price = Some (512 / 5),
     fill_ts = Some (5 * second), latency = 1, observed_spread = 1, synthetic_spread = 0,
     adverse_slippage = 12 / 5, is_filled = True, fr_reason = FilledMarket LONG (5 * second) 100 (12 / 5),
     evidence_kind = Some QUOTE_EVIDENCE, evidence_fp = Some ''QUOTE'', execution_fp = ''p4''\<rparr>"
  by (simp add: eval_defs Let_def cong: eval_congs) auto

theorem market_fill_adverse_witness:
  "\<exists>r p. simulate_market_after_signal sample_digest (\<lambda>_. 0) sample_model LONG (Aware 0)
     [quote_at 9 101 102, quote_at 5 99 100, quote_at 0 97 98] ''p4'' None = Inr r \<and>
   fill_ts r = Some (5 * second) \<and> fill_price r = Some p \<and> 100 \<le> p"
proof -
  let ?r = "\<lparr>fr_side = LONG, fr_policy = MARKET_AFTER_SIGNAL, raw_price = Some 100, fill_price = Some (512 / 5),
     fill_ts = Some (5 * second), latency = 1, observed_spread = 1, synthetic_spread = 0,
     adverse_slippage = 12 / 5, is_filled = True, fr_reason = FilledMarket LONG (5 * second) 100 (12 / 5),
     evidence_kind = Some QUOTE_EVIDENCE, evidence_fp = Some ''QUOTE'', execution_fp = ''p4''\<rparr>"
  have r: "simulate_market_after_signal sample_digest (\<lambda>_. 0) sample_model LONG (Aware 0)
     [quote_at 9 101 102, quote_at 5 99 100, quote_at 0 97 98] ''p4'' None = Inr ?r"
    by (simp only: sample_market_fill)
  have "\<exists>q \<in> set [quote_at 9 101 102, quote_at 5 99 100, quote_at 0 97 98]. \<exists>p.
      usable_quote sample_model (\<lambda>_. 0) (Aware 0) None q \<and>
      (\<forall>q' \<in> set [quote_at 9 101 102, quote_at 5 99 100, quote_at 0 97 98].
         usable_quote sample_model (\<lambda>_. 0) (Aware 0) None q' \<longrightarrow> instant (q_timestamp q) \<le> instant (q_timestamp q')) \<and>
      fill_ts ?r = Some (instant (q_timestamp q)) \<and> fill_price ?r = Some p \<and>
      (case LONG of LONG \<Rightarrow> num_value (ask q) \<le> p | SHORT \<Rightarrow> p \<le> num_value (bid q))"
    by (rule market_fill_adverse [OF r]) (simp_all add: eval_defs)
  with r show ?thesis by (auto simp: sample_defs time_units)
qed

text \<open>
  A limit order is never filled worse than its limit, on no path (quote with slippage or
  candle touch): at most the limit for a LONG, at least the limit for a SHORT. It is filled
  exactly when a usable quote, or a usable candle, reaches the limit.
\<close>

theorem limit_fill_never_worse:
  assumes "simulate_limit_zone sha host em side s lp fp quotes candles dl = Inr r"
  shows "(is_filled r \<longleftrightarrow>
      (\<exists>q \<in> set (quote_list quotes). usable_quote em host s dl q \<and> limit_quote_hit side (num_value lp) q) \<or>
      (\<exists>c \<in> set (candle_list candles). usable_bar em host s dl c \<and> limit_bar_hit side (num_value lp) c)) \<and>
    (\<forall>p. fill_price r = Some p \<longrightarrow> (case side of LONG \<Rightarrow> p \<le> num_value lp | SHORT \<Rightarrow> num_value lp \<le> p))"
  using limit_zone_result [OF assms] limit_zone_filled_iff [OF assms] by (cases side) auto

theorem limit_fill_never_worse_witness:
  "\<exists>r p. simulate_limit_zone sample_digest (\<lambda>_. 0) sample_model LONG (Aware 0) (Fin 101) ''p4''
     (Some [quote_at 5 99 100]) None None = Inr r \<and> is_filled r \<and> fill_price r = Some p \<and> p \<le> 101"
proof -
  have "\<exists>r. simulate_limit_zone sample_digest (\<lambda>_. 0) sample_model LONG (Aware 0) (Fin 101) ''p4''
     (Some [quote_at 5 99 100]) None None = Inr r \<and> fill_price r \<noteq> None"
    by (simp add: eval_defs Let_def cong: eval_congs)
  then obtain r p where r: "simulate_limit_zone sample_digest (\<lambda>_. 0) sample_model LONG (Aware 0) (Fin 101) ''p4''
     (Some [quote_at 5 99 100]) None None = Inr r" "fill_price r = Some p" by auto
  from limit_fill_never_worse [OF r(1)] r show ?thesis
    by (auto simp: usable_quote_def eval_defs)
qed

text \<open>
  Every fill of every order type lies in the window the caller asked for: not before the
  signal plus the model's latency, hence not before the signal, and not after the deadline.
\<close>

theorem fills_stay_in_window:
  assumes "simulate_market_after_signal sha host em side s quotes fp (Some d) = Inr r \<or>
      simulate_next_bar_open sha host em side s candles fp (Some d) = Inr r \<or>
      simulate_limit_zone sha host em side s lp fp mquotes mcandles (Some d) = Inr r"
    and "fill_ts r = Some u"
  shows "instant s + timedelta_us (model_latency em) \<le> u \<and> instant s \<le> u \<and> u \<le> astimezone_utc host d"
  using assms(1)
proof (elim disjE)
  assume m: "simulate_market_after_signal sha host em side s quotes fp (Some d) = Inr r"
  show ?thesis
    using market_order.fill_not_before_signal [OF m assms(2)] market_order.fill_not_after_deadline [OF m assms(2)]
      market_order.fill_window [OF m assms(2)] by (simp add: earliest_exec_def)
next
  assume m: "simulate_next_bar_open sha host em side s candles fp (Some d) = Inr r"
  show ?thesis
    using next_bar_order.fill_not_before_signal [OF m assms(2)] next_bar_order.fill_not_after_deadline [OF m assms(2)]
      next_bar_order.fill_window [OF m assms(2)] by (simp add: earliest_exec_def)
next
  assume "simulate_limit_zone sha host em side s lp fp mquotes mcandles (Some d) = Inr r"
  then have m: "simulate_limit_zone sha host em side s (fst (lp, mquotes, mcandles)) fp
      (fst (snd (lp, mquotes, mcandles))) (snd (snd (lp, mquotes, mcandles))) (Some d) = Inr r" by simp
  show ?thesis
    using limit_order.fill_not_before_signal [OF m assms(2)] limit_order.fill_not_after_deadline [OF m assms(2)]
      limit_order.fill_window [OF m assms(2)] by (simp add: earliest_exec_def)
qed

theorem fills_stay_in_window_witness:
  "\<exists>r u. simulate_next_bar_open sample_digest (\<lambda>_. 0) sample_model LONG (Aware 0)
     [bar_at 0 900 100 110 98 108, bar_at 900 1800 100 110 98 108] ''p4'' (Some (Aware (1000 * second))) = Inr r \<and>
   fill_ts r = Some u \<and> second \<le> u \<and> u \<le> 1000 * second"
proof -
  have "\<exists>r. simulate_next_bar_open sample_digest (\<lambda>_. 0) sample_model LONG (Aware 0)
     [bar_at 0 900 100 110 98 108, bar_at 900 1800 100 110 98 108] ''p4'' (Some (Aware (1000 * second))) = Inr r \<and>
     fill_ts r \<noteq> None"
    by (simp add: eval_defs Let_def cong: eval_congs)
  then obtain r u where r: "simulate_next_bar_open sample_digest (\<lambda>_. 0) sample_model LONG (Aware 0)
     [bar_at 0 900 100 110 98 108, bar_at 900 1800 100 110 98 108] ''p4'' (Some (Aware (1000 * second))) = Inr r"
    "fill_ts r = Some u" by auto
  from fills_stay_in_window [OF disjI2 [OF disjI1 [OF r(1)]] r(2)] r show ?thesis
    by (auto simp: eval_defs)
qed

text \<open>
  Modelled gap points have no effect on a market order: a policy that states its slippage
  only as \<open>modeled_execution_gap_points\<close> counts as configured, and its market orders
  are filled at the raw ask or bid with zero slippage.
\<close>

theorem market_ignores_gap_points:
  assumes "simulate_market_after_signal sha host em side s quotes fp dl = Inr r" and "is_filled r"
    and "slippage_pct (em_policy em) = None"
  shows "adverse_slippage r = 0 \<and> has_nonneg (modeled_execution_gap_points (em_policy em)) \<and>
    (\<exists>q \<in> set quotes. fill_price r = Some (dround (num_value (case side of LONG \<Rightarrow> ask q | SHORT \<Rightarrow> bid q))))"
proof -
  from market_result [OF assms(1)] assms(2,3) obtain q where q: "q \<in> set quotes"
    and c: "is_configured_for (em_policy em) MARKET_AFTER_SIGNAL"
    and r: "adverse_slippage r = dmul (num_value (case side of LONG \<Rightarrow> ask q | SHORT \<Rightarrow> bid q)) (ddiv 0 100)"
      "fill_price r = Some (case side of LONG \<Rightarrow> dadd (num_value (ask q)) (adverse_slippage r)
        | SHORT \<Rightarrow> dsub (num_value (bid q)) (adverse_slippage r))"
    by (auto simp: opt_finite_or_def finite_opt_def)
  have z: "adverse_slippage r = 0" using r(1) by (simp add: dmul_def ddiv_def)
  with r(2) have "fill_price r = Some (dround (num_value (case side of LONG \<Rightarrow> ask q | SHORT \<Rightarrow> bid q)))"
    by (cases side) (simp_all add: dadd_def dsub_def)
  with z q c assms(3) show ?thesis
    by (auto simp: is_configured_for_def has_nonneg_def [of None] split: if_splits)
qed

definition gap_only_model :: exec_model where
  "gap_only_model = sample_model\<lparr>em_policy := sample_exec_policy\<lparr>slippage_pct := None,
     modeled_execution_gap_points := Some (Fin 50)\<rparr>\<rparr>"

theorem market_ignores_gap_points_witness:
  "\<exists>r. simulate_market_after_signal sample_digest (\<lambda>_. 0) gap_only_model LONG (Aware 0) [quote_at 5 99 100] ''p4'' None
     = Inr r \<and> is_filled r \<and> adverse_slippage r = 0"
proof -
  have "\<exists>r. simulate_market_after_signal sample_digest (\<lambda>_. 0) gap_only_model LONG (Aware 0) [quote_at 5 99 100] ''p4'' None
     = Inr r \<and> is_filled r"
    by (simp add: eval_defs gap_only_model_def Let_def cong: eval_congs)
  then obtain r where r: "simulate_market_after_signal sample_digest (\<lambda>_. 0) gap_only_model LONG (Aware 0)
     [quote_at 5 99 100] ''p4'' None = Inr r" "is_filled r" by blast
  from market_ignores_gap_points [OF r] r show ?thesis by (simp add: gap_only_model_def sample_defs)
qed

definition negative_points_model :: exec_model where
  "negative_points_model = sample_model\<lparr>em_policy := sample_exec_policy\<lparr>
     modeled_execution_gap_points := Some (Fin (- 1000))\<rparr>\<rparr>"

text \<open>
  Configuration does not bound the friction of a next bar fill: \<open>is_configured_for\<close>
  accepts a policy whose percentage is non-negative while its gap points are negative, the
  fill uses the points, and a LONG order is filled below the open of the bar.
\<close>

theorem negative_gap_points_improve_fill:
  "is_configured_for (em_policy negative_points_model) NEXT_BAR_OPEN \<and>
   (case simulate_next_bar_open sample_digest (\<lambda>_. 0) negative_points_model LONG (Aware 0)
      [bar_at 900 1800 100 110 98 108] ''p4'' None of
      Inl e \<Rightarrow> False
    | Inr r \<Rightarrow> is_filled r \<and> raw_price r = Some 100 \<and> fill_price r = Some 99)"
  by (simp add: eval_defs negative_points_model_def Let_def cong: eval_congs)


end
