(* ===== verification/Intrabar.thy ===== *)
theory Intrabar
  imports Execution
begin

text \<open>
  \<open>engine/risk/xauusd_intrabar.py\<close>: which barrier of a trade a candle touches first. A
  collision of both barriers is decided by a policy, or by replaying a validated grid of
  smaller candles, with a fallback to the stop loss.
\<close>

section \<open>Validation of a lower timeframe sequence\<close>

datatype seq_error =
    EmptySequence | InvalidBar | OutsideParent | OutOfOrder | WrongDuration | UnclosedBar
  | DuplicateBar | OverlappingBar | NoInitialCoverage | GapDetected

text \<open>Loops that return the first error of the elements, or of the adjacent pairs.\<close>

fun each_bar :: "('a \<Rightarrow> 'e option) \<Rightarrow> 'a list \<Rightarrow> 'e option" where
  "each_bar f [] = None"
| "each_bar f (x # xs) = (case f x of Some e \<Rightarrow> Some e | None \<Rightarrow> each_bar f xs)"

fun each_pair :: "('a \<Rightarrow> 'a \<Rightarrow> 'e option) \<Rightarrow> 'a list \<Rightarrow> 'e option" where
  "each_pair f (x # y # zs) = (case f x y of Some e \<Rightarrow> Some e | None \<Rightarrow> each_pair f (y # zs))"
| "each_pair f _ = None"

definition c_start :: "candle \<Rightarrow> int" where "c_start c = instant (timestamp_open c)"
definition c_end :: "candle \<Rightarrow> int" where "c_end c = instant (timestamp_close c)"

definition inside_parent :: "candle \<Rightarrow> candle \<Rightarrow> seq_error option" where
  "inside_parent parent c =
     (if \<not> validate_xauusd_candle c then Some InvalidBar
      else if c_start c < c_start parent \<or> c_end c > c_end parent then Some OutsideParent
      else None)"

definition chronological :: "candle \<Rightarrow> candle \<Rightarrow> seq_error option" where
  "chronological a b = (if c_start a \<ge> c_start b then Some OutOfOrder else None)"

text \<open>\<open>int(timedelta.total_seconds())\<close> of a positive duration.\<close>

definition right_duration :: "int \<Rightarrow> candle \<Rightarrow> seq_error option" where
  "right_duration step c =
     (if (c_end c - c_start c) div second \<noteq> step then Some WrongDuration
      else if \<not> is_closed c then Some UnclosedBar else None)"

definition no_overlap :: "candle \<Rightarrow> candle \<Rightarrow> seq_error option" where
  "no_overlap a b =
     (if c_start a = c_start b \<or> c_end a = c_end b then Some DuplicateBar
      else if c_start b < c_end a then Some OverlappingBar else None)"

definition no_gap :: "candle \<Rightarrow> candle \<Rightarrow> seq_error option" where
  "no_gap a b = (if c_start b > c_end a then Some GapDetected else None)"

fun or_else :: "'e option \<Rightarrow> 'e option \<Rightarrow> 'e option" where
  "or_else (Some e) _ = Some e"
| "or_else None d = d"

definition validate_sequence :: "candle list \<Rightarrow> int \<Rightarrow> candle \<Rightarrow> int \<Rightarrow> seq_error + candle list" where
  "validate_sequence candles step parent fill =
     (if candles = [] then Inl EmptySequence
      else case or_else (each_bar (inside_parent parent) candles)
               (or_else (each_pair chronological candles)
               (or_else (each_bar (right_duration step) candles)
               (or_else (each_pair no_overlap candles)
               (or_else (if c_start (hd candles) > fill then Some NoInitialCoverage else None)
                        (each_pair no_gap candles))))) of
        Some e \<Rightarrow> Inl e
      | None \<Rightarrow> Inr candles)"

subsection \<open>The grid it accepts\<close>

lemma each_bar_None: "each_bar f xs = None \<longleftrightarrow> (\<forall>x\<in>set xs. f x = None)"
  by (induction xs) (auto split: option.splits)

lemma each_pair_None: "each_pair f xs = None \<longleftrightarrow> successively (\<lambda>a b. f a b = None) xs"
  by (induction f xs rule: each_pair.induct) (auto split: option.splits)

lemma or_else_None [simp]: "or_else a b = None \<longleftrightarrow> a = None \<and> b = None"
  by (cases a) auto

lemma first_error_Inr: "(case x of Some e \<Rightarrow> Inl e | None \<Rightarrow> Inr y) = Inr z \<longleftrightarrow> x = None \<and> z = y"
  by (cases x) auto

lemma validate_sequence_same: "validate_sequence cs step parent fill = Inr bars \<Longrightarrow> bars = cs"
  by (auto simp: validate_sequence_def split: if_splits option.splits)

definition replay_grid :: "int \<Rightarrow> candle \<Rightarrow> int \<Rightarrow> candle list \<Rightarrow> bool" where
  "replay_grid step parent fill cs \<longleftrightarrow>
     cs \<noteq> [] \<and>
     (\<forall>c\<in>set cs. validate_xauusd_candle c \<and> is_closed c \<and> (c_end c - c_start c) div second = step \<and>
        c_start parent \<le> c_start c \<and> c_end c \<le> c_end parent) \<and>
     c_start (hd cs) \<le> fill \<and>
     successively (\<lambda>a b. c_end a = c_start b) cs"

lemma valid_candle_times: "validate_xauusd_candle c \<Longrightarrow> c_start c < c_end c"
  by (elim validate_candleE) (simp add: c_start_def c_end_def)

lemma pair_checks:
  "c_start a < c_end a \<Longrightarrow> c_start b < c_end b \<Longrightarrow>
     chronological a b = None \<and> no_overlap a b = None \<and> no_gap a b = None \<longleftrightarrow> c_end a = c_start b"
  by (auto simp: chronological_def no_overlap_def no_gap_def)

lemma successively_conj:
  "successively P xs \<and> successively Q xs \<longleftrightarrow> successively (\<lambda>a b. P a b \<and> Q a b) xs"
  by (induction P xs rule: successively.induct) auto

lemma validate_sequence_iff:
  "validate_sequence cs step parent fill = Inr bars \<longleftrightarrow> bars = cs \<and> replay_grid step parent fill cs"
proof -
  have pairs: "successively (\<lambda>a b. chronological a b = None) cs \<and> successively (\<lambda>a b. no_overlap a b = None) cs \<and>
      successively (\<lambda>a b. no_gap a b = None) cs \<longleftrightarrow> successively (\<lambda>a b. c_end a = c_start b) cs"
    if "\<forall>c\<in>set cs. validate_xauusd_candle c"
    unfolding successively_conj
    by (rule successively_cong) (use that in \<open>auto simp: pair_checks valid_candle_times\<close>)
  have "validate_sequence cs step parent fill = Inr bars \<longleftrightarrow> bars = cs \<and> cs \<noteq> [] \<and>
      (\<forall>c\<in>set cs. inside_parent parent c = None) \<and> (\<forall>c\<in>set cs. right_duration step c = None) \<and>
      c_start (hd cs) \<le> fill \<and>
      (successively (\<lambda>a b. chronological a b = None) cs \<and> successively (\<lambda>a b. no_overlap a b = None) cs \<and>
       successively (\<lambda>a b. no_gap a b = None) cs)"
    by (auto simp: validate_sequence_def first_error_Inr each_bar_None each_pair_None split: if_splits)
  also have "\<dots> \<longleftrightarrow> bars = cs \<and> replay_grid step parent fill cs"
    using pairs by (auto simp: replay_grid_def inside_parent_def right_duration_def split: if_splits)
  finally show ?thesis .
qed

section \<open>Replay\<close>

definition tp_touched :: "risk_side \<Rightarrow> rat \<Rightarrow> candle \<Rightarrow> bool" where
  "tp_touched side tp c = (case side of
       LONG \<Rightarrow> num_value (c_high c) \<ge> tp
     | SHORT \<Rightarrow> num_value (c_low c) \<le> tp)"

definition sl_touched :: "risk_side \<Rightarrow> rat \<Rightarrow> candle \<Rightarrow> bool" where
  "sl_touched side sl c = (case side of
       LONG \<Rightarrow> num_value (c_low c) \<le> sl
     | SHORT \<Rightarrow> num_value (c_high c) \<ge> sl)"

definition intrabar_outcome ::
  "risk_side \<Rightarrow> barrier_hit_type \<Rightarrow> (rat \<times> int) option \<Rightarrow> intrabar_policy \<Rightarrow> nat \<Rightarrow> resolve_reason \<Rightarrow> intrabar_result" where
  "intrabar_outcome side hit exit pol n reason = \<lparr>ir_side = side, barrier_hit = hit,
     ir_exit_price = map_option fst exit, ir_exit_ts = map_option snd exit,
     policy_applied = pol, replay_count = n, ir_reasons = [reason]\<rparr>"

fun replay_from :: "nat \<Rightarrow> risk_side \<Rightarrow> candle list \<Rightarrow> rat \<Rightarrow> rat \<Rightarrow> intrabar_result option" where
  "replay_from i side [] tp sl = None"
| "replay_from i side (bar # bars) tp sl =
     (let t = tp_touched side tp bar; s = sl_touched side sl bar in
      if t \<and> \<not> s then Some (intrabar_outcome side TP_FIRST (Some (tp, c_end bar)) LOWER_TIMEFRAME_REPLAY i
                               (SubBarTp side (c_start bar)))
      else if s \<and> \<not> t then Some (intrabar_outcome side SL_FIRST (Some (sl, c_end bar)) LOWER_TIMEFRAME_REPLAY i
                               (SubBarSl side (c_start bar)))
      else if t \<and> s then Some (intrabar_outcome side SL_FIRST (Some (sl, c_end bar)) LOWER_TIMEFRAME_REPLAY i
                               (SubBarAmbiguous (c_start bar)))
      else replay_from (Suc i) side bars tp sl)"

definition replay_bars :: "risk_side \<Rightarrow> candle list \<Rightarrow> rat \<Rightarrow> rat \<Rightarrow> intrabar_result option" where
  "replay_bars side bars tp sl = replay_from 1 side bars tp sl"

text \<open>\<open>any("ambiguous" in r for r in res.reasons)\<close>: one message has that word.\<close>

fun mentions_ambiguous :: "resolve_reason \<Rightarrow> bool" where
  "mentions_ambiguous (SubBarAmbiguous t) = True"
| "mentions_ambiguous _ = False"

definition is_ambiguous :: "intrabar_result \<Rightarrow> bool" where
  "is_ambiguous r \<longleftrightarrow> (\<exists>m\<in>set (ir_reasons r). mentions_ambiguous m)"

text \<open>Validate, replay, and keep the answer unless a sub-bar is itself ambiguous.\<close>

definition try_replay ::
  "risk_side \<Rightarrow> candle list option \<Rightarrow> int \<Rightarrow> candle \<Rightarrow> int \<Rightarrow> rat \<Rightarrow> rat \<Rightarrow> intrabar_result option" where
  "try_replay side lower step parent fill tp sl =
     (case lower of
        None \<Rightarrow> None
      | Some [] \<Rightarrow> None
      | Some (c # cs) \<Rightarrow>
          (case validate_sequence (c # cs) step parent fill of
             Inl _ \<Rightarrow> None
           | Inr bars \<Rightarrow>
               (case replay_bars side bars tp sl of
                  None \<Rightarrow> None
                | Some r \<Rightarrow> if \<not> is_ambiguous r then Some r else None)))"

section \<open>Resolution\<close>

definition resolve_fallback :: "risk_side \<Rightarrow> rat \<Rightarrow> candle \<Rightarrow> resolve_reason \<Rightarrow> intrabar_result" where
  "resolve_fallback side sl parent reason =
     intrabar_outcome side SL_FIRST (Some (sl, c_end parent)) CONSERVATIVE_SL_FIRST 0 reason"

definition resolve_replay ::
  "risk_side \<Rightarrow> candle \<Rightarrow> rat \<Rightarrow> rat \<Rightarrow> int \<Rightarrow> candle list option \<Rightarrow> candle list option \<Rightarrow> candle list option \<Rightarrow>
    string \<Rightarrow> intrabar_result" where
  "resolve_replay side parent tp sl fill c1m c5m c15m parent_tf =
     (if parent_tf = ''4H'' \<or> parent_tf = ''1H'' then
        (let fallback = resolve_fallback side sl parent FallbackHigherTf in
         case c15m of
           None \<Rightarrow> fallback
         | Some [] \<Rightarrow> fallback
         | Some (c # cs) \<Rightarrow>
             (case validate_sequence (c # cs) 900 parent fill of
                Inl _ \<Rightarrow> fallback
              | Inr bars \<Rightarrow>
                  (case replay_bars side bars tp sl of
                     None \<Rightarrow> fallback
                   | Some r \<Rightarrow>
                       if barrier_hit r \<noteq> SL_FIRST \<or> \<not> is_ambiguous r then r
                       else (case try_replay side c1m 60 parent fill tp sl of
                               Some r1 \<Rightarrow> r1
                             | None \<Rightarrow>
                                 (case try_replay side c5m 300 parent fill tp sl of
                                    Some r5 \<Rightarrow> r5
                                  | None \<Rightarrow> fallback)))))
      else
        (case try_replay side c1m 60 parent fill tp sl of
           Some r1 \<Rightarrow> r1
         | None \<Rightarrow>
             (case try_replay side c5m 300 parent fill tp sl of
                Some r5 \<Rightarrow> r5
              | None \<Rightarrow> resolve_fallback side sl parent Fallback15m)))"

definition resolve_collision ::
  "risk_side \<Rightarrow> candle \<Rightarrow> rat \<Rightarrow> rat \<Rightarrow> int \<Rightarrow> candle list option \<Rightarrow> candle list option \<Rightarrow> candle list option \<Rightarrow>
    string \<Rightarrow> intrabar_policy \<Rightarrow> pynum option \<Rightarrow> intrabar_result result" where
  "resolve_collision side parent tp sl fill c1m c5m c15m parent_tf policy gap =
     (case policy of
        CONSERVATIVE_SL_FIRST \<Rightarrow>
          Inr (intrabar_outcome side SL_FIRST (Some (sl, c_end parent)) policy 0 AmbiguousConservative)
      | WORST_CASE \<Rightarrow>
          if \<not> has_nonneg gap then Inl ValueError
          else (let g = num_value (the gap);
                    px = (case side of LONG \<Rightarrow> dsub sl g | SHORT \<Rightarrow> dadd sl g)
                in Inr (intrabar_outcome side SL_FIRST (Some (px, c_end parent)) policy 0 (AmbiguousWorstCase px)))
      | SKIP_AMBIGUOUS \<Rightarrow> Inr (intrabar_outcome side SKIPPED None policy 0 AmbiguousSkipped)
      | LOWER_TIMEFRAME_REPLAY \<Rightarrow> Inr (resolve_replay side parent tp sl fill c1m c5m c15m parent_tf))"

text \<open>The guards in front of the barrier checks: the reason of an early unresolved answer.\<close>

definition resolve_guard :: "risk_side \<Rightarrow> candle \<Rightarrow> rat \<Rightarrow> rat \<Rightarrow> datetime option \<Rightarrow> pynum option \<Rightarrow> resolve_reason option" where
  "resolve_guard side parent tp sl fill_t fill_px =
     (if \<not> validate_xauusd_candle parent then Some ParentInvalid
      else or_else
        (case fill_px of
           None \<Rightarrow> None
         | Some (Fin px) \<Rightarrow>
             (case side of
                LONG \<Rightarrow> if px \<ge> tp \<or> px \<le> sl then Some (BarrierOrder LONG sl px tp) else None
              | SHORT \<Rightarrow> if px \<le> tp \<or> px \<ge> sl then Some (BarrierOrder SHORT sl px tp) else None)
         | Some _ \<Rightarrow> Some FillPriceNotFinite)
        (case fill_t of
           None \<Rightarrow> None
         | Some t \<Rightarrow> if \<not> is_aware t then Some FillTimestampNaive else None))"

definition resolve ::
  "risk_side \<Rightarrow> candle \<Rightarrow> rat \<Rightarrow> rat \<Rightarrow> datetime option \<Rightarrow> pynum option \<Rightarrow>
    candle list option \<Rightarrow> candle list option \<Rightarrow> candle list option \<Rightarrow> string \<Rightarrow> intrabar_policy \<Rightarrow>
    pynum option \<Rightarrow> intrabar_result result" where
  "resolve side parent tp sl fill_t fill_px c1m c5m c15m parent_tf policy gap =
     (case resolve_guard side parent tp sl fill_t fill_px of
        Some reason \<Rightarrow> Inr (intrabar_outcome side UNRESOLVED None policy 0 reason)
      | None \<Rightarrow>
          (let fill = (case fill_t of Some t \<Rightarrow> instant t | None \<Rightarrow> c_start parent);
               t = tp_touched side tp parent; s = sl_touched side sl parent
           in if \<not> t \<and> \<not> s then Inr (intrabar_outcome side UNRESOLVED None policy 0 NoBarrierTouched)
              else if t \<and> \<not> s
              then Inr (intrabar_outcome side TP_FIRST (Some (tp, c_end parent)) policy 0 (SingleTp side))
              else if s \<and> \<not> t
              then Inr (intrabar_outcome side SL_FIRST (Some (sl, c_end parent)) policy 0 (SingleSl side))
              else resolve_collision side parent tp sl fill c1m c5m c15m parent_tf policy gap))"


section \<open>Replay finds the first touch\<close>

definition any_touched :: "risk_side \<Rightarrow> rat \<Rightarrow> rat \<Rightarrow> candle \<Rightarrow> bool" where
  "any_touched side tp sl c \<longleftrightarrow> tp_touched side tp c \<or> sl_touched side sl c"

lemma replay_from_Some:
  assumes "replay_from i side bars tp sl = Some r"
  shows "\<exists>ys b zs. bars = ys @ b # zs \<and> (\<forall>y\<in>set ys. \<not> any_touched side tp sl y) \<and> any_touched side tp sl b \<and>
    barrier_hit r = (if sl_touched side sl b then SL_FIRST else TP_FIRST) \<and>
    ir_exit_price r = Some (if sl_touched side sl b then sl else tp) \<and>
    ir_exit_ts r = Some (c_end b) \<and> ir_side r = side \<and> replay_count r = i + length ys \<and>
    (is_ambiguous r \<longleftrightarrow> tp_touched side tp b \<and> sl_touched side sl b)"
  using assms
proof (induction bars arbitrary: i)
  case (Cons b bars)
  show ?case
  proof (cases "any_touched side tp sl b")
    case True
    with Cons.prems show ?thesis
      by (intro exI [of _ "[]"] exI [of _ b] exI [of _ bars])
        (auto simp: any_touched_def intrabar_outcome_def is_ambiguous_def Let_def split: if_splits)
  next
    case False
    with Cons.prems have "replay_from (Suc i) side bars tp sl = Some r"
      by (auto simp: any_touched_def Let_def)
    from Cons.IH [OF this] obtain ys c zs where
      *: "bars = ys @ c # zs" "\<forall>y\<in>set ys. \<not> any_touched side tp sl y" "any_touched side tp sl c"
      "barrier_hit r = (if sl_touched side sl c then SL_FIRST else TP_FIRST)"
      "ir_exit_price r = Some (if sl_touched side sl c then sl else tp)"
      "ir_exit_ts r = Some (c_end c)" "ir_side r = side" "replay_count r = Suc i + length ys"
      "is_ambiguous r \<longleftrightarrow> tp_touched side tp c \<and> sl_touched side sl c" by blast
    with False show ?thesis by (intro exI [of _ "b # ys"] exI [of _ c] exI [of _ zs]) simp
  qed
qed simp

lemma replay_from_None: "replay_from i side bars tp sl = None \<longleftrightarrow> (\<forall>b\<in>set bars. \<not> any_touched side tp sl b)"
  by (induction bars arbitrary: i) (auto simp: any_touched_def Let_def)

text \<open>
  The answer a replay may give: of the bars of a validated grid, \<open>b\<close> is the first that
  touches a barrier, and it touches exactly one, the one reported.
\<close>

definition replay_decides ::
  "risk_side \<Rightarrow> rat \<Rightarrow> rat \<Rightarrow> int \<Rightarrow> candle \<Rightarrow> int \<Rightarrow> candle list \<Rightarrow> intrabar_result \<Rightarrow> bool" where
  "replay_decides side tp sl step parent fill cs r \<longleftrightarrow>
     replay_grid step parent fill cs \<and>
     (\<exists>ys b zs. cs = ys @ b # zs \<and> (\<forall>y\<in>set ys. \<not> any_touched side tp sl y) \<and> ir_exit_ts r = Some (c_end b) \<and>
        ((barrier_hit r = TP_FIRST \<and> tp_touched side tp b \<and> \<not> sl_touched side sl b \<and> ir_exit_price r = Some tp) \<or>
         (barrier_hit r = SL_FIRST \<and> sl_touched side sl b \<and> \<not> tp_touched side tp b \<and> ir_exit_price r = Some sl)))"

lemma replay_decidesI:
  assumes "replay_grid step parent fill cs" and "replay_from i side cs tp sl = Some r" and "\<not> is_ambiguous r"
  shows "replay_decides side tp sl step parent fill cs r"
proof -
  from replay_from_Some [OF assms(2)] obtain ys b zs where
    b: "cs = ys @ b # zs" "\<forall>y\<in>set ys. \<not> any_touched side tp sl y" "any_touched side tp sl b"
    "barrier_hit r = (if sl_touched side sl b then SL_FIRST else TP_FIRST)"
    "ir_exit_price r = Some (if sl_touched side sl b then sl else tp)"
    "ir_exit_ts r = Some (c_end b)" "is_ambiguous r \<longleftrightarrow> tp_touched side tp b \<and> sl_touched side sl b" by blast
  with assms(1,3) show ?thesis unfolding replay_decides_def
    by (intro conjI exI [of _ ys] exI [of _ b] exI [of _ zs]) (auto simp: any_touched_def)
qed

lemma try_replay_Some:
  assumes "try_replay side lower step parent fill tp sl = Some r"
  shows "\<exists>cs. lower = Some cs \<and> replay_decides side tp sl step parent fill cs r"
  using assms
  by (auto simp: try_replay_def replay_bars_def validate_sequence_iff split: option.splits list.splits sum.splits if_splits
      intro: replay_decidesI)

text \<open>Every answer of the replay hierarchy is decided by one of the sequences, or is the fallback.\<close>

lemma resolve_replay_cases:
  "(\<exists>reason. resolve_replay side parent tp sl fill c1m c5m c15m ptf = resolve_fallback side sl parent reason) \<or>
   (\<exists>cs step. (step, Some cs) \<in> {(60, c1m), (300, c5m), (900, c15m)} \<and>
      replay_decides side tp sl step parent fill cs (resolve_replay side parent tp sl fill c1m c5m c15m ptf))"
proof -
  let ?R = "resolve_replay side parent tp sl fill c1m c5m c15m ptf"
  have tries: ?thesis if "?R = (case try_replay side c1m 60 parent fill tp sl of Some r1 \<Rightarrow> r1
      | None \<Rightarrow> (case try_replay side c5m 300 parent fill tp sl of Some r5 \<Rightarrow> r5
      | None \<Rightarrow> resolve_fallback side sl parent reason))" for reason
    using that try_replay_Some [of side c1m 60 parent fill tp sl] try_replay_Some [of side c5m 300 parent fill tp sl]
    by (auto split: option.splits)
  show ?thesis
  proof (cases "ptf = ''4H'' \<or> ptf = ''1H''")
    case False
    then show ?thesis by (intro tries [of Fallback15m]) (simp add: resolve_replay_def)
  next
    case True
    show ?thesis
    proof (cases "\<exists>cs r. c15m = Some cs \<and> validate_sequence cs 900 parent fill = Inr cs \<and> replay_bars side cs tp sl = Some r")
      case False
      then have "?R = resolve_fallback side sl parent FallbackHigherTf"
        using True validate_sequence_same
        by (fastforce simp: resolve_replay_def Let_def split: option.splits list.splits sum.splits)
      then show ?thesis by blast
    next
      case True
      then obtain cs r where cs: "c15m = Some cs" "validate_sequence cs 900 parent fill = Inr cs"
        "replay_from 1 side cs tp sl = Some r" by (auto simp: replay_bars_def)
      then have grid: "replay_grid 900 parent fill cs" by (simp add: validate_sequence_iff)
      then have "cs \<noteq> []" by (simp add: replay_grid_def)
      show ?thesis
      proof (cases "is_ambiguous r \<and> barrier_hit r = SL_FIRST")
        case True
        with cs \<open>cs \<noteq> []\<close> \<open>ptf = ''4H'' \<or> ptf = ''1H''\<close> show ?thesis
          by (intro tries [of FallbackHigherTf]) (auto simp: resolve_replay_def replay_bars_def Let_def split: list.splits)
      next
        case False
        then have "\<not> is_ambiguous r" using replay_from_Some [OF cs(3)] by auto
        with cs \<open>cs \<noteq> []\<close> \<open>ptf = ''4H'' \<or> ptf = ''1H''\<close> have "?R = r"
          by (auto simp: resolve_replay_def replay_bars_def Let_def split: list.splits)
        with cs replay_decidesI [OF grid cs(3) \<open>\<not> is_ambiguous r\<close>] show ?thesis by auto
      qed
    qed
  qed
qed

section \<open>What a resolution says\<close>

lemma outcome_fields [simp]:
  "ir_side (intrabar_outcome side hit e pol n reason) = side"
  "barrier_hit (intrabar_outcome side hit e pol n reason) = hit"
  "ir_exit_price (intrabar_outcome side hit e pol n reason) = map_option fst e"
  "ir_exit_ts (intrabar_outcome side hit e pol n reason) = map_option snd e"
  "policy_applied (intrabar_outcome side hit e pol n reason) = pol"
  by (simp_all add: intrabar_outcome_def)

lemma guard_valid_parent: "resolve_guard side parent tp sl ft fp = None \<Longrightarrow> validate_xauusd_candle parent"
  by (auto simp: resolve_guard_def split: if_splits)

lemma replay_decides_exit:
  assumes "replay_decides side tp sl step parent fill cs r"
  shows "\<exists>u. ir_exit_ts r = Some u \<and> c_start parent < u \<and> u \<le> c_end parent \<and>
    (barrier_hit r = TP_FIRST \<and> ir_exit_price r = Some tp \<or> barrier_hit r = SL_FIRST \<and> ir_exit_price r = Some sl)"
proof -
  from assms obtain ys b zs where b: "cs = ys @ b # zs" "ir_exit_ts r = Some (c_end b)"
    "barrier_hit r = TP_FIRST \<and> ir_exit_price r = Some tp \<or> barrier_hit r = SL_FIRST \<and> ir_exit_price r = Some sl"
    and grid: "replay_grid step parent fill cs" by (auto simp: replay_decides_def)
  then have "validate_xauusd_candle b" "c_start parent \<le> c_start b" "c_end b \<le> c_end parent"
    by (auto simp: replay_grid_def)
  with valid_candle_times [of b] b show ?thesis by auto
qed

lemma resolve_replay_exit:
  assumes "validate_xauusd_candle parent"
  shows "\<exists>u. ir_exit_ts (resolve_replay side parent tp sl fill c1m c5m c15m ptf) = Some u \<and>
    c_start parent < u \<and> u \<le> c_end parent \<and>
    (barrier_hit (resolve_replay side parent tp sl fill c1m c5m c15m ptf) = TP_FIRST \<and>
       ir_exit_price (resolve_replay side parent tp sl fill c1m c5m c15m ptf) = Some tp \<or>
     barrier_hit (resolve_replay side parent tp sl fill c1m c5m c15m ptf) = SL_FIRST \<and>
       ir_exit_price (resolve_replay side parent tp sl fill c1m c5m c15m ptf) = Some sl)"
proof (rule disjE [OF resolve_replay_cases [of side parent tp sl fill c1m c5m c15m ptf]])
  assume "\<exists>reason. resolve_replay side parent tp sl fill c1m c5m c15m ptf = resolve_fallback side sl parent reason"
  then obtain reason where "resolve_replay side parent tp sl fill c1m c5m c15m ptf = resolve_fallback side sl parent reason" ..
  then show ?thesis
    using valid_candle_times [OF assms] unfolding resolve_fallback_def by simp
next
  assume "\<exists>cs step. (step, Some cs) \<in> {(60, c1m), (300, c5m), (900, c15m)} \<and>
      replay_decides side tp sl step parent fill cs (resolve_replay side parent tp sl fill c1m c5m c15m ptf)"
  then show ?thesis by (blast dest: replay_decides_exit)
qed

lemma resolve_collision_exit:
  assumes "resolve_collision side parent tp sl fill c1m c5m c15m ptf policy gap = Inr r" "validate_xauusd_candle parent"
  shows "(barrier_hit r = SKIPPED \<and> ir_exit_price r = None \<and> ir_exit_ts r = None) \<or>
    (\<exists>u. ir_exit_ts r = Some u \<and> c_start parent < u \<and> u \<le> c_end parent \<and>
      (barrier_hit r = TP_FIRST \<and> ir_exit_price r = Some tp \<or>
       barrier_hit r = SL_FIRST \<and> (gap = None \<or> policy \<noteq> WORST_CASE) \<and> ir_exit_price r = Some sl \<or>
       barrier_hit r = SL_FIRST \<and> (\<exists>g. policy = WORST_CASE \<and> gap = Some (Fin g) \<and> 0 \<le> g \<and>
         ir_exit_price r = Some (case side of LONG \<Rightarrow> dsub sl g | SHORT \<Rightarrow> dadd sl g))))"
  using assms valid_candle_times [OF assms(2)] resolve_replay_exit [OF assms(2), of side tp sl fill c1m c5m c15m ptf]
  by (cases policy; cases side) (auto simp: resolve_collision_def has_nonneg_iff Let_def split: if_splits)

lemma resolve_exit:
  assumes "resolve side parent tp sl ft fp c1m c5m c15m ptf policy gap = Inr r"
  shows "(barrier_hit r \<in> {UNRESOLVED, SKIPPED} \<and> ir_exit_price r = None \<and> ir_exit_ts r = None) \<or>
    (\<exists>u. ir_exit_ts r = Some u \<and> c_start parent < u \<and> u \<le> c_end parent \<and>
      (barrier_hit r = TP_FIRST \<and> tp_touched side tp parent \<and> ir_exit_price r = Some tp \<or>
       barrier_hit r = SL_FIRST \<and> sl_touched side sl parent \<and> ir_exit_price r = Some sl \<or>
       barrier_hit r = SL_FIRST \<and> sl_touched side sl parent \<and> (\<exists>g. policy = WORST_CASE \<and> gap = Some (Fin g) \<and> 0 \<le> g \<and>
         ir_exit_price r = Some (case side of LONG \<Rightarrow> dsub sl g | SHORT \<Rightarrow> dadd sl g))))"
proof (cases "resolve_guard side parent tp sl ft fp")
  case (Some reason)
  with assms show ?thesis by (auto simp: resolve_def)
next
  case None
  note valid = guard_valid_parent [OF this]
  show ?thesis
  proof (cases "tp_touched side tp parent \<and> sl_touched side sl parent")
    case True
    with assms None
    have "resolve_collision side parent tp sl (case ft of Some t \<Rightarrow> instant t | None \<Rightarrow> c_start parent)
        c1m c5m c15m ptf policy gap = Inr r"
      by (simp add: resolve_def)
    from resolve_collision_exit [OF this valid] True show ?thesis by auto
  next
    case False
    with assms None valid_candle_times [OF valid] show ?thesis
      by (auto simp: resolve_def Let_def split: if_splits)
  qed
qed

text \<open>
  The interface of a barrier resolver, as the outcome engine uses it: the exit price is the
  barrier named, the candle did touch it, and the exit time lies in the candle.
\<close>

locale barrier_resolver =
  fixes res :: "risk_side \<Rightarrow> candle \<Rightarrow> rat \<Rightarrow> rat \<Rightarrow> intrabar_result result"
  assumes hit_tp: "res side c tp sl = Inr r \<Longrightarrow> barrier_hit r = TP_FIRST \<Longrightarrow>
      tp_touched side tp c \<and> ir_exit_price r = Some tp"
    and hit_sl: "res side c tp sl = Inr r \<Longrightarrow> barrier_hit r = SL_FIRST \<Longrightarrow>
      sl_touched side sl c \<and> ir_exit_price r = Some sl"
    and no_hit: "res side c tp sl = Inr r \<Longrightarrow> barrier_hit r \<in> {UNRESOLVED, SKIPPED} \<Longrightarrow>
      ir_exit_price r = None \<and> ir_exit_ts r = None"
    and exit_in_candle: "res side c tp sl = Inr r \<Longrightarrow> barrier_hit r \<in> {TP_FIRST, SL_FIRST} \<Longrightarrow>
      \<exists>u. ir_exit_ts r = Some u \<and> c_start c < u \<and> u \<le> c_end c"
begin

lemma exit_is_barrier:
  "res side c tp sl = Inr r \<Longrightarrow> ir_exit_price r = Some p \<Longrightarrow>
     p = tp \<and> barrier_hit r = TP_FIRST \<or> p = sl \<and> barrier_hit r = SL_FIRST"
  using hit_tp hit_sl no_hit by (cases "barrier_hit r") fastforce+

lemma untouched_no_exit:
  "res side c tp sl = Inr r \<Longrightarrow> \<not> any_touched side tp sl c \<Longrightarrow> ir_exit_price r = None"
  using hit_tp hit_sl no_hit by (cases "barrier_hit r") (auto simp: any_touched_def)

end

interpretation resolver: barrier_resolver
  "\<lambda>side c tp sl. resolve side c tp sl ft fp c1m c5m c15m ptf policy None"
  for ft fp c1m c5m c15m ptf policy
proof
  fix side c tp sl r
  assume "resolve side c tp sl ft fp c1m c5m c15m ptf policy None = Inr r"
  note R = resolve_exit [OF this]
  show "tp_touched side tp c \<and> ir_exit_price r = Some tp" if "barrier_hit r = TP_FIRST" using R that by auto
  show "sl_touched side sl c \<and> ir_exit_price r = Some sl" if "barrier_hit r = SL_FIRST" using R that by auto
  show "ir_exit_price r = None \<and> ir_exit_ts r = None" if "barrier_hit r \<in> {UNRESOLVED, SKIPPED}" using R that by auto
  show "\<exists>u. ir_exit_ts r = Some u \<and> c_start c < u \<and> u \<le> c_end c" if "barrier_hit r \<in> {TP_FIRST, SL_FIRST}"
    using R that by auto
qed

lemmas [eval_defs] = c_start_def c_end_def inside_parent_def chronological_def right_duration_def no_overlap_def
  no_gap_def validate_sequence_def tp_touched_def sl_touched_def intrabar_outcome_def replay_bars_def is_ambiguous_def
  try_replay_def resolve_fallback_def resolve_replay_def resolve_collision_def resolve_guard_def resolve_def

section \<open>Properties\<close>

text \<open>
  The validation of a lower timeframe sequence accepts exactly the replay grids: non-empty
  runs of valid closed candles of the expected duration inside the parent, each opening when
  the previous one closes, the first not after the fill; and it returns them unchanged.
\<close>

theorem validated_sequence_is_grid:
  "validate_sequence cs step parent fill = Inr bars \<longleftrightarrow> bars = cs \<and> replay_grid step parent fill cs"
  by (rule validate_sequence_iff)

lemma resolve_on_collision:
  assumes "resolve side parent tp sl ft fp c1m c5m c15m ptf policy gap = Inr r"
    and "tp_touched side tp parent" "sl_touched side sl parent"
  shows "(\<exists>reason. r = intrabar_outcome side UNRESOLVED None policy 0 reason) \<or>
    resolve_collision side parent tp sl (case ft of Some t \<Rightarrow> instant t | None \<Rightarrow> c_start parent)
      c1m c5m c15m ptf policy gap = Inr r"
  using assms by (auto simp: resolve_def Let_def split: option.splits)

text \<open>
  C17. A collision is never resolved optimistically by a guess: when the candle touches both
  barriers, the resolver reports the target only under \<open>LOWER_TIMEFRAME_REPLAY\<close> and only if
  the smaller candles of one timeframe form a replay grid in which the first candle that
  touches any barrier touches the target and not the stop.
\<close>

theorem no_optimistic_collision:
  assumes "resolve side parent tp sl ft fp c1m c5m c15m ptf policy gap = Inr r"
    and "tp_touched side tp parent" "sl_touched side sl parent"
    and "barrier_hit r = TP_FIRST"
  shows "policy = LOWER_TIMEFRAME_REPLAY \<and>
    (\<exists>step cs ys b zs. (step, Some cs) \<in> {(60, c1m), (300, c5m), (900, c15m)} \<and>
       replay_grid step parent (case ft of Some t \<Rightarrow> instant t | None \<Rightarrow> c_start parent) cs \<and>
       cs = ys @ b # zs \<and> (\<forall>y\<in>set ys. \<not> any_touched side tp sl y) \<and>
       tp_touched side tp b \<and> \<not> sl_touched side sl b \<and> ir_exit_price r = Some tp)"
proof -
  let ?fill = "case ft of Some t \<Rightarrow> instant t | None \<Rightarrow> c_start parent"
  from resolve_on_collision [OF assms(1-3)] assms(4)
  have c: "resolve_collision side parent tp sl ?fill c1m c5m c15m ptf policy gap = Inr r" by auto
  with assms(4) have p: "policy = LOWER_TIMEFRAME_REPLAY"
    by (cases policy) (auto simp: resolve_collision_def Let_def split: if_splits)
  with c have r: "r = resolve_replay side parent tp sl ?fill c1m c5m c15m ptf"
    by (simp add: resolve_collision_def)
  with resolve_replay_cases [of side parent tp sl ?fill c1m c5m c15m ptf] assms(4)
  obtain cs step where "(step, Some cs) \<in> {(60, c1m), (300, c5m), (900, c15m)}"
    "replay_decides side tp sl step parent ?fill cs r"
    by (auto simp: resolve_fallback_def)
  with p assms(4) show ?thesis by (fastforce simp: replay_decides_def)
qed

text \<open>A 15 minute candle that touches both barriers, and three 5 minute candles inside it.\<close>

definition sample_parent :: candle where
  "sample_parent = bar_at 0 900 100 120 80 100"

definition sample_fives :: "candle list" where
  "sample_fives = [bar_at 0 300 100 105 98 104, bar_at 300 600 104 120 100 110, bar_at 600 900 110 112 80 100]"

lemmas [eval_defs] = sample_parent_def sample_fives_def

theorem no_optimistic_collision_witness:
  "\<exists>r. resolve LONG sample_parent 115 85 None (Some (Fin 100)) None (Some sample_fives) None ''15m''
      LOWER_TIMEFRAME_REPLAY None = Inr r \<and> barrier_hit r = TP_FIRST \<and> ir_exit_price r = Some 115"
proof -
  have "\<exists>r. resolve LONG sample_parent 115 85 None (Some (Fin 100)) None (Some sample_fives) None ''15m''
      LOWER_TIMEFRAME_REPLAY None = Inr r \<and> barrier_hit r = TP_FIRST"
    by (simp add: eval_defs time_units Let_def cong: eval_congs)
  then obtain r where r: "resolve LONG sample_parent 115 85 None (Some (Fin 100)) None (Some sample_fives) None ''15m''
      LOWER_TIMEFRAME_REPLAY None = Inr r" "barrier_hit r = TP_FIRST" by blast
  have "tp_touched LONG 115 sample_parent" "sl_touched LONG 85 sample_parent" by (simp_all add: eval_defs)
  from no_optimistic_collision [OF r(1) this r(2)] r show ?thesis by blast
qed

text \<open>
  The exit of a resolution: at the target with a candle that touched it, or at the stop
  with a candle that touched it (moved further against the trade by the stated gap under
  \<open>WORST_CASE\<close>); inside the candle's time span; and no exit otherwise.
\<close>

theorem resolution_exits_at_barrier:
  assumes "resolve side parent tp sl ft fp c1m c5m c15m ptf policy gap = Inr r"
  shows "(barrier_hit r \<in> {UNRESOLVED, SKIPPED} \<and> ir_exit_price r = None \<and> ir_exit_ts r = None) \<or>
    (\<exists>u. ir_exit_ts r = Some u \<and> c_start parent < u \<and> u \<le> c_end parent \<and>
      (barrier_hit r = TP_FIRST \<and> tp_touched side tp parent \<and> ir_exit_price r = Some tp \<or>
       barrier_hit r = SL_FIRST \<and> sl_touched side sl parent \<and> ir_exit_price r = Some sl \<or>
       barrier_hit r = SL_FIRST \<and> sl_touched side sl parent \<and> (\<exists>g. policy = WORST_CASE \<and> gap = Some (Fin g) \<and> 0 \<le> g \<and>
         ir_exit_price r = Some (case side of LONG \<Rightarrow> dsub sl g | SHORT \<Rightarrow> dadd sl g))))"
  by (rule resolve_exit [OF assms])

theorem resolution_exits_at_barrier_witness:
  "\<exists>r. resolve LONG sample_parent 115 85 None None None None None ''15m'' WORST_CASE (Some (Fin 1)) = Inr r \<and>
     barrier_hit r = SL_FIRST \<and> ir_exit_price r \<noteq> None"
proof -
  have "\<exists>r. resolve LONG sample_parent 115 85 None None None None None ''15m'' WORST_CASE (Some (Fin 1)) = Inr r \<and>
     barrier_hit r = SL_FIRST"
    by (simp add: eval_defs Let_def cong: eval_congs)
  then obtain r where r: "resolve LONG sample_parent 115 85 None None None None None ''15m'' WORST_CASE (Some (Fin 1)) = Inr r"
    "barrier_hit r = SL_FIRST" by blast
  from resolution_exits_at_barrier [OF r(1)] r show ?thesis by auto
qed

text \<open>
  The resolver raises exactly when a collision that passed every guard is to be resolved by
  \<open>WORST_CASE\<close> without a finite, non-negative gap; all other inputs have an answer.
\<close>

theorem resolve_raises_iff:
  "resolve side parent tp sl ft fp c1m c5m c15m ptf policy gap = Inl e \<longleftrightarrow>
     e = ValueError \<and> resolve_guard side parent tp sl ft fp = None \<and>
     tp_touched side tp parent \<and> sl_touched side sl parent \<and> policy = WORST_CASE \<and> \<not> has_nonneg gap"
  by (cases policy) (auto simp: resolve_def resolve_collision_def Let_def split: option.splits)

text \<open>
  The replay is not limited to the time after the fill: validation asks only that the first
  smaller candle starts at or before the fill, so a LONG filled at minute 10 is credited with a
  target that was touched and left between minutes 0 and 5, at an exit time before the fill.
\<close>

theorem replay_counts_bars_before_fill:
  "case resolve LONG sample_parent 115 85 (Some (Aware (600 * second))) (Some (Fin 110)) None
      (Some [bar_at 0 300 100 120 98 104, bar_at 300 600 104 112 100 110, bar_at 600 900 110 112 80 100])
      None ''15m'' LOWER_TIMEFRAME_REPLAY None of
     Inl e \<Rightarrow> False
   | Inr r \<Rightarrow> barrier_hit r = TP_FIRST \<and> ir_exit_price r = Some 115 \<and> ir_exit_ts r = Some (300 * second)"
  by (simp add: eval_defs time_units Let_def cong: eval_congs)


end
