(* ===== verification/Outcomes.thy ===== *)
theory Outcomes
  imports Intrabar Signal_Profile
begin

text \<open>
  \<open>engine/backtest/xauusd_outcomes.py\<close> with its types of \<open>xauusd_types.py\<close>: the engine that
  fills a planned trade, walks the candles after the fill to the first barrier, and settles
  it in units of the planned risk.
\<close>

section \<open>Types\<close>

datatype trade_outcome =
    TP1_HIT_FIRST | SL_HIT_FIRST | NO_FILL | TIMEOUT | UNRESOLVED_OUTCOME | SKIPPED_OUTCOME
  | CONSERVATIVE_SL | ENTRY_INVALIDATED

record cost_config =
  entry_fee_bps :: rat
  exit_fee_bps :: rat
  synthetic_spread_bps :: rat
  entry_slippage_bps :: rat
  exit_slippage_bps :: rat

definition idealized_costs :: cost_config where
  "idealized_costs = \<lparr>entry_fee_bps = 0, exit_fee_bps = 0, synthetic_spread_bps = 0,
     entry_slippage_bps = 0, exit_slippage_bps = 0\<rparr>"

definition empirical_costs :: "cost_config \<Rightarrow> cost_config result" where
  "empirical_costs c =
     (if entry_fee_bps c = 0 \<and> exit_fee_bps c = 0 \<and> synthetic_spread_bps c = 0 \<and>
         entry_slippage_bps c = 0 \<and> exit_slippage_bps c = 0 then Inl ValueError else Inr c)"

record settlement =
  gross_pnl_per_unit :: rat
  net_pnl_per_unit :: rat
  gross_r :: rat
  net_r :: rat
  gross_return_pct :: rat
  net_return_pct :: rat
  mfe_r :: rat
  mae_r :: rat
  holding_seconds :: rat
  st_entry_fee :: rat
  st_exit_fee :: rat
  st_entry_spread :: rat
  st_exit_spread :: rat
  st_entry_slippage :: rat
  st_exit_slippage :: rat

record sim_trade =
  tr_id :: string
  tr_side :: risk_side
  tr_state :: signal_state
  tr_decision :: user_decision
  tr_source_fp :: string
  tr_signal_ts :: int
  tr_plan_fp :: string
  planned_risk_amount :: rat
  tr_outcome :: trade_outcome
  tr_fill_ts :: "int option"
  tr_fill_price :: "rat option"
  tr_exit_ts :: "int option"
  tr_exit_price :: "rat option"
  dependency_end :: int
  tr_settlement :: "settlement option"
  tr_evidence_fp :: "string option"
  tr_run_fp :: string
  tr_fold :: "int option"
  tp2_reached :: bool

text \<open>The engine and the arguments of one call.\<close>

record outcome_engine =
  oe_cost :: cost_config
  oe_long_model :: exec_model
  oe_short_model :: exec_model
  oe_holding_bars :: "int option"
  oe_holding_seconds :: "rat option"
  oe_wait_bars :: "int option"
  oe_wait_seconds :: "rat option"

record trade_request =
  rq_signal :: signal_snapshot
  rq_plan :: risk_plan
  rq_15m :: "candle list"
  rq_5m :: "candle list option"
  rq_1m :: "candle list option"
  rq_quotes :: "quote list option"
  rq_policy :: entry_execution_policy
  rq_intrabar :: intrabar_policy
  rq_id :: string
  rq_run_fp :: string
  rq_fold :: "int option"
  rq_holding_bars :: "int option"
  rq_holding_seconds :: "rat option"
  rq_run_end :: "datetime option"
  rq_wait_bars :: "int option"
  rq_wait_seconds :: "rat option"

section \<open>Construction of the engine\<close>

definition given_string :: "string option \<Rightarrow> bool" where
  "given_string s \<longleftrightarrow> s \<noteq> None \<and> s \<noteq> Some []"

definition make_outcome_engine ::
  "cost_config \<Rightarrow> exec_model option \<Rightarrow> exec_model option \<Rightarrow> exec_model option \<Rightarrow>
    int option \<Rightarrow> rat option \<Rightarrow> int option \<Rightarrow> rat option \<Rightarrow> string option \<Rightarrow> execution_policy option \<Rightarrow>
    execution_policy option \<Rightarrow> execution_policy option \<Rightarrow> string option \<Rightarrow> outcome_engine result" where
  "make_outcome_engine cost long_m short_m any_m hold_bars hold_sec wait_bars wait_sec rev_id config
     long_pol short_pol fp =
     (let build = (\<lambda>l s. \<lparr>oe_cost = cost, oe_long_model = l, oe_short_model = s, oe_holding_bars = hold_bars,
            oe_holding_seconds = hold_sec, oe_wait_bars = wait_bars, oe_wait_seconds = wait_sec\<rparr>)
      in if wait_bars = None \<and> wait_sec = None then Inl ValueError
         else case (long_m, short_m) of
           (Some l, Some s) \<Rightarrow> Inr (build l s)
         | _ \<Rightarrow>
             (case (long_pol, short_pol) of
                (Some lp, Some sp) \<Rightarrow>
                  if \<not> given_string rev_id \<or> \<not> given_string fp then Inl ValueError
                  else rbind (make_exec_model (the rev_id) lp (the fp)) (\<lambda>l.
                       rbind (make_exec_model (the rev_id) sp (the fp)) (\<lambda>s. Inr (build l s)))
              | _ \<Rightarrow>
                  (case any_m of
                     Some m \<Rightarrow> Inr (build m m)
                   | None \<Rightarrow>
                       if \<not> given_string rev_id \<or> config = None \<or> \<not> given_string fp then Inl ValueError
                       else rbind (make_exec_model (the rev_id) (the config) (the fp)) (\<lambda>m. Inr (build m m)))))"

section \<open>Bounding the evidence\<close>

definition require_utc :: "datetime \<Rightarrow> int result" where
  "require_utc dt = (if is_aware dt then Inr (instant dt) else Inl ValueError)"

definition require_utc_opt :: "datetime option \<Rightarrow> int option result" where
  "require_utc_opt dto = (case dto of
       None \<Rightarrow> Inr None
     | Some dt \<Rightarrow> rbind (require_utc dt) (\<lambda>u. Inr (Some u)))"

definition before_end :: "int option \<Rightarrow> int \<Rightarrow> bool" where
  "before_end run_end u \<longleftrightarrow> (case run_end of None \<Rightarrow> True | Some e \<Rightarrow> u < e)"

definition window_candles :: "int \<Rightarrow> int option \<Rightarrow> candle list \<Rightarrow> candle list result" where
  "window_candles sig run_end =
     filter_result (\<lambda>c. rbind (require_utc (timestamp_close c)) (\<lambda>u. Inr (u > sig \<and> before_end run_end u)))"

definition window_quotes :: "int \<Rightarrow> int option \<Rightarrow> quote list \<Rightarrow> quote list result" where
  "window_quotes sig run_end =
     filter_result (\<lambda>q. rbind (require_utc (q_timestamp q)) (\<lambda>u. Inr (u \<ge> sig \<and> before_end run_end u)))"

text \<open>The fill deadline, and whether the end of the run comes first.\<close>

definition fill_search_seconds :: "outcome_engine \<Rightarrow> trade_request \<Rightarrow> rat result" where
  "fill_search_seconds oe rq =
     (case (case rq_wait_seconds rq of Some s \<Rightarrow> Some s | None \<Rightarrow> oe_wait_seconds oe) of
        Some s \<Rightarrow> Inr s
      | None \<Rightarrow>
          (case (case rq_wait_bars rq of Some b \<Rightarrow> Some b | None \<Rightarrow> oe_wait_bars oe) of
             Some b \<Rightarrow> Inr (of_int (b * 900))
           | None \<Rightarrow> Inl ValueError))"

definition run_end_binding :: "int option \<Rightarrow> int \<Rightarrow> bool" where
  "run_end_binding run_end deadline \<longleftrightarrow> (case run_end of None \<Rightarrow> False | Some e \<Rightarrow> e \<le> deadline)"

definition in_entry_window :: "int option \<Rightarrow> int \<Rightarrow> int \<Rightarrow> bool" where
  "in_entry_window run_end deadline u \<longleftrightarrow>
     (if run_end_binding run_end deadline then u < the run_end else u \<le> deadline)"

section \<open>Entry\<close>

text \<open>
  The dispatch on the order type. \<open>EntryExecutionPolicy\<close> has no member \<open>LIMIT_TOUCH\<close>, so
  evaluating that test, which is reached for every policy but the first two, raises.
\<close>

definition entry_fill ::
  "digest \<Rightarrow> (int \<Rightarrow> int) \<Rightarrow> exec_model \<Rightarrow> risk_side \<Rightarrow> int \<Rightarrow> entry_execution_policy \<Rightarrow> candle list \<Rightarrow> quote list \<Rightarrow>
    string \<Rightarrow> int option \<Rightarrow> fill_result result" where
  "entry_fill sha host em side sig policy candles quotes source_fp deadline =
     (case policy of
        NEXT_BAR_OPEN \<Rightarrow>
          simulate_next_bar_open sha host em side (Aware sig) candles source_fp (map_option Aware deadline)
      | MARKET_AFTER_SIGNAL \<Rightarrow>
          simulate_market_after_signal sha host em side (Aware sig) quotes source_fp (map_option Aware deadline)
      | LIMIT_ZONE \<Rightarrow> Inl AttributeError)"

text \<open>The barriers must strictly surround the price of the fill.\<close>

definition fill_surrounded :: "risk_side \<Rightarrow> rat \<Rightarrow> rat option \<Rightarrow> rat option \<Rightarrow> bool" where
  "fill_surrounded side px tp sl =
     (case (tp, sl) of
        (Some t, Some s) \<Rightarrow> (case side of
            LONG \<Rightarrow> \<not> px \<ge> t \<and> \<not> px \<le> s
          | SHORT \<Rightarrow> \<not> px \<le> t \<and> \<not> px \<ge> s)
      | _ \<Rightarrow> False)"

section \<open>Walking the candles after the fill\<close>

record walk_end =
  we_outcome :: trade_outcome
  we_exit_ts :: int
  we_exit_price :: rat
  we_index :: nat

record excursion =
  ex_favorable :: rat
  ex_adverse :: rat

definition track_excursion :: "risk_side \<Rightarrow> candle \<Rightarrow> excursion \<Rightarrow> excursion" where
  "track_excursion side c x =
     (let hi = num_value (c_high c); lo = num_value (c_low c) in case side of
        LONG \<Rightarrow> \<lparr>ex_favorable = (if hi > ex_favorable x then hi else ex_favorable x),
                 ex_adverse = (if lo < ex_adverse x then lo else ex_adverse x)\<rparr>
      | SHORT \<Rightarrow> \<lparr>ex_favorable = (if lo < ex_favorable x then lo else ex_favorable x),
                 ex_adverse = (if hi > ex_adverse x then hi else ex_adverse x)\<rparr>)"

definition sub_candles :: "int \<Rightarrow> int \<Rightarrow> candle list \<Rightarrow> candle list option result" where
  "sub_candles t0 t1 cs =
     rbind (filter_result (\<lambda>c. rbind (require_utc (timestamp_open c)) (\<lambda>a.
              if a \<ge> t0 then rbind (require_utc (timestamp_close c)) (\<lambda>b. Inr (b \<le> t1)) else Inr False)) cs)
       (\<lambda>sub. Inr (if sub = [] then None else Some sub))"

text \<open>\<open>x or d\<close> for a price: zero is false.\<close>

definition price_or :: "rat option \<Rightarrow> rat \<Rightarrow> rat" where
  "price_or x d = (case x of Some v \<Rightarrow> if v \<noteq> 0 then v else d | None \<Rightarrow> d)"

definition ts_or :: "int option \<Rightarrow> int \<Rightarrow> int" where
  "ts_or x d = (case x of Some v \<Rightarrow> v | None \<Rightarrow> d)"

definition finite_bar :: "candle \<Rightarrow> bool" where
  "finite_bar c \<longleftrightarrow> finite_num (c_high c) \<and> finite_num (c_low c)"

text \<open>What one resolution means for the trade; \<open>None\<close>: go on to the next candle.\<close>

definition walk_stop :: "intrabar_result \<Rightarrow> int \<Rightarrow> rat \<Rightarrow> rat \<Rightarrow> rat \<Rightarrow> nat \<Rightarrow> walk_end option" where
  "walk_stop r t1 tp sl fill_px i =
     (let stop = (\<lambda>oc px. Some \<lparr>we_outcome = oc, we_exit_ts = ts_or (ir_exit_ts r) t1,
                     we_exit_price = px, we_index = i\<rparr>)
      in case barrier_hit r of
        TP_FIRST \<Rightarrow> stop TP1_HIT_FIRST (price_or (ir_exit_price r) tp)
      | SL_FIRST \<Rightarrow> stop SL_HIT_FIRST (price_or (ir_exit_price r) sl)
      | SKIPPED \<Rightarrow> stop SKIPPED_OUTCOME fill_px
      | UNRESOLVED \<Rightarrow> None)"

fun walk_bars ::
  "risk_side \<Rightarrow> rat \<Rightarrow> rat \<Rightarrow> int \<Rightarrow> rat \<Rightarrow> candle list \<Rightarrow> candle list \<Rightarrow> intrabar_policy \<Rightarrow>
    nat \<Rightarrow> candle list \<Rightarrow> excursion \<Rightarrow> (walk_end option \<times> excursion) result" where
  "walk_bars side tp sl fill fill_px ones fives policy i [] x = Inr (None, x)"
| "walk_bars side tp sl fill fill_px ones fives policy i (c # cs) x =
     rbind (require_utc (timestamp_open c)) (\<lambda>t0.
     rbind (require_utc (timestamp_close c)) (\<lambda>t1.
     if \<not> finite_bar c then Inl NonFiniteOperand
     else
     rbind (sub_candles t0 t1 ones) (\<lambda>s1.
     rbind (sub_candles t0 t1 fives) (\<lambda>s5.
     rbind (resolve side c tp sl (Some (Aware fill)) (Some (Fin fill_px)) s1 s5 None ''15m'' policy None) (\<lambda>r.
     (case walk_stop r t1 tp sl fill_px i of
        Some w \<Rightarrow> Inr (Some w, track_excursion side c x)
      | None \<Rightarrow> walk_bars side tp sl fill fill_px ones fives policy (Suc i) cs (track_excursion side c x)))))))"

fun tp2_scan :: "risk_side \<Rightarrow> rat \<Rightarrow> candle list \<Rightarrow> bool result" where
  "tp2_scan side t2 [] = Inr False"
| "tp2_scan side t2 (c # cs) =
     (if \<not> finite_num (case side of LONG \<Rightarrow> c_high c | SHORT \<Rightarrow> c_low c) then Inl NonFiniteOperand
      else if tp_touched side t2 c then Inr True
      else tp2_scan side t2 cs)"

section \<open>Settlement\<close>

text \<open>\<open>Decimal\<close> division, which raises for a zero divisor.\<close>

definition ddiv_checked :: "rat \<Rightarrow> rat \<Rightarrow> rat result" where
  "ddiv_checked x y =
     (if y = 0 then Inl (if x = 0 then InvalidOperation else DivisionByZero) else Inr (ddiv x y))"

definition gross_pnl :: "risk_side \<Rightarrow> rat \<Rightarrow> rat \<Rightarrow> rat" where
  "gross_pnl side fill_px exit_px = (case side of LONG \<Rightarrow> dsub exit_px fill_px | SHORT \<Rightarrow> dsub fill_px exit_px)"

definition settle ::
  "cost_config \<Rightarrow> risk_side \<Rightarrow> rat \<Rightarrow> fill_result \<Rightarrow> rat \<Rightarrow> int \<Rightarrow> rat \<Rightarrow> int \<Rightarrow> excursion \<Rightarrow> settlement result" where
  "settle cost side risk fr fill_px fill exit_px exit x =
     (let gross = gross_pnl side fill_px exit_px;
          favorable = (case side of LONG \<Rightarrow> dsub (ex_favorable x) fill_px | SHORT \<Rightarrow> dsub fill_px (ex_favorable x));
          adverse = (case side of LONG \<Rightarrow> dsub fill_px (ex_adverse x) | SHORT \<Rightarrow> dsub (ex_adverse x) fill_px);
          bps = (\<lambda>px v. dmul px (dmul v (1 / 10000)));
          fee_in = bps fill_px (entry_fee_bps cost);
          fee_out = bps exit_px (exit_fee_bps cost);
          spread_out = bps exit_px (synthetic_spread_bps cost);
          slip_out = bps exit_px (exit_slippage_bps cost);
          net = dsub (dsub gross fee_in) (dadd (dadd fee_out spread_out) slip_out)
      in rbind (quantize4 (ddiv favorable risk)) (\<lambda>mfe.
         rbind (quantize4 (ddiv adverse risk)) (\<lambda>mae.
         rbind (ddiv_checked gross fill_px) (\<lambda>gross_ret.
         rbind (ddiv_checked net fill_px) (\<lambda>net_ret.
         rbind (quantize4 gross) (\<lambda>q_gross.
         rbind (quantize4 net) (\<lambda>q_net.
         rbind (quantize4 (ddiv gross risk)) (\<lambda>q_gross_r.
         rbind (quantize4 (ddiv net risk)) (\<lambda>q_net_r.
         rbind (quantize4 (dmul gross_ret 100)) (\<lambda>q_gross_ret.
         rbind (quantize4 (dmul net_ret 100)) (\<lambda>q_net_ret.
           Inr \<lparr>gross_pnl_per_unit = q_gross, net_pnl_per_unit = q_net, gross_r = q_gross_r, net_r = q_net_r,
             gross_return_pct = q_gross_ret, net_return_pct = q_net_ret, mfe_r = mfe, mae_r = mae,
             holding_seconds = fround (of_int (exit - fill) / 1000000),
             st_entry_fee = fee_in, st_exit_fee = fee_out,
             st_entry_spread = dadd (observed_spread fr) (synthetic_spread fr), st_exit_spread = spread_out,
             st_entry_slippage = adverse_slippage fr, st_exit_slippage = slip_out\<rparr>)))))))))))"

section \<open>Resolving a trade\<close>

text \<open>\<open>a or b\<close> for optional numbers, and \<open>xs[:n]\<close> with Python's negative indices.\<close>

definition num_or :: "'a::zero option \<Rightarrow> 'a option \<Rightarrow> 'a option" where
  "num_or a b = (case a of Some x \<Rightarrow> if x \<noteq> 0 then Some x else b | None \<Rightarrow> b)"

definition slice_to :: "int option \<Rightarrow> 'a list \<Rightarrow> 'a list" where
  "slice_to n xs = (case n of
       None \<Rightarrow> xs
     | Some k \<Rightarrow> if k \<ge> 0 then take (nat k) xs else take (length xs - nat (- k)) xs)"

definition base_trade :: "trade_request \<Rightarrow> int \<Rightarrow> rat \<Rightarrow> trade_outcome \<Rightarrow> int \<Rightarrow> string option \<Rightarrow> sim_trade" where
  "base_trade rq sig risk outcome dep evidence = \<lparr>
     tr_id = rq_id rq, tr_side = rp_side (rq_plan rq), tr_state = candidate_state (rq_signal rq),
     tr_decision = candidate_decision (rq_signal rq), tr_source_fp = analysis_fingerprint (rq_signal rq),
     tr_signal_ts = sig, tr_plan_fp = risk_plan_fp (rq_plan rq), planned_risk_amount = risk,
     tr_outcome = outcome, tr_fill_ts = None, tr_fill_price = None, tr_exit_ts = None, tr_exit_price = None,
     dependency_end = dep, tr_settlement = None, tr_evidence_fp = evidence,
     tr_run_fp = rq_run_fp rq, tr_fold = rq_fold rq, tp2_reached = False\<rparr>"

definition planned_risk :: "risk_plan \<Rightarrow> rat option" where
  "planned_risk p = (case rp_side p of
       LONG \<Rightarrow> (case (entry_max p, stop_final p) of (Some e, Some s) \<Rightarrow> Some (dsub e s) | _ \<Rightarrow> None)
     | SHORT \<Rightarrow> (case (stop_final p, entry_min p) of (Some s, Some e) \<Rightarrow> Some (dsub s e) | _ \<Rightarrow> None))"

text \<open>\<open>execution_fingerprint\<close>, or the evidence fingerprint when that is empty.\<close>

definition fill_evidence :: "fill_result \<Rightarrow> string option" where
  "fill_evidence fr = (if execution_fp fr \<noteq> [] then Some (execution_fp fr) else evidence_fp fr)"

text \<open>The holding window: the last instant at which a candle may still open.\<close>

definition holding_end :: "outcome_engine \<Rightarrow> trade_request \<Rightarrow> int option \<Rightarrow> int \<Rightarrow> int result" where
  "holding_end oe rq run_end fill =
     (let bars = num_or (rq_holding_bars rq) (oe_holding_bars oe);
          secs = num_or (rq_holding_seconds rq) (oe_holding_seconds oe)
      in case (case secs of Some s \<Rightarrow> Some s | None \<Rightarrow> map_option (\<lambda>b. of_int (b * 900)) bars) of
           None \<Rightarrow> Inl ValueError
         | Some s \<Rightarrow> (let m = fill + timedelta_us s
                      in Inr (case run_end of Some e \<Rightarrow> if m > e then e else m | None \<Rightarrow> m)))"

definition post_fill_candles :: "int \<Rightarrow> int \<Rightarrow> candle list \<Rightarrow> candle list result" where
  "post_fill_candles fill max_ts =
     filter_result (\<lambda>c. rbind (require_utc (timestamp_close c)) (\<lambda>b.
       if b \<ge> fill then rbind (require_utc (timestamp_open c)) (\<lambda>a. Inr (a < max_ts)) else Inr False))"

definition tp2_reached_after :: "risk_side \<Rightarrow> rat option \<Rightarrow> walk_end \<Rightarrow> candle list \<Rightarrow> bool result" where
  "tp2_reached_after side t2 w eval =
     (case t2 of
        Some x \<Rightarrow> if we_outcome w = TP1_HIT_FIRST then tp2_scan side x (drop (we_index w) eval) else Inr False
      | None \<Rightarrow> Inr False)"

definition resolve_filled ::
  "outcome_engine \<Rightarrow> trade_request \<Rightarrow> int \<Rightarrow> int option \<Rightarrow> rat \<Rightarrow> candle list \<Rightarrow> candle list \<Rightarrow> candle list \<Rightarrow>
    fill_result \<Rightarrow> int \<Rightarrow> rat \<Rightarrow> rat \<Rightarrow> rat \<Rightarrow> sim_trade result" where
  "resolve_filled oe rq sig run_end risk c15 c5 c1 fr fill px tp sl =
     (let side = rp_side (rq_plan rq); ev = fill_evidence fr in
      rbind (holding_end oe rq run_end fill) (\<lambda>max_ts.
      rbind (post_fill_candles fill max_ts c15) (\<lambda>post.
      let eval = slice_to (num_or (rq_holding_bars rq) (oe_holding_bars oe)) post in
      rbind (walk_bars side tp sl fill px c1 c5 (rq_intrabar rq) 0 eval \<lparr>ex_favorable = px, ex_adverse = px\<rparr>) (\<lambda>(wo, x).
      case wo of
        None \<Rightarrow> Inr ((base_trade rq sig risk UNRESOLVED_OUTCOME max_ts ev)\<lparr>
                  tr_fill_ts := Some fill, tr_fill_price := Some px\<rparr>)
      | Some w \<Rightarrow>
          rbind (tp2_reached_after side (tp2 (rq_plan rq)) w eval) (\<lambda>t2.
          rbind (settle (oe_cost oe) side risk fr px fill (we_exit_price w) (we_exit_ts w) x) (\<lambda>st.
            Inr ((base_trade rq sig risk (we_outcome w) (we_exit_ts w) ev)\<lparr>
              tr_fill_ts := Some fill, tr_fill_price := Some px,
              tr_exit_ts := Some (we_exit_ts w), tr_exit_price := Some (we_exit_price w),
              tr_settlement := Some st, tp2_reached := t2\<rparr>)))))))"

definition resolve_entry ::
  "digest \<Rightarrow> (int \<Rightarrow> int) \<Rightarrow> outcome_engine \<Rightarrow> trade_request \<Rightarrow> int \<Rightarrow> rat \<Rightarrow> sim_trade result" where
  "resolve_entry sha host oe rq sig risk =
     (let plan = rq_plan rq; side = rp_side plan in
      rbind (require_utc_opt (rq_run_end rq)) (\<lambda>run_end.
      rbind (window_candles sig run_end (rq_15m rq)) (\<lambda>c15.
      rbind (window_candles sig run_end (candle_list (rq_5m rq))) (\<lambda>c5.
      rbind (window_candles sig run_end (candle_list (rq_1m rq))) (\<lambda>c1.
      rbind (window_quotes sig run_end (quote_list (rq_quotes rq))) (\<lambda>qs.
      rbind (fill_search_seconds oe rq) (\<lambda>wait.
      let deadline = sig + timedelta_us wait;
          binding = run_end_binding run_end deadline;
          effective = (if binding then the run_end else deadline)
      in
      rbind (filter_result (\<lambda>c. rbind (require_utc (timestamp_open c)) (\<lambda>u.
               Inr (in_entry_window run_end deadline u))) c15) (\<lambda>entry15.
      rbind (filter_result (\<lambda>q. rbind (require_utc (q_timestamp q)) (\<lambda>u.
               Inr (in_entry_window run_end deadline u))) qs) (\<lambda>entry_qs.
      rbind (entry_fill sha host (case side of LONG \<Rightarrow> oe_long_model oe | SHORT \<Rightarrow> oe_short_model oe) side sig
               (rq_policy rq) entry15 entry_qs (analysis_fingerprint (rq_signal rq))
               (if binding then None else Some effective)) (\<lambda>fr.
      case (is_filled fr, fill_price fr, fill_ts fr) of
        (True, Some px, Some fill) \<Rightarrow>
          if \<not> fill_surrounded side px (tp1 plan) (stop_final plan)
          then Inr ((base_trade rq sig risk ENTRY_INVALIDATED fill (fill_evidence fr))\<lparr>
                 tr_fill_ts := Some fill, tr_fill_price := Some px\<rparr>)
          else resolve_filled oe rq sig run_end risk c15 c5 c1 fr fill px (the (tp1 plan)) (the (stop_final plan))
      | _ \<Rightarrow> Inr (base_trade rq sig risk NO_FILL effective (fill_evidence fr))))))))))))"

definition resolve_trade ::
  "digest \<Rightarrow> (int \<Rightarrow> int) \<Rightarrow> outcome_engine \<Rightarrow> trade_request \<Rightarrow> sim_trade result" where
  "resolve_trade sha host oe rq =
     rbind (require_utc (sg_timestamp (rq_signal rq))) (\<lambda>sig.
       let plan = rq_plan rq in
       if \<not> rp_valid plan \<or> \<not> simulation_eligible plan
       then Inr (base_trade rq sig 0 SKIPPED_OUTCOME sig (Some []))
       else case planned_risk plan of
         None \<Rightarrow> Inl ValueError
       | Some risk \<Rightarrow> if risk \<le> 0 then Inl ValueError else resolve_entry sha host oe rq sig risk)"

section \<open>Lemmas on the walk\<close>

text \<open>The end of a walk is decided by its first resolved candle.\<close>

definition walk_decided ::
  "risk_side \<Rightarrow> rat \<Rightarrow> rat \<Rightarrow> rat \<Rightarrow> candle \<Rightarrow> walk_end \<Rightarrow> bool" where
  "walk_decided side tp sl fill_px c w \<longleftrightarrow>
     (we_outcome w = TP1_HIT_FIRST \<and> we_exit_price w = tp \<and> tp_touched side tp c \<and>
        c_start c < we_exit_ts w \<and> we_exit_ts w \<le> c_end c) \<or>
     (we_outcome w = SL_HIT_FIRST \<and> we_exit_price w = sl \<and> sl_touched side sl c \<and>
        c_start c < we_exit_ts w \<and> we_exit_ts w \<le> c_end c) \<or>
     (we_outcome w = SKIPPED_OUTCOME \<and> we_exit_price w = fill_px \<and> we_exit_ts w = c_end c \<and>
        tp_touched side tp c \<and> sl_touched side sl c)"

lemma require_utc_Inr [simp]: "require_utc t = Inr u \<longleftrightarrow> is_aware t \<and> u = instant t"
  by (auto simp: require_utc_def)

lemma price_or_same [simp]: "price_or (Some p) p = p"
  by (simp add: price_or_def)

lemma ts_or_Some [simp]: "ts_or (Some u) d = u" "ts_or None d = d"
  by (simp_all add: ts_or_def)

text \<open>A candle is skipped by one policy only, and only when it touched both barriers.\<close>

lemma resolve_skipped:
  assumes "resolve side c tp sl ft fp c1 c5 c15 tf policy gap = Inr r" "barrier_hit r = SKIPPED"
  shows "policy = SKIP_AMBIGUOUS \<and> tp_touched side tp c \<and> sl_touched side sl c"
proof (cases "resolve_guard side c tp sl ft fp")
  case (Some reason)
  with assms show ?thesis by (auto simp: resolve_def)
next
  case None
  note exits = resolve_replay_exit [OF guard_valid_parent [OF this]]
  show ?thesis
  proof (cases "tp_touched side tp c \<and> sl_touched side sl c")
    case True
    with assms(1) None obtain f where "resolve_collision side c tp sl f c1 c5 c15 tf policy gap = Inr r"
      by (simp add: resolve_def)
    with assms(2) exits [of side tp sl f c1 c5 c15 tf] True show ?thesis
      by (cases policy) (auto simp: resolve_collision_def Let_def split: if_splits)
  next
    case False
    with assms None show ?thesis by (auto simp: resolve_def Let_def split: if_splits)
  qed
qed

lemma walk_bars_hit:
  assumes "walk_bars side tp sl fill px ones fives pol i cs x = Inr (Some w, x')"
  shows "\<exists>pre c post. cs = pre @ c # post \<and> we_index w = i + length pre \<and> walk_decided side tp sl px c w \<and>
    (we_outcome w = SKIPPED_OUTCOME \<longrightarrow> pol = SKIP_AMBIGUOUS)"
  using assms
proof (induction cs arbitrary: i x)
  case (Cons c cs)
  from Cons.prems obtain s1 s5 r where
    r: "resolve side c tp sl (Some (Aware fill)) (Some (Fin px)) s1 s5 None ''15m'' pol None = Inr r"
    and rest: "(case walk_stop r (c_end c) tp sl px i of Some w' \<Rightarrow> Inr (Some w', track_excursion side c x)
       | None \<Rightarrow> walk_bars side tp sl fill px ones fives pol (Suc i) cs (track_excursion side c x)) = Inr (Some w, x')"
    by (auto simp: rbind_Inr_iff c_end_def split: if_splits)
  show ?case
  proof (cases "walk_stop r (c_end c) tp sl px i")
    case None
    with rest have "walk_bars side tp sl fill px ones fives pol (Suc i) cs (track_excursion side c x) = Inr (Some w, x')"
      by simp
    from Cons.IH [OF this] obtain pre c' post where
      *: "cs = pre @ c' # post" "we_index w = Suc i + length pre" "walk_decided side tp sl px c' w"
      "we_outcome w = SKIPPED_OUTCOME \<longrightarrow> pol = SKIP_AMBIGUOUS" by blast
    then show ?thesis by (intro exI [of _ "c # pre"] exI [of _ c'] exI [of _ post]) simp
  next
    case (Some w')
    with rest have "walk_stop r (c_end c) tp sl px i = Some w" by simp
    with resolver.hit_tp [OF r] resolver.hit_sl [OF r] resolver.no_hit [OF r] resolver.exit_in_candle [OF r] resolve_skipped [OF r]
    have "walk_decided side tp sl px c w \<and> we_index w = i \<and> (we_outcome w = SKIPPED_OUTCOME \<longrightarrow> pol = SKIP_AMBIGUOUS)"
      by (cases "barrier_hit r") (auto simp: walk_decided_def walk_stop_def Let_def)
    then show ?thesis by (intro exI [of _ "[]"] exI [of _ c] exI [of _ cs]) simp
  qed
qed simp

section \<open>The shapes of a resolved trade\<close>

lemma base_trade_fields [simp]:
  "tr_outcome (base_trade rq sig risk oc dep ev) = oc"
  "planned_risk_amount (base_trade rq sig risk oc dep ev) = risk"
  "tr_signal_ts (base_trade rq sig risk oc dep ev) = sig"
  "tr_fill_price (base_trade rq sig risk oc dep ev) = None"
  "tr_exit_price (base_trade rq sig risk oc dep ev) = None"
  "tr_fill_ts (base_trade rq sig risk oc dep ev) = None"
  "tr_exit_ts (base_trade rq sig risk oc dep ev) = None"
  "tr_settlement (base_trade rq sig risk oc dep ev) = None"
  "tp2_reached (base_trade rq sig risk oc dep ev) = False"
  "dependency_end (base_trade rq sig risk oc dep ev) = dep"
  by (simp_all add: base_trade_def)

lemma resolve_filled_Inr:
  assumes "resolve_filled oe rq sig run_end risk c15 c5 c1 fr fill px tp sl = Inr t"
  shows "planned_risk_amount t = risk \<and> tr_signal_ts t = sig \<and> tr_fill_ts t = Some fill \<and> tr_fill_price t = Some px \<and>
    ((tr_outcome t = UNRESOLVED_OUTCOME \<and> tr_exit_price t = None \<and> tr_exit_ts t = None \<and> tr_settlement t = None) \<or>
     (\<exists>max_ts post w x x' st. post_fill_candles fill max_ts c15 = Inr post \<and>
        walk_bars (rp_side (rq_plan rq)) tp sl fill px c1 c5 (rq_intrabar rq) 0
          (slice_to (num_or (rq_holding_bars rq) (oe_holding_bars oe)) post) x = Inr (Some w, x') \<and>
        settle (oe_cost oe) (rp_side (rq_plan rq)) risk fr px fill (we_exit_price w) (we_exit_ts w) x' = Inr st \<and>
        tr_outcome t = we_outcome w \<and> tr_exit_price t = Some (we_exit_price w) \<and> tr_exit_ts t = Some (we_exit_ts w) \<and>
        tr_settlement t = Some st))"
proof -
  let ?side = "rp_side (rq_plan rq)" and ?ev = "fill_evidence fr"
  from assms obtain max_ts post wo x where
    post: "post_fill_candles fill max_ts c15 = Inr post" and
    walk: "walk_bars ?side tp sl fill px c1 c5 (rq_intrabar rq) 0
        (slice_to (num_or (rq_holding_bars rq) (oe_holding_bars oe)) post) \<lparr>ex_favorable = px, ex_adverse = px\<rparr> = Inr (wo, x)"
    and rest: "(case wo of
        None \<Rightarrow> Inr ((base_trade rq sig risk UNRESOLVED_OUTCOME max_ts ?ev)\<lparr>
                  tr_fill_ts := Some fill, tr_fill_price := Some px\<rparr>)
      | Some w \<Rightarrow>
          rbind (tp2_reached_after ?side (tp2 (rq_plan rq)) w (slice_to (num_or (rq_holding_bars rq) (oe_holding_bars oe)) post)) (\<lambda>t2.
          rbind (settle (oe_cost oe) ?side risk fr px fill (we_exit_price w) (we_exit_ts w) x) (\<lambda>st.
            Inr ((base_trade rq sig risk (we_outcome w) (we_exit_ts w) ?ev)\<lparr>
              tr_fill_ts := Some fill, tr_fill_price := Some px,
              tr_exit_ts := Some (we_exit_ts w), tr_exit_price := Some (we_exit_price w),
              tr_settlement := Some st, tp2_reached := t2\<rparr>)))) = Inr t"
    unfolding resolve_filled_def Let_def rbind_Inr_iff by auto
  show ?thesis
  proof (cases wo)
    case None
    with rest show ?thesis by auto
  next
    case (Some w)
    with rest obtain st where
      st: "settle (oe_cost oe) ?side risk fr px fill (we_exit_price w) (we_exit_ts w) x = Inr st" and
      "tr_outcome t = we_outcome w" "tr_exit_price t = Some (we_exit_price w)" "tr_exit_ts t = Some (we_exit_ts w)"
      "tr_settlement t = Some st" "planned_risk_amount t = risk" "tr_signal_ts t = sig"
      "tr_fill_ts t = Some fill" "tr_fill_price t = Some px"
      by (auto simp: rbind_Inr_iff)
    with post walk [unfolded Some] show ?thesis by blast
  qed
qed

lemma resolve_entry_cases:
  assumes "resolve_entry sha host oe rq sig risk = Inr t"
  shows "planned_risk_amount t = risk \<and> tr_signal_ts t = sig \<and>
    ((tr_outcome t = NO_FILL \<and> tr_fill_price t = None \<and> tr_exit_price t = None \<and> tr_settlement t = None \<and> tr_fill_ts t = None) \<or>
     (\<exists>entry15 entry_qs dl fr px fill.
        entry_fill sha host (case rp_side (rq_plan rq) of LONG \<Rightarrow> oe_long_model oe | SHORT \<Rightarrow> oe_short_model oe)
          (rp_side (rq_plan rq)) sig (rq_policy rq) entry15 entry_qs (analysis_fingerprint (rq_signal rq)) dl = Inr fr \<and>
        is_filled fr \<and> fill_price fr = Some px \<and> fill_ts fr = Some fill \<and>
        tr_fill_price t = Some px \<and> tr_fill_ts t = Some fill \<and>
        ((tr_outcome t = ENTRY_INVALIDATED \<and> tr_exit_price t = None \<and> tr_settlement t = None \<and>
            \<not> fill_surrounded (rp_side (rq_plan rq)) px (tp1 (rq_plan rq)) (stop_final (rq_plan rq))) \<or>
         (\<exists>tp sl run_end c15 c5 c1. tp1 (rq_plan rq) = Some tp \<and> stop_final (rq_plan rq) = Some sl \<and>
            set c15 \<subseteq> set (rq_15m rq) \<and>
            fill_surrounded (rp_side (rq_plan rq)) px (Some tp) (Some sl) \<and>
            resolve_filled oe rq sig run_end risk c15 c5 c1 fr fill px tp sl = Inr t))))"
proof -
  from assms obtain run_end c15 c5 c1 wait entry15 entry_qs dl eff fr where
    c15: "window_candles sig run_end (rq_15m rq) = Inr c15" and
    fr: "entry_fill sha host (case rp_side (rq_plan rq) of LONG \<Rightarrow> oe_long_model oe | SHORT \<Rightarrow> oe_short_model oe)
          (rp_side (rq_plan rq)) sig (rq_policy rq) entry15 entry_qs (analysis_fingerprint (rq_signal rq)) dl = Inr fr"
    and t: "(case (is_filled fr, fill_price fr, fill_ts fr) of
        (True, Some px, Some fill) \<Rightarrow>
          if \<not> fill_surrounded (rp_side (rq_plan rq)) px (tp1 (rq_plan rq)) (stop_final (rq_plan rq))
          then Inr ((base_trade rq sig risk ENTRY_INVALIDATED fill (fill_evidence fr))\<lparr>
                 tr_fill_ts := Some fill, tr_fill_price := Some px\<rparr>)
          else resolve_filled oe rq sig run_end risk c15 c5 c1 fr fill px (the (tp1 (rq_plan rq))) (the (stop_final (rq_plan rq)))
      | _ \<Rightarrow> Inr (base_trade rq sig risk NO_FILL eff (fill_evidence fr))) = Inr t"
    unfolding resolve_entry_def Let_def rbind_Inr_iff by blast
  from c15 have sub: "set c15 \<subseteq> set (rq_15m rq)" unfolding window_candles_def using filter_result_subset by fast
  show ?thesis
  proof (cases "is_filled fr \<and> fill_price fr \<noteq> None \<and> fill_ts fr \<noteq> None")
    case False
    with t have "t = base_trade rq sig risk NO_FILL eff (fill_evidence fr)"
      by (auto split: bool.splits option.splits)
    then show ?thesis by simp
  next
    case True
    then obtain px fill where f: "is_filled fr" "fill_price fr = Some px" "fill_ts fr = Some fill" by auto
    show ?thesis
    proof (cases "fill_surrounded (rp_side (rq_plan rq)) px (tp1 (rq_plan rq)) (stop_final (rq_plan rq))")
      case False
      with t f have "t = (base_trade rq sig risk ENTRY_INVALIDATED fill (fill_evidence fr))\<lparr>
                 tr_fill_ts := Some fill, tr_fill_price := Some px\<rparr>" by simp
      with False fr f show ?thesis by auto
    next
      case True
      then obtain tp sl where "tp1 (rq_plan rq) = Some tp" "stop_final (rq_plan rq) = Some sl"
        by (auto simp: fill_surrounded_def split: option.splits)
      moreover from this True t f
      have "resolve_filled oe rq sig run_end risk c15 c5 c1 fr fill px tp sl = Inr t" by simp
      moreover note resolve_filled_Inr [OF this] fr f True sub
      ultimately show ?thesis by fastforce
    qed
  qed
qed

section \<open>What a resolved trade says\<close>

lemma resolve_trade_entered:
  assumes "resolve_trade sha host oe rq = Inr t" and "rp_valid (rq_plan rq)" "simulation_eligible (rq_plan rq)"
  shows "\<exists>risk. planned_risk (rq_plan rq) = Some risk \<and> 0 < risk \<and> is_aware (sg_timestamp (rq_signal rq)) \<and>
    resolve_entry sha host oe rq (instant (sg_timestamp (rq_signal rq))) risk = Inr t"
  using assms by (auto simp: resolve_trade_def rbind_Inr_iff split: option.splits if_splits)

lemma resolve_trade_skipped:
  assumes "\<not> (rp_valid (rq_plan rq) \<and> simulation_eligible (rq_plan rq))" and "resolve_trade sha host oe rq = Inr t"
  shows "tr_outcome t = SKIPPED_OUTCOME \<and> tr_fill_price t = None \<and> tr_exit_price t = None \<and> tr_settlement t = None \<and>
    tr_fill_ts t = None"
  using assms by (auto simp: resolve_trade_def rbind_Inr_iff split: option.splits if_splits)

lemma slice_to_subset: "set (slice_to n xs) \<subseteq> set xs"
  by (auto simp: slice_to_def split: option.splits dest: in_set_takeD)

lemma resolve_trade_settledE:
  assumes "resolve_trade sha host oe rq = Inr t" and "tr_settlement t = Some st"
  obtains risk fill px tp sl w fr x x' c1 c5 eval where
    "planned_risk (rq_plan rq) = Some risk" "0 < risk"
    "tp1 (rq_plan rq) = Some tp" "stop_final (rq_plan rq) = Some sl"
    "fill_surrounded (rp_side (rq_plan rq)) px (Some tp) (Some sl)"
    "\<forall>c \<in> set eval. c \<in> set (rq_15m rq) \<and> fill \<le> c_end c"
    "walk_bars (rp_side (rq_plan rq)) tp sl fill px c1 c5 (rq_intrabar rq) 0 eval x = Inr (Some w, x')"
    "settle (oe_cost oe) (rp_side (rq_plan rq)) risk fr px fill (we_exit_price w) (we_exit_ts w) x' = Inr st"
    "tr_outcome t = we_outcome w" "tr_exit_price t = Some (we_exit_price w)" "tr_fill_price t = Some px"
    "tr_exit_ts t = Some (we_exit_ts w)" "tr_fill_ts t = Some fill"
proof -
  from assms have el: "rp_valid (rq_plan rq)" "simulation_eligible (rq_plan rq)"
    using resolve_trade_skipped [of rq sha host oe t] by auto
  from resolve_trade_entered [OF assms(1) el] obtain risk where risk: "planned_risk (rq_plan rq) = Some risk" "0 < risk"
    and e: "resolve_entry sha host oe rq (instant (sg_timestamp (rq_signal rq))) risk = Inr t" by blast
  from resolve_entry_cases [OF e] assms(2) obtain fr px fill tp sl run_end c15 c5 c1 where
    f: "tp1 (rq_plan rq) = Some tp" "stop_final (rq_plan rq) = Some sl"
      "fill_surrounded (rp_side (rq_plan rq)) px (Some tp) (Some sl)" and c15: "set c15 \<subseteq> set (rq_15m rq)"
    and rf: "resolve_filled oe rq (instant (sg_timestamp (rq_signal rq))) run_end risk c15 c5 c1 fr fill px tp sl = Inr t"
    by auto
  from resolve_filled_Inr [OF rf] assms(2) obtain max_ts post w x x' where
    post: "post_fill_candles fill max_ts c15 = Inr post" and
    w: "walk_bars (rp_side (rq_plan rq)) tp sl fill px c1 c5 (rq_intrabar rq) 0
          (slice_to (num_or (rq_holding_bars rq) (oe_holding_bars oe)) post) x = Inr (Some w, x')"
      "settle (oe_cost oe) (rp_side (rq_plan rq)) risk fr px fill (we_exit_price w) (we_exit_ts w) x' = Inr st"
      "tr_outcome t = we_outcome w" "tr_exit_price t = Some (we_exit_price w)" "tr_exit_ts t = Some (we_exit_ts w)"
      "tr_fill_price t = Some px" "tr_fill_ts t = Some fill"
    by (auto simp del: walk_bars.simps)
  have "c \<in> set (rq_15m rq) \<and> fill \<le> c_end c" if "c \<in> set post" for c
    using filter_result_subset [OF post [unfolded post_fill_candles_def] that] c15
    by (auto simp: rbind_Inr_iff c_end_def split: if_splits)
  with slice_to_subset [of "num_or (rq_holding_bars rq) (oe_holding_bars oe)" post]
  have "\<forall>c \<in> set (slice_to (num_or (rq_holding_bars rq) (oe_holding_bars oe)) post). c \<in> set (rq_15m rq) \<and> fill \<le> c_end c"
    by blast
  from that [OF risk f this w(1,2,3,4,6,5,7)] show thesis .
qed

lemma rhe_nonneg: "0 \<le> x \<Longrightarrow> 0 \<le> rhe x"
  using rhe_mono [of 0 x] by simp

lemma rhe_nonpos: "x \<le> 0 \<Longrightarrow> rhe x \<le> 0"
  using rhe_mono [of x 0] by simp

lemma quantize4_sign:
  assumes "quantize4 x = Inr y"
  shows "(0 \<le> x \<longrightarrow> 0 \<le> y) \<and> (x \<le> 0 \<longrightarrow> y \<le> 0)"
  using assms rhe_nonneg [of "x * 10000"] rhe_nonpos [of "x * 10000"]
  by (auto simp: quantize4_def Let_def split: if_splits)

lemma quantize4_mono:
  assumes "quantize4 x = Inr x'" "quantize4 y = Inr y'" "x \<le> y"
  shows "x' \<le> y'"
  using assms rhe_mono [of "x * 10000" "y * 10000"]
  by (auto simp: quantize4_def Let_def split: if_splits)

lemma settle_gross:
  assumes "settle cost side risk fr px fill ex exit x = Inr st"
  shows "quantize4 (gross_pnl side px ex) = Inr (gross_pnl_per_unit st) \<and>
    quantize4 (ddiv (gross_pnl side px ex) risk) = Inr (gross_r st) \<and> px \<noteq> 0 \<and>
    holding_seconds st = fround (of_int (exit - fill) / 1000000)"
  using assms by (auto simp: settle_def Let_def rbind_Inr_iff ddiv_checked_def split: if_splits)

definition net_pnl :: "cost_config \<Rightarrow> risk_side \<Rightarrow> rat \<Rightarrow> rat \<Rightarrow> rat" where
  "net_pnl cost side px ex =
     dsub (dsub (gross_pnl side px ex) (dmul px (dmul (entry_fee_bps cost) (1 / 10000))))
       (dadd (dadd (dmul ex (dmul (exit_fee_bps cost) (1 / 10000))) (dmul ex (dmul (synthetic_spread_bps cost) (1 / 10000))))
         (dmul ex (dmul (exit_slippage_bps cost) (1 / 10000))))"

lemma settle_results:
  assumes "settle cost side risk fr px fill ex exit x = Inr st"
  shows "quantize4 (net_pnl cost side px ex) = Inr (net_pnl_per_unit st) \<and>
    quantize4 (ddiv (net_pnl cost side px ex) risk) = Inr (net_r st) \<and>
    quantize4 (dmul (ddiv (gross_pnl side px ex) px) 100) = Inr (gross_return_pct st) \<and>
    quantize4 (dmul (ddiv (net_pnl cost side px ex) px) 100) = Inr (net_return_pct st)"
  using assms by (auto simp: settle_def net_pnl_def Let_def rbind_Inr_iff ddiv_checked_def split: if_splits)

lemma ddiv_sign:
  "0 < r \<Longrightarrow> (0 \<le> ddiv x r \<longleftrightarrow> 0 \<le> x) \<and> (ddiv x r \<le> 0 \<longleftrightarrow> x \<le> 0)"
  unfolding ddiv_def by (simp add: zero_le_divide_iff divide_le_0_iff)

lemma ddiv_mono: "0 < r \<Longrightarrow> x \<le> y \<Longrightarrow> ddiv x r \<le> ddiv y r"
  unfolding ddiv_def by (rule dec.rnd_mono) (simp add: divide_right_mono)

lemma dmul_mono: "0 \<le> c \<Longrightarrow> x \<le> y \<Longrightarrow> dmul x c \<le> dmul y c"
  unfolding dmul_def by (rule dec.rnd_mono) (simp add: mult_right_mono)

lemma dsub_le: "0 \<le> y \<Longrightarrow> dsub (dsub a b) y \<le> dsub a b"
  unfolding dsub_def by (rule dec.rnd_sub_le) (simp_all add: dec.rnd_idem)

lemma gross_pnl_dround: "dround (gross_pnl side a b) = gross_pnl side a b"
  by (cases side) (simp_all add: gross_pnl_def)

lemma gross_minus_le: "0 \<le> y \<Longrightarrow> dsub (gross_pnl side a b) y \<le> gross_pnl side a b"
  unfolding dsub_def [of "gross_pnl side a b"] by (rule dec.rnd_sub_le) (simp_all add: gross_pnl_dround)

lemma net_below_gross:
  assumes "0 \<le> entry_fee_bps cost" "0 \<le> exit_fee_bps cost" "0 \<le> synthetic_spread_bps cost" "0 \<le> exit_slippage_bps cost"
    and "0 \<le> px" "0 \<le> ex"
  shows "net_pnl cost side px ex \<le> gross_pnl side px ex"
proof -
  have "0 \<le> dmul px (dmul (entry_fee_bps cost) (1 / 10000))"
    and "0 \<le> dadd (dadd (dmul ex (dmul (exit_fee_bps cost) (1 / 10000))) (dmul ex (dmul (synthetic_spread_bps cost) (1 / 10000))))
      (dmul ex (dmul (exit_slippage_bps cost) (1 / 10000)))"
    using assms by (auto intro!: dmul_nonneg dadd_nonneg)
  then show ?thesis unfolding net_pnl_def by (meson dsub_le gross_minus_le order_trans)
qed

section \<open>A concrete trade\<close>

text \<open>
  A LONG plan (entry up to 105, stop 85, target 115) decided at time 0, and a 15m engine with
  one second of latency.
\<close>

definition sample_plan :: risk_plan where
  "sample_plan = \<lparr>
     rp_side = LONG, rp_source_fingerprint = ''p4'', rp_source_state = BUY_WINDOW, rp_source_decision = BUY,
     rp_generated_at = Aware 0, entry_min = Some 100, entry_mid = Some (205 / 2), entry_max = Some 105,
     stop_structure = Some 85, stop_atr = Some 95, stop_final = Some 85, stop_distance_atr = Some 3,
     tp1 = Some 115, tp2 = Some 125, rr_tp1 = Some 2, rr_tp2 = Some 3,
     rp_valid = True, rp_status = VALID_LONG_RISK_CANDIDATE, simulation_eligible = True,
     candidate_action = BUY, publication_action = WAIT, rp_reasons = [],
     entry_zone_fp = None, tp1_zone_fp = None, tp2_zone_fp = None,
     rp_policy_fp = ''pf'', risk_plan_fp = ''rf'', rp_risk_version = ''v'', rp_code_revision = ''rev''\<rparr>"

definition sample_engine :: outcome_engine where
  "sample_engine = \<lparr>oe_cost = idealized_costs\<lparr>exit_fee_bps := 5\<rparr>, oe_long_model = sample_model, oe_short_model = sample_model,
     oe_holding_bars = Some 8, oe_holding_seconds = None, oe_wait_bars = Some 4, oe_wait_seconds = None\<rparr>"

definition sample_request :: "entry_execution_policy \<Rightarrow> candle list \<Rightarrow> trade_request" where
  "sample_request pol bars = \<lparr>rq_signal = sample_signal BUY_WINDOW BUY 0, rq_plan = sample_plan, rq_15m = bars,
     rq_5m = None, rq_1m = None, rq_quotes = None, rq_policy = pol, rq_intrabar = LOWER_TIMEFRAME_REPLAY,
     rq_id = ''t1'', rq_run_fp = ''run'', rq_fold = None, rq_holding_bars = None, rq_holding_seconds = None,
     rq_run_end = None, rq_wait_bars = None, rq_wait_seconds = None\<rparr>"

lemmas [eval_defs] = idealized_costs_def require_utc_def require_utc_opt_def before_end_def window_candles_def
  window_quotes_def fill_search_seconds_def run_end_binding_def in_entry_window_def entry_fill_def fill_surrounded_def
  track_excursion_def sub_candles_def price_or_def ts_or_def finite_bar_def walk_stop_def ddiv_checked_def gross_pnl_def
  settle_def num_or_def slice_to_def base_trade_def planned_risk_def holding_end_def post_fill_candles_def
  tp2_reached_after_def resolve_filled_def resolve_entry_def resolve_trade_def
  sample_plan_def sample_engine_def sample_request_def

section \<open>Properties\<close>

lemma gross_pnl_barrier:
  "fill_surrounded side px (Some tp) (Some sl) \<Longrightarrow> 0 \<le> gross_pnl side px tp \<and> gross_pnl side px sl \<le> 0 \<and> gross_pnl side px px = 0"
  by (cases side) (auto simp: fill_surrounded_def gross_pnl_def dsub_def)

definition sample_bars :: "candle list" where
  "sample_bars = [bar_at 900 1800 100 110 98 108, bar_at 1800 2700 108 120 104 118]"

lemma sample_long_win:
  "\<exists>t. resolve_trade sample_digest (\<lambda>_. 0) sample_engine (sample_request NEXT_BAR_OPEN sample_bars) = Inr t \<and>
     tr_outcome t = TP1_HIT_FIRST \<and> tr_settlement t \<noteq> None"
  by (simp add: eval_defs sample_bars_def Let_def cong: eval_congs)

text \<open>
  C2. A settled trade ended at a barrier of its plan or was skipped. It ended in a 15 minute
  candle of the request that closes at the fill or later, at a time inside that candle: at the
  price of the first target, which the candle touched, with a gross result that is not negative;
  or at the price of the stop, which the candle touched, with one that is not positive; or, under
  the policy that skips ambiguous candles only, where the candle touched both, at its close and at
  the fill price with a gross result of zero. Target and stop strictly surround the fill price.
\<close>

theorem settled_trade_ends_at_barrier:
  assumes "resolve_trade sha host oe rq = Inr t" and "tr_settlement t = Some st"
  shows "\<exists>px fill u c tp sl. tr_fill_price t = Some px \<and> tr_fill_ts t = Some fill \<and> tr_exit_ts t = Some u \<and>
    tp1 (rq_plan rq) = Some tp \<and> stop_final (rq_plan rq) = Some sl \<and>
    fill_surrounded (rp_side (rq_plan rq)) px (Some tp) (Some sl) \<and>
    c \<in> set (rq_15m rq) \<and> fill \<le> c_end c \<and>
    ((tr_outcome t = TP1_HIT_FIRST \<and> tr_exit_price t = Some tp \<and> tp_touched (rp_side (rq_plan rq)) tp c \<and>
        c_start c < u \<and> u \<le> c_end c \<and> 0 \<le> gross_r st \<and> 0 \<le> gross_pnl_per_unit st) \<or>
     (tr_outcome t = SL_HIT_FIRST \<and> tr_exit_price t = Some sl \<and> sl_touched (rp_side (rq_plan rq)) sl c \<and>
        c_start c < u \<and> u \<le> c_end c \<and> gross_r st \<le> 0 \<and> gross_pnl_per_unit st \<le> 0) \<or>
     (tr_outcome t = SKIPPED_OUTCOME \<and> rq_intrabar rq = SKIP_AMBIGUOUS \<and> tr_exit_price t = Some px \<and>
        tp_touched (rp_side (rq_plan rq)) tp c \<and> sl_touched (rp_side (rq_plan rq)) sl c \<and>
        u = c_end c \<and> gross_r st = 0 \<and> gross_pnl_per_unit st = 0))"
  using assms
proof (rule resolve_trade_settledE)
  fix risk fill px tp sl w fr x x' c1 c5 eval
  assume h: "0 < risk" "tp1 (rq_plan rq) = Some tp" "stop_final (rq_plan rq) = Some sl"
    "fill_surrounded (rp_side (rq_plan rq)) px (Some tp) (Some sl)"
    and eval: "\<forall>c \<in> set eval. c \<in> set (rq_15m rq) \<and> fill \<le> c_end c"
    and walk: "walk_bars (rp_side (rq_plan rq)) tp sl fill px c1 c5 (rq_intrabar rq) 0 eval x = Inr (Some w, x')"
    and st: "settle (oe_cost oe) (rp_side (rq_plan rq)) risk fr px fill (we_exit_price w) (we_exit_ts w) x' = Inr st"
    and t: "tr_outcome t = we_outcome w" "tr_exit_price t = Some (we_exit_price w)" "tr_fill_price t = Some px"
      "tr_exit_ts t = Some (we_exit_ts w)" "tr_fill_ts t = Some fill"
  let ?g = "gross_pnl (rp_side (rq_plan rq)) px (we_exit_price w)"
  from settle_gross [OF st] have g: "quantize4 ?g = Inr (gross_pnl_per_unit st)"
    "quantize4 (ddiv ?g risk) = Inr (gross_r st)" by auto
  from quantize4_sign [OF g(1)] quantize4_sign [OF g(2)] ddiv_sign [OF h(1), of ?g]
  have s: "0 \<le> ?g \<longrightarrow> 0 \<le> gross_pnl_per_unit st \<and> 0 \<le> gross_r st"
    "?g \<le> 0 \<longrightarrow> gross_pnl_per_unit st \<le> 0 \<and> gross_r st \<le> 0" by auto
  from walk_bars_hit [OF walk] obtain pre c post where c: "eval = pre @ c # post"
    and d: "walk_decided (rp_side (rq_plan rq)) tp sl px c w" "we_outcome w = SKIPPED_OUTCOME \<longrightarrow> rq_intrabar rq = SKIP_AMBIGUOUS"
    by blast
  have "c \<in> set eval" by (simp add: c)
  with eval have "c \<in> set (rq_15m rq)" "fill \<le> c_end c" by blast+
  moreover from d gross_pnl_barrier [OF h(4)] s
  have "(we_outcome w = TP1_HIT_FIRST \<and> we_exit_price w = tp \<and> tp_touched (rp_side (rq_plan rq)) tp c \<and>
        c_start c < we_exit_ts w \<and> we_exit_ts w \<le> c_end c \<and> 0 \<le> gross_r st \<and> 0 \<le> gross_pnl_per_unit st) \<or>
     (we_outcome w = SL_HIT_FIRST \<and> we_exit_price w = sl \<and> sl_touched (rp_side (rq_plan rq)) sl c \<and>
        c_start c < we_exit_ts w \<and> we_exit_ts w \<le> c_end c \<and> gross_r st \<le> 0 \<and> gross_pnl_per_unit st \<le> 0) \<or>
     (we_outcome w = SKIPPED_OUTCOME \<and> rq_intrabar rq = SKIP_AMBIGUOUS \<and> we_exit_price w = px \<and>
        tp_touched (rp_side (rq_plan rq)) tp c \<and> sl_touched (rp_side (rq_plan rq)) sl c \<and>
        we_exit_ts w = c_end c \<and> gross_r st = 0 \<and> gross_pnl_per_unit st = 0)"
    unfolding walk_decided_def by (elim disjE) auto
  ultimately show ?thesis using t h by simp blast
qed

theorem settled_trade_ends_at_barrier_witness:
  "\<exists>t st. resolve_trade sample_digest (\<lambda>_. 0) sample_engine (sample_request NEXT_BAR_OPEN sample_bars) = Inr t \<and>
     tr_settlement t = Some st \<and> tr_exit_price t = Some 115 \<and> 0 \<le> gross_r st"
proof -
  from sample_long_win obtain t st
    where t: "resolve_trade sample_digest (\<lambda>_. 0) sample_engine (sample_request NEXT_BAR_OPEN sample_bars) = Inr t"
      "tr_outcome t = TP1_HIT_FIRST" "tr_settlement t = Some st" by auto
  from settled_trade_ends_at_barrier [OF t(1,3)] t show ?thesis
    by (auto simp: sample_request_def sample_plan_def)
qed

text \<open>
  C16. Costs never help: with non-negative fees, spread and exit slippage and non-negative fill
  and exit prices, the net result of a settled trade is at most its gross result, in price per
  unit, in units of the planned risk and in percent of the fill price.
\<close>

theorem costs_never_help:
  assumes "resolve_trade sha host oe rq = Inr t" and "tr_settlement t = Some st"
    and "0 \<le> entry_fee_bps (oe_cost oe)" "0 \<le> exit_fee_bps (oe_cost oe)"
      "0 \<le> synthetic_spread_bps (oe_cost oe)" "0 \<le> exit_slippage_bps (oe_cost oe)"
    and "tr_fill_price t = Some px" "0 \<le> px" and "tr_exit_price t = Some ex" "0 \<le> ex"
  shows "net_pnl_per_unit st \<le> gross_pnl_per_unit st \<and> net_r st \<le> gross_r st \<and> net_return_pct st \<le> gross_return_pct st"
  using assms(1,2)
proof (rule resolve_trade_settledE)
  fix risk fill px' tp sl w fr x x'
  assume risk: "0 < risk"
    and st: "settle (oe_cost oe) (rp_side (rq_plan rq)) risk fr px' fill (we_exit_price w) (we_exit_ts w) x' = Inr st"
    and t: "tr_exit_price t = Some (we_exit_price w)" "tr_fill_price t = Some px'"
  from t assms(7,9) have eq: "px' = px" "we_exit_price w = ex" by auto
  note g = settle_gross [OF st, unfolded eq] and n = settle_results [OF st, unfolded eq]
  have le: "net_pnl (oe_cost oe) (rp_side (rq_plan rq)) px ex \<le> gross_pnl (rp_side (rq_plan rq)) px ex"
    using assms(3-6,8,10) by (rule net_below_gross)
  from g assms(8) have "0 < px" by simp
  from dmul_mono [OF _ ddiv_mono [OF this le], of 100] ddiv_mono [OF risk le] le g n show ?thesis
    by (auto elim: quantize4_mono)
qed

theorem costs_never_help_witness:
  "\<exists>t st. resolve_trade sample_digest (\<lambda>_. 0) sample_engine (sample_request NEXT_BAR_OPEN sample_bars) = Inr t \<and>
     tr_settlement t = Some st \<and> net_r st \<le> gross_r st \<and> net_return_pct st \<le> gross_return_pct st \<and>
     0 < exit_fee_bps (oe_cost sample_engine)"
proof -
  have "\<exists>t. resolve_trade sample_digest (\<lambda>_. 0) sample_engine (sample_request NEXT_BAR_OPEN sample_bars) = Inr t \<and>
     tr_settlement t \<noteq> None \<and> tr_fill_price t = Some (512 / 5) \<and> tr_exit_price t = Some 115"
    by (simp add: eval_defs sample_bars_def Let_def cong: eval_congs)
  then obtain t st
    where t: "resolve_trade sample_digest (\<lambda>_. 0) sample_engine (sample_request NEXT_BAR_OPEN sample_bars) = Inr t"
      "tr_settlement t = Some st" "tr_fill_price t = Some (512 / 5)" "tr_exit_price t = Some 115" by auto
  have "net_pnl_per_unit st \<le> gross_pnl_per_unit st \<and> net_r st \<le> gross_r st \<and> net_return_pct st \<le> gross_return_pct st"
    by (rule costs_never_help [OF t(1,2) _ _ _ _ t(3) _ t(4)]) (simp_all add: sample_engine_def idealized_costs_def)
  with t show ?thesis by (auto simp: sample_engine_def)
qed

text \<open>
  The denominator of R is frozen at planning: every resolved trade of an eligible plan
  records the plan's own distance from the worst entry to the stop, which is positive,
  whatever the fill price was and however the trade ended.
\<close>

theorem risk_denominator_frozen:
  assumes "resolve_trade sha host oe rq = Inr t" and "rp_valid (rq_plan rq)" "simulation_eligible (rq_plan rq)"
  shows "planned_risk (rq_plan rq) = Some (planned_risk_amount t) \<and> 0 < planned_risk_amount t"
proof -
  from resolve_trade_entered [OF assms] obtain risk where "planned_risk (rq_plan rq) = Some risk" "0 < risk"
    and e: "resolve_entry sha host oe rq (instant (sg_timestamp (rq_signal rq))) risk = Inr t" by blast
  with resolve_entry_cases [OF e] show ?thesis by simp
qed

theorem risk_denominator_frozen_witness:
  "\<exists>t. resolve_trade sample_digest (\<lambda>_. 0) sample_engine (sample_request NEXT_BAR_OPEN sample_bars) = Inr t \<and>
     planned_risk_amount t = 20"
proof -
  from sample_long_win obtain t
    where t: "resolve_trade sample_digest (\<lambda>_. 0) sample_engine (sample_request NEXT_BAR_OPEN sample_bars) = Inr t" by blast
  have "planned_risk (rq_plan (sample_request NEXT_BAR_OPEN sample_bars)) = Some (planned_risk_amount t) \<and> 0 < planned_risk_amount t"
    by (rule risk_denominator_frozen [OF t]) (simp_all add: sample_request_def sample_plan_def)
  with t show ?thesis
    by (auto simp: sample_request_def sample_plan_def planned_risk_def dsub_def dround_eval)
qed



text \<open>
  The limit order is unreachable from the outcome engine: for an eligible plan the engine
  never returns an outcome under \<open>LIMIT_ZONE\<close>, since the dispatch names an enumeration
  member that does not exist.
\<close>

theorem limit_zone_never_resolves:
  assumes "rq_policy rq = LIMIT_ZONE" and "rp_valid (rq_plan rq)" "simulation_eligible (rq_plan rq)"
  shows "\<exists>e. resolve_trade sha host oe rq = Inl e"
  using assms
  by (cases "resolve_trade sha host oe rq")
    (auto simp: resolve_trade_def resolve_entry_def entry_fill_def Let_def rbind_Inr_iff split: option.splits if_splits)

theorem limit_zone_never_resolves_witness:
  "(\<exists>e. resolve_trade sample_digest (\<lambda>_. 0) sample_engine (sample_request LIMIT_ZONE sample_bars) = Inl e) \<and>
   resolve_trade sample_digest (\<lambda>_. 0) sample_engine (sample_request LIMIT_ZONE sample_bars) = Inl AttributeError"
proof
  show "\<exists>e. resolve_trade sample_digest (\<lambda>_. 0) sample_engine (sample_request LIMIT_ZONE sample_bars) = Inl e"
    by (rule limit_zone_never_resolves) (simp_all add: sample_request_def sample_plan_def)
  show "resolve_trade sample_digest (\<lambda>_. 0) sample_engine (sample_request LIMIT_ZONE sample_bars) = Inl AttributeError"
    by (simp add: eval_defs sample_bars_def Let_def cong: eval_congs)
qed

text \<open>
  The walk starts too early: a candle that closes at the very instant of the fill, and so
  lies wholly before it, is still evaluated. With one second of latency a LONG is filled at
  minute 15 and is credited with the target that the previous candle reached, although the
  first candle after the fill only reaches the stop.
\<close>

theorem bar_before_fill_decides_trade:
  "case resolve_trade sample_digest (\<lambda>_. 0) sample_engine (sample_request NEXT_BAR_OPEN
      [bar_at 0 900 100 120 98 100, bar_at 900 1800 100 110 80 108]) of
     Inl e \<Rightarrow> False
   | Inr t \<Rightarrow> tr_outcome t = TP1_HIT_FIRST \<and> tr_fill_ts t = Some (900 * second) \<and>
       tr_exit_ts t = Some (900 * second)"
  by (simp add: eval_defs Let_def cong: eval_congs)


end
