(* ===== verification/Civil_Time.thy ===== *)
theory Civil_Time
  imports Prelude
begin

text \<open>
  Dates and their texts, as the standard library has them: decimal numerals, the civil date of an
  instant and the length of a month.
\<close>

section \<open>Numerals and dates\<close>

fun digits :: "nat \<Rightarrow> string" where
  "digits n = (if n < 10 then [''0123456789'' ! n] else digits (n div 10) @ [''0123456789'' ! (n mod 10)])"

declare digits.simps [simp del]

text \<open>The proleptic Gregorian date of a day number counted from the Unix epoch, and zero padding.\<close>

definition civil_date :: "int \<Rightarrow> int \<times> int \<times> int" where
  "civil_date days =
     (let z = days + 719468; era = z div 146097; doe = z mod 146097;
          yoe = (doe - doe div 1460 + doe div 36524 - doe div 146096) div 365;
          doy = doe - (365 * yoe + yoe div 4 - yoe div 100);
          mp = (5 * doy + 2) div 153;
          m = (if mp < 10 then mp + 3 else mp - 9)
      in (yoe + era * 400 + (if m \<le> 2 then 1 else 0), m, doy - (153 * mp + 2) div 5 + 1))"

definition pad :: "nat \<Rightarrow> int \<Rightarrow> string" where
  "pad w n = (let s = digits (nat n) in replicate (w - length s) (CHR ''0'') @ s)"

definition is_leap :: "int \<Rightarrow> bool" where
  "is_leap y \<longleftrightarrow> y mod 4 = 0 \<and> (y mod 100 \<noteq> 0 \<or> y mod 400 = 0)"

text \<open>\<open>calendar.monthrange(y, m)[1]\<close>.\<close>

definition month_days :: "int \<Rightarrow> int \<Rightarrow> int" where
  "month_days y m =
     (if m = 2 then if is_leap y then 29 else 28
      else if m = 4 \<or> m = 6 \<or> m = 9 \<or> m = 11 then 30 else 31)"

text \<open>Sample dates: the end of February in a leap year, in a common one and in a common century.\<close>

lemma civil_date_check:
  "civil_date 19782 = (2024, 2, 29)" "civil_date 20147 = (2025, 2, 28)" "civil_date 20148 = (2025, 3, 1)"
  "civil_date 47540 = (2100, 2, 28)" "civil_date 47541 = (2100, 3, 1)" "civil_date 0 = (1970, 1, 1)"
  by (simp_all add: civil_date_def cong: strict_congs)

lemmas [eval_defs] = civil_date_def is_leap_def month_days_def

section \<open>Numerals are read back\<close>

definition digit_chars :: "char set" where
  "digit_chars = set ''0123456789''"

lemma digits_chars: "set (digits n) \<subseteq> digit_chars"
proof (induction n rule: digits.induct)
  case (1 n)
  have "''0123456789'' ! k \<in> digit_chars" if "k < 10" for k
    unfolding digit_chars_def using that by (intro nth_mem) simp
  with 1 show ?case by (subst digits.simps) auto
qed

definition digit_value :: "char \<Rightarrow> nat" where
  "digit_value c = of_char c - 48"

lemma digit_value:
  assumes "k < 10"
  shows "digit_value (''0123456789'' ! k) = k"
proof -
  have "list_all (\<lambda>k. digit_value (''0123456789'' ! k) = k) [0..<10]"
    by (simp add: digit_value_def upt_rec)
  with assms show ?thesis by (simp only: list_all_iff set_upt atLeastLessThan_iff) simp
qed

lemma digits_value: "foldl (\<lambda>v c. 10 * v + digit_value c) 0 (digits n) = n"
proof (induction n rule: digits.induct)
  case (1 n)
  then show ?case by (subst digits.simps) (auto simp: digit_value)
qed

lemma digits_inj: "digits m = digits n \<Longrightarrow> m = n"
  using digits_value by metis

end
