(* ===== verification/Replay.thy ===== *)
theory Replay
  imports Outcomes Planner Signal_Engine Civil_Time "HOL-Library.Sublist"
begin

text \<open>
  \<open>engine/backtest/xauusd_replay.py\<close>, class \<open>XauUsdPointInTimeReplay\<close>: the construction of
  the replay and \<open>run_from_cache\<close>, the loop that composes the signal engine, the risk planner
  and the outcome engine over precomputed market snapshots. The analysis fingerprint of a
  signal, whose payload holds rendered texts, is the parameter \<open>afp\<close>.
\<close>

section \<open>Trade identifiers\<close>

text \<open>\<open>strftime('%Y%m%d%H%M')\<close> in UTC.\<close>

definition minute_stamp :: "int \<Rightarrow> string" where
  "minute_stamp u =
     (case civil_date (u div day) of (y, m, d) \<Rightarrow>
        pad 4 y @ pad 2 m @ pad 2 d @ pad 2 (u mod day div hour) @ pad 2 (u mod hour div minute))"

lemma minute_stamp_check: "minute_stamp (20775 * day + 17 * hour + 5 * minute) = ''202611181705''"
  by (simp add: minute_stamp_def civil_date_def pad_def digits.simps time_units cong: strict_congs)

definition trade_id :: "risk_side \<Rightarrow> nat \<Rightarrow> int \<Rightarrow> string" where
  "trade_id side n t = (case side of LONG \<Rightarrow> ''trade-long-'' | SHORT \<Rightarrow> ''trade-short-'') @
     digits n @ ''-'' @ minute_stamp t"

section \<open>The replay\<close>

text \<open>A snapshot of the market at a decision time, which the builder of the cache made UTC.\<close>

record market_snapshot =
  ms_timestamp :: int
  ms_candle :: candle
  ms_features_15m :: "feature_snapshot option"
  ms_features_1h :: "feature_snapshot option"
  ms_features_4h :: "feature_snapshot option"
  ms_features_1d :: "feature_snapshot option"
  ms_regime :: "regime_result option"
  ms_structure_15m :: "structure_result option"
  ms_structure_4h :: "structure_result option"
  ms_atr14 :: "pynum option"
  ms_health :: runtime_feed_health
  ms_cycle :: "cycle_snapshot option"

record replay_engine =
  re_15m :: "candle list"
  re_5m :: "candle list"
  re_1m :: "candle list"
  re_quotes :: "quote list"
  re_revision :: string
  re_planner :: planner
  re_outcomes :: outcome_engine
  re_profile :: "signal_profile option"
  re_policy :: entry_execution_policy
  re_intrabar :: intrabar_policy
  re_run_fp :: string
  re_fold :: "int option"
  re_holding_bars :: "int option"
  re_holding_seconds :: "rat option"
  re_start :: "int option"
  re_end :: "int option"

text \<open>\<open>__init__\<close>: the given outcome engine, or one built from the planner's policies.\<close>

definition make_replay ::
  "candle list \<Rightarrow> candle list \<Rightarrow> candle list \<Rightarrow> quote list \<Rightarrow> string \<Rightarrow> planner \<Rightarrow> outcome_engine option \<Rightarrow>
    signal_profile option \<Rightarrow> entry_execution_policy \<Rightarrow> intrabar_policy \<Rightarrow> cost_config option \<Rightarrow> string \<Rightarrow>
    int option \<Rightarrow> int option \<Rightarrow> rat option \<Rightarrow> int option \<Rightarrow> rat option \<Rightarrow> datetime option \<Rightarrow> datetime option \<Rightarrow>
    replay_engine result" where
  "make_replay c15 c5 c1 qs rev_id pl outcome profile policy intrabar cost run_fp fold_id
     hold_bars hold_sec wait_bars wait_sec start_time end_time =
     rbind (case outcome of
              Some oe \<Rightarrow> Inr oe
            | None \<Rightarrow> make_outcome_engine (case cost of Some c \<Rightarrow> c | None \<Rightarrow> idealized_costs) None None None
                hold_bars hold_sec wait_bars wait_sec (Some rev_id) None
                (Some (long_execution_policy (pl_profile pl))) (Some (short_execution_policy (pl_profile pl)))
                (Some (pl_policy_fp pl))) (\<lambda>oe.
     rbind (require_utc_opt start_time) (\<lambda>s.
     rbind (require_utc_opt end_time) (\<lambda>e.
       Inr \<lparr>re_15m = c15, re_5m = c5, re_1m = c1, re_quotes = qs, re_revision = rev_id, re_planner = pl,
            re_outcomes = oe, re_profile = profile, re_policy = policy, re_intrabar = intrabar,
            re_run_fp = run_fp, re_fold = fold_id, re_holding_bars = hold_bars, re_holding_seconds = hold_sec,
            re_start = s, re_end = e\<rparr>)))"

text \<open>The call of the signal engine. The code passes no cycle profile.\<close>

definition replay_request :: "replay_engine \<Rightarrow> market_snapshot \<Rightarrow> signal_request" where
  "replay_request eng ms = \<lparr>sr_15m = [ms_candle ms], sr_1h = None, sr_4h = None, sr_1d = None,
     sr_regime = ms_regime ms, sr_features_15m = ms_features_15m ms, sr_features_1h = ms_features_1h ms,
     sr_features_4h = ms_features_4h ms, sr_features_1d = ms_features_1d ms, sr_structure = ms_structure_15m ms,
     sr_cycle = ms_cycle ms, sr_cycle_profile = None, sr_health = Some (ms_health ms), sr_profile = re_profile eng,
     sr_instrument = Some ''XAUUSD'', sr_timeframe = ''15m'', sr_as_of = Some (Aware (ms_timestamp ms))\<rparr>"

text \<open>The snapshot that the signal engine returns, as the planner reads it.\<close>

definition signal_of :: "(signal_decision \<Rightarrow> string) \<Rightarrow> replay_engine \<Rightarrow> signal_decision \<Rightarrow> signal_snapshot" where
  "signal_of afp eng d = \<lparr>sg_timestamp = Aware (sd_timestamp d), sg_instrument = sd_instrument d,
     sg_timeframe = sd_timeframe d, sg_state = sd_state d, sg_decision = sd_decision d,
     candidate_state = cg_state (sd_candidate d), candidate_decision = cg_decision (sd_candidate d),
     sg_long_direction = ds_long (sd_direction d), sg_short_direction = ds_short (sd_direction d),
     sg_long_timing = ds_long (sd_timing d), sg_short_timing = ds_short (sd_timing d),
     sg_hard_gate = sd_hard_gate d, sg_candidate_reason = cg_reason (sd_candidate d),
     analysis_fingerprint = afp d, phase4_policy_fingerprint = sd_policy_fp d,
     sg_code_revision = re_revision eng\<rparr>"

text \<open>Planning on one side; without an ATR the plan is invalid.\<close>

definition side_plan ::
  "digest \<Rightarrow> replay_engine \<Rightarrow> risk_side \<Rightarrow> signal_snapshot \<Rightarrow> market_snapshot \<Rightarrow> risk_plan result" where
  "side_plan sha eng side sg ms =
     (case ms_atr14 ms of
        None \<Rightarrow> build_invalid_snapshot sha (base_plan (re_planner eng) side sg) (Fin 0) [AtrUnavailable]
      | Some a \<Rightarrow>
          (case side of
             LONG \<Rightarrow> plan_long sha (re_planner eng) sg (ms_structure_15m ms) a (ms_structure_4h ms)
           | SHORT \<Rightarrow> plan_short sha (re_planner eng) sg (ms_structure_15m ms) a (ms_structure_4h ms)))"

definition some_list :: "'a list \<Rightarrow> 'a list option" where
  "some_list xs = (if xs = [] then None else Some xs)"

definition skipped_trade :: "replay_engine \<Rightarrow> risk_side \<Rightarrow> signal_snapshot \<Rightarrow> int \<Rightarrow> string \<Rightarrow> risk_plan \<Rightarrow> sim_trade" where
  "skipped_trade eng side sg t i plan = \<lparr>
     tr_id = i, tr_side = side, tr_state = candidate_state sg, tr_decision = candidate_decision sg,
     tr_source_fp = analysis_fingerprint sg, tr_signal_ts = t, tr_plan_fp = risk_plan_fp plan,
     planned_risk_amount = 0, tr_outcome = SKIPPED_OUTCOME, tr_fill_ts = None, tr_fill_price = None,
     tr_exit_ts = None, tr_exit_price = None, dependency_end = t, tr_settlement = None,
     tr_evidence_fp = Some [], tr_run_fp = re_run_fp eng, tr_fold = re_fold eng, tp2_reached = False\<rparr>"

text \<open>The evidence after the decision, before the end of the run, and the trade it resolves.\<close>

definition simulate_side ::
  "digest \<Rightarrow> (int \<Rightarrow> int) \<Rightarrow> replay_engine \<Rightarrow> risk_side \<Rightarrow> signal_snapshot \<Rightarrow> market_snapshot \<Rightarrow> string \<Rightarrow>
    sim_trade result" where
  "simulate_side sha host eng side sg ms i =
     (let t = ms_timestamp ms in
      rbind (side_plan sha eng side sg ms) (\<lambda>plan.
      if rp_valid plan \<and> simulation_eligible plan
      then rbind (window_candles t (re_end eng) (re_15m eng)) (\<lambda>f15.
           rbind (window_candles t (re_end eng) (re_5m eng)) (\<lambda>f5.
           rbind (window_candles t (re_end eng) (re_1m eng)) (\<lambda>f1.
           rbind (window_quotes t (re_end eng) (re_quotes eng)) (\<lambda>fq.
             resolve_trade sha host (re_outcomes eng)
               \<lparr>rq_signal = sg, rq_plan = plan, rq_15m = f15, rq_5m = some_list f5, rq_1m = some_list f1,
                rq_quotes = some_list fq, rq_policy = re_policy eng, rq_intrabar = re_intrabar eng,
                rq_id = i, rq_run_fp = re_run_fp eng, rq_fold = re_fold eng,
                rq_holding_bars = re_holding_bars eng, rq_holding_seconds = re_holding_seconds eng,
                rq_run_end = map_option Aware (re_end eng), rq_wait_bars = None, rq_wait_seconds = None\<rparr>))))
      else Inr (skipped_trade eng side sg t i plan)))"

text \<open>Which side a candidate triggers, if any.\<close>

definition triggered_side :: "signal_snapshot \<Rightarrow> risk_side option" where
  "triggered_side sg =
     (if candidate_state sg = BUY_WINDOW \<and> candidate_decision sg = BUY then Some LONG
      else if candidate_state sg = SELL_WINDOW \<and> candidate_decision sg = SELL then Some SHORT
      else None)"

fun run_from_cache ::
  "digest \<Rightarrow> (signal_decision \<Rightarrow> string) \<Rightarrow> (int \<Rightarrow> int) \<Rightarrow> replay_engine \<Rightarrow> nat \<Rightarrow> market_snapshot list \<Rightarrow>
    (signal_snapshot list \<times> sim_trade list) result" where
  "run_from_cache sha afp host eng n [] = Inr ([], [])"
| "run_from_cache sha afp host eng n (ms # cache) =
     (let t = ms_timestamp ms in
      if (case re_start eng of Some s \<Rightarrow> t < s | None \<Rightarrow> False)
      then run_from_cache sha afp host eng n cache
      else if (case re_end eng of Some e \<Rightarrow> t \<ge> e | None \<Rightarrow> False)
      then Inr ([], [])
      else rbind (analyze sha (replay_request eng ms)) (\<lambda>d.
        let sg = signal_of afp eng d in
        case triggered_side sg of
          None \<Rightarrow> rbind (run_from_cache sha afp host eng n cache) (\<lambda>(sgs, trs). Inr (sg # sgs, trs))
        | Some side \<Rightarrow>
            rbind (simulate_side sha host eng side sg ms (trade_id side (n + 1) t)) (\<lambda>tr.
            rbind (run_from_cache sha afp host eng (n + 1) cache) (\<lambda>(sgs, trs). Inr (sg # sgs, tr # trs)))))"

lemmas [eval_defs] = make_replay_def replay_request_def signal_of_def side_plan_def some_list_def skipped_trade_def
  simulate_side_def triggered_side_def

section \<open>What a resolved trade inherits from its request\<close>

text \<open>The identity of a trade: its id, side and source, as the request has them.\<close>

definition inherits :: "trade_request \<Rightarrow> int \<Rightarrow> sim_trade \<Rightarrow> bool" where
  "inherits rq sig t \<longleftrightarrow> tr_id t = rq_id rq \<and> tr_side t = rp_side (rq_plan rq) \<and> tr_signal_ts t = sig \<and>
     tr_source_fp t = analysis_fingerprint (rq_signal rq) \<and> tr_state t = candidate_state (rq_signal rq) \<and>
     tr_decision t = candidate_decision (rq_signal rq)"

lemma base_inherits [simp]: "inherits rq sig (base_trade rq sig risk oc dep ev)"
  by (simp add: inherits_def base_trade_def)

lemma inherits_update [simp]:
  "inherits rq sig (t\<lparr>tr_fill_ts := a\<rparr>) = inherits rq sig t"
  "inherits rq sig (t\<lparr>tr_fill_price := b\<rparr>) = inherits rq sig t"
  "inherits rq sig (t\<lparr>tr_exit_ts := a\<rparr>) = inherits rq sig t"
  "inherits rq sig (t\<lparr>tr_exit_price := b\<rparr>) = inherits rq sig t"
  "inherits rq sig (t\<lparr>tr_settlement := c\<rparr>) = inherits rq sig t"
  "inherits rq sig (t\<lparr>tp2_reached := d\<rparr>) = inherits rq sig t"
  by (simp_all add: inherits_def)

lemma holding_end_bound: "holding_end oe rq (Some e) fill = Inr m \<Longrightarrow> m \<le> e"
  by (auto simp: holding_end_def Let_def split: option.splits if_splits)

text \<open>A filled trade keeps its identity, and its dependency window ends by the end of the run.\<close>

lemma resolve_filled_base:
  assumes "resolve_filled oe rq sig run_end risk c15 c5 c1 fr fill px tp sl = Inr t"
  shows "inherits rq sig t \<and>
    (run_end = Some e \<and> (\<forall>c \<in> set c15. c_end c < e) \<longrightarrow> dependency_end t \<le> e)"
proof -
  let ?side = "rp_side (rq_plan rq)" and ?ev = "fill_evidence fr"
  from assms obtain max_ts post wo x where
    max: "holding_end oe rq run_end fill = Inr max_ts" and
    post: "post_fill_candles fill max_ts c15 = Inr post" and
    walk: "walk_bars ?side tp sl fill px c1 c5 (rq_intrabar rq) 0
        (slice_to (num_or (rq_holding_bars rq) (oe_holding_bars oe)) post) \<lparr>ex_favorable = px, ex_adverse = px\<rparr> = Inr (wo, x)"
    and rest: "(case wo of
        None \<Rightarrow> Inr ((base_trade rq sig risk UNRESOLVED_OUTCOME max_ts ?ev)\<lparr>
                  tr_fill_ts := Some fill, tr_fill_price := Some px\<rparr>)
      | Some w \<Rightarrow>
          rbind (tp2_reached_after ?side (tp2 (rq_plan rq)) w (slice_to (num_or (rq_holding_bars rq) (oe_holding_bars oe)) post)) (\<lambda>t2.
          rbind (settle (oe_cost oe) ?side risk fr px fill (we_exit_price w) (we_exit_ts w) x) (\<lambda>st.
            Inr ((base_trade rq sig risk (we_outcome w) (we_exit_ts w) ?ev)\<lparr>
              tr_fill_ts := Some fill, tr_fill_price := Some px,
              tr_exit_ts := Some (we_exit_ts w), tr_exit_price := Some (we_exit_price w),
              tr_settlement := Some st, tp2_reached := t2\<rparr>)))) = Inr t"
    unfolding resolve_filled_def Let_def rbind_Inr_iff by auto
  show ?thesis
  proof (cases wo)
    case None
    with rest max holding_end_bound show ?thesis by auto
  next
    case (Some w)
    with rest have t: "inherits rq sig t" "dependency_end t = we_exit_ts w" by (auto simp: rbind_Inr_iff)
    from walk_bars_hit [OF walk [unfolded Some]] obtain pre c late where
      eq: "slice_to (num_or (rq_holding_bars rq) (oe_holding_bars oe)) post = pre @ c # late" and
      dec: "walk_decided ?side tp sl px c w" by blast
    have le: "we_exit_ts w \<le> c_end c" using dec by (auto simp: walk_decided_def)
    have "set (slice_to n post) \<subseteq> set post" for n
      by (auto simp: slice_to_def dest: in_set_takeD split: option.splits)
    then have "set (pre @ c # late) \<subseteq> set post" unfolding eq [symmetric] .
    then have "c \<in> set post" by simp
    then have "c \<in> set c15" using filter_result_subset [OF post [unfolded post_fill_candles_def]] by blast
    then have "dependency_end t \<le> e" if "\<forall>c \<in> set c15. c_end c < e" using that le t(2) by auto
    with t(1) show ?thesis by blast
  qed
qed

lemma entry_fill_ts:
  assumes "entry_fill sha host em side sig pol candles qs fp dl = Inr fr" and "fill_ts fr = Some u"
  shows "(\<exists>c \<in> set candles. u = instant (timestamp_open c)) \<or> (\<exists>q \<in> set qs. u = instant (q_timestamp q))"
  using assms by (auto simp: entry_fill_def dest!: market_result next_bar_result split: entry_execution_policy.splits)

lemma resolve_entry_base:
  assumes "resolve_entry sha host oe rq sig risk = Inr t"
  shows "inherits rq sig t \<and> (rq_run_end rq = Some (Aware e) \<longrightarrow> dependency_end t \<le> e)"
proof -
  let ?dl = "\<lambda>wait. sig + timedelta_us wait"
  from assms obtain run_end c15 c5 c1 qs wait entry15 entry_qs fr where
    re: "require_utc_opt (rq_run_end rq) = Inr run_end" and
    c15: "window_candles sig run_end (rq_15m rq) = Inr c15" and
    e15: "filter_result (\<lambda>c. rbind (require_utc (timestamp_open c)) (\<lambda>u. Inr (in_entry_window run_end (?dl wait) u))) c15 = Inr entry15" and
    eqs: "filter_result (\<lambda>q. rbind (require_utc (q_timestamp q)) (\<lambda>u. Inr (in_entry_window run_end (?dl wait) u))) qs = Inr entry_qs" and
    fr: "entry_fill sha host (case rp_side (rq_plan rq) of LONG \<Rightarrow> oe_long_model oe | SHORT \<Rightarrow> oe_short_model oe)
          (rp_side (rq_plan rq)) sig (rq_policy rq) entry15 entry_qs (analysis_fingerprint (rq_signal rq))
          (if run_end_binding run_end (?dl wait) then None
           else Some (if run_end_binding run_end (?dl wait) then the run_end else ?dl wait)) = Inr fr" and
    t: "(case (is_filled fr, fill_price fr, fill_ts fr) of
        (True, Some px, Some fill) \<Rightarrow>
          if \<not> fill_surrounded (rp_side (rq_plan rq)) px (tp1 (rq_plan rq)) (stop_final (rq_plan rq))
          then Inr ((base_trade rq sig risk ENTRY_INVALIDATED fill (fill_evidence fr))\<lparr>
                 tr_fill_ts := Some fill, tr_fill_price := Some px\<rparr>)
          else resolve_filled oe rq sig run_end risk c15 c5 c1 fr fill px (the (tp1 (rq_plan rq))) (the (stop_final (rq_plan rq)))
      | _ \<Rightarrow> Inr (base_trade rq sig risk NO_FILL (if run_end_binding run_end (?dl wait) then the run_end else ?dl wait)
               (fill_evidence fr))) = Inr t"
    unfolding resolve_entry_def Let_def rbind_Inr_iff by blast
  have end_e: "run_end = Some e" if "rq_run_end rq = Some (Aware e)" using re that by (simp add: require_utc_opt_def require_utc_def)
  have window: "u < e" if "in_entry_window (Some e) d u" for u d
    using that by (auto simp: in_entry_window_def run_end_binding_def split: if_splits)
  have early: "instant (timestamp_open c) < e" if "c \<in> set entry15" "run_end = Some e" for c
    using filter_result_subset [OF e15 that(1)] that(2) window by (auto simp: rbind_Inr_iff)
  have early_q: "instant (q_timestamp q) < e" if "q \<in> set entry_qs" "run_end = Some e" for q
    using filter_result_subset [OF eqs that(1)] that(2) window by (auto simp: rbind_Inr_iff)
  show ?thesis
  proof (cases "is_filled fr \<and> fill_price fr \<noteq> None \<and> fill_ts fr \<noteq> None")
    case False
    with t have "t = base_trade rq sig risk NO_FILL (if run_end_binding run_end (?dl wait) then the run_end else ?dl wait) (fill_evidence fr)"
      by (auto split: bool.splits option.splits)
    with end_e show ?thesis by (auto simp: run_end_binding_def)
  next
    case True
    then obtain px fill where f: "is_filled fr" "fill_price fr = Some px" "fill_ts fr = Some fill" by auto
    have fill: "fill < e" if "run_end = Some e" using entry_fill_ts [OF fr f(3)] early early_q that by auto
    show ?thesis
    proof (cases "fill_surrounded (rp_side (rq_plan rq)) px (tp1 (rq_plan rq)) (stop_final (rq_plan rq))")
      case False
      with t f have "t = (base_trade rq sig risk ENTRY_INVALIDATED fill (fill_evidence fr))\<lparr>
                 tr_fill_ts := Some fill, tr_fill_price := Some px\<rparr>" by simp
      with end_e fill show ?thesis by auto
    next
      case True
      with t f have rf: "resolve_filled oe rq sig run_end risk c15 c5 c1 fr fill px (the (tp1 (rq_plan rq))) (the (stop_final (rq_plan rq))) = Inr t"
        by simp
      have "\<forall>c \<in> set c15. c_end c < e" if "run_end = Some e"
        using filter_result_subset [OF c15 [unfolded window_candles_def]] that
        by (auto simp: rbind_Inr_iff before_end_def c_end_def)
      with resolve_filled_base [OF rf, of e] end_e show ?thesis by blast
    qed
  qed
qed

lemma resolve_trade_base:
  assumes "resolve_trade sha host oe rq = Inr t"
  shows "inherits rq (instant (sg_timestamp (rq_signal rq))) t \<and>
    (rq_run_end rq = Some (Aware e) \<and> instant (sg_timestamp (rq_signal rq)) < e \<longrightarrow> dependency_end t \<le> e)"
  using assms resolve_entry_base [of sha host oe rq _ _ t e]
  by (auto simp: resolve_trade_def rbind_Inr_iff Let_def split: if_splits option.splits)

section \<open>One step of the replay\<close>

lemma side_plan_side: "side_plan sha eng side sg ms = Inr p \<Longrightarrow> rp_side p = side"
  using plan_long_invalid plan_long_valid plan_short_invalid plan_short_valid
  by (cases "rp_valid p"; cases side)
    (fastforce simp: side_plan_def plan_fields dest: build_invalid_fields split: option.splits)+

text \<open>The trade of a triggered side: its identity, and the end of its dependency window.\<close>

definition trade_of :: "risk_side \<Rightarrow> signal_snapshot \<Rightarrow> string \<Rightarrow> sim_trade \<Rightarrow> bool" where
  "trade_of side sg i t \<longleftrightarrow> tr_id t = i \<and> tr_side t = side \<and> tr_signal_ts t = instant (sg_timestamp sg) \<and>
     tr_source_fp t = analysis_fingerprint sg \<and> tr_state t = candidate_state sg \<and> tr_decision t = candidate_decision sg"

lemma simulate_side_trade:
  assumes "simulate_side sha host eng side sg ms i = Inr t" and "sg_timestamp sg = Aware (ms_timestamp ms)"
  shows "trade_of side sg i t \<and> (re_end eng = Some e \<and> ms_timestamp ms < e \<longrightarrow> dependency_end t \<le> e)"
proof -
  from assms(1) obtain plan where plan: "side_plan sha eng side sg ms = Inr plan"
    by (auto simp: simulate_side_def Let_def rbind_Inr_iff)
  show ?thesis
  proof (cases "rp_valid plan \<and> simulation_eligible plan")
    case True
    with assms(1) plan obtain rq where rq: "resolve_trade sha host (re_outcomes eng) rq = Inr t"
      and f: "rq_signal rq = sg" "rq_plan rq = plan" "rq_id rq = i" "rq_run_end rq = map_option Aware (re_end eng)"
      by (auto simp: simulate_side_def Let_def rbind_Inr_iff)
    from resolve_trade_base [OF rq, of e] f side_plan_side [OF plan] assms(2) show ?thesis
      by (auto simp: trade_of_def inherits_def)
  next
    case False
    with assms plan have "t = skipped_trade eng side sg (ms_timestamp ms) i plan"
      by (auto simp: simulate_side_def Let_def)
    then show ?thesis using assms(2) by (simp add: skipped_trade_def trade_of_def)
  qed
qed

lemma analyze_time:
  assumes "analyze sha sr = Inr d" "sr_as_of sr = Some (Aware t)"
  shows "sd_timestamp d = t \<and> sd_decision d = WAIT"
  using assms(1)
proof (rule analyze_Inr)
  fix u dir tim rfh fp
  assume u: "decision_timestamp (sr_15m sr) (sr_as_of sr) = Inr u"
    and "decide (profile_of sr) dir tim rfh u ''XAUUSD'' (sr_timeframe sr) fp = Inr d"
  from decide_Inr [OF this(2)] publish_waits u assms(2) show ?thesis
    by (auto simp: decision_timestamp_def)
qed

lemma replay_signal:
  assumes "analyze sha (replay_request eng ms) = Inr d"
  shows "sd_timestamp d = ms_timestamp ms \<and> sd_decision d = WAIT"
  using assms by (rule analyze_time) (simp add: replay_request_def)

section \<open>The loop\<close>

text \<open>
  The shape that the loops of the replay share: skip steps, stop at the end of the run, ask for a
  signal, and simulate the side it triggers under a running number.
\<close>

fun drive ::
  "('a \<Rightarrow> int) \<Rightarrow> (int \<Rightarrow> bool) \<Rightarrow> (int \<Rightarrow> bool) \<Rightarrow> ('a \<Rightarrow> signal_snapshot result) \<Rightarrow>
    ('a \<Rightarrow> risk_side \<Rightarrow> signal_snapshot \<Rightarrow> string \<Rightarrow> sim_trade result) \<Rightarrow> nat \<Rightarrow> 'a list \<Rightarrow>
    (signal_snapshot list \<times> sim_trade list) result" where
  "drive time skip stop signal trade n [] = Inr ([], [])"
| "drive time skip stop signal trade n (x # xs) =
     (if skip (time x) then drive time skip stop signal trade n xs
      else if stop (time x) then Inr ([], [])
      else rbind (signal x) (\<lambda>sg.
        case triggered_side sg of
          None \<Rightarrow> rbind (drive time skip stop signal trade n xs) (\<lambda>(sgs, trs). Inr (sg # sgs, trs))
        | Some side \<Rightarrow>
            rbind (trade x side sg (trade_id side (n + 1) (time x))) (\<lambda>tr.
            rbind (drive time skip stop signal trade (n + 1) xs) (\<lambda>(sgs, trs). Inr (sg # sgs, tr # trs)))))"

lemma drive_step:
  assumes "drive time skip stop signal trade n (x # xs) = Inr (sgs, trs)"
  obtains
    (skip) "skip (time x)" "drive time skip stop signal trade n xs = Inr (sgs, trs)"
  | (stop) "\<not> skip (time x)" "stop (time x)" "sgs = []" "trs = []"
  | (quiet) sg sgs' where "\<not> skip (time x)" "\<not> stop (time x)" "signal x = Inr sg" "triggered_side sg = None"
      "sgs = sg # sgs'" "drive time skip stop signal trade n xs = Inr (sgs', trs)"
  | (trade) sg side tr sgs' trs' where "\<not> skip (time x)" "\<not> stop (time x)" "signal x = Inr sg"
      "triggered_side sg = Some side" "sgs = sg # sgs'" "trs = tr # trs'"
      "trade x side sg (trade_id side (n + 1) (time x)) = Inr tr"
      "drive time skip stop signal trade (n + 1) xs = Inr (sgs', trs')"
proof (cases "skip (time x)")
  case True
  with assms show thesis by (intro that(1)) simp_all
next
  case start: False
  show thesis
  proof (cases "stop (time x)")
    case True
    with assms start show thesis by (intro that(2)) simp_all
  next
    case False
    with assms start obtain sg where sg: "signal x = Inr sg"
      and rest: "(case triggered_side sg of
          None \<Rightarrow> rbind (drive time skip stop signal trade n xs) (\<lambda>(sgs, trs). Inr (sg # sgs, trs))
        | Some side \<Rightarrow>
            rbind (trade x side sg (trade_id side (n + 1) (time x))) (\<lambda>tr.
            rbind (drive time skip stop signal trade (n + 1) xs) (\<lambda>(sgs, trs). Inr (sg # sgs, tr # trs))))
          = Inr (sgs, trs)"
      by (simp add: rbind_Inr_iff) blast
    show thesis
    proof (cases "triggered_side sg")
      case None
      with rest that(3) [OF start False sg None] show thesis by (auto simp: rbind_Inr_iff)
    next
      case (Some side)
      with rest that(4) [OF start False sg Some] show thesis by (auto simp: rbind_Inr_iff)
    qed
  qed
qed

text \<open>Extending the steps extends the result.\<close>

lemma drive_prefix:
  assumes "drive time skip stop signal trade n xs = Inr (sgs, trs)"
    and "drive time skip stop signal trade n (xs @ later) = Inr (sgs', trs')"
  shows "prefix sgs sgs' \<and> prefix trs trs'"
  using assms
proof (induction xs arbitrary: n sgs trs sgs' trs')
  case (Cons x xs)
  from Cons.prems(2) have long: "drive time skip stop signal trade n (x # (xs @ later)) = Inr (sgs', trs')" by simp
  from Cons.prems(1) show ?case
  proof (cases rule: drive_step)
    case skip
    from long skip(1) have "drive time skip stop signal trade n (xs @ later) = Inr (sgs', trs')"
      by (cases rule: drive_step) simp_all
    with skip(2) show ?thesis by (rule Cons.IH)
  next
    case stop
    then show ?thesis by simp
  next
    case (quiet sg ss)
    from long quiet(1-4) obtain ss' where "sgs' = sg # ss'"
      "drive time skip stop signal trade n (xs @ later) = Inr (ss', trs')"
      by (cases rule: drive_step) auto
    with Cons.IH [OF quiet(6)] quiet(5) show ?thesis by simp
  next
    case (trade sg side tr ss ts)
    from long trade(1-4,7) obtain ss' ts' where "sgs' = sg # ss'" "trs' = tr # ts'"
      "drive time skip stop signal trade (n + 1) (xs @ later) = Inr (ss', ts')"
      by (cases rule: drive_step) auto
    with Cons.IH [OF trade(8)] trade(5,6) show ?thesis by simp
  qed
qed simp

definition signal_time :: "signal_snapshot \<Rightarrow> int" where
  "signal_time sg = instant (sg_timestamp sg)"

text \<open>The \<open>k\<close>-th trade belongs to the \<open>k\<close>-th triggered signal.\<close>

definition trade_for :: "nat \<times> signal_snapshot \<Rightarrow> sim_trade \<Rightarrow> bool" where
  "trade_for x t \<longleftrightarrow> (case x of (k, sg) \<Rightarrow>
     \<exists>side. triggered_side sg = Some side \<and> trade_of side sg (trade_id side k (signal_time sg)) t)"

definition triggered :: "signal_snapshot list \<Rightarrow> signal_snapshot list" where
  "triggered = filter (\<lambda>sg. triggered_side sg \<noteq> None)"

text \<open>What the loop needs of its engines: signals of their step that say WAIT, and trades of their signal.\<close>

locale replay_driver =
  fixes time :: "'a \<Rightarrow> int" and skip :: "int \<Rightarrow> bool" and stop :: "int \<Rightarrow> bool" and bound :: "int option"
    and signal :: "'a \<Rightarrow> signal_snapshot result"
    and trade :: "'a \<Rightarrow> risk_side \<Rightarrow> signal_snapshot \<Rightarrow> string \<Rightarrow> sim_trade result"
  assumes signal_law: "signal x = Inr sg \<Longrightarrow> sg_timestamp sg = Aware (time x) \<and> sg_decision sg = WAIT"
    and trade_law: "trade x side sg i = Inr t \<Longrightarrow> sg_timestamp sg = Aware (time x) \<Longrightarrow>
      trade_of side sg i t \<and> (bound = Some e \<and> time x < e \<longrightarrow> dependency_end t \<le> e)"
    and stop_law: "bound = Some e \<Longrightarrow> \<not> stop u \<Longrightarrow> u < e"
begin

definition times :: "'a list \<Rightarrow> int list" where
  "times xs = takeWhile (\<lambda>t. \<not> stop t) (filter (\<lambda>t. \<not> skip t) (map time xs))"

lemma driven:
  assumes "drive time skip stop signal trade n xs = Inr (sgs, trs)"
  shows "map signal_time sgs = times xs \<and> (\<forall>sg \<in> set sgs. sg_decision sg = WAIT) \<and>
    list_all2 trade_for (enumerate (n + 1) (triggered sgs)) trs \<and>
    (bound = Some e \<longrightarrow> (\<forall>t \<in> set trs. tr_signal_ts t < e \<and> dependency_end t \<le> e))"
  using assms
proof (induction xs arbitrary: n sgs trs)
  case (Cons x xs)
  from Cons.prems show ?case
  proof (cases rule: drive_step)
    case skip
    with Cons.IH [OF skip(2)] show ?thesis by (simp add: times_def)
  next
    case stop
    then show ?thesis by (simp add: times_def triggered_def)
  next
    case (quiet sg sgs')
    with Cons.IH [OF quiet(6)] signal_law [OF quiet(3)] show ?thesis
      by (simp add: times_def triggered_def signal_time_def)
  next
    case (trade sg side tr sgs' trs')
    note sg = signal_law [OF trade(3)]
    note tr = trade_law [OF trade(7), of e]
    have "trade_for (n + 1, sg) tr"
      using tr trade(4) sg by (auto simp: trade_for_def signal_time_def)
    moreover have "tr_signal_ts tr < e \<and> dependency_end tr \<le> e" if "bound = Some e"
      using tr trade(2) that sg stop_law [OF that] by (auto simp: trade_of_def)
    ultimately show ?thesis
      using Cons.IH [OF trade(8)] trade sg by (simp add: times_def triggered_def signal_time_def)
  qed
qed (simp add: times_def triggered_def)

end

section \<open>The cached replay is a driver\<close>

text \<open>The decision times a run evaluates.\<close>

definition run_times :: "replay_engine \<Rightarrow> market_snapshot list \<Rightarrow> int list" where
  "run_times eng cache = takeWhile (before_end (re_end eng))
     (filter (\<lambda>t. \<not> (case re_start eng of Some s \<Rightarrow> t < s | None \<Rightarrow> False)) (map ms_timestamp cache))"

definition cached_signal ::
  "digest \<Rightarrow> (signal_decision \<Rightarrow> string) \<Rightarrow> replay_engine \<Rightarrow> market_snapshot \<Rightarrow> signal_snapshot result" where
  "cached_signal sha afp eng ms = rbind (analyze sha (replay_request eng ms)) (\<lambda>d. Inr (signal_of afp eng d))"

lemma run_from_cache_drive:
  "run_from_cache sha afp host eng n cache =
     drive ms_timestamp (\<lambda>t. case re_start eng of Some s \<Rightarrow> t < s | None \<Rightarrow> False) (\<lambda>t. \<not> before_end (re_end eng) t)
       (cached_signal sha afp eng) (\<lambda>ms side sg i. simulate_side sha host eng side sg ms i) n cache"
proof (induction cache arbitrary: n)
  case (Cons ms cache)
  have "(case re_end eng of Some e \<Rightarrow> t \<ge> e | None \<Rightarrow> False) = (\<not> before_end (re_end eng) t)" for t
    by (auto simp: before_end_def split: option.splits)
  then show ?case
    unfolding run_from_cache.simps drive.simps Cons.IH Let_def
    by (cases "analyze sha (replay_request eng ms)") (simp_all only: cached_signal_def rbind_simps)
qed simp

lemma signal_of_fields:
  assumes "analyze sha (replay_request eng ms) = Inr d"
  shows "sg_timestamp (signal_of afp eng d) = Aware (ms_timestamp ms)"
    "signal_time (signal_of afp eng d) = ms_timestamp ms" "sg_decision (signal_of afp eng d) = WAIT"
  using replay_signal [OF assms] by (simp_all add: signal_of_def signal_time_def)

interpretation cached: replay_driver ms_timestamp "\<lambda>t. case re_start eng of Some s \<Rightarrow> t < s | None \<Rightarrow> False"
  "\<lambda>t. \<not> before_end (re_end eng) t" "re_end eng" "cached_signal sha afp eng"
  "\<lambda>ms side sg i. simulate_side sha host eng side sg ms i" for eng sha afp host
proof
  show "sg_timestamp sg = Aware (ms_timestamp x) \<and> sg_decision sg = WAIT" if "cached_signal sha afp eng x = Inr sg" for x sg
    using that signal_of_fields by (auto simp: cached_signal_def rbind_Inr_iff)
  show "trade_of side sg i t \<and> (re_end eng = Some e \<and> ms_timestamp x < e \<longrightarrow> dependency_end t \<le> e)"
    if "simulate_side sha host eng side sg x i = Inr t" "sg_timestamp sg = Aware (ms_timestamp x)" for x side sg i t e
    using simulate_side_trade [OF that] .
  show "t < e" if "re_end eng = Some e" "\<not> \<not> before_end (re_end eng) t" for t e
    using that by (simp add: before_end_def)
qed

lemma run_shape:
  assumes "run_from_cache sha afp host eng n cache = Inr (sgs, trs)"
  shows "map signal_time sgs = run_times eng cache \<and> (\<forall>sg \<in> set sgs. sg_decision sg = WAIT) \<and>
    list_all2 trade_for (enumerate (n + 1) (triggered sgs)) trs \<and>
    (re_end eng = Some e \<longrightarrow> (\<forall>t \<in> set trs. tr_signal_ts t < e \<and> dependency_end t \<le> e))"
  using cached.driven [OF assms [unfolded run_from_cache_drive]]
  by (simp add: cached.times_def run_times_def)

lemma run_prefix:
  assumes "run_from_cache sha afp host eng n cache = Inr (sgs, trs)"
    and "run_from_cache sha afp host eng n (cache @ later) = Inr (sgs', trs')"
  shows "prefix sgs sgs' \<and> prefix trs trs'"
  using drive_prefix [OF assms [unfolded run_from_cache_drive]] .

section \<open>Identifiers\<close>

lemma trade_id_inj:
  assumes "trade_id s m t = trade_id s' n t'"
  shows "m = n"
proof -
  have dash: "CHR ''-'' \<notin> digit_chars" by (simp add: digit_chars_def)
  have "takeWhile (\<lambda>c. c \<noteq> CHR ''-'') (digits k @ ''-'' @ x) = digits k" for k x
    using digits_chars [of k] dash by (subst takeWhile_append2) auto
  moreover from assms have "digits m @ ''-'' @ minute_stamp t = digits n @ ''-'' @ minute_stamp t'"
    by (cases s; cases s') (simp_all add: trade_id_def)
  ultimately have "digits m = digits n" by metis
  then show ?thesis by (rule digits_inj)
qed

lemma enumerated_ids:
  "list_all2 trade_for (enumerate m sgs) trs \<Longrightarrow>
     distinct (map tr_id trs) \<and> (\<forall>t \<in> set trs. \<exists>k \<ge> m. \<exists>s u. tr_id t = trade_id s k u)"
proof (induction sgs arbitrary: m trs)
  case (Cons sg sgs)
  from Cons.prems obtain tr trs' where t: "trs = tr # trs'" "trade_for (m, sg) tr"
    "list_all2 trade_for (enumerate (Suc m) sgs) trs'" by (auto simp: list_all2_Cons1)
  from t(2) obtain s u where id: "tr_id tr = trade_id s m u" by (auto simp: trade_for_def trade_of_def)
  from Cons.IH [OF t(3)] have ih: "distinct (map tr_id trs')"
    "\<forall>t \<in> set trs'. \<exists>k \<ge> Suc m. \<exists>s u. tr_id t = trade_id s k u" by auto
  have "tr_id t \<noteq> tr_id tr" if "t \<in> set trs'" for t
    using ih(2) that id trade_id_inj by (metis Suc_n_not_le_n)
  then have "tr_id tr \<notin> tr_id ` set trs'" by force
  moreover have "\<exists>k \<ge> m. \<exists>s u. tr_id t = trade_id s k u" if "t \<in> set trs" for t
  proof (cases "t = tr")
    case False
    with that ih(2) show ?thesis unfolding t(1) by (metis Suc_leD set_ConsD)
  qed (use id in blast)
  ultimately show ?case using ih(1) unfolding t(1) by simp
qed simp

section \<open>Without a calibrated profile\<close>

lemma py_upper_xauusd: "normalize_xauusd_target (Some ''XAUUSD'') = Inr ''XAUUSD''"
  by (simp add: normalize_xauusd_target_def py_upper_def py_upper_char_def py_strip_def py_space_def cong: strict_congs)

lemma uncalibrated_fingerprint:
  "\<exists>fp. compute_phase4_policy_fingerprint sha uncalibrated_xauusd_signal_profile = Inr fp"
  by (simp add: eval_defs cong: strict_congs)

lemma uncalibrated_decides:
  "\<exists>d. decide uncalibrated_xauusd_signal_profile dir tim rfh t i tf fp = Inr d \<and> triggered_side (signal_of afp eng d) = None"
  by (simp add: decide_def evaluate_xauusd_candidate_gate_def uncalibrated_not_fully_configured triggered_side_def signal_of_def
      Let_def)

text \<open>A snapshot whose candle closed by its time, with finite prices.\<close>

definition evident :: "market_snapshot \<Rightarrow> bool" where
  "evident ms \<longleftrightarrow> is_closed (ms_candle ms) \<and> assume_utc (timestamp_close (ms_candle ms)) \<le> ms_timestamp ms \<and>
     finite_candle (ms_candle ms)"

lemma uncalibrated_analysis:
  assumes "re_profile eng = None" "evident ms"
  shows "\<exists>d. analyze sha (replay_request eng ms) = Inr d \<and> triggered_side (signal_of afp eng d) = None"
proof -
  let ?sr = "replay_request eng ms" and ?t = "ms_timestamp ms" and ?c = "ms_candle ms"
  have sp: "profile_of ?sr = uncalibrated_xauusd_signal_profile" using assms(1) by (simp add: profile_of_def replay_request_def)
  obtain fp where fp: "compute_phase4_policy_fingerprint sha uncalibrated_xauusd_signal_profile = Inr fp"
    using uncalibrated_fingerprint by blast
  have t: "decision_timestamp (sr_15m ?sr) (sr_as_of ?sr) = Inr ?t" by (simp add: decision_timestamp_def replay_request_def)
  have pit: "fst (pit_context ?sr ?t) = [?c]"
    using assms(2) by (simp add: pit_context_def filter_pit_candles_def replay_request_def evident_def pit_walk_filter)
  have cal: "profile_calibrated (Some uncalibrated_xauusd_signal_profile) = Inr False"
    by (simp add: profile_calibrated_def uncalibrated_not_fully_configured)
  obtain dir where dir: "calculate_xauusd_dual_direction (direction_evidence_of ?sr) (Some uncalibrated_xauusd_signal_profile) = Inr dir"
    by (simp add: calculate_xauusd_dual_direction_def cal)
  obtain tim where tim: "calculate_xauusd_dual_timing (Some ?c) (timing_evidence_of ?sr) (Some uncalibrated_xauusd_signal_profile) = Inr tim"
    using assms(2) by (simp add: calculate_xauusd_dual_timing_def cal evident_def)
  have i: "normalize_xauusd_target (sr_instrument ?sr) = Inr ''XAUUSD''"
    by (simp only: replay_request_def signal_request.simps py_upper_xauusd)
  show ?thesis unfolding analyze_def i rbind_simps sp Let_def fp t pit
    using dir tim uncalibrated_decides by simp
qed

lemma uncalibrated_run:
  assumes "re_profile eng = None" "\<forall>ms \<in> set cache. evident ms"
  shows "\<exists>sgs. run_from_cache sha afp host eng n cache = Inr (sgs, [])"
  using assms(2)
proof (induction cache)
  case (Cons ms cache)
  from uncalibrated_analysis [OF assms(1), of ms sha afp] Cons.prems obtain d where
    "analyze sha (replay_request eng ms) = Inr d" "triggered_side (signal_of afp eng d) = None" by auto
  with Cons show ?case by (auto simp: Let_def)
qed simp

section \<open>Properties\<close>

text \<open>
  C25. The replay composes its engines without loss: it evaluates exactly the decision times of
  the cache inside the run, in order, publishes nothing but WAIT, and its trades correspond one
  to one, in order, to the signals that triggered a side, each with the side, time, source and
  candidate of its signal and the running number in its identifier.
\<close>

theorem replay_one_trade_per_trigger:
  assumes "run_from_cache sha afp host eng n cache = Inr (sgs, trs)"
  shows "map signal_time sgs = run_times eng cache \<and> (\<forall>sg \<in> set sgs. sg_decision sg = WAIT) \<and>
    list_all2 trade_for (enumerate (n + 1) (triggered sgs)) trs"
  using run_shape [OF assms] by blast

text \<open>
  Identifiers of one run are unique: the running number can be read back from the
  identifier, so no two trades share one, whatever their sides and times.
\<close>

theorem replay_trade_ids_unique:
  assumes "run_from_cache sha afp host eng n cache = Inr (sgs, trs)"
  shows "distinct (map tr_id trs)"
  using run_shape [OF assms] enumerated_ids by blast

text \<open>
  No evidence beyond the end of the run: every trade of a bounded run was signalled before
  the end, and the window its outcome depends on ends by then, on every path through the
  planner, the fill and the walk, so trades of a fold never leak into the next.
\<close>

theorem replay_dependency_within_run:
  assumes "run_from_cache sha afp host eng n cache = Inr (sgs, trs)" and "re_end eng = Some e"
  shows "\<forall>t \<in> set trs. tr_signal_ts t < e \<and> dependency_end t \<le> e"
  using run_shape [OF assms(1), of e] assms(2) by blast

text \<open>
  History is never revised: when the cache of a run is extended, the signals and trades of
  the shorter run are a prefix of those of the longer one.
\<close>

theorem replay_history_stable:
  assumes "run_from_cache sha afp host eng n cache = Inr (sgs, trs)"
    and "run_from_cache sha afp host eng n (cache @ later) = Inr (sgs', trs')"
  shows "prefix sgs sgs' \<and> prefix trs trs'"
  using assms by (rule run_prefix)

text \<open>
  The cycle evidence has no effect: since the replay passes no cycle profile, two runs over
  caches that differ in their Phase 3A snapshots alone are the same run, although the live
  service passes the profile and lets the snapshot contribute to the timing score.
\<close>

theorem replay_ignores_cycle:
  assumes "list_all2 (\<lambda>a b. a\<lparr>ms_cycle := None\<rparr> = b\<lparr>ms_cycle := None\<rparr>) cache cache'"
  shows "run_from_cache sha afp host eng n cache = run_from_cache sha afp host eng n cache'"
proof -
  have same: "analyze sha (replay_request eng a) = analyze sha (replay_request eng b) \<and>
      ms_timestamp a = ms_timestamp b \<and> simulate_side sha host eng s sg a i = simulate_side sha host eng s sg b i"
    if eq: "a\<lparr>ms_cycle := None\<rparr> = b\<lparr>ms_cycle := None\<rparr>" for a b s sg i
  proof -
    obtain c where b: "b = a\<lparr>ms_cycle := c\<rparr>" using eq by (cases a; cases b) simp
    have none: "extract_xauusd_phase3a_score x None m tf = 0" for x m tf
      by (cases x) (simp_all add: extract_xauusd_phase3a_score_def)
    have comps: "timing_components cal side w l (timing_evidence_of (replay_request eng b)) =
        timing_components cal side w l (timing_evidence_of (replay_request eng a))" for cal side w l
      by (simp add: b replay_request_def timing_evidence_of_def timing_components_def none)
    have tim: "calculate_xauusd_dual_timing l (timing_evidence_of (replay_request eng b)) p =
        calculate_xauusd_dual_timing l (timing_evidence_of (replay_request eng a)) p" for l p
      unfolding calculate_xauusd_dual_timing_def comps ..
    have rest: "direction_evidence_of (replay_request eng b) = direction_evidence_of (replay_request eng a)"
      "pit_context (replay_request eng b) = pit_context (replay_request eng a)"
      "profile_of (replay_request eng b) = profile_of (replay_request eng a)"
      "sr_15m (replay_request eng b) = sr_15m (replay_request eng a)"
      "sr_as_of (replay_request eng b) = sr_as_of (replay_request eng a)"
      "sr_health (replay_request eng b) = sr_health (replay_request eng a)"
      "sr_instrument (replay_request eng b) = sr_instrument (replay_request eng a)"
      "sr_timeframe (replay_request eng b) = sr_timeframe (replay_request eng a)"
      by (simp_all add: b replay_request_def direction_evidence_of_def pit_context_def profile_of_def fun_eq_iff)
    have "analyze sha (replay_request eng b) = analyze sha (replay_request eng a)"
      unfolding analyze_def tim rest ..
    moreover have f: "ms_timestamp b = ms_timestamp a" "ms_structure_15m b = ms_structure_15m a"
      "ms_structure_4h b = ms_structure_4h a" "ms_atr14 b = ms_atr14 a" by (simp_all add: b)
    moreover have sp: "side_plan sha eng s sg b = side_plan sha eng s sg a" unfolding side_plan_def f ..
    moreover have "simulate_side sha host eng s sg b i = simulate_side sha host eng s sg a i"
      unfolding simulate_side_def f sp ..
    ultimately show ?thesis by (simp only: simp_thms)
  qed
  from assms show ?thesis
  proof (induction cache cache' arbitrary: n rule: list_all2_induct)
    case (Cons a cache b cache')
    from same [OF Cons(1)] Cons(3) show ?case by (simp only: run_from_cache.simps Let_def)
  qed simp
qed

text \<open>
  C35. Without a calibrated signal profile the replay runs to its end and never trades: for every
  cache of snapshots with closed, finite candles, and whatever features, structure and health
  they hold, \<open>run_from_cache\<close> returns, with an empty trade ledger.
\<close>

theorem uncalibrated_replay_completes:
  assumes "re_profile eng = None" and "\<forall>ms \<in> set cache. evident ms"
  shows "\<exists>sgs. run_from_cache sha afp host eng n cache = Inr (sgs, [])"
  using assms by (rule uncalibrated_run)

section \<open>A sample run\<close>

definition sample_snapshot :: "int \<Rightarrow> pynum option \<Rightarrow> market_snapshot" where
  "sample_snapshot t atr = \<lparr>ms_timestamp = t * second, ms_candle = bar_at (t - 900) t 100 100 96 100,
     ms_features_15m = None, ms_features_1h = None, ms_features_4h = None, ms_features_1d = None,
     ms_regime = Some \<lparr>rg_regime = BULL_TREND, rg_confidence = 1, rg_timestamp = Aware 0\<rparr>,
     ms_structure_15m = Some ((sample_structure [zone_at ''SUPPORT'' 0 96 108, zone_at ''RESISTANCE'' 0 140 144])
       \<lparr>st_bos := BOS_BULLISH\<rparr>),
     ms_structure_4h = None, ms_atr14 = atr, ms_health = healthy, ms_cycle = None\<rparr>"

definition sample_replay :: replay_engine where
  "sample_replay = \<lparr>re_15m = [bar_at 0 900 100 100 96 100, bar_at 900 1800 100 110 98 108, bar_at 1800 2700 100 150 98 148],
     re_5m = [], re_1m = [], re_quotes = [], re_revision = ''rev'', re_planner = sample_planner,
     re_outcomes = sample_engine, re_profile = Some sample_signal_profile, re_policy = NEXT_BAR_OPEN,
     re_intrabar = LOWER_TIMEFRAME_REPLAY, re_run_fp = ''run'', re_fold = None, re_holding_bars = None,
     re_holding_seconds = None, re_start = Some 0, re_end = Some (9000 * second)\<rparr>"

lemmas [eval_defs] = sample_snapshot_def sample_replay_def

text \<open>The analysis of the sample at two decision times triggers the long side.\<close>

lemma sample_signal_analysis:
  "case analyze sample_digest (replay_request sample_replay (sample_snapshot 900 (Some (Fin 5)))) of
     Inl e \<Rightarrow> False
   | Inr d \<Rightarrow> triggered_side (signal_of (\<lambda>_. ''p4'') sample_replay d) = Some LONG \<and> sd_instrument d = ''XAUUSD''"
  "case analyze sample_digest (replay_request sample_replay (sample_snapshot 1800 None)) of
     Inl e \<Rightarrow> False
   | Inr d \<Rightarrow> triggered_side (signal_of (\<lambda>_. ''p4'') sample_replay d) = Some LONG \<and> sd_instrument d = ''XAUUSD''"
  by (simp_all add: eval_defs Let_def cong: eval_congs)

text \<open>The plan of the sample, and the trade that any plan with its levels resolves to.\<close>

lemma sample_side_plan:
  assumes "sg_instrument sg = ''XAUUSD''" "sg_timestamp sg = Aware (900 * second)"
    "candidate_state sg = BUY_WINDOW" "candidate_decision sg = BUY"
    and p: "side_plan sample_digest sample_replay LONG sg (sample_snapshot 900 (Some (Fin 5))) = Inr p"
  shows "rp_valid p \<and> simulation_eligible p \<and> rp_side p = LONG \<and> entry_max p = Some 108 \<and> stop_final p = Some 92 \<and>
    tp1 p = Some 140"
  using assms by (simp add: eval_defs Let_def cong: eval_congs) auto

lemma sample_side_plan_returns:
  assumes "sg_instrument sg = ''XAUUSD''" "sg_timestamp sg = Aware (900 * second)"
  shows "\<exists>p. side_plan sample_digest sample_replay LONG sg (sample_snapshot 900 (Some (Fin 5))) = Inr p"
  unfolding side_plan_def sample_snapshot_def sample_replay_def market_snapshot.simps replay_engine.simps
    option.case risk_side.case
  by (rule long_planner.plan_returns) (simp_all add: assms)

lemma sample_resolution:
  assumes "rp_valid p" "simulation_eligible p" "rp_side p = LONG" "entry_max p = Some 108" "stop_final p = Some 92"
    "tp1 p = Some 140" "sg_timestamp sg = Aware (900 * second)"
  shows "\<exists>t. resolve_trade sample_digest (\<lambda>_. 0) sample_engine
     \<lparr>rq_signal = sg, rq_plan = p, rq_15m = [bar_at 900 1800 100 110 98 108, bar_at 1800 2700 100 150 98 148],
      rq_5m = None, rq_1m = None, rq_quotes = None, rq_policy = NEXT_BAR_OPEN, rq_intrabar = LOWER_TIMEFRAME_REPLAY,
      rq_id = i, rq_run_fp = ''run'', rq_fold = None, rq_holding_bars = None, rq_holding_seconds = None,
      rq_run_end = Some (Aware (9000 * second)), rq_wait_bars = None, rq_wait_seconds = None\<rparr> = Inr t \<and>
     tr_outcome t = TP1_HIT_FIRST"
  using assms by (cases "tp2 p") (simp_all add: eval_defs Let_def cong: eval_congs)

lemma sample_side:
  assumes "sg_instrument sg = ''XAUUSD''" "sg_timestamp sg = Aware (900 * second)"
    "candidate_state sg = BUY_WINDOW" "candidate_decision sg = BUY"
  shows "\<exists>t. simulate_side sample_digest (\<lambda>_. 0) sample_replay LONG sg (sample_snapshot 900 (Some (Fin 5))) i = Inr t \<and>
    tr_outcome t = TP1_HIT_FIRST"
proof -
  obtain p where p: "side_plan sample_digest sample_replay LONG sg (sample_snapshot 900 (Some (Fin 5))) = Inr p"
    using sample_side_plan_returns [OF assms(1,2)] by blast
  from sample_side_plan [OF assms p] have f: "rp_valid p" "simulation_eligible p" "rp_side p = LONG"
    "entry_max p = Some 108" "stop_final p = Some 92" "tp1 p = Some 140" by auto
  from sample_resolution [OF this assms(2), of i] p f show ?thesis
    by (simp add: simulate_side_def sample_snapshot_def sample_replay_def window_candles_def window_quotes_def
        require_utc_def before_end_def some_list_def bar_at_def second_def)
qed

lemma sample_skip:
  assumes "sg_instrument sg = ''XAUUSD''" "sg_timestamp sg = Aware (1800 * second)"
  shows "\<exists>t. simulate_side sample_digest (\<lambda>_. 0) sample_replay LONG sg (sample_snapshot 1800 None) i = Inr t \<and>
    tr_outcome t = SKIPPED_OUTCOME"
  using assms by (simp add: eval_defs Let_def cong: eval_congs)

definition sample_cache :: "market_snapshot list" where
  "sample_cache = [sample_snapshot 900 (Some (Fin 5)), sample_snapshot 1800 None]"

abbreviation "sample_run n cache \<equiv> run_from_cache sample_digest (\<lambda>_. ''p4'') (\<lambda>_. 0) sample_replay n cache"

lemma triggered_long:
  "triggered_side sg = Some LONG \<Longrightarrow> candidate_state sg = BUY_WINDOW \<and> candidate_decision sg = BUY"
  by (simp add: triggered_side_def split: if_splits)

lemma sample_steps:
  assumes "m = sample_snapshot 900 (Some (Fin 5)) \<and> oc = TP1_HIT_FIRST \<or> m = sample_snapshot 1800 None \<and> oc = SKIPPED_OUTCOME"
    and rest: "sample_run (n + 1) cache = Inr (sgs, trs)"
  shows "\<exists>sg t. sample_run n (m # cache) = Inr (sg # sgs, t # trs) \<and> tr_outcome t = oc"
proof -
  let ?sg = "signal_of (\<lambda>_. ''p4'') sample_replay"
  from assms(1) sample_signal_analysis obtain d where d: "analyze sample_digest (replay_request sample_replay m) = Inr d"
    "triggered_side (?sg d) = Some LONG" "sd_instrument d = ''XAUUSD''"
    by (auto split: sum.splits)
  have sg: "sg_instrument (?sg d) = ''XAUUSD''" "sg_timestamp (?sg d) = Aware (ms_timestamp m)"
    using d(3) signal_of_fields(1) [OF d(1)] by (simp_all add: signal_of_def)
  have "\<exists>t. simulate_side sample_digest (\<lambda>_. 0) sample_replay LONG (?sg d) m i = Inr t \<and> tr_outcome t = oc" for i
    using assms(1) sg triggered_long [OF d(2)] sample_side [of "?sg d" i] sample_skip [of "?sg d" i]
    by (auto simp: sample_snapshot_def)
  then obtain t where t: "simulate_side sample_digest (\<lambda>_. 0) sample_replay LONG (?sg d) m (trade_id LONG (n + 1) (ms_timestamp m)) = Inr t"
    "tr_outcome t = oc" by blast
  have "re_start sample_replay = Some 0" "re_end sample_replay = Some (9000 * second)"
    "0 \<le> ms_timestamp m" "ms_timestamp m < 9000 * second"
    using assms(1) by (auto simp: sample_replay_def sample_snapshot_def second_def)
  with d t rest show ?thesis by (simp add: Let_def)
qed

lemma sample_run_result:
  "\<exists>a b x y. sample_run 0 sample_cache = Inr ([a, b], [x, y]) \<and> tr_outcome x = TP1_HIT_FIRST \<and> tr_outcome y = SKIPPED_OUTCOME"
  "\<exists>a x. sample_run 0 (take 1 sample_cache) = Inr ([a], [x]) \<and> tr_outcome x = TP1_HIT_FIRST"
proof -
  have nil: "sample_run n [] = Inr ([], [])" for n by simp
  obtain b y where two: "sample_run (0 + 1) [sample_snapshot 1800 None] = Inr ([b], [y])" "tr_outcome y = SKIPPED_OUTCOME"
    using sample_steps [OF _ nil] by blast
  from sample_steps [OF _ two(1)] two(2)
  show "\<exists>a b x y. sample_run 0 sample_cache = Inr ([a, b], [x, y]) \<and> tr_outcome x = TP1_HIT_FIRST \<and> tr_outcome y = SKIPPED_OUTCOME"
    unfolding sample_cache_def by blast
  show "\<exists>a x. sample_run 0 (take 1 sample_cache) = Inr ([a], [x]) \<and> tr_outcome x = TP1_HIT_FIRST"
    using sample_steps [OF _ nil] unfolding sample_cache_def by simp
qed

theorem replay_one_trade_per_trigger_witness:
  "\<exists>sgs trs. sample_run 0 sample_cache = Inr (sgs, trs) \<and> map signal_time sgs = run_times sample_replay sample_cache \<and>
     length trs = 2 \<and> list_all2 trade_for (enumerate 1 (triggered sgs)) trs"
proof -
  obtain a b x y where r: "sample_run 0 sample_cache = Inr ([a, b], [x, y])" using sample_run_result(1) by blast
  from r replay_one_trade_per_trigger [OF r] show ?thesis by (intro exI [of _ "[a, b]"] exI [of _ "[x, y]"]) simp
qed

theorem replay_trade_ids_unique_witness:
  "\<exists>sgs trs. sample_run 0 sample_cache = Inr (sgs, trs) \<and> length trs = 2 \<and> distinct (map tr_id trs)"
proof -
  obtain a b x y where r: "sample_run 0 sample_cache = Inr ([a, b], [x, y])" using sample_run_result(1) by blast
  from r replay_trade_ids_unique [OF r] show ?thesis by (intro exI [of _ "[a, b]"] exI [of _ "[x, y]"]) simp
qed

theorem replay_dependency_within_run_witness:
  "\<exists>sgs trs. sample_run 0 sample_cache = Inr (sgs, trs) \<and> length trs = 2 \<and>
     list_all (\<lambda>t. tr_signal_ts t < 9000 * second \<and> dependency_end t \<le> 9000 * second) trs"
proof -
  obtain a b x y where r: "sample_run 0 sample_cache = Inr ([a, b], [x, y])" using sample_run_result(1) by blast
  have "re_end sample_replay = Some (9000 * second)" by (simp add: sample_replay_def)
  from r replay_dependency_within_run [OF r this] show ?thesis
    by (intro exI [of _ "[a, b]"] exI [of _ "[x, y]"]) simp
qed

theorem replay_history_stable_witness:
  "\<exists>sgs trs sgs' trs'. sample_run 0 (take 1 sample_cache) = Inr (sgs, trs) \<and>
     sample_run 0 sample_cache = Inr (sgs', trs') \<and> length trs = 1 \<and> length trs' = 2 \<and> prefix sgs sgs' \<and> prefix trs trs'"
proof -
  obtain a b x y where r: "sample_run 0 sample_cache = Inr ([a, b], [x, y])" using sample_run_result(1) by blast
  obtain c z where s: "sample_run 0 (take 1 sample_cache) = Inr ([c], [z])" using sample_run_result(2) by blast
  have "sample_run 0 (take 1 sample_cache @ drop 1 sample_cache) = Inr ([a, b], [x, y])" unfolding append_take_drop_id by (rule r)
  from replay_history_stable [OF s this] r s show ?thesis
    by (intro exI [of _ "[c]"] exI [of _ "[z]"] exI [of _ "[a, b]"] exI [of _ "[x, y]"]) simp
qed

theorem replay_ignores_cycle_witness:
  "\<exists>sgs trs. length trs = 2 \<and>
     sample_run 0 (map (\<lambda>m. m\<lparr>ms_cycle := Some \<lparr>cy_timestamp = Aware 0, cy_macro = None, cy_version = ''3.0.0-3A'',
       cy_profile_name = ''P'', cy_status = ''VALIDATED'', cy_score = 1\<rparr>\<rparr>) sample_cache) =
       Inr (sgs, trs)"
proof -
  let ?c = "Some \<lparr>cy_timestamp = Aware 0, cy_macro = None, cy_version = ''3.0.0-3A'',
       cy_profile_name = ''P'', cy_status = ''VALIDATED'', cy_score = 1\<rparr>"
  have "list_all2 (\<lambda>a b. a\<lparr>ms_cycle := None\<rparr> = b\<lparr>ms_cycle := None\<rparr>) (map (\<lambda>m. m\<lparr>ms_cycle := ?c\<rparr>) sample_cache) sample_cache"
    by (simp add: sample_cache_def)
  from replay_ignores_cycle [OF this, of sample_digest "\<lambda>_. ''p4''" "\<lambda>_. 0" sample_replay 0] sample_run_result(1)
  obtain a b x y where "sample_run 0 (map (\<lambda>m. m\<lparr>ms_cycle := ?c\<rparr>) sample_cache) = Inr ([a, b], [x, y])" by auto
  then show ?thesis by (intro exI [of _ "[a, b]"] exI [of _ "[x, y]"]) simp
qed

theorem uncalibrated_replay_completes_witness:
  "list_all evident sample_cache \<and>
   (\<exists>sgs. run_from_cache sample_digest (\<lambda>_. ''p4'') (\<lambda>_. 0) (sample_replay\<lparr>re_profile := None\<rparr>) 0 sample_cache = Inr (sgs, []))"
proof
  show e: "list_all evident sample_cache"
    by (simp add: sample_cache_def sample_snapshot_def evident_def bar_at_def second_def finite_candle_def)
  from uncalibrated_replay_completes [OF _ e [unfolded list_all_iff]]
  show "\<exists>sgs. run_from_cache sample_digest (\<lambda>_. ''p4'') (\<lambda>_. 0) (sample_replay\<lparr>re_profile := None\<rparr>) 0 sample_cache = Inr (sgs, [])"
    by simp
qed

end
