(* ===== verification/Structure.thy ===== *)
theory Structure
  imports Samples "HOL-Library.Multiset"
begin

text \<open>
  \<open>engine/structure\<close>: causal swings (\<open>causal_swings.py\<close>), support and resistance zones
  (\<open>zones.py\<close>) and the structure engine (\<open>engine.py\<close>), with the four fields of
  \<open>EngineConfigData\<close> it reads. High and low prices must be finite for the comparisons of
  this model.
\<close>

section \<open>Swings\<close>

definition bar_high :: "candle \<Rightarrow> rat" where "bar_high c = num_value (c_high c)"
definition bar_low :: "candle \<Rightarrow> rat" where "bar_low c = num_value (c_low c)"

definition finite_range :: "candle \<Rightarrow> bool" where
  "finite_range c \<longleftrightarrow> finite_num (c_high c) \<and> finite_num (c_low c)"

text \<open>The two loops around candle \<open>i\<close>: strict on the left, weak on the right.\<close>

definition is_swing_high :: "nat \<Rightarrow> nat \<Rightarrow> candle list \<Rightarrow> nat \<Rightarrow> bool" where
  "is_swing_high left right cs i \<longleftrightarrow>
     list_all (\<lambda>k. \<not> bar_high (cs ! (i - k)) \<ge> bar_high (cs ! i)) [1..<Suc left] \<and>
     list_all (\<lambda>k. \<not> bar_high (cs ! (i + k)) > bar_high (cs ! i)) [1..<Suc right]"

definition is_swing_low :: "nat \<Rightarrow> nat \<Rightarrow> candle list \<Rightarrow> nat \<Rightarrow> bool" where
  "is_swing_low left right cs i \<longleftrightarrow>
     list_all (\<lambda>k. \<not> bar_low (cs ! (i - k)) \<le> bar_low (cs ! i)) [1..<Suc left] \<and>
     list_all (\<lambda>k. \<not> bar_low (cs ! (i + k)) < bar_low (cs ! i)) [1..<Suc right]"

definition swing_at :: "nat \<Rightarrow> candle list \<Rightarrow> nat \<Rightarrow> swing_type \<Rightarrow> rat \<Rightarrow> swing_point" where
  "swing_at right cs i kind price = \<lparr>sw_index = i, sw_timestamp = timestamp_open (cs ! i),
     detected_at = timestamp_close (cs ! (i + right)), sw_price = price, swing_kind = kind, is_confirmed = True\<rparr>"

definition swings_of :: "nat \<Rightarrow> nat \<Rightarrow> candle list \<Rightarrow> nat \<Rightarrow> swing_point list" where
  "swings_of left right cs i =
     (if is_swing_high left right cs i then [swing_at right cs i SWING_HIGH (bar_high (cs ! i))] else []) @
     (if is_swing_low left right cs i then [swing_at right cs i SWING_LOW (bar_low (cs ! i))] else [])"

text \<open>\<open>list.sort\<close> by timestamp: stable, and a \<open>TypeError\<close> on naive and aware timestamps together.\<close>

definition uniform :: "datetime list \<Rightarrow> bool" where
  "uniform ds \<longleftrightarrow> list_all is_aware ds \<or> list_all (\<lambda>d. \<not> is_aware d) ds"

definition sort_swings :: "swing_point list \<Rightarrow> swing_point list result" where
  "sort_swings ss =
     (if uniform (map sw_timestamp ss) then Inr (sort_key (\<lambda>s. instant (sw_timestamp s)) ss) else Inl TypeError)"

definition detect_causal_swings :: "nat \<Rightarrow> nat \<Rightarrow> candle list \<Rightarrow> swing_point list result" where
  "detect_causal_swings left right cs =
     (if length cs < left + right + 1 then Inr []
      else if \<not> list_all finite_range cs then Inl NonFiniteOperand
      else sort_swings (concat (map (swings_of left right cs) [left..<length cs - right])))"

section \<open>Zones\<close>

text \<open>\<open>Decimal.quantize(Decimal("0.00000001"))\<close>.\<close>

definition quantize8 :: "rat \<Rightarrow> rat result" where
  "quantize8 x =
     (let k = rhe (x * 100000000)
      in if \<bar>k\<bar> < 10 ^ 28 then Inr (of_int k / 100000000) else Inl InvalidOperation)"

definition make_zone :: "string \<Rightarrow> rat \<Rightarrow> rat \<Rightarrow> datetime \<Rightarrow> int \<Rightarrow> structure_zone result" where
  "make_zone kind lo hi created n =
     rbind (quantize8 lo) (\<lambda>a. rbind (quantize8 hi) (\<lambda>b.
       Inr \<lparr>zone_type = kind, price_low = a, price_high = b, created_at = created, touches = n, is_active = True\<rparr>))"

text \<open>One swing: widen the first zone of its kind it falls into, or open a new one.\<close>

fun add_swing :: "string \<Rightarrow> rat \<Rightarrow> swing_point \<Rightarrow> structure_zone list \<Rightarrow> structure_zone list result" where
  "add_swing kind tol s [] =
     rbind (make_zone kind (dsub (sw_price s) (ddiv tol 2)) (dadd (sw_price s) (ddiv tol 2)) (sw_timestamp s) 1)
       (\<lambda>z. Inr [z])"
| "add_swing kind tol s (z # zs) =
     (if zone_type z = kind \<and> \<bar>dsub (sw_price s) (ddiv (dadd (price_low z) (price_high z)) 2)\<bar> \<le> tol
      then rbind (make_zone kind (min (price_low z) (dsub (sw_price s) (ddiv tol 2)))
                    (max (price_high z) (dadd (sw_price s) (ddiv tol 2))) (created_at z) (touches z + 1))
             (\<lambda>z'. Inr (z' # zs))
      else rbind (add_swing kind tol s zs) (\<lambda>zs'. Inr (z # zs')))"

fun add_swings :: "string \<Rightarrow> rat \<Rightarrow> swing_point list \<Rightarrow> structure_zone list \<Rightarrow> structure_zone list result" where
  "add_swings kind tol [] zs = Inr zs"
| "add_swings kind tol (s # ss) zs = rbind (add_swing kind tol s zs) (add_swings kind tol ss)"

definition last_n :: "nat \<Rightarrow> 'a list \<Rightarrow> 'a list" where
  "last_n n xs = drop (length xs - n) xs"

text \<open>
  The final order, \<open>sort(key=(touches, created_at), reverse=True)\<close>, which keeps the order of
  equal zones. The zones of one result come from swings with uniform timestamps.
\<close>

definition order_zones :: "structure_zone list \<Rightarrow> structure_zone list" where
  "order_zones zs = rev (sort_key (\<lambda>z. (touches z, instant (created_at z))) (rev zs))"

definition of_kind :: "swing_type \<Rightarrow> swing_point list \<Rightarrow> swing_point list" where
  "of_kind k = filter (\<lambda>s. swing_kind s = k)"

definition cluster_structure_zones ::
  "swing_point list \<Rightarrow> rat option \<Rightarrow> rat \<Rightarrow> nat \<Rightarrow> structure_zone list result" where
  "cluster_structure_zones ss atr factor max_zones =
     (case atr of
        None \<Rightarrow> Inr []
      | Some a \<Rightarrow>
          if ss = [] \<or> a \<le> 0 then Inr []
          else let tol = dmul a factor in
            rbind (add_swings ''RESISTANCE'' tol (last_n 8 (of_kind SWING_HIGH ss)) []) (\<lambda>zs.
            rbind (add_swings ''SUPPORT'' tol (last_n 8 (of_kind SWING_LOW ss)) zs) (\<lambda>zs'.
              Inr (take max_zones (order_zones zs')))))"

section \<open>The engine\<close>

record structure_config =
  swing_left_bars :: nat
  swing_right_bars :: nat
  zone_atr_factor :: rat
  max_active_zones :: nat

definition default_structure_config :: structure_config where
  "default_structure_config = \<lparr>swing_left_bars = 3, swing_right_bars = 3, zone_atr_factor = 1 / 2, max_active_zones = 5\<rparr>"

definition last_of :: "'a list \<Rightarrow> 'a option" where
  "last_of xs = (if xs = [] then None else Some (last xs))"

definition classify_structure :: "swing_point list \<Rightarrow> swing_point list \<Rightarrow> structure_type" where
  "classify_structure highs lows =
     (if length highs \<ge> 2 \<and> length lows \<ge> 2
      then let h0 = sw_price (highs ! (length highs - 2)); h1 = sw_price (last highs);
               l0 = sw_price (lows ! (length lows - 2)); l1 = sw_price (last lows)
           in if h1 > h0 \<and> l1 > l0 then HH
              else if h1 < h0 \<and> l1 < l0 then LL
              else if l1 > l0 then HL
              else if h1 < h0 then LH
              else CONSOLIDATION
      else UNKNOWN_STRUCTURE)"

text \<open>The close-based break of structure, on a closed candle only.\<close>

definition break_of_structure :: "candle \<Rightarrow> swing_point option \<Rightarrow> swing_point option \<Rightarrow> bos_type result" where
  "break_of_structure c last_high last_low =
     (let close = (case close_usd c of Some x \<Rightarrow> x | None \<Rightarrow> c_close c) in
      if \<not> is_closed c \<or> (last_high = None \<and> last_low = None) then Inr BOS_NONE
      else if \<not> finite_num close then Inl NonFiniteOperand
      else if (case last_high of Some h \<Rightarrow> num_value close > sw_price h | None \<Rightarrow> False) then Inr BOS_BULLISH
      else if (case last_low of Some l \<Rightarrow> num_value close < sw_price l | None \<Rightarrow> False) then Inr BOS_BEARISH
      else Inr BOS_NONE)"

text \<open>\<open>now\<close> is the wall clock, which the code reads when it is given no candle at all.\<close>

definition structure_analyze ::
  "structure_config \<Rightarrow> datetime \<Rightarrow> candle list \<Rightarrow> rat option \<Rightarrow> structure_result result" where
  "structure_analyze cfg now cs atr =
     (if cs = [] then Inr \<lparr>st_timestamp = now, st_type = UNKNOWN_STRUCTURE, st_bos = BOS_NONE, last_swing_high = None,
                          last_swing_low = None, swings = [], zones = []\<rparr>
      else let c = last cs in
        rbind (detect_causal_swings (swing_left_bars cfg) (swing_right_bars cfg) cs) (\<lambda>ss.
        let highs = of_kind SWING_HIGH ss; lows = of_kind SWING_LOW ss in
        rbind (break_of_structure c (last_of highs) (last_of lows)) (\<lambda>bos.
        rbind (cluster_structure_zones ss atr (zone_atr_factor cfg) (max_active_zones cfg)) (\<lambda>zs.
          Inr \<lparr>st_timestamp = (if is_closed c then timestamp_close c else timestamp_open c),
               st_type = classify_structure highs lows, st_bos = bos,
               last_swing_high = last_of highs, last_swing_low = last_of lows, swings = ss, zones = zs\<rparr>))))"

lemmas [eval_defs] = bar_high_def bar_low_def finite_range_def is_swing_high_def is_swing_low_def swing_at_def
  swings_of_def uniform_def sort_swings_def detect_causal_swings_def quantize8_def make_zone_def last_n_def
  order_zones_def of_kind_def cluster_structure_zones_def default_structure_config_def last_of_def
  classify_structure_def break_of_structure_def structure_analyze_def

section \<open>Swings never repaint\<close>

text \<open>The swings of a candle depend on the candles up to its confirmation only.\<close>

lemma is_swing_prefix:
  assumes "left \<le> i" "i + right < length cs"
  shows "is_swing_high left right (cs @ fresh) i = is_swing_high left right cs i"
    and "is_swing_low left right (cs @ fresh) i = is_swing_low left right cs i"
  unfolding is_swing_high_def is_swing_low_def
  using assms by (auto simp: nth_append list_all_iff)

lemma swings_of_prefix:
  assumes "left \<le> i" "i + right < length cs"
  shows "swings_of left right (cs @ fresh) i = swings_of left right cs i"
  using assms by (simp add: swings_of_def is_swing_prefix swing_at_def nth_append)

lemma swings_of_index: "s \<in> set (swings_of left right cs i) \<Longrightarrow> sw_index s = i"
  by (auto simp: swings_of_def swing_at_def split: if_splits)

text \<open>The confirmed swings, before they are sorted.\<close>

definition confirmed :: "nat \<Rightarrow> nat \<Rightarrow> candle list \<Rightarrow> swing_point list" where
  "confirmed left right cs = concat (map (swings_of left right cs) [left..<length cs - right])"

lemma detect_Inr:
  assumes "detect_causal_swings left right cs = Inr ss"
  shows "ss = sort_key (\<lambda>s. instant (sw_timestamp s)) (confirmed left right cs)"
proof (cases "length cs < left + right + 1")
  case True
  then have "confirmed left right cs = []" by (auto simp: confirmed_def)
  with True assms show ?thesis by (simp add: detect_causal_swings_def)
next
  case False
  with assms show ?thesis
    by (auto simp: detect_causal_swings_def sort_swings_def confirmed_def split: if_splits)
qed

lemma confirmed_prefix:
  "filter (\<lambda>s. sw_index s + right < length cs) (confirmed left right (cs @ fresh)) = confirmed left right cs"
proof -
  let ?P = "\<lambda>s. sw_index s + right < length cs" and ?n = "length cs - right"
  have old: "filter ?P (swings_of left right (cs @ fresh) i) = swings_of left right cs i"
    if "i \<in> set [left..<?n]" for i
    using that swings_of_index [of _ left right cs i] by (auto simp: swings_of_prefix intro!: filter_True)
  have new: "filter ?P (swings_of left right (cs @ fresh) i) = []" if "\<not> i + right < length cs" for i
    using that swings_of_index [of _ left right "cs @ fresh" i] by (auto intro!: filter_False)
  have late: "concat (map (filter ?P \<circ> swings_of left right (cs @ fresh)) [j..<m]) = []"
    if "\<not> j + right < length cs" for j m
    using that new by (auto simp: concat_eq_Nil_conv)
  have "filter ?P (confirmed left right (cs @ fresh)) =
      concat (map (filter ?P \<circ> swings_of left right (cs @ fresh)) [left..<length (cs @ fresh) - right])"
    by (simp add: confirmed_def filter_concat)
  also have "\<dots> = concat (map (filter ?P \<circ> swings_of left right (cs @ fresh)) [left..<?n])"
  proof (cases "left < ?n")
    case True
    then have split: "[left..<length (cs @ fresh) - right] = [left..<?n] @ [?n..<length (cs @ fresh) - right]"
      using upt_add_eq_append [of left ?n "length fresh"] by (simp add: add.commute)
    have "\<not> ?n + right < length cs" by simp
    from late [OF this] show ?thesis by (simp only: split map_append concat_append append_Nil2)
  next
    case False
    then have "\<not> left + right < length cs" and none: "[left..<?n] = []" by simp_all
    from late [OF this(1)] none show ?thesis by (simp only: list.map concat.simps)
  qed
  also have "\<dots> = confirmed left right cs"
    unfolding confirmed_def using old by (intro arg_cong [where f = concat] map_cong) auto
  finally show ?thesis .
qed

text \<open>
  C4. Swings never repaint: when more candles arrive, the swings whose confirming candle was
  already there are exactly the swings that were detected before, in the same order, with the
  same price and the same timestamps.
\<close>

theorem swings_never_repaint:
  assumes "detect_causal_swings left right cs = Inr ss"
    and "detect_causal_swings left right (cs @ fresh) = Inr ss'"
  shows "filter (\<lambda>s. sw_index s + right < length cs) ss' = ss"
  unfolding detect_Inr [OF assms(1)] detect_Inr [OF assms(2)] filter_sort confirmed_prefix ..

text \<open>What a confirmed swing is: an extremum of its window, known at the window's last close.\<close>

definition confirmed_swing :: "nat \<Rightarrow> nat \<Rightarrow> candle list \<Rightarrow> swing_point \<Rightarrow> bool" where
  "confirmed_swing left right cs s \<longleftrightarrow>
     (let i = sw_index s in
      left \<le> i \<and> i + right < length cs \<and>
      sw_timestamp s = timestamp_open (cs ! i) \<and> detected_at s = timestamp_close (cs ! (i + right)) \<and>
      (case swing_kind s of
         SWING_HIGH \<Rightarrow> sw_price s = bar_high (cs ! i) \<and>
           (\<forall>j \<in> {i - left..<i}. bar_high (cs ! j) < sw_price s) \<and>
           (\<forall>j \<in> {i<..i + right}. bar_high (cs ! j) \<le> sw_price s)
       | SWING_LOW \<Rightarrow> sw_price s = bar_low (cs ! i) \<and>
           (\<forall>j \<in> {i - left..<i}. sw_price s < bar_low (cs ! j)) \<and>
           (\<forall>j \<in> {i<..i + right}. sw_price s \<le> bar_low (cs ! j))))"

lemma window_left: "left \<le> i \<Longrightarrow> list_all (\<lambda>k. P (i - k)) [1..<Suc left] \<longleftrightarrow> (\<forall>j \<in> {i - left..<i}. P j)"
proof -
  assume le: "left \<le> i"
  have "P j" if all: "\<forall>k \<in> {1..left}. P (i - k)" and j: "i - left \<le> j" "j < i" for j
  proof -
    have "i - j \<in> {1..left}" "i - (i - j) = j" using j by auto
    with all show ?thesis by metis
  qed
  moreover have "P (i - k)" if all: "\<forall>j \<in> {i - left..<i}. P j" and k: "1 \<le> k" "k \<le> left" for k
    using all k le by simp
  ultimately show ?thesis unfolding list_all_iff set_upt atLeastLessThanSuc_atLeastAtMost
    by (metis atLeastAtMost_iff atLeastLessThan_iff)
qed

lemma window_right: "list_all (\<lambda>k. P (i + k)) [1..<Suc right] \<longleftrightarrow> (\<forall>j \<in> {i<..i + right}. P j)"
proof -
  have "P j" if all: "\<forall>k \<in> {1..right}. P (i + k)" and j: "i < j" "j \<le> i + right" for j
  proof -
    have "j - i \<in> {1..right}" "i + (j - i) = j" using j by auto
    with all show ?thesis by metis
  qed
  moreover have "P (i + k)" if all: "\<forall>j \<in> {i<..i + right}. P j" and k: "1 \<le> k" "k \<le> right" for k
    using all k by simp
  ultimately show ?thesis unfolding list_all_iff set_upt atLeastLessThanSuc_atLeastAtMost
    by (metis atLeastAtMost_iff greaterThanAtMost_iff)
qed

lemma is_swing_iff:
  assumes "left \<le> i"
  shows "is_swing_high left right cs i \<longleftrightarrow>
      (\<forall>j \<in> {i - left..<i}. bar_high (cs ! j) < bar_high (cs ! i)) \<and>
      (\<forall>j \<in> {i<..i + right}. bar_high (cs ! j) \<le> bar_high (cs ! i))"
    and "is_swing_low left right cs i \<longleftrightarrow>
      (\<forall>j \<in> {i - left..<i}. bar_low (cs ! i) < bar_low (cs ! j)) \<and>
      (\<forall>j \<in> {i<..i + right}. bar_low (cs ! i) \<le> bar_low (cs ! j))"
  unfolding is_swing_high_def is_swing_low_def
  using window_left [OF assms, of "\<lambda>j. \<not> bar_high (cs ! j) \<ge> bar_high (cs ! i)"]
    window_right [of "\<lambda>j. \<not> bar_high (cs ! j) > bar_high (cs ! i)" i right]
    window_left [OF assms, of "\<lambda>j. \<not> bar_low (cs ! j) \<le> bar_low (cs ! i)"]
    window_right [of "\<lambda>j. \<not> bar_low (cs ! j) < bar_low (cs ! i)" i right]
  by (simp_all only: not_le not_less)

lemma in_confirmed: "s \<in> set (confirmed left right cs) \<longleftrightarrow>
    (\<exists>i. left \<le> i \<and> i + right < length cs \<and> s \<in> set (swings_of left right cs i))"
  by (auto simp: confirmed_def less_diff_conv)

text \<open>
  C33. A detected swing is a confirmed extremum: its price is the high (low) of its candle, which
  is strictly above (below) the window before and not exceeded in the window after it, and its
  detection time is the close of the last candle of that window, so it is never known early;
  conversely every such extremum is detected.
\<close>

theorem swings_are_confirmed_extrema:
  assumes "detect_causal_swings left right cs = Inr ss"
  shows "set ss = {s. is_confirmed s \<and> confirmed_swing left right cs s}"
proof -
  have "s \<in> set (confirmed left right cs) \<longleftrightarrow> is_confirmed s \<and> confirmed_swing left right cs s" for s
  proof
    assume "s \<in> set (confirmed left right cs)"
    then obtain i where i: "left \<le> i" "i + right < length cs" and s: "s \<in> set (swings_of left right cs i)"
      unfolding in_confirmed by blast
    from s show "is_confirmed s \<and> confirmed_swing left right cs s"
      using i unfolding swings_of_def is_swing_iff [OF i(1)] confirmed_swing_def
      by (auto simp: swing_at_def split: if_splits)
  next
    assume a: "is_confirmed s \<and> confirmed_swing left right cs s"
    then have i: "left \<le> sw_index s" "sw_index s + right < length cs" by (auto simp: confirmed_swing_def Let_def)
    have eq: "swing_at right cs (sw_index s) (swing_kind s) (sw_price s) = s"
      using a by (cases s) (simp add: swing_at_def confirmed_swing_def Let_def)
    have "s \<in> set (swings_of left right cs (sw_index s))"
    proof (cases "swing_kind s")
      case SWING_HIGH
      with a eq show ?thesis unfolding swings_of_def is_swing_iff [OF i(1)]
        by (auto simp: confirmed_swing_def Let_def)
    next
      case SWING_LOW
      with a eq show ?thesis unfolding swings_of_def is_swing_iff [OF i(1)]
        by (auto simp: confirmed_swing_def Let_def)
    qed
    with i show "s \<in> set (confirmed left right cs)" unfolding in_confirmed by blast
  qed
  then show ?thesis unfolding detect_Inr [OF assms] by auto
qed

section \<open>Zones\<close>

lemma quantize8_mono: "quantize8 x = Inr a \<Longrightarrow> quantize8 y = Inr b \<Longrightarrow> x \<le> y \<Longrightarrow> a \<le> b"
  using rhe_mono [of "x * 100000000" "y * 100000000"]
  by (auto simp: quantize8_def Let_def divide_right_mono split: if_splits)

text \<open>The shape of a zone: its bounds are ordered, it was touched and it is active.\<close>

definition zone_ok :: "structure_zone \<Rightarrow> bool" where
  "zone_ok z \<longleftrightarrow> price_low z \<le> price_high z \<and> touches z \<ge> 1 \<and> is_active z"

lemma make_zone_ok:
  "make_zone kind lo hi created n = Inr z \<Longrightarrow> lo \<le> hi \<Longrightarrow> n \<ge> 1 \<Longrightarrow>
     zone_ok z \<and> zone_type z = kind \<and> created_at z = created \<and> touches z = n"
  by (auto simp: make_zone_def rbind_Inr_iff zone_ok_def intro: quantize8_mono)

lemma half_width: "0 \<le> tol \<Longrightarrow> dsub p (ddiv tol 2) \<le> dadd p (ddiv tol 2)"
  unfolding dsub_def dadd_def using ddiv_nonneg [of tol 2] by (intro dec.rnd_mono) simp

text \<open>Where a zone comes from: its kind and the timestamp of its first swing.\<close>

definition zone_key :: "structure_zone \<Rightarrow> string \<times> datetime" where
  "zone_key z = (zone_type z, created_at z)"

text \<open>One swing adds one touch; zones keep their shape, and a new one comes from the swing.\<close>

lemma add_swing_step:
  assumes "add_swing kind tol s zs = Inr zs'" "0 \<le> tol" "\<forall>z \<in> set zs. zone_ok z"
  shows "(\<forall>z \<in> set zs'. zone_ok z) \<and>
    sum_list (map touches zs') = sum_list (map touches zs) + 1 \<and>
    zone_key ` set zs' \<subseteq> insert (kind, sw_timestamp s) (zone_key ` set zs)"
  using assms
proof (induction zs arbitrary: zs')
  case Nil
  then show ?case using half_width [of tol "sw_price s"]
    by (auto simp: rbind_Inr_iff zone_key_def dest!: make_zone_ok)
next
  case (Cons z zs)
  show ?case
  proof (cases "zone_type z = kind \<and> \<bar>dsub (sw_price s) (ddiv (dadd (price_low z) (price_high z)) 2)\<bar> \<le> tol")
    case True
    then obtain w where w: "make_zone kind (min (price_low z) (dsub (sw_price s) (ddiv tol 2)))
        (max (price_high z) (dadd (sw_price s) (ddiv tol 2))) (created_at z) (touches z + 1) = Inr w" "zs' = w # zs"
      using Cons.prems(1) by (auto simp: rbind_Inr_iff)
    have "price_low z \<le> price_high z" "touches z \<ge> 1" using Cons.prems(3) by (auto simp: zone_ok_def)
    then have "zone_ok w \<and> zone_type w = kind \<and> created_at w = created_at z \<and> touches w = touches z + 1"
      by (intro make_zone_ok [OF w(1)]) auto
    with True Cons.prems(3) show ?thesis by (auto simp: w(2) zone_key_def)
  next
    case False
    then obtain ws where ws: "add_swing kind tol s zs = Inr ws" "zs' = z # ws"
      using Cons.prems(1) by (auto simp: rbind_Inr_iff split: if_splits)
    then show ?thesis using Cons.IH [of ws] Cons.prems by auto
  qed
qed

lemma add_swings_steps:
  assumes "add_swings kind tol ss zs = Inr zs'" "0 \<le> tol" "\<forall>z \<in> set zs. zone_ok z"
  shows "(\<forall>z \<in> set zs'. zone_ok z) \<and>
    sum_list (map touches zs') = sum_list (map touches zs) + int (length ss) \<and>
    zone_key ` set zs' \<subseteq> (\<lambda>s. (kind, sw_timestamp s)) ` set ss \<union> zone_key ` set zs"
  using assms
proof (induction kind tol ss zs arbitrary: zs' rule: add_swings.induct)
  case (2 kind tol s ss zs)
  from 2(2) obtain ws where ws: "add_swing kind tol s zs = Inr ws" "add_swings kind tol ss ws = Inr zs'"
    by (auto simp: rbind_Inr_iff)
  note one = add_swing_step [OF ws(1) 2(3,4)]
  note rest = 2(1) [OF ws(2) 2(3) conjunct1 [OF one]]
  have "zone_key ` set zs' \<subseteq> (\<lambda>s. (kind, sw_timestamp s)) ` set ss \<union> insert (kind, sw_timestamp s) (zone_key ` set zs)"
    using one rest by (meson Un_mono order_refl order_trans)
  with one rest show ?case by simp
qed simp

lemma last_n: "length (last_n n xs) \<le> n" "set (last_n n xs) \<subseteq> set xs"
  by (auto simp: last_n_def dest: in_set_dropD)

lemma take_sum_le: "\<forall>x \<in> set xs. (0 :: int) \<le> f x \<Longrightarrow> sum_list (map f (take n xs)) \<le> sum_list (map f xs)"
proof -
  assume nonneg: "\<forall>x \<in> set xs. 0 \<le> f x"
  have "sum_list (map f xs) = sum_list (map f (take n xs)) + sum_list (map f (drop n xs))"
    by (metis append_take_drop_id map_append sum_list_append)
  moreover have "0 \<le> sum_list (map f (drop n xs))"
    using nonneg by (intro sum_list_nonneg) (auto dest: in_set_dropD)
  ultimately show ?thesis by simp
qed

text \<open>
  Zones are well formed: at most the configured number is kept, each with ordered bounds, at
  least one touch, active, created at a swing of its own kind, and their touches count swings,
  of which each kind contributes at most the last eight.
\<close>

theorem zones_well_formed:
  assumes "cluster_structure_zones ss atr factor m = Inr zs" and "0 \<le> factor"
  shows "length zs \<le> m \<and> (\<forall>z \<in> set zs. zone_ok z) \<and> sum_list (map touches zs) \<le> 16 \<and>
    zone_key ` set zs \<subseteq>
      (\<lambda>s. (case swing_kind s of SWING_HIGH \<Rightarrow> ''RESISTANCE'' | SWING_LOW \<Rightarrow> ''SUPPORT'', sw_timestamp s)) ` set ss"
proof (cases "atr = None \<or> ss = [] \<or> the atr \<le> 0")
  case True
  with assms(1) have "zs = []" by (auto simp: cluster_structure_zones_def split: option.splits)
  then show ?thesis by simp
next
  case False
  then obtain a where a: "atr = Some a" "0 < a" "ss \<noteq> []" by auto
  define tol where "tol = dmul a factor"
  have tol: "0 \<le> tol" using a(2) assms(2) by (simp add: tol_def dmul_nonneg)
  from assms(1) a obtain us ws where
    us: "add_swings ''RESISTANCE'' tol (last_n 8 (of_kind SWING_HIGH ss)) [] = Inr us"
    and ws: "add_swings ''SUPPORT'' tol (last_n 8 (of_kind SWING_LOW ss)) us = Inr ws"
    and zs: "zs = take m (order_zones ws)"
    by (auto simp: cluster_structure_zones_def rbind_Inr_iff tol_def Let_def)
  have u: "\<forall>z \<in> set us. zone_ok z" "sum_list (map touches us) = int (length (last_n 8 (of_kind SWING_HIGH ss)))"
    "zone_key ` set us \<subseteq> (\<lambda>s. (''RESISTANCE'', sw_timestamp s)) ` set (last_n 8 (of_kind SWING_HIGH ss))"
    using add_swings_steps [OF us tol] by simp_all
  note w = add_swings_steps [OF ws tol u(1)]
  note ok = conjunct1 [OF w]
  have sum: "sum_list (map touches ws) \<le> 16"
    using conjunct1 [OF conjunct2 [OF w]] u(2) last_n(1) [of 8 "of_kind SWING_HIGH ss"]
      last_n(1) [of 8 "of_kind SWING_LOW ss"] by linarith
  let ?key = "\<lambda>s. (case swing_kind s of SWING_HIGH \<Rightarrow> ''RESISTANCE'' | SWING_LOW \<Rightarrow> ''SUPPORT'', sw_timestamp s)"
  have kinds: "(\<lambda>s. (''RESISTANCE'', sw_timestamp s)) ` set (last_n 8 (of_kind SWING_HIGH ss)) \<subseteq> ?key ` set ss"
    "(\<lambda>s. (''SUPPORT'', sw_timestamp s)) ` set (last_n 8 (of_kind SWING_LOW ss)) \<subseteq> ?key ` set ss"
    using last_n(2) [of 8 "of_kind SWING_HIGH ss"] last_n(2) [of 8 "of_kind SWING_LOW ss"]
    by (force simp: of_kind_def)+
  have origin: "zone_key ` set ws \<subseteq> ?key ` set ss"
    by (rule order_trans [OF conjunct2 [OF conjunct2 [OF w]]], intro Un_least kinds order_trans [OF u(3) kinds(1)])
  have set: "set (order_zones ws) = set ws" by (simp add: order_zones_def)
  have sub: "set zs \<subseteq> set ws" unfolding zs using set_take_subset [of m "order_zones ws"] set by simp
  have "mset (order_zones ws) = mset ws" by (simp add: order_zones_def)
  then have "sum_list (map touches (order_zones ws)) = sum_list (map touches ws)"
    by (metis mset_map sum_mset_sum_list)
  moreover have "sum_list (map touches zs) \<le> sum_list (map touches (order_zones ws))"
    unfolding zs using ok set by (intro take_sum_le) (auto simp: zone_ok_def)
  moreover have "zone_key ` set zs \<subseteq> ?key ` set ss"
    using image_mono [OF sub, of zone_key] origin by (rule order_trans)
  moreover have "\<forall>z \<in> set zs. zone_ok z" using ok sub by blast
  ultimately show ?thesis using sum zs by simp
qed

section \<open>Witnesses\<close>

definition sample_swing_bars :: "candle list" where
  "sample_swing_bars = [bar_at 0 900 1 2 1 2, bar_at 900 1800 2 4 2 3, bar_at 1800 2700 3 3 (3 / 2) 2]"

definition sample_peak :: swing_point where
  "sample_peak = \<lparr>sw_index = 1, sw_timestamp = Aware (900 * second), detected_at = Aware (2700 * second), sw_price = 4,
     swing_kind = SWING_HIGH, is_confirmed = True\<rparr>"

definition sample_trough :: swing_point where
  "sample_trough = \<lparr>sw_index = 2, sw_timestamp = Aware (1800 * second), detected_at = Aware (3600 * second),
     sw_price = 3 / 2, swing_kind = SWING_LOW, is_confirmed = True\<rparr>"

lemma sample_swings:
  "detect_causal_swings 1 1 sample_swing_bars = Inr [sample_peak]"
  "detect_causal_swings 1 1 (sample_swing_bars @ [bar_at 2700 3600 2 9 2 8]) = Inr [sample_peak, sample_trough]"
  by (simp_all add: sample_swing_bars_def sample_peak_def sample_trough_def detect_causal_swings_def swings_of_def
      is_swing_high_def is_swing_low_def bar_high_def bar_low_def finite_range_def swing_at_def sort_swings_def
      uniform_def bar_at_def upt_rec second_def)

lemma swings_never_repaint_witness:
  "filter (\<lambda>s. sw_index s + 1 < length sample_swing_bars) [sample_peak, sample_trough] = [sample_peak]"
  by (rule swings_never_repaint [OF sample_swings])

lemma swings_are_confirmed_extrema_witness:
  "confirmed_swing 1 1 sample_swing_bars sample_peak"
  using swings_are_confirmed_extrema [OF sample_swings(1)] by auto

lemma zones_well_formed_witness:
  "cluster_structure_zones [sample_peak] (Some 2) (1 / 2) 5 =
     Inr [\<lparr>zone_type = ''RESISTANCE'', price_low = 7 / 2, price_high = 9 / 2, created_at = Aware (900 * second),
           touches = 1, is_active = True\<rparr>] \<and>
   zone_ok \<lparr>zone_type = ''RESISTANCE'', price_low = 7 / 2, price_high = 9 / 2, created_at = Aware (900 * second),
           touches = 1, is_active = True\<rparr>"
proof
  show eq: "cluster_structure_zones [sample_peak] (Some 2) (1 / 2) 5 =
     Inr [\<lparr>zone_type = ''RESISTANCE'', price_low = 7 / 2, price_high = 9 / 2, created_at = Aware (900 * second),
           touches = 1, is_active = True\<rparr>]"
    by (simp add: cluster_structure_zones_def sample_peak_def of_kind_def last_n_def make_zone_def quantize8_def
        order_zones_def dadd_def dsub_def dmul_def ddiv_def dround_eval rhe_def)
  show "zone_ok \<lparr>zone_type = ''RESISTANCE'', price_low = 7 / 2, price_high = 9 / 2, created_at = Aware (900 * second),
           touches = 1, is_active = True\<rparr>"
    using zones_well_formed [OF eq] by simp
qed

end
