(* ===== verification/Features.thy ===== *)
theory Features
  imports Direction Structure
begin

text \<open>
  \<open>engine/features\<close>: the indicators of \<open>trend.py\<close>, \<open>momentum.py\<close>, \<open>volatility.py\<close> and
  \<open>volume.py\<close> and their coordination in \<open>engine.py\<close>, with the fields of \<open>EngineConfigData\<close>
  they read. Decimals are computed in the 28 digit context, floats in double precision. The
  functions of the standard library whose results are not determined by IEEE arithmetic alone,
  \<open>math.sqrt\<close>, \<open>math.log\<close> and the decimal that \<open>str\<close> prints for a float, are parameters.
\<close>

record float_lib =
  fl_sqrt :: "rat \<Rightarrow> rat"
  fl_log :: "rat \<Rightarrow> rat"
  fl_repr :: "rat \<Rightarrow> rat"

text \<open>\<open>sum\<close> of decimals, which starts from the integer 0; \<open>round(d, 2)\<close> and \<open>float\<close> of a decimal.\<close>

definition dsum :: "rat list \<Rightarrow> rat" where
  "dsum = foldl dadd 0"

definition quantize2 :: "rat \<Rightarrow> rat result" where
  "quantize2 x =
     (let k = rhe (x * 100) in if \<bar>k\<bar> < 10 ^ 28 then Inr (of_int k / 100) else Inl InvalidOperation)"

definition float_round2 :: "rat \<Rightarrow> rat result" where
  "float_round2 x = rbind (quantize2 x) (\<lambda>y. Inr (fround y))"

section \<open>Trend\<close>

fun ema_from :: "rat \<Rightarrow> rat \<Rightarrow> rat list \<Rightarrow> rat list" where
  "ema_from multiplier cur [] = []"
| "ema_from multiplier cur (v # vs) =
     (let e = dadd (dmul (dsub v cur) multiplier) cur in e # ema_from multiplier e vs)"

definition calculate_ema :: "rat list \<Rightarrow> nat \<Rightarrow> rat option list" where
  "calculate_ema vs period =
     (if length vs < period \<or> period = 0 then replicate (length vs) None
      else let sma = ddiv (dsum (take period vs)) (of_nat period) in
        replicate (period - 1) None @ [Some sma] @
          map Some (ema_from (ddiv 2 (of_nat (period + 1))) sma (drop period vs)))"

definition calculate_ema_slope :: "rat option list \<Rightarrow> nat \<Rightarrow> rat option" where
  "calculate_ema_slope series lookback =
     (if length series \<le> lookback then None
      else case (last series, series ! (length series - 1 - lookback)) of
        (Some cur, Some prev) \<Rightarrow>
          if prev \<le> 0 then None
          else Some (fdiv (fmul (fround (ddiv (dsub cur prev) prev)) 100) (of_nat lookback))
      | _ \<Rightarrow> None)"

definition calculate_ema_alignment :: "rat option \<Rightarrow> rat option \<Rightarrow> rat option \<Rightarrow> int" where
  "calculate_ema_alignment fast mid slow =
     (case (fast, mid, slow) of
        (Some f, Some m, Some s) \<Rightarrow> if f > m \<and> m > s then 1 else if f < m \<and> m < s then -1 else 0
      | _ \<Rightarrow> 0)"

text \<open>One bar of the ADX: true range and directional movements, in floats.\<close>

definition directional_move :: "rat list \<Rightarrow> rat list \<Rightarrow> rat list \<Rightarrow> nat \<Rightarrow> rat \<times> rat \<times> rat" where
  "directional_move highs lows closes i =
     (let h = fround (highs ! i); h0 = fround (highs ! (i - 1)); l = fround (lows ! i); l0 = fround (lows ! (i - 1));
          c0 = fround (closes ! (i - 1)); up = fsub h h0; down = fsub l0 l
      in (max (max (fsub h l) \<bar>fsub h c0\<bar>) \<bar>fsub l c0\<bar>,
          if up > down \<and> up > 0 then up else 0,
          if down > up \<and> down > 0 then down else 0))"

definition directional_index :: "rat \<Rightarrow> rat \<Rightarrow> rat \<Rightarrow> rat \<times> rat \<times> rat" where
  "directional_index tr pdm mdm =
     (if tr > 0
      then let p = fmul (fdiv pdm tr) 100; m = fmul (fdiv mdm tr) 100; s = fadd p m
           in (p, m, if s > 0 then fmul (fdiv \<bar>fsub p m\<bar> s) 100 else 0)
      else (0, 0, 0))"

definition wilder :: "rat \<Rightarrow> rat \<Rightarrow> rat \<Rightarrow> rat" where
  "wilder period s x = fadd (fsub s (fdiv s period)) x"

fun adx_walk :: "rat \<Rightarrow> rat \<Rightarrow> rat \<Rightarrow> rat \<Rightarrow> (rat \<times> rat \<times> rat) list \<Rightarrow> (rat \<times> rat \<times> rat) list" where
  "adx_walk period tr p m [] = [directional_index tr p m]"
| "adx_walk period tr p m ((t, a, b) # ms) =
     directional_index tr p m # adx_walk period (wilder period tr t) (wilder period p a) (wilder period m b) ms"

definition calculate_adx :: "rat list \<Rightarrow> rat list \<Rightarrow> rat list \<Rightarrow> nat \<Rightarrow> rat option \<times> rat option \<times> rat option" where
  "calculate_adx highs lows closes period =
     (if length closes < 2 * period \<or> period = 0 then (None, None, None)
      else let moves = map (directional_move highs lows closes) [1..<length closes];
               head = take period moves; per = of_nat period
           in if length moves < 2 * period - 1 then (None, None, None)
              else let dis = adx_walk per (fsum (map fst head)) (fsum (map (fst \<circ> snd) head)) (fsum (map (snd \<circ> snd) head))
                             (drop period moves);
                       dxs = map (snd \<circ> snd) dis
                   in if length dxs < period then (None, None, None)
                      else let adx0 = fdiv (fsum (take period dxs)) per;
                               adx = foldl (\<lambda>a x. fdiv (fadd (fmul a (of_nat (period - 1))) x) per) adx0 (drop period dxs)
                           in (Some (round2 adx), Some (round2 (fst (last dis))), Some (round2 (fst (snd (last dis))))))"

section \<open>Momentum\<close>

text \<open>Wilder's recursion on decimals, from the simple average of the first \<open>period\<close> values.\<close>

definition wilder_average :: "nat \<Rightarrow> rat list \<Rightarrow> rat" where
  "wilder_average period xs =
     foldl (\<lambda>a x. ddiv (dadd (dmul a (of_nat (period - 1))) x) (of_nat period))
       (ddiv (dsum (take period xs)) (of_nat period)) (drop period xs)"

definition calculate_rsi :: "rat list \<Rightarrow> nat \<Rightarrow> rat option result" where
  "calculate_rsi closes period =
     (if length closes \<le> period \<or> period = 0 then Inr None
      else let changes = map (\<lambda>i. dsub (closes ! i) (closes ! (i - 1))) [1..<length closes];
               gains = map (\<lambda>c. if c > 0 then c else 0) changes;
               losses = map (\<lambda>c. if c > 0 then 0 else \<bar>c\<bar>) changes
           in if length gains < period then Inr None
              else let avg_gain = wilder_average period gains; avg_loss = wilder_average period losses
                   in if avg_loss = 0 then Inr (Some (if avg_gain > 0 then 100 else 50))
                      else rbind (float_round2 (dsub 100 (ddiv 100 (dadd 1 (ddiv avg_gain avg_loss)))))
                             (\<lambda>r. Inr (Some r)))"

definition macd_series :: "rat list \<Rightarrow> nat \<Rightarrow> nat \<Rightarrow> rat list" where
  "macd_series closes fast slow =
     concat (map (\<lambda>(f, s). case (f, s) of (Some x, Some y) \<Rightarrow> [dsub x y] | _ \<Rightarrow> [])
       (zip (calculate_ema closes fast) (calculate_ema closes slow)))"

definition calculate_macd :: "rat list \<Rightarrow> nat \<Rightarrow> nat \<Rightarrow> nat \<Rightarrow> rat option \<times> rat option \<times> rat option" where
  "calculate_macd closes fast slow signal =
     (if length closes < slow + signal then (None, None, None)
      else let line = macd_series closes fast slow in
        if length line < signal then (None, None, None)
        else case last (calculate_ema line signal) of
          None \<Rightarrow> (Some (last line), None, None)
        | Some s \<Rightarrow> (Some (last line), Some s, Some (dsub (last line) s)))"

definition calculate_roc :: "rat list \<Rightarrow> nat \<Rightarrow> rat option result" where
  "calculate_roc closes period =
     (if length closes \<le> period \<or> period = 0 then Inr None
      else let cur = last closes; prev = closes ! (length closes - 1 - period)
           in if prev \<le> 0 then Inr None
              else rbind (float_round2 (dmul (ddiv (dsub cur prev) prev) 100)) (\<lambda>r. Inr (Some r)))"

section \<open>Volatility\<close>

definition true_range :: "rat list \<Rightarrow> rat list \<Rightarrow> rat list \<Rightarrow> nat \<Rightarrow> rat" where
  "true_range highs lows closes i =
     max (max (dsub (highs ! i) (lows ! i)) \<bar>dsub (highs ! i) (closes ! (i - 1))\<bar>) \<bar>dsub (lows ! i) (closes ! (i - 1))\<bar>"

definition calculate_atr :: "rat list \<Rightarrow> rat list \<Rightarrow> rat list \<Rightarrow> nat \<Rightarrow> rat option result" where
  "calculate_atr highs lows closes period =
     (if length closes \<le> period \<or> period = 0 then Inr None
      else let trs = map (true_range highs lows closes) [1..<length closes] in
        if length trs < period then Inr None
        else rbind (quantize8 (wilder_average period trs)) (\<lambda>a. Inr (Some a)))"

definition float_mean :: "rat list \<Rightarrow> rat" where
  "float_mean xs = fdiv (fsum xs) (of_nat (length xs))"

text \<open>\<open>sum((x - mean) ** 2 for x in xs) / n\<close>.\<close>

definition float_variance :: "rat \<Rightarrow> rat list \<Rightarrow> rat" where
  "float_variance m xs = fdiv (fsum (map (\<lambda>x. fmul (fsub x m) (fsub x m)) xs)) (of_nat (length xs))"

definition calculate_bollinger_bands ::
  "float_lib \<Rightarrow> rat list \<Rightarrow> nat \<Rightarrow> rat \<Rightarrow> (rat option \<times> rat option \<times> rat option \<times> rat option) result" where
  "calculate_bollinger_bands lib closes period num_std =
     (if length closes < period \<or> period = 0 then Inr (None, None, None, None)
      else let window = map fround (last_n period closes); m = float_mean window;
               sd = fl_sqrt lib (float_variance m window);
               middle = fl_repr lib m; upper = fl_repr lib (fadd m (fmul num_std sd));
               lower = fl_repr lib (fsub m (fmul num_std sd));
               bandwidth = (if middle > 0 then dmul (ddiv (dsub upper lower) middle) 100 else 0)
           in rbind (quantize8 upper) (\<lambda>u. rbind (quantize8 middle) (\<lambda>c. rbind (quantize8 lower) (\<lambda>l.
              rbind (float_round2 bandwidth) (\<lambda>b. Inr (Some u, Some c, Some l, Some b))))))"

definition round4 :: "rat \<Rightarrow> rat" where
  "round4 x = fround (of_int (rhe (x * 10000)) / 10000)"

definition calculate_realized_volatility :: "float_lib \<Rightarrow> rat list \<Rightarrow> nat \<Rightarrow> rat option" where
  "calculate_realized_volatility lib closes period =
     (if length closes \<le> period \<or> period = 0 then None
      else let window = map fround (last_n (period + 1) closes);
               returns = concat (map (\<lambda>i. let cur = window ! i; prev = window ! (i - 1) in
                 if prev > 0 \<and> cur > 0 then [fl_log lib (fdiv cur prev)] else []) [1..<length window])
           in if length returns < period then None
              else Some (round4 (fmul (fl_sqrt lib (float_variance (float_mean returns) returns)) 100)))"

section \<open>Volume\<close>

record volume_result =
  vr_evidence :: volume_evidence_type
  vr_usable :: bool
  vr_ratio :: "rat option"
  vr_zscore :: "rat option"
  vr_reason :: string

definition calculate_volume_ratio :: "rat list \<Rightarrow> nat \<Rightarrow> rat option result" where
  "calculate_volume_ratio volumes period =
     (if length volumes < period \<or> period = 0 then Inr None
      else let m = ddiv (dsum (last_n period volumes)) (of_nat period) in
        if m \<le> 0 then Inr (Some 1)
        else rbind (float_round2 (ddiv (last volumes) m)) (\<lambda>r. Inr (Some r)))"

definition calculate_volume_zscore :: "float_lib \<Rightarrow> rat list \<Rightarrow> nat \<Rightarrow> rat option" where
  "calculate_volume_zscore lib volumes period =
     (if length volumes < period \<or> period = 0 then None
      else let window = map fround (last_n period volumes); m = float_mean window;
               sd = fl_sqrt lib (float_variance m window)
           in if sd = 0 then Some 0 else Some (round2 (fdiv (fsub (fround (last volumes)) m) sd)))"

text \<open>
  The volume evidence of the last \<open>period\<close> candles. The check for labels outside the enumeration
  has no counterpart: the field has the enumeration's type.
\<close>

definition unavailable_bar :: "candle \<Rightarrow> bool" where
  "unavailable_bar c \<longleftrightarrow> volume_evidence c = VOLUME_UNAVAILABLE \<or> \<not> num_value (volume c) > 0"

definition calculate_volume_features :: "float_lib \<Rightarrow> candle list \<Rightarrow> nat \<Rightarrow> volume_result result" where
  "calculate_volume_features lib cs period =
     (let res = (\<lambda>ev usable ratio z why. \<lparr>vr_evidence = ev, vr_usable = usable, vr_ratio = ratio, vr_zscore = z, vr_reason = why\<rparr>) in
      if cs = [] then Inr (res VOLUME_UNAVAILABLE False None None ''EMPTY_CANDLES'')
      else if length cs < period \<or> period = 0
      then Inr (res (volume_evidence (last cs)) False None None ''INSUFFICIENT_LOOKBACK'')
      else let window = last_n period cs in
        if \<not> list_all (\<lambda>c. finite_num (volume c)) window then Inl NonFiniteOperand
        else if list_ex unavailable_bar window
        then Inr (res VOLUME_UNAVAILABLE False None None ''UNAVAILABLE_VOLUME'')
        else if \<not> list_all (\<lambda>c. volume_evidence c = volume_evidence (hd window)) window
        then Inr (res (volume_evidence (last window)) False None None ''MIXED_VOLUME_SEMANTICS'')
        else let volumes = map (\<lambda>c. num_value (volume c)) window in
          rbind (calculate_volume_ratio volumes period) (\<lambda>ratio.
            Inr (res (volume_evidence (last window)) True ratio (calculate_volume_zscore lib volumes period) ''VALID'')))"

section \<open>The feature engine\<close>

record feature_config =
  ema_fast_period :: nat
  ema_mid_period :: nat
  ema_slow_period :: nat
  adx_period :: nat
  rsi_period :: nat
  macd_fast :: nat
  macd_slow :: nat
  macd_signal_period :: nat
  roc_period :: nat
  atr_period :: nat
  bollinger_period :: nat
  bollinger_num_std :: rat
  realized_vol_period :: nat
  volume_lookback :: nat

definition default_feature_config :: feature_config where
  "default_feature_config = \<lparr>ema_fast_period = 20, ema_mid_period = 50, ema_slow_period = 200, adx_period = 14,
     rsi_period = 14, macd_fast = 12, macd_slow = 26, macd_signal_period = 9, roc_period = 12, atr_period = 14,
     bollinger_period = 20, bollinger_num_std = 2, realized_vol_period = 20, volume_lookback = 20\<rparr>"

definition effective_close :: "candle \<Rightarrow> pynum" where
  "effective_close c = (case close_usd c of Some x \<Rightarrow> x | None \<Rightarrow> c_close c)"

definition empty_features :: "datetime \<Rightarrow> feature_snapshot" where
  "empty_features t = \<lparr>fs_timestamp = t, ema20 = None, ema50 = None, ema200 = None, ema_slope_20 = None,
     ema_alignment = 0, adx = None, plus_di = None, minus_di = None, rsi14 = None, macd_line = None,
     macd_signal = None, macd_hist = None, roc12 = None, atr14 = None, atr_pct = None, bb_upper = None,
     bb_middle = None, bb_lower = None, bb_bandwidth = None, realized_vol_20 = None, volume_ratio_20 = None,
     volume_zscore_20 = None, fs_volume_evidence = VOLUME_UNAVAILABLE, volume_usable = False,
     volume_reason = Some ''EMPTY_CANDLES''\<rparr>"

text \<open>\<open>x and y > 0\<close> guards the percentage; \<open>now\<close> is the wall clock, read without candles only.\<close>

definition extract_features :: "float_lib \<Rightarrow> feature_config \<Rightarrow> datetime \<Rightarrow> candle list \<Rightarrow> feature_snapshot result" where
  "extract_features lib cfg now candles =
     (let cs = filter is_closed candles in
      if cs = [] then Inr (empty_features now)
      else if \<not> list_all (\<lambda>c. finite_num (effective_close c) \<and> finite_num (c_high c) \<and> finite_num (c_low c)) cs
      then Inl NonFiniteOperand
      else
        let closes = map (\<lambda>c. num_value (effective_close c)) cs; highs = map bar_high cs; lows = map bar_low cs;
            ema = (\<lambda>p. calculate_ema closes p);
            e20 = last (ema (ema_fast_period cfg)); e50 = last (ema (ema_mid_period cfg)); e200 = last (ema (ema_slow_period cfg));
            dir = calculate_adx highs lows closes (adx_period cfg);
            macd = calculate_macd closes (macd_fast cfg) (macd_slow cfg) (macd_signal_period cfg)
        in rbind (calculate_rsi closes (rsi_period cfg)) (\<lambda>rsi.
           rbind (calculate_roc closes (roc_period cfg)) (\<lambda>roc.
           rbind (calculate_atr highs lows closes (atr_period cfg)) (\<lambda>atr.
           rbind (calculate_bollinger_bands lib closes (bollinger_period cfg) (bollinger_num_std cfg)) (\<lambda>(bu, bm, bl, bw).
           rbind (calculate_volume_features lib cs (volume_lookback cfg)) (\<lambda>vol.
             Inr \<lparr>fs_timestamp = timestamp_open (last cs), ema20 = e20, ema50 = e50, ema200 = e200,
               ema_slope_20 = calculate_ema_slope (ema (ema_fast_period cfg)) 5,
               ema_alignment = calculate_ema_alignment e20 e50 e200,
               adx = fst dir, plus_di = fst (snd dir), minus_di = snd (snd dir), rsi14 = rsi,
               macd_line = fst macd, macd_signal = fst (snd macd), macd_hist = snd (snd macd), roc12 = roc,
               atr14 = atr,
               atr_pct = (if truthy atr \<and> last closes > 0 then Some (fround (dmul (ddiv (the atr) (last closes)) 100)) else None),
               bb_upper = bu, bb_middle = bm, bb_lower = bl, bb_bandwidth = bw,
               realized_vol_20 = calculate_realized_volatility lib closes (realized_vol_period cfg),
               volume_ratio_20 = vr_ratio vol, volume_zscore_20 = vr_zscore vol, fs_volume_evidence = vr_evidence vol,
               volume_usable = vr_usable vol, volume_reason = Some (vr_reason vol)\<rparr>))))))"

lemmas [eval_defs] = dsum_def quantize2_def float_round2_def calculate_ema_def calculate_ema_slope_def
  calculate_ema_alignment_def directional_move_def directional_index_def wilder_def calculate_adx_def wilder_average_def
  calculate_rsi_def macd_series_def calculate_macd_def calculate_roc_def true_range_def calculate_atr_def float_mean_def
  float_variance_def calculate_bollinger_bands_def round4_def calculate_realized_volatility_def
  calculate_volume_ratio_def calculate_volume_zscore_def unavailable_bar_def calculate_volume_features_def
  default_feature_config_def effective_close_def empty_features_def extract_features_def

section \<open>Ranges\<close>

lemma foldl_nonneg:
  fixes f :: "rat \<Rightarrow> rat \<Rightarrow> rat"
  assumes "\<And>a x. 0 \<le> a \<Longrightarrow> 0 \<le> x \<Longrightarrow> 0 \<le> f a x" "0 \<le> a" "\<forall>x \<in> set xs. 0 \<le> x"
  shows "0 \<le> foldl f a xs"
  using assms(2,3) by (induction xs arbitrary: a) (simp_all add: assms(1))

lemma wilder_average_nonneg:
  assumes "\<forall>x \<in> set xs. 0 \<le> x"
  shows "0 \<le> wilder_average p xs"
proof -
  have t: "\<forall>x \<in> set (take p xs). 0 \<le> x" "\<forall>x \<in> set (drop p xs). 0 \<le> x"
    using assms by (auto dest: in_set_takeD in_set_dropD)
  have "0 \<le> dsum (take p xs)" unfolding dsum_def by (rule foldl_nonneg [OF dadd_nonneg _ t(1)]) simp_all
  then show ?thesis unfolding wilder_average_def
    by (intro foldl_nonneg [OF _ _ t(2)]) (simp_all add: ddiv_nonneg dadd_nonneg dmul_nonneg)
qed

lemma quantize2_mono: "quantize2 x = Inr a \<Longrightarrow> quantize2 y = Inr b \<Longrightarrow> x \<le> y \<Longrightarrow> a \<le> b"
  using rhe_mono [of "x * 100" "y * 100"]
  by (auto simp: quantize2_def Let_def divide_right_mono split: if_splits)

lemma quantize2_100: "quantize2 0 = Inr 0" "quantize2 100 = Inr 100"
  using rhe_of_int [of 10000] by (simp_all add: quantize2_def)

lemma fround_100 [simp]: "fround 100 = 100"
  using fround_dyadic [of 100 0] by simp

lemma calculate_rsi_bounds:
  assumes "calculate_rsi closes p = Inr (Some r)"
  shows "0 \<le> r \<and> r \<le> 100"
proof -
  let ?ch = "map (\<lambda>i. dsub (closes ! i) (closes ! (i - 1))) [1..<length closes]"
  let ?g = "wilder_average p (map (\<lambda>c. if c > 0 then c else 0) ?ch)"
  let ?l = "wilder_average p (map (\<lambda>c. if c > 0 then 0 else \<bar>c\<bar>) ?ch)"
  have g: "0 \<le> ?g" and l: "0 \<le> ?l" by (rule wilder_average_nonneg, auto)+
  from assms consider "r = 100" | "r = 50" | y where "?l \<noteq> 0"
    "quantize2 (dsub 100 (ddiv 100 (dadd 1 (ddiv ?g ?l)))) = Inr y" "r = fround y"
    by (auto simp: calculate_rsi_def Let_def float_round2_def rbind_Inr_iff split: if_splits)
  then show ?thesis
  proof cases
    case 3
    have "0 \<le> ddiv ?g ?l" using g l by (rule ddiv_nonneg)
    then have one: "1 \<le> dadd 1 (ddiv ?g ?l)"
      unfolding dadd_def by (intro dec.rnd_lower) (simp_all add: dround_eval)
    then have "100 / dadd 1 (ddiv ?g ?l) \<le> 100" by (simp add: field_simps)
    then have "ddiv 100 (dadd 1 (ddiv ?g ?l)) \<le> 100"
      unfolding ddiv_def [of 100] using dec.rnd_mono [of _ 100] by (simp add: dround_eval)
    then have lo: "0 \<le> dsub 100 (ddiv 100 (dadd 1 (ddiv ?g ?l)))" by simp
    have "0 \<le> ddiv 100 (dadd 1 (ddiv ?g ?l))" using one by (intro ddiv_nonneg) simp_all
    then have hi: "dsub 100 (ddiv 100 (dadd 1 (ddiv ?g ?l))) \<le> 100"
      unfolding dsub_def using dec.rnd_mono [of _ 100] by (simp add: dround_eval)
    from quantize2_mono [OF quantize2_100(1) 3(2) lo] quantize2_mono [OF 3(2) quantize2_100(2) hi]
    show ?thesis unfolding 3(3) using flt.rnd_mono [of y 100] by simp
  qed simp_all
qed

lemma calculate_atr_nonneg:
  assumes "calculate_atr highs lows closes p = Inr (Some a)"
  shows "0 \<le> a"
proof -
  let ?trs = "map (true_range highs lows closes) [1..<length closes]"
  from assms have q: "quantize8 (wilder_average p ?trs) = Inr a"
    by (auto simp: calculate_atr_def Let_def rbind_Inr_iff split: if_splits)
  have "0 \<le> wilder_average p ?trs" by (rule wilder_average_nonneg) (auto simp: true_range_def le_max_iff_disj)
  moreover have "quantize8 0 = Inr 0" by (simp add: quantize8_def)
  ultimately show ?thesis using quantize8_mono [of 0 0 _ a] q by blast
qed

lemma extract_features_fields:
  assumes "extract_features lib cfg now cs = Inr f" "filter is_closed cs \<noteq> []"
  obtains closes highs lows vol where
    "closes = map (\<lambda>c. num_value (effective_close c)) (filter is_closed cs)"
    "calculate_rsi closes (rsi_period cfg) = Inr (rsi14 f)"
    "calculate_atr highs lows closes (atr_period cfg) = Inr (atr14 f)"
    "calculate_volume_features lib (filter is_closed cs) (volume_lookback cfg) = Inr vol"
    "ema200 f = last (calculate_ema closes (ema_slow_period cfg))"
    "ema_alignment f = calculate_ema_alignment (ema20 f) (ema50 f) (ema200 f)"
    "atr_pct f = (if truthy (atr14 f) \<and> last closes > 0
       then Some (fround (dmul (ddiv (the (atr14 f)) (last closes)) 100)) else None)"
    "volume_ratio_20 f = vr_ratio vol" "volume_zscore_20 f = vr_zscore vol" "volume_usable f = vr_usable vol"
    "fs_volume_evidence f = vr_evidence vol" "fs_timestamp f = timestamp_open (last (filter is_closed cs))"
  using assms by (auto simp: extract_features_def Let_def rbind_Inr_iff split: if_splits)

lemma last_n_set: "c \<in> set (last_n n xs) \<Longrightarrow> c \<in> set xs"
  unfolding last_n_def by (rule in_set_dropD)

lemma last_n_nonempty: "0 < n \<Longrightarrow> n \<le> length xs \<Longrightarrow> last_n n xs \<noteq> []"
  by (auto simp: last_n_def)

lemma calculate_volume_usable:
  assumes "calculate_volume_features lib cs p = Inr v"
  shows "(vr_usable v \<longleftrightarrow> 0 < p \<and> p \<le> length cs \<and> (\<forall>c \<in> set (last_n p cs).
      0 < num_value (volume c) \<and> volume_evidence c = vr_evidence v \<and> volume_evidence c \<noteq> VOLUME_UNAVAILABLE)) \<and>
    (\<not> vr_usable v \<longrightarrow> vr_ratio v = None \<and> vr_zscore v = None)"
proof (cases "cs = [] \<or> length cs < p \<or> p = 0")
  case True
  then have "\<not> vr_usable v \<and> vr_ratio v = None \<and> vr_zscore v = None"
    using assms by (auto simp: calculate_volume_features_def split: if_splits)
  with True show ?thesis by (auto simp: last_n_def)
next
  case False
  let ?w = "last_n p cs"
  have ne: "?w \<noteq> []" using False by (intro last_n_nonempty) auto
  then have hl: "hd ?w \<in> set ?w" "last ?w \<in> set ?w" by simp_all
  consider (bad) "list_ex unavailable_bar ?w" "v = \<lparr>vr_evidence = VOLUME_UNAVAILABLE, vr_usable = False, vr_ratio = None,
      vr_zscore = None, vr_reason = ''UNAVAILABLE_VOLUME''\<rparr>"
    | (mixed) "\<not> list_all (\<lambda>c. volume_evidence c = volume_evidence (hd ?w)) ?w" "v = \<lparr>vr_evidence = volume_evidence (last ?w),
      vr_usable = False, vr_ratio = None, vr_zscore = None, vr_reason = ''MIXED_VOLUME_SEMANTICS''\<rparr>"
    | (good) "\<not> list_ex unavailable_bar ?w" "list_all (\<lambda>c. volume_evidence c = volume_evidence (hd ?w)) ?w"
      "vr_usable v" "vr_evidence v = volume_evidence (last ?w)"
    using assms False by (auto simp: calculate_volume_features_def Let_def rbind_Inr_iff split: if_splits)
  then show ?thesis
  proof cases
    case bad
    then show ?thesis by (auto simp: list_ex_iff unavailable_bar_def)
  next
    case mixed
    then obtain c where c: "c \<in> set ?w" "volume_evidence c \<noteq> volume_evidence (hd ?w)" by (auto simp: list_all_iff)
    have "\<not> (\<forall>c \<in> set ?w. volume_evidence c = vr_evidence v)"
    proof
      assume "\<forall>c \<in> set ?w. volume_evidence c = vr_evidence v"
      from bspec [OF this c(1)] bspec [OF this hl(1)] c(2) show False by simp
    qed
    then show ?thesis unfolding mixed(2) by auto
  next
    case good
    have "volume_evidence c = vr_evidence v" if "c \<in> set ?w" for c
      using good(2) [unfolded list_all_iff] that hl(2) unfolding good(4) by simp
    moreover have "0 < p \<and> p \<le> length cs" using False by auto
    ultimately show ?thesis using good(1,3) by (auto simp: list_ex_iff unavailable_bar_def)
  qed
qed

section \<open>Properties\<close>

text \<open>
  C36. Ranges of the features: the RSI lies between 0 and 100 and the ATR is not negative, however
  their decimals are rounded, a reported ATR percentage is positive, and the alignment is -1, 0
  or 1.
\<close>

theorem features_in_range:
  assumes "extract_features lib cfg now cs = Inr f"
  shows "(\<forall>r. rsi14 f = Some r \<longrightarrow> 0 \<le> r \<and> r \<le> 100) \<and> (\<forall>a. atr14 f = Some a \<longrightarrow> 0 \<le> a) \<and>
    (\<forall>x. atr_pct f = Some x \<longrightarrow> 0 < x) \<and> ema_alignment f \<in> {-1, 0, 1}"
proof (cases "filter is_closed cs = []")
  case True
  with assms show ?thesis by (auto simp: extract_features_def Let_def empty_features_def)
next
  case False
  from assms False show ?thesis
  proof (rule extract_features_fields)
    fix closes highs lows vol
    assume f: "calculate_rsi closes (rsi_period cfg) = Inr (rsi14 f)"
      "calculate_atr highs lows closes (atr_period cfg) = Inr (atr14 f)"
      "ema_alignment f = calculate_ema_alignment (ema20 f) (ema50 f) (ema200 f)"
      "atr_pct f = (if truthy (atr14 f) \<and> last closes > 0
         then Some (fround (dmul (ddiv (the (atr14 f)) (last closes)) 100)) else None)"
    have a: "0 \<le> x" if "atr14 f = Some x" for x using calculate_atr_nonneg f(2) that by metis
    have "0 < fround (dmul (ddiv (the (atr14 f)) (last closes)) 100)" if "truthy (atr14 f)" "last closes > 0"
    proof -
      from that(1) obtain x where "atr14 f = Some x" "x \<noteq> 0" by (auto simp: truthy_def split: option.splits)
      with a have "0 < the (atr14 f)" by force
      with that(2) show ?thesis by (simp add: dmul_pos ddiv_pos)
    qed
    moreover have "calculate_ema_alignment x y z \<in> {-1, 0, 1}" for x y z
      by (auto simp: calculate_ema_alignment_def split: option.splits)
    ultimately show ?thesis using calculate_rsi_bounds f a by auto
  qed
qed

text \<open>
  Volume evidence fails closed: the volume features are usable exactly when a whole window of
  the lookback's length has positive volumes of one available kind, and a ratio or a z-score is
  reported only then.
\<close>

theorem volume_fails_closed:
  assumes "extract_features lib cfg now cs = Inr f"
  shows "(volume_usable f \<longleftrightarrow> 0 < volume_lookback cfg \<and> volume_lookback cfg \<le> length (filter is_closed cs) \<and>
      (\<forall>c \<in> set (last_n (volume_lookback cfg) (filter is_closed cs)).
         0 < num_value (volume c) \<and> volume_evidence c = fs_volume_evidence f \<and> volume_evidence c \<noteq> VOLUME_UNAVAILABLE)) \<and>
    (\<not> volume_usable f \<longrightarrow> volume_ratio_20 f = None \<and> volume_zscore_20 f = None)"
proof (cases "filter is_closed cs = []")
  case True
  with assms show ?thesis by (auto simp: extract_features_def Let_def empty_features_def)
next
  case False
  from assms False show ?thesis
  proof (rule extract_features_fields)
    fix closes highs lows vol
    assume v: "calculate_volume_features lib (filter is_closed cs) (volume_lookback cfg) = Inr vol"
      and f: "volume_ratio_20 f = vr_ratio vol" "volume_zscore_20 f = vr_zscore vol" "volume_usable f = vr_usable vol"
        "fs_volume_evidence f = vr_evidence vol"
    show ?thesis unfolding f using calculate_volume_usable [OF v] by blast
  qed
qed

section \<open>Witnesses\<close>

definition sample_lib :: float_lib where
  "sample_lib = \<lparr>fl_sqrt = \<lambda>x. x, fl_log = \<lambda>x. 0, fl_repr = \<lambda>x. x\<rparr>"

definition short_config :: feature_config where
  "short_config = default_feature_config\<lparr>rsi_period := 2, atr_period := 2, volume_lookback := 3\<rparr>"

definition feature_bars :: "candle list" where
  "feature_bars = [bar_at 0 900 10 11 9 10, bar_at 900 1800 10 14 10 13, bar_at 1800 2700 13 13 11 12]"

lemma sample_extraction:
  "\<exists>f. extract_features sample_lib short_config (Aware 0) feature_bars = Inr f \<and> rsi14 f = Some 75 \<and>
     atr14 f = Some 3 \<and> volume_ratio_20 f = Some 1"
  by (simp add: eval_defs sample_lib_def short_config_def feature_bars_def Let_def upt_rec cong: eval_congs)

theorem features_in_range_witness:
  "\<exists>f. extract_features sample_lib short_config (Aware 0) feature_bars = Inr f \<and> rsi14 f = Some 75 \<and>
     (case atr14 f of Some a \<Rightarrow> 0 \<le> a | None \<Rightarrow> True)"
proof -
  from sample_extraction obtain f
    where f: "extract_features sample_lib short_config (Aware 0) feature_bars = Inr f" "rsi14 f = Some 75" by blast
  from f features_in_range [OF f(1)] show ?thesis by (auto split: option.split)
qed

theorem volume_fails_closed_witness:
  "\<exists>f. extract_features sample_lib short_config (Aware 0) feature_bars = Inr f \<and> volume_ratio_20 f = Some 1 \<and> volume_usable f"
proof -
  from sample_extraction obtain f
    where f: "extract_features sample_lib short_config (Aware 0) feature_bars = Inr f" "volume_ratio_20 f = Some 1" by blast
  from f volume_fails_closed [OF f(1)] show ?thesis by auto
qed

end
