(* ===== verification/Regime.thy ===== *)
theory Regime
  imports Features
begin

text \<open>
  \<open>engine/regime/engine.py\<close>: the classification of the market regime from a feature snapshot,
  with the threshold profiles of \<open>engine/core/types.py\<close>. The texts of the result's details are
  not represented; features and thresholds are finite floats.
\<close>

section \<open>Threshold profiles\<close>

record regime_profile =
  rt_name :: string
  rt_calibrated :: bool
  adx_trend_threshold :: "rat option"
  slope_boundary :: "rat option"
  high_vol_realized_pct :: "rat option"
  high_vol_atr_pct :: "rat option"
  high_vol_bb_bandwidth_pct :: "rat option"
  rsi_bull_threshold :: "rat option"
  rsi_bear_threshold :: "rat option"

definition legacy_xaut_profile :: regime_profile where
  "legacy_xaut_profile = \<lparr>rt_name = ''LEGACY_XAUT_REFERENCE'', rt_calibrated = True,
     adx_trend_threshold = Some 20, slope_boundary = Some (fround (5 / 100)), high_vol_realized_pct = Some 5,
     high_vol_atr_pct = Some 3, high_vol_bb_bandwidth_pct = Some 15, rsi_bull_threshold = Some 50,
     rsi_bear_threshold = Some 50\<rparr>"

definition uncalibrated_xauusd_profile :: regime_profile where
  "uncalibrated_xauusd_profile = \<lparr>rt_name = ''XAUUSD_UNCALIBRATED'', rt_calibrated = False,
     adx_trend_threshold = None, slope_boundary = None, high_vol_realized_pct = None, high_vol_atr_pct = None,
     high_vol_bb_bandwidth_pct = None, rsi_bull_threshold = None, rsi_bear_threshold = None\<rparr>"

text \<open>\<open>RegimeEngine.for_xauusd\<close> and \<open>for_legacy_xaut\<close>: the profile the engine keeps.\<close>

definition for_xauusd :: "regime_profile option \<Rightarrow> regime_profile" where
  "for_xauusd p = (case p of Some q \<Rightarrow> q | None \<Rightarrow> uncalibrated_xauusd_profile)"

definition for_legacy_xaut :: "regime_profile option \<Rightarrow> regime_profile" where
  "for_legacy_xaut p = (case p of Some q \<Rightarrow> q | None \<Rightarrow> legacy_xaut_profile)"

section \<open>Classification\<close>

definition norm_instrument :: "string option \<Rightarrow> string" where
  "norm_instrument i =
     filter (\<lambda>c. c \<noteq> CHR ''/'' \<and> c \<noteq> CHR ''_'') (py_upper (case i of Some s \<Rightarrow> s | None \<Rightarrow> []))"

definition thresholds_of :: "regime_profile \<Rightarrow> rat option list" where
  "thresholds_of p = [adx_trend_threshold p, slope_boundary p, high_vol_realized_pct p, high_vol_atr_pct p,
     high_vol_bb_bandwidth_pct p, rsi_bull_threshold p, rsi_bear_threshold p]"

text \<open>\<open>x is not None and x > limit\<close>.\<close>

definition exceeds :: "rat option \<Rightarrow> rat option \<Rightarrow> bool" where
  "exceeds x limit = (case x of Some v \<Rightarrow> v > the limit | None \<Rightarrow> False)"

definition high_volatility :: "regime_profile \<Rightarrow> feature_snapshot \<Rightarrow> bool" where
  "high_volatility p f \<longleftrightarrow> exceeds (realized_vol_20 f) (high_vol_realized_pct p) \<or>
     exceeds (atr_pct f) (high_vol_atr_pct p) \<or> exceeds (bb_bandwidth f) (high_vol_bb_bandwidth_pct p)"

definition trend_confidence :: "rat \<Rightarrow> rat" where
  "trend_confidence a = round2 (min 1 (fadd (fround (60 / 100)) (fdiv a 100)))"

definition classify_regime :: "regime_profile \<Rightarrow> feature_snapshot \<Rightarrow> string option \<Rightarrow> regime_result" where
  "classify_regime p f instrument =
     (let res = (\<lambda>r conf. \<lparr>rg_regime = r, rg_confidence = conf, rg_timestamp = fs_timestamp f\<rparr>);
          inst = norm_instrument instrument in
      if (inst = ''XAUUSD'' \<or> inst = ''GOLD'') \<and> rt_name p = ''LEGACY_XAUT_REFERENCE'' then res UNKNOWN_REGIME 0
      else if \<not> rt_calibrated p then res UNKNOWN_REGIME 0
      else if list_ex (\<lambda>v. v = None) (thresholds_of p) then res UNKNOWN_REGIME 0
      else if ema200 f = None \<or> adx f = None \<or> rsi14 f = None then res UNKNOWN_REGIME 0
      else if high_volatility p f then res HIGH_VOLATILITY (fround (85 / 100))
      else
        let a = the (adx f); r = the (rsi14 f); slope = or_zero (ema_slope_20 f) in
        if ema_alignment f = 1 \<and> slope > 0 \<and> a \<ge> the (adx_trend_threshold p) \<and> r \<ge> the (rsi_bull_threshold p)
        then res BULL_TREND (trend_confidence a)
        else if ema_alignment f = -1 \<and> slope < 0 \<and> a \<ge> the (adx_trend_threshold p) \<and> r < the (rsi_bear_threshold p)
        then res BEAR_TREND (trend_confidence a)
        else if a < the (adx_trend_threshold p) \<and> \<bar>slope\<bar> < the (slope_boundary p)
        then res RANGE (fround (80 / 100))
        else res TRANSITION_REGIME (fround (65 / 100)))"

lemmas [eval_defs] = legacy_xaut_profile_def uncalibrated_xauusd_profile_def for_xauusd_def for_legacy_xaut_def
  norm_instrument_def thresholds_of_def exceeds_def high_volatility_def trend_confidence_def classify_regime_def

section \<open>Confidence\<close>

lemma fround_halves [simp]: "fround 1 = 1" "fround (1 / 2) = 1 / 2"
  using fround_dyadic [of 1 "- 1"] by (simp_all add: fround_one power_int_minus field_simps)

lemma trend_confidence_bounds:
  assumes "0 \<le> a"
  shows "0 < trend_confidence a \<and> trend_confidence a \<le> 1"
proof -
  have "1 / 2 \<le> fround (60 / 100)" by (rule flt.rnd_lower) simp_all
  moreover have "0 \<le> fdiv a 100" using assms by (simp add: fdiv_def)
  ultimately have "1 / 2 \<le> fadd (fround (60 / 100)) (fdiv a 100)"
    unfolding fadd_def by (intro flt.rnd_lower) simp_all
  then have lo: "1 / 2 \<le> min 1 (fadd (fround (60 / 100)) (fdiv a 100))" by simp
  have "round2 (1 / 2) = 1 / 2" "round2 1 = 1"
    using rhe_of_int [of 50] rhe_of_int [of 100] by (simp_all add: round2_def)
  with round2_mono [OF lo] round2_mono [of "min 1 (fadd (fround (60 / 100)) (fdiv a 100))" 1]
  show ?thesis by (simp add: trend_confidence_def)
qed

lemma constant_confidence:
  "0 < fround (85 / 100) \<and> fround (85 / 100) \<le> 1" "0 < fround (80 / 100) \<and> fround (80 / 100) \<le> 1"
  "0 < fround (65 / 100) \<and> fround (65 / 100) \<le> 1"
  using flt.rnd_mono [of "85 / 100" 1] flt.rnd_mono [of "80 / 100" 1] flt.rnd_mono [of "65 / 100" 1] by simp_all

section \<open>Properties\<close>

text \<open>The evidence without which the classification is refused.\<close>

definition classifiable :: "regime_profile \<Rightarrow> feature_snapshot \<Rightarrow> string option \<Rightarrow> bool" where
  "classifiable p f instrument \<longleftrightarrow>
     \<not> ((norm_instrument instrument = ''XAUUSD'' \<or> norm_instrument instrument = ''GOLD'') \<and>
       rt_name p = ''LEGACY_XAUT_REFERENCE'') \<and>
     rt_calibrated p \<and> \<not> list_ex (\<lambda>v. v = None) (thresholds_of p) \<and>
     \<not> (ema200 f = None \<or> adx f = None \<or> rsi14 f = None)"

lemma four_guards:
  "(if a then u else if \<not> b then u else if c then u else if d then u else v) =
     (if \<not> a \<and> b \<and> \<not> c \<and> \<not> d then v else u)"
  by simp

text \<open>
  The regime engine fails neutral, exactly: it answers UNKNOWN, with confidence 0, when the
  legacy profile is used for gold in dollars, the profile is uncalibrated or lacks a threshold,
  or a 200-period feature is missing, and in no other case; then, with a non-negative ADX,
  the confidence is positive and at most 1.
\<close>

theorem regime_fails_neutral:
  "if classifiable p f instrument
   then rg_regime (classify_regime p f instrument) \<noteq> UNKNOWN_REGIME \<and>
     (0 \<le> the (adx f) \<longrightarrow> 0 < rg_confidence (classify_regime p f instrument) \<and>
        rg_confidence (classify_regime p f instrument) \<le> 1)
   else classify_regime p f instrument =
     \<lparr>rg_regime = UNKNOWN_REGIME, rg_confidence = 0, rg_timestamp = fs_timestamp f\<rparr>"
  unfolding classify_regime_def Let_def four_guards classifiable_def [symmetric]
  using trend_confidence_bounds constant_confidence by simp

text \<open>
  Composed with the feature engine: on fewer closed candles than the slow EMA needs, whatever
  forming candles follow them, the extracted features have no 200-period average and every
  profile answers UNKNOWN.
\<close>

theorem short_history_unknown:
  assumes "extract_features lib cfg now cs = Inr f" and "length (filter is_closed cs) < ema_slow_period cfg"
  shows "rg_regime (classify_regime p f instrument) = UNKNOWN_REGIME"
proof -
  have "ema200 f = None"
  proof (cases "filter is_closed cs = []")
    case True
    with assms(1) show ?thesis by (auto simp: extract_features_def Let_def empty_features_def)
  next
    case False
    from assms(1) False show ?thesis
    proof (rule extract_features_fields)
      fix closes
      assume "closes = map (\<lambda>c. num_value (effective_close c)) (filter is_closed cs)"
        and e: "ema200 f = last (calculate_ema closes (ema_slow_period cfg))"
      then have "length closes = length (filter is_closed cs)" by simp
      with assms(2) False have "calculate_ema closes (ema_slow_period cfg) = replicate (length closes) None" "length closes \<noteq> 0"
        by (simp_all add: calculate_ema_def)
      then show ?thesis unfolding e by simp
    qed
  qed
  then show ?thesis unfolding classify_regime_def Let_def four_guards by simp
qed

definition sample_features :: feature_snapshot where
  "sample_features = \<lparr>fs_timestamp = Aware 0, ema20 = Some 105, ema50 = Some 103, ema200 = Some 100,
     ema_slope_20 = Some (1 / 2), ema_alignment = 1, adx = Some 25, plus_di = Some 30, minus_di = Some 10,
     rsi14 = Some 60, macd_line = Some 1, macd_signal = Some 0, macd_hist = Some 1, roc12 = Some 1,
     atr14 = Some 5, atr_pct = Some 1, bb_upper = Some 110, bb_middle = Some 104, bb_lower = Some 98,
     bb_bandwidth = Some 10, realized_vol_20 = Some 1, volume_ratio_20 = Some 1, volume_zscore_20 = Some 0,
     fs_volume_evidence = TICK_VOLUME, volume_usable = True, volume_reason = None\<rparr>"

theorem regime_fails_neutral_witness:
  "rg_regime (classify_regime (legacy_xaut_profile\<lparr>rt_name := ''P''\<rparr>) sample_features (Some ''XAU/USD'')) \<noteq> UNKNOWN_REGIME \<and>
   rg_confidence (classify_regime (legacy_xaut_profile\<lparr>rt_name := ''P''\<rparr>) sample_features (Some ''XAU/USD'')) \<le> 1 \<and>
   rg_regime (classify_regime legacy_xaut_profile sample_features (Some ''XAU/USD'')) = UNKNOWN_REGIME"
proof -
  have n: "norm_instrument (Some ''XAU/USD'') = ''XAUUSD''"
    by (simp add: norm_instrument_def py_upper_def py_upper_char_def)
  have "classifiable (legacy_xaut_profile\<lparr>rt_name := ''P''\<rparr>) sample_features (Some ''XAU/USD'')"
    "\<not> classifiable legacy_xaut_profile sample_features (Some ''XAU/USD'')"
    unfolding classifiable_def n by (simp_all add: legacy_xaut_profile_def sample_features_def thresholds_of_def)
  with regime_fails_neutral [of "legacy_xaut_profile\<lparr>rt_name := ''P''\<rparr>" sample_features "Some ''XAU/USD''"]
    regime_fails_neutral [of legacy_xaut_profile sample_features "Some ''XAU/USD''"]
  show ?thesis by (simp add: sample_features_def)
qed

theorem short_history_unknown_witness:
  "\<exists>f. extract_features sample_lib short_config (Aware 0) feature_bars = Inr f \<and>
     rg_regime (classify_regime (legacy_xaut_profile\<lparr>rt_name := ''P''\<rparr>) f (Some ''XAU/USD'')) = UNKNOWN_REGIME"
proof -
  from sample_extraction obtain f where f: "extract_features sample_lib short_config (Aware 0) feature_bars = Inr f" by blast
  have "length (filter is_closed feature_bars) < ema_slow_period short_config"
    by (simp add: feature_bars_def short_config_def default_feature_config_def bar_at_def)
  from short_history_unknown [OF f this] f show ?thesis by blast
qed

end
