(* ===== verification/Repository.thy ===== *)
theory Repository
  imports Timing Structure
begin

text \<open>
  \<open>engine/backtest/repository.py\<close>, \<open>PointInTimeDataset\<close>: the store of candles, quotes, reference
  prices, macro contexts and cycle snapshots, its updates and its point-in-time queries;
  \<open>bisect.bisect_right\<close>; and \<open>engine/backtest/clock.py\<close>, \<open>ReplayClock\<close>. Times are read with
  \<open>_to_utc\<close>, which takes a naive value for UTC.
\<close>

section \<open>bisect\<close>

text \<open>\<open>bisect_right(xs, x)\<close>; the argument \<open>below\<close> is the comparison \<open>x < k\<close>, which may raise.\<close>

function bisect_from :: "('a \<Rightarrow> bool result) \<Rightarrow> 'a list \<Rightarrow> nat \<Rightarrow> nat \<Rightarrow> nat result" where
  "bisect_from below xs lo hi =
     (if lo < hi
      then let mid = (lo + hi) div 2 in
           rbind (below (xs ! mid)) (\<lambda>b. if b then bisect_from below xs lo mid else bisect_from below xs (mid + 1) hi)
      else Inr lo)"
  by pat_completeness auto
termination by (relation "measure (\<lambda>(below, xs, lo, hi). hi - lo)") auto

declare bisect_from.simps [simp del]

definition bisect_right :: "('a \<Rightarrow> bool result) \<Rightarrow> 'a list \<Rightarrow> nat result" where
  "bisect_right below xs = bisect_from below xs 0 (length xs)"

text \<open>The result is a boundary of the comparison, even on an unsorted list.\<close>

lemma bisect_from_boundary:
  assumes "\<forall>k \<in> set xs. below k = Inr (p k)" and "lo \<le> hi" "hi \<le> length xs"
    and "lo = 0 \<or> \<not> p (xs ! (lo - 1))" and "hi = length xs \<or> p (xs ! hi)"
  shows "\<exists>n. bisect_from below xs lo hi = Inr n \<and> n \<le> length xs \<and>
    (n = 0 \<or> \<not> p (xs ! (n - 1))) \<and> (n = length xs \<or> p (xs ! n))"
  using assms
proof (induction below xs lo hi rule: bisect_from.induct)
  case (1 below xs lo hi)
  show ?case
  proof (cases "lo < hi")
    case False
    with "1.prems" have "hi = lo" by simp
    with "1.prems" show ?thesis by (subst bisect_from.simps) simp
  next
    case True
    let ?mid = "(lo + hi) div 2"
    have mid: "lo \<le> ?mid" "?mid < hi" "?mid < length xs" using True "1.prems"(3) by auto
    then have val: "below (xs ! ?mid) = Inr (p (xs ! ?mid))" using "1.prems"(1) by simp
    show ?thesis
    proof (cases "p (xs ! ?mid)")
      case p: True
      from "1.IH"(1) [OF True refl p "1.prems"(1) mid(1)] mid "1.prems" p show ?thesis
        using True val p by (subst bisect_from.simps) (simp add: Let_def)
    next
      case p: False
      from "1.IH"(2) [OF True refl p "1.prems"(1)] mid "1.prems" p show ?thesis
        using True val p by (subst bisect_from.simps) (simp add: Let_def)
    qed
  qed
qed

lemma bisect_right_boundary:
  assumes "\<forall>k \<in> set xs. below k = Inr (p k)"
  shows "\<exists>n. bisect_right below xs = Inr n \<and> n \<le> length xs \<and>
    (n = 0 \<or> \<not> p (xs ! (n - 1))) \<and> (n = length xs \<or> p (xs ! n))"
  unfolding bisect_right_def by (rule bisect_from_boundary [OF assms]) simp_all

text \<open>On a list sorted by the compared key it cuts off the part that is not later.\<close>

lemma filter_takeWhile_sorted:
  "sorted (map key xs) \<Longrightarrow> filter (\<lambda>x. key x \<le> t) xs = takeWhile (\<lambda>x. key x \<le> t) xs" for t :: int
proof (induction xs)
  case (Cons x xs)
  have "filter (\<lambda>x. key x \<le> t) xs = []" if "\<not> key x \<le> t"
    using that Cons.prems by (auto simp: filter_empty_conv)
  with Cons show ?case by auto
qed simp

lemma bisect_take:
  fixes t :: int
  assumes below: "\<forall>x \<in> set xs. below (f x) = Inr (t < key x)" and srt: "sorted (map key xs)"
  shows "\<exists>n. bisect_right below (map f xs) = Inr n \<and> n \<le> length xs \<and> take n xs = filter (\<lambda>x. key x \<le> t) xs"
proof -
  let ?p = "\<lambda>k. below k = Inr True"
  have p: "\<forall>k \<in> set (map f xs). below k = Inr (?p k)" using below by auto
  from bisect_right_boundary [OF p] obtain n where n: "bisect_right below (map f xs) = Inr n" "n \<le> length xs"
    "n = 0 \<or> \<not> ?p (map f xs ! (n - 1))" "n = length xs \<or> ?p (map f xs ! n)" by auto
  have at: "?p (map f xs ! i) \<longleftrightarrow> t < key (xs ! i)" if "i < length xs" for i using below that by simp
  have "key (xs ! i) \<le> t" if "i < n" for i
  proof -
    have i: "i \<le> n - 1" "n - 1 < length xs" using that n(2) by auto
    have "key (xs ! i) \<le> key (xs ! (n - 1))" using sorted_nth_mono [OF srt, of i "n - 1"] i by simp
    then show ?thesis using n(3) at [OF i(2)] that by auto
  qed
  then have "takeWhile (\<lambda>x. key x \<le> t) xs = take n xs"
    using n(2,4) at [of n] by (intro takeWhile_eq_take_P_nth) auto
  with n show ?thesis using filter_takeWhile_sorted [OF srt, of t] by auto
qed

section \<open>The clock\<close>

definition make_clock :: "datetime list \<Rightarrow> int list result" where
  "make_clock ts = (if ts = [] then Inl ValueError else Inr (sort (remdups (map assume_utc ts))))"

lemma make_clock_steps:
  "make_clock ts = Inr steps \<Longrightarrow> sorted steps \<and> distinct steps \<and> set steps = assume_utc ` set ts"
  by (auto simp: make_clock_def split: if_splits)

section \<open>Lists kept in chronological order\<close>

text \<open>\<open>xs.append(x); xs.sort(key=...)\<close>; the sort is stable.\<close>

definition add_sorted :: "('a \<Rightarrow> int) \<Rightarrow> 'a \<Rightarrow> 'a list \<Rightarrow> 'a list" where
  "add_sorted key x xs = sort_key key (xs @ [x])"

lemma sort_key_id: "sorted (map key xs) \<Longrightarrow> sort_key key xs = xs"
  by (induction xs) (simp_all add: insort_is_Cons)

lemma add_sorted_sorted [simp]: "sorted (map key (add_sorted key x xs))"
  by (simp add: add_sorted_def)

lemma set_add_sorted [simp]: "set (add_sorted key x xs) = insert x (set xs)"
  by (simp add: add_sorted_def)

lemma add_sorted_hidden:
  assumes "sorted (map key xs)" "\<not> P x"
  shows "filter P (add_sorted key x xs) = filter P xs"
  using assms by (simp add: add_sorted_def filter_sort sort_key_id sorted_filter)

section \<open>The dataset\<close>

type_synonym xau_reference = "int \<times> pynum \<times> bool"

record dataset =
  ds_candles :: "string \<rightharpoonup> candle list"
  ds_quotes :: "quote list"
  ds_xau_candles :: "candle list"
  ds_xau_references :: "xau_reference list"
  ds_usdt_rates :: "(int \<times> rat) list"
  ds_macro_events :: "(int \<times> macro_context) list"
  ds_macro_keys :: "int list"
  ds_cycles :: "cycle_snapshot list"

definition open_utc :: "candle \<Rightarrow> int" where "open_utc c = assume_utc (timestamp_open c)"
definition close_utc :: "candle \<Rightarrow> int" where "close_utc c = assume_utc (timestamp_close c)"
definition quote_utc :: "quote \<Rightarrow> int" where "quote_utc q = assume_utc (q_timestamp q)"
definition cycle_utc :: "cycle_snapshot \<Rightarrow> int" where "cycle_utc s = assume_utc (cy_timestamp s)"

definition make_dataset ::
  "candle list \<Rightarrow> candle list \<Rightarrow> candle list \<Rightarrow> candle list \<Rightarrow> candle list \<Rightarrow> candle list \<Rightarrow> quote list \<Rightarrow>
    (datetime \<times> pynum \<times> bool) list \<Rightarrow> (datetime \<times> rat) list \<Rightarrow> (datetime \<times> macro_context) list \<Rightarrow>
    cycle_snapshot list \<Rightarrow> dataset" where
  "make_dataset c15 c1h c4h c1d c5 c1 qs refs rates macros cycles =
     (let events = sort_key fst (map (\<lambda>(t, ctx). (assume_utc t, ctx)) macros) in
      \<lparr>ds_candles = [''15m'' \<mapsto> sort_key open_utc c15, ''1h'' \<mapsto> sort_key open_utc c1h, ''4h'' \<mapsto> sort_key open_utc c4h,
         ''1d'' \<mapsto> sort_key open_utc c1d, ''5m'' \<mapsto> sort_key open_utc c5, ''1m'' \<mapsto> sort_key open_utc c1],
       ds_quotes = sort_key quote_utc qs, ds_xau_candles = [],
       ds_xau_references = sort_key fst (map (\<lambda>(t, p, b). (assume_utc t, p, b)) refs),
       ds_usdt_rates = sort_key fst (map (\<lambda>(t, r). (assume_utc t, r)) rates),
       ds_macro_events = events, ds_macro_keys = map fst events, ds_cycles = sort_key cycle_utc cycles\<rparr>)"

text \<open>\<open>self._candles.get(tf, [])\<close>.\<close>

definition candles_of :: "dataset \<Rightarrow> string \<Rightarrow> candle list" where
  "candles_of ds tf = (case ds_candles ds tf of Some cs \<Rightarrow> cs | None \<Rightarrow> [])"

section \<open>Updates\<close>

definition add_candle :: "string \<Rightarrow> candle \<Rightarrow> dataset \<Rightarrow> dataset" where
  "add_candle timeframe c ds =
     (let tf = py_lower timeframe in
      ds\<lparr>ds_candles := (ds_candles ds)(tf \<mapsto> add_sorted open_utc c (candles_of ds tf))\<rparr>)"

definition add_xau_reference :: "datetime \<Rightarrow> pynum \<Rightarrow> bool \<Rightarrow> dataset \<Rightarrow> dataset" where
  "add_xau_reference t price bullish ds =
     ds\<lparr>ds_xau_references := add_sorted fst (assume_utc t, price, bullish) (ds_xau_references ds)\<rparr>"

definition add_xau_candle :: "candle \<Rightarrow> dataset \<Rightarrow> dataset result" where
  "add_xau_candle c ds =
     (if \<not> (finite_num (c_close c) \<and> finite_num (c_open c)) then Inl NonFiniteOperand
      else Inr (add_xau_reference (timestamp_close c) (c_close c) (num_value (c_close c) \<ge> num_value (c_open c))
             (ds\<lparr>ds_xau_candles := add_sorted open_utc c (ds_xau_candles ds)\<rparr>)))"

definition add_usdt_rate :: "datetime \<Rightarrow> rat \<Rightarrow> dataset \<Rightarrow> dataset" where
  "add_usdt_rate t r ds = ds\<lparr>ds_usdt_rates := add_sorted fst (assume_utc t, r) (ds_usdt_rates ds)\<rparr>"

definition add_macro_context :: "datetime \<Rightarrow> macro_context \<Rightarrow> dataset \<Rightarrow> dataset" where
  "add_macro_context t ctx ds =
     (let events = add_sorted fst (assume_utc t, ctx) (ds_macro_events ds) in
      ds\<lparr>ds_macro_events := events, ds_macro_keys := map fst events\<rparr>)"

definition add_quote :: "quote \<Rightarrow> dataset \<Rightarrow> dataset" where
  "add_quote q ds = ds\<lparr>ds_quotes := add_sorted quote_utc q (ds_quotes ds)\<rparr>"

definition add_cycle_3a :: "cycle_snapshot \<Rightarrow> dataset \<Rightarrow> dataset" where
  "add_cycle_3a s ds = ds\<lparr>ds_cycles := add_sorted cycle_utc s (ds_cycles ds)\<rparr>"

section \<open>Queries\<close>

definition closed_by :: "int \<Rightarrow> candle list \<Rightarrow> candle list" where
  "closed_by t = filter (\<lambda>c. is_closed c \<and> close_utc c \<le> t)"

definition get_xau_candles :: "dataset \<Rightarrow> datetime \<Rightarrow> candle list" where
  "get_xau_candles ds as_of = closed_by (assume_utc as_of) (ds_xau_candles ds)"

definition get_closed_candles :: "dataset \<Rightarrow> string \<Rightarrow> datetime \<Rightarrow> candle list" where
  "get_closed_candles ds timeframe as_of = closed_by (assume_utc as_of) (candles_of ds (py_lower timeframe))"

text \<open>\<open>as_of is None or t <= as_of\<close>.\<close>

definition by_then :: "datetime option \<Rightarrow> int \<Rightarrow> bool" where
  "by_then as_of t = (case as_of of None \<Rightarrow> True | Some a \<Rightarrow> t \<le> assume_utc a)"

definition get_intrabar_candles :: "dataset \<Rightarrow> string \<Rightarrow> datetime \<Rightarrow> datetime \<Rightarrow> datetime option \<Rightarrow> candle list" where
  "get_intrabar_candles ds timeframe s e as_of =
     filter (\<lambda>c. open_utc c \<ge> assume_utc s \<and> close_utc c \<le> assume_utc e \<and> by_then as_of (close_utc c))
       (candles_of ds (py_lower timeframe))"

definition get_quotes :: "dataset \<Rightarrow> datetime \<Rightarrow> datetime \<Rightarrow> datetime option \<Rightarrow> quote list" where
  "get_quotes ds s e as_of =
     filter (\<lambda>q. quote_utc q \<ge> assume_utc s \<and> quote_utc q \<le> assume_utc e \<and> by_then as_of (quote_utc q)) (ds_quotes ds)"

definition get_xau_reference :: "dataset \<Rightarrow> datetime \<Rightarrow> xau_reference option" where
  "get_xau_reference ds as_of = last_of (filter (\<lambda>x. fst x \<le> assume_utc as_of) (ds_xau_references ds))"

definition get_usdt_rate :: "dataset \<Rightarrow> datetime \<Rightarrow> (int \<times> rat) option" where
  "get_usdt_rate ds as_of = last_of (filter (\<lambda>x. fst x \<le> assume_utc as_of) (ds_usdt_rates ds))"

definition get_macro_context :: "dataset \<Rightarrow> datetime \<Rightarrow> macro_context option result" where
  "get_macro_context ds as_of =
     (if ds_macro_events ds = [] then Inr None
      else rbind (bisect_right (\<lambda>k. Inr (assume_utc as_of < k)) (ds_macro_keys ds)) (\<lambda>n.
        Inr (if n = 0 then None else Some (snd (ds_macro_events ds ! (n - 1))))))"

definition get_cycle_3a :: "dataset \<Rightarrow> datetime \<Rightarrow> string option \<Rightarrow> cycle_snapshot option" where
  "get_cycle_3a ds as_of version = last_of (filter (\<lambda>s. cycle_utc s \<le> assume_utc as_of \<and>
     (case version of None \<Rightarrow> True | Some v \<Rightarrow> cy_version s = v)) (ds_cycles ds))"

lemmas [eval_defs] = open_utc_def close_utc_def quote_utc_def cycle_utc_def make_dataset_def candles_of_def
  add_candle_def add_xau_reference_def add_xau_candle_def add_usdt_rate_def add_macro_context_def add_quote_def
  add_cycle_3a_def closed_by_def get_xau_candles_def get_closed_candles_def by_then_def get_intrabar_candles_def
  get_quotes_def get_xau_reference_def get_usdt_rate_def get_macro_context_def get_cycle_3a_def

section \<open>The hash of a dataset\<close>

text \<open>
  What \<open>compute_dataset_hash\<close> feeds to SHA-256: per timeframe the number of bars and the first
  and last time, then the sizes of the other stores. The digest, which includes the rendering
  of the times, is a parameter.
\<close>

datatype hash_item = TfCount string nat | TfSpan datetime datetime | StoreCounts "nat list"

definition tf_hash_items :: "dataset \<Rightarrow> string \<Rightarrow> hash_item list" where
  "tf_hash_items ds tf =
     (let bars = candles_of ds tf in
      TfCount tf (length bars) #
      (if bars = [] then [] else [TfSpan (timestamp_open (hd bars)) (timestamp_close (last bars))]))"

definition compute_dataset_hash :: "(hash_item list \<Rightarrow> string) \<Rightarrow> dataset \<Rightarrow> string" where
  "compute_dataset_hash sha ds = sha
     (concat (map (tf_hash_items ds) [''15m'', ''1h'', ''4h'', ''1d'', ''5m'', ''1m'']) @
      [StoreCounts [length (ds_quotes ds), length (ds_xau_references ds), length (ds_xau_candles ds),
        length (ds_usdt_rates ds), length (ds_macro_events ds), length (ds_cycles ds)]])"

section \<open>The stores stay in order\<close>

definition ordered_dataset :: "dataset \<Rightarrow> bool" where
  "ordered_dataset ds \<longleftrightarrow>
     (\<forall>tf. sorted (map open_utc (candles_of ds tf))) \<and> sorted (map quote_utc (ds_quotes ds)) \<and>
     sorted (map open_utc (ds_xau_candles ds)) \<and> sorted (map fst (ds_xau_references ds)) \<and>
     sorted (map fst (ds_usdt_rates ds)) \<and> sorted (map fst (ds_macro_events ds)) \<and>
     ds_macro_keys ds = map fst (ds_macro_events ds) \<and> sorted (map cycle_utc (ds_cycles ds))"

text \<open>The updates as data, the time from which each is visible, and a history of updates.\<close>

datatype update =
    NewCandle string candle
  | NewXauCandle candle
  | NewXauReference datetime pynum bool
  | NewUsdtRate datetime rat
  | NewMacro datetime macro_context
  | NewQuote quote
  | NewCycle cycle_snapshot

fun apply_update :: "update \<Rightarrow> dataset \<Rightarrow> dataset result" where
  "apply_update (NewCandle tf c) ds = Inr (add_candle tf c ds)"
| "apply_update (NewXauCandle c) ds = add_xau_candle c ds"
| "apply_update (NewXauReference t p b) ds = Inr (add_xau_reference t p b ds)"
| "apply_update (NewUsdtRate t r) ds = Inr (add_usdt_rate t r ds)"
| "apply_update (NewMacro t ctx) ds = Inr (add_macro_context t ctx ds)"
| "apply_update (NewQuote q) ds = Inr (add_quote q ds)"
| "apply_update (NewCycle s) ds = Inr (add_cycle_3a s ds)"

fun known_at :: "update \<Rightarrow> int" where
  "known_at (NewCandle tf c) = close_utc c"
| "known_at (NewXauCandle c) = close_utc c"
| "known_at (NewXauReference t p b) = assume_utc t"
| "known_at (NewUsdtRate t r) = assume_utc t"
| "known_at (NewMacro t ctx) = assume_utc t"
| "known_at (NewQuote q) = quote_utc q"
| "known_at (NewCycle s) = cycle_utc s"

fun apply_updates :: "update list \<Rightarrow> dataset \<Rightarrow> dataset result" where
  "apply_updates [] ds = Inr ds"
| "apply_updates (u # us) ds = rbind (apply_update u ds) (apply_updates us)"

lemma candles_of_add_candle:
  "candles_of (add_candle timeframe c ds) tf =
     (if tf = py_lower timeframe then add_sorted open_utc c (candles_of ds tf) else candles_of ds tf)"
  by (simp add: candles_of_def add_candle_def Let_def)

lemma candles_of_same:
  "candles_of (ds\<lparr>ds_quotes := q\<rparr>) = candles_of ds" "candles_of (ds\<lparr>ds_xau_candles := xc\<rparr>) = candles_of ds"
  "candles_of (ds\<lparr>ds_xau_references := xr\<rparr>) = candles_of ds" "candles_of (ds\<lparr>ds_usdt_rates := u\<rparr>) = candles_of ds"
  "candles_of (ds\<lparr>ds_macro_events := m\<rparr>) = candles_of ds" "candles_of (ds\<lparr>ds_macro_keys := k\<rparr>) = candles_of ds"
  "candles_of (ds\<lparr>ds_cycles := cy\<rparr>) = candles_of ds"
  by (simp_all add: candles_of_def fun_eq_iff)

lemma apply_update_ordered:
  assumes "ordered_dataset ds" "apply_update u ds = Inr ds'"
  shows "ordered_dataset ds'"
proof (cases u)
  case (NewCandle tf c)
  with assms show ?thesis by (auto simp: ordered_dataset_def candles_of_add_candle) (simp_all add: add_candle_def Let_def)
qed (use assms in \<open>auto simp: ordered_dataset_def candles_of_same add_xau_candle_def add_xau_reference_def
      add_usdt_rate_def add_macro_context_def Let_def add_quote_def add_cycle_3a_def split: if_splits\<close>)

lemma make_dataset_ordered: "ordered_dataset (make_dataset c15 c1h c4h c1d c5 c1 qs refs rates macros cycles)"
  by (simp add: ordered_dataset_def make_dataset_def candles_of_def Let_def)

lemma apply_updates_ordered: "apply_updates us ds = Inr ds' \<Longrightarrow> ordered_dataset ds \<Longrightarrow> ordered_dataset ds'"
  by (induction us arbitrary: ds) (auto simp: rbind_Inr_iff dest: apply_update_ordered)

section \<open>Later data is invisible\<close>

definition latest_macro :: "int \<Rightarrow> (int \<times> macro_context) list \<Rightarrow> macro_context option" where
  "latest_macro t events = map_option snd (last_of (filter (\<lambda>x. fst x \<le> t) events))"

lemma macro_lookup:
  assumes "ordered_dataset ds"
  shows "get_macro_context ds as_of = Inr (latest_macro (assume_utc as_of) (ds_macro_events ds))"
proof -
  let ?ev = "ds_macro_events ds" and ?t = "assume_utc as_of"
  from assms have keys: "ds_macro_keys ds = map fst ?ev" and srt: "sorted (map fst ?ev)"
    by (simp_all add: ordered_dataset_def)
  from bisect_take [OF _ srt, of "\<lambda>k. Inr (?t < k)" fst ?t] obtain n
    where n: "bisect_right (\<lambda>k. Inr (?t < k)) (map fst ?ev) = Inr n" "n \<le> length ?ev"
      and tk: "take n ?ev = filter (\<lambda>x. fst x \<le> ?t) ?ev" by auto
  have "last (take n ?ev) = ?ev ! (n - 1)" if "n \<noteq> 0"
    using that n(2) by (subst last_conv_nth) auto
  then show ?thesis
    using n tk [symmetric] by (auto simp: get_macro_context_def keys latest_macro_def last_of_def)
qed

text \<open>Everything a query as of \<open>t\<close> can return.\<close>

definition same_view :: "datetime \<Rightarrow> dataset \<Rightarrow> dataset \<Rightarrow> bool" where
  "same_view t a b \<longleftrightarrow>
     (\<forall>tf. get_closed_candles a tf t = get_closed_candles b tf t) \<and>
     get_xau_candles a t = get_xau_candles b t \<and> get_xau_reference a t = get_xau_reference b t \<and>
     get_usdt_rate a t = get_usdt_rate b t \<and> get_macro_context a t = get_macro_context b t \<and>
     (\<forall>v. get_cycle_3a a t v = get_cycle_3a b t v) \<and>
     (\<forall>tf s e. get_intrabar_candles a tf s e (Some t) = get_intrabar_candles b tf s e (Some t)) \<and>
     (\<forall>s e. get_quotes a s e (Some t) = get_quotes b s e (Some t))"

lemma apply_update_hidden:
  assumes "ordered_dataset ds" "apply_update u ds = Inr ds'" "assume_utc t < known_at u"
  shows "same_view t ds' ds"
proof -
  note macro = macro_lookup [OF apply_update_ordered [OF assms(1,2)]] macro_lookup [OF assms(1)]
  show ?thesis
  proof (cases u)
    case (NewCandle tf c)
    with assms show ?thesis unfolding same_view_def macro
      by (auto simp: get_closed_candles_def closed_by_def candles_of_add_candle get_intrabar_candles_def by_then_def
          ordered_dataset_def add_sorted_hidden)
        (simp_all add: add_candle_def Let_def get_xau_candles_def get_xau_reference_def get_usdt_rate_def
          latest_macro_def get_cycle_3a_def get_quotes_def)
  qed (use assms in \<open>auto simp: same_view_def macro get_closed_candles_def get_xau_candles_def closed_by_def
      get_xau_reference_def get_usdt_rate_def latest_macro_def get_cycle_3a_def get_intrabar_candles_def
      get_quotes_def by_then_def candles_of_same ordered_dataset_def add_sorted_hidden add_xau_candle_def add_xau_reference_def
      add_usdt_rate_def add_macro_context_def Let_def add_quote_def add_cycle_3a_def close_utc_def split: if_splits\<close>)
qed

lemma same_view_trans: "same_view t a b \<Longrightarrow> same_view t b c \<Longrightarrow> same_view t a c"
  by (simp add: same_view_def)

lemma later_updates_hidden:
  assumes "ordered_dataset ds" and "apply_updates us ds = Inr ds'" and "\<forall>u \<in> set us. assume_utc t < known_at u"
  shows "same_view t ds' ds"
  using assms
proof (induction us arbitrary: ds)
  case (Cons u us)
  then obtain d where d: "apply_update u ds = Inr d" "apply_updates us d = Inr ds'" by (auto simp: rbind_Inr_iff)
  from Cons.prems d have "same_view t ds' d"
    by (intro Cons.IH) (auto intro: apply_update_ordered)
  moreover have "same_view t d ds" using Cons.prems d by (intro apply_update_hidden) auto
  ultimately show ?case by (rule same_view_trans)
qed (simp add: same_view_def)

section \<open>Properties\<close>

text \<open>
  The dataset is chronological by construction: after the constructor and any sequence of
  updates every store is sorted by time and the separate list of macro keys, on which lookups
  bisect, agrees with the macro events.
\<close>

theorem dataset_stays_ordered:
  assumes "apply_updates us (make_dataset c15 c1h c4h c1d c5 c1 qs refs rates macros cycles) = Inr ds"
  shows "ordered_dataset ds"
  using apply_updates_ordered [OF assms make_dataset_ordered] .

text \<open>
  C29. Point in time: data that becomes known after \<open>t\<close>, of any kind and in any order, changes no
  query as of \<open>t\<close>: closed candles, gold candles and references, normalisation rates, macro
  contexts, cycle snapshots, bounded intrabar candles and quotes.
\<close>

theorem dataset_point_in_time:
  assumes "ordered_dataset ds" and "apply_updates us ds = Inr ds'" and "\<forall>u \<in> set us. assume_utc t < known_at u"
  shows "same_view t ds' ds"
  using assms by (rule later_updates_hidden)

text \<open>
  C37. The bisection of the macro keys terminates and finds the latest context that is not later
  than the time asked for; on any list, sorted or not, the search returns a position where the
  comparison changes.
\<close>

theorem bisect_finds_boundary:
  "(\<exists>n \<le> length xs. bisect_right (\<lambda>k. Inr (p k)) xs = Inr n \<and>
      (n = 0 \<or> \<not> p (xs ! (n - 1))) \<and> (n = length xs \<or> p (xs ! n))) \<and>
   (ordered_dataset ds \<longrightarrow> get_macro_context ds as_of = Inr (latest_macro (assume_utc as_of) (ds_macro_events ds)))"
  using bisect_right_boundary [of xs "\<lambda>k. Inr (p k)" p] macro_lookup by blast

text \<open>
  The dataset hash is blind to prices: replacing the candles of any timeframe by others with
  the same number and the same first and last time, and every quote, reference, rate, macro and
  cycle entry by another one, leaves it unchanged, whatever digest is used.
\<close>

theorem dataset_hash_blind:
  assumes "\<forall>tf. length (candles_of ds tf) = length (candles_of ds' tf) \<and>
      (candles_of ds tf \<noteq> [] \<longrightarrow>
        timestamp_open (hd (candles_of ds tf)) = timestamp_open (hd (candles_of ds' tf)) \<and>
        timestamp_close (last (candles_of ds tf)) = timestamp_close (last (candles_of ds' tf)))"
    and "length (ds_quotes ds) = length (ds_quotes ds')" "length (ds_xau_references ds) = length (ds_xau_references ds')"
      "length (ds_xau_candles ds) = length (ds_xau_candles ds')" "length (ds_usdt_rates ds) = length (ds_usdt_rates ds')"
      "length (ds_macro_events ds) = length (ds_macro_events ds')" "length (ds_cycles ds) = length (ds_cycles ds')"
  shows "compute_dataset_hash sha ds = compute_dataset_hash sha ds'"
proof -
  have "tf_hash_items ds tf = tf_hash_items ds' tf" for tf
    using spec [OF assms(1), of tf]
    by (cases "candles_of ds tf = []"; cases "candles_of ds' tf = []") (simp_all add: tf_hash_items_def Let_def)
  then show ?thesis using assms(2-) by (simp add: compute_dataset_hash_def)
qed

definition sample_macro :: "bool \<Rightarrow> macro_context" where
  "sample_macro b = \<lparr>is_in_blackout = b, minutes_to_next_event = None, minutes_since_last_event = None,
     active_event_name = None, point_in_time_value = None, is_feed_healthy = True\<rparr>"

definition sample_dataset :: "candle list \<Rightarrow> dataset" where
  "sample_dataset cs = make_dataset cs [] [] [] [] [] [] [] [] [(Aware 0, sample_macro False)] []"

lemma sample_candles: "candles_of (sample_dataset cs) tf = (if tf = ''15m'' then sort_key open_utc cs else [])"
  by (simp add: sample_dataset_def make_dataset_def candles_of_def Let_def)

theorem dataset_stays_ordered_witness:
  "\<exists>ds. apply_updates [NewCandle ''15m'' (bar_at 0 900 1 1 1 1), NewMacro (Naive 5) (sample_macro True)]
       (sample_dataset [bar_at 900 1800 1 1 1 1]) = Inr ds \<and>
     map open_utc (candles_of ds ''15m'') = [0, 900 * second] \<and> ordered_dataset ds"
proof -
  let ?us = "[NewCandle ''15m'' (bar_at 0 900 1 1 1 1), NewMacro (Naive 5) (sample_macro True)]"
  obtain ds where ds: "apply_updates ?us (sample_dataset [bar_at 900 1800 1 1 1 1]) = Inr ds" by simp
  from dataset_stays_ordered [OF ds [unfolded sample_dataset_def]] have "ordered_dataset ds" .
  moreover have "map open_utc (candles_of ds ''15m'') = [0, 900 * second]"
    using ds by (auto simp: add_macro_context_def Let_def candles_of_same candles_of_add_candle sample_candles
        add_sorted_def py_lower_def open_utc_def bar_at_def second_def)
  ultimately show ?thesis using ds by (intro exI [of _ ds] conjI)
qed

theorem dataset_point_in_time_witness:
  "\<exists>ds'. apply_updates [NewCandle ''15m'' (bar_at 900 1800 1 1 1 1), NewMacro (Aware (901 * second)) (sample_macro True)]
       (sample_dataset [bar_at 0 900 1 1 1 1]) = Inr ds' \<and>
     same_view (Aware (900 * second)) ds' (sample_dataset [bar_at 0 900 1 1 1 1])"
proof -
  let ?us = "[NewCandle ''15m'' (bar_at 900 1800 1 1 1 1), NewMacro (Aware (901 * second)) (sample_macro True)]"
  let ?ds = "sample_dataset [bar_at 0 900 1 1 1 1]"
  obtain ds' where ds': "apply_updates ?us ?ds = Inr ds'" by simp
  have "ordered_dataset ?ds" unfolding sample_dataset_def by (rule make_dataset_ordered)
  from dataset_point_in_time [OF this ds', of "Aware (900 * second)"] ds' show ?thesis
    by (auto simp: close_utc_def bar_at_def second_def)
qed

theorem bisect_finds_boundary_witness:
  "ordered_dataset (sample_dataset []) \<and>
   get_macro_context (sample_dataset []) (Aware 7) = Inr (Some (sample_macro False)) \<and>
   get_macro_context (sample_dataset []) (Aware (- 1)) = Inr None"
proof -
  have o: "ordered_dataset (sample_dataset [])" unfolding sample_dataset_def by (rule make_dataset_ordered)
  have e: "ds_macro_events (sample_dataset []) = [(0, sample_macro False)]"
    by (simp add: sample_dataset_def make_dataset_def)
  show ?thesis
    using o bisect_finds_boundary [of "[] :: int list" "\<lambda>_. True" "sample_dataset []" "Aware 7"]
      bisect_finds_boundary [of "[] :: int list" "\<lambda>_. True" "sample_dataset []" "Aware (- 1)"]
    by (simp add: latest_macro_def e last_of_def)
qed

theorem dataset_hash_blind_witness:
  "\<forall>sha. compute_dataset_hash sha (sample_dataset [bar_at 0 900 1 1 1 1]) =
     compute_dataset_hash sha (sample_dataset [bar_at 0 900 2 9 1 7])"
proof (rule allI, rule dataset_hash_blind)
  show "\<forall>tf. length (candles_of (sample_dataset [bar_at 0 900 1 1 1 1]) tf) =
        length (candles_of (sample_dataset [bar_at 0 900 2 9 1 7]) tf) \<and>
      (candles_of (sample_dataset [bar_at 0 900 1 1 1 1]) tf \<noteq> [] \<longrightarrow>
        timestamp_open (hd (candles_of (sample_dataset [bar_at 0 900 1 1 1 1]) tf)) =
          timestamp_open (hd (candles_of (sample_dataset [bar_at 0 900 2 9 1 7]) tf)) \<and>
        timestamp_close (last (candles_of (sample_dataset [bar_at 0 900 1 1 1 1]) tf)) =
          timestamp_close (last (candles_of (sample_dataset [bar_at 0 900 2 9 1 7]) tf)))"
    unfolding sample_candles by (simp add: bar_at_def)
qed (simp_all add: sample_dataset_def make_dataset_def Let_def)

end
