(* ===== verification/Market_Cache.thy ===== *)
theory Market_Cache
  imports Replay Regime Repository
begin

text \<open>
  \<open>build_market_snapshot_cache\<close> of \<open>engine/backtest/xauusd_replay.py\<close>: the precomputation of the
  market evidence of a replay, which recomputes the features of a higher timeframe only when a
  new candle of it has closed. The feature engine, which the replay takes as an injected
  component, is the parameter \<open>fe\<close>, a function of the candles it is given.
\<close>

fun map_result :: "('a \<Rightarrow> 'b result) \<Rightarrow> 'a list \<Rightarrow> 'b list result" where
  "map_result f [] = Inr []"
| "map_result f (x # xs) = rbind (f x) (\<lambda>y. rbind (map_result f xs) (\<lambda>ys. Inr (y # ys)))"

lemma map_result_Inr: "map_result f xs = Inr ys \<longleftrightarrow> list_all2 (\<lambda>x y. f x = Inr y) xs ys"
  by (induction xs arbitrary: ys) (auto simp: rbind_Inr_iff list_all2_Cons1)

lemma map_result_cong: "(\<And>x. x \<in> set xs \<Longrightarrow> f x = g x) \<Longrightarrow> map_result f xs = map_result g xs"
  by (induction xs) auto

lemma map_result_pure: "map_result (\<lambda>x. Inr (f x)) xs = Inr (map f xs)"
  by (induction xs) auto

lemma map_result_map: "map_result f (map g xs) = map_result (\<lambda>x. f (g x)) xs"
  by (induction xs) auto

lemma map_result_append: "map_result f (xs @ ys) = rbind (map_result f xs) (\<lambda>a. rbind (map_result f ys) (\<lambda>b. Inr (a @ b)))"
  by (induction xs) (auto simp: rbind_def split: sum.splits)

section \<open>The evidence of one timeframe\<close>

type_synonym feature_engine = "candle list \<Rightarrow> feature_snapshot result"

definition window500 :: "candle list \<Rightarrow> candle list" where
  "window500 cs = (if length cs > 500 then last_n 500 cs else cs)"

definition features_of :: "feature_engine \<Rightarrow> candle list \<Rightarrow> feature_snapshot option result" where
  "features_of fe ev = (if length ev \<ge> 20 then rbind (fe ev) (\<lambda>f. Inr (Some f)) else Inr None)"

text \<open>The wall clock of the structure engine is not read, the window being non-empty.\<close>

definition structure_of :: "candle list \<Rightarrow> feature_snapshot option \<Rightarrow> structure_result option result" where
  "structure_of ev feats =
     (if length ev \<ge> 5
      then rbind (structure_analyze default_structure_config (Aware 0) ev
             (case feats of Some f \<Rightarrow> atr14 f | None \<Rightarrow> None)) (\<lambda>s. Inr (Some s))
      else Inr None)"

section \<open>The health of the feeds\<close>

definition feed_if :: "bool \<Rightarrow> feed_health" where
  "feed_if b = (if b then HEALTHY else MISSING)"

definition macro_feed :: "macro_context option \<Rightarrow> cycle_snapshot option \<Rightarrow> feed_health \<times> bool" where
  "macro_feed macro cycle =
     (let read = (\<lambda>m. (if is_feed_healthy m then HEALTHY else UNHEALTHY, is_in_blackout m)) in
      case macro of
        Some m \<Rightarrow> read m
      | None \<Rightarrow> (case cycle of
                  Some c \<Rightarrow> (case cy_macro c of Some m \<Rightarrow> read m | None \<Rightarrow> (MISSING, False))
                | None \<Rightarrow> (MISSING, False)))"

definition volume_health :: "feature_snapshot option \<Rightarrow> feed_health" where
  "volume_health feats =
     (case feats of
        Some f \<Rightarrow> if fs_volume_evidence f \<noteq> VOLUME_UNAVAILABLE
                  then (if volume_usable f then HEALTHY else UNHEALTHY) else MISSING
      | None \<Rightarrow> MISSING)"

definition replay_health ::
  "bool \<Rightarrow> bool \<Rightarrow> bool \<Rightarrow> bool \<Rightarrow> macro_context option \<Rightarrow> cycle_snapshot option \<Rightarrow> feature_snapshot option \<Rightarrow> bool \<Rightarrow>
    runtime_feed_health" where
  "replay_health has15 has1h has4h has1d macro cycle feats unclosed = \<lparr>
     primary_15m = feed_if has15, primary_1h = feed_if has1h, primary_4h = feed_if has4h, primary_1d = feed_if has1d,
     secondary_provider = MISSING, secondary_provider_disagreement = False,
     macro_blackout_feed = fst (macro_feed macro cycle), is_macro_blackout = snd (macro_feed macro cycle),
     volume_feed = volume_health feats, phase3a_feed = feed_if (cycle \<noteq> None), phase3b_feed = MISSING,
     is_unclosed_candle = unclosed\<rparr>"

text \<open>\<open>dataset.get_cycle_3a(as_of=t)\<close> with the default version.\<close>

definition cycle_at :: "dataset \<Rightarrow> int \<Rightarrow> cycle_snapshot option" where
  "cycle_at ds t = get_cycle_3a ds (Aware t) (Some ''3.0.0-3A'')"

section \<open>The cache\<close>

fun datetime_lt :: "datetime \<Rightarrow> datetime \<Rightarrow> bool result" where
  "datetime_lt (Aware a) (Aware b) = Inr (a < b)"
| "datetime_lt (Naive a) (Naive b) = Inr (a < b)"
| "datetime_lt _ _ = Inl TypeError"

text \<open>\<open>start_time <= c.timestamp_close < end_time\<close>, which stops at the first comparison that fails.\<close>

definition decision_times :: "datetime \<Rightarrow> datetime \<Rightarrow> candle list \<Rightarrow> datetime list result" where
  "decision_times start end cs =
     rbind (filter_result (\<lambda>c. rbind (datetime_le start (timestamp_close c)) (\<lambda>b.
              if b then datetime_lt (timestamp_close c) end else Inr False)) cs)
       (\<lambda>sel. Inr (map timestamp_close sel))"

definition closed_upto :: "candle list \<Rightarrow> int \<Rightarrow> nat result" where
  "closed_upto cs t = bisect_right (datetime_lt (Aware t)) (map timestamp_close cs)"

text \<open>What the loop keeps per higher timeframe: the last index and the evidence computed at it.\<close>

record tf_cache =
  tc_index :: int
  tc_features :: "feature_snapshot option"
  tc_structure :: "structure_result option"

definition empty_cache :: tf_cache where
  "empty_cache = \<lparr>tc_index = -1, tc_features = None, tc_structure = None\<rparr>"

definition refresh :: "feature_engine \<Rightarrow> bool \<Rightarrow> candle list \<Rightarrow> nat \<Rightarrow> tf_cache \<Rightarrow> tf_cache result" where
  "refresh fe with_structure candles idx tc =
     (if int idx \<noteq> tc_index tc
      then let ev = window500 (take idx candles) in
           rbind (features_of fe ev) (\<lambda>f.
           rbind (if with_structure then structure_of ev f else Inr None) (\<lambda>s.
             Inr \<lparr>tc_index = int idx, tc_features = f, tc_structure = s\<rparr>))
      else Inr tc)"

text \<open>The rest of the loop body: the 15 minute evidence, the health and the snapshot.\<close>

definition snapshot_from ::
  "feature_engine \<Rightarrow> dataset \<Rightarrow> int list \<Rightarrow> int \<Rightarrow> candle list \<Rightarrow> bool \<Rightarrow> bool \<Rightarrow> bool \<Rightarrow>
    feature_snapshot option \<Rightarrow> feature_snapshot option \<Rightarrow> feature_snapshot option \<Rightarrow> structure_result option \<Rightarrow>
    market_snapshot result" where
  "snapshot_from fe ds unclosed t closed15 has1h has4h has1d f1h f4h f1d s4h =
     (let ev = window500 closed15 in
      rbind (features_of fe ev) (\<lambda>f15.
      rbind (structure_of ev f15) (\<lambda>s15.
      rbind (get_macro_context ds (Aware t)) (\<lambda>macro.
        Inr \<lparr>ms_timestamp = t, ms_candle = last closed15, ms_features_15m = f15, ms_features_1h = f1h,
             ms_features_4h = f4h, ms_features_1d = f1d,
             ms_regime = map_option (\<lambda>f. classify_regime (for_xauusd None) f (Some ''XAUUSD'')) f15,
             ms_structure_15m = s15, ms_structure_4h = s4h,
             ms_atr14 = (case f15 of Some f \<Rightarrow> map_option Fin (atr14 f) | None \<Rightarrow> None),
             ms_health = replay_health (closed15 \<noteq> []) has1h has4h has1d macro (cycle_at ds t) f15
               (list_ex (\<lambda>u. u \<le> t) unclosed),
             ms_cycle = cycle_at ds t\<rparr>))))"

fun cache_loop ::
  "feature_engine \<Rightarrow> dataset \<Rightarrow> int list \<Rightarrow> candle list \<Rightarrow> candle list \<Rightarrow> candle list \<Rightarrow> candle list \<Rightarrow>
    tf_cache \<Rightarrow> tf_cache \<Rightarrow> tf_cache \<Rightarrow> datetime list \<Rightarrow> market_snapshot list result" where
  "cache_loop fe ds unclosed a15 a1h a4h a1d c1h c4h c1d [] = Inr []"
| "cache_loop fe ds unclosed a15 a1h a4h a1d c1h c4h c1d (step # steps) =
     rbind (require_utc step) (\<lambda>t.
     rbind (closed_upto a15 t) (\<lambda>i15.
     if take i15 a15 = [] then cache_loop fe ds unclosed a15 a1h a4h a1d c1h c4h c1d steps
     else
       rbind (closed_upto a1h t) (\<lambda>i1h. rbind (refresh fe False a1h i1h c1h) (\<lambda>c1h'.
       rbind (closed_upto a4h t) (\<lambda>i4h. rbind (refresh fe True a4h i4h c4h) (\<lambda>c4h'.
       rbind (closed_upto a1d t) (\<lambda>i1d. rbind (refresh fe False a1d i1d c1d) (\<lambda>c1d'.
       rbind (snapshot_from fe ds unclosed t (take i15 a15) (i1h > 0) (i4h > 0) (i1d > 0)
                (tc_features c1h') (tc_features c4h') (tc_features c1d') (tc_structure c4h')) (\<lambda>ms.
       rbind (cache_loop fe ds unclosed a15 a1h a4h a1d c1h' c4h' c1d' steps) (\<lambda>rest.
         Inr (ms # rest)))))))))))"

definition build_market_snapshot_cache ::
  "feature_engine \<Rightarrow> dataset \<Rightarrow> datetime \<Rightarrow> datetime \<Rightarrow> market_snapshot list result" where
  "build_market_snapshot_cache fe ds start end =
     (let upto = (\<lambda>tf. get_closed_candles ds tf end) in
      rbind (decision_times start end (upto ''15m'')) (\<lambda>steps.
      rbind (map_result (\<lambda>c. require_utc (timestamp_close c)) (filter (\<lambda>c. \<not> is_closed c) (candles_of ds ''15m''))) (\<lambda>unclosed.
        cache_loop fe ds unclosed (upto ''15m'') (upto ''1h'') (upto ''4h'') (upto ''1d'')
          empty_cache empty_cache empty_cache steps)))"

lemmas [eval_defs] = window500_def features_of_def structure_of_def feed_if_def macro_feed_def volume_health_def
  replay_health_def cycle_at_def decision_times_def closed_upto_def empty_cache_def refresh_def snapshot_from_def
  build_market_snapshot_cache_def

section \<open>Evidence recomputed at a point in time\<close>

definition compute :: "feature_engine \<Rightarrow> bool \<Rightarrow> candle list \<Rightarrow> (feature_snapshot option \<times> structure_result option) result" where
  "compute fe with_structure cs =
     rbind (features_of fe (window500 cs)) (\<lambda>f.
     rbind (if with_structure then structure_of (window500 cs) f else Inr None) (\<lambda>s. Inr (f, s)))"

definition pit_snapshot :: "feature_engine \<Rightarrow> dataset \<Rightarrow> int list \<Rightarrow> int \<Rightarrow> market_snapshot result" where
  "pit_snapshot fe ds unclosed t =
     (let cl = (\<lambda>tf. get_closed_candles ds tf (Aware t)) in
      rbind (compute fe False (cl ''1h'')) (\<lambda>(f1h, _).
      rbind (compute fe True (cl ''4h'')) (\<lambda>(f4h, s4h).
      rbind (compute fe False (cl ''1d'')) (\<lambda>(f1d, _).
        snapshot_from fe ds unclosed t (cl ''15m'') (cl ''1h'' \<noteq> []) (cl ''4h'' \<noteq> []) (cl ''1d'' \<noteq> []) f1h f4h f1d s4h))))"

lemma py_lower_timeframes [simp]:
  "py_lower ''15m'' = ''15m''" "py_lower ''1h'' = ''1h''" "py_lower ''4h'' = ''4h''" "py_lower ''1d'' = ''1d''"
  by (simp_all add: py_lower_def)

section \<open>The cached evidence is the recomputed one\<close>

text \<open>What the loop keeps for a timeframe is what it would compute at the index it was kept for.\<close>

definition valid_cache :: "feature_engine \<Rightarrow> bool \<Rightarrow> candle list \<Rightarrow> tf_cache \<Rightarrow> bool" where
  "valid_cache fe ws cs tc \<longleftrightarrow> tc_index tc = -1 \<or>
     (\<exists>i. tc_index tc = int i \<and> compute fe ws (take i cs) = Inr (tc_features tc, tc_structure tc))"

lemma empty_cache_valid [simp]: "valid_cache fe ws cs empty_cache"
  by (simp add: valid_cache_def empty_cache_def)

lemma refresh_compute:
  assumes "valid_cache fe ws cs tc"
  shows "refresh fe ws cs i tc = rbind (compute fe ws (take i cs)) (\<lambda>(f, s). Inr \<lparr>tc_index = int i, tc_features = f, tc_structure = s\<rparr>)"
proof (cases "int i = tc_index tc")
  case True
  with assms have "compute fe ws (take i cs) = Inr (tc_features tc, tc_structure tc)" by (auto simp: valid_cache_def)
  with True show ?thesis by (simp add: refresh_def)
next
  case False
  then show ?thesis
    by (simp add: refresh_def compute_def Let_def rbind_def split: sum.split)
qed

lemma refresh_valid:
  "compute fe ws (take i cs) = Inr (f, s) \<Longrightarrow> valid_cache fe ws cs \<lparr>tc_index = int i, tc_features = f, tc_structure = s\<rparr>"
  by (auto simp: valid_cache_def)

text \<open>Timestamps are aware and candles close in the order in which they open.\<close>

definition regular :: "candle list \<Rightarrow> bool" where
  "regular cs \<longleftrightarrow> sorted (map close_utc cs) \<and> (\<forall>c \<in> set cs. is_aware (timestamp_close c))"

lemma regular_filter: "regular cs \<Longrightarrow> regular (filter P cs)"
  by (auto simp: regular_def sorted_filter)

lemma closed_upto_take:
  assumes "regular cs"
  shows "\<exists>n. closed_upto cs t = Inr n \<and> n \<le> length cs \<and> take n cs = filter (\<lambda>c. close_utc c \<le> t) cs"
proof -
  have "\<forall>c \<in> set cs. datetime_lt (Aware t) (timestamp_close c) = Inr (t < close_utc c)"
  proof
    fix c assume "c \<in> set cs"
    with assms have "is_aware (timestamp_close c)" by (simp add: regular_def)
    then show "datetime_lt (Aware t) (timestamp_close c) = Inr (t < close_utc c)"
      by (cases "timestamp_close c") (simp_all add: close_utc_def)
  qed
  with assms show ?thesis unfolding closed_upto_def regular_def
    by (intro bisect_take [where key = close_utc]) simp_all
qed

lemma closed_by_earlier: "t \<le> e \<Longrightarrow> filter (\<lambda>c. close_utc c \<le> t) (closed_by e cs) = closed_by t cs"
  by (auto simp: closed_by_def intro: filter_cong)

definition regular_dataset :: "dataset \<Rightarrow> bool" where
  "regular_dataset ds \<longleftrightarrow> (\<forall>tf \<in> {''15m'', ''1h'', ''4h'', ''1d''}. regular (candles_of ds tf))"

lemma closed_upto_at:
  assumes "regular (candles_of ds (py_lower tf))" "t \<le> e"
  shows "\<exists>n. closed_upto (get_closed_candles ds tf (Aware e)) t = Inr n \<and>
    take n (get_closed_candles ds tf (Aware e)) = get_closed_candles ds tf (Aware t) \<and>
    (n > 0) = (get_closed_candles ds tf (Aware t) \<noteq> [])"
proof -
  let ?cs = "get_closed_candles ds tf (Aware e)"
  have "regular ?cs" unfolding get_closed_candles_def closed_by_def by (rule regular_filter [OF assms(1)])
  from closed_upto_take [OF this, of t] obtain n where n: "closed_upto ?cs t = Inr n" "n \<le> length ?cs"
    "take n ?cs = filter (\<lambda>c. close_utc c \<le> t) ?cs" by blast
  moreover from n(3) assms(2) have tk: "take n ?cs = get_closed_candles ds tf (Aware t)"
    by (simp add: get_closed_candles_def closed_by_earlier)
  moreover have "(n > 0) = (take n ?cs \<noteq> [])" using n(2) by auto
  ultimately show ?thesis by metis
qed

lemma cache_loop_pit:
  fixes fe ds unclosed e
  defines "cl \<equiv> \<lambda>tf. get_closed_candles ds tf (Aware e)"
  assumes reg: "regular_dataset ds"
    and steps: "\<forall>d \<in> set steps. \<exists>t. d = Aware t \<and> t \<le> e \<and> get_closed_candles ds ''15m'' (Aware t) \<noteq> []"
    and valid: "valid_cache fe False (cl ''1h'') c1h" "valid_cache fe True (cl ''4h'') c4h" "valid_cache fe False (cl ''1d'') c1d"
  shows "cache_loop fe ds unclosed (cl ''15m'') (cl ''1h'') (cl ''4h'') (cl ''1d'') c1h c4h c1d steps =
    map_result (\<lambda>d. pit_snapshot fe ds unclosed (instant d)) steps"
  using steps valid
proof (induction steps arbitrary: c1h c4h c1d)
  case (Cons d steps)
  from Cons.prems(1) obtain t where t: "d = Aware t" "t \<le> e" "get_closed_candles ds ''15m'' (Aware t) \<noteq> []" by auto
  have idx: "\<exists>n. closed_upto (cl tf) t = Inr n \<and> take n (cl tf) = get_closed_candles ds tf (Aware t) \<and>
      (n > 0) = (get_closed_candles ds tf (Aware t) \<noteq> [])" if "tf \<in> {''15m'', ''1h'', ''4h'', ''1d''}" for tf
    unfolding cl_def using reg that t(2) by (intro closed_upto_at) (auto simp: regular_dataset_def)
  obtain i15 where i15: "closed_upto (cl ''15m'') t = Inr i15" "take i15 (cl ''15m'') = get_closed_candles ds ''15m'' (Aware t)"
    using idx [of "''15m''"] by auto
  obtain i1h where i1h: "closed_upto (cl ''1h'') t = Inr i1h" "take i1h (cl ''1h'') = get_closed_candles ds ''1h'' (Aware t)"
    "(i1h > 0) = (get_closed_candles ds ''1h'' (Aware t) \<noteq> [])" using idx [of "''1h''"] by auto
  obtain i4h where i4h: "closed_upto (cl ''4h'') t = Inr i4h" "take i4h (cl ''4h'') = get_closed_candles ds ''4h'' (Aware t)"
    "(i4h > 0) = (get_closed_candles ds ''4h'' (Aware t) \<noteq> [])" using idx [of "''4h''"] by auto
  obtain i1d where i1d: "closed_upto (cl ''1d'') t = Inr i1d" "take i1d (cl ''1d'') = get_closed_candles ds ''1d'' (Aware t)"
    "(i1d > 0) = (get_closed_candles ds ''1d'' (Aware t) \<noteq> [])" using idx [of "''1d''"] by auto
  note taken = i15(2) i1h(2) i4h(2) i1d(2)
  have rf: "refresh fe False (cl ''1h'') i1h c1h = rbind (compute fe False (get_closed_candles ds ''1h'' (Aware t)))
      (\<lambda>(f, s). Inr \<lparr>tc_index = int i1h, tc_features = f, tc_structure = s\<rparr>)"
    "refresh fe True (cl ''4h'') i4h c4h = rbind (compute fe True (get_closed_candles ds ''4h'' (Aware t)))
      (\<lambda>(f, s). Inr \<lparr>tc_index = int i4h, tc_features = f, tc_structure = s\<rparr>)"
    "refresh fe False (cl ''1d'') i1d c1d = rbind (compute fe False (get_closed_candles ds ''1d'' (Aware t)))
      (\<lambda>(f, s). Inr \<lparr>tc_index = int i1d, tc_features = f, tc_structure = s\<rparr>)"
    using refresh_compute Cons.prems(2-4) taken by metis+
  have ne: "i15 \<noteq> 0" "cl ''15m'' \<noteq> []" using i15(2) t(3) by (metis take0, metis take_Nil)
  note step = ne t(1) require_utc_def is_aware.simps datetime.sel if_True rbind_simps i15 i1h(1,3) i4h(1,3) i1d(1,3) rf
    cache_loop.simps map_result.simps pit_snapshot_def Let_def prod.case
  show ?case
  proof (cases "compute fe False (get_closed_candles ds ''1h'' (Aware t))")
    case (Inl e1)
    then show ?thesis using t(3) by (simp add: step)
  next
    case r1: (Inr p1)
    obtain f1h s1h where p1: "p1 = (f1h, s1h)" by (cases p1)
    show ?thesis
    proof (cases "compute fe True (get_closed_candles ds ''4h'' (Aware t))")
      case (Inl e2)
      then show ?thesis using t(3) r1 p1 by (simp add: step)
    next
      case r2: (Inr p2)
      obtain f4h s4h where p2: "p2 = (f4h, s4h)" by (cases p2)
      show ?thesis
      proof (cases "compute fe False (get_closed_candles ds ''1d'' (Aware t))")
        case (Inl e3)
        then show ?thesis using t(3) r1 p1 r2 p2 by (simp add: step)
      next
        case r3: (Inr p3)
        obtain f1d s1d where p3: "p3 = (f1d, s1d)" by (cases p3)
        have valid': "valid_cache fe False (cl ''1h'') \<lparr>tc_index = int i1h, tc_features = f1h, tc_structure = s1h\<rparr>"
          "valid_cache fe True (cl ''4h'') \<lparr>tc_index = int i4h, tc_features = f4h, tc_structure = s4h\<rparr>"
          "valid_cache fe False (cl ''1d'') \<lparr>tc_index = int i1d, tc_features = f1d, tc_structure = s1d\<rparr>"
          using r1 r2 r3 unfolding p1 p2 p3 by (auto intro!: refresh_valid simp: taken)
        have "\<forall>d \<in> set steps. \<exists>t. d = Aware t \<and> t \<le> e \<and> get_closed_candles ds ''15m'' (Aware t) \<noteq> []"
          using Cons.prems(1) by simp
        from Cons.IH [OF this valid'] show ?thesis using t(3) r1 p1 r2 p2 r3 p3 by (simp add: step)
      qed
    qed
  qed
qed simp

text \<open>The decision instants of a window, and the close times of the unclosed 15 minute candles.\<close>

definition decision_instants :: "dataset \<Rightarrow> int \<Rightarrow> int \<Rightarrow> int list" where
  "decision_instants ds s e =
     filter (\<lambda>t. s \<le> t \<and> t < e) (map close_utc (get_closed_candles ds ''15m'' (Aware e)))"

definition unclosed_times :: "dataset \<Rightarrow> int list" where
  "unclosed_times ds = map close_utc (filter (\<lambda>c. \<not> is_closed c) (candles_of ds ''15m''))"

lemma aware_close: "is_aware (timestamp_close c) \<Longrightarrow> timestamp_close c = Aware (close_utc c)"
  by (cases "timestamp_close c") (simp_all add: close_utc_def)

lemma decision_times_instants:
  assumes "\<forall>c \<in> set cs. is_aware (timestamp_close c)"
  shows "decision_times (Aware s) (Aware e) cs = Inr (map Aware (filter (\<lambda>t. s \<le> t \<and> t < e) (map close_utc cs)))"
proof -
  have "filter_result (\<lambda>c. rbind (datetime_le (Aware s) (timestamp_close c)) (\<lambda>b.
      if b then datetime_lt (timestamp_close c) (Aware e) else Inr False)) cs =
    filter_result (\<lambda>c. Inr (s \<le> close_utc c \<and> close_utc c < e)) cs"
    using assms by (intro filter_result_cong) (simp add: aware_close)
  moreover have "map timestamp_close (filter P cs) = map Aware (map close_utc (filter P cs))" for P
    using assms by (simp add: aware_close)
  ultimately show ?thesis by (simp only: decision_times_def filter_result_Inr rbind_simps filter_map comp_def)
qed

lemma build_cache_pit:
  assumes reg: "regular_dataset ds"
  shows "build_market_snapshot_cache fe ds (Aware s) (Aware e) =
    map_result (pit_snapshot fe ds (unclosed_times ds)) (decision_instants ds s e)"
proof -
  have aware: "\<forall>c \<in> set (candles_of ds ''15m''). is_aware (timestamp_close c)"
    using reg by (simp add: regular_dataset_def regular_def)
  then have "decision_times (Aware s) (Aware e) (get_closed_candles ds ''15m'' (Aware e)) = Inr (map Aware (decision_instants ds s e))"
    unfolding decision_instants_def
    by (intro decision_times_instants) (auto simp: get_closed_candles_def closed_by_def)
  moreover have "map_result (\<lambda>c. require_utc (timestamp_close c)) (filter (\<lambda>c. \<not> is_closed c) (candles_of ds ''15m'')) =
      map_result (\<lambda>c. Inr (close_utc c)) (filter (\<lambda>c. \<not> is_closed c) (candles_of ds ''15m''))"
    using aware by (intro map_result_cong) (auto simp: require_utc_def aware_close)
  moreover have "\<exists>t. d = Aware t \<and> t \<le> e \<and> get_closed_candles ds ''15m'' (Aware t) \<noteq> []"
    if "d \<in> set (map Aware (decision_instants ds s e))" for d
  proof -
    from that obtain c where c: "d = Aware (close_utc c)" "c \<in> set (get_closed_candles ds ''15m'' (Aware e))" "close_utc c < e"
      by (auto simp: decision_instants_def)
    then have "c \<in> set (get_closed_candles ds ''15m'' (Aware (close_utc c)))"
      by (auto simp: get_closed_candles_def closed_by_def)
    with c show ?thesis by (intro exI [of _ "close_utc c"]) auto
  qed
  ultimately show ?thesis
    using cache_loop_pit [OF reg _ empty_cache_valid empty_cache_valid empty_cache_valid]
    by (simp add: build_market_snapshot_cache_def Let_def map_result_pure unclosed_times_def map_result_map comp_def)
qed

section \<open>Later data does not change earlier evidence\<close>

lemma unclosed_hidden:
  assumes "apply_updates us ds = Inr ds'" and "\<forall>u \<in> set us. t < known_at u"
  shows "list_ex (\<lambda>u. u \<le> t) (unclosed_times ds') = list_ex (\<lambda>u. u \<le> t) (unclosed_times ds)"
proof -
  have step: "{c \<in> set (candles_of d' ''15m''). close_utc c \<le> t} = {c \<in> set (candles_of d ''15m''). close_utc c \<le> t}"
    if "apply_update u d = Inr d'" "t < known_at u" for u d d'
    using that by (cases u) (auto simp: candles_of_add_candle candles_of_same add_xau_candle_def add_xau_reference_def
        add_usdt_rate_def add_macro_context_def Let_def add_quote_def add_cycle_3a_def split: if_splits)
  have "{c \<in> set (candles_of ds' ''15m''). close_utc c \<le> t} = {c \<in> set (candles_of ds ''15m''). close_utc c \<le> t}"
    using assms
  proof (induction us arbitrary: ds)
    case (Cons u us)
    then obtain d where "apply_update u ds = Inr d" "apply_updates us d = Inr ds'" by (auto simp: rbind_Inr_iff)
    with Cons.IH [of d] Cons.prems(2) step [of u ds d] show ?case by simp
  qed simp
  then have "(\<exists>c \<in> set (candles_of ds' ''15m''). \<not> is_closed c \<and> close_utc c \<le> t) \<longleftrightarrow>
      (\<exists>c \<in> set (candles_of ds ''15m''). \<not> is_closed c \<and> close_utc c \<le> t)" by blast
  then show ?thesis by (auto simp: unclosed_times_def list_ex_iff)
qed

lemma pit_snapshot_hidden:
  assumes "ordered_dataset ds" "apply_updates us ds = Inr ds'" "\<forall>u \<in> set us. t < known_at u"
  shows "pit_snapshot fe ds' (unclosed_times ds') t = pit_snapshot fe ds (unclosed_times ds) t"
proof -
  from later_updates_hidden [OF assms(1,2), of "Aware t"] assms(3) have v: "same_view (Aware t) ds' ds" by simp
  then have q: "get_closed_candles ds' tf (Aware t) = get_closed_candles ds tf (Aware t)" 
    "get_macro_context ds' (Aware t) = get_macro_context ds (Aware t)" "cycle_at ds' t = cycle_at ds t" for tf
    by (simp_all add: same_view_def cycle_at_def)
  show ?thesis
    unfolding pit_snapshot_def snapshot_from_def q unclosed_hidden [OF assms(2,3)] ..
qed

lemma decision_instants_eq:
  "decision_instants ds s e = filter (\<lambda>t. s \<le> t) (map close_utc (get_closed_candles ds ''15m'' (Aware (e - 1))))"
  by (simp add: decision_instants_def get_closed_candles_def closed_by_def filter_map comp_def)
    (rule arg_cong [where f = "map close_utc"], rule filter_cong, auto)

lemma sorted_window_append:
  fixes e :: int
  assumes "sorted xs" "e \<le> e'"
  shows "filter (\<lambda>t. s \<le> t \<and> t < e') xs = filter (\<lambda>t. s \<le> t \<and> t < e) xs @ filter (\<lambda>t. s \<le> t \<and> e \<le> t \<and> t < e') xs"
  using assms(1)
proof (induction xs)
  case (Cons x xs)
  have "filter (\<lambda>t. s \<le> t \<and> t < e) xs = []" if "e \<le> x" using that Cons.prems by (auto simp: filter_empty_conv)
  with Cons assms(2) show ?case by auto
qed simp

lemma decision_instants_extend:
  assumes "ordered_dataset ds" "apply_updates us ds = Inr ds'" "\<forall>u \<in> set us. e \<le> known_at u"
    and "regular_dataset ds'" "e \<le> e'"
  shows "prefix (decision_instants ds s e) (decision_instants ds' s e')"
proof -
  from later_updates_hidden [OF assms(1,2), of "Aware (e - 1)"] assms(3)
  have "same_view (Aware (e - 1)) ds' ds" by force
  then have old: "decision_instants ds' s e = decision_instants ds s e"
    by (simp add: decision_instants_eq same_view_def)
  have cut: "get_closed_candles ds' ''15m'' (Aware e) = closed_by e (get_closed_candles ds' ''15m'' (Aware e'))"
    using assms(5) by (auto simp: get_closed_candles_def closed_by_def intro: filter_cong)
  have "sorted (map close_utc (get_closed_candles ds' ''15m'' (Aware e')))"
    using assms(4) by (simp add: get_closed_candles_def closed_by_def regular_dataset_def regular_def sorted_filter)
  from sorted_window_append [OF this assms(5), of s]
  have "decision_instants ds' s e' = decision_instants ds' s e @ filter (\<lambda>t. s \<le> t \<and> e \<le> t \<and> t < e')
      (map close_utc (get_closed_candles ds' ''15m'' (Aware e')))"
    using assms(5) by (simp add: decision_instants_def cut closed_by_def get_closed_candles_def filter_map comp_def)
      (rule arg_cong [where f = "map close_utc"], rule filter_cong, auto)
  with old show ?thesis by simp
qed

lemma build_cache_prefix:
  assumes "ordered_dataset ds" "apply_updates us ds = Inr ds'" "\<forall>u \<in> set us. e \<le> known_at u"
    and "regular_dataset ds" "regular_dataset ds'" "e \<le> e'"
    and later: "build_market_snapshot_cache fe ds' (Aware s) (Aware e') = Inr ms'"
  shows "\<exists>ms. build_market_snapshot_cache fe ds (Aware s) (Aware e) = Inr ms \<and> prefix ms ms'"
proof -
  let ?old = "decision_instants ds s e"
  from decision_instants_extend [OF assms(1-3,5,6), of s] obtain rest
    where rest: "decision_instants ds' s e' = ?old @ rest" by (auto simp: prefix_def)
  have "map_result (pit_snapshot fe ds' (unclosed_times ds')) ?old = map_result (pit_snapshot fe ds (unclosed_times ds)) ?old"
  proof (rule map_result_cong)
    fix t assume "t \<in> set ?old"
    then have "t < e" by (auto simp: decision_instants_def)
    then have "\<forall>u \<in> set us. t < known_at u" using assms(3) by force
    from pit_snapshot_hidden [OF assms(1,2) this] show "pit_snapshot fe ds' (unclosed_times ds') t = pit_snapshot fe ds (unclosed_times ds) t" .
  qed
  with later rest show ?thesis
    by (auto simp: build_cache_pit [OF assms(4)] build_cache_pit [OF assms(5)] map_result_append rbind_Inr_iff)
qed

lemma snapshot_regime:
  assumes "pit_snapshot fe ds u t = Inr m" "ms_regime m = Some r"
  shows "rg_regime r = UNKNOWN_REGIME"
proof -
  have "rg_regime (classify_regime (for_xauusd None) f i) = UNKNOWN_REGIME" for f i
    by (simp add: classify_regime_def for_xauusd_def uncalibrated_xauusd_profile_def Let_def)
  with assms show ?thesis
    by (auto simp: pit_snapshot_def Let_def rbind_Inr_iff snapshot_from_def)
qed

section \<open>Properties\<close>

text \<open>
  C13. The optimised cache builder is the naive one: for chronological feeds with aware times the
  loop that keeps the evidence of the 1h, 4h and 1d feeds until a new candle closes, and cuts its
  windows by bisection, returns exactly the snapshots that are computed afresh, at every decision
  instant of the window, from the dataset's point-in-time queries, the errors included.
\<close>

theorem cache_equals_recomputation:
  assumes "regular_dataset ds"
  shows "build_market_snapshot_cache fe ds (Aware s) (Aware e) =
    map_result (pit_snapshot fe ds (unclosed_times ds)) (decision_instants ds s e)"
  using assms by (rule build_cache_pit)

text \<open>
  C1. Evidence and decisions never repaint: build the cache of a longer window from a dataset to
  which data known at \<open>e\<close> or later was added, and the cache of \<open>[s, e)\<close> from the original
  dataset is a prefix of it; a replay of the short cache then returns a prefix of the signals and
  of the trades of a replay of the long one.
\<close>

theorem cached_replay_never_repaints:
  assumes "ordered_dataset ds" "apply_updates us ds = Inr ds'" "\<forall>u \<in> set us. e \<le> known_at u"
    and "regular_dataset ds" "regular_dataset ds'" "e \<le> e'"
    and "build_market_snapshot_cache fe ds' (Aware s) (Aware e') = Inr ms'"
  shows "\<exists>ms. build_market_snapshot_cache fe ds (Aware s) (Aware e) = Inr ms \<and> prefix ms ms' \<and>
    (\<forall>sgs trs sgs' trs'. run_from_cache sha afp host eng n ms = Inr (sgs, trs) \<longrightarrow>
       run_from_cache sha afp host eng n ms' = Inr (sgs', trs') \<longrightarrow> prefix sgs sgs' \<and> prefix trs trs')"
proof -
  from build_cache_prefix [OF assms] obtain ms rest where
    ms: "build_market_snapshot_cache fe ds (Aware s) (Aware e) = Inr ms" "ms' = ms @ rest" by (auto simp: prefix_def)
  then show ?thesis using run_prefix [of sha afp host eng n ms] by auto
qed

text \<open>
  A cached replay never sees a market regime: the builder constructs its regime engine without
  a profile, so every snapshot has no regime or the UNKNOWN one, which earns neither side a
  point of the direction score.
\<close>

theorem cache_regime_unknown:
  assumes "regular_dataset ds" and "build_market_snapshot_cache fe ds (Aware s) (Aware e) = Inr ms" and "m \<in> set ms"
  shows "(\<forall>r. ms_regime m = Some r \<longrightarrow> rg_regime r = UNKNOWN_REGIME) \<and> regime_score side w (ms_regime m) = 0"
proof -
  from assms obtain t where t: "pit_snapshot fe ds (unclosed_times ds) t = Inr m"
    by (auto simp: build_cache_pit map_result_Inr list_all2_conv_all_nth in_set_conv_nth)
  show ?thesis using snapshot_regime [OF t] by (cases "ms_regime m") (auto simp: regime_score_def)
qed

section \<open>Witnesses\<close>

definition sample_bars :: "candle list" where
  "sample_bars = [bar_at 0 900 100 100 96 100, bar_at 900 1800 100 110 98 108]"

definition sample_ds :: dataset where "sample_ds = sample_dataset sample_bars"

definition sample_fe :: feature_engine where "sample_fe ev = Inr sample_features"

lemma sample_ordered [simp]: "ordered_dataset (sample_dataset cs)"
  unfolding sample_dataset_def by (rule make_dataset_ordered)

lemma sample_candles_15: "candles_of sample_ds tf = (if tf = ''15m'' then sample_bars else [])"
  by (simp add: sample_ds_def sample_candles sample_bars_def open_utc_def bar_at_def second_def)

lemma sample_regular: "regular_dataset sample_ds"
  by (simp add: regular_dataset_def sample_candles_15 regular_def sample_bars_def close_utc_def bar_at_def second_def)

text \<open>With less than five candles a timeframe has no evidence, and the snapshot is complete.\<close>

lemma short_history:
  assumes "ordered_dataset ds" "\<forall>tf. length (candles_of ds tf) < 5"
  shows "\<exists>m. pit_snapshot fe ds u t = Inr m \<and> ms_timestamp m = t"
proof -
  have short: "length (get_closed_candles ds tf (Aware t)) < 5" for tf
    using assms(2) by (auto simp: get_closed_candles_def closed_by_def intro: le_less_trans [OF length_filter_le])
  have w: "length (window500 (get_closed_candles ds tf (Aware t))) < 5" for tf
    using short [of tf] by (simp add: window500_def)
  have f: "features_of fe (window500 (get_closed_candles ds tf (Aware t))) = Inr None"
    "structure_of (window500 (get_closed_candles ds tf (Aware t))) x = Inr None" for tf x
    using w [of tf] by (simp_all add: features_of_def structure_of_def)
  show ?thesis
    by (simp add: pit_snapshot_def compute_def f Let_def snapshot_from_def macro_lookup [OF assms(1)])
qed

theorem cache_equals_recomputation_witness:
  "build_market_snapshot_cache sample_fe sample_ds (Aware 0) (Aware (2000 * second)) =
     map_result (pit_snapshot sample_fe sample_ds []) [900 * second, 1800 * second]"
proof -
  have "decision_instants sample_ds 0 (2000 * second) = [900 * second, 1800 * second]" "unclosed_times sample_ds = []"
    by (simp_all add: decision_instants_def unclosed_times_def get_closed_candles_def closed_by_def sample_candles_15
        sample_bars_def close_utc_def bar_at_def second_def)
  with cache_equals_recomputation [OF sample_regular, of sample_fe 0 "2000 * second"] show ?thesis by simp
qed

lemma sample_updates:
  "\<exists>ds'. apply_updates [NewCandle ''15m'' (bar_at 1800 2700 108 110 100 104)] sample_ds = Inr ds' \<and>
     regular_dataset ds' \<and> ordered_dataset ds' \<and> (\<forall>tf. length (candles_of ds' tf) < 5) \<and>
     decision_instants ds' 0 (3000 * second) = [900 * second, 1800 * second, 2700 * second]"
proof -
  let ?c = "bar_at 1800 2700 108 110 100 104"
  have c: "candles_of (add_candle ''15m'' ?c sample_ds) tf = (if tf = ''15m'' then sample_bars @ [?c] else [])" for tf
    by (simp add: candles_of_add_candle sample_candles_15 add_sorted_def sample_bars_def open_utc_def bar_at_def second_def)
  then have "regular_dataset (add_candle ''15m'' ?c sample_ds)" "\<forall>tf. length (candles_of (add_candle ''15m'' ?c sample_ds) tf) < 5"
    by (simp_all add: regular_dataset_def regular_def sample_bars_def close_utc_def bar_at_def second_def)
  moreover have "ordered_dataset (add_candle ''15m'' ?c sample_ds)"
    by (rule apply_update_ordered [of sample_ds "NewCandle ''15m'' ?c"]) (simp_all add: sample_ds_def)
  moreover have "decision_instants (add_candle ''15m'' ?c sample_ds) 0 (3000 * second) =
      [900 * second, 1800 * second, 2700 * second]"
    unfolding decision_instants_def get_closed_candles_def py_lower_timeframes c closed_by_def
    by (simp add: sample_bars_def close_utc_def bar_at_def second_def)
  ultimately show ?thesis by simp
qed

lemma sample_build:
  assumes "ordered_dataset ds" "regular_dataset ds" "\<forall>tf. length (candles_of ds tf) < 5"
  shows "\<exists>ms. build_market_snapshot_cache fe ds (Aware s) (Aware e) = Inr ms \<and> map ms_timestamp ms = decision_instants ds s e"
proof -
  have "\<exists>ms. map_result (pit_snapshot fe ds u) ts = Inr ms \<and> map ms_timestamp ms = ts" for u ts
  proof (induction ts)
    case (Cons t ts)
    with short_history [OF assms(1,3), of fe u t] show ?case by auto
  qed simp
  then show ?thesis by (simp add: build_cache_pit [OF assms(2)])
qed

theorem cached_replay_never_repaints_witness:
  "\<exists>ds' ms ms'. apply_updates [NewCandle ''15m'' (bar_at 1800 2700 108 110 100 104)] sample_ds = Inr ds' \<and>
     build_market_snapshot_cache sample_fe sample_ds (Aware 0) (Aware (2000 * second)) = Inr ms \<and>
     build_market_snapshot_cache sample_fe ds' (Aware 0) (Aware (3000 * second)) = Inr ms' \<and>
     length ms' = 3 \<and> prefix ms ms'"
proof -
  obtain ds' where ds': "apply_updates [NewCandle ''15m'' (bar_at 1800 2700 108 110 100 104)] sample_ds = Inr ds'"
    "regular_dataset ds'" "ordered_dataset ds'" "\<forall>tf. length (candles_of ds' tf) < 5"
    "decision_instants ds' 0 (3000 * second) = [900 * second, 1800 * second, 2700 * second]"
    using sample_updates by (elim exE conjE) (rule that)
  obtain ms' where ms': "build_market_snapshot_cache sample_fe ds' (Aware 0) (Aware (3000 * second)) = Inr ms'"
    "map ms_timestamp ms' = decision_instants ds' 0 (3000 * second)"
    using sample_build [OF ds'(3,2,4), of sample_fe 0 "3000 * second"] by (elim exE conjE) (rule that)
  have n: "length ms' = 3" using arg_cong [OF ms'(2), of length] ds'(5) by simp
  have o: "ordered_dataset sample_ds" by (simp add: sample_ds_def)
  have late: "\<forall>u \<in> set [NewCandle ''15m'' (bar_at 1800 2700 108 110 100 104)]. 2000 * second \<le> known_at u"
    by (simp add: close_utc_def bar_at_def second_def)
  have "2000 * second \<le> 3000 * second" by (simp add: second_def)
  from cached_replay_never_repaints [OF o ds'(1) late sample_regular ds'(2) this ms'(1), where sha = sample_digest
      and afp = "\<lambda>_. ''p4''" and host = "\<lambda>_. 0" and eng = sample_replay and n = 0] obtain ms
    where "build_market_snapshot_cache sample_fe sample_ds (Aware 0) (Aware (2000 * second)) = Inr ms" "prefix ms ms'"
    by (elim exE conjE) (rule that)
  with ds'(1) ms'(1) n show ?thesis by (intro exI conjI)
qed

theorem cache_regime_unknown_witness:
  "\<exists>ms. build_market_snapshot_cache sample_fe sample_ds (Aware 0) (Aware (2000 * second)) = Inr ms \<and> length ms = 2 \<and>
     (\<forall>m \<in> set ms. regime_score SIG_LONG 15 (ms_regime m) = 0)"
proof -
  have "\<forall>tf. length (candles_of sample_ds tf) < 5" by (simp add: sample_candles_15 sample_bars_def)
  from sample_build [OF _ sample_regular this, of sample_fe 0 "2000 * second"] obtain ms
    where ms: "build_market_snapshot_cache sample_fe sample_ds (Aware 0) (Aware (2000 * second)) = Inr ms"
      "map ms_timestamp ms = decision_instants sample_ds 0 (2000 * second)" by (auto simp: sample_ds_def)
  have "length (decision_instants sample_ds 0 (2000 * second)) = 2"
    by (simp add: decision_instants_def get_closed_candles_def closed_by_def sample_candles_15
        sample_bars_def close_utc_def bar_at_def second_def)
  then have "length ms = 2" using ms(2) by (metis length_map)
  then show ?thesis using ms(1) cache_regime_unknown [OF sample_regular ms(1)] by blast
qed

end
