(* ===== verification/Direct_Replay.thy ===== *)
theory Direct_Replay
  imports Market_Cache
begin

text \<open>
  \<open>XauUsdPointInTimeReplay.run\<close> of \<open>engine/backtest/xauusd_replay.py\<close>: the replay without a
  precomputed cache, which queries the dataset, computes the evidence and asks the engines at
  every step of a clock; and its agreement with the cached replay.
\<close>

section \<open>Evidence\<close>

text \<open>
  The evidence in the order in which \<open>run\<close> computes it, as a snapshot. Its candle and its ATR are
  not read by the direct replay, which passes all closed candles and computes the ATR itself.
\<close>

definition run_evidence ::
  "feature_engine \<Rightarrow> regime_profile \<Rightarrow> dataset \<Rightarrow> int list \<Rightarrow> int \<Rightarrow> market_snapshot result" where
  "run_evidence fe rp ds unclosed t =
     (let cl = (\<lambda>tf. get_closed_candles ds tf (Aware t)) in
      rbind (get_macro_context ds (Aware t)) (\<lambda>macro.
      rbind (features_of fe (window500 (cl ''15m''))) (\<lambda>f15.
      rbind (structure_of (window500 (cl ''15m'')) f15) (\<lambda>s15.
      rbind (features_of fe (window500 (cl ''1h''))) (\<lambda>f1h.
      rbind (features_of fe (window500 (cl ''4h''))) (\<lambda>f4h.
      rbind (features_of fe (window500 (cl ''1d''))) (\<lambda>f1d.
      rbind (structure_of (window500 (cl ''4h'')) f4h) (\<lambda>s4h.
        Inr \<lparr>ms_timestamp = t, ms_candle = last (cl ''15m''), ms_features_15m = f15, ms_features_1h = f1h,
             ms_features_4h = f4h, ms_features_1d = f1d,
             ms_regime = map_option (\<lambda>f. classify_regime rp f (Some ''XAUUSD'')) f15,
             ms_structure_15m = s15, ms_structure_4h = s4h,
             ms_atr14 = (case f15 of Some f \<Rightarrow> map_option Fin (atr14 f) | None \<Rightarrow> None),
             ms_health = replay_health (cl ''15m'' \<noteq> []) (cl ''1h'' \<noteq> []) (cl ''4h'' \<noteq> []) (cl ''1d'' \<noteq> [])
               macro (cycle_at ds t) f15 (list_ex (\<lambda>u. u \<le> t) unclosed),
             ms_cycle = cycle_at ds t\<rparr>))))))))"

text \<open>The request with all closed candles of every timeframe.\<close>

definition run_request :: "replay_engine \<Rightarrow> dataset \<Rightarrow> market_snapshot \<Rightarrow> signal_request" where
  "run_request eng ds ms =
     (let cl = (\<lambda>tf. get_closed_candles ds tf (Aware (ms_timestamp ms))) in
      (replay_request eng ms)\<lparr>sr_15m := cl ''15m'', sr_1h := some_list (cl ''1h''), sr_4h := some_list (cl ''4h''),
        sr_1d := some_list (cl ''1d'')\<rparr>)"

text \<open>\<open>calculate_atr(highs, lows, closes, 14) if len(closed_15m) >= 15 else None\<close>, on raw closes.\<close>

definition run_atr :: "dataset \<Rightarrow> int \<Rightarrow> rat option result" where
  "run_atr ds t =
     (let cs = get_closed_candles ds ''15m'' (Aware t) in
      if length cs < 15 then Inr None
      else if \<not> list_all (\<lambda>c. finite_range c \<and> finite_num (c_close c)) cs then Inl NonFiniteOperand
      else calculate_atr (map bar_high cs) (map bar_low cs) (map (\<lambda>c. num_value (c_close c)) cs) 14)"

section \<open>The run\<close>

text \<open>The replay reads its raw candles and quotes from the dataset.\<close>

definition bind_dataset :: "dataset \<Rightarrow> replay_engine \<Rightarrow> replay_engine" where
  "bind_dataset ds eng = eng\<lparr>re_15m := candles_of ds ''15m'', re_5m := candles_of ds ''5m'',
     re_1m := candles_of ds ''1m'', re_quotes := ds_quotes ds\<rparr>"

fun run_steps ::
  "digest \<Rightarrow> (signal_decision \<Rightarrow> string) \<Rightarrow> (int \<Rightarrow> int) \<Rightarrow> feature_engine \<Rightarrow> regime_profile \<Rightarrow> dataset \<Rightarrow> replay_engine \<Rightarrow>
    int list \<Rightarrow> nat \<Rightarrow> int list \<Rightarrow> (signal_snapshot list \<times> sim_trade list) result" where
  "run_steps sha afp host fe rp ds eng unclosed n [] = Inr ([], [])"
| "run_steps sha afp host fe rp ds eng unclosed n (t # ts) =
     (if (case re_end eng of Some e \<Rightarrow> t \<ge> e | None \<Rightarrow> False) then Inr ([], [])
      else rbind (run_evidence fe rp ds unclosed t) (\<lambda>ms.
        rbind (analyze sha (run_request eng ds ms)) (\<lambda>d.
        let sg = signal_of afp eng d in
        case triggered_side sg of
          None \<Rightarrow> rbind (run_steps sha afp host fe rp ds eng unclosed n ts) (\<lambda>(sgs, trs). Inr (sg # sgs, trs))
        | Some side \<Rightarrow>
            rbind (run_atr ds t) (\<lambda>atr.
            rbind (simulate_side sha host eng side sg (ms\<lparr>ms_atr14 := map_option Fin atr\<rparr>) (trade_id side (n + 1) t)) (\<lambda>tr.
            rbind (run_steps sha afp host fe rp ds eng unclosed (n + 1) ts) (\<lambda>(sgs, trs). Inr (sg # sgs, tr # trs)))))))"

definition run_replay ::
  "digest \<Rightarrow> (signal_decision \<Rightarrow> string) \<Rightarrow> (int \<Rightarrow> int) \<Rightarrow> feature_engine \<Rightarrow> regime_profile \<Rightarrow> dataset \<Rightarrow> replay_engine \<Rightarrow>
    int list \<Rightarrow> market_snapshot list option \<Rightarrow> (signal_snapshot list \<times> sim_trade list) result" where
  "run_replay sha afp host fe rp ds eng clock cache =
     (let eng' = bind_dataset ds eng in
      case cache of
        Some snapshots \<Rightarrow> run_from_cache sha afp host eng' 0 snapshots
      | None \<Rightarrow>
          rbind (map_result (\<lambda>c. require_utc (timestamp_close c)) (filter (\<lambda>c. \<not> is_closed c) (candles_of ds ''15m''))) (\<lambda>unclosed.
            run_steps sha afp host fe rp ds eng' unclosed 0 clock))"

lemmas [eval_defs] = run_evidence_def run_request_def run_atr_def bind_dataset_def run_replay_def

section \<open>The run is a driver\<close>

definition run_signal ::
  "digest \<Rightarrow> (signal_decision \<Rightarrow> string) \<Rightarrow> feature_engine \<Rightarrow> regime_profile \<Rightarrow> dataset \<Rightarrow> replay_engine \<Rightarrow>
    int list \<Rightarrow> int \<Rightarrow> signal_snapshot result" where
  "run_signal sha afp fe rp ds eng unclosed t =
     rbind (run_evidence fe rp ds unclosed t) (\<lambda>ms.
     rbind (analyze sha (run_request eng ds ms)) (\<lambda>d. Inr (signal_of afp eng d)))"

definition run_trade ::
  "digest \<Rightarrow> (int \<Rightarrow> int) \<Rightarrow> feature_engine \<Rightarrow> regime_profile \<Rightarrow> dataset \<Rightarrow> replay_engine \<Rightarrow> int list \<Rightarrow>
    int \<Rightarrow> risk_side \<Rightarrow> signal_snapshot \<Rightarrow> string \<Rightarrow> sim_trade result" where
  "run_trade sha host fe rp ds eng unclosed t side sg i =
     rbind (run_evidence fe rp ds unclosed t) (\<lambda>ms.
     rbind (run_atr ds t) (\<lambda>atr. simulate_side sha host eng side sg (ms\<lparr>ms_atr14 := map_option Fin atr\<rparr>) i))"

lemma run_steps_drive:
  "run_steps sha afp host fe rp ds eng unclosed n ts =
     drive (\<lambda>t. t) (\<lambda>_. False) (\<lambda>t. \<not> before_end (re_end eng) t) (run_signal sha afp fe rp ds eng unclosed)
       (run_trade sha host fe rp ds eng unclosed) n ts"
proof (induction ts arbitrary: n)
  case (Cons t ts)
  have e: "(case re_end eng of Some e \<Rightarrow> t \<ge> e | None \<Rightarrow> False) = (\<not> before_end (re_end eng) t)"
    by (auto simp: before_end_def split: option.splits)
  show ?case
  proof (cases "run_evidence fe rp ds unclosed t")
    case (Inl err)
    then show ?thesis by (simp add: e run_signal_def)
  next
    case (Inr ms)
    then show ?thesis
      unfolding run_steps.simps drive.simps Cons.IH e Let_def run_signal_def run_trade_def
      by (cases "analyze sha (run_request eng ds ms)"; cases "run_atr ds t") (simp_all split: option.split)
  qed
qed simp

lemma run_evidence_time: "run_evidence fe rp ds u t = Inr ms \<Longrightarrow> ms_timestamp ms = t"
  by (auto simp: run_evidence_def Let_def rbind_Inr_iff)

lemma run_request_time: "sr_as_of (run_request eng ds ms) = Some (Aware (ms_timestamp ms))"
  by (simp add: run_request_def replay_request_def Let_def)

interpretation direct: replay_driver "\<lambda>t. t" "\<lambda>_. False" "\<lambda>t. \<not> before_end (re_end eng) t" "re_end eng"
  "run_signal sha afp fe rp ds eng unclosed" "run_trade sha host fe rp ds eng unclosed" for eng sha afp host fe rp ds unclosed
proof
  show "sg_timestamp sg = Aware t \<and> sg_decision sg = WAIT"
    if s: "run_signal sha afp fe rp ds eng unclosed t = Inr sg" for t sg
  proof -
    from s obtain ms d where "run_evidence fe rp ds unclosed t = Inr ms" "analyze sha (run_request eng ds ms) = Inr d"
      "sg = signal_of afp eng d" by (auto simp: run_signal_def rbind_Inr_iff)
    then show ?thesis
      using analyze_time [OF _ run_request_time] run_evidence_time by (auto simp: signal_of_def)
  qed
  show "trade_of side sg i tr \<and> (re_end eng = Some e \<and> t < e \<longrightarrow> dependency_end tr \<le> e)"
    if r: "run_trade sha host fe rp ds eng unclosed t side sg i = Inr tr" and t: "sg_timestamp sg = Aware t" for t side sg i tr e
  proof -
    from r obtain ms atr where ms: "run_evidence fe rp ds unclosed t = Inr ms"
      "simulate_side sha host eng side sg (ms\<lparr>ms_atr14 := map_option Fin atr\<rparr>) i = Inr tr"
      by (auto simp: run_trade_def rbind_Inr_iff)
    from simulate_side_trade [OF ms(2), of e] run_evidence_time [OF ms(1)] t show ?thesis by simp
  qed
  show "u < e" if "re_end eng = Some e" "\<not> \<not> before_end (re_end eng) u" for u e
    using that by (simp add: before_end_def)
qed

section \<open>Agreement with the cached replay\<close>

lemma run_evidence_pit: "run_evidence fe (for_xauusd None) ds u t = Inr ms \<longleftrightarrow> pit_snapshot fe ds u t = Inr ms"
  by (auto simp: run_evidence_def pit_snapshot_def compute_def snapshot_from_def Let_def rbind_Inr_iff)

lemma pit_snapshot_candle: "pit_snapshot fe ds u t = Inr ms \<Longrightarrow>
    ms_timestamp ms = t \<and> ms_candle ms = last (get_closed_candles ds ''15m'' (Aware t))"
  by (auto simp: pit_snapshot_def snapshot_from_def Let_def rbind_Inr_iff)

lemma closed_walk: "pit_walk t (closed_by t cs) = (closed_by t cs, False)"
  by (auto simp: pit_walk_filter closed_by_def close_utc_def intro: filter_cong)

text \<open>The candles the direct replay passes beside the last one do not change the analysis.\<close>

lemma run_analysis:
  assumes "get_closed_candles ds ''15m'' (Aware t) \<noteq> []" "ms_timestamp ms = t"
    "ms_candle ms = last (get_closed_candles ds ''15m'' (Aware t))"
  shows "analyze sha (run_request eng ds ms) = analyze sha (replay_request eng ms)"
proof -
  let ?c15 = "get_closed_candles ds ''15m'' (Aware t)" and ?a = "run_request eng ds ms" and ?b = "replay_request eng ms"
  have "last ?c15 \<in> set ?c15" using assms(1) by simp
  then have l: "is_closed (last ?c15)" "close_utc (last ?c15) \<le> t"
    by (auto simp: get_closed_candles_def closed_by_def)
  have w: "filter_pit_candles (some_list (get_closed_candles ds tf (Aware t))) (Aware t) = (get_closed_candles ds tf (Aware t), False)" for tf
    by (simp add: some_list_def filter_pit_candles_def get_closed_candles_def closed_walk)
  have "pit_context ?a t = (?c15, False)"
    using w [of "''1h''"] w [of "''4h''"] w [of "''1d''"] assms(2)
    by (simp add: pit_context_def run_request_def Let_def filter_pit_candles_def get_closed_candles_def closed_walk)
  moreover have "pit_context ?b t = ([last ?c15], False)"
    using l assms(3) by (simp add: pit_context_def replay_request_def filter_pit_candles_def close_utc_def Let_def)
  moreover have "decision_timestamp (sr_15m ?a) (sr_as_of ?a) = Inr t" "decision_timestamp (sr_15m ?b) (sr_as_of ?b) = Inr t"
    using assms(2) by (simp_all add: decision_timestamp_def run_request_def replay_request_def Let_def)
  moreover have "sr_instrument ?a = sr_instrument ?b" "profile_of ?a = profile_of ?b" "sr_health ?a = sr_health ?b"
    "direction_evidence_of ?a = direction_evidence_of ?b" "timing_evidence_of ?a = timing_evidence_of ?b"
    "sr_timeframe ?a = sr_timeframe ?b"
    by (simp_all add: run_request_def replay_request_def Let_def profile_of_def direction_evidence_of_def timing_evidence_of_def)
  ultimately show ?thesis using assms(1) unfolding analyze_def by (simp add: rbind_def Let_def)
qed

lemma drive_same_signals:
  assumes "list_all2 (\<lambda>x y. time x = time' y \<and> skip (time x) = skip' (time' y) \<and> (\<forall>sg. signal x = Inr sg \<longrightarrow> signal' y = Inr sg)) xs ys"
    and "drive time skip stop signal trade n xs = Inr (sgs, trs)"
    and "drive time' skip' stop signal' trade' n ys = Inr (sgs', trs')"
  shows "sgs = sgs'"
  using assms
proof (induction xs ys arbitrary: n sgs trs sgs' trs' rule: list_all2_induct)
  case (Cons x xs y ys)
  from Cons.hyps(1) have t: "time x = time' y" "skip (time x) = skip' (time' y)" and sg: "\<And>sg. signal x = Inr sg \<Longrightarrow> signal' y = Inr sg" by auto
  from Cons.prems(1) show ?case
  proof (cases rule: drive_step)
    case skip
    from Cons.prems(2) skip(1) t have "drive time' skip' stop signal' trade' n ys = Inr (sgs', trs')"
      by (cases rule: drive_step) simp_all
    with skip(2) show ?thesis by (rule Cons.IH)
  next
    case stop
    with Cons.prems(2) t show ?thesis by (cases rule: drive_step) simp_all
  next
    case (quiet g ss)
    from Cons.prems(2) quiet(1-4) t sg [OF quiet(3)] obtain ss' ts' where "sgs' = g # ss'"
      "drive time' skip' stop signal' trade' n ys = Inr (ss', ts')" by (cases rule: drive_step) auto
    with Cons.IH [OF quiet(6)] quiet(5) show ?thesis by simp
  next
    case (trade g side tr ss ts)
    from Cons.prems(2) trade(1-4) t sg [OF trade(3)] obtain ss' ts' where "sgs' = g # ss'"
      "drive time' skip' stop signal' trade' (n + 1) ys = Inr (ss', ts')" by (cases rule: drive_step) auto
    with Cons.IH [OF trade(8)] trade(5) show ?thesis by simp
  qed
qed simp

lemma trade_for_ids:
  "list_all2 trade_for xs trs \<Longrightarrow>
     map tr_id trs = map (\<lambda>(k, sg). trade_id (the (triggered_side sg)) k (signal_time sg)) xs"
proof (induction xs trs rule: list_all2_induct)
  case (Cons x xs t ts)
  obtain k sg where x: "x = (k, sg)" by (cases x)
  from Cons.hyps(1) obtain side where "triggered_side sg = Some side" "tr_id t = trade_id side k (signal_time sg)"
    unfolding x trade_for_def trade_of_def prod.case by (elim exE conjE) (rule that)
  with Cons.IH show ?case by (simp add: x)
qed simp

lemma regular_unclosed:
  assumes "regular_dataset ds"
  shows "map_result (\<lambda>c. require_utc (timestamp_close c)) (filter (\<lambda>c. \<not> is_closed c) (candles_of ds ''15m'')) =
    Inr (unclosed_times ds)"
proof -
  have "\<forall>c \<in> set (candles_of ds ''15m''). is_aware (timestamp_close c)"
    using assms by (simp add: regular_dataset_def regular_def)
  then have "map_result (\<lambda>c. require_utc (timestamp_close c)) (filter (\<lambda>c. \<not> is_closed c) (candles_of ds ''15m'')) =
      map_result (\<lambda>c. Inr (close_utc c)) (filter (\<lambda>c. \<not> is_closed c) (candles_of ds ''15m''))"
    by (intro map_result_cong) (auto simp: require_utc_def aware_close)
  then show ?thesis by (simp add: map_result_pure unclosed_times_def)
qed

lemma decision_instant_closed:
  assumes "t \<in> set (decision_instants ds s e)"
  shows "s \<le> t \<and> t < e \<and> get_closed_candles ds ''15m'' (Aware t) \<noteq> []"
proof -
  from assms obtain c where "c \<in> set (get_closed_candles ds ''15m'' (Aware e))" "t = close_utc c" "s \<le> t" "t < e"
    by (auto simp: decision_instants_def)
  then have "c \<in> set (get_closed_candles ds ''15m'' (Aware t))" by (auto simp: get_closed_candles_def closed_by_def)
  then show ?thesis using \<open>s \<le> t\<close> \<open>t < e\<close> by auto
qed

lemma direct_shape:
  assumes "run_replay sha afp host fe rp ds eng clock None = Inr (sgs, trs)"
  shows "map signal_time sgs = takeWhile (before_end (re_end eng)) clock \<and> (\<forall>sg \<in> set sgs. sg_decision sg = WAIT) \<and>
    list_all2 trade_for (enumerate 1 (triggered sgs)) trs \<and> distinct (map tr_id trs) \<and>
    (\<forall>e. re_end eng = Some e \<longrightarrow> (\<forall>t \<in> set trs. tr_signal_ts t < e \<and> dependency_end t \<le> e))"
proof -
  have e: "re_end (bind_dataset ds eng) = re_end eng" by (simp add: bind_dataset_def)
  from assms obtain unclosed where "run_steps sha afp host fe rp ds (bind_dataset ds eng) unclosed 0 clock = Inr (sgs, trs)"
    by (auto simp: run_replay_def Let_def rbind_Inr_iff)
  note shape = direct.driven [OF this [unfolded run_steps_drive], unfolded direct.times_def e]
  from shape have "list_all2 trade_for (enumerate (0 + 1) (triggered sgs)) trs" by blast
  from conjunct1 [OF enumerated_ids [OF this]] shape show ?thesis by simp
qed

section \<open>Properties\<close>

text \<open>
  The direct replay is as disciplined as the cached one: it evaluates the clock up to the end
  of the run, publishes only WAIT, resolves exactly one trade per triggered signal under a
  unique identifier, and no trade depends on evidence beyond the end.
\<close>

theorem direct_replay_disciplined:
  assumes "run_replay sha afp host fe rp ds eng clock None = Inr (sgs, trs)"
  shows "map signal_time sgs = takeWhile (before_end (re_end eng)) clock \<and> (\<forall>sg \<in> set sgs. sg_decision sg = WAIT) \<and>
    list_all2 trade_for (enumerate 1 (triggered sgs)) trs \<and> distinct (map tr_id trs) \<and>
    (\<forall>e. re_end eng = Some e \<longrightarrow> (\<forall>t \<in> set trs. tr_signal_ts t < e \<and> dependency_end t \<le> e))"
  by (rule direct_shape [OF assms])

text \<open>
  C9. The cached replay decides what the direct one decides: over the decision instants of a
  chronological dataset, with the default regime engine, both emit the same signals, and trades
  with the same identifiers, whatever the feature engine is.
\<close>

theorem cached_replay_same_signals:
  assumes reg: "regular_dataset ds" and build: "build_market_snapshot_cache fe ds (Aware s) (Aware e) = Inr ms"
    and start: "case re_start eng of Some x \<Rightarrow> x \<le> s | None \<Rightarrow> True"
    and direct: "run_replay sha afp host fe (for_xauusd None) ds eng (decision_instants ds s e) None = Inr (sgs, trs)"
    and cached: "run_replay sha afp host fe rp ds eng clock (Some ms) = Inr (sgs', trs')"
  shows "sgs' = sgs \<and> map tr_id trs' = map tr_id trs"
proof -
  let ?eng = "bind_dataset ds eng" and ?u = "unclosed_times ds" and ?skip = "\<lambda>t. case re_start eng of Some s \<Rightarrow> t < s | None \<Rightarrow> False"
  have re: "re_start ?eng = re_start eng" "re_end ?eng = re_end eng" by (simp_all add: bind_dataset_def)
  from direct have d: "drive (\<lambda>t. t) (\<lambda>_. False) (\<lambda>t. \<not> before_end (re_end eng) t) (run_signal sha afp fe (for_xauusd None) ds ?eng ?u)
      (run_trade sha host fe (for_xauusd None) ds ?eng ?u) 0 (decision_instants ds s e) = Inr (sgs, trs)"
    by (simp add: run_replay_def regular_unclosed [OF reg] run_steps_drive re Let_def)
  from cached have c: "drive ms_timestamp ?skip (\<lambda>t. \<not> before_end (re_end eng) t) (cached_signal sha afp ?eng)
      (\<lambda>ms side sg i. simulate_side sha host ?eng side sg ms i) 0 ms = Inr (sgs', trs')"
    by (simp add: run_replay_def run_from_cache_drive re Let_def)
  have "list_all2 (\<lambda>t m. t = ms_timestamp m \<and> False = ?skip (ms_timestamp m) \<and>
      (\<forall>sg. run_signal sha afp fe (for_xauusd None) ds ?eng ?u t = Inr sg \<longrightarrow> cached_signal sha afp ?eng m = Inr sg))
    (decision_instants ds s e) ms"
  proof (rule list.rel_mono_strong [of "\<lambda>t m. pit_snapshot fe ds ?u t = Inr m"])
    show "list_all2 (\<lambda>t m. pit_snapshot fe ds ?u t = Inr m) (decision_instants ds s e) ms"
      using build by (simp add: build_cache_pit [OF reg] map_result_Inr)
  next
    fix t m
    assume t: "t \<in> set (decision_instants ds s e)" and m: "pit_snapshot fe ds ?u t = Inr m"
    note cl = decision_instant_closed [OF t] and mc = pit_snapshot_candle [OF m]
    have "run_evidence fe (for_xauusd None) ds ?u t = Inr m" using m by (simp add: run_evidence_pit)
    moreover have "analyze sha (run_request ?eng ds m) = analyze sha (replay_request ?eng m)"
      using cl mc by (intro run_analysis [where t = t]) simp_all
    ultimately have "run_signal sha afp fe (for_xauusd None) ds ?eng ?u t = cached_signal sha afp ?eng m"
      by (simp add: run_signal_def cached_signal_def)
    then show "t = ms_timestamp m \<and> False = ?skip (ms_timestamp m) \<and>
      (\<forall>sg. run_signal sha afp fe (for_xauusd None) ds ?eng ?u t = Inr sg \<longrightarrow> cached_signal sha afp ?eng m = Inr sg)"
      using cl mc start by (auto split: option.splits)
  qed
  from drive_same_signals [where time = "\<lambda>t. t" and skip = "\<lambda>_. False", OF this d c] have sg: "sgs = sgs'" .
  have "list_all2 trade_for (enumerate 1 (triggered sgs)) trs"
    using direct.driven [where eng = ?eng, unfolded re, OF d] by simp
  moreover have "list_all2 trade_for (enumerate 1 (triggered sgs')) trs'"
    using cached.driven [where eng = ?eng, unfolded re, OF c] by simp
  ultimately show ?thesis using sg by (simp add: trade_for_ids)
qed

text \<open>
  The two replays do not plan alike on a short history: with 15 to 19 closed candles the
  direct replay computes an ATR from them, while the snapshot of the cached one, whose features
  need 20 candles, has none, so that it rejects every plan.
\<close>

theorem short_history_atr_differs:
  assumes "15 \<le> length (get_closed_candles ds ''15m'' (Aware t))" "length (get_closed_candles ds ''15m'' (Aware t)) < 20"
    and "run_atr ds t = Inr atr" and "pit_snapshot fe ds u t = Inr m"
  shows "(\<exists>a. atr = Some a) \<and> ms_atr14 m = None"
proof -
  have "length (window500 (get_closed_candles ds ''15m'' (Aware t))) < 20"
    using assms(2) by (simp add: window500_def)
  then have "features_of fe (window500 (get_closed_candles ds ''15m'' (Aware t))) = Inr None" by (simp add: features_of_def)
  with assms(4) have "ms_atr14 m = None"
    by (auto simp: pit_snapshot_def snapshot_from_def Let_def rbind_Inr_iff)
  moreover from assms(1,3) have "\<exists>a. atr = Some a"
    by (auto simp: run_atr_def calculate_atr_def Let_def rbind_Inr_iff split: if_splits)
  ultimately show ?thesis by blast
qed

section \<open>Witnesses\<close>

lemma drive_quiet:
  assumes "\<forall>x \<in> set xs. \<exists>sg. signal x = Inr sg \<and> triggered_side sg = None"
  shows "\<exists>sgs. drive time skip stop signal trade n xs = Inr (sgs, [])"
  using assms
proof (induction xs arbitrary: n)
  case (Cons x xs)
  from Cons.prems obtain sg where sg: "signal x = Inr sg" "triggered_side sg = None" by auto
  from Cons.prems have "\<forall>y \<in> set xs. \<exists>sg. signal y = Inr sg \<and> triggered_side sg = None" by simp
  from Cons.IH [OF this] obtain sgs where "drive time skip stop signal trade n xs = Inr (sgs, [])" by blast
  with sg show ?case by (cases "skip (time x)"; cases "stop (time x)") auto
qed simp

definition idle_engine :: replay_engine where
  "idle_engine = sample_replay\<lparr>re_profile := None\<rparr>"

lemma sample_snapshots:
  assumes "t \<in> {900 * second, 1800 * second}"
  shows "\<exists>m. pit_snapshot fe sample_ds u t = Inr m \<and> evident m \<and> get_closed_candles sample_ds ''15m'' (Aware t) \<noteq> []"
proof -
  have "\<forall>tf. length (candles_of sample_ds tf) < 5" by (simp add: sample_candles_15 sample_bars_def)
  from short_history [OF _ this, of fe u t] obtain m where m: "pit_snapshot fe sample_ds u t = Inr m" by (auto simp: sample_ds_def)
  have "get_closed_candles sample_ds ''15m'' (Aware t) = take (if t = 900 * second then 1 else 2) sample_bars"
    using assms by (auto simp: get_closed_candles_def closed_by_def sample_candles_15 sample_bars_def close_utc_def bar_at_def second_def)
  with m pit_snapshot_candle [OF m] assms show ?thesis
    by (auto simp: evident_def sample_bars_def bar_at_def second_def finite_candle_def)
qed

lemma sample_instants: "decision_instants sample_ds 0 (2000 * second) = [900 * second, 1800 * second]"
  by (simp add: decision_instants_def get_closed_candles_def closed_by_def sample_candles_15
      sample_bars_def close_utc_def bar_at_def second_def)

lemma uncalibrated_direct_run:
  assumes "re_profile eng = None"
  shows "\<exists>sgs. run_replay sample_digest (\<lambda>_. ''p4'') (\<lambda>_. 0) sample_fe (for_xauusd None) sample_ds eng
     (decision_instants sample_ds 0 (2000 * second)) None = Inr (sgs, [])"
proof -
  let ?eng = "bind_dataset sample_ds eng"
  have "\<exists>sg. run_signal sample_digest (\<lambda>_. ''p4'') sample_fe (for_xauusd None) sample_ds ?eng u t = Inr sg \<and> triggered_side sg = None"
    if t: "t \<in> {900 * second, 1800 * second}" for t u
  proof -
    from sample_snapshots [OF t] obtain m where m: "pit_snapshot sample_fe sample_ds u t = Inr m" "evident m"
      "get_closed_candles sample_ds ''15m'' (Aware t) \<noteq> []" by blast
    have "re_profile ?eng = None" using assms by (simp add: bind_dataset_def)
    from uncalibrated_analysis [OF this m(2), of sample_digest "\<lambda>_. ''p4''"] obtain d
      where d: "analyze sample_digest (replay_request ?eng m) = Inr d" "triggered_side (signal_of (\<lambda>_. ''p4'') ?eng d) = None" by blast
    have "analyze sample_digest (run_request ?eng sample_ds m) = Inr d"
      using run_analysis [OF m(3)] pit_snapshot_candle [OF m(1)] d(1) by simp
    with d(2) m(1) show ?thesis by (simp add: run_signal_def run_evidence_pit [symmetric])
  qed
  then have q: "\<forall>t \<in> set (decision_instants sample_ds 0 (2000 * second)).
      \<exists>sg. run_signal sample_digest (\<lambda>_. ''p4'') sample_fe (for_xauusd None) sample_ds ?eng u t = Inr sg \<and> triggered_side sg = None" for u
    unfolding sample_instants by simp
  show ?thesis
    unfolding run_replay_def Let_def option.case regular_unclosed [OF sample_regular] rbind_simps run_steps_drive
    by (rule drive_quiet [OF q])
qed

lemma sample_direct_run:
  "\<exists>sgs. run_replay sample_digest (\<lambda>_. ''p4'') (\<lambda>_. 0) sample_fe (for_xauusd None) sample_ds idle_engine
     (decision_instants sample_ds 0 (2000 * second)) None = Inr (sgs, [])"
  by (rule uncalibrated_direct_run) (simp add: idle_engine_def)

theorem direct_replay_disciplined_witness:
  "\<exists>sgs trs. run_replay sample_digest (\<lambda>_. ''p4'') (\<lambda>_. 0) sample_fe (for_xauusd None) sample_ds idle_engine
       [900 * second, 1800 * second] None = Inr (sgs, trs) \<and>
     map signal_time sgs = [900 * second, 1800 * second] \<and> distinct (map tr_id trs)"
proof -
  from sample_direct_run obtain sgs where r: "run_replay sample_digest (\<lambda>_. ''p4'') (\<lambda>_. 0) sample_fe (for_xauusd None) sample_ds
      idle_engine [900 * second, 1800 * second] None = Inr (sgs, [])" unfolding sample_instants by blast
  from direct_replay_disciplined [OF r] have "map signal_time sgs = [900 * second, 1800 * second]"
    by (simp add: idle_engine_def sample_replay_def before_end_def second_def)
  with r show ?thesis by (intro exI [of _ sgs] exI [of _ "[]"]) simp
qed

theorem cached_replay_same_signals_witness:
  "\<exists>ms sgs sgs'. build_market_snapshot_cache sample_fe sample_ds (Aware 0) (Aware (2000 * second)) = Inr ms \<and> length ms = 2 \<and>
     run_replay sample_digest (\<lambda>_. ''p4'') (\<lambda>_. 0) sample_fe (for_xauusd None) sample_ds idle_engine
       (decision_instants sample_ds 0 (2000 * second)) None = Inr (sgs, []) \<and>
     run_replay sample_digest (\<lambda>_. ''p4'') (\<lambda>_. 0) sample_fe (for_xauusd None) sample_ds idle_engine [] (Some ms) = Inr (sgs', []) \<and>
     sgs' = sgs"
proof -
  have r: "map_result (pit_snapshot sample_fe sample_ds (unclosed_times sample_ds)) [900 * second, 1800 * second] =
      build_market_snapshot_cache sample_fe sample_ds (Aware 0) (Aware (2000 * second))"
    by (simp add: build_cache_pit [OF sample_regular] sample_instants)
  obtain a b where ab: "pit_snapshot sample_fe sample_ds (unclosed_times sample_ds) (900 * second) = Inr a" "evident a"
    "pit_snapshot sample_fe sample_ds (unclosed_times sample_ds) (1800 * second) = Inr b" "evident b"
    using sample_snapshots [of "900 * second"] sample_snapshots [of "1800 * second"] by blast
  then have ms: "build_market_snapshot_cache sample_fe sample_ds (Aware 0) (Aware (2000 * second)) = Inr [a, b]"
    unfolding r [symmetric] by simp
  have idle: "re_profile (bind_dataset sample_ds idle_engine) = None" "case re_start idle_engine of Some x \<Rightarrow> x \<le> 0 | None \<Rightarrow> True"
    by (simp_all add: idle_engine_def bind_dataset_def sample_replay_def)
  from sample_direct_run obtain sgs where d: "run_replay sample_digest (\<lambda>_. ''p4'') (\<lambda>_. 0) sample_fe (for_xauusd None) sample_ds
      idle_engine (decision_instants sample_ds 0 (2000 * second)) None = Inr (sgs, [])" by blast
  from uncalibrated_run [OF idle(1), of "[a, b]" sample_digest "\<lambda>_. ''p4''" "\<lambda>_. 0" 0] ab
  obtain sgs' where c: "run_replay sample_digest (\<lambda>_. ''p4'') (\<lambda>_. 0) sample_fe (for_xauusd None) sample_ds idle_engine [] (Some [a, b]) =
      Inr (sgs', [])" by (auto simp: run_replay_def Let_def)
  from cached_replay_same_signals [OF sample_regular ms idle(2) d c] have "sgs' = sgs" by blast
  with ms d c show ?thesis by (intro exI [of _ "[a, b]"] exI [of _ sgs] exI [of _ sgs']) simp
qed

definition flat_bars :: "candle list" where
  "flat_bars = map (\<lambda>k. bar_at (900 * int k) (900 * int k + 900) 100 101 99 100) [0..<15]"

theorem short_history_atr_differs_witness:
  "run_atr (sample_dataset flat_bars) (13500 * second) = Inr (Some 2) \<and>
   (\<forall>m. pit_snapshot sample_fe (sample_dataset flat_bars) [] (13500 * second) = Inr m \<longrightarrow> ms_atr14 m = None)"
proof -
  have bars: "flat_bars = [bar_at 0 900 100 101 99 100, bar_at 900 1800 100 101 99 100, bar_at 1800 2700 100 101 99 100,
      bar_at 2700 3600 100 101 99 100, bar_at 3600 4500 100 101 99 100, bar_at 4500 5400 100 101 99 100,
      bar_at 5400 6300 100 101 99 100, bar_at 6300 7200 100 101 99 100, bar_at 7200 8100 100 101 99 100,
      bar_at 8100 9000 100 101 99 100, bar_at 9000 9900 100 101 99 100, bar_at 9900 10800 100 101 99 100,
      bar_at 10800 11700 100 101 99 100, bar_at 11700 12600 100 101 99 100, bar_at 12600 13500 100 101 99 100]"
    by (simp add: flat_bars_def upt_rec)
  have cl: "get_closed_candles (sample_dataset flat_bars) ''15m'' (Aware (13500 * second)) = flat_bars"
    unfolding get_closed_candles_def py_lower_timeframes sample_candles bars
    by (simp add: closed_by_def open_utc_def close_utc_def bar_at_def second_def)
  have n: "length flat_bars = 15" by (simp add: flat_bars_def)
  have fin: "list_all (\<lambda>c. finite_range c \<and> finite_num (c_close c)) flat_bars"
    by (simp add: flat_bars_def bar_at_def finite_range_def list_all_iff)
  have hi: "map bar_high flat_bars = replicate 15 101" and lo: "map bar_low flat_bars = replicate 15 99"
    and cs: "map (\<lambda>c. num_value (c_close c)) flat_bars = replicate 15 100"
    unfolding bars by (simp_all add: bar_at_def bar_high_def bar_low_def numeral_eq_Suc)
  have two: "true_range (replicate 15 101) (replicate 15 99) (replicate 15 100) i = 2" if "i \<in> {1..<15}" for i
    using that by (auto simp: true_range_def dsub_def dround_eval eval_defs)
  have trs: "map (true_range (replicate 15 101) (replicate 15 99) (replicate 15 100)) [1..<15] = replicate 14 2"
    using two by (intro replicate_eqI) auto
  have avg: "wilder_average 14 (replicate 14 2) = 2"
    by (simp add: wilder_average_def dsum_def numeral_eq_Suc eval_defs)
  have q: "quantize8 2 = Inr 2" by (simp add: quantize8_def eval_defs)
  have ca: "calculate_atr (replicate 15 101) (replicate 15 99) (replicate 15 100) 14 = Inr (Some 2)"
    unfolding calculate_atr_def length_replicate Let_def trs avg by (simp add: q)
  have atr: "run_atr (sample_dataset flat_bars) (13500 * second) = Inr (Some 2)"
    unfolding run_atr_def cl Let_def hi lo cs ca using fin n by simp
  from short_history_atr_differs [of "sample_dataset flat_bars" "13500 * second", unfolded cl n, OF _ _ atr] atr
  show ?thesis by simp
qed

end
