(* ===== verification/Metrics.thy ===== *)
theory Metrics
  imports Outcomes Direction
begin

text \<open>
  \<open>engine/backtest/xauusd_metrics.py\<close>: the statistics of a trade ledger. They are computed in
  floats from the settled decimals of the trades; \<open>statistics.mean\<close> is exact before its one
  rounding. Dictionaries of the breakdowns are association lists in the order of the code.
\<close>

section \<open>Numbers\<close>

text \<open>\<open>t.net_r or Decimal("0")\<close>, the decimal of a settled trade, and its float.\<close>

definition settled :: "(settlement \<Rightarrow> rat) \<Rightarrow> sim_trade \<Rightarrow> rat" where
  "settled f t = (case tr_settlement t of None \<Rightarrow> 0 | Some s \<Rightarrow> f s)"

definition floats_of :: "(settlement \<Rightarrow> rat) \<Rightarrow> sim_trade list \<Rightarrow> rat list" where
  "floats_of f = map (\<lambda>t. fround (settled f t))"

definition mean_or_zero :: "rat list \<Rightarrow> rat" where
  "mean_or_zero xs = (if xs = [] then 0 else fround (sum_list xs / of_nat (length xs)))"

definition median_or_zero :: "rat list \<Rightarrow> rat" where
  "median_or_zero xs =
     (if xs = [] then 0
      else let s = sort xs; n = length xs in
        if odd n then s ! (n div 2) else fdiv (fadd (s ! (n div 2 - 1)) (s ! (n div 2))) 2)"

text \<open>\<open>a / b if b > 0 else 0.0\<close> on counts.\<close>

definition rate :: "nat \<Rightarrow> nat \<Rightarrow> rat" where
  "rate a b = (if b > 0 then fround (of_nat a / of_nat b) else 0)"

definition count :: "('a \<Rightarrow> bool) \<Rightarrow> 'a list \<Rightarrow> nat" where
  "count p xs = length (filter p xs)"

section \<open>Sequences\<close>

text \<open>Drawdown and its duration: the loop over the R multiples, then the streak of losses.\<close>

fun drawdown_walk :: "rat \<Rightarrow> rat \<Rightarrow> rat \<Rightarrow> nat \<Rightarrow> nat \<Rightarrow> rat list \<Rightarrow> rat \<times> nat" where
  "drawdown_walk peak cum dd cur_n max_n [] = (dd, max_n)"
| "drawdown_walk peak cum dd cur_n max_n (r # rs) =
     (let c = fadd cum r in
      if c > peak then drawdown_walk c c dd 0 max_n rs
      else let d = fsub peak c in
        drawdown_walk peak c (if d > dd then d else dd) (cur_n + 1) (if cur_n + 1 > max_n then cur_n + 1 else max_n) rs)"

fun loss_streak :: "nat \<Rightarrow> nat \<Rightarrow> rat list \<Rightarrow> nat" where
  "loss_streak cur_n max_n [] = max_n"
| "loss_streak cur_n max_n (r # rs) =
     (if r \<le> 0 then loss_streak (cur_n + 1) (if cur_n + 1 > max_n then cur_n + 1 else max_n) rs
      else loss_streak 0 max_n rs)"

section \<open>Breakdowns\<close>

text \<open>
  The annotations of a trade. The outcome engine asks the signal for attributes that no signal
  snapshot has, so that every trade gets the defaults.
\<close>

definition tr_regime :: "sim_trade \<Rightarrow> regime_type" where "tr_regime t = UNKNOWN_REGIME"
definition tr_session :: "sim_trade \<Rightarrow> session_type" where "tr_session t = LONDON_SESSION"

record group_stats =
  gr_trades :: nat
  gr_wins :: nat
  gr_win_rate :: rat
  gr_average_r :: rat

definition group_of :: "sim_trade list \<Rightarrow> group_stats" where
  "group_of ts = (let rs = floats_of net_r ts; wins = count (\<lambda>r. r > 0) rs in
     \<lparr>gr_trades = length ts, gr_wins = wins, gr_win_rate = rate wins (length ts), gr_average_r = mean_or_zero rs\<rparr>)"

definition break_down :: "(sim_trade \<Rightarrow> 'k) \<Rightarrow> 'k list \<Rightarrow> sim_trade list \<Rightarrow> ('k \<times> group_stats) list" where
  "break_down key ks ts = map (\<lambda>k. (k, group_of (filter (\<lambda>t. key t = k) ts))) ks"

record subsystems =
  regime_breakdown :: "(regime_type \<times> group_stats) list"
  session_breakdown :: "(session_type \<times> group_stats) list"
  side_breakdown :: "(risk_side \<times> group_stats) list"

definition compute_subsystems :: "sim_trade list \<Rightarrow> subsystems" where
  "compute_subsystems ts = \<lparr>
     regime_breakdown = break_down tr_regime [BULL_TREND, BEAR_TREND, RANGE, HIGH_VOLATILITY, TRANSITION_REGIME] ts,
     session_breakdown = break_down tr_session [ASIA, LONDON_PREOPEN, LONDON_SESSION, LONDON_NY_OVERLAP, NEW_YORK, US_LATE] ts,
     side_breakdown = break_down tr_side [LONG, SHORT] ts\<rparr>"

section \<open>The metrics\<close>

record backtest_metrics =
  candidate_count :: nat
  long_candidate_count :: nat
  short_candidate_count :: nat
  valid_risk_count :: nat
  long_valid_risk_count :: nat
  short_valid_risk_count :: nat
  execution_eligible_count :: nat
  fill_count :: nat
  no_fill_count :: nat
  invalidated_entry_count :: nat
  fill_rate :: rat
  no_fill_rate :: rat
  trade_count :: nat
  long_trade_count :: nat
  short_trade_count :: nat
  win_count :: nat
  loss_count :: nat
  win_rate :: rat
  loss_rate :: rat
  avg_win_r :: rat
  avg_loss_r :: rat
  payoff_ratio :: rat
  gross_expectancy_r :: rat
  net_expectancy_r :: rat
  average_r :: rat
  median_r :: rat
  profit_factor :: rat
  gross_return_total :: rat
  net_return_total :: rat
  max_drawdown_r :: rat
  drawdown_duration_trades :: nat
  maximum_consecutive_losses :: nat
  average_mfe_r :: rat
  median_mfe_r :: rat
  average_mae_r :: rat
  median_mae_r :: rat
  average_holding_seconds :: rat
  median_holding_seconds :: rat
  tp1_first_count :: nat
  sl_first_count :: nat
  conservative_sl_first_count :: nat
  unresolved_count :: nat
  timeout_count :: nat
  conservative_resolution_rate :: rat
  total_entry_fees :: rat
  total_exit_fees :: rat
  total_spread_cost :: rat
  total_slippage_cost :: rat
  cost_drag_r :: rat
  cost_drag_pct :: rat
  wait_count :: nat
  conflict_count :: nat
  metric_subsystems :: "subsystems option"

definition valid_risk :: "sim_trade \<Rightarrow> bool" where
  "valid_risk t \<longleftrightarrow> tr_outcome t \<noteq> SKIPPED_OUTCOME"

definition unfilled :: "sim_trade \<Rightarrow> bool" where
  "unfilled t \<longleftrightarrow> tr_outcome t = NO_FILL \<or> tr_outcome t = ENTRY_INVALIDATED"

definition filled :: "sim_trade \<Rightarrow> bool" where
  "filled t \<longleftrightarrow> tr_fill_ts t \<noteq> None \<and> \<not> unfilled t"

text \<open>Wins and losses of the net result per unit.\<close>

definition profit_factor_of :: "sim_trade list \<Rightarrow> rat" where
  "profit_factor_of ts =
     (let wins = fsum (floats_of net_pnl_per_unit (filter (\<lambda>t. settled net_pnl_per_unit t > 0) ts));
          losses = fsum (map abs (floats_of net_pnl_per_unit (filter (\<lambda>t. settled net_pnl_per_unit t \<le> 0) ts)))
      in if losses > 0 then fdiv wins losses else if wins > 0 then 999 else 0)"

definition decimal_total :: "(sim_trade \<Rightarrow> rat) \<Rightarrow> sim_trade list \<Rightarrow> rat" where
  "decimal_total f ts = fround (foldl dadd 0 (map f ts))"

definition waiting :: "signal_snapshot \<Rightarrow> bool" where
  "waiting s \<longleftrightarrow> candidate_state s \<in> {FORCE_WAIT, NO_TRADE, AVOID_STATE} \<or> candidate_decision s = WAIT"

definition calculate_metrics :: "signal_snapshot list \<Rightarrow> sim_trade list \<Rightarrow> risk_side option \<Rightarrow> backtest_metrics" where
  "calculate_metrics signals trades side =
     (let eval_trades = (case side of Some s \<Rightarrow> filter (\<lambda>t. tr_side t = s) trades | None \<Rightarrow> trades);
          longs = count (\<lambda>s. candidate_state s = BUY_WINDOW) signals;
          shorts = count (\<lambda>s. candidate_state s = SELL_WINDOW) signals;
          valid = filter valid_risk eval_trades;
          done = filter filled valid;
          n = length done; eligible = length valid;
          missed = count unfilled valid;
          rs = floats_of net_r done; gross = floats_of gross_r done;
          wins = filter (\<lambda>r. r > 0) rs; losses = filter (\<lambda>r. r \<le> 0) rs;
          wr = rate (length wins) n; lr = rate (length losses) n;
          aw = mean_or_zero wins; al = mean_or_zero (map abs losses);
          dd = drawdown_walk 0 0 0 0 0 rs;
          outcome = (\<lambda>out. count (\<lambda>t. tr_outcome t = out) done);
          gross_pct = fsum (floats_of gross_return_pct done); net_pct = fsum (floats_of net_return_pct done);
          durations = concat (map (\<lambda>t. case tr_settlement t of None \<Rightarrow> [] | Some s \<Rightarrow> [holding_seconds s]) done)
      in \<lparr>candidate_count = (case side of Some LONG \<Rightarrow> longs | Some SHORT \<Rightarrow> shorts | None \<Rightarrow> length signals),
          long_candidate_count = longs, short_candidate_count = shorts,
          valid_risk_count = eligible,
          long_valid_risk_count = count (\<lambda>t. tr_side t = LONG \<and> valid_risk t) trades,
          short_valid_risk_count = count (\<lambda>t. tr_side t = SHORT \<and> valid_risk t) trades,
          execution_eligible_count = eligible, fill_count = n, no_fill_count = missed,
          invalidated_entry_count = count (\<lambda>t. tr_outcome t = ENTRY_INVALIDATED) valid,
          fill_rate = rate n eligible, no_fill_rate = rate missed eligible, trade_count = n,
          long_trade_count = count (\<lambda>t. tr_side t = LONG) done,
          short_trade_count = count (\<lambda>t. tr_side t = SHORT) done,
          win_count = length wins, loss_count = length losses, win_rate = wr, loss_rate = lr,
          avg_win_r = aw, avg_loss_r = al, payoff_ratio = (if al > 0 then fdiv aw al else 0),
          gross_expectancy_r = mean_or_zero gross,
          net_expectancy_r = (if n > 0 then fsub (fmul wr aw) (fmul lr al) else 0),
          average_r = mean_or_zero rs, median_r = median_or_zero rs, profit_factor = profit_factor_of done,
          gross_return_total = gross_pct, net_return_total = net_pct,
          max_drawdown_r = fst dd, drawdown_duration_trades = snd dd,
          maximum_consecutive_losses = loss_streak 0 0 rs,
          average_mfe_r = mean_or_zero (floats_of mfe_r done), median_mfe_r = median_or_zero (floats_of mfe_r done),
          average_mae_r = mean_or_zero (floats_of mae_r done), median_mae_r = median_or_zero (floats_of mae_r done),
          average_holding_seconds = mean_or_zero durations, median_holding_seconds = median_or_zero durations,
          tp1_first_count = outcome TP1_HIT_FIRST, sl_first_count = outcome SL_HIT_FIRST,
          conservative_sl_first_count = outcome CONSERVATIVE_SL, unresolved_count = outcome UNRESOLVED_OUTCOME,
          timeout_count = outcome TIMEOUT, conservative_resolution_rate = rate (outcome CONSERVATIVE_SL) n,
          total_entry_fees = decimal_total (settled st_entry_fee) done,
          total_exit_fees = decimal_total (settled st_exit_fee) done,
          total_spread_cost = decimal_total (\<lambda>t. dadd (settled st_entry_spread t) (settled st_exit_spread t)) done,
          total_slippage_cost = decimal_total (\<lambda>t. dadd (settled st_entry_slippage t) (settled st_exit_slippage t)) done,
          cost_drag_r = fsub (mean_or_zero gross) (mean_or_zero rs), cost_drag_pct = fsub gross_pct net_pct,
          wait_count = count waiting signals,
          conflict_count = count (\<lambda>s. candidate_state s = CONFLICT) signals,
          metric_subsystems = (if side = None then Some (compute_subsystems done) else None)\<rparr>)"

lemmas [eval_defs] = settled_def floats_of_def mean_or_zero_def median_or_zero_def rate_def count_def tr_regime_def
  tr_session_def group_of_def break_down_def compute_subsystems_def valid_risk_def unfilled_def filled_def
  profit_factor_of_def decimal_total_def waiting_def calculate_metrics_def

section \<open>Counting\<close>

lemma count_split: "(\<And>x. x \<in> set xs \<Longrightarrow> q x \<longleftrightarrow> \<not> p x) \<Longrightarrow> count p xs + count q xs = length xs"
  by (induction xs) (auto simp: count_def)

lemma count_le: "count p xs \<le> length xs"
  by (simp add: count_def)

lemma count_filter: "count p (filter q xs) = count (\<lambda>x. q x \<and> p x) xs"
  by (simp add: count_def conj_commute)

lemma rate_bounds: "a \<le> b \<Longrightarrow> 0 \<le> rate a b \<and> rate a b \<le> 1"
  unfolding rate_def by (auto intro!: flt.rnd_upper flt.rnd_lower simp: fround_one divide_le_eq)

lemma outcomes_partition:
  "\<forall>t \<in> set ts. valid_risk t \<and> filled t \<Longrightarrow>
     count (\<lambda>t. tr_outcome t = TP1_HIT_FIRST) ts + count (\<lambda>t. tr_outcome t = SL_HIT_FIRST) ts +
     count (\<lambda>t. tr_outcome t = CONSERVATIVE_SL) ts + count (\<lambda>t. tr_outcome t = UNRESOLVED_OUTCOME) ts +
     count (\<lambda>t. tr_outcome t = TIMEOUT) ts = length ts"
proof (induction ts)
  case (Cons t ts)
  have "tr_outcome t \<notin> {SKIPPED_OUTCOME, NO_FILL, ENTRY_INVALIDATED}"
    using Cons.prems by (simp add: valid_risk_def filled_def unfilled_def)
  with Cons show ?case by (cases "tr_outcome t") (simp_all add: count_def)
qed (simp add: count_def)

section \<open>Drawdown\<close>

text \<open>The equity curve of a sequence of R multiples, from 0.\<close>

fun equity_curve :: "rat \<Rightarrow> rat list \<Rightarrow> rat list" where
  "equity_curve c [] = [c]"
| "equity_curve c (r # rs) = c # equity_curve (fadd c r) rs"

text \<open>\<open>d\<close> is the largest fall of a curve from an earlier or equal point.\<close>

definition largest_fall :: "rat list \<Rightarrow> rat \<Rightarrow> bool" where
  "largest_fall cs d \<longleftrightarrow> (\<exists>i < length cs. \<exists>j \<le> i. d = fsub (cs ! j) (cs ! i)) \<and>
     (\<forall>i < length cs. \<forall>j \<le> i. fsub (cs ! j) (cs ! i) \<le> d)"

lemma fsub_self [simp]: "fsub x x = 0"
  by (simp add: fsub_def)

lemma fsub_mono: "x \<le> y \<Longrightarrow> fsub x z \<le> fsub y z"
  unfolding fsub_def by (rule flt.rnd_mono) simp

lemma largest_fall_snoc:
  assumes fall: "largest_fall cs d" and p: "p \<in> set cs" "\<forall>x \<in> set cs. x \<le> p"
  shows "largest_fall (cs @ [c]) (max d (fsub (max p c) c))" (is "largest_fall ?cs ?d")
  unfolding largest_fall_def
proof (intro conjI allI impI)
  fix i j
  assume i: "i < length ?cs" "j \<le> i"
  show "fsub (?cs ! j) (?cs ! i) \<le> ?d"
  proof (cases "i < length cs")
    case True
    with i fall have "fsub (cs ! j) (cs ! i) \<le> d" by (simp add: largest_fall_def)
    with True i(2) show ?thesis by (simp add: nth_append le_max_iff_disj)
  next
    case False
    with i have "?cs ! i = c" by (simp add: nth_append)
    moreover have "?cs ! j \<le> max p c" using i p(2) by (auto simp: nth_append le_max_iff_disj)
    ultimately show ?thesis using fsub_mono [of "?cs ! j" "max p c" c] by (simp add: le_max_iff_disj)
  qed
next
  show "\<exists>i < length ?cs. \<exists>j \<le> i. ?d = fsub (?cs ! j) (?cs ! i)"
  proof (cases "fsub (max p c) c \<le> d")
    case True
    from fall obtain i j where "i < length cs" "j \<le> i" "d = fsub (cs ! j) (cs ! i)" unfolding largest_fall_def by blast
    with True show ?thesis by (intro exI [of _ i] exI [of _ j] conjI) (simp_all add: nth_append)
  next
    case False
    obtain j where j: "j \<le> length cs" "?cs ! j = max p c"
    proof (cases "p \<le> c")
      case True
      then show thesis by (intro that [of "length cs"]) simp_all
    next
      case lt: False
      from p(1) obtain j where "j < length cs" "cs ! j = p" by (auto simp: in_set_conv_nth)
      with lt show thesis by (intro that [of j]) (simp_all add: nth_append)
    qed
    with False show ?thesis by (intro exI [of _ "length cs"] exI [of _ j] conjI) simp_all
  qed
qed

lemma drawdown_walk_fall:
  assumes "largest_fall cs dd" "peak \<in> set cs" "\<forall>x \<in> set cs. x \<le> peak"
  shows "largest_fall (cs @ tl (equity_curve cum rs)) (fst (drawdown_walk peak cum dd k m rs))"
  using assms
proof (induction rs arbitrary: cs peak cum dd k m)
  case (Cons r rs)
  let ?c = "fadd cum r" and ?p = "max peak (fadd cum r)"
  let ?d = "max dd (fsub ?p ?c)"
  have pos: "0 \<le> dd"
  proof -
    from Cons.prems(2) have "0 < length cs" by auto
    with Cons.prems(1) have "fsub (cs ! 0) (cs ! 0) \<le> dd" unfolding largest_fall_def by blast
    then show ?thesis by simp
  qed
  have fall: "largest_fall (cs @ [?c]) ?d" by (rule largest_fall_snoc [OF Cons.prems])
  have peak: "?p \<in> set (cs @ [?c])" "\<forall>x \<in> set (cs @ [?c]). x \<le> ?p"
    using Cons.prems(2,3) by (auto simp: max_def)
  have curve: "equity_curve ?c rs = ?c # tl (equity_curve ?c rs)" by (cases rs) simp_all
  have "\<exists>k' m'. drawdown_walk peak cum dd k m (r # rs) = drawdown_walk ?p ?c ?d k' m' rs"
  proof (cases "?c > peak")
    case True
    with pos show ?thesis by (intro exI [of _ 0] exI [of _ m]) (simp add: Let_def max_def)
  next
    case False
    then show ?thesis
      by (intro exI [of _ "k + 1"] exI [of _ "if k + 1 > m then k + 1 else m"]) (simp add: Let_def max_def)
  qed
  then obtain k' m' where step: "drawdown_walk peak cum dd k m (r # rs) = drawdown_walk ?p ?c ?d k' m' rs" by blast
  have "largest_fall ((cs @ [?c]) @ tl (equity_curve ?c rs)) (fst (drawdown_walk ?p ?c ?d k' m' rs))"
    by (rule Cons.IH [OF fall peak])
  then show ?case unfolding step by (simp flip: curve)
qed simp

text \<open>The streak of losses is the longest run.\<close>

definition losing_run :: "rat list \<Rightarrow> rat list \<Rightarrow> bool" where
  "losing_run rs zs \<longleftrightarrow> (\<exists>ys us. rs = ys @ zs @ us) \<and> (\<forall>z \<in> set zs. z \<le> 0)"

definition longest_run :: "rat list \<Rightarrow> nat \<Rightarrow> bool" where
  "longest_run rs n \<longleftrightarrow> (\<exists>zs. losing_run rs zs \<and> length zs = n) \<and> (\<forall>zs. losing_run rs zs \<longrightarrow> length zs \<le> n)"

text \<open>A run of an extended sequence is a run of the sequence or ends with it.\<close>

lemma losing_run_snoc:
  "losing_run (rs @ [r]) zs \<longleftrightarrow> losing_run rs zs \<or>
     (r \<le> 0 \<and> (\<exists>ws. zs = ws @ [r] \<and> (\<exists>ys. rs = ys @ ws) \<and> (\<forall>w \<in> set ws. w \<le> 0)))"
proof
  assume l: "losing_run (rs @ [r]) zs"
  then obtain ys us where e: "rs @ [r] = ys @ zs @ us" unfolding losing_run_def by blast
  show "losing_run rs zs \<or> (r \<le> 0 \<and> (\<exists>ws. zs = ws @ [r] \<and> (\<exists>ys. rs = ys @ ws) \<and> (\<forall>w \<in> set ws. w \<le> 0)))"
  proof (cases us rule: rev_cases)
    case Nil
    with e l show ?thesis
      by (cases zs rule: rev_cases) (auto simp: losing_run_def append_eq_append_conv2)
  next
    case (snoc us' u)
    with e l show ?thesis by (auto simp: losing_run_def)
  qed
next
  assume "losing_run rs zs \<or> (r \<le> 0 \<and> (\<exists>ws. zs = ws @ [r] \<and> (\<exists>ys. rs = ys @ ws) \<and> (\<forall>w \<in> set ws. w \<le> 0)))"
  then show "losing_run (rs @ [r]) zs"
    unfolding losing_run_def by (elim disjE exE conjE) (auto intro: exI)
qed

text \<open>The state of the loop after a prefix: its longest run, and the run that ends with it.\<close>

definition losing_tail :: "rat list \<Rightarrow> nat \<Rightarrow> bool" where
  "losing_tail rs k \<longleftrightarrow> (\<exists>ys ws. rs = ys @ ws \<and> (\<forall>w \<in> set ws. w \<le> 0) \<and> length ws = k) \<and>
     (\<forall>ys ws. rs = ys @ ws \<longrightarrow> (\<forall>w \<in> set ws. w \<le> 0) \<longrightarrow> length ws \<le> k)"

lemma losing_tail_snoc:
  assumes "losing_tail ps k"
  shows "losing_tail (ps @ [r]) (if r \<le> 0 then k + 1 else 0)"
proof (cases "r \<le> 0")
  case True
  from assms obtain ys ws where w: "ps = ys @ ws" "\<forall>w \<in> set ws. w \<le> 0" "length ws = k" unfolding losing_tail_def by blast
  have "length zs \<le> k + 1" if z: "ps @ [r] = ys @ zs" "\<forall>z \<in> set zs. z \<le> 0" for ys zs
  proof (cases zs rule: rev_cases)
    case (snoc zs' z')
    with z have "ps = ys @ zs'" "\<forall>z \<in> set zs'. z \<le> 0" by auto
    with assms have "length zs' \<le> k" unfolding losing_tail_def by blast
    with snoc show ?thesis by simp
  qed simp
  moreover have "\<exists>ys ws. ps @ [r] = ys @ ws \<and> (\<forall>w \<in> set ws. w \<le> 0) \<and> length ws = k + 1"
    using w True by (intro exI [of _ ys] exI [of _ "ws @ [r]"]) auto
  ultimately show ?thesis using True unfolding losing_tail_def by simp
next
  case False
  have "zs = []" if "ps @ [r] = ys @ zs" "\<forall>z \<in> set zs. z \<le> 0" for ys zs
    using that False by (cases zs rule: rev_cases) auto
  then show ?thesis using False unfolding losing_tail_def by auto
qed

lemma longest_run_snoc:
  assumes run: "longest_run ps m" and tail: "losing_tail ps k"
  shows "longest_run (ps @ [r]) (if r \<le> 0 \<and> k + 1 > m then k + 1 else m)"
proof -
  from run obtain zs where zs: "losing_run ps zs" "length zs = m" unfolding longest_run_def by blast
  from tail obtain ys ws where w: "ps = ys @ ws" "\<forall>w \<in> set ws. w \<le> 0" "length ws = k" unfolding losing_tail_def by blast
  have le: "length us \<le> m \<or> (r \<le> 0 \<and> length us \<le> k + 1)" if "losing_run (ps @ [r]) us" for us
    using that run tail unfolding losing_run_snoc longest_run_def losing_tail_def by fastforce
  show ?thesis
  proof (cases "r \<le> 0 \<and> k + 1 > m")
    case True
    have "losing_run (ps @ [r]) (ws @ [r])" unfolding losing_run_snoc using w True by blast
    moreover have "length us \<le> k + 1" if "losing_run (ps @ [r]) us" for us using le [OF that] True by auto
    ultimately show ?thesis using True w(3) unfolding longest_run_def
      by (simp only: if_True simp_thms) (intro conjI exI [of _ "ws @ [r]"] allI impI, simp_all)
  next
    case False
    then have "length us \<le> m" if "losing_run (ps @ [r]) us" for us using le [OF that] by auto
    moreover have "losing_run (ps @ [r]) zs" unfolding losing_run_snoc using zs(1) by blast
    ultimately show ?thesis using False zs(2) unfolding longest_run_def by auto
  qed
qed

lemma loss_streak_run:
  "longest_run ps m \<Longrightarrow> losing_tail ps k \<Longrightarrow> longest_run (ps @ rs) (loss_streak k m rs)"
proof (induction rs arbitrary: ps k m)
  case (Cons r rs)
  from Cons.IH [OF longest_run_snoc [OF Cons.prems, of r] losing_tail_snoc [OF Cons.prems(2), of r]] show ?case
    by (cases "r \<le> 0") simp_all
qed simp

section \<open>Properties\<close>

text \<open>
  The funnel of the metrics loses nothing: wins and losses, the five terminal outcomes, and
  the two sides each partition the filled trades; filled and missed trades are valid plans, of
  which there are no more than trades; and the rates are fractions.
\<close>

theorem metrics_partition_trades:
  "let m = calculate_metrics signals trades side in
    win_count m + loss_count m = trade_count m \<and>
    tp1_first_count m + sl_first_count m + conservative_sl_first_count m + unresolved_count m + timeout_count m = trade_count m \<and>
    long_trade_count m + short_trade_count m = trade_count m \<and>
    trade_count m + no_fill_count m \<le> valid_risk_count m \<and> valid_risk_count m \<le> length trades \<and>
    list_all (\<lambda>x. 0 \<le> x \<and> x \<le> 1) [fill_rate m, no_fill_rate m, win_rate m, loss_rate m, conservative_resolution_rate m]"
proof -
  define m where "m = calculate_metrics signals trades side"
  define ts where "ts = (case side of Some s \<Rightarrow> filter (\<lambda>t. tr_side t = s) trades | None \<Rightarrow> trades)"
  let ?v = "filter valid_risk ts" and ?f = "filter filled (filter valid_risk ts)"
  let ?rs = "floats_of net_r ?f"
  have split: "count (\<lambda>r. r > 0) ?rs + count (\<lambda>r. r \<le> 0) ?rs = length ?rs"
    by (rule count_split) (simp add: not_less)
  have len: "length ?rs = length ?f" by (simp add: floats_of_def)
  have out: "count (\<lambda>t. tr_outcome t = TP1_HIT_FIRST) ?f + count (\<lambda>t. tr_outcome t = SL_HIT_FIRST) ?f +
     count (\<lambda>t. tr_outcome t = CONSERVATIVE_SL) ?f + count (\<lambda>t. tr_outcome t = UNRESOLVED_OUTCOME) ?f +
     count (\<lambda>t. tr_outcome t = TIMEOUT) ?f = length ?f" by (rule outcomes_partition) simp
  have "tr_side t = SHORT \<longleftrightarrow> \<not> tr_side t = LONG" for t :: sim_trade by (cases "tr_side t") simp_all
  then have sides: "count (\<lambda>t. tr_side t = LONG) ?f + count (\<lambda>t. tr_side t = SHORT) ?f = length ?f"
    by (intro count_split) simp
  have funnel: "length ?f + count unfilled ?v \<le> length ?v"
  proof -
    have "count filled ?v + count (\<lambda>t. \<not> filled t) ?v = length ?v" by (rule count_split) simp
    moreover have "count unfilled ?v \<le> count (\<lambda>t. \<not> filled t) ?v"
      by (induction ts) (auto simp: count_def filled_def)
    ultimately show ?thesis by (simp add: count_def)
  qed
  have few: "length ?v \<le> length trades"
    unfolding ts_def using order_trans [OF length_filter_le length_filter_le] by (cases side) simp_all
  have rates: "0 \<le> rate a b \<and> rate a b \<le> 1" if "a \<le> b" for a b by (rule rate_bounds [OF that])
  have fields: "trade_count m = length ?f" "win_count m = count (\<lambda>r. r > 0) ?rs" "loss_count m = count (\<lambda>r. r \<le> 0) ?rs"
    "tp1_first_count m = count (\<lambda>t. tr_outcome t = TP1_HIT_FIRST) ?f"
    "sl_first_count m = count (\<lambda>t. tr_outcome t = SL_HIT_FIRST) ?f"
    "conservative_sl_first_count m = count (\<lambda>t. tr_outcome t = CONSERVATIVE_SL) ?f"
    "unresolved_count m = count (\<lambda>t. tr_outcome t = UNRESOLVED_OUTCOME) ?f"
    "timeout_count m = count (\<lambda>t. tr_outcome t = TIMEOUT) ?f"
    "long_trade_count m = count (\<lambda>t. tr_side t = LONG) ?f" "short_trade_count m = count (\<lambda>t. tr_side t = SHORT) ?f"
    "no_fill_count m = count unfilled ?v" "valid_risk_count m = length ?v"
    "fill_rate m = rate (length ?f) (length ?v)" "no_fill_rate m = rate (count unfilled ?v) (length ?v)"
    "win_rate m = rate (count (\<lambda>r. r > 0) ?rs) (length ?f)" "loss_rate m = rate (count (\<lambda>r. r \<le> 0) ?rs) (length ?f)"
    "conservative_resolution_rate m = rate (count (\<lambda>t. tr_outcome t = CONSERVATIVE_SL) ?f) (length ?f)"
    unfolding m_def calculate_metrics_def Let_def ts_def [symmetric] by (simp_all add: count_def)
  show ?thesis unfolding Let_def m_def [symmetric] fields using split [unfolded len] out sides funnel few rates by simp
qed

text \<open>
  C34. The risk statistics are what they are called, for both sides together and for each of them: the
  maximum drawdown is the largest fall of the equity curve of the filled trades, in float
  arithmetic, from an earlier point or from the start, and the loss count is the length of their
  longest run without a win.
\<close>

theorem drawdown_and_streak_exact:
  "let rs = floats_of net_r (filter filled (filter valid_risk
         (case side of Some s \<Rightarrow> filter (\<lambda>t. tr_side t = s) trades | None \<Rightarrow> trades))) in
    largest_fall (equity_curve 0 rs) (max_drawdown_r (calculate_metrics signals trades side)) \<and>
    longest_run rs (maximum_consecutive_losses (calculate_metrics signals trades side))"
proof -
  define rs where "rs = floats_of net_r (filter filled (filter valid_risk
    (case side of Some s \<Rightarrow> filter (\<lambda>t. tr_side t = s) trades | None \<Rightarrow> trades)))"
  have fields: "max_drawdown_r (calculate_metrics signals trades side) = fst (drawdown_walk 0 0 0 0 0 rs)"
    "maximum_consecutive_losses (calculate_metrics signals trades side) = loss_streak 0 0 rs"
    by (simp_all add: calculate_metrics_def Let_def rs_def)
  have curve: "[0] @ tl (equity_curve 0 rs) = equity_curve 0 rs" by (cases rs) simp_all
  have "largest_fall ([0] @ tl (equity_curve 0 rs)) (fst (drawdown_walk 0 0 0 0 0 rs))"
    by (rule drawdown_walk_fall) (simp_all add: largest_fall_def)
  moreover have "longest_run ([] @ rs) (loss_streak 0 0 rs)"
    by (rule loss_streak_run) (simp_all add: longest_run_def losing_run_def losing_tail_def)
  ultimately show ?thesis unfolding Let_def rs_def [symmetric] fields curve by simp
qed

text \<open>
  The regime breakdown of the metrics is empty whatever the market did, and every trade counts
  for the London session, since the annotations of a trade are constant.
\<close>

theorem breakdowns_are_constant:
  "list_all (\<lambda>(k, g). gr_trades g = 0) (regime_breakdown (compute_subsystems ts)) \<and>
   map (\<lambda>(k, g). gr_trades g) (session_breakdown (compute_subsystems ts)) = [0, 0, length ts, 0, 0, 0]"
  by (simp add: compute_subsystems_def break_down_def group_of_def tr_regime_def tr_session_def Let_def)

end
