(* ===== verification/Purge.thy ===== *)
theory Purge
  imports Outcomes
begin

text \<open>
  \<open>engine/backtest/purge.py\<close>: which trades of a partition may be used. Trades in the embargo
  after the boundary are excluded, and so are trades whose outcome depends on data at or after
  the end of the partition.
\<close>

section \<open>The model\<close>

text \<open>
  What the code reads of a trade, by attribute access: absent and \<open>None\<close> are the same to it.
\<close>

record trade_times =
  tt_signal :: "datetime option"
  tt_dependency_end :: "datetime option"
  tt_window :: "datetime option list option"
  tt_exit :: "datetime option"

text \<open>\<open>datetime.min\<close> in UTC, in microseconds since the epoch.\<close>

definition datetime_min :: int where
  "datetime_min = - 62135596800 * 1000000"

definition to_utc :: "datetime option \<Rightarrow> int" where
  "to_utc d = (case d of None \<Rightarrow> datetime_min | Some t \<Rightarrow> assume_utc t)"

definition window_end :: "datetime option list option \<Rightarrow> datetime option" where
  "window_end w = (case w of None \<Rightarrow> None | Some xs \<Rightarrow> if length xs \<ge> 2 then xs ! 1 else None)"

definition dep_end :: "'a trade_times_scheme \<Rightarrow> int" where
  "dep_end t = to_utc
     (case tt_dependency_end t of
        Some d \<Rightarrow> Some d
      | None \<Rightarrow>
          (case window_end (tt_window t) of
             Some d \<Rightarrow> Some d
           | None \<Rightarrow> (case tt_exit t of Some d \<Rightarrow> Some d | None \<Rightarrow> tt_signal t)))"

record 'a purge_result =
  eligible_trades :: "'a list"
  purged_trades :: "'a list"
  embargoed_trades :: "'a list"
  total_input_count :: nat

definition no_trades :: "'a purge_result" where
  "no_trades = \<lparr>eligible_trades = [], purged_trades = [], embargoed_trades = [], total_input_count = 0\<rparr>"

text \<open>One iteration of the loop, and the loop.\<close>

definition purge_step ::
  "int \<Rightarrow> int \<Rightarrow> rat \<Rightarrow> bool \<Rightarrow> bool \<Rightarrow> 'a trade_times_scheme \<Rightarrow> 'a trade_times_scheme purge_result \<Rightarrow>
    'a trade_times_scheme purge_result" where
  "purge_step p_start p_end embargo overlapping post t acc =
     (let sig = to_utc (tt_signal t) in
      if sig < p_start \<or> sig \<ge> p_end then acc
      else let acc' = acc\<lparr>total_input_count := total_input_count acc + 1\<rparr> in
        if post \<and> embargo > 0 \<and> sig < p_start + timedelta_us embargo
        then acc'\<lparr>embargoed_trades := embargoed_trades acc' @ [t]\<rparr>
        else if overlapping \<and> dep_end t \<ge> p_end
        then acc'\<lparr>purged_trades := purged_trades acc' @ [t]\<rparr>
        else acc'\<lparr>eligible_trades := eligible_trades acc' @ [t]\<rparr>)"

definition filter_partition ::
  "'a trade_times_scheme list \<Rightarrow> datetime option \<Rightarrow> datetime option \<Rightarrow> rat \<Rightarrow> bool \<Rightarrow> bool \<Rightarrow>
    'a trade_times_scheme purge_result" where
  "filter_partition trades p_start p_end embargo overlapping post =
     fold (purge_step (to_utc p_start) (to_utc p_end) embargo overlapping post) trades no_trades"

lemmas [eval_defs] = datetime_min_def to_utc_def window_end_def dep_end_def no_trades_def purge_step_def
  filter_partition_def

section \<open>The specification\<close>

definition in_partition :: "int \<Rightarrow> int \<Rightarrow> 'a trade_times_scheme \<Rightarrow> bool" where
  "in_partition p_start p_end t \<longleftrightarrow> p_start \<le> to_utc (tt_signal t) \<and> to_utc (tt_signal t) < p_end"

definition in_embargo :: "int \<Rightarrow> rat \<Rightarrow> bool \<Rightarrow> 'a trade_times_scheme \<Rightarrow> bool" where
  "in_embargo p_start embargo post t \<longleftrightarrow>
     post \<and> embargo > 0 \<and> to_utc (tt_signal t) < p_start + timedelta_us embargo"

definition overlaps :: "int \<Rightarrow> bool \<Rightarrow> 'a trade_times_scheme \<Rightarrow> bool" where
  "overlaps p_end overlapping t \<longleftrightarrow> overlapping \<and> dep_end t \<ge> p_end"

text \<open>Three filters of the input that keep its order.\<close>

definition partition_spec ::
  "'a trade_times_scheme list \<Rightarrow> int \<Rightarrow> int \<Rightarrow> rat \<Rightarrow> bool \<Rightarrow> bool \<Rightarrow> 'a trade_times_scheme purge_result" where
  "partition_spec ts p_start p_end embargo overlapping post =
     (let inside = filter (in_partition p_start p_end) ts;
          late = filter (\<lambda>t. \<not> in_embargo p_start embargo post t) inside
      in \<lparr>eligible_trades = filter (\<lambda>t. \<not> overlaps p_end overlapping t) late,
          purged_trades = filter (overlaps p_end overlapping) late,
          embargoed_trades = filter (in_embargo p_start embargo post) inside,
          total_input_count = length inside\<rparr>)"

lemma purge_fold:
  "fold (purge_step p_start p_end embargo overlapping post) ts acc =
     (let r = partition_spec ts p_start p_end embargo overlapping post in
      acc\<lparr>eligible_trades := eligible_trades acc @ eligible_trades r,
          purged_trades := purged_trades acc @ purged_trades r,
          embargoed_trades := embargoed_trades acc @ embargoed_trades r,
          total_input_count := total_input_count acc + total_input_count r\<rparr>)"
proof (induction ts arbitrary: acc)
  case Nil
  show ?case by (simp add: partition_spec_def)
next
  case (Cons t ts)
  show ?case
    unfolding fold.simps o_apply Cons.IH
    by (auto simp: purge_step_def partition_spec_def in_partition_def in_embargo_def overlaps_def Let_def)
qed

section \<open>Properties\<close>

text \<open>
  The purging loop is three filters of its input that keep its order, so every trade whose
  signal lies in the half-open partition ends up in exactly one of the three results, and no
  other trade in any.
\<close>

theorem filter_partition_spec:
  "filter_partition ts p_start p_end embargo overlapping post =
     partition_spec ts (to_utc p_start) (to_utc p_end) embargo overlapping post"
  by (simp add: filter_partition_def purge_fold no_trades_def Let_def)

text \<open>
  No look-ahead through a partition boundary: with purging on, the signal of an eligible
  trade and everything its outcome depends on lie in the partition, and after the embargo in a
  segment that follows a boundary.
\<close>

theorem eligible_trades_stay_inside:
  assumes "t \<in> set (eligible_trades (filter_partition ts p_start p_end embargo True post))"
  shows "t \<in> set ts \<and> to_utc p_start \<le> to_utc (tt_signal t) \<and> to_utc (tt_signal t) < to_utc p_end \<and>
    dep_end t < to_utc p_end \<and>
    (post \<and> embargo > 0 \<longrightarrow> to_utc p_start + timedelta_us embargo \<le> to_utc (tt_signal t))"
  using assms
  by (auto simp: filter_partition_def purge_fold no_trades_def Let_def partition_spec_def in_partition_def
      in_embargo_def overlaps_def)

definition times_at :: "int \<Rightarrow> int \<Rightarrow> trade_times" where
  "times_at s d = \<lparr>tt_signal = Some (Aware s), tt_dependency_end = Some (Aware d), tt_window = None, tt_exit = None\<rparr>"

theorem eligible_trades_stay_inside_witness:
  "times_at 20 99 \<in> set (eligible_trades (filter_partition [times_at 0 50, times_at 10 100, times_at 20 99]
      (Some (Aware 0)) (Some (Aware 100)) (1 / 100000) True True)) \<and> dep_end (times_at 20 99) < 100"
proof -
  have m: "times_at 20 99 \<in> set (eligible_trades (filter_partition [times_at 0 50, times_at 10 100, times_at 20 99]
      (Some (Aware 0)) (Some (Aware 100)) (1 / 100000) True True))"
    by (simp add: eval_defs times_at_def timedelta_us_def Let_def)
  from eligible_trades_stay_inside [OF this] m show ?thesis by (simp add: to_utc_def)
qed

end
