(* ===== verification/Walk_Forward.thy ===== *)
theory Walk_Forward
  imports Direct_Replay Metrics Purge
begin

text \<open>
  \<open>engine/backtest/xauusd_walkforward.py\<close> with its configuration of \<open>xauusd_types.py\<close>: the
  chronological folds, the selection of parameters on training and validation data, and the
  walk-forward run, which replays the whole window once and evaluates its trades per fold after
  purging. Ratios are floats; a \<open>timedelta\<close> times a float or divided by an integer is rounded to
  microseconds, ties to even.
\<close>

section \<open>Configuration and folds\<close>

record wf_config =
  wf_total_folds :: int
  wf_train_ratio :: rat
  wf_val_ratio :: rat
  wf_oos_ratio :: rat
  wf_embargo_seconds :: rat
  wf_purge_overlapping :: bool
  wf_rolling_window :: bool

text \<open>\<open>__post_init__\<close>.\<close>

definition make_wf_config :: "wf_config \<Rightarrow> wf_config result" where
  "make_wf_config c =
     (if wf_total_folds c < 1 then Inl ValueError
      else if wf_train_ratio c \<le> 0 then Inl ValueError
      else if wf_val_ratio c < 0 then Inl ValueError
      else if wf_oos_ratio c \<le> 0 then Inl ValueError
      else if \<bar>fsub (round4 (fadd (fadd (wf_train_ratio c) (wf_val_ratio c)) (wf_oos_ratio c))) 1\<bar> > fround (1 / 10000)
      then Inl ValueError
      else if wf_embargo_seconds c < 0 then Inl ValueError
      else Inr c)"

record fold_spec =
  fo_id :: int
  fo_train_start :: int
  fo_train_end :: int
  fo_val :: "(int \<times> int) option"
  fo_oos_start :: int
  fo_oos_end :: int
  fo_embargo :: rat

definition scale_time :: "int \<Rightarrow> rat \<Rightarrow> int" where
  "scale_time us x = rhe (of_int us * x)"

text \<open>Fold \<open>k\<close> of the window \<open>[s, e)\<close>; the durations are computed once before the loop.\<close>

definition fold_at :: "wf_config \<Rightarrow> int \<Rightarrow> int \<Rightarrow> int \<Rightarrow> fold_spec" where
  "fold_at c s e k =
     (let total = e - s;
          w_train = scale_time total (wf_train_ratio c);
          w_val = scale_time total (wf_val_ratio c);
          delta = scale_time (scale_time total (wf_oos_ratio c)) (1 / of_int (wf_total_folds c));
          shift = delta * (k - 1);
          train_start = (if wf_rolling_window c then s + shift else s);
          train_end = (if wf_rolling_window c then train_start + w_train else s + w_train + shift);
          val = (if wf_val_ratio c > 0 then Some (train_end, train_end + w_val) else None);
          oos_start = (case val of Some (_, v) \<Rightarrow> v | None \<Rightarrow> train_end) + timedelta_us (wf_embargo_seconds c)
      in \<lparr>fo_id = k, fo_train_start = train_start, fo_train_end = train_end, fo_val = val, fo_oos_start = oos_start,
          fo_oos_end = min (oos_start + delta) e, fo_embargo = wf_embargo_seconds c\<rparr>)"

definition generate_folds :: "datetime \<Rightarrow> datetime \<Rightarrow> wf_config \<Rightarrow> fold_spec list result" where
  "generate_folds start_time end_time c =
     rbind (require_utc start_time) (\<lambda>s.
     rbind (require_utc end_time) (\<lambda>e.
       if s \<ge> e then Inl ValueError else Inr (map (fold_at c s e) [1..wf_total_folds c])))"

section \<open>Selection on training and validation data\<close>

text \<open>Scores are floats or \<open>-inf\<close>, which is \<open>None\<close>; the best score starts at \<open>-inf\<close>.\<close>

fun better :: "rat option \<Rightarrow> rat option \<Rightarrow> bool" where
  "better (Some x) (Some y) = (x > y)"
| "better (Some x) None = True"
| "better None y = False"

definition select_parameters_on_train_val ::
  "'t list \<Rightarrow> 't list \<Rightarrow> 'c list \<Rightarrow> ('t list \<Rightarrow> 't list \<Rightarrow> 'c \<Rightarrow> rat option) \<Rightarrow> 'c result" where
  "select_parameters_on_train_val train val candidates score =
     (if candidates = [] then Inl ValueError
      else Inr (snd (foldl (\<lambda>(best, cfg) c. if better (score train val c) best then (score train val c, c) else (best, cfg))
             (None, hd candidates) candidates)))"

section \<open>The walk-forward run\<close>

record wf_trade = trade_times +
  wf_trade_of :: sim_trade

definition trade_view :: "sim_trade \<Rightarrow> wf_trade" where
  "trade_view t = \<lparr>tt_signal = Some (Aware (tr_signal_ts t)), tt_dependency_end = Some (Aware (dependency_end t)),
     tt_window = None, tt_exit = map_option Aware (tr_exit_ts t), wf_trade_of = t\<rparr>"

definition in_window_at :: "int \<Rightarrow> int \<Rightarrow> int \<Rightarrow> bool" where
  "in_window_at s e t \<longleftrightarrow> s \<le> t \<and> t < e"

text \<open>The trades of a partition after purging, and the metrics of the partition.\<close>

definition partition_trades :: "bool \<Rightarrow> sim_trade list \<Rightarrow> int \<Rightarrow> int \<Rightarrow> sim_trade list" where
  "partition_trades overlapping trades s e =
     map wf_trade_of (eligible_trades (filter_partition
       (map trade_view (filter (\<lambda>t. in_window_at s e (tr_signal_ts t)) trades)) (Some (Aware s)) (Some (Aware e)) 0 overlapping False))"

definition partition_metrics :: "signal_snapshot list \<Rightarrow> sim_trade list \<Rightarrow> int \<Rightarrow> int \<Rightarrow> backtest_metrics" where
  "partition_metrics signals trades s e =
     calculate_metrics (filter (\<lambda>sg. in_window_at s e (instant (sg_timestamp sg))) signals) trades None"

record fold_result =
  fr_spec :: fold_spec
  fr_train_metrics :: backtest_metrics
  fr_val_metrics :: "backtest_metrics option"
  fr_oos_metrics :: backtest_metrics
  fr_train_trades :: "sim_trade list"
  fr_val_trades :: "sim_trade list"
  fr_oos_trades :: "sim_trade list"

definition evaluate_fold ::
  "wf_config \<Rightarrow> string \<Rightarrow> signal_snapshot list \<Rightarrow> sim_trade list \<Rightarrow> fold_spec \<Rightarrow> fold_result" where
  "evaluate_fold c run_fp signals trades f =
     (let part = partition_trades (wf_purge_overlapping c) trades;
          train = part (fo_train_start f) (fo_train_end f);
          val = (case fo_val f of Some (s, e) \<Rightarrow> part s e | None \<Rightarrow> []);
          oos = part (fo_oos_start f) (fo_oos_end f)
      in \<lparr>fr_spec = f,
          fr_train_metrics = partition_metrics signals train (fo_train_start f) (fo_train_end f),
          fr_val_metrics = map_option (\<lambda>(s, e). partition_metrics signals val s e) (fo_val f),
          fr_oos_metrics = partition_metrics signals oos (fo_oos_start f) (fo_oos_end f),
          fr_train_trades = train, fr_val_trades = val,
          fr_oos_trades = map (\<lambda>t. t\<lparr>tr_fold := Some (fo_id f), tr_run_fp := run_fp\<rparr>) oos\<rparr>)"

text \<open>
  The stability of the folds' expectancies. \<open>rt_frac\<close> is the correctly rounded square root of a
  fraction, by which \<open>statistics.stdev\<close> ends.
\<close>

definition stdev :: "(rat \<Rightarrow> rat) \<Rightarrow> rat list \<Rightarrow> rat" where
  "stdev rt_frac xs =
     (let m = sum_list xs / of_nat (length xs)
      in rt_frac (sum_list (map (\<lambda>x. (x - m) * (x - m)) xs) / of_nat (length xs - 1)))"

definition stability_score :: "(rat \<Rightarrow> rat) \<Rightarrow> rat list \<Rightarrow> rat" where
  "stability_score rt_frac xs =
     (if length xs > 1
      then round4 (max 0 (fsub 1 (fdiv (stdev rt_frac xs) (fadd \<bar>mean_or_zero xs\<bar> 1))))
      else if xs \<noteq> [] \<and> hd xs > 0 then 1 else 0)"

record wf_result =
  wr_run_fp :: string
  wr_folds :: "fold_result list"
  wr_oos_metrics :: backtest_metrics
  wr_stability :: rat
  wr_expectancies :: "rat list"

definition consolidate ::
  "(rat \<Rightarrow> rat) \<Rightarrow> wf_config \<Rightarrow> string \<Rightarrow> fold_spec list \<Rightarrow> signal_snapshot list \<Rightarrow> sim_trade list \<Rightarrow> wf_result" where
  "consolidate rt_frac c run_fp folds signals trades =
     (let res = map (evaluate_fold c run_fp signals trades) folds;
          pooled = concat (map fr_oos_trades res);
          inside = filter (\<lambda>sg. list_ex (\<lambda>f. in_window_at (fo_oos_start f) (fo_oos_end f) (instant (sg_timestamp sg))) folds) signals;
          xs = map (net_expectancy_r \<circ> fr_oos_metrics) res
      in \<lparr>wr_run_fp = run_fp, wr_folds = res, wr_oos_metrics = calculate_metrics inside pooled None,
          wr_stability = stability_score rt_frac xs, wr_expectancies = xs\<rparr>)"

definition walk_forward ::
  "digest \<Rightarrow> (signal_decision \<Rightarrow> string) \<Rightarrow> (int \<Rightarrow> int) \<Rightarrow> feature_engine \<Rightarrow> (rat \<Rightarrow> rat) \<Rightarrow> dataset \<Rightarrow> replay_engine \<Rightarrow>
    string \<Rightarrow> datetime \<Rightarrow> datetime \<Rightarrow> wf_config \<Rightarrow> wf_result result" where
  "walk_forward sha afp host fe rt_frac ds eng run_fp start_time end_time c =
     rbind (generate_folds start_time end_time c) (\<lambda>folds.
     let closed = get_closed_candles ds ''15m'' end_time in
     if closed = [] then Inl ValueError
     else rbind (decision_times start_time end_time closed) (\<lambda>ts.
          rbind (make_clock (if ts = [] then [start_time] else ts)) (\<lambda>clock.
          rbind (run_replay sha afp host fe (for_xauusd None) ds
                   (eng\<lparr>re_run_fp := run_fp, re_fold := None, re_start := None, re_end := Some (instant end_time)\<rparr>) clock None)
            (\<lambda>(signals, trades). Inr (consolidate rt_frac c run_fp folds signals trades)))))"

lemmas [eval_defs] = make_wf_config_def scale_time_def fold_at_def generate_folds_def select_parameters_on_train_val_def
  trade_view_def in_window_at_def partition_trades_def partition_metrics_def evaluate_fold_def stdev_def
  stability_score_def consolidate_def walk_forward_def

section \<open>Folds\<close>

lemma make_wf_config_Inr:
  "make_wf_config c = Inr c' \<Longrightarrow> c' = c \<and> 1 \<le> wf_total_folds c \<and> 0 < wf_train_ratio c \<and> 0 \<le> wf_val_ratio c \<and>
    0 < wf_oos_ratio c \<and> 0 \<le> wf_embargo_seconds c"
  by (auto simp: make_wf_config_def split: if_splits)

lemma scale_time_nonneg: "0 \<le> us \<Longrightarrow> 0 \<le> x \<Longrightarrow> 0 \<le> scale_time us x"
  unfolding scale_time_def using rhe_mono [of 0 "of_int us * x"] by simp

definition oos_step :: "wf_config \<Rightarrow> int \<Rightarrow> int" where
  "oos_step c dur = scale_time (scale_time dur (wf_oos_ratio c)) (1 / of_int (wf_total_folds c))"

text \<open>What one fold looks like, and how the next one follows it.\<close>

lemma fold_at_shape:
  assumes c: "make_wf_config c = Inr c'" and time: "s < e" and k: "1 \<le> k"
  shows "s \<le> fo_train_start (fold_at c s e k) \<and> fo_train_start (fold_at c s e k) \<le> fo_train_end (fold_at c s e k) \<and>
    (case fo_val (fold_at c s e k) of
       None \<Rightarrow> fo_oos_start (fold_at c s e k) = fo_train_end (fold_at c s e k) + timedelta_us (wf_embargo_seconds c)
     | Some (a, b) \<Rightarrow> a = fo_train_end (fold_at c s e k) \<and> a \<le> b \<and>
         fo_oos_start (fold_at c s e k) = b + timedelta_us (wf_embargo_seconds c)) \<and>
    fo_oos_end (fold_at c s e k) \<le> e"
proof -
  note cfg = make_wf_config_Inr [OF c]
  have n: "0 \<le> scale_time (e - s) (wf_train_ratio c)" "0 \<le> scale_time (e - s) (wf_val_ratio c)"
    "0 \<le> scale_time (scale_time (e - s) (wf_oos_ratio c)) (1 / of_int (wf_total_folds c)) * (k - 1)"
    using cfg time k by (intro mult_nonneg_nonneg scale_time_nonneg, simp_all)+
  then show ?thesis unfolding fold_at_def Let_def by auto
qed

lemma fold_at_step:
  "fo_oos_start (fold_at c s e k) + oos_step c (e - s) * (j - k) = fo_oos_start (fold_at c s e j)"
  "fo_oos_end (fold_at c s e k) = min (fo_oos_start (fold_at c s e k) + oos_step c (e - s)) e"
  unfolding fold_at_def Let_def oos_step_def by (auto simp: algebra_simps)

lemma folds_disjoint:
  assumes c: "make_wf_config c = Inr c'" and time: "s < e"
  shows "sorted_wrt (\<lambda>f g. fo_oos_end f \<le> fo_oos_start g) (map (fold_at c s e) [1..n])"
proof -
  have step: "0 \<le> oos_step c (e - s)" unfolding oos_step_def
    using make_wf_config_Inr [OF c] time by (intro scale_time_nonneg) simp_all
  have "fo_oos_end (fold_at c s e k) \<le> fo_oos_start (fold_at c s e j)" if "k < j" for k j
  proof -
    have "oos_step c (e - s) * 1 \<le> oos_step c (e - s) * (j - k)" using that by (intro mult_left_mono step) linarith
    then have "fo_oos_start (fold_at c s e k) + oos_step c (e - s) \<le> fo_oos_start (fold_at c s e j)"
      unfolding fold_at_step(1) [of c s e k j, symmetric] by linarith
    then show ?thesis unfolding fold_at_step(2) by (rule order_trans [OF min.cobounded1])
  qed
  then show ?thesis unfolding sorted_wrt_map by (rule sorted_wrt_mono_rel [OF _ sorted_wrt_upto])
qed

lemma generate_folds_Inr:
  "generate_folds start_time end_time c = Inr folds \<Longrightarrow>
    \<exists>s e. start_time = Aware s \<and> end_time = Aware e \<and> s < e \<and> folds = map (fold_at c s e) [1..wf_total_folds c]"
  by (cases start_time; cases end_time) (auto simp: generate_folds_def require_utc_def split: if_splits)

section \<open>Partitions\<close>

text \<open>Purging a partition is a filter of the ledger.\<close>

lemma partition_trades_filter:
  "partition_trades overlapping trades s e =
     filter (\<lambda>t. in_window_at s e (tr_signal_ts t) \<and> \<not> (overlapping \<and> dependency_end t \<ge> e)) trades"
proof -
  have v: "to_utc (tt_signal (trade_view t)) = tr_signal_ts t" "dep_end (trade_view t) = dependency_end t"
    "wf_trade_of (trade_view t) = t" "to_utc (Some (Aware x)) = x" for t x
    by (simp_all add: trade_view_def to_utc_def dep_end_def)
  show ?thesis
    by (simp add: partition_trades_def filter_partition_def purge_fold no_trades_def Let_def partition_spec_def
        filter_map comp_def v in_partition_def in_embargo_def overlaps_def in_window_at_def conj_commute cong: conj_cong)
qed

lemma distinct_pooled:
  assumes "distinct (map tr_id ts)" "sorted_wrt (\<lambda>f g. fo_oos_end f \<le> fo_oos_start g) folds"
  shows "distinct (map tr_id (concat (map (\<lambda>f. partition_trades ov ts (fo_oos_start f) (fo_oos_end f)) folds)))"
  using assms(2)
proof (induction folds)
  case (Cons f fs)
  let ?p = "\<lambda>f. partition_trades ov ts (fo_oos_start f) (fo_oos_end f)"
  have "tr_id t \<noteq> tr_id u" if t: "t \<in> set (?p f)" and u: "g \<in> set fs" "u \<in> set (?p g)" for t u g
  proof
    assume "tr_id t = tr_id u"
    moreover have "t \<in> set ts" "u \<in> set ts" using t u by (simp_all add: partition_trades_filter)
    ultimately have "t = u" using assms(1) by (auto simp: distinct_map dest: inj_onD)
    moreover have "fo_oos_end f \<le> fo_oos_start g" using Cons.prems u by simp
    ultimately show False using t u by (auto simp: partition_trades_filter in_window_at_def)
  qed
  then have "tr_id ` set (?p f) \<inter> tr_id ` (\<Union>g \<in> set fs. set (?p g)) = {}" by blast
  moreover have "distinct (map tr_id (?p f))"
    unfolding partition_trades_filter using assms(1) by (rule distinct_map_filter)
  ultimately show ?case using Cons by (simp add: image_UN)
qed simp

section \<open>Selection\<close>

text \<open>The loop keeps the first of the best candidates; while the best score is \<open>-inf\<close>, the first one.\<close>

lemma better_trans: "better x y \<Longrightarrow> \<not> better z y \<Longrightarrow> better x z"
  by (cases x; cases y; cases z) auto

lemma better_irrefl: "\<not> better x x"
  by (cases x) auto

lemma select_loop:
  assumes "foldl (\<lambda>(best, cfg) c. if better (sc c) best then (sc c, c) else (best, cfg)) (b, x) cs = (b', x')"
  shows "b' = b \<and> x' = x \<and> (\<forall>c \<in> set cs. \<not> better (sc c) b) \<or>
    (\<exists>ys zs. cs = ys @ x' # zs \<and> b' = sc x' \<and> better b' b \<and> (\<forall>y \<in> set ys. better b' (sc y)) \<and> (\<forall>z \<in> set zs. \<not> better (sc z) b'))"
  using assms
proof (induction cs arbitrary: b x)
  case (Cons c cs)
  show ?case
  proof (cases "better (sc c) b")
    case True
    with Cons.prems Cons.IH [of "sc c" c]
    consider "b' = sc c" "x' = c" "\<forall>d \<in> set cs. \<not> better (sc d) (sc c)"
      | ys zs where "cs = ys @ x' # zs" "b' = sc x'" "better b' (sc c)" "\<forall>y \<in> set ys. better b' (sc y)" "\<forall>z \<in> set zs. \<not> better (sc z) b'"
      by auto
    then show ?thesis
    proof cases
      case 1
      with True show ?thesis by (intro disjI2 exI [of _ "[]"] exI [of _ cs]) simp
    next
      case 2
      moreover have "better b' b" using 2(3) True by (cases b'; cases "sc c"; cases b) auto
      ultimately show ?thesis by (intro disjI2 exI [of _ "c # ys"] exI [of _ zs]) simp
    qed
  next
    case False
    with Cons.prems Cons.IH [of b x]
    consider "b' = b" "x' = x" "\<forall>d \<in> set cs. \<not> better (sc d) b"
      | ys zs where "cs = ys @ x' # zs" "b' = sc x'" "better b' b" "\<forall>y \<in> set ys. better b' (sc y)" "\<forall>z \<in> set zs. \<not> better (sc z) b'"
      by auto
    then show ?thesis
    proof cases
      case 1
      with False show ?thesis by simp
    next
      case 2
      moreover have "better b' (sc c)" using better_trans [OF 2(3) False] .
      ultimately show ?thesis by (intro disjI2 exI [of _ "c # ys"] exI [of _ zs]) simp
    qed
  qed
qed simp

section \<open>Specifications\<close>

text \<open>A fold of the window that ends at \<open>e\<close>, and trades whose evidence stays in \<open>[a, b)\<close>.\<close>

definition ordered_fold :: "wf_config \<Rightarrow> int \<Rightarrow> int \<Rightarrow> fold_spec \<Rightarrow> bool" where
  "ordered_fold c s e f \<longleftrightarrow>
     s \<le> fo_train_start f \<and> fo_train_start f \<le> fo_train_end f \<and>
     (case fo_val f of
        None \<Rightarrow> wf_val_ratio c = 0 \<and> fo_oos_start f = fo_train_end f + timedelta_us (wf_embargo_seconds c)
      | Some (a, b) \<Rightarrow> wf_val_ratio c > 0 \<and> a = fo_train_end f \<and> a \<le> b \<and>
          fo_oos_start f = b + timedelta_us (wf_embargo_seconds c)) \<and>
     fo_oos_end f \<le> e"

definition confined :: "int \<Rightarrow> int \<Rightarrow> sim_trade list \<Rightarrow> bool" where
  "confined a b ts \<longleftrightarrow> list_all (\<lambda>t. a \<le> tr_signal_ts t \<and> tr_signal_ts t < b \<and> dependency_end t < b) ts"

definition isolated :: "fold_result \<Rightarrow> bool" where
  "isolated r \<longleftrightarrow>
     confined (fo_train_start (fr_spec r)) (fo_train_end (fr_spec r)) (fr_train_trades r) \<and>
     (case fo_val (fr_spec r) of None \<Rightarrow> fr_val_trades r = [] | Some (a, b) \<Rightarrow> confined a b (fr_val_trades r)) \<and>
     confined (fo_oos_start (fr_spec r)) (fo_oos_end (fr_spec r)) (fr_oos_trades r) \<and>
     tr_id ` set (fr_oos_trades r) \<inter> tr_id ` (set (fr_train_trades r) \<union> set (fr_val_trades r)) = {}"

lemma timedelta_nonneg: "0 \<le> x \<Longrightarrow> 0 \<le> timedelta_us x"
  unfolding timedelta_us_def using rhe_mono [of 0 "x * 1000000"] by simp

lemma fold_at_ordered:
  assumes "make_wf_config c = Inr c'" "s < e" "1 \<le> k"
  shows "ordered_fold c s e (fold_at c s e k)"
proof -
  have "fo_val (fold_at c s e k) = None \<longleftrightarrow> \<not> wf_val_ratio c > 0" by (simp add: fold_at_def Let_def)
  then show ?thesis
    using fold_at_shape [OF assms] make_wf_config_Inr [OF assms(1)]
    by (cases "fo_val (fold_at c s e k)") (auto simp: ordered_fold_def)
qed

lemma confined_partition: "confined a b (partition_trades True ts a b)"
  by (auto simp: confined_def partition_trades_filter in_window_at_def list_all_iff)

lemma evaluate_fold_isolated:
  assumes ov: "wf_purge_overlapping c" and emb: "0 \<le> wf_embargo_seconds c"
    and f: "ordered_fold c s e f" and ids: "distinct (map tr_id ts)"
  shows "isolated (evaluate_fold c fp sgs ts f)"
proof -
  let ?p = "partition_trades True ts" and ?r = "evaluate_fold c fp sgs ts f"
  let ?val = "case fo_val f of Some (a, b) \<Rightarrow> ?p a b | None \<Rightarrow> []"
  have r: "fr_spec ?r = f" "fr_train_trades ?r = ?p (fo_train_start f) (fo_train_end f)" "fr_val_trades ?r = ?val"
    "fr_oos_trades ?r = map (\<lambda>t. t\<lparr>tr_fold := Some (fo_id f), tr_run_fp := fp\<rparr>) (?p (fo_oos_start f) (fo_oos_end f))"
    using ov by (simp_all add: evaluate_fold_def Let_def split: option.splits)
  have early: "t \<in> set ts \<and> tr_signal_ts t < fo_oos_start f"
    if "t \<in> set (?p (fo_train_start f) (fo_train_end f)) \<union> set ?val" for t
    using that f timedelta_nonneg [OF emb]
    by (auto simp: ordered_fold_def partition_trades_filter in_window_at_def split: option.splits prod.splits)
  have late: "t \<in> set ts \<and> fo_oos_start f \<le> tr_signal_ts t" if "t \<in> set (?p (fo_oos_start f) (fo_oos_end f))" for t
    using that by (simp add: partition_trades_filter in_window_at_def)
  have "tr_id t \<noteq> tr_id u" if "t \<in> set (?p (fo_oos_start f) (fo_oos_end f))"
    "u \<in> set (?p (fo_train_start f) (fo_train_end f)) \<union> set ?val" for t u
    using late [OF that(1)] early [OF that(2)] ids by (fastforce simp: distinct_map inj_on_def)
  then have "tr_id ` set (fr_oos_trades ?r) \<inter> tr_id ` (set (fr_train_trades ?r) \<union> set (fr_val_trades ?r)) = {}"
    unfolding r by (auto simp: image_image)
  moreover have "confined (fo_oos_start f) (fo_oos_end f) (fr_oos_trades ?r)"
    using confined_partition [of "fo_oos_start f" "fo_oos_end f" ts] unfolding r by (simp add: confined_def list_all_iff)
  ultimately show ?thesis
    unfolding isolated_def r(1-3) by (auto simp: confined_partition split: option.splits)
qed

section \<open>Properties\<close>

text \<open>
  The folds of a valid configuration are numbered from 1 and chronological: each trains inside
  the window, validates right after training, and tests only after the embargo and not past the
  end; the test windows of different folds do not overlap.
\<close>

theorem folds_chronological:
  assumes "make_wf_config c = Inr c'" and "generate_folds start_time end_time c = Inr folds"
  shows "\<exists>s e. start_time = Aware s \<and> end_time = Aware e \<and> s < e \<and>
    map fo_id folds = [1..wf_total_folds c] \<and> (\<forall>f \<in> set folds. ordered_fold c s e f) \<and>
    sorted_wrt (\<lambda>f g. fo_oos_end f \<le> fo_oos_start g) folds"
proof -
  from generate_folds_Inr [OF assms(2)] obtain s e where g: "start_time = Aware s" "end_time = Aware e" "s < e"
    "folds = map (fold_at c s e) [1..wf_total_folds c]" by blast
  have "map fo_id folds = [1..wf_total_folds c]" by (simp add: g(4) fold_at_def Let_def comp_def)
  moreover have "\<forall>f \<in> set folds. ordered_fold c s e f"
    using fold_at_ordered [OF assms(1) g(3)] by (auto simp: g(4))
  ultimately show ?thesis using folds_disjoint [OF assms(1) g(3)] g by blast
qed

text \<open>
  The selection of parameters returns an error exactly when there is no candidate. Otherwise it
  returns the first candidate with the best score on training and validation data: every
  earlier one is strictly worse and no later one is better.
\<close>

theorem selection_takes_first_best:
  "case select_parameters_on_train_val train val candidates score of
     Inl x \<Rightarrow> x = ValueError \<and> candidates = []
   | Inr cfg \<Rightarrow> \<exists>ys zs. candidates = ys @ cfg # zs \<and>
       list_all (\<lambda>y. better (score train val cfg) (score train val y)) ys \<and>
       list_all (\<lambda>z. \<not> better (score train val z) (score train val cfg)) zs"
proof (cases candidates)
  case (Cons c cs)
  obtain b x where r: "foldl (\<lambda>(best, cfg) c. if better (score train val c) best then (score train val c, c) else (best, cfg))
      (None, c) (c # cs) = (b, x)" by fastforce
  have sel: "select_parameters_on_train_val train val candidates score = Inr x"
    unfolding select_parameters_on_train_val_def Cons list.sel(1) r by simp
  from select_loop [OF r] show ?thesis
  proof (elim disjE exE conjE)
    assume x: "b = None" "x = c" "\<forall>d \<in> set (c # cs). \<not> better (score train val d) None"
    have none: "score train val d = None" if "d \<in> set (c # cs)" for d
      using x(3) that by (cases "score train val d") auto
    show ?thesis unfolding sel sum.case x(2)
      by (intro exI [of _ "[]"] exI [of _ cs]) (simp add: Cons none list_all_iff)
  next
    fix ys zs
    assume "c # cs = ys @ x # zs" "b = score train val x" "\<forall>y \<in> set ys. better b (score train val y)"
      "\<forall>z \<in> set zs. \<not> better (score train val z) b"
    then show ?thesis unfolding sel sum.case
      by (intro exI [of _ ys] exI [of _ zs]) (simp add: Cons list_all_iff)
  qed
qed (simp add: select_parameters_on_train_val_def)

text \<open>
  C10. No test data leaks through a fold of a walk-forward run that purges: every trade used for
  training, validation or test has its signal and all its evidence inside that window, a
  fold's test trades are none of those it trained or validated on, and no trade is tested twice, so the
  pooled test result counts every trade at most once.
\<close>

theorem walk_forward_isolates_oos:
  assumes c: "make_wf_config c = Inr c'" "wf_purge_overlapping c"
    and run: "walk_forward sha afp host fe rt_frac ds eng fp start_time end_time c = Inr r"
  shows "length (wr_folds r) = nat (wf_total_folds c) \<and> (\<forall>f \<in> set (wr_folds r). isolated f) \<and>
    distinct (map tr_id (concat (map fr_oos_trades (wr_folds r)))) \<and>
    wr_expectancies r = map (net_expectancy_r \<circ> fr_oos_metrics) (wr_folds r)"
proof -
  from run obtain folds clock sgs ts where g: "generate_folds start_time end_time c = Inr folds"
    and rep: "run_replay sha afp host fe (for_xauusd None) ds
      (eng\<lparr>re_run_fp := fp, re_fold := None, re_start := None, re_end := Some (instant end_time)\<rparr>) clock None = Inr (sgs, ts)"
    and r: "r = consolidate rt_frac c fp folds sgs ts"
    by (auto simp: walk_forward_def Let_def rbind_Inr_iff split: if_splits)
  from generate_folds_Inr [OF g] obtain s e where f: "s < e" "folds = map (fold_at c s e) [1..wf_total_folds c]" by blast
  from direct_shape [OF rep] have ids: "distinct (map tr_id ts)" by blast
  have emb: "0 \<le> wf_embargo_seconds c" using make_wf_config_Inr [OF c(1)] by simp
  have w: "wr_folds r = map (evaluate_fold c fp sgs ts) folds" by (simp add: r consolidate_def Let_def)
  have "\<forall>x \<in> set (wr_folds r). isolated x"
    unfolding w using evaluate_fold_isolated [OF c(2) emb fold_at_ordered [OF c(1) f(1)] ids] by (auto simp: f(2))
  moreover have "map tr_id (fr_oos_trades (evaluate_fold c fp sgs ts x)) =
      map tr_id (partition_trades True ts (fo_oos_start x) (fo_oos_end x))" for x
    using c(2) by (simp add: evaluate_fold_def Let_def)
  then have "map tr_id (concat (map fr_oos_trades (wr_folds r))) =
      map tr_id (concat (map (\<lambda>x. partition_trades True ts (fo_oos_start x) (fo_oos_end x)) folds))"
    by (simp add: w map_concat comp_def)
  then have "distinct (map tr_id (concat (map fr_oos_trades (wr_folds r))))"
    using distinct_pooled [OF ids folds_disjoint [OF c(1) f(1)]] unfolding f(2) by metis
  ultimately show ?thesis by (simp add: r consolidate_def Let_def f(2))
qed

section \<open>Witnesses\<close>

definition sample_wf :: wf_config where
  "sample_wf = \<lparr>wf_total_folds = 2, wf_train_ratio = 1 / 2, wf_val_ratio = 1 / 4, wf_oos_ratio = 1 / 4,
     wf_embargo_seconds = 60, wf_purge_overlapping = True, wf_rolling_window = False\<rparr>"

lemma sample_wf_valid: "make_wf_config sample_wf = Inr sample_wf"
  by (simp add: sample_wf_def eval_defs)

lemma sample_durations:
  "scale_time (2000 * second) (1 / 2) = 1000 * second" "scale_time (2000 * second) (1 / 4) = 500 * second"
  "scale_time (500 * second) (1 / 2) = 250 * second" "timedelta_us 60 = 60 * second"
  using rhe_of_int [of "1000000000"] rhe_of_int [of "500000000"] rhe_of_int [of "250000000"] rhe_of_int [of "60000000"]
  by (simp_all add: scale_time_def timedelta_us_def second_def)

lemma sample_folds:
  "generate_folds (Aware 0) (Aware (2000 * second)) sample_wf =
     Inr [\<lparr>fo_id = 1, fo_train_start = 0, fo_train_end = 1000 * second, fo_val = Some (1000 * second, 1500 * second),
            fo_oos_start = 1560 * second, fo_oos_end = 1810 * second, fo_embargo = 60\<rparr>,
          \<lparr>fo_id = 2, fo_train_start = 0, fo_train_end = 1250 * second, fo_val = Some (1250 * second, 1750 * second),
            fo_oos_start = 1810 * second, fo_oos_end = 2000 * second, fo_embargo = 60\<rparr>]"
proof -
  have "[1..2] = [1, 2 :: int]" by (simp add: upto_rec1)
  moreover have "\<not> 2000 * second \<le> 0" by (simp add: second_def)
  ultimately show ?thesis
    by (simp add: sample_wf_def generate_folds_def fold_at_def sample_durations [unfolded second_def, simplified] require_utc_def Let_def second_def)
qed

theorem folds_chronological_witness:
  "\<exists>folds. make_wf_config sample_wf = Inr sample_wf \<and>
     generate_folds (Aware 0) (Aware (2000 * second)) sample_wf = Inr folds \<and> map fo_id folds = [1..2] \<and>
     list_all (ordered_fold sample_wf 0 (2000 * second)) folds"
proof -
  from sample_folds obtain folds where g: "generate_folds (Aware 0) (Aware (2000 * second)) sample_wf = Inr folds" by blast
  from folds_chronological [OF sample_wf_valid this] show ?thesis
    using sample_wf_valid g by (auto simp: list_all_iff sample_wf_def)
qed

theorem walk_forward_isolates_oos_witness:
  "\<exists>r. walk_forward sample_digest (\<lambda>_. ''p4'') (\<lambda>_. 0) sample_fe (\<lambda>x. x) sample_ds idle_engine ''run''
       (Aware 0) (Aware (2000 * second)) sample_wf = Inr r \<and>
     length (wr_folds r) = 2 \<and> list_all isolated (wr_folds r)"
proof -
  let ?eng = "idle_engine\<lparr>re_run_fp := ''run'', re_fold := None, re_start := None, re_end := Some (2000 * second)\<rparr>"
  from sample_folds obtain folds where g: "generate_folds (Aware 0) (Aware (2000 * second)) sample_wf = Inr folds" by blast
  have aware: "\<forall>c \<in> set (get_closed_candles sample_ds ''15m'' (Aware (2000 * second))). is_aware (timestamp_close c)"
    using sample_regular by (simp add: regular_dataset_def regular_def get_closed_candles_def closed_by_def)
  have ts: "decision_times (Aware 0) (Aware (2000 * second)) (get_closed_candles sample_ds ''15m'' (Aware (2000 * second))) =
      Inr (map Aware [900 * second, 1800 * second])"
    unfolding decision_times_instants [OF aware] sample_instants [unfolded decision_instants_def] ..
  have closed: "get_closed_candles sample_ds ''15m'' (Aware (2000 * second)) \<noteq> []"
    using sample_instants by (auto simp: decision_instants_def)
  have clock: "make_clock (map Aware [900 * second, 1800 * second]) = Inr [900 * second, 1800 * second]"
    by (simp add: make_clock_def second_def)
  have "re_profile ?eng = None" by (simp add: idle_engine_def)
  from uncalibrated_direct_run [OF this] obtain sgs where rep: "run_replay sample_digest (\<lambda>_. ''p4'') (\<lambda>_. 0) sample_fe
      (for_xauusd None) sample_ds ?eng [900 * second, 1800 * second] None = Inr (sgs, [])" unfolding sample_instants by blast
  have run: "walk_forward sample_digest (\<lambda>_. ''p4'') (\<lambda>_. 0) sample_fe (\<lambda>x. x) sample_ds idle_engine ''run''
       (Aware 0) (Aware (2000 * second)) sample_wf = Inr (consolidate (\<lambda>x. x) sample_wf ''run'' folds sgs [])"
    unfolding walk_forward_def g rbind_simps Let_def ts using closed clock rep by simp
  have "wf_purge_overlapping sample_wf" by (simp add: sample_wf_def)
  from walk_forward_isolates_oos [OF sample_wf_valid this run] run show ?thesis
    by (auto simp: list_all_iff sample_wf_def)
qed

text \<open>
  An embargo longer than a test window is accepted and inverts the last test windows: the start
  moves past the end of the run, to which the end is clamped, so such a fold tests nothing.
\<close>

theorem long_embargo_inverts_window:
  assumes "s + scale_time (e - s) (wf_train_ratio c) + oos_step c (e - s) * (k - 1) + timedelta_us (wf_embargo_seconds c) > e"
    and "wf_val_ratio c = 0"
  shows "fo_oos_end (fold_at c s e k) < fo_oos_start (fold_at c s e k) \<and>
    fr_oos_trades (evaluate_fold c fp sgs ts (fold_at c s e k)) = []"
proof -
  have "fo_oos_end (fold_at c s e k) < fo_oos_start (fold_at c s e k)"
    using assms unfolding fold_at_def oos_step_def Let_def by (auto simp: algebra_simps)
  then show ?thesis
    by (auto simp: evaluate_fold_def Let_def partition_trades_filter in_window_at_def filter_empty_conv)
qed

end
