(* ===== verification/Governance.thy ===== *)
theory Governance
  imports Prelude
begin

text \<open>
  \<open>engine/backtest/xauusd_governance.py\<close>: which historical windows a backtest may ask for. The
  selection policy, loaded from a file, and the registered resolver of the live observation
  start are arguments, and so is \<open>parse\<close>, the parser \<open>datetime.fromisoformat\<close> of the policy's
  fold boundaries.
\<close>

section \<open>Partitions\<close>

record partition_window =
  pw_name :: string
  pw_start :: int
  pw_end :: int

definition intersects :: "partition_window \<Rightarrow> int \<Rightarrow> int \<Rightarrow> bool" where
  "intersects w s e \<longleftrightarrow> s < pw_end w \<and> e > pw_start w"

definition contains :: "partition_window \<Rightarrow> int \<Rightarrow> int \<Rightarrow> bool" where
  "contains w s e \<longleftrightarrow> s \<ge> pw_start w \<and> e \<le> pw_end w"

record governance_spec =
  gs_policy_id :: string
  gs_configured :: bool
  gs_approved :: "partition_window option"
  gs_protected :: "partition_window list"
  gs_error :: "string option"

text \<open>\<open>_to_utc\<close> of this module rejects naive values.\<close>

fun strict_utc :: "datetime \<Rightarrow> int result" where
  "strict_utc (Aware u) = Inr u"
| "strict_utc (Naive w) = Inl ValueError"

section \<open>Resolution of the specification\<close>

text \<open>What is read of the policy; a fold that is not a dictionary is \<open>None\<close>.\<close>

record selection_policy =
  po_id :: string
  historical_start :: datetime
  historical_end_exclusive :: datetime
  po_folds :: "(string \<rightharpoonup> string) option list"
  phase8_start :: datetime

definition no_window :: "string \<Rightarrow> governance_spec" where
  "no_window i = \<lparr>gs_policy_id = i, gs_configured = False, gs_approved = None, gs_protected = [],
     gs_error = Some ''NO_APPROVED_RESEARCH_WINDOW_CONFIGURED''\<rparr>"

text \<open>The boundaries of the folds, in order: the loop may raise.\<close>

fun fold_bounds :: "(string \<Rightarrow> datetime result) \<Rightarrow> (string \<rightharpoonup> string) option list \<Rightarrow> (int list \<times> int list) result" where
  "fold_bounds parse [] = Inr ([], [])"
| "fold_bounds parse (None # fs) = fold_bounds parse fs"
| "fold_bounds parse (Some f # fs) =
     rbind (case f ''oos_start'' of None \<Rightarrow> Inr [] | Some x \<Rightarrow> rbind (rbind (parse x) strict_utc) (\<lambda>t. Inr [t])) (\<lambda>s.
     rbind (case f ''oos_end'' of None \<Rightarrow> Inr [] | Some x \<Rightarrow> rbind (rbind (parse x) strict_utc) (\<lambda>t. Inr [t])) (\<lambda>e.
     rbind (fold_bounds parse fs) (\<lambda>(ss, es). Inr (s @ ss, e @ es))))"

text \<open>The start of the observation; a failing resolver is ignored, an explicit naive start is not.\<close>

definition observation_start :: "datetime option \<Rightarrow> datetime option result option \<Rightarrow> int \<Rightarrow> int result" where
  "observation_start dynamic resolver p8 =
     (case dynamic of
        Some d \<Rightarrow> rbind (strict_utc d) (\<lambda>u. Inr (min p8 u))
      | None \<Rightarrow>
          Inr (case resolver of
                 Some (Inr (Some d)) \<Rightarrow> (case strict_utc d of Inr u \<Rightarrow> min p8 u | Inl _ \<Rightarrow> p8)
               | _ \<Rightarrow> p8))"

text \<open>9999-12-31 23:59:59 UTC.\<close>

definition unbounded_future :: int where
  "unbounded_future = 253402300799 * second"

definition configured_spec :: "string \<Rightarrow> int \<Rightarrow> int \<Rightarrow> int \<Rightarrow> int \<Rightarrow> int \<Rightarrow> governance_spec" where
  "configured_spec i hist oos_start oos_end p8 observed = \<lparr>gs_policy_id = i, gs_configured = True,
     gs_approved = Some \<lparr>pw_name = ''APPROVED_RESEARCH_IN_SAMPLE'', pw_start = hist, pw_end = oos_start\<rparr>,
     gs_protected = [\<lparr>pw_name = ''PROTECTED_WALKFORWARD_OOS'', pw_start = oos_start, pw_end = oos_end\<rparr>,
       \<lparr>pw_name = ''QUARANTINED_CALIBRATION_GAP'', pw_start = oos_end, pw_end = p8\<rparr>,
       \<lparr>pw_name = ''PROTECTED_OBSERVATION_PARTITION'', pw_start = observed, pw_end = unbounded_future\<rparr>],
     gs_error = None\<rparr>"

text \<open>The body of the \<open>try\<close>; its exceptions all end in \<open>no_window\<close>.\<close>

definition resolve_policy ::
  "(string \<Rightarrow> datetime result) \<Rightarrow> selection_policy \<Rightarrow> datetime option \<Rightarrow> datetime option result option \<Rightarrow>
    governance_spec result" where
  "resolve_policy parse p dynamic resolver =
     rbind (strict_utc (historical_start p)) (\<lambda>hist.
     rbind (strict_utc (historical_end_exclusive p)) (\<lambda>_.
     rbind (fold_bounds parse (po_folds p)) (\<lambda>(ss, es).
     if ss = [] \<or> es = [] then Inr (no_window (po_id p))
     else let a = Min (set ss); b = Max (set es) in
       if hist \<ge> a then Inr (no_window (po_id p))
       else rbind (strict_utc (phase8_start p)) (\<lambda>p8.
            rbind (observation_start dynamic resolver p8) (\<lambda>obs.
              Inr (configured_spec (po_id p) hist a b p8 obs))))))"

definition resolve_backtest_governance_spec ::
  "(string \<Rightarrow> datetime result) \<Rightarrow> selection_policy result \<Rightarrow> selection_policy option \<Rightarrow> datetime option \<Rightarrow>
    datetime option result option \<Rightarrow> governance_spec" where
  "resolve_backtest_governance_spec parse loaded policy dynamic resolver =
     (case (case policy of Some p \<Rightarrow> Inr p | None \<Rightarrow> loaded) of
        Inl _ \<Rightarrow> no_window ''UNRESOLVED''
      | Inr p \<Rightarrow> (case resolve_policy parse p dynamic resolver of Inr s \<Rightarrow> s | Inl _ \<Rightarrow> no_window (po_id p)))"

section \<open>Validation of a window\<close>

datatype governance_error = InvalidWindow | NoApprovedResearchWindow string | ProtectedPartition | OutsideApproved

text \<open>\<open>spec.error_code or "NO_APPROVED_RESEARCH_WINDOW_CONFIGURED"\<close>.\<close>

definition spec_error :: "governance_spec \<Rightarrow> string" where
  "spec_error spec = (case gs_error spec of
     Some m \<Rightarrow> if m \<noteq> [] then m else ''NO_APPROVED_RESEARCH_WINDOW_CONFIGURED''
   | None \<Rightarrow> ''NO_APPROVED_RESEARCH_WINDOW_CONFIGURED'')"

definition check_window :: "int \<Rightarrow> int \<Rightarrow> governance_spec \<Rightarrow> governance_error + unit" where
  "check_window s e spec =
     (case (if gs_configured spec then gs_approved spec else None) of
        None \<Rightarrow> Inl (NoApprovedResearchWindow (spec_error spec))
      | Some w \<Rightarrow>
          if list_ex (\<lambda>p. intersects p s e) (gs_protected spec) then Inl ProtectedPartition
          else if \<not> contains w s e then Inl OutsideApproved
          else Inr ())"

definition validate_backtest_window_governance ::
  "(string \<Rightarrow> datetime result) \<Rightarrow> selection_policy result \<Rightarrow> datetime option result option \<Rightarrow>
    datetime \<Rightarrow> datetime \<Rightarrow> governance_spec option \<Rightarrow> governance_error + unit" where
  "validate_backtest_window_governance parse loaded resolver start_dt end_dt spec =
     (case (strict_utc start_dt, strict_utc end_dt) of
        (Inr s, Inr e) \<Rightarrow>
          if e \<le> s then Inl InvalidWindow
          else check_window s e
            (case spec of Some g \<Rightarrow> g | None \<Rightarrow> resolve_backtest_governance_spec parse loaded None None resolver)
      | _ \<Rightarrow> Inl InvalidWindow)"

lemmas [eval_defs] = intersects_def contains_def no_window_def observation_start_def unbounded_future_def
  configured_spec_def resolve_policy_def resolve_backtest_governance_spec_def spec_error_def check_window_def
  validate_backtest_window_governance_def

section \<open>What a specification protects\<close>

lemma fold_bounds_Inr:
  assumes "fold_bounds parse fs = Inr (ss, es)"
  shows "set ss = {t. \<exists>f x d. Some f \<in> set fs \<and> f ''oos_start'' = Some x \<and> parse x = Inr d \<and> strict_utc d = Inr t} \<and>
    set es = {t. \<exists>f x d. Some f \<in> set fs \<and> f ''oos_end'' = Some x \<and> parse x = Inr d \<and> strict_utc d = Inr t}"
  using assms
proof (induction parse fs arbitrary: ss es rule: fold_bounds.induct)
  case (3 parse f fs)
  then obtain s e ss' es' where
    s: "(case f ''oos_start'' of None \<Rightarrow> Inr [] | Some x \<Rightarrow> rbind (rbind (parse x) strict_utc) (\<lambda>t. Inr [t])) = Inr s"
    and e: "(case f ''oos_end'' of None \<Rightarrow> Inr [] | Some x \<Rightarrow> rbind (rbind (parse x) strict_utc) (\<lambda>t. Inr [t])) = Inr e"
    and r: "fold_bounds parse fs = Inr (ss', es')" "ss = s @ ss'" "es = e @ es'"
    by (auto simp: rbind_Inr_iff)
  have "set s = {t. \<exists>x d. f ''oos_start'' = Some x \<and> parse x = Inr d \<and> strict_utc d = Inr t}"
    using s by (auto simp: rbind_Inr_iff split: option.splits)
  moreover have "set e = {t. \<exists>x d. f ''oos_end'' = Some x \<and> parse x = Inr d \<and> strict_utc d = Inr t}"
    using e by (auto simp: rbind_Inr_iff split: option.splits)
  ultimately show ?case using "3.IH" [OF r(1)] r(2,3) by auto
qed auto

text \<open>Every boundary that a fold names was read: one that does not parse, or is naive, fails the whole.\<close>

definition boundary :: "(string \<Rightarrow> datetime result) \<Rightarrow> string \<Rightarrow> int \<Rightarrow> bool" where
  "boundary parse x t \<longleftrightarrow> (\<exists>d. parse x = Inr d \<and> strict_utc d = Inr t)"

lemma fold_bounds_read:
  assumes "fold_bounds parse fs = Inr (ss, es)" "Some f \<in> set fs"
  shows "(f ''oos_start'' = Some x \<longrightarrow> (\<exists>t \<in> set ss. boundary parse x t)) \<and>
    (f ''oos_end'' = Some x \<longrightarrow> (\<exists>t \<in> set es. boundary parse x t))"
  using assms
proof (induction parse fs arbitrary: ss es rule: fold_bounds.induct)
  case (3 parse g fs)
  then obtain s e ss' es' where
    s: "(case g ''oos_start'' of None \<Rightarrow> Inr [] | Some x \<Rightarrow> rbind (rbind (parse x) strict_utc) (\<lambda>t. Inr [t])) = Inr s"
    and e: "(case g ''oos_end'' of None \<Rightarrow> Inr [] | Some x \<Rightarrow> rbind (rbind (parse x) strict_utc) (\<lambda>t. Inr [t])) = Inr e"
    and r: "fold_bounds parse fs = Inr (ss', es')" "ss = s @ ss'" "es = e @ es'"
    by (auto simp: rbind_Inr_iff)
  show ?case
  proof (cases "f = g")
    case True
    with s e r(2,3) show ?thesis by (auto simp: rbind_Inr_iff boundary_def)
  next
    case False
    with "3.prems"(2) "3.IH" [OF r(1)] r(2,3) show ?thesis by auto
  qed
qed auto

text \<open>A resolved specification is unconfigured or it has the four partitions.\<close>

lemma resolve_cases:
  assumes "resolve_backtest_governance_spec parse loaded policy dynamic resolver = spec"
  obtains (fails) i where "spec = no_window i"
  | (configured) p hist ss es p8 obs where "policy = Some p \<or> (policy = None \<and> loaded = Inr p)"
      "strict_utc (historical_start p) = Inr hist" "fold_bounds parse (po_folds p) = Inr (ss, es)"
      "ss \<noteq> []" "es \<noteq> []" "hist < Min (set ss)" "strict_utc (phase8_start p) = Inr p8"
      "observation_start dynamic resolver p8 = Inr obs"
      "spec = configured_spec (po_id p) hist (Min (set ss)) (Max (set es)) p8 obs"
proof -
  show thesis
  proof (cases "\<exists>i. spec = no_window i")
    case False
    then obtain p where p: "policy = Some p \<or> (policy = None \<and> loaded = Inr p)" "resolve_policy parse p dynamic resolver = Inr spec"
      using assms by (auto simp: resolve_backtest_governance_spec_def split: option.splits sum.splits)
    from p(2) False obtain hist ss es p8 obs where
      "strict_utc (historical_start p) = Inr hist" "fold_bounds parse (po_folds p) = Inr (ss, es)"
      "ss \<noteq> []" "es \<noteq> []" "hist < Min (set ss)" "strict_utc (phase8_start p) = Inr p8"
      "observation_start dynamic resolver p8 = Inr obs"
      "spec = configured_spec (po_id p) hist (Min (set ss)) (Max (set es)) p8 obs"
      by (auto simp: resolve_policy_def Let_def rbind_Inr_iff not_le split: if_splits)
    with p(1) show thesis by (rule configured)
  qed (auto intro: fails)
qed

lemma check_configured:
  "check_window s e (configured_spec i hist a b p8 obs) = Inr () \<longleftrightarrow>
    \<not> (s < b \<and> e > a) \<and> \<not> (s < p8 \<and> e > b) \<and> \<not> (s < unbounded_future \<and> e > obs) \<and> s \<ge> hist \<and> e \<le> a"
  by (simp add: check_window_def configured_spec_def intersects_def contains_def)

lemma observation_before: "observation_start dynamic resolver p8 = Inr obs \<Longrightarrow> obs \<le> p8"
  by (auto simp: observation_start_def rbind_Inr_iff split: option.splits sum.splits)

section \<open>Properties\<close>

text \<open>
  C14. A window that governance accepts never touches protected data. The policy was read, the
  window starts at the historical start or later, and every boundary of the test data that any
  fold names was read, and the window ends at the latest where the test data of any fold start; at
  least one fold names a start and one an end. The window ends before the observation of the
  live phase that the policy states and, where that is earlier, before the start that the caller
  gives, which must not be naive, or that a registered resolver answers; a resolver that fails
  leaves the start of the policy in force. The observation is not checked for windows that start
  in the last second of the year 9999 or later.
\<close>

theorem governance_isolates_protected_data:
  assumes "validate_backtest_window_governance parse loaded resolver start_dt end_dt
      (Some (resolve_backtest_governance_spec parse loaded policy dynamic resolver)) = Inr ()"
  shows "\<exists>s e p hist p8. strict_utc start_dt = Inr s \<and> strict_utc end_dt = Inr e \<and> s < e \<and>
    (policy = Some p \<or> policy = None \<and> loaded = Inr p) \<and> strict_utc (historical_start p) = Inr hist \<and> hist \<le> s \<and>
    (\<forall>f x. Some f \<in> set (po_folds p) \<and> f ''oos_start'' = Some x \<longrightarrow> (\<exists>a. boundary parse x a \<and> e \<le> a)) \<and>
    (\<forall>f x. Some f \<in> set (po_folds p) \<and> f ''oos_end'' = Some x \<longrightarrow> (\<exists>b. boundary parse x b)) \<and>
    (\<exists>f. Some f \<in> set (po_folds p) \<and> f ''oos_start'' \<noteq> None) \<and> (\<exists>f. Some f \<in> set (po_folds p) \<and> f ''oos_end'' \<noteq> None) \<and>
    strict_utc (phase8_start p) = Inr p8 \<and> (\<forall>d. dynamic = Some d \<longrightarrow> is_aware d) \<and>
    (s < unbounded_future \<longrightarrow> e \<le> p8 \<and>
       (\<forall>d u. (dynamic = Some d \<or> dynamic = None \<and> resolver = Some (Inr (Some d))) \<and> strict_utc d = Inr u \<longrightarrow> e \<le> u))"
proof -
  let ?spec = "resolve_backtest_governance_spec parse loaded policy dynamic resolver"
  from assms obtain s e where se: "strict_utc start_dt = Inr s" "strict_utc end_dt = Inr e" "s < e" "check_window s e ?spec = Inr ()"
    by (auto simp: validate_backtest_window_governance_def split: sum.splits if_splits)
  show ?thesis
  proof (rule resolve_cases [OF refl, of parse loaded policy dynamic resolver])
    fix i
    assume "?spec = no_window i"
    with se(4) show ?thesis by (simp add: check_window_def no_window_def)
  next
    fix p hist ss es p8 obs
    assume p: "policy = Some p \<or> (policy = None \<and> loaded = Inr p)" "strict_utc (historical_start p) = Inr hist"
      and fb: "fold_bounds parse (po_folds p) = Inr (ss, es)" "ss \<noteq> []" "es \<noteq> []"
      and p8: "strict_utc (phase8_start p) = Inr p8" "observation_start dynamic resolver p8 = Inr obs"
      and spec: "?spec = configured_spec (po_id p) hist (Min (set ss)) (Max (set es)) p8 obs"
    from se(4) have c: "\<not> (s < unbounded_future \<and> e > obs)" "hist \<le> s" "e \<le> Min (set ss)"
      unfolding spec check_configured by simp_all
    have first: "e \<le> a" if "a \<in> set ss" for a using c(3) Min_le [OF _ that] by simp
    have starts: "\<exists>a. boundary parse x a \<and> e \<le> a" if "Some f \<in> set (po_folds p)" "f ''oos_start'' = Some x" for f x
      using fold_bounds_read [OF fb(1) that(1)] that(2) first by blast
    have ends: "\<exists>b. boundary parse x b" if "Some f \<in> set (po_folds p)" "f ''oos_end'' = Some x" for f x
      using fold_bounds_read [OF fb(1) that(1)] that(2) by blast
    from fb(2,3) obtain a b where "a \<in> set ss" "b \<in> set es" by (meson last_in_set)
    with fold_bounds_Inr [OF fb(1)] obtain f x g y where "Some f \<in> set (po_folds p)" "f ''oos_start'' = Some x"
      "Some g \<in> set (po_folds p)" "g ''oos_end'' = Some y" by blast
    then have some: "\<exists>f. Some f \<in> set (po_folds p) \<and> f ''oos_start'' \<noteq> None" "\<exists>f. Some f \<in> set (po_folds p) \<and> f ''oos_end'' \<noteq> None"
      by force+
    have aware: "is_aware d" if "dynamic = Some d" for d
      using p8(2) that by (cases d) (auto simp: observation_start_def)
    have obs: "obs \<le> u" if "dynamic = Some d \<or> dynamic = None \<and> resolver = Some (Inr (Some d))" "strict_utc d = Inr u" for d u
      using p8(2) that by (auto simp: observation_start_def)
    have late: "e \<le> p8 \<and> (\<forall>d u. (dynamic = Some d \<or> dynamic = None \<and> resolver = Some (Inr (Some d))) \<and> strict_utc d = Inr u \<longrightarrow> e \<le> u)"
      if "s < unbounded_future"
    proof -
      from c(1) that have e: "e \<le> obs" by simp
      show ?thesis
      proof (intro conjI allI impI)
        show "e \<le> p8" using e observation_before [OF p8(2)] by simp
      next
        fix d u
        assume "(dynamic = Some d \<or> dynamic = None \<and> resolver = Some (Inr (Some d))) \<and> strict_utc d = Inr u"
        then have "obs \<le> u" using obs by blast
        with e show "e \<le> u" by simp
      qed
    qed
    have s1: "\<forall>f x. Some f \<in> set (po_folds p) \<and> f ''oos_start'' = Some x \<longrightarrow> (\<exists>a. boundary parse x a \<and> e \<le> a)"
      using starts by blast
    have s2: "\<forall>f x. Some f \<in> set (po_folds p) \<and> f ''oos_end'' = Some x \<longrightarrow> (\<exists>b. boundary parse x b)"
      using ends by blast
    have s3: "\<forall>d. dynamic = Some d \<longrightarrow> is_aware d" using aware by blast
    show ?thesis
      by (rule exI [of _ s], rule exI [of _ e], rule exI [of _ p], rule exI [of _ hist], rule exI [of _ p8])
        (intro conjI impI [of "s < unbounded_future"] se(1) se(2) se(3) p c(2) s1 s2 some s3 p8(1) late)
  qed
qed

text \<open>
  Governance is exact on a well formed policy: when the protected partitions follow each
  other, the accepted windows are exactly the non-empty ones inside the approved partition.
\<close>

theorem governance_accepts_exactly:
  assumes "resolve_backtest_governance_spec parse loaded policy dynamic resolver = configured_spec i hist a b p8 obs"
    and "a \<le> b" "b \<le> obs"
  shows "validate_backtest_window_governance parse loaded resolver (Aware s) (Aware e)
      (Some (resolve_backtest_governance_spec parse loaded policy dynamic resolver)) = Inr () \<longleftrightarrow>
    s < e \<and> hist \<le> s \<and> e \<le> a"
  using assms(2,3) unfolding assms(1) by (auto simp: validate_backtest_window_governance_def check_configured not_less)

section \<open>Witnesses\<close>

definition sample_parse :: "string \<Rightarrow> datetime result" where
  "sample_parse x = (if x = ''a'' then Inr (Aware (100 * day)) else if x = ''b'' then Inr (Aware (130 * day)) else Inl ValueError)"

definition sample_policy :: selection_policy where
  "sample_policy = \<lparr>po_id = ''p'', historical_start = Aware 0, historical_end_exclusive = Aware (130 * day),
     po_folds = [Some [''oos_start'' \<mapsto> ''a'', ''oos_end'' \<mapsto> ''b''], None], phase8_start = Aware (140 * day)\<rparr>"

lemma sample_spec:
  "resolve_backtest_governance_spec sample_parse (Inl ValueError) (Some sample_policy) (Some (Aware (135 * day))) None =
    configured_spec ''p'' 0 (100 * day) (130 * day) (140 * day) (135 * day)"
  by (simp add: resolve_backtest_governance_spec_def resolve_policy_def sample_policy_def sample_parse_def
      observation_start_def time_units)

theorem governance_accepts_exactly_witness:
  "validate_backtest_window_governance sample_parse (Inl ValueError) None (Aware day) (Aware (100 * day))
     (Some (resolve_backtest_governance_spec sample_parse (Inl ValueError) (Some sample_policy) (Some (Aware (135 * day))) None)) = Inr ()"
proof -
  have h: "100 * day \<le> 130 * day" "130 * day \<le> 135 * day" by (simp_all add: time_units)
  have "day < 100 * day \<and> 0 \<le> day \<and> 100 * day \<le> 100 * day" by (simp add: time_units)
  with governance_accepts_exactly [OF sample_spec h, where s = day and e = "100 * day"] show ?thesis by blast
qed

theorem governance_isolates_protected_data_witness:
  "\<exists>s e a. strict_utc (Aware day) = Inr s \<and> strict_utc (Aware (100 * day)) = Inr e \<and> boundary sample_parse ''a'' a \<and> e \<le> a \<and> e \<le> 135 * day"
proof -
  have "validate_backtest_window_governance sample_parse (Inl ValueError) None (Aware day) (Aware (100 * day))
     (Some (resolve_backtest_governance_spec sample_parse (Inl ValueError) (Some sample_policy) (Some (Aware (135 * day))) None)) = Inr ()"
    unfolding sample_spec by (simp add: validate_backtest_window_governance_def check_configured time_units unbounded_future_def)
  from governance_isolates_protected_data [OF this] show ?thesis
    by (auto simp: sample_policy_def time_units unbounded_future_def)
qed

end
