(* ===== verification/Continuity.thy ===== *)
theory Continuity
  imports Direction Execution
begin

text \<open>
  \<open>engine/paper/continuity.py\<close>: the weekly closure of the market, the schedule of 15 minute
  closes and the tracker of the 14 day continuity gate, with its state changes as a step
  relation.
\<close>

section \<open>Market closure\<close>

text \<open>Weekday (Monday is 0) and hour of a UTC instant; the epoch was a Thursday.\<close>

definition weekday :: "int \<Rightarrow> int" where
  "weekday u = (u div day + 3) mod 7"

definition hour_of :: "int \<Rightarrow> int" where
  "hour_of u = u mod day div hour"

definition closed_at :: "int \<Rightarrow> bool" where
  "closed_at u \<longleftrightarrow>
     (if weekday u = 5 then True
      else if weekday u = 4 \<and> hour_of u \<ge> 21 then True
      else if weekday u = 6 \<and> hour_of u < 21 then True
      else False)"

definition is_expected_market_closure :: "datetime \<Rightarrow> bool result" where
  "is_expected_market_closure d = (case d of Naive w \<Rightarrow> Inl ValueError | Aware u \<Rightarrow> Inr (closed_at u))"

text \<open>The sampling loop: every 15 minutes from \<open>t\<close> until the close.\<close>

function samples_closed :: "int \<Rightarrow> int \<Rightarrow> bool" where
  "samples_closed t t_close =
     (if t < t_close then if \<not> closed_at t then False else samples_closed (t + 15 * minute) t_close
      else True)"
  by auto
termination
  by (relation "measure (\<lambda>(t, t_close). nat (t_close - t))") (simp_all add: time_units)

declare samples_closed.simps [simp del]

definition is_expected_market_interval_closed :: "datetime \<Rightarrow> datetime \<Rightarrow> bool result" where
  "is_expected_market_interval_closed d_open d_close =
     (if \<not> is_aware d_open \<or> \<not> is_aware d_close then Inl ValueError
      else let t_open = instant d_open; t_close = instant d_close in
        if t_close \<le> t_open then Inl ValueError
        else if t_close - t_open \<ge> 48 * hour then Inr False
        else if \<not> closed_at t_open then Inr False
        else if \<not> closed_at (t_close - second) then Inr False
        else Inr (samples_closed t_open t_close))"

section \<open>The schedule of 15 minute closes\<close>

function closes_from :: "int \<Rightarrow> int \<Rightarrow> int list" where
  "closes_from t t_end = (if t \<le> t_end then t # closes_from (t + 15 * minute) t_end else [])"
  by auto
termination
  by (relation "measure (\<lambda>(t, t_end). nat (t_end - t + 1))") (simp_all add: time_units)

declare closes_from.simps [simp del]

text \<open>
  The alignment: cut to the minute, then to the quarter of its hour, then step over the start.
\<close>

definition quarter_floor :: "int \<Rightarrow> int" where
  "quarter_floor u =
     (let t = u div minute * minute; m = t mod hour div minute
      in t - m * minute + m div 15 * 15 * minute)"

definition get_expected_15m_closes :: "datetime \<Rightarrow> datetime \<Rightarrow> int list" where
  "get_expected_15m_closes start_time end_time =
     (let start_utc = assume_utc start_time; end_utc = assume_utc end_time in
      if start_utc \<ge> end_utc then []
      else let t = quarter_floor start_utc;
               t' = (if t \<le> start_utc then t + 15 * minute else t)
           in closes_from t' end_utc)"

section \<open>The tracker\<close>

datatype phase8_status = NOT_STARTED | OBSERVING | INTERRUPTED | COMPLETE

datatype interruption =
    EXPECTED_MARKET_CLOSURE | COLLECTOR_OUTAGE | EVALUATION_JOB_FAILURE | DATABASE_FAILURE
  | STALE_MARKET_DATA | ENGINE_EXCEPTION | FRICTION_RESOLUTION_FAILURE | MISSED_ELIGIBLE_INTERVAL

record tracker =
  window_start :: "int option"
  unresolved_failures :: int
  current_status :: phase8_status
  cycles_expected :: int
  cycles_observed :: int
  cycles_missing :: int
  last_evaluation :: "int option"
  max_stale_seconds :: rat

text \<open>\<open>__init__\<close>; the host's time zone reads naive timestamps.\<close>

definition make_tracker ::
  "(int \<Rightarrow> int) \<Rightarrow> datetime option \<Rightarrow> int \<Rightarrow> phase8_status \<Rightarrow> int \<Rightarrow> int \<Rightarrow> int \<Rightarrow> datetime option \<Rightarrow> rat \<Rightarrow> tracker" where
  "make_tracker host start failures status expected observed missing last_eval stale =
     \<lparr>window_start = map_option (astimezone_utc host) start, unresolved_failures = failures, current_status = status,
      cycles_expected = expected, cycles_observed = observed, cycles_missing = missing,
      last_evaluation = map_option (astimezone_utc host) last_eval, max_stale_seconds = stale\<rparr>"

text \<open>\<open>timedelta.total_seconds()\<close>: microseconds divided by a million, as a float.\<close>

definition total_seconds :: "int \<Rightarrow> rat" where
  "total_seconds us = fround (of_int us / 1000000)"

definition window_days :: int where "window_days = 14"

definition calculate_day_progress :: "tracker \<Rightarrow> datetime \<Rightarrow> int \<times> int \<times> rat" where
  "calculate_day_progress tr current_time =
     (case window_start tr of
        None \<Rightarrow> (0, 0, 0)
      | Some start \<Rightarrow>
          let now = assume_utc current_time in
          if now < start then (1, 0, 0)
          else let age = total_seconds (now - start); completed = \<lfloor>age / 86400\<rfloor>
               in (min (completed + 1) window_days, completed, age))"

definition evaluate_gate_status ::
  "(int \<Rightarrow> int) \<Rightarrow> tracker \<Rightarrow> datetime \<Rightarrow> bool \<Rightarrow> int option \<Rightarrow> int option \<Rightarrow> int option \<Rightarrow> datetime option \<Rightarrow>
    phase8_status" where
  "evaluate_gate_status host tr current_time critical expected observed missing last_eval =
     (case window_start tr of
        None \<Rightarrow> NOT_STARTED
      | Some start \<Rightarrow>
          let xp = (case expected of Some n \<Rightarrow> n | None \<Rightarrow> cycles_expected tr);
              obs = (case observed of Some n \<Rightarrow> n | None \<Rightarrow> cycles_observed tr);
              miss = (case missing of Some n \<Rightarrow> n | None \<Rightarrow> cycles_missing tr);
              seen = (case last_eval of Some d \<Rightarrow> Some (astimezone_utc host d) | None \<Rightarrow> last_evaluation tr)
          in if critical \<or> unresolved_failures tr > 0 \<or> miss > 0 then INTERRUPTED
          else let now = assume_utc current_time; age = total_seconds (now - start) in
            if age < of_int (window_days * 86400) then OBSERVING
            else if xp > 0 \<and> obs < xp then INTERRUPTED
            else if \<not> closed_at now \<and> xp > 0 \<and> seen = None then INTERRUPTED
            else if \<not> closed_at now \<and> seen \<noteq> None \<and> total_seconds (now - the seen) > max_stale_seconds tr
            then INTERRUPTED
            else COMPLETE)"

definition record_interruption :: "tracker \<Rightarrow> interruption \<Rightarrow> datetime \<Rightarrow> (tracker \<times> bool) result" where
  "record_interruption tr category timestamp =
     (if category = EXPECTED_MARKET_CLOSURE then Inr (tr, False)
      else rbind (is_expected_market_closure timestamp) (\<lambda>closed.
        if closed then Inr (tr, False)
        else Inr (tr\<lparr>unresolved_failures := unresolved_failures tr + 1, current_status := INTERRUPTED\<rparr>, True)))"

lemmas [eval_defs] = weekday_def hour_of_def closed_at_def is_expected_market_closure_def
  is_expected_market_interval_closed_def quarter_floor_def get_expected_15m_closes_def make_tracker_def
  total_seconds_def window_days_def calculate_day_progress_def evaluate_gate_status_def record_interruption_def

section \<open>The week\<close>

definition week :: int where "week = 7 * day"

text \<open>The microseconds since the last Friday 21:00 UTC.\<close>

definition since_friday :: "int \<Rightarrow> int" where
  "since_friday u = (u - (day + 21 * hour)) mod week"

text \<open>The market is closed for 48 hours from Friday 21:00.\<close>

lemma hour_num: "hour = 3600000000" by (simp add: time_units)

lemma closed_at_weekly: "closed_at u \<longleftrightarrow> since_friday u < 48 * hour"
proof -
  define d where "d = u div day" define r where "r = u mod day"
  have u: "u = d * day + r" unfolding d_def r_def by simp
  have r: "0 \<le> r" "r < day" unfolding r_def by (simp_all add: time_units)
  define w where "w = (d + 3) mod 7" define q where "q = (d + 3) div 7"
  have d3: "d = 7 * q + w - 3" unfolding q_def w_def by simp
  have w: "0 \<le> w" "w < 7" unfolding w_def by simp_all
  have hr: "hour_of u \<ge> 21 \<longleftrightarrow> r \<ge> 21 * hour" "hour_of u < 21 \<longleftrightarrow> r < 21 * hour"
    using r unfolding hour_of_def r_def [symmetric] hour_num by linarith+
  have "u - (day + 21 * hour) = week * q + ((w - 4) * day + r - 21 * hour)"
    unfolding u d3 week_def by (simp add: algebra_simps)
  then have s: "since_friday u = ((w - 4) * day + r - 21 * hour) mod week"
    unfolding since_friday_def by (simp only: mod_mult_self4)
  consider "w < 4" | "w = 4" "r < 21 * hour" | "w = 4" "21 * hour \<le> r" | "w = 5" | "w = 6" using w by linarith
  then have s': "since_friday u = (if w < 4 \<or> w = 4 \<and> r < 21 * hour then (w - 4) * day + r - 21 * hour + week
      else (w - 4) * day + r - 21 * hour)"
  proof cases
    case 1
    have "((w - 4) * day + r - 21 * hour) mod week = ((w - 4) * day + r - 21 * hour + week) mod week" by simp
    also have "\<dots> = (w - 4) * day + r - 21 * hour + week"
      using 1 w r by (intro mod_pos_pos_trivial) (simp_all add: time_units week_def)
    finally show ?thesis using 1 s by simp
  next
    case 2
    have "((w - 4) * day + r - 21 * hour) mod week = ((w - 4) * day + r - 21 * hour + week) mod week" by simp
    also have "\<dots> = (w - 4) * day + r - 21 * hour + week"
      using 2 w r by (intro mod_pos_pos_trivial) (simp_all add: time_units week_def)
    finally show ?thesis using 2 s by simp
  qed (use s r in \<open>simp_all add: time_units week_def\<close>)
  have "closed_at u \<longleftrightarrow> w = 5 \<or> w = 4 \<and> 21 * hour \<le> r \<or> w = 6 \<and> r < 21 * hour"
    unfolding closed_at_def hr weekday_def d_def [symmetric] w_def [symmetric] by simp
  also have "\<dots> \<longleftrightarrow> since_friday u < 48 * hour"
    unfolding s' using w r by (auto simp: time_units week_def)
  finally show ?thesis .
qed

text \<open>Two closed instants less than 48 hours apart enclose closed instants only.\<close>

lemma closed_between:
  assumes "closed_at a" "closed_at b" "a \<le> u" "u \<le> b" "b - a < 48 * hour"
  shows "closed_at u"
proof -
  have week: "0 < week" by (simp add: week_def time_units)
  define p where "p = (a - (day + 21 * hour)) div week"
  have a: "a = (day + 21 * hour) + week * p + since_friday a" unfolding since_friday_def p_def by simp
  have bounds: "0 \<le> since_friday x" for x unfolding since_friday_def using week by simp
  have shift: "since_friday x = (since_friday a + (x - a)) mod week" for x
    unfolding since_friday_def mod_add_left_eq by (simp add: algebra_simps)
  have sa: "since_friday a < 48 * hour" using assms(1) closed_at_weekly by simp
  have in_week: "since_friday x = since_friday a + (x - a)" if "a \<le> x" "x - a < 48 * hour" for x
    using shift [of x] that sa bounds [of a] by (simp add: week_def time_units)
  have "since_friday u \<le> since_friday b" using in_week [of u] in_week [of b] assms by linarith
  then show ?thesis using assms(2) closed_at_weekly by simp
qed

lemma samples_closedI:
  assumes "\<forall>u. t \<le> u \<and> u < t_close \<longrightarrow> closed_at u"
  shows "samples_closed t t_close"
  using assms
proof (induction t t_close rule: samples_closed.induct)
  case (1 t t_close)
  have "0 < 15 * minute" by (simp add: time_units)
  with 1 show ?case by (subst samples_closed.simps) auto
qed

text \<open>Closure does not change within a second.\<close>

lemma closed_at_second: "closed_at u \<longleftrightarrow> (u div second - 162000) mod 604800 < 172800"
proof -
  let ?v = "u - (day + 21 * hour)"
  have w: "week = second * 604800" and b: "day + 21 * hour = second * 162000" by (simp_all add: week_def time_units)
  have v': "?v = u + second * (- 162000)" unfolding b by simp
  have v: "?v div second = u div second - 162000" "?v mod second = u mod second"
    using div_mult_self2 [of second u "- 162000"] mod_mult_self2 [of u second "- 162000"]
    by (simp_all add: v' second_def)
  have "since_friday u = second * ((u div second - 162000) mod 604800) + u mod second"
    unfolding since_friday_def w by (subst zmod_zmult2_eq) (simp_all add: v)
  moreover have "0 \<le> u mod second" "u mod second < second" by (simp_all add: second_def)
  ultimately show ?thesis unfolding closed_at_weekly by (simp add: time_units) linarith
qed

lemma closed_last_second:
  assumes "b mod second = 0" "b - second \<le> u" "u < b"
  shows "closed_at u \<longleftrightarrow> closed_at (b - second)"
proof -
  obtain k where k: "b = second * k" using assms(1) by (metis mod_0_imp_dvd dvdE)
  have "u div second = k - 1" using assms(2,3) k
    by (intro int_div_pos_eq [of _ _ _ "u - second * (k - 1)"]) (auto simp: algebra_simps)
  moreover have "(b - second) div second = k - 1"
    using k by (intro int_div_pos_eq [of _ _ _ 0]) (auto simp: algebra_simps second_def)
  ultimately have "u div second = (b - second) div second" by simp
  then show ?thesis by (simp add: closed_at_second)
qed

text \<open>
  \<open>is_expected_market_interval_closed\<close> decides containment: for an interval that ends on a
  full second the answer is True exactly when the interval is shorter than 48 hours and every
  instant of it falls in the weekend closure. The three probes and the samples miss nothing.
\<close>

theorem interval_closed_iff:
  assumes "a < b" "b mod second = 0"
  shows "is_expected_market_interval_closed (Aware a) (Aware b) =
    Inr (b - a < 48 * hour \<and> {a..<b} \<subseteq> {u. closed_at u})"
proof (cases "b - a < 48 * hour \<and> closed_at a \<and> closed_at (b - second)")
  case True
  have "closed_at u" if "a \<le> u" "u < b" for u
    using closed_between [of a "b - second" u] closed_last_second [of b u] that True assms
    by (cases "u < b - second") (auto simp: second_def)
  with True assms show ?thesis
    by (auto simp: is_expected_market_interval_closed_def intro!: samples_closedI)
next
  case False
  have "closed_at (b - second)" if "{a..<b} \<subseteq> {u. closed_at u}"
  proof -
    have "max a (b - second) \<in> {a..<b}" using assms(1) by (simp add: second_def)
    with that have "closed_at (max a (b - second))" by blast
    then show ?thesis using closed_last_second [of b "max a (b - second)"] assms by (simp add: second_def)
  qed
  moreover have "closed_at a" if "{a..<b} \<subseteq> {u. closed_at u}" using that assms(1) by auto
  ultimately show ?thesis
    using False assms by (auto simp: is_expected_market_interval_closed_def)
qed

text \<open>Witness: the last quarter of an hour before the market reopens, as an instance.\<close>

lemma interval_closed_iff_witness:
  "is_expected_market_interval_closed (Aware (248400 * second - 15 * minute)) (Aware (334800 * second)) =
    Inr (86400 * second + 15 * minute < 48 * hour \<and>
      {248400 * second - 15 * minute..<334800 * second} \<subseteq> {u. closed_at u})"
  using interval_closed_iff [of "248400 * second - 15 * minute" "334800 * second"]
  by (simp add: time_units)

text \<open>The bound of 48 hours is inclusive: the weekend closure itself, wholly closed, is not recognised.\<close>

lemma full_weekend_not_recognised:
  "is_expected_market_interval_closed (Aware (162000 * second)) (Aware (334800 * second)) = Inr False \<and>
    {162000 * second..<334800 * second} \<subseteq> {u. closed_at u}"
proof
  show "is_expected_market_interval_closed (Aware (162000 * second)) (Aware (334800 * second)) = Inr False"
    using interval_closed_iff [of "162000 * second" "334800 * second"] by (simp add: time_units)
  have "closed_at u" if "162000 * second \<le> u" "u < 334800 * second" for u
    using that by (simp add: closed_at_weekly since_friday_def week_def time_units)
  then show "{162000 * second..<334800 * second} \<subseteq> {u. closed_at u}" by auto
qed

section \<open>The closes\<close>

lemma set_closes_from: "set (closes_from t e) = {u. t \<le> u \<and> u \<le> e \<and> (u - t) mod (15 * minute) = 0}"
proof (induction t e rule: closes_from.induct)
  case (1 t e)
  define q where "q = 15 * minute"
  have q: "0 < q" by (simp add: q_def time_units)
  have step: "(u - t) mod q = 0 \<Longrightarrow> u \<noteq> t \<Longrightarrow> t \<le> u \<Longrightarrow> t + q \<le> u" for u
    using zdvd_imp_le [of q "u - t"] by (auto simp: mod_eq_0_iff_dvd)
  have shift: "(u - (t + q)) mod q = (u - t) mod q" for u
    using minus_mod_self2 [of "u - t" q] by (simp add: algebra_simps)
  show ?case
  proof (cases "t \<le> e")
    case True
    with 1 have "set (closes_from t e) = insert t {u. t + q \<le> u \<and> u \<le> e \<and> (u - (t + q)) mod q = 0}"
      by (subst closes_from.simps) (simp add: q_def)
    also have "\<dots> = {u. t \<le> u \<and> u \<le> e \<and> (u - t) mod q = 0}"
      using True q step by (auto simp: shift)
    finally show ?thesis by (simp add: q_def)
  qed (auto simp: closes_from.simps [of t e])
qed

lemma sorted_closes_from: "sorted_wrt (<) (closes_from t e)"
proof (induction t e rule: closes_from.induct)
  case (1 t e)
  have "t < u" if "u \<in> set (closes_from (t + 15 * minute) e)" for u
    using that by (simp add: set_closes_from time_units)
  with 1 show ?case by (subst closes_from.simps) simp
qed

lemma sixty: "(m :: int) - m mod 60 + m mod 60 div 15 * 15 = m div 15 * 15"
proof -
  have "m mod 60 = 15 * (m div 15 mod 4) + m mod 15" using zmod_zmult2_eq [of 4 m 15] by simp
  moreover from this have "m mod 60 div 15 = m div 15 mod 4" by simp
  ultimately have "m - m mod 60 + m mod 60 div 15 * 15 = m - m mod 15" by simp
  then show ?thesis by (simp only: minus_mod_eq_div_mult)
qed

lemma quarter_floor: "quarter_floor u = u div (15 * minute) * (15 * minute)"
proof -
  define q where "q = 15 * minute"
  have h: "hour = minute * 60" and q: "q = minute * 15" by (simp_all add: hour_def q_def)
  have m: "0 < minute" by (simp add: time_units)
  let ?t = "u div minute * minute"
  have "?t mod hour div minute = u div minute mod 60"
    unfolding h using m by (simp add: zmod_zmult2_eq mult.commute)
  then have "quarter_floor u = (u div minute - u div minute mod 60 + u div minute mod 60 div 15 * 15) * minute"
    unfolding quarter_floor_def Let_def by (simp add: algebra_simps)
  also have "u div minute - u div minute mod 60 + u div minute mod 60 div 15 * 15 = u div minute div 15 * 15"
    by (rule sixty)
  also have "u div minute div 15 = u div q" unfolding q using m by (simp add: zdiv_zmult2_eq)
  finally show ?thesis unfolding q_def [symmetric] by (simp add: q)
qed

text \<open>The first multiple of \<open>q\<close> after \<open>s\<close>.\<close>

lemma next_multiple:
  fixes q :: int
  assumes q: "0 < q" and t: "t = s div q * q + q"
  shows "t \<le> u \<and> (u - t) mod q = 0 \<longleftrightarrow> s < u \<and> u mod q = 0"
proof -
  have tq: "q dvd t" using t by simp
  have s: "s = s div q * q + s mod q" "0 \<le> s mod q" "s mod q < q" using q by simp_all
  have st: "s < t" "t \<le> s + q" using s t by linarith+
  have "t \<le> u" if "s < u" "q dvd u"
  proof (rule ccontr)
    assume "\<not> t \<le> u"
    with that st have "0 < t - u" "t - u < q" by linarith+
    with that tq zdvd_imp_le [of q "t - u"] show False by (simp add: dvd_diff)
  qed
  moreover have "q dvd u - t \<longleftrightarrow> q dvd u" using tq by (simp add: dvd_diff_left_iff)
  ultimately show ?thesis using st by (auto simp: mod_eq_0_iff_dvd)
qed

lemma floor_multiple: "0 < q \<Longrightarrow> s div q * q \<le> (s :: int)"
  using pos_mod_sign [of q s] div_mult_mod_eq [of s q] by linarith

text \<open>
  The schedule is complete and free of repetitions: \<open>get_expected_15m_closes\<close> lists, in
  strictly increasing order, exactly the quarter hours in the half open window from the start,
  excluded, to the end, included.
\<close>

theorem expected_closes_exact:
  "set (get_expected_15m_closes a b) =
     {u \<in> {assume_utc a<..assume_utc b}. u mod (15 * minute) = 0} \<and>
   sorted_wrt (<) (get_expected_15m_closes a b)"
proof -
  define q where "q = 15 * minute"
  have q: "0 < q" by (simp add: q_def time_units)
  define s where "s = assume_utc a" define e where "e = assume_utc b"
  have "quarter_floor s \<le> s" unfolding quarter_floor q_def [symmetric] using q by (rule floor_multiple)
  then have list: "get_expected_15m_closes a b = (if s \<ge> e then [] else closes_from (s div q * q + q) e)"
    unfolding get_expected_15m_closes_def s_def [symmetric] e_def [symmetric] q_def [symmetric] Let_def quarter_floor
    by simp
  have "set (closes_from (s div q * q + q) e) = {u. s < u \<and> u \<le> e \<and> u mod q = 0}"
    unfolding set_closes_from q_def [symmetric]
    by (intro Collect_cong) (use next_multiple [OF q refl, of s] in metis)
  then show ?thesis
    unfolding list s_def [symmetric] e_def [symmetric] q_def [symmetric]
    using sorted_closes_from [of "s div q * q + q" e] by auto
qed

section \<open>The gate\<close>

text \<open>The float comparison of the age with 14 days is exact.\<close>

lemma fourteen_days: "total_seconds x < 1209600 \<longleftrightarrow> x < 14 * day"
proof
  assume "total_seconds x < 1209600"
  then show "x < 14 * day"
  proof (rule contrapos_pp)
    assume "\<not> x < 14 * day"
    then have "1209600 \<le> (of_int x / 1000000 :: rat)" by (simp add: time_units field_simps)
    from flt.rnd_mono [OF this] show "\<not> total_seconds x < 1209600"
      by (simp add: total_seconds_def fround_numeral)
  qed
next
  assume "x < 14 * day"
  then have "x \<le> 1209600000000 - 1" by (simp add: time_units)
  then have "(of_int x :: rat) \<le> of_int (1209600000000 - 1)" by (simp only: of_int_le_iff)
  then have le: "(of_int x / 1000000 :: rat) \<le> 1268357529599 / 1048576" by (simp add: field_simps)
  have "fround (1268357529599 / 1048576) = 1268357529599 / 1048576" by (rule fround_quotient) simp_all
  with flt.rnd_mono [OF le] show "total_seconds x < 1209600" by (simp add: total_seconds_def)
qed

text \<open>What completing the gate promises: the conditions of the class, in exact time.\<close>

definition gate_satisfied :: "int \<Rightarrow> int \<Rightarrow> bool \<Rightarrow> int \<Rightarrow> int \<Rightarrow> int \<Rightarrow> int \<Rightarrow> int option \<Rightarrow> rat \<Rightarrow> bool" where
  "gate_satisfied start now critical failures expected observed missing seen stale \<longleftrightarrow>
     now - start \<ge> 14 * day \<and> \<not> critical \<and> failures \<le> 0 \<and> missing \<le> 0 \<and>
     \<not> (expected > 0 \<and> observed < expected) \<and>
     (closed_at now \<or>
      (case seen of None \<Rightarrow> \<not> expected > 0 | Some s \<Rightarrow> total_seconds (now - s) \<le> stale))"

text \<open>
  The gate completes exactly when it may: a tracker with a window answers COMPLETE if and
  only if 14 full days have passed to the microsecond, no failure is open or missing interval
  known, the expected cycles were observed and, while the market is open, the last observation
  is fresh. The comparison of the age, made in floats, is exact.
\<close>

theorem gate_complete_iff:
  "evaluate_gate_status host tr d critical expected observed missing last_eval = COMPLETE \<longleftrightarrow>
   (case window_start tr of
      None \<Rightarrow> False
    | Some start \<Rightarrow>
        gate_satisfied start (assume_utc d) critical (unresolved_failures tr)
          (case expected of Some n \<Rightarrow> n | None \<Rightarrow> cycles_expected tr)
          (case observed of Some n \<Rightarrow> n | None \<Rightarrow> cycles_observed tr)
          (case missing of Some n \<Rightarrow> n | None \<Rightarrow> cycles_missing tr)
          (case last_eval of Some l \<Rightarrow> Some (astimezone_utc host l) | None \<Rightarrow> last_evaluation tr)
          (max_stale_seconds tr))"
proof (cases "window_start tr")
  case (Some start)
  have age: "total_seconds x < of_int (window_days * 86400) \<longleftrightarrow> x < 14 * day" for x
    using fourteen_days by (simp add: window_days_def)
  show ?thesis
    unfolding evaluate_gate_status_def gate_satisfied_def Some Let_def age option.case
    by (auto split: option.splits)
qed (simp add: evaluate_gate_status_def)

text \<open>With no cycle expected the gate completes with no observation at all, in an open market.\<close>

lemma complete_without_observation:
  "evaluate_gate_status host (make_tracker host (Some (Aware 0)) 0 OBSERVING 0 0 0 None 3600)
     (Aware (14 * day)) False None None None None = COMPLETE \<and> \<not> closed_at (14 * day)"
  by (simp add: gate_complete_iff make_tracker_def gate_satisfied_def closed_at_weekly since_friday_def week_def time_units)

section \<open>Histories of the tracker\<close>

text \<open>One recorded interruption.\<close>

inductive tracker_step :: "tracker \<Rightarrow> tracker \<Rightarrow> bool" where
  "record_interruption tr category d = Inr (tr', failed) \<Longrightarrow> tracker_step tr tr'"

inductive_cases tracker_stepE: "tracker_step tr tr'"

lemma record_interruption_Inr:
  assumes "record_interruption tr category d = Inr (tr', failed)"
  shows "tr' = (if failed then tr\<lparr>unresolved_failures := unresolved_failures tr + 1, current_status := INTERRUPTED\<rparr> else tr)"
  using assms by (auto simp: record_interruption_def rbind_Inr_iff split: if_splits)

lemma tracker_steps_mono:
  "tracker_step\<^sup>*\<^sup>* tr tr' \<Longrightarrow> unresolved_failures tr \<le> unresolved_failures tr' \<and> window_start tr' = window_start tr"
proof (induction rule: rtranclp_induct)
  case (step y z)
  then show ?case by (auto elim!: tracker_stepE dest!: record_interruption_Inr)
qed simp

text \<open>
  A failure is never forgotten: once an operational failure has been recorded, no later
  history of recorded interruptions leads to a tracker whose gate completes, whatever counts and
  times are passed to the evaluation.
\<close>

theorem failure_blocks_completion:
  assumes "0 \<le> unresolved_failures tr" "record_interruption tr category d = Inr (tr1, True)"
    and "tracker_step\<^sup>*\<^sup>* tr1 tr2"
  shows "evaluate_gate_status host tr2 now critical expected observed missing last_eval \<noteq> COMPLETE"
proof -
  have "0 < unresolved_failures tr2"
    using assms(1) record_interruption_Inr [OF assms(2)] tracker_steps_mono [OF assms(3)] by simp
  then show ?thesis by (simp add: gate_complete_iff gate_satisfied_def split: option.splits)
qed

lemma failure_blocks_completion_witness:
  "evaluate_gate_status (\<lambda>_. 0)
     ((make_tracker (\<lambda>_. 0) (Some (Aware 0)) 0 OBSERVING 4 4 0 None 3600)
        \<lparr>unresolved_failures := 2, current_status := INTERRUPTED\<rparr>)
     (Aware (14 * day)) False None None None (Some (Aware (14 * day))) \<noteq> COMPLETE"
proof -
  let ?tr = "make_tracker (\<lambda>_. 0) (Some (Aware 0)) 0 OBSERVING 4 4 0 None 3600"
  have fail: "record_interruption tr COLLECTOR_OUTAGE (Aware 0) =
      Inr (tr\<lparr>unresolved_failures := unresolved_failures tr + 1, current_status := INTERRUPTED\<rparr>, True)" for tr
    by (simp add: record_interruption_def is_expected_market_closure_def closed_at_weekly since_friday_def week_def time_units)
  have "tracker_step (?tr\<lparr>unresolved_failures := 1, current_status := INTERRUPTED\<rparr>)
      (?tr\<lparr>unresolved_failures := 2, current_status := INTERRUPTED\<rparr>)"
    by (rule tracker_step.intros [of _ COLLECTOR_OUTAGE "Aware 0" _ True]) (simp add: fail)
  then show ?thesis
    by (intro failure_blocks_completion [of ?tr COLLECTOR_OUTAGE "Aware 0" "?tr\<lparr>unresolved_failures := 1, current_status := INTERRUPTED\<rparr>"])
      (simp_all add: fail, simp add: make_tracker_def, simp add: make_tracker_def)
qed

end
