(* ===== verification/Macro_Events.thy ===== *)
theory Macro_Events
  imports Timing Continuity
begin

text \<open>
  \<open>engine/cycles/events.py\<close>: the macro event gate. Of the cycle profile it reads the two
  blackout windows; distances to events are floored to minutes through a float of seconds.
\<close>

section \<open>The model\<close>

datatype event_impact = IMPACT_HIGH | IMPACT_MEDIUM | IMPACT_LOW

record macro_event =
  ev_id :: string
  ev_name :: string
  scheduled_at :: datetime
  released_at :: "datetime option"
  initial_value :: "string option"
  revised_at :: "datetime option"
  revised_value :: "string option"
  ev_impact :: event_impact

record macro_windows =
  macro_blackout_pre_minutes :: "int option"
  macro_blackout_post_minutes :: "int option"

definition or_opt :: "'a option \<Rightarrow> 'a option \<Rightarrow> 'a option" where
  "or_opt x y = (case x of Some a \<Rightarrow> Some a | None \<Rightarrow> y)"

text \<open>The pre and post windows, from the arguments, the profile or the default of 30 minutes.\<close>

definition blackout_windows ::
  "int option \<Rightarrow> int option \<Rightarrow> int option \<Rightarrow> macro_windows option \<Rightarrow> int option \<times> int option" where
  "blackout_windows pre post both profile =
     (case profile of
        Some p \<Rightarrow> (or_opt pre (macro_blackout_pre_minutes p), or_opt post (macro_blackout_post_minutes p))
      | None \<Rightarrow>
          if both \<noteq> None then (or_opt pre both, or_opt post both)
          else if pre \<noteq> None \<or> post \<noteq> None then (pre, post)
          else (Some 30, Some 30))"

text \<open>\<open>int(delta.total_seconds() // 60)\<close>.\<close>

definition whole_minutes :: "int \<Rightarrow> int" where
  "whole_minutes us = \<lfloor>total_seconds us / 60\<rfloor>"

text \<open>The variables of the loop; \<open>me_latest\<close> is \<open>latest_past_event_time\<close>.\<close>

record macro_state =
  me_blackout :: bool
  me_name :: "string option"
  me_next :: "int option"
  me_since :: "int option"
  me_value :: "string option"
  me_latest :: "int option"

definition in_window :: "int option \<Rightarrow> int \<Rightarrow> bool" where
  "in_window window m = (case window of None \<Rightarrow> False | Some w \<Rightarrow> m \<le> w)"

definition closer :: "int \<Rightarrow> int option \<Rightarrow> int option" where
  "closer m best = (case best of None \<Rightarrow> Some m | Some b \<Rightarrow> if m < b then Some m else best)"

definition raise_blackout :: "bool \<Rightarrow> string \<Rightarrow> macro_state \<Rightarrow> macro_state" where
  "raise_blackout b name st = (if b then st\<lparr>me_blackout := True, me_name := Some name\<rparr> else st)"

definition schedule_step :: "int option \<Rightarrow> int option \<Rightarrow> int \<Rightarrow> macro_event \<Rightarrow> macro_state \<Rightarrow> macro_state" where
  "schedule_step pre post as_of e st =
     (let m = whole_minutes (assume_utc (scheduled_at e) - as_of) in
      if m \<ge> 0
      then raise_blackout (in_window pre m) (ev_name e) (st\<lparr>me_next := closer m (me_next st)\<rparr>)
      else raise_blackout (in_window post \<bar>m\<bar>) (ev_name e) (st\<lparr>me_since := closer \<bar>m\<bar> (me_since st)\<rparr>))"

definition published :: "int \<Rightarrow> datetime option \<Rightarrow> bool" where
  "published as_of t = (case t of None \<Rightarrow> False | Some d \<Rightarrow> assume_utc d \<le> as_of)"

definition revision_step :: "int option \<Rightarrow> int \<Rightarrow> macro_event \<Rightarrow> macro_state \<Rightarrow> macro_state" where
  "revision_step post as_of e st =
     (if published as_of (revised_at e)
      then let m = whole_minutes (as_of - assume_utc (the (revised_at e))) in
        raise_blackout (0 \<le> m \<and> in_window post m) (ev_name e @ '' (Revision)'') st
      else st)"

text \<open>\<open>event.revised_value or event.initial_value\<close>: an empty string counts as absent.\<close>

definition revised_or_initial :: "macro_event \<Rightarrow> string option" where
  "revised_or_initial e =
     (case revised_value e of Some v \<Rightarrow> if v \<noteq> [] then Some v else initial_value e | None \<Rightarrow> initial_value e)"

definition value_step :: "int \<Rightarrow> macro_event \<Rightarrow> macro_state \<Rightarrow> macro_state" where
  "value_step as_of e st =
     (if published as_of (released_at e)
      then let revised = published as_of (revised_at e);
               time = assume_utc (the (if revised then revised_at e else released_at e));
               val = (if revised then revised_or_initial e else initial_value e)
           in if (case me_latest st of None \<Rightarrow> True | Some l \<Rightarrow> time \<ge> l)
              then st\<lparr>me_latest := Some time, me_value := val\<rparr> else st
      else st)"

definition event_step :: "int option \<Rightarrow> int option \<Rightarrow> int \<Rightarrow> macro_state \<Rightarrow> macro_event \<Rightarrow> macro_state" where
  "event_step pre post as_of st e = value_step as_of e (revision_step post as_of e (schedule_step pre post as_of e st))"

definition no_events :: macro_state where
  "no_events = \<lparr>me_blackout = False, me_name = None, me_next = None, me_since = None, me_value = None, me_latest = None\<rparr>"

definition evaluate_macro_event_risk ::
  "datetime \<Rightarrow> macro_event list option \<Rightarrow> int option \<Rightarrow> int option \<Rightarrow> int option \<Rightarrow> macro_windows option \<Rightarrow>
    bool option \<Rightarrow> macro_context" where
  "evaluate_macro_event_risk as_of events pre post both profile feed_flag =
     (case events of
        Some (e # es) \<Rightarrow>
          let (pre_win, post_win) = blackout_windows pre post both profile;
              st = foldl (event_step pre_win post_win (assume_utc as_of)) no_events
                     (filter (\<lambda>e. ev_impact e = IMPACT_HIGH) (e # es))
          in \<lparr>is_in_blackout = me_blackout st, minutes_to_next_event = me_next st, minutes_since_last_event = me_since st,
              active_event_name = me_name st, point_in_time_value = me_value st, is_feed_healthy = True\<rparr>
      | _ \<Rightarrow> \<lparr>is_in_blackout = False, minutes_to_next_event = None, minutes_since_last_event = None,
              active_event_name = None, point_in_time_value = None,
              is_feed_healthy = (case feed_flag of None \<Rightarrow> False | Some b \<Rightarrow> b)\<rparr>)"

lemmas [eval_defs] = or_opt_def blackout_windows_def whole_minutes_def in_window_def closer_def raise_blackout_def
  schedule_step_def published_def revision_step_def revised_or_initial_def value_step_def event_step_def
  no_events_def evaluate_macro_event_risk_def

lemma evaluate_events:
  assumes "es \<noteq> []" "blackout_windows pre post both profile = (p, q)"
    and "st = foldl (event_step p q (assume_utc as_of)) no_events (filter (\<lambda>e. ev_impact e = IMPACT_HIGH) es)"
  shows "evaluate_macro_event_risk as_of (Some es) pre post both profile flag =
    \<lparr>is_in_blackout = me_blackout st, minutes_to_next_event = me_next st, minutes_since_last_event = me_since st,
     active_event_name = me_name st, point_in_time_value = me_value st, is_feed_healthy = True\<rparr>"
  using assms by (cases es) (simp_all add: evaluate_macro_event_risk_def Let_def del: filter.simps)

section \<open>Minutes\<close>

text \<open>
  For thresholds below 190 years the float of seconds does not disturb the comparison, whatever
  the distance: 60 seconds times the threshold and its predecessor are floats.
\<close>

lemma whole_minutes_ge:
  assumes "\<bar>k\<bar> \<le> 10 ^ 8"
  shows "k \<le> whole_minutes x \<longleftrightarrow> k * minute \<le> x"
proof -
  have m: "minute = 60000000" by (simp add: time_units)
  from assms have b: "\<bar>60 * k\<bar> < 2 ^ 53" "\<bar>60 * k * 1048576 - 1\<bar> < 2 ^ 53" by auto
  have exact: "fround (of_int (60 * k)) = of_int (60 * k)" using fround_dyadic [OF b(1), of 0] by simp
  have le: "of_int (60 * k) \<le> total_seconds x" if "k * minute \<le> x"
  proof -
    have "(of_int (k * 60000000) :: rat) \<le> of_int x" using that by (simp only: m of_int_le_iff)
    then have "of_int (60 * k) \<le> (of_int x / 1000000 :: rat)" by (simp add: field_simps)
    from flt.rnd_mono [OF this] show ?thesis unfolding total_seconds_def exact .
  qed
  have gr: "total_seconds x < of_int (60 * k)" if "\<not> k * minute \<le> x"
  proof -
    let ?u = "of_int (60 * k * 1048576 - 1) * (2 :: rat) powi (- 20)"
    have u: "?u = of_int (60 * k) - 1 / 1048576" by (simp add: power_int_def field_simps)
    have "x + 1 \<le> k * 60000000" using that by (simp add: m)
    then have "of_int (x + 1) \<le> (of_int (k * 60000000) :: rat)" by (simp only: of_int_le_iff)
    then have "of_int x / 1000000 \<le> ?u" unfolding u by (simp add: field_simps)
    from flt.rnd_mono [OF this] have "total_seconds x \<le> ?u" unfolding total_seconds_def by (simp only: fround_dyadic [OF b(2)])
    then show ?thesis unfolding u by simp
  qed
  have "k \<le> whole_minutes x \<longleftrightarrow> of_int (60 * k) \<le> total_seconds x"
    unfolding whole_minutes_def le_floor_iff by (simp add: field_simps)
  with le gr show ?thesis by (meson not_less)
qed

lemma whole_minutes_sign [simp]: "0 \<le> whole_minutes x \<longleftrightarrow> 0 \<le> x" "whole_minutes x < 0 \<longleftrightarrow> x < 0"
  using whole_minutes_ge [of 0 x] by auto

lemma whole_minutes_le: "\<bar>w\<bar> < 10 ^ 8 \<Longrightarrow> whole_minutes x \<le> w \<longleftrightarrow> x < (w + 1) * minute"
  using whole_minutes_ge [of "w + 1" x] by linarith

lemma whole_minutes_abs_le:
  assumes "\<bar>w\<bar> < 10 ^ 8" "x < 0"
  shows "\<bar>whole_minutes x\<bar> \<le> w \<longleftrightarrow> - x \<le> w * minute"
proof -
  have "\<bar>whole_minutes x\<bar> = - whole_minutes x" using assms(2) by (simp add: abs_of_neg)
  then show ?thesis using whole_minutes_ge [of "- w" x] assms(1) by (simp add: minus_le_iff)
qed

section \<open>The blackout\<close>

text \<open>Whether one event blocks, in minutes as the code counts them.\<close>

definition blocks :: "int option \<Rightarrow> int option \<Rightarrow> int \<Rightarrow> macro_event \<Rightarrow> bool" where
  "blocks pre post as_of e \<longleftrightarrow>
     (let m = whole_minutes (assume_utc (scheduled_at e) - as_of) in
        (if m \<ge> 0 then in_window pre m else in_window post \<bar>m\<bar>)) \<or>
     (published as_of (revised_at e) \<and>
      (let m = whole_minutes (as_of - assume_utc (the (revised_at e))) in 0 \<le> m \<and> in_window post m))"

lemma raise_blackout_iff [simp]: "me_blackout (raise_blackout b n st) \<longleftrightarrow> b \<or> me_blackout st"
  by (simp add: raise_blackout_def)

lemma value_step_blackout [simp]: "me_blackout (value_step as_of e st) = me_blackout st"
  by (simp add: value_step_def Let_def)

lemma event_step_blackout [simp]:
  "me_blackout (event_step pre post as_of st e) \<longleftrightarrow> me_blackout st \<or> blocks pre post as_of e"
  by (auto simp: event_step_def revision_step_def schedule_step_def blocks_def Let_def)

lemma loop_blackout:
  "me_blackout (foldl (event_step pre post as_of) st es) \<longleftrightarrow> me_blackout st \<or> (\<exists>e \<in> set es. blocks pre post as_of e)"
  by (induction es arbitrary: st) auto

text \<open>The window of an event in exact time: half open before it and after a revision, closed after it.\<close>

definition blackout_at :: "int option \<Rightarrow> int option \<Rightarrow> int \<Rightarrow> macro_event \<Rightarrow> bool" where
  "blackout_at pre post as_of e \<longleftrightarrow>
     (\<exists>w. pre = Some w \<and> as_of \<le> assume_utc (scheduled_at e) \<and> assume_utc (scheduled_at e) < as_of + (w + 1) * minute) \<or>
     (\<exists>w. post = Some w \<and> assume_utc (scheduled_at e) < as_of \<and> as_of \<le> assume_utc (scheduled_at e) + w * minute) \<or>
     (\<exists>w r. post = Some w \<and> revised_at e = Some r \<and> assume_utc r \<le> as_of \<and> as_of < assume_utc r + (w + 1) * minute)"

text \<open>No configured window reaches 190 years.\<close>

definition sane_windows :: "int option \<Rightarrow> int option \<Rightarrow> bool" where
  "sane_windows pre post \<longleftrightarrow> (\<forall>w. pre = Some w \<or> post = Some w \<longrightarrow> \<bar>w\<bar> < 10 ^ 8)"

lemma blocks_exact:
  assumes "sane_windows pre post"
  shows "blocks pre post as_of e \<longleftrightarrow> blackout_at pre post as_of e"
proof -
  let ?d = "assume_utc (scheduled_at e) - as_of"
  have w: "\<bar>w\<bar> < 10 ^ 8" if "pre = Some w \<or> post = Some w" for w using assms that unfolding sane_windows_def by blast
  have sched: "(if whole_minutes ?d \<ge> 0 then in_window pre (whole_minutes ?d) else in_window post \<bar>whole_minutes ?d\<bar>) \<longleftrightarrow>
      (\<exists>w. pre = Some w \<and> 0 \<le> ?d \<and> ?d < (w + 1) * minute) \<or> (\<exists>w. post = Some w \<and> ?d < 0 \<and> - ?d \<le> w * minute)"
  proof (cases "0 \<le> ?d")
    case True
    then show ?thesis using w by (cases pre) (simp_all add: in_window_def whole_minutes_le)
  next
    case False
    then show ?thesis using w by (cases post) (simp_all add: in_window_def whole_minutes_abs_le)
  qed
  have rev: "published as_of (revised_at e) \<and> 0 \<le> whole_minutes (as_of - assume_utc (the (revised_at e))) \<and>
      in_window post (whole_minutes (as_of - assume_utc (the (revised_at e)))) \<longleftrightarrow>
      (\<exists>w r. post = Some w \<and> revised_at e = Some r \<and> assume_utc r \<le> as_of \<and> as_of < assume_utc r + (w + 1) * minute)"
    using w by (cases "revised_at e"; cases post) (auto simp: published_def in_window_def whole_minutes_le)
  show ?thesis unfolding blocks_def blackout_at_def Let_def sched rev by force
qed

text \<open>The gate in exact time: a started minute before an event, or after a revision, counts as nothing.\<close>

theorem macro_blackout_exact:
  assumes "sane_windows pre_win post_win"
    and "blackout_windows pre post both profile = (pre_win, post_win)"
  shows "is_in_blackout (evaluate_macro_event_risk as_of (Some es) pre post both profile flag) \<longleftrightarrow>
      (\<exists>e \<in> set es. ev_impact e = IMPACT_HIGH \<and> blackout_at pre_win post_win (assume_utc as_of) e)"
proof (cases "es = []")
  case True
  then show ?thesis by (simp add: evaluate_macro_event_risk_def)
next
  case False
  then show ?thesis
    by (simp add: evaluate_events [OF False assms(2) refl] loop_blackout blocks_exact [OF assms(1)]) (auto simp: no_events_def)
qed

section \<open>Properties\<close>

text \<open>
  The window that the documentation of the gate gives an event, in exact time: the pre window up to
  its scheduled instant, the post window behind it, and the post window behind the publication of
  its revision.
\<close>

definition documented :: "int option \<Rightarrow> int option \<Rightarrow> int \<Rightarrow> macro_event \<Rightarrow> bool" where
  "documented pre post as_of e \<longleftrightarrow>
     (\<exists>w. pre = Some w \<and> as_of \<le> assume_utc (scheduled_at e) \<and> assume_utc (scheduled_at e) \<le> as_of + w * minute) \<or>
     (\<exists>w. post = Some w \<and> assume_utc (scheduled_at e) < as_of \<and> as_of \<le> assume_utc (scheduled_at e) + w * minute) \<or>
     (\<exists>w r. post = Some w \<and> revised_at e = Some r \<and> assume_utc r \<le> as_of \<and> as_of \<le> assume_utc r + w * minute)"

text \<open>The event is a whole number of minutes away.\<close>

definition on_the_minute :: "int \<Rightarrow> macro_event \<Rightarrow> bool" where
  "on_the_minute as_of e \<longleftrightarrow> minute dvd assume_utc (scheduled_at e) - as_of \<and>
     (case revised_at e of None \<Rightarrow> True | Some r \<Rightarrow> minute dvd as_of - assume_utc r)"

lemma minutes_between:
  assumes "minute dvd x"
  shows "x < (w + 1) * minute \<longleftrightarrow> x \<le> w * minute"
proof -
  have m: "0 < minute" by (simp add: time_units)
  from assms obtain k where "x = minute * k" by (rule dvdE)
  with m show ?thesis by (simp add: mult.commute [of minute] zless_add1_eq)
qed

lemma documented_blackout_at: "documented pre post as_of e \<Longrightarrow> blackout_at pre post as_of e"
  by (auto simp: documented_def blackout_at_def time_units algebra_simps)

lemma blackout_at_documented:
  assumes "on_the_minute as_of e"
  shows "blackout_at pre post as_of e \<longleftrightarrow> documented pre post as_of e"
proof -
  have s: "assume_utc (scheduled_at e) < as_of + (w + 1) * minute \<longleftrightarrow> assume_utc (scheduled_at e) \<le> as_of + w * minute" for w
    using minutes_between [of "assume_utc (scheduled_at e) - as_of" w] assms by (auto simp: on_the_minute_def)
  have r: "as_of < assume_utc r + (w + 1) * minute \<longleftrightarrow> as_of \<le> assume_utc r + w * minute" if "revised_at e = Some r" for r w
    using minutes_between [of "as_of - assume_utc r" w] assms that by (auto simp: on_the_minute_def)
  show ?thesis unfolding blackout_at_def documented_def s using r by blast
qed

lemma blackout_at_wider: "blackout_at pre post as_of e \<Longrightarrow> documented (map_option ((+) 1) pre) (map_option ((+) 1) post) as_of e"
  by (auto simp: documented_def blackout_at_def time_units algebra_simps)

text \<open>
  C26. The macro gate blocks the documented windows. With windows below 10 to the 8 minutes, the
  context is in blackout whenever the documented window of some high impact event covers the
  time: the pre window before its scheduled instant, the post window after it, or the post window
  after the publication of its revision. It is in blackout in no other case when the high impact
  events are whole minutes away, and otherwise only within the documented windows widened by a
  minute, so that an unpublished revision and an event of less impact never block; and the feed is
  healthy when there is an event or, without any, when the caller says so.
\<close>

theorem documented_window_blacks_out:
  assumes "blackout_windows pre post both profile = (pre_win, post_win)" "sane_windows pre_win post_win"
    and "high = filter (\<lambda>e. ev_impact e = IMPACT_HIGH) es"
    and "m = evaluate_macro_event_risk as_of (Some es) pre post both profile flag"
  shows "((\<exists>e \<in> set high. documented pre_win post_win (assume_utc as_of) e) \<longrightarrow> is_in_blackout m) \<and>
    ((\<forall>e \<in> set high. on_the_minute (assume_utc as_of) e) \<longrightarrow>
       is_in_blackout m = (\<exists>e \<in> set high. documented pre_win post_win (assume_utc as_of) e)) \<and>
    (is_in_blackout m \<longrightarrow>
       (\<exists>e \<in> set high. documented (map_option ((+) 1) pre_win) (map_option ((+) 1) post_win) (assume_utc as_of) e)) \<and>
    (is_feed_healthy m \<longleftrightarrow> es \<noteq> [] \<or> flag = Some True)"
proof -
  have b: "is_in_blackout m \<longleftrightarrow> (\<exists>e \<in> set high. blackout_at pre_win post_win (assume_utc as_of) e)"
    unfolding assms(4) macro_blackout_exact [OF assms(2,1)] assms(3) by auto
  have f: "is_feed_healthy m \<longleftrightarrow> es \<noteq> [] \<or> flag = Some True"
    unfolding assms(4) by (cases es) (auto simp: evaluate_macro_event_risk_def Let_def split: option.splits prod.splits)
  show ?thesis
    unfolding b using f documented_blackout_at blackout_at_documented blackout_at_wider by blast
qed

text \<open>What of an event is public at an instant.\<close>

definition redact :: "int \<Rightarrow> macro_event \<Rightarrow> macro_event" where
  "redact as_of e = e\<lparr>
     released_at := (if published as_of (released_at e) then released_at e else None),
     initial_value := (if published as_of (released_at e) then initial_value e else None),
     revised_at := (if published as_of (revised_at e) then revised_at e else None),
     revised_value := (if published as_of (revised_at e) then revised_value e else None)\<rparr>"

lemma redact_fields [simp]:
  "scheduled_at (redact t e) = scheduled_at e" "ev_name (redact t e) = ev_name e" "ev_impact (redact t e) = ev_impact e"
  "published t (released_at (redact t e)) = published t (released_at e)"
  "published t (revised_at (redact t e)) = published t (revised_at e)"
  by (simp_all add: redact_def published_def)

lemma redact_published:
  "published t (released_at e) \<Longrightarrow> released_at (redact t e) = released_at e \<and> initial_value (redact t e) = initial_value e"
  "published t (revised_at e) \<Longrightarrow> revised_at (redact t e) = revised_at e \<and> revised_value (redact t e) = revised_value e"
  by (simp_all add: redact_def)

lemma event_step_redact [simp]: "event_step pre post as_of st (redact as_of e) = event_step pre post as_of st e"
proof -
  have "schedule_step pre post as_of (redact as_of e) st = schedule_step pre post as_of e st"
    by (simp add: schedule_step_def Let_def)
  moreover have "revision_step post as_of (redact as_of e) st = revision_step post as_of e st" for st
    using redact_published(2) [of as_of e] by (simp add: revision_step_def Let_def)
  moreover have "value_step as_of (redact as_of e) st = value_step as_of e st" for st
  proof (cases "published as_of (released_at e)")
    case rel: True
    note eqs = redact_published(1) [OF rel]
    show ?thesis
    proof (cases "published as_of (revised_at e)")
      case True
      note rev = redact_published(2) [OF this]
      have "revised_or_initial (redact as_of e) = revised_or_initial e"
        unfolding revised_or_initial_def conjunct2 [OF rev] conjunct2 [OF eqs] ..
      with True show ?thesis by (cases "me_latest st") (simp_all add: value_step_def Let_def rev eqs)
    qed (cases "me_latest st"; simp add: value_step_def Let_def eqs)
  qed (simp add: value_step_def)
  ultimately show ?thesis by (simp add: event_step_def)
qed

text \<open>Erasing what is published later changes no evaluation.\<close>

lemma redacted_events:
  "evaluate_macro_event_risk as_of (Some (map (redact (assume_utc as_of)) es)) pre post both profile flag =
    evaluate_macro_event_risk as_of (Some es) pre post both profile flag"
proof (cases "es = []")
  case False
  obtain p q where w: "blackout_windows pre post both profile = (p, q)" by fastforce
  have "foldl (event_step p q t) st (filter (\<lambda>e. ev_impact e = IMPACT_HIGH) (map (redact t) es)) =
      foldl (event_step p q t) st (filter (\<lambda>e. ev_impact e = IMPACT_HIGH) es)" for t st
    by (induction es arbitrary: st) simp_all
  with False show ?thesis by (simp add: evaluate_events [OF _ w refl])
qed simp

text \<open>
  C18. The macro context is point in time: releases and revisions that are published later, with
  their values, can be erased from the events, or added to them, without any effect.
\<close>

theorem macro_context_point_in_time:
  "evaluate_macro_event_risk as_of (Some (map (redact (assume_utc as_of)) es)) pre post both profile flag =
    evaluate_macro_event_risk as_of (Some es) pre post both profile flag"
  by (rule redacted_events)

section \<open>Witnesses\<close>

definition sample_release :: "int \<Rightarrow> macro_event" where
  "sample_release t = \<lparr>ev_id = ''cpi'', ev_name = ''CPI'', scheduled_at = Aware t, released_at = None, initial_value = None,
     revised_at = None, revised_value = None, ev_impact = IMPACT_HIGH\<rparr>"

theorem documented_window_blacks_out_witness:
  "is_in_blackout (evaluate_macro_event_risk (Aware 0) (Some [sample_release (30 * minute)]) None None None None None) \<and>
   \<not> is_in_blackout (evaluate_macro_event_risk (Aware 0) (Some [sample_release (31 * minute)]) None None None None None) \<and>
   \<not> is_in_blackout (evaluate_macro_event_risk (Aware (31 * minute)) (Some [sample_release 0]) None None None None None)"
proof -
  have w: "blackout_windows None None None None = (Some 30, Some 30)" by (simp add: blackout_windows_def)
  have s: "sane_windows (Some 30) (Some 30)" by (simp add: sane_windows_def)
  note doc = documented_window_blacks_out [OF w s refl refl]
  have d: "documented (Some 30) (Some 30) 0 (sample_release (30 * minute))" "on_the_minute 0 (sample_release (31 * minute))"
    "\<not> documented (Some 30) (Some 30) 0 (sample_release (31 * minute))"
    "on_the_minute (31 * minute) (sample_release 0)" "\<not> documented (Some 30) (Some 30) (31 * minute) (sample_release 0)"
    by (simp_all add: documented_def on_the_minute_def sample_release_def time_units)
  have h: "filter (\<lambda>e. ev_impact e = IMPACT_HIGH) [sample_release t] = [sample_release t]" for t by (simp add: sample_release_def)
  show ?thesis
    using doc [of "[sample_release (30 * minute)]" "Aware 0" None] doc [of "[sample_release (31 * minute)]" "Aware 0" None]
      doc [of "[sample_release 0]" "Aware (31 * minute)" None] d unfolding h by auto
qed

text \<open>Off the minute the gate is wider than documented: an event 30 minutes and 59 seconds ahead blocks with a window of 30.\<close>

lemma started_minute_blocks:
  "is_in_blackout (evaluate_macro_event_risk (Aware 0) (Some [sample_release (1859 * second)]) None None None None None)"
proof -
  have w: "blackout_windows None None None None = (Some 30, Some 30)" by (simp add: blackout_windows_def)
  have s: "sane_windows (Some 30) (Some 30)" by (simp add: sane_windows_def)
  show ?thesis
    unfolding macro_blackout_exact [OF s w] by (simp add: sample_release_def blackout_at_def time_units)
qed

end
