(* ===== verification/Sample_Guard.thy ===== *)
theory Sample_Guard
  imports Features
begin

text \<open>
  \<open>engine/guards/sample_guard.py\<close>: the guard that discounts a raw sample for overlap, temporal
  clustering and regime concentration, and rates what is left (rule A16). Its evaluations gate
  the scores of the cycle engine.
\<close>

section \<open>The model\<close>

datatype sample_quality = INSUFFICIENT_SAMPLE | LOW_SAMPLE | MEDIUM_SAMPLE | HIGH_SAMPLE

record sample_evaluation =
  se_n_raw :: int
  independent_after_overlap :: int
  temporal_clusters :: int
  hhi_norm :: rat
  regime_discount :: rat
  clustering_discount :: rat
  se_effective_n :: rat
  se_quality :: sample_quality
  weight_multiplier :: rat
  se_blocked :: bool

text \<open>The part of \<open>EngineConfigData\<close> the guard reads.\<close>

record guard_config =
  min_sample_threshold :: int
  low_quality_threshold :: int
  medium_quality_threshold :: int
  max_hhi_discount :: rat
  max_clustering_discount :: rat

definition default_guard :: guard_config where
  "default_guard = \<lparr>min_sample_threshold = 30, low_quality_threshold = 60, medium_quality_threshold = 100,
     max_hhi_discount = 1 / 2, max_clustering_discount = 1 / 2\<rparr>"

text \<open>\<open>max(0.0, min(1.0, x))\<close>.\<close>

definition unit_clamp :: "rat \<Rightarrow> rat" where
  "unit_clamp x = max 0 (min 1 x)"

text \<open>The counts of the regimes, in the order of the dictionary.\<close>

definition calculate_hhi :: "guard_config \<Rightarrow> int list option \<Rightarrow> rat \<times> rat \<times> rat" where
  "calculate_hhi cfg distribution =
     (case distribution of
        None \<Rightarrow> (0, 0, 0)
      | Some counts \<Rightarrow>
          let total = sum_list counts; k = length counts in
          if counts = [] \<or> total = 0 then (0, 0, 0)
          else if k \<le> 1 then (1, 1, max_hhi_discount cfg)
          else let shares = map (\<lambda>c. fround (of_int c / of_int total)) counts;
                   raw = fsum (map (\<lambda>s. fround (s * s)) shares);
                   min_hhi = fdiv 1 (of_nat k);
                   normalized = unit_clamp (if fsub 1 min_hhi > 0 then fdiv (fsub raw min_hhi) (fsub 1 min_hhi) else 0);
                   discount = fmul normalized (max_hhi_discount cfg)
               in (round4 raw, round4 normalized, round4 (min discount (max_hhi_discount cfg))))"

definition calculate_clustering_discount :: "guard_config \<Rightarrow> rat \<Rightarrow> rat" where
  "calculate_clustering_discount cfg factor = round4 (fmul (unit_clamp factor) (max_clustering_discount cfg))"

text \<open>\<open>max(0, round(float(n) * (1.0 - discount)))\<close>.\<close>

definition shrink :: "int \<Rightarrow> rat \<Rightarrow> int" where
  "shrink n discount = max 0 (rhe (fmul (fround (of_int n)) (fsub 1 discount)))"

definition rate_sample :: "guard_config \<Rightarrow> int \<Rightarrow> rat \<Rightarrow> rat \<times> sample_quality \<times> rat \<times> bool" where
  "rate_sample cfg n_raw eff =
     (if n_raw < min_sample_threshold cfg then (fround (of_int n_raw), INSUFFICIENT_SAMPLE, 0, True)
      else if eff < of_int (min_sample_threshold cfg) then (eff, INSUFFICIENT_SAMPLE, 0, True)
      else if eff < of_int (low_quality_threshold cfg) then (eff, LOW_SAMPLE, 1 / 2, False)
      else if eff < of_int (medium_quality_threshold cfg) then (eff, MEDIUM_SAMPLE, fround (4 / 5), False)
      else (eff, HIGH_SAMPLE, 1, False))"

definition evaluate_sample :: "guard_config \<Rightarrow> int \<Rightarrow> int list option \<Rightarrow> rat \<Rightarrow> rat \<Rightarrow> sample_evaluation" where
  "evaluate_sample cfg n_raw distribution autocorrelation overlap =
     (let independent = shrink n_raw (unit_clamp overlap);
          clustering = calculate_clustering_discount cfg autocorrelation;
          clusters = shrink independent clustering;
          (raw_hhi, norm, discount) = calculate_hhi cfg distribution;
          (eff, quality, weight, blocked) = rate_sample cfg n_raw (round2 (fmul (fround (of_int clusters)) (fsub 1 discount)))
      in \<lparr>se_n_raw = n_raw, independent_after_overlap = independent, temporal_clusters = clusters, hhi_norm = norm,
          regime_discount = discount, clustering_discount = clustering, se_effective_n = eff, se_quality = quality,
          weight_multiplier = weight, se_blocked = blocked\<rparr>)"

lemmas [eval_defs] = default_guard_def unit_clamp_def calculate_hhi_def calculate_clustering_discount_def shrink_def
  rate_sample_def evaluate_sample_def

section \<open>Discounts\<close>

text \<open>A configuration whose maximal discounts are fractions with four digits, as the default is.\<close>

definition sane_guard :: "guard_config \<Rightarrow> bool" where
  "sane_guard cfg \<longleftrightarrow> 0 < min_sample_threshold cfg \<and> min_sample_threshold cfg \<le> low_quality_threshold cfg \<and>
     low_quality_threshold cfg \<le> medium_quality_threshold cfg \<and>
     list_all (\<lambda>d. 0 \<le> d \<and> d \<le> 1 \<and> fround d = d \<and> round4 d = d) [max_hhi_discount cfg, max_clustering_discount cfg]"

lemma round4_mono: "x \<le> y \<Longrightarrow> round4 x \<le> round4 y"
  unfolding round4_def by (intro flt.rnd_mono divide_right_mono) (simp_all add: rhe_mono)

lemma round4_zero [simp]: "round4 0 = 0"
  by (simp add: round4_def)

lemma unit_clamp_bounds: "0 \<le> unit_clamp x" "unit_clamp x \<le> 1"
  by (simp_all add: unit_clamp_def)

lemma fmul_unit:
  assumes "0 \<le> x" "x \<le> 1" "0 \<le> d" "fround d = d"
  shows "0 \<le> fmul x d \<and> fmul x d \<le> d"
proof -
  have "x * d \<le> d" using mult_right_mono [of x 1 d] assms by simp
  with assms show ?thesis by (simp add: fmul_def flt.rnd_upper)
qed

lemma clustering_discount_bounds:
  assumes "sane_guard cfg"
  shows "0 \<le> calculate_clustering_discount cfg x \<and> calculate_clustering_discount cfg x \<le> 1"
proof -
  have d: "0 \<le> max_clustering_discount cfg" "max_clustering_discount cfg \<le> 1"
    "fround (max_clustering_discount cfg) = max_clustering_discount cfg"
    "round4 (max_clustering_discount cfg) = max_clustering_discount cfg"
    using assms by (simp_all add: sane_guard_def)
  from fmul_unit [OF unit_clamp_bounds d(1,3), of x] show ?thesis
    unfolding calculate_clustering_discount_def
    using round4_mono [of 0 "fmul (unit_clamp x) (max_clustering_discount cfg)"]
      round4_mono [of "fmul (unit_clamp x) (max_clustering_discount cfg)" "max_clustering_discount cfg"] d by simp
qed

lemma regime_discount_bounds:
  assumes "sane_guard cfg"
  shows "0 \<le> snd (snd (calculate_hhi cfg distribution)) \<and> snd (snd (calculate_hhi cfg distribution)) \<le> 1"
proof -
  have d: "0 \<le> max_hhi_discount cfg" "max_hhi_discount cfg \<le> 1" "fround (max_hhi_discount cfg) = max_hhi_discount cfg"
    "round4 (max_hhi_discount cfg) = max_hhi_discount cfg"
    using assms by (simp_all add: sane_guard_def)
  have "0 \<le> round4 (min (fmul (unit_clamp x) (max_hhi_discount cfg)) (max_hhi_discount cfg)) \<and>
      round4 (min (fmul (unit_clamp x) (max_hhi_discount cfg)) (max_hhi_discount cfg)) \<le> 1" for x
  proof -
    have "round4 0 \<le> round4 (min (fmul (unit_clamp x) (max_hhi_discount cfg)) (max_hhi_discount cfg))"
      using fmul_unit [OF unit_clamp_bounds d(1,3), of x] d(1) by (intro round4_mono) simp
    moreover have "round4 (min (fmul (unit_clamp x) (max_hhi_discount cfg)) (max_hhi_discount cfg)) \<le> round4 (max_hhi_discount cfg)"
      by (rule round4_mono) simp
    ultimately show ?thesis using d by simp
  qed
  with d show ?thesis by (auto simp: calculate_hhi_def Let_def split: option.splits)
qed

text \<open>Integers a float holds exactly.\<close>

lemma fround_count: "\<bar>n\<bar> < 2 ^ 53 \<Longrightarrow> fround (of_int n) = of_int n"
  using fround_dyadic [of n 0] by simp

lemma discounted_count:
  assumes n: "0 \<le> n" "n < 2 ^ 53" and d: "0 \<le> d" "d \<le> 1"
  shows "0 \<le> fmul (fround (of_int n)) (fsub 1 d)" "fmul (fround (of_int n)) (fsub 1 d) \<le> of_int n"
proof -
  have f: "fround (of_int n) = of_int n" using n by (intro fround_count) simp
  have s: "0 \<le> fsub 1 d" "fsub 1 d \<le> 1" using d by (simp_all add: fsub_def flt.rnd_upper fround_one)
  have "of_int n * fsub 1 d \<le> of_int n" using mult_left_mono [OF s(2), of "of_int n"] n by simp
  then show "fmul (fround (of_int n)) (fsub 1 d) \<le> of_int n" by (simp add: fmul_def f flt.rnd_upper)
  show "0 \<le> fmul (fround (of_int n)) (fsub 1 d)" using n s by (simp add: fmul_def f)
qed

lemma shrink_bounds:
  assumes "0 \<le> n" "n < 2 ^ 53" "0 \<le> d" "d \<le> 1"
  shows "0 \<le> shrink n d \<and> shrink n d \<le> n"
  using rhe_mono [OF discounted_count(2) [OF assms]] assms(1) by (simp add: shrink_def)

lemma round2_count: "0 \<le> n \<Longrightarrow> n < 2 ^ 53 \<Longrightarrow> round2 (of_int n) = of_int n"
proof -
  assume n: "0 \<le> n" "n < 2 ^ 53"
  have "rhe (of_int n * 100) = n * 100" using rhe_of_int [of "n * 100"] by simp
  then show ?thesis using fround_count [of n] n by (simp add: round2_def)
qed

section \<open>Properties\<close>

text \<open>
  The sample guard fails closed: the discounts only ever remove observations, the effective
  count lies between 0 and the raw count, and a sample is blocked exactly when it is rated
  insufficient, exactly when its weight is 0; what is not blocked has enough raw and enough
  effective observations.
\<close>

theorem sample_guard_fails_closed:
  assumes cfg: "sane_guard cfg" and n: "0 \<le> n" "n < 2 ^ 53"
  shows "let e = evaluate_sample cfg n distribution autocorrelation overlap in
    0 \<le> temporal_clusters e \<and> temporal_clusters e \<le> independent_after_overlap e \<and> independent_after_overlap e \<le> n \<and>
    0 \<le> se_effective_n e \<and> se_effective_n e \<le> of_int n \<and>
    (se_blocked e \<longleftrightarrow> se_quality e = INSUFFICIENT_SAMPLE) \<and> (se_blocked e \<longleftrightarrow> weight_multiplier e = 0) \<and>
    (\<not> se_blocked e \<longrightarrow> min_sample_threshold cfg \<le> n \<and> of_int (min_sample_threshold cfg) \<le> se_effective_n e) \<and>
    0 \<le> weight_multiplier e \<and> weight_multiplier e \<le> 1"
proof -
  define i where "i = shrink n (unit_clamp overlap)"
  define k where "k = shrink i (calculate_clustering_discount cfg autocorrelation)"
  obtain raw norm d where h: "calculate_hhi cfg distribution = (raw, norm, d)" by (cases "calculate_hhi cfg distribution")
  define eff where "eff = round2 (fmul (fround (of_int k)) (fsub 1 d))"
  have i: "0 \<le> i \<and> i \<le> n" unfolding i_def by (rule shrink_bounds [OF n unit_clamp_bounds])
  with n have k: "0 \<le> k \<and> k \<le> i"
    unfolding k_def using clustering_discount_bounds [OF cfg] by (intro shrink_bounds) simp_all
  have d: "0 \<le> d" "d \<le> 1" using regime_discount_bounds [OF cfg, of distribution] by (simp_all add: h)
  from i k n have kn: "0 \<le> k" "k < 2 ^ 53" by simp_all
  have "eff \<le> round2 (of_int k)" unfolding eff_def by (intro round2_mono discounted_count(2) [OF kn d])
  then have "eff \<le> of_int n" using i k round2_count [OF kn] by simp
  moreover have "0 \<le> eff" unfolding eff_def by (intro round2_nonneg discounted_count(1) [OF kn d])
  moreover have "fround (of_int n) = of_int n" using n by (intro fround_count) simp
  moreover have "fround (4 / 5) \<noteq> 0" using flt.rnd_pos_iff [of "4 / 5"] by force
  moreover have "fround (4 / 5) \<le> 1" by (simp add: flt.rnd_upper fround_one)
  ultimately show ?thesis
    using i k n unfolding evaluate_sample_def Let_def i_def [symmetric] k_def [symmetric] h prod.case eff_def [symmetric]
    by (auto simp: rate_sample_def)
qed

theorem sample_guard_fails_closed_witness:
  "let e = evaluate_sample default_guard 80 None (1 / 2) (1 / 4) in
     temporal_clusters e \<le> independent_after_overlap e \<and> independent_after_overlap e \<le> 80 \<and> \<not> se_blocked e"
proof -
  have "sane_guard default_guard"
    by (simp add: sane_guard_def default_guard_def round4_def rhe_def fround_eval)
  note g = sample_guard_fails_closed [OF this, of 80 None "1 / 2" "1 / 4"]
  have "fround (1 / 4) = 1 / 4" "fround (3 / 4) = 3 / 4" by (simp_all add: fround_eval)
  then have "\<not> se_blocked (evaluate_sample default_guard 80 None (1 / 2) (1 / 4))"
    by (simp add: evaluate_sample_def calculate_hhi_def default_guard_def unit_clamp_def shrink_def rate_sample_def
        calculate_clustering_discount_def fmul_def fsub_def round2_def round4_def rhe_def fround_eval Let_def)
  with g show ?thesis by (simp add: Let_def)
qed

end
