(* ===== verification/Cycle_Context.thy ===== *)
theory Cycle_Context
  imports Macro_Events Sample_Guard Structure Civil_Time
begin

text \<open>
  The three contexts of the cycle engine: the trading session (\<open>engine/cycles/session.py\<close>), the age
  of the last swing (\<open>swing_duration.py\<close>) and the calendar (\<open>calendar.py\<close>), with the numeric part
  of \<open>Cycle3AProfile\<close> (\<open>profile.py\<close>). The time zone database is the parameter \<open>tz\<close>: the UTC
  offset of a financial center at an instant.
\<close>

section \<open>The profile\<close>

record expectancy_entry =
  ee_effective_n :: rat
  ee_expectancy_r :: rat
  ee_significant :: bool

record calendar_entry = expectancy_entry +
  ce_stability :: rat

record full_profile = cycle_profile +
  session_max_score :: "rat option"
  session_min_effective_n :: "rat option"
  session_expectancy_multiplier :: "rat option"
  session_expectancy_table :: "(session_type \<times> regime_type \<rightharpoonup> expectancy_entry) option"
  swing_max_score :: "rat option"
  swing_min_effective_n :: "rat option"
  swing_sample_evaluation :: "sample_evaluation option"
  historical_durations :: "int list option"
  calendar_max_score :: "rat option"
  calendar_min_effective_n :: "rat option"
  calendar_stability_threshold :: "rat option"
  calendar_expectancy_multiplier :: "rat option"
  calendar_effect_table :: "(string \<rightharpoonup> calendar_entry) option"
  blackout_pre :: "int option"
  blackout_post :: "int option"
  clear_window_far :: "int option"
  clear_window_near :: "int option"
  clear_bonus_far :: "rat option"
  clear_bonus_near :: "rat option"
  details_version :: "string option"

definition is_production_scoring_enabled :: "full_profile \<Rightarrow> bool" where
  "is_production_scoring_enabled p \<longleftrightarrow> cp_status p = CY_LEGACY_REFERENCE \<or> cp_status p = CY_PRODUCTION_FROZEN"

definition scoring_off :: "full_profile option \<Rightarrow> bool" where
  "scoring_off profile = (case profile of None \<Rightarrow> False | Some p \<Rightarrow> \<not> is_production_scoring_enabled p)"

text \<open>An explicit argument, else the field of a profile that may score.\<close>

definition or_profile :: "'a option \<Rightarrow> (full_profile \<Rightarrow> 'a option) \<Rightarrow> full_profile option \<Rightarrow> 'a option" where
  "or_profile arg field profile =
     (case arg of Some x \<Rightarrow> Some x
      | None \<Rightarrow> (case profile of Some p \<Rightarrow> if is_production_scoring_enabled p then field p else None | None \<Rightarrow> None))"

definition uncalibrated_xauusd_profile :: "string option \<Rightarrow> full_profile" where
  "uncalibrated_xauusd_profile timeframe = \<lparr>cp_name = ''XAUUSD_UNCALIBRATED'', cp_status = CY_PENDING_DATA,
     cp_target = Some ''XAUUSD'', cp_timeframe = timeframe,
     session_max_score = None, session_min_effective_n = None, session_expectancy_multiplier = None,
     session_expectancy_table = None, swing_max_score = None, swing_min_effective_n = None,
     swing_sample_evaluation = None, historical_durations = None, calendar_max_score = None,
     calendar_min_effective_n = None, calendar_stability_threshold = None, calendar_expectancy_multiplier = None,
     calendar_effect_table = None, blackout_pre = None, blackout_post = None, clear_window_far = None,
     clear_window_near = None, clear_bonus_far = None, clear_bonus_near = None, details_version = None\<rparr>"

definition legacy_xaut_profile :: full_profile where
  "legacy_xaut_profile = \<lparr>cp_name = ''LEGACY_XAUT_REFERENCE'', cp_status = CY_LEGACY_REFERENCE,
     cp_target = Some ''XAUT'', cp_timeframe = None,
     session_max_score = Some 15, session_min_effective_n = Some 30, session_expectancy_multiplier = Some 30,
     session_expectancy_table = None, swing_max_score = Some 20, swing_min_effective_n = Some 30,
     swing_sample_evaluation = None, historical_durations = None, calendar_max_score = Some 5,
     calendar_min_effective_n = Some 30, calendar_stability_threshold = Some (fround (3 / 5)),
     calendar_expectancy_multiplier = Some 10, calendar_effect_table = None, blackout_pre = Some 30,
     blackout_post = Some 30, clear_window_far = Some 120, clear_window_near = Some 60, clear_bonus_far = Some 5,
     clear_bonus_near = Some 2, details_version = None\<rparr>"

text \<open>The rating of an effective count that has passed its minimum.\<close>

definition quality_tier :: "rat \<Rightarrow> sample_quality \<times> rat" where
  "quality_tier n = (if n < 60 then (LOW_SAMPLE, 1 / 2) else if n < 100 then (MEDIUM_SAMPLE, fround (4 / 5)) else (HIGH_SAMPLE, 1))"

section \<open>Sessions\<close>

datatype financial_center = TOKYO | LONDON | NEW_YORK_CITY

type_synonym time_zones = "financial_center \<Rightarrow> int \<Rightarrow> int"

definition local_time :: "time_zones \<Rightarrow> financial_center \<Rightarrow> int \<Rightarrow> int" where
  "local_time tz center u = (u + tz center u) mod day"

definition in_range :: "int \<Rightarrow> int \<Rightarrow> int \<Rightarrow> bool" where
  "in_range t a b \<longleftrightarrow> a \<le> t \<and> t < b"

text \<open>\<open>time(h, m)\<close>, and the hours of a local time as a float, without its microseconds.\<close>

definition clock_time :: "int \<Rightarrow> int \<Rightarrow> int" where
  "clock_time h m = h * hour + m * minute"

definition float_hours :: "int \<Rightarrow> rat" where
  "float_hours t = fadd (fadd (of_int (t div hour)) (fdiv (of_int (t mod hour div minute)) 60))
     (fdiv (of_int (t mod minute div second)) 3600)"

definition calc_progress :: "int \<Rightarrow> rat \<Rightarrow> rat \<Rightarrow> rat" where
  "calc_progress t start_h end_h =
     (let dur = fsub end_h start_h
      in if dur \<le> 0 then 0 else clamp_score 100 (fmul (fdiv (fsub (float_hours t) start_h) dur) 100))"

definition session_at :: "time_zones \<Rightarrow> int \<Rightarrow> session_type \<times> rat \<times> bool" where
  "session_at tz u =
     (let lon = local_time tz LONDON u; ny = local_time tz NEW_YORK_CITY u; tok = local_time tz TOKYO u in
      if in_range lon (clock_time 13 0) (clock_time 16 30) \<and> in_range ny (clock_time 8 0) (clock_time 11 30)
      then (LONDON_NY_OVERLAP, calc_progress lon 13 (33 / 2), True)
      else if in_range lon (clock_time 8 0) (clock_time 13 0) then (LONDON_SESSION, calc_progress lon 8 13, True)
      else if in_range lon (clock_time 7 0) (clock_time 8 0) then (LONDON_PREOPEN, calc_progress lon 7 8, False)
      else if in_range ny (clock_time 11 30) (clock_time 17 0) then (NEW_YORK, calc_progress ny (23 / 2) 17, True)
      else if in_range ny (clock_time 17 0) (clock_time 20 0) then (US_LATE, calc_progress ny 17 20, False)
      else (ASIA, if in_range tok (clock_time 9 0) (clock_time 17 0) then calc_progress tok 9 17 else 50, False))"

record session_context =
  sx_session :: session_type
  sx_progress :: rat
  sx_high_liquidity :: bool
  sx_score :: rat
  sx_quality :: sample_quality
  sx_effective_n :: rat

text \<open>The rating and the score of one bucket of the expectancy table.\<close>

definition expectancy_score :: "rat \<Rightarrow> rat \<Rightarrow> rat \<Rightarrow> expectancy_entry \<Rightarrow> sample_quality \<times> rat" where
  "expectancy_score min_n max_score multiplier e =
     (let (quality, weight) = (if ee_effective_n e < min_n \<or> \<not> ee_significant e then (INSUFFICIENT_SAMPLE, 0)
            else quality_tier (ee_effective_n e))
      in (quality, if ee_expectancy_r e > 0 \<and> ee_significant e \<and> weight > 0
                   then round2 (fmul (min max_score (fmul (ee_expectancy_r e) multiplier)) weight) else 0))"

definition classify_session ::
  "time_zones \<Rightarrow> datetime \<Rightarrow> regime_type option \<Rightarrow> (session_type \<times> regime_type \<rightharpoonup> expectancy_entry) option \<Rightarrow>
    full_profile option \<Rightarrow> session_context" where
  "classify_session tz timestamp regime table profile =
     (let (session, progress, liquid) = session_at tz (assume_utc timestamp);
          plain = \<lparr>sx_session = session, sx_progress = progress, sx_high_liquidity = liquid, sx_score = 0,
                    sx_quality = INSUFFICIENT_SAMPLE, sx_effective_n = 0\<rparr>;
          (min_n, max_score, multiplier) = (case profile of
             Some p \<Rightarrow> (session_min_effective_n p, session_max_score p, session_expectancy_multiplier p)
           | None \<Rightarrow> (Some 30, Some 15, Some 30))
      in if scoring_off profile then plain
         else (case (min_n, max_score, multiplier) of
           (Some lo, Some hi, Some m) \<Rightarrow>
             (case (or_profile table session_expectancy_table profile, regime) of
                (Some tab, Some r) \<Rightarrow>
                  (case tab (session, r) of
                     Some e \<Rightarrow> let (quality, score) = expectancy_score lo hi m e
                       in plain\<lparr>sx_score := score, sx_quality := quality, sx_effective_n := ee_effective_n e\<rparr>
                   | None \<Rightarrow> plain)
              | _ \<Rightarrow> plain)
         | _ \<Rightarrow> plain))"

lemmas [eval_defs] = is_production_scoring_enabled_def scoring_off_def or_profile_def uncalibrated_xauusd_profile_def
  legacy_xaut_profile_def quality_tier_def local_time_def in_range_def clock_time_def float_hours_def calc_progress_def
  session_at_def expectancy_score_def classify_session_def

section \<open>The age of the last swing\<close>

definition allowed_timeframes :: "string \<rightharpoonup> int" where
  "allowed_timeframes = [''1m'' \<mapsto> 60, ''5m'' \<mapsto> 300, ''15m'' \<mapsto> 900, ''1h'' \<mapsto> 3600, ''4h'' \<mapsto> 14400, ''1d'' \<mapsto> 86400,
     ''1w'' \<mapsto> 604800]"

definition timeframe_to_seconds :: "string \<Rightarrow> int result" where
  "timeframe_to_seconds tf = (case allowed_timeframes (py_strip (py_lower tf)) of None \<Rightarrow> Inl ValueError | Some s \<Rightarrow> Inr s)"

record swing_context =
  wx_market_bars :: int
  wx_market_hours :: rat
  wx_known_bars :: int
  wx_known_hours :: rat
  wx_percentile :: "rat option"
  wx_mature :: bool
  wx_score :: rat
  wx_quality :: sample_quality
  wx_effective_n :: rat

fun datetime_diff :: "datetime \<Rightarrow> datetime \<Rightarrow> int result" where
  "datetime_diff (Aware a) (Aware b) = Inr (a - b)"
| "datetime_diff (Naive a) (Naive b) = Inr (a - b)"
| "datetime_diff _ _ = Inl TypeError"

text \<open>Age in bars and hours: \<open>max(0, int(delta // tf))\<close> and \<open>round(delta / 3600, 2)\<close>.\<close>

definition age_of :: "int \<Rightarrow> int \<Rightarrow> int \<times> rat" where
  "age_of tf_sec us = (let delta = max 0 (total_seconds us)
     in (max 0 \<lfloor>delta / of_int tf_sec\<rfloor>, round2 (fdiv delta 3600)))"

text \<open>\<open>bisect_left\<close> on the sorted durations counts the smaller ones.\<close>

definition age_percentile :: "int list \<Rightarrow> int \<Rightarrow> rat option" where
  "age_percentile durations known_bars =
     (if length durations \<ge> 10
      then Some (round2 (min 100 (max 0 (fmul (fdiv (of_nat (length (takeWhile (\<lambda>d. d < known_bars) (sort durations))))
             (of_nat (length durations))) 100))))
      else None)"

definition maturity_points :: "rat \<Rightarrow> rat option \<Rightarrow> rat" where
  "maturity_points max_score percentile =
     (case percentile of None \<Rightarrow> 0
      | Some p \<Rightarrow> if 75 \<le> p \<and> p \<le> 90 then max_score
                  else if 50 \<le> p \<and> p < 75 then fmul max_score (3 / 4)
                  else if 25 \<le> p \<and> p < 50 then fmul max_score (1 / 2)
                  else if p > 90 then fmul max_score (fround (2 / 5))
                  else fmul max_score (1 / 4))"

definition knowable_swings :: "datetime \<Rightarrow> swing_point list \<Rightarrow> swing_point list result" where
  "knowable_swings as_of = filter_result (\<lambda>s. if is_confirmed s then datetime_le (detected_at s) as_of else Inr False)"

text \<open>Effective count and block, from the evaluation, the explicit count, or closed.\<close>

definition swing_evidence :: "rat \<Rightarrow> sample_evaluation option \<Rightarrow> rat option \<Rightarrow> rat \<times> bool" where
  "swing_evidence min_n sample_eval eff =
     (case sample_eval of
        Some e \<Rightarrow> (se_effective_n e, se_blocked e)
      | None \<Rightarrow> (case eff of Some n \<Rightarrow> (n, n < min_n) | None \<Rightarrow> (0, True)))"

definition calculate_swing_duration ::
  "candle \<Rightarrow> swing_point list \<Rightarrow> string \<Rightarrow> int list option \<Rightarrow> rat option \<Rightarrow> sample_evaluation option \<Rightarrow> full_profile option \<Rightarrow>
    swing_context result" where
  "calculate_swing_duration c sws timeframe durations eff sample_eval profile =
     rbind (timeframe_to_seconds timeframe) (\<lambda>tf.
     let as_of = (if is_closed c then timestamp_close c else timestamp_open c) in
     rbind (knowable_swings as_of sws) (\<lambda>known.
       if known = [] then Inr \<lparr>wx_market_bars = 0, wx_market_hours = 0, wx_known_bars = 0, wx_known_hours = 0,
         wx_percentile = None, wx_mature = False, wx_score = 0, wx_quality = INSUFFICIENT_SAMPLE, wx_effective_n = 0\<rparr>
       else
       rbind (datetime_diff as_of (sw_timestamp (last known))) (\<lambda>market_us.
       rbind (datetime_diff as_of (detected_at (last known))) (\<lambda>known_us.
       let (market_bars, market_hours) = age_of tf market_us;
           (known_bars, known_hours) = age_of tf known_us;
           ds = (case or_profile durations historical_durations profile of None \<Rightarrow> [] | Some xs \<Rightarrow> xs);
           percentile = age_percentile ds known_bars;
           plain = \<lparr>wx_market_bars = market_bars, wx_market_hours = market_hours, wx_known_bars = known_bars,
             wx_known_hours = known_hours, wx_percentile = percentile, wx_mature = False, wx_score = 0,
             wx_quality = INSUFFICIENT_SAMPLE, wx_effective_n = 0\<rparr>;
           (min_opt, max_opt) = (case profile of
              Some p \<Rightarrow> (swing_min_effective_n p, swing_max_score p) | None \<Rightarrow> (Some 30, Some 20))
       in if scoring_off profile then Inr plain
          else (case (min_opt, max_opt) of
            (Some min_n, Some hi) \<Rightarrow>
              let (n, blocked) = swing_evidence min_n sample_eval eff in
              if length ds < 30 \<or> n < min_n \<or> blocked then Inr (plain\<lparr>wx_effective_n := n\<rparr>)
              else let (quality, weight) = quality_tier n in
                Inr (plain\<lparr>wx_mature := (case percentile of None \<Rightarrow> False | Some p \<Rightarrow> 75 \<le> p \<and> p \<le> 95),
                  wx_score := round2 (fmul (maturity_points hi percentile) weight), wx_quality := quality,
                  wx_effective_n := n\<rparr>)
          | _ \<Rightarrow> Inr plain)))))"

lemmas [eval_defs] = timeframe_to_seconds_def age_of_def age_percentile_def maturity_points_def knowable_swings_def
  swing_evidence_def calculate_swing_duration_def

section \<open>The calendar\<close>

definition is_month_end :: "int \<Rightarrow> bool" where
  "is_month_end u = (case civil_date (u div day) of (y, m, d) \<Rightarrow> month_days y m - d < 3)"

definition calendar_bucket_key :: "datetime \<Rightarrow> string" where
  "calendar_bucket_key as_of =
     (let u = assume_utc as_of in
      if is_month_end u then ''MONTH_END''
      else ''DOW_'' @ digits (nat (weekday u)) @ ''_HOUR_'' @ digits (nat (hour_of u)))"

record calendar_context =
  kx_day_of_week :: int
  kx_hour_utc :: int
  kx_month :: int
  kx_month_end :: bool
  kx_stability :: rat
  kx_score :: rat
  kx_quality :: sample_quality
  kx_effective_n :: rat

definition fold_stability :: "rat list option \<Rightarrow> rat" where
  "fold_stability stabilities =
     (case stabilities of
        None \<Rightarrow> 0
      | Some xs \<Rightarrow> if xs = [] then 0
                   else round4 (unit_clamp (fdiv (fsum (map unit_clamp xs)) (of_nat (length xs)))))"

definition seasonality_score :: "rat \<Rightarrow> rat \<Rightarrow> rat \<Rightarrow> rat \<Rightarrow> rat \<Rightarrow> calendar_entry \<Rightarrow> sample_quality \<times> rat" where
  "seasonality_score min_n thr max_score multiplier stability e =
     (let entry_stability = (if ce_stability e > 0 then ce_stability e else stability) in
      if ee_effective_n e \<ge> min_n \<and> ee_significant e \<and> ee_expectancy_r e > 0 \<and> entry_stability \<ge> thr
      then let (quality, weight) = quality_tier (ee_effective_n e)
           in (quality, round2 (fmul (min max_score (fmul (fmul (ee_expectancy_r e) multiplier) entry_stability)) weight))
      else (INSUFFICIENT_SAMPLE, 0))"

definition calculate_calendar_seasonality ::
  "datetime \<Rightarrow> rat list option \<Rightarrow> (string \<rightharpoonup> calendar_entry) option \<Rightarrow> full_profile option \<Rightarrow> calendar_context" where
  "calculate_calendar_seasonality as_of stabilities effect_table profile =
     (let u = assume_utc as_of;
          stability = fold_stability stabilities;
          plain = \<lparr>kx_day_of_week = weekday u, kx_hour_utc = hour_of u, kx_month = fst (snd (civil_date (u div day))),
            kx_month_end = is_month_end u, kx_stability = stability, kx_score = 0, kx_quality = INSUFFICIENT_SAMPLE,
            kx_effective_n = 0\<rparr>;
          (min_n, thr, max_score, multiplier) = (case profile of
             Some p \<Rightarrow> (calendar_min_effective_n p, calendar_stability_threshold p, calendar_max_score p,
                        calendar_expectancy_multiplier p)
           | None \<Rightarrow> (Some 30, Some (fround (3 / 5)), Some 5, Some 10))
      in if scoring_off profile then plain
         else (case (min_n, thr, max_score, multiplier) of
           (Some lo, Some th, Some hi, Some m) \<Rightarrow>
             (case or_profile effect_table calendar_effect_table profile of
                Some tab \<Rightarrow>
                  (case tab (calendar_bucket_key as_of) of
                     Some e \<Rightarrow> let (quality, score) = seasonality_score lo th hi m stability e
                       in plain\<lparr>kx_score := score, kx_quality := quality, kx_effective_n := ee_effective_n e\<rparr>
                   | None \<Rightarrow> plain)
              | None \<Rightarrow> plain)
         | _ \<Rightarrow> plain))"

lemmas [eval_defs] = is_month_end_def calendar_bucket_key_def fold_stability_def seasonality_score_def
  calculate_calendar_seasonality_def

section \<open>Without authority nothing scores\<close>

lemma session_off: "scoring_off profile \<Longrightarrow> sx_score (classify_session tz t regime table profile) = 0"
  by (simp add: classify_session_def Let_def split: prod.split)

lemma calendar_off: "scoring_off profile \<Longrightarrow> kx_score (calculate_calendar_seasonality t stabilities table profile) = 0"
  by (simp add: calculate_calendar_seasonality_def Let_def split: prod.split)

text \<open>A swing context scores nothing, or as the thresholds that are in force say.\<close>

definition swing_thresholds :: "full_profile option \<Rightarrow> (rat \<times> rat) option" where
  "swing_thresholds profile =
     (case profile of
        None \<Rightarrow> Some (30, 20)
      | Some p \<Rightarrow> (case (swing_min_effective_n p, swing_max_score p) of (Some n, Some hi) \<Rightarrow> Some (n, hi) | _ \<Rightarrow> None))"

lemma swing_score_cases:
  assumes "calculate_swing_duration c sws tf ds eff ev profile = Inr x"
  shows "wx_score x = 0 \<or>
    (\<not> scoring_off profile \<and> (\<exists>lo hi p. swing_thresholds profile = Some (lo, hi) \<and>
       wx_score x = round2 (fmul (maturity_points hi p) (snd (quality_tier (wx_effective_n x)))) \<and> lo \<le> wx_effective_n x))"
proof -
  define as_of where "as_of = (if is_closed c then timestamp_close c else timestamp_open c)"
  from assms obtain secs known where tf: "timeframe_to_seconds tf = Inr secs" and k: "knowable_swings as_of sws = Inr known"
    by (auto simp: calculate_swing_duration_def as_of_def Let_def rbind_Inr_iff)
  show ?thesis
  proof (cases "known = []")
    case True
    with assms tf k show ?thesis by (auto simp: calculate_swing_duration_def as_of_def [symmetric] Let_def)
  next
    case False
    with assms tf k obtain m d where md: "datetime_diff as_of (sw_timestamp (last known)) = Inr m"
      "datetime_diff as_of (detected_at (last known)) = Inr d"
      by (auto simp: calculate_swing_duration_def as_of_def [symmetric] Let_def rbind_Inr_iff)
    obtain mb mh kb kh where ages: "age_of secs m = (mb, mh)" "age_of secs d = (kb, kh)"
      by (cases "age_of secs m"; cases "age_of secs d")
    have th: "swing_thresholds profile = (case (case profile of Some p \<Rightarrow> (swing_min_effective_n p, swing_max_score p) | None \<Rightarrow> (Some 30, Some 20))
        of (Some n, Some hi) \<Rightarrow> Some (n, hi) | _ \<Rightarrow> None)"
      by (simp add: swing_thresholds_def split: option.split)
    obtain lo hi where lh: "(case profile of Some p \<Rightarrow> (swing_min_effective_n p, swing_max_score p) | None \<Rightarrow> (Some 30, Some 20)) = (lo, hi)"
      by fastforce
    show ?thesis
    proof (cases "scoring_off profile \<or> lo = None \<or> hi = None")
      case True
      with assms False show ?thesis
        unfolding calculate_swing_duration_def tf as_of_def [symmetric] k rbind_simps Let_def md ages prod.case lh
        by (auto split: option.splits)
    next
      case False': False
      then obtain n h where nh: "lo = Some n" "hi = Some h" by auto
      obtain e b where ev: "swing_evidence n ev eff = (e, b)" by (cases "swing_evidence n ev eff")
      obtain q w where tier: "quality_tier e = (q, w)" by (cases "quality_tier e")
      from assms False False' show ?thesis
        unfolding calculate_swing_duration_def tf as_of_def [symmetric] k rbind_simps Let_def md ages prod.case lh nh option.case ev th
        by (auto simp: tier split: if_splits)
    qed
  qed
qed

lemma swing_off:
  "scoring_off profile \<Longrightarrow> calculate_swing_duration c sws tf ds eff ev profile = Inr x \<Longrightarrow> wx_score x = 0"
  using swing_score_cases by blast

section \<open>Bounds\<close>

lemma quality_tier_weight: "0 < snd (quality_tier n) \<and> snd (quality_tier n) \<le> 1"
  by (simp add: quality_tier_def flt.rnd_upper fround_one)

text \<open>A score of at most \<open>hi\<close> points, weighted by a fraction and rounded.\<close>

lemma weighted_score:
  assumes "0 \<le> x" "x \<le> hi" "fround hi = hi" "0 \<le> w" "w \<le> 1"
  shows "0 \<le> round2 (fmul x w) \<and> round2 (fmul x w) \<le> round2 hi"
proof -
  have "x * w \<le> hi" using mult_mono [of x hi w 1] assms by simp
  then have "fmul x w \<le> hi" unfolding fmul_def by (rule flt.rnd_upper [OF assms(3)])
  moreover have "0 \<le> fmul x w" using assms by (simp add: fmul_def)
  ultimately show ?thesis by (simp add: round2_mono round2_nonneg)
qed

lemma expectancy_score_bounds:
  assumes "0 \<le> hi" "fround hi = hi" "0 \<le> m"
  shows "0 \<le> snd (expectancy_score lo hi m e) \<and> snd (expectancy_score lo hi m e) \<le> round2 hi"
proof (cases "ee_expectancy_r e > 0 \<and> ee_significant e \<and> \<not> ee_effective_n e < lo")
  case True
  have "0 \<le> min hi (fmul (ee_expectancy_r e) m)" using True assms by (simp add: fmul_def)
  from weighted_score [OF this min.cobounded1 assms(2)] quality_tier_weight [of "ee_effective_n e"] True show ?thesis
    by (auto simp: expectancy_score_def Let_def split: prod.splits)
next
  case False
  then show ?thesis using assms by (auto simp: expectancy_score_def Let_def round2_nonneg split: prod.splits)
qed

lemma seasonality_score_bounds:
  assumes "0 \<le> hi" "fround hi = hi" "0 \<le> m" "0 \<le> th"
  shows "0 \<le> snd (seasonality_score lo th hi m st e) \<and> snd (seasonality_score lo th hi m st e) \<le> round2 hi"
proof -
  define s where "s = (if ce_stability e > 0 then ce_stability e else st)"
  show ?thesis
  proof (cases "ee_effective_n e \<ge> lo \<and> ee_significant e \<and> ee_expectancy_r e > 0 \<and> s \<ge> th")
    case True
    then have "0 \<le> min hi (fmul (fmul (ee_expectancy_r e) m) s)" using assms by (simp add: fmul_def)
    from weighted_score [OF this min.cobounded1 assms(2)] quality_tier_weight [of "ee_effective_n e"] True show ?thesis
      by (auto simp: seasonality_score_def s_def [symmetric] Let_def split: prod.splits)
  next
    case False
    then show ?thesis using assms by (auto simp: seasonality_score_def s_def [symmetric] Let_def round2_nonneg)
  qed
qed

lemma maturity_points_bounds:
  assumes "0 \<le> hi" "fround hi = hi"
  shows "0 \<le> maturity_points hi p \<and> maturity_points hi p \<le> hi"
proof -
  have w: "0 \<le> fmul hi w \<and> fmul hi w \<le> hi" if "0 \<le> w" "w \<le> 1" for w
    using mult_left_mono [OF that(2) assms(1)] assms that by (simp add: fmul_def flt.rnd_upper)
  have "fround (2 / 5) \<le> 1" by (simp add: flt.rnd_upper fround_one)
  then show ?thesis using w assms(1) by (auto simp: maturity_points_def split: option.splits)
qed

end
