(* ===== verification/Cycle_Engine.thy ===== *)
theory Cycle_Engine
  imports Cycle_Context
begin

text \<open>
  \<open>engine/cycles/engine.py\<close>: the time cycle engine, which resolves the profile of a request,
  consolidates the session, the swing age, the macro events and the calendar, and produces the
  cycle snapshot that the timing score reads.
\<close>

section \<open>The engine\<close>

record cycle_engine =
  ce_profile :: full_profile
  ce_version :: string

definition make_cycle_engine :: "full_profile option \<Rightarrow> string \<Rightarrow> int option \<Rightarrow> cycle_engine" where
  "make_cycle_engine profile version blackout =
     \<lparr>ce_profile = (case profile of
        Some p \<Rightarrow> p
      | None \<Rightarrow> (case blackout of
          Some b \<Rightarrow> legacy_xaut_profile\<lparr>blackout_pre := Some b, blackout_post := Some b\<rparr>
        | None \<Rightarrow> legacy_xaut_profile)),
      ce_version = version\<rparr>"

text \<open>\<open>s.upper().replace("/", "")\<close>; a missing target has no \<open>upper\<close>.\<close>

definition plain_instrument :: "string \<Rightarrow> string" where
  "plain_instrument s = filter (\<lambda>c. c \<noteq> CHR ''/'') (py_upper s)"

definition target_of :: "full_profile \<Rightarrow> string result" where
  "target_of p = (case cp_target p of None \<Rightarrow> Inl AttributeError | Some t \<Rightarrow> Inr (plain_instrument t))"

definition cycle_engine_for_xauusd :: "full_profile option \<Rightarrow> string option \<Rightarrow> string \<Rightarrow> cycle_engine result" where
  "cycle_engine_for_xauusd profile timeframe version =
     (case profile of
        None \<Rightarrow> Inr (make_cycle_engine (Some (uncalibrated_xauusd_profile timeframe)) version None)
      | Some p \<Rightarrow> rbind (target_of p) (\<lambda>t.
          if t \<noteq> ''XAUUSD'' then Inl ValueError
          else if timeframe \<noteq> None \<and> cp_timeframe p \<noteq> None \<and> cp_timeframe p \<noteq> timeframe then Inl ValueError
          else Inr (make_cycle_engine (Some p) version None)))"

record cycle_request =
  cq_candle :: candle
  cq_swings :: "swing_point list"
  cq_timeframe :: string
  cq_regime :: "regime_type option"
  cq_session_table :: "(session_type \<times> regime_type \<rightharpoonup> expectancy_entry) option"
  cq_events :: "macro_event list option"
  cq_durations :: "int list option"
  cq_effective_n :: "rat option"
  cq_sample :: "sample_evaluation option"
  cq_stabilities :: "rat list option"
  cq_calendar_table :: "(string \<rightharpoonup> calendar_entry) option"
  cq_instrument :: "string option"
  cq_profile :: "full_profile option"

text \<open>The effective profile: segregation of the instruments, then the timeframe.\<close>

definition segregated_profile :: "cycle_engine \<Rightarrow> cycle_request \<Rightarrow> full_profile result" where
  "segregated_profile eng q =
     (case cq_profile q of
        Some p \<Rightarrow>
          rbind (case cq_instrument q of
                   None \<Rightarrow> Inr ()
                 | Some i \<Rightarrow> rbind (target_of p) (\<lambda>t.
                     if plain_instrument i = ''XAUUSD'' \<and> t \<noteq> ''XAUUSD'' then Inl ValueError else Inr ())) (\<lambda>_.
          rbind (target_of (ce_profile eng)) (\<lambda>own.
            if own \<noteq> ''XAUUSD'' then Inr p
            else rbind (target_of p) (\<lambda>t. if t \<noteq> ''XAUUSD'' then Inl ValueError else Inr p)))
      | None \<Rightarrow>
          (case cq_instrument q of
             None \<Rightarrow> Inr (ce_profile eng)
           | Some i \<Rightarrow>
               if plain_instrument i = ''XAUUSD''
               then rbind (target_of (ce_profile eng)) (\<lambda>own.
                 Inr (if own = ''XAUUSD'' then ce_profile eng else uncalibrated_xauusd_profile (Some (cq_timeframe q))))
               else if plain_instrument i = ''XAUT'' \<or> plain_instrument i = ''XAUTUSD''
               then rbind (target_of (ce_profile eng)) (\<lambda>own.
                 Inr (if own = ''XAUT'' then ce_profile eng else legacy_xaut_profile))
               else Inr (ce_profile eng)))"

definition effective_profile :: "cycle_engine \<Rightarrow> cycle_request \<Rightarrow> full_profile result" where
  "effective_profile eng q = rbind (segregated_profile eng q) (\<lambda>p.
     if cp_timeframe p \<noteq> None \<and> cp_timeframe p \<noteq> Some (cq_timeframe q) then Inl ValueError else Inr p)"

definition market_open_check :: "cycle_request \<Rightarrow> unit result" where
  "market_open_check q =
     (if plain_instrument (case cq_instrument q of None \<Rightarrow> [] | Some i \<Rightarrow> i) = ''XAUUSD''
      then rbind (is_expected_market_interval_closed (timestamp_open (cq_candle q)) (timestamp_close (cq_candle q))) (\<lambda>closed.
        if closed then Inl ValueError else Inr ())
      else Inr ())"

record full_snapshot = cycle_snapshot +
  cy_session :: session_context
  cy_swing :: swing_context
  cy_calendar :: calendar_context
  cy_blocked :: bool
  cy_artifact :: "string option"

text \<open>The clear market bonus, after the elif of the near window.\<close>

definition window_bonus :: "int option \<Rightarrow> rat option \<Rightarrow> int \<Rightarrow> rat option" where
  "window_bonus window bonus k =
     (case (window, bonus) of (Some w, Some b) \<Rightarrow> if k > w then Some b else None | _ \<Rightarrow> None)"

definition macro_clear_bonus :: "full_profile \<Rightarrow> macro_context \<Rightarrow> rat" where
  "macro_clear_bonus p m =
     (case (if is_feed_healthy m then minutes_to_next_event m else None) of
        None \<Rightarrow> 0
      | Some k \<Rightarrow>
          (case window_bonus (clear_window_far p) (clear_bonus_far p) k of
             Some b \<Rightarrow> b
           | None \<Rightarrow> (case window_bonus (clear_window_near p) (clear_bonus_near p) k of Some b \<Rightarrow> b | None \<Rightarrow> 0)))"

definition cycle_score ::
  "full_profile \<Rightarrow> session_context \<Rightarrow> swing_context \<Rightarrow> macro_context \<Rightarrow> calendar_context \<Rightarrow> rat" where
  "cycle_score p sx wx m kx =
     (if is_in_blackout m \<or> \<not> is_production_scoring_enabled p then 0
      else round2 (fadd (fadd (fadd (sx_score sx) (wx_score wx)) (kx_score kx)) (macro_clear_bonus p m)))"

definition profile_windows :: "full_profile \<Rightarrow> macro_windows" where
  "profile_windows p = \<lparr>macro_blackout_pre_minutes = blackout_pre p, macro_blackout_post_minutes = blackout_post p\<rparr>"

text \<open>The sample evaluation of the profile serves only when the call brings no evidence of its own.\<close>

definition swing_sample :: "cycle_request \<Rightarrow> full_profile \<Rightarrow> sample_evaluation option" where
  "swing_sample q p =
     (if cq_sample q = None \<and> cq_effective_n q = None \<and> is_production_scoring_enabled p
      then swing_sample_evaluation p else cq_sample q)"

text \<open>\<open>analyze\<close>. An \<open>IncompleteCandleError\<close> is a \<open>ValueError\<close>.\<close>

definition analyze_cycle :: "time_zones \<Rightarrow> cycle_engine \<Rightarrow> cycle_request \<Rightarrow> full_snapshot result" where
  "analyze_cycle tz eng q =
     (if \<not> is_closed (cq_candle q) then Inl ValueError
      else let as_of = timestamp_close (cq_candle q) in
        rbind (effective_profile eng q) (\<lambda>p.
        rbind (market_open_check q) (\<lambda>_.
        rbind (calculate_swing_duration (cq_candle q) (cq_swings q) (cq_timeframe q) (cq_durations q) (cq_effective_n q)
                 (swing_sample q p) (Some p)) (\<lambda>wx.
           let sx = classify_session tz as_of (cq_regime q) (cq_session_table q) (Some p);
               m = evaluate_macro_event_risk as_of (cq_events q) (blackout_pre p) (blackout_post p) None
                     (Some (profile_windows p)) None;
               kx = calculate_calendar_seasonality as_of (cq_stabilities q) (cq_calendar_table q) (Some p)
           in Inr \<lparr>cy_timestamp = as_of, cy_macro = Some m, cy_version = ce_version eng, cy_profile_name = cp_name p,
                cy_status = cycle_status_value (cp_status p), cy_score = cycle_score p sx wx m kx,
                cy_session = sx, cy_swing = wx, cy_calendar = kx, cy_blocked = is_in_blackout m,
                cy_artifact = details_version p\<rparr>))))"

lemmas [eval_defs] = make_cycle_engine_def plain_instrument_def target_of_def cycle_engine_for_xauusd_def
  segregated_profile_def effective_profile_def market_open_check_def window_bonus_def macro_clear_bonus_def
  cycle_score_def profile_windows_def swing_sample_def analyze_cycle_def

section \<open>What an analysis consists of\<close>

lemma analyze_cycle_Inr:
  assumes "analyze_cycle tz eng q = Inr snap"
  obtains p sx wx m kx where "effective_profile eng q = Inr p"
    "sx = classify_session tz (timestamp_close (cq_candle q)) (cq_regime q) (cq_session_table q) (Some p)"
    "calculate_swing_duration (cq_candle q) (cq_swings q) (cq_timeframe q) (cq_durations q) (cq_effective_n q) (swing_sample q p) (Some p) = Inr wx"
    "kx = calculate_calendar_seasonality (timestamp_close (cq_candle q)) (cq_stabilities q) (cq_calendar_table q) (Some p)"
    "cy_macro snap = Some m" "cy_profile_name snap = cp_name p" "cy_status snap = cycle_status_value (cp_status p)"
    "cy_score snap = cycle_score p sx wx m kx" "cy_blocked snap = is_in_blackout m"
    "is_closed (cq_candle q)" "cy_timestamp snap = timestamp_close (cq_candle q)"
proof -
  let ?t = "timestamp_close (cq_candle q)"
  let ?sx = "\<lambda>p. classify_session tz ?t (cq_regime q) (cq_session_table q) (Some p)"
    and ?m = "\<lambda>p. evaluate_macro_event_risk ?t (cq_events q) (blackout_pre p) (blackout_post p) None (Some (profile_windows p)) None"
    and ?kx = "\<lambda>p. calculate_calendar_seasonality ?t (cq_stabilities q) (cq_calendar_table q) (Some p)"
  from assms obtain p wx where e: "effective_profile eng q = Inr p" and
    w: "calculate_swing_duration (cq_candle q) (cq_swings q) (cq_timeframe q) (cq_durations q) (cq_effective_n q)
        (swing_sample q p) (Some p) = Inr wx" and
    snap: "cy_macro snap = Some (?m p)" "cy_profile_name snap = cp_name p" "cy_status snap = cycle_status_value (cp_status p)"
      "cy_score snap = cycle_score p (?sx p) wx (?m p) (?kx p)" "cy_blocked snap = is_in_blackout (?m p)"
      "is_closed (cq_candle q)" "cy_timestamp snap = ?t"
    unfolding analyze_cycle_def Let_def by (auto simp: rbind_Inr_iff split: if_split_asm)
  show ?thesis by (rule that [OF e refl w refl snap])
qed

lemma cycle_score_authority:
  "cycle_score p sx wx m kx \<noteq> 0 \<Longrightarrow> \<not> is_in_blackout m \<and> is_production_scoring_enabled p"
  by (auto simp: cycle_score_def split: if_splits)

lemma cycle_status_value_inj: "cycle_status_value a = cycle_status_value b \<longleftrightarrow> a = b"
  by (cases a; cases b) simp_all

section \<open>Evidence of the future\<close>

lemma knowable_swings_append:
  assumes "\<forall>s \<in> set later. \<not> is_confirmed s \<or> (\<exists>u. detected_at s = Aware u \<and> t < u)"
  shows "knowable_swings (Aware t) (xs @ later) = knowable_swings (Aware t) xs"
  unfolding knowable_swings_def using assms by (intro filter_result_append_False) auto

lemma swing_duration_append:
  assumes "is_closed c" "timestamp_close c = Aware t"
    and "\<forall>s \<in> set later. \<not> is_confirmed s \<or> (\<exists>u. detected_at s = Aware u \<and> t < u)"
  shows "calculate_swing_duration c (sws @ later) tf ds eff ev profile = calculate_swing_duration c sws tf ds eff ev profile"
  unfolding calculate_swing_duration_def Let_def assms(2) by (simp add: assms(1) knowable_swings_append [OF assms(3)])

lemma request_parts:
  fixes q :: cycle_request and e xs
  defines "q' \<equiv> q\<lparr>cq_swings := xs, cq_events := e\<rparr>"
  shows "effective_profile eng q' = effective_profile eng q" "market_open_check q' = market_open_check q"
    "swing_sample q' p = swing_sample q p"
  unfolding q'_def effective_profile_def segregated_profile_def market_open_check_def swing_sample_def
  by (simp_all cong: option.case_cong if_cong)

lemma redacted_option:
  "evaluate_macro_event_risk (Aware t) (map_option (map (redact t)) es) pre post both profile flag =
    evaluate_macro_event_risk (Aware t) es pre post both profile flag"
  using redacted_events [of "Aware t"] by (cases es) simp_all

section \<open>Bounds\<close>

lemma fadd_mono: "a \<le> b \<Longrightarrow> c \<le> d \<Longrightarrow> fadd a c \<le> fadd b d"
  unfolding fadd_def by (rule flt.rnd_mono) simp

lemma fadd_nonneg: "0 \<le> a \<Longrightarrow> 0 \<le> b \<Longrightarrow> 0 \<le> fadd a b"
  by (simp add: fadd_def)

text \<open>Points are non-negative floats, multipliers and thresholds are not negative.\<close>

definition float_points :: "rat option \<Rightarrow> bool" where
  "float_points x \<longleftrightarrow> 0 \<le> or_zero x \<and> fround (or_zero x) = or_zero x"

definition sane_profile :: "full_profile \<Rightarrow> bool" where
  "sane_profile p \<longleftrightarrow>
     list_all float_points [session_max_score p, swing_max_score p, calendar_max_score p, clear_bonus_far p, clear_bonus_near p] \<and>
     list_all (\<lambda>x. 0 \<le> or_zero x) [session_expectancy_multiplier p, calendar_expectancy_multiplier p, calendar_stability_threshold p]"

definition maximal_score :: "full_profile \<Rightarrow> rat" where
  "maximal_score p = round2 (fadd (fadd (fadd (round2 (or_zero (session_max_score p))) (round2 (or_zero (swing_max_score p))))
     (round2 (or_zero (calendar_max_score p)))) (max (or_zero (clear_bonus_far p)) (or_zero (clear_bonus_near p))))"

lemma session_bounds:
  assumes "sane_profile p"
  shows "0 \<le> sx_score (classify_session tz t regime table (Some p)) \<and>
    sx_score (classify_session tz t regime table (Some p)) \<le> round2 (or_zero (session_max_score p))"
proof -
  have h: "0 \<le> or_zero (session_max_score p)" "fround (or_zero (session_max_score p)) = or_zero (session_max_score p)"
    "0 \<le> or_zero (session_expectancy_multiplier p)"
    using assms by (simp_all add: sane_profile_def float_points_def)
  obtain session progress liquid where at: "session_at tz (assume_utc t) = (session, progress, liquid)"
    by (cases "session_at tz (assume_utc t)")
  show ?thesis
  proof (cases "\<exists>lo hi m tab r e. session_min_effective_n p = Some lo \<and> session_max_score p = Some hi \<and>
      session_expectancy_multiplier p = Some m \<and> or_profile table session_expectancy_table (Some p) = Some tab \<and>
      regime = Some r \<and> tab (session, r) = Some e \<and> \<not> scoring_off (Some p)")
    case True
    then obtain lo hi m tab r e where parts: "session_min_effective_n p = Some lo" "session_max_score p = Some hi"
      "session_expectancy_multiplier p = Some m" "or_profile table session_expectancy_table (Some p) = Some tab"
      "regime = Some r" "tab (session, r) = Some e" "\<not> scoring_off (Some p)" by blast
    obtain quality score where e: "expectancy_score lo hi m e = (quality, score)" by (cases "expectancy_score lo hi m e")
    have "sx_score (classify_session tz t regime table (Some p)) = score"
      unfolding classify_session_def at Let_def prod.case option.case parts e by (simp add: parts(7))
    moreover have "0 \<le> score \<and> score \<le> round2 hi"
      using expectancy_score_bounds [of hi m lo e] h by (simp add: parts e or_zero_def)
    ultimately show ?thesis by (simp add: parts(2) or_zero_def)
  next
    case False
    then have "sx_score (classify_session tz t regime table (Some p)) = 0"
      unfolding classify_session_def at Let_def prod.case option.case by (auto split: option.split)
    with h show ?thesis by (simp add: round2_nonneg)
  qed
qed

lemma calendar_bounds:
  assumes "sane_profile p"
  shows "0 \<le> kx_score (calculate_calendar_seasonality t stabilities table (Some p)) \<and>
    kx_score (calculate_calendar_seasonality t stabilities table (Some p)) \<le> round2 (or_zero (calendar_max_score p))"
proof -
  have h: "0 \<le> or_zero (calendar_max_score p)" "fround (or_zero (calendar_max_score p)) = or_zero (calendar_max_score p)"
    "0 \<le> or_zero (calendar_expectancy_multiplier p)" "0 \<le> or_zero (calendar_stability_threshold p)"
    using assms by (simp_all add: sane_profile_def float_points_def)
  show ?thesis
  proof (cases "\<exists>lo th hi m tab e. calendar_min_effective_n p = Some lo \<and> calendar_stability_threshold p = Some th \<and>
      calendar_max_score p = Some hi \<and> calendar_expectancy_multiplier p = Some m \<and>
      or_profile table calendar_effect_table (Some p) = Some tab \<and> tab (calendar_bucket_key t) = Some e \<and> \<not> scoring_off (Some p)")
    case True
    then obtain lo th hi m tab e where parts: "calendar_min_effective_n p = Some lo" "calendar_stability_threshold p = Some th"
      "calendar_max_score p = Some hi" "calendar_expectancy_multiplier p = Some m"
      "or_profile table calendar_effect_table (Some p) = Some tab" "tab (calendar_bucket_key t) = Some e"
      "\<not> scoring_off (Some p)" by blast
    obtain quality score where e: "seasonality_score lo th hi m (fold_stability stabilities) e = (quality, score)"
      by (cases "seasonality_score lo th hi m (fold_stability stabilities) e")
    have "kx_score (calculate_calendar_seasonality t stabilities table (Some p)) = score"
      unfolding calculate_calendar_seasonality_def Let_def prod.case option.case parts e by (simp add: parts(7))
    moreover have "0 \<le> score \<and> score \<le> round2 hi"
      using seasonality_score_bounds [of hi m th lo "fold_stability stabilities" e] h by (simp add: parts e or_zero_def)
    ultimately show ?thesis by (simp add: parts(3) or_zero_def)
  next
    case False
    then have "kx_score (calculate_calendar_seasonality t stabilities table (Some p)) = 0"
      unfolding calculate_calendar_seasonality_def Let_def prod.case option.case by (auto split: option.split)
    with h show ?thesis by (simp add: round2_nonneg)
  qed
qed

lemma swing_bounds:
  assumes "sane_profile p" and "calculate_swing_duration c sws tf ds eff ev (Some p) = Inr x"
  shows "0 \<le> wx_score x \<and> wx_score x \<le> round2 (or_zero (swing_max_score p))"
proof -
  have h: "0 \<le> or_zero (swing_max_score p)" "fround (or_zero (swing_max_score p)) = or_zero (swing_max_score p)"
    using assms(1) by (simp_all add: sane_profile_def float_points_def)
  from swing_score_cases [OF assms(2)] show ?thesis
  proof (elim disjE conjE exE)
    fix lo hi pc
    assume t: "swing_thresholds (Some p) = Some (lo, hi)"
      and s: "wx_score x = round2 (fmul (maturity_points hi pc) (snd (quality_tier (wx_effective_n x))))"
    from t have hi: "or_zero (swing_max_score p) = hi"
      by (auto simp: swing_thresholds_def or_zero_def split: option.splits)
    have "0 \<le> maturity_points hi pc \<and> maturity_points hi pc \<le> hi" using h unfolding hi by (rule maturity_points_bounds)
    then show ?thesis
      unfolding s hi using h quality_tier_weight [of "wx_effective_n x"] hi by (intro weighted_score) simp_all
  qed (use h in \<open>simp add: round2_nonneg\<close>)
qed

lemma bonus_bounds:
  assumes "sane_profile p"
  shows "0 \<le> macro_clear_bonus p m \<and> macro_clear_bonus p m \<le> max (or_zero (clear_bonus_far p)) (or_zero (clear_bonus_near p))"
proof -
  have h: "0 \<le> or_zero (clear_bonus_far p)" "0 \<le> or_zero (clear_bonus_near p)"
    using assms by (simp_all add: sane_profile_def float_points_def)
  have w: "window_bonus w b k = Some x \<Longrightarrow> x = or_zero b" for w b k x
    by (auto simp: window_bonus_def or_zero_def split: option.splits if_splits)
  show ?thesis unfolding macro_clear_bonus_def using h by (auto dest!: w split: option.split)
qed

section \<open>Properties\<close>

text \<open>
  C28. The cycle reaches the timing of a signal only with authority: when a snapshot of the engine
  contributes to the timing score at all, the profile in force was frozen for production, it is
  the profile the signal names, and no macro event blocks the market.
\<close>

theorem cycle_contributes_only_with_authority:
  assumes "analyze_cycle tz eng q = Inr snap"
    and "extract_xauusd_phase3a_score (Some (cycle_snapshot.truncate snap)) (Some cp) points timeframe \<noteq> 0"
  shows "\<exists>p. effective_profile eng q = Inr p \<and> cp_status p = CY_PRODUCTION_FROZEN \<and> cp_name p = cp_name cp \<and>
    \<not> cy_blocked snap \<and> normalize_xauusd_target (cp_target cp) = Inr ''XAUUSD''"
proof -
  from assms(2) have auth: "cycle_authority (cycle_snapshot.truncate snap) cp timeframe"
    and s: "clamp_score points (cy_score snap) \<noteq> 0"
    by (auto simp: extract_xauusd_phase3a_score_def cycle_snapshot.defs split: if_splits)
  from s have "cy_score snap \<noteq> 0" by (auto simp: clamp_score_def)
  moreover from analyze_cycle_Inr [OF assms(1)] obtain p sx wx m kx where a: "effective_profile eng q = Inr p"
    "cy_profile_name snap = cp_name p" "cy_status snap = cycle_status_value (cp_status p)"
    "cy_score snap = cycle_score p sx wx m kx" "cy_blocked snap = is_in_blackout m" by metis
  ultimately show ?thesis
    using cycle_score_authority [of p sx wx m kx] a auth
    by (auto simp: cycle_authority_def cycle_snapshot.defs cycle_status_value_inj)
qed

text \<open>
  C27. The cycle analysis is point in time: swings that are not confirmed, or that are confirmed
  only after the close of the analysed candle, and everything about macro events that is
  published later, can be added or erased without changing the snapshot.
\<close>

theorem cycle_analysis_point_in_time:
  assumes "timestamp_close (cq_candle q) = Aware t"
    and "\<forall>s \<in> set later. \<not> is_confirmed s \<or> (\<exists>u. detected_at s = Aware u \<and> t < u)"
  shows "analyze_cycle tz eng (q\<lparr>cq_swings := cq_swings q @ later, cq_events := map_option (map (redact t)) (cq_events q)\<rparr>) =
    analyze_cycle tz eng q"
proof (cases "is_closed (cq_candle q)")
  case True
  show ?thesis
    unfolding analyze_cycle_def request_parts
    by (simp add: assms(1) swing_duration_append [OF True assms] redacted_option)
qed (simp add: analyze_cycle_def)

text \<open>
  The cycle score is bounded by the points of the profile in force: for a profile with
  non-negative points and multipliers it is not negative and at most the rounded sum of the
  maxima of session, swing, calendar and macro bonus.
\<close>

theorem cycle_score_bounds:
  assumes "analyze_cycle tz eng q = Inr snap" and "effective_profile eng q = Inr p" and "sane_profile p"
  shows "0 \<le> cy_score snap \<and> cy_score snap \<le> maximal_score p"
proof -
  from analyze_cycle_Inr [OF assms(1)] obtain p' sx wx m kx where a: "effective_profile eng q = Inr p'"
    "sx = classify_session tz (timestamp_close (cq_candle q)) (cq_regime q) (cq_session_table q) (Some p')"
    "calculate_swing_duration (cq_candle q) (cq_swings q) (cq_timeframe q) (cq_durations q) (cq_effective_n q)
       (swing_sample q p') (Some p') = Inr wx"
    "kx = calculate_calendar_seasonality (timestamp_close (cq_candle q)) (cq_stabilities q) (cq_calendar_table q) (Some p')"
    "cy_score snap = cycle_score p' sx wx m kx" by metis
  from a(1) assms(2) have p: "p' = p" by simp
  note b = session_bounds [OF assms(3), of tz "timestamp_close (cq_candle q)" "cq_regime q" "cq_session_table q", folded a(2) [unfolded p]]
    swing_bounds [OF assms(3) a(3) [unfolded p]]
    calendar_bounds [OF assms(3), of "timestamp_close (cq_candle q)" "cq_stabilities q" "cq_calendar_table q", folded a(4) [unfolded p]]
    bonus_bounds [OF assms(3), of m]
  have "cycle_score p sx wx m kx \<le> maximal_score p" if "\<not> is_in_blackout m \<and> is_production_scoring_enabled p"
    unfolding cycle_score_def maximal_score_def using that b by (auto intro!: round2_mono fadd_mono)
  moreover have "0 \<le> maximal_score p"
    unfolding maximal_score_def using b assms(3)
    by (intro round2_nonneg fadd_nonneg) (auto simp: sane_profile_def float_points_def)
  ultimately show ?thesis
    unfolding a(5) p using b by (auto simp: cycle_score_def intro!: round2_nonneg fadd_nonneg split: if_splits)
qed

lemma session_asia:
  "fst (session_at tz u) = ASIA \<longleftrightarrow>
     \<not> (clock_time 13 0 \<le> local_time tz LONDON u \<and> local_time tz LONDON u < clock_time 16 30 \<and>
        clock_time 8 0 \<le> local_time tz NEW_YORK_CITY u \<and> local_time tz NEW_YORK_CITY u < clock_time 11 30) \<and>
     \<not> (clock_time 7 0 \<le> local_time tz LONDON u \<and> local_time tz LONDON u < clock_time 13 0) \<and>
     \<not> (clock_time 11 30 \<le> local_time tz NEW_YORK_CITY u \<and> local_time tz NEW_YORK_CITY u < clock_time 20 0)"
proof -
  have m: "clock_time 7 0 < clock_time 8 0" "clock_time 8 0 < clock_time 13 0" "clock_time 11 30 < clock_time 17 0"
    "clock_time 17 0 < clock_time 20 0" by (simp_all add: clock_time_def time_units)
  then show ?thesis unfolding session_at_def Let_def in_range_def by (simp split: if_split) linarith
qed

text \<open>
  Daylight saving never opens a gap in the trading day: whether New York is four or five hours
  behind London, an instant counts as the Asian session exactly when it is before the London
  pre-open or after 20:00 in New York; and the progress of a session is a percentage.
\<close>

theorem session_day_has_no_gap:
  assumes "tz NEW_YORK_CITY u = tz LONDON u - k * hour" and "k = 4 \<or> k = 5"
  shows "(fst (session_at tz u) = ASIA \<longleftrightarrow>
      local_time tz NEW_YORK_CITY u < (7 - k) * hour \<or> 20 * hour \<le> local_time tz NEW_YORK_CITY u) \<and>
    0 \<le> fst (snd (session_at tz u)) \<and> fst (snd (session_at tz u)) \<le> 100"
proof -
  define n where "n = local_time tz NEW_YORK_CITY u"
  have n: "0 \<le> n" "n < 24 * hour" by (simp_all add: n_def local_time_def time_units)
  have "local_time tz LONDON u = (n + k * hour) mod day"
    using assms(1) by (simp add: n_def local_time_def mod_simps algebra_simps)
  also have "\<dots> = (if n + k * hour < 24 * hour then n + k * hour else n + k * hour - 24 * hour)"
  proof (cases "n + k * hour < 24 * hour")
    case True
    then show ?thesis using n assms(2) by (auto simp: day_def hour_def minute_def second_def)
  next
    case False
    have "(n + k * hour) mod day = (n + k * hour - day) mod day" by simp
    also have "\<dots> = n + k * hour - day"
      using False n assms(2) by (intro mod_pos_pos_trivial) (auto simp: time_units)
    finally show ?thesis using False by (simp add: day_def)
  qed
  finally have l: "local_time tz LONDON u = (if n + k * hour < 24 * hour then n + k * hour else n + k * hour - 24 * hour)" .
  have "fst (session_at tz u) = ASIA \<longleftrightarrow> n < (7 - k) * hour \<or> 20 * hour \<le> n"
  proof -
    have h: "hour = 3600000000" "clock_time 7 0 = 25200000000" "clock_time 8 0 = 28800000000" "clock_time 13 0 = 46800000000"
      "clock_time 16 30 = 59400000000" "clock_time 11 30 = 41400000000" "clock_time 20 0 = 72000000000"
      by (simp_all add: clock_time_def time_units)
    show ?thesis
      unfolding session_asia l n_def [symmetric] h using n [unfolded h] assms(2) by (elim disjE; simp split: if_split; linarith)
  qed
  moreover have "0 \<le> calc_progress t a b \<and> calc_progress t a b \<le> 100" for t a b
    using clamp_score_bounds by (simp add: calc_progress_def Let_def)
  then have "0 \<le> fst (snd (session_at tz u)) \<and> fst (snd (session_at tz u)) \<le> 100"
    by (simp add: session_at_def Let_def)
  ultimately show ?thesis unfolding n_def by blast
qed

section \<open>Witnesses\<close>

definition winter :: time_zones where
  "winter center u = (case center of LONDON \<Rightarrow> 0 | NEW_YORK_CITY \<Rightarrow> - 5 * hour | TOKYO \<Rightarrow> 9 * hour)"

theorem session_day_has_no_gap_witness:
  "fst (session_at winter (12 * hour + 1800 * second)) \<noteq> ASIA"
  using session_day_has_no_gap [of winter "12 * hour + 1800 * second" 5]
  by (simp add: winter_def local_time_def time_units)

text \<open>A frozen gold profile that only knows the session, and a bar of Thursday, 12:00 to 12:15.\<close>

definition gold_profile :: full_profile where
  "gold_profile = (uncalibrated_xauusd_profile (Some ''15m''))\<lparr>cp_name := ''GOLD'', cp_status := CY_PRODUCTION_FROZEN,
     session_max_score := Some 15, session_min_effective_n := Some 30, session_expectancy_multiplier := Some 30,
     session_expectancy_table := Some [(LONDON_SESSION, BULL_TREND) \<mapsto>
       \<lparr>ee_effective_n = 100, ee_expectancy_r = 1, ee_significant = True\<rparr>]\<rparr>"

definition gold_request :: cycle_request where
  "gold_request = \<lparr>cq_candle = bar_at (12 * 3600) (12 * 3600 + 900) 100 101 99 100, cq_swings = [], cq_timeframe = ''15m'',
     cq_regime = Some BULL_TREND, cq_session_table = None, cq_events = None, cq_durations = None, cq_effective_n = None,
     cq_sample = None, cq_stabilities = None, cq_calendar_table = None, cq_instrument = None, cq_profile = None\<rparr>"

definition gold_engine :: cycle_engine where
  "gold_engine = make_cycle_engine (Some gold_profile) ''3.0.0-3A'' None"

lemma gold_effective: "effective_profile gold_engine gold_request = Inr gold_profile"
  by (simp add: effective_profile_def segregated_profile_def gold_request_def gold_engine_def make_cycle_engine_def gold_profile_def
      uncalibrated_xauusd_profile_def)

lemma gold_session:
  "sx_score (classify_session winter (Aware (44100 * second)) (Some BULL_TREND) None (Some gold_profile)) = 15"
proof -
  have "fst (session_at winter (44100 * second)) = LONDON_SESSION"
    by (simp add: session_at_def winter_def local_time_def in_range_def clock_time_def time_units Let_def)
  then obtain x y where at: "session_at winter (44100 * second) = (LONDON_SESSION, x, y)"
    by (cases "session_at winter (44100 * second)") auto
  have "expectancy_score 30 15 30 \<lparr>ee_effective_n = 100, ee_expectancy_r = 1, ee_significant = True\<rparr> = (HIGH_SAMPLE, 15)"
    by (simp add: expectancy_score_def quality_tier_def fmul_def round2_def rhe_def fround_eval)
  then show ?thesis
    unfolding classify_session_def assume_utc.simps at
    by (simp add: gold_profile_def uncalibrated_xauusd_profile_def scoring_off_def is_production_scoring_enabled_def or_profile_def)
qed

lemma gold_analysis:
  "\<exists>snap. analyze_cycle winter gold_engine gold_request = Inr snap \<and> cy_score snap = 15 \<and>
     cy_profile_name snap = ''GOLD'' \<and> cy_status snap = ''PRODUCTION_FROZEN''"
proof -
  have c: "is_closed (cq_candle gold_request)" "timestamp_close (cq_candle gold_request) = Aware (44100 * second)"
    "cq_swings gold_request = []" "cq_timeframe gold_request = ''15m''" "cq_events gold_request = None"
    "cq_stabilities gold_request = None" "cq_calendar_table gold_request = None" "cq_regime gold_request = Some BULL_TREND"
    "cq_session_table gold_request = None"
    by (simp_all add: gold_request_def bar_at_def)
  have m: "market_open_check gold_request = Inr ()"
    by (simp add: market_open_check_def gold_request_def plain_instrument_def py_upper_def)
  have "timeframe_to_seconds ''15m'' = Inr 900"
    by (simp add: timeframe_to_seconds_def allowed_timeframes_def py_lower_def py_strip_def py_space_def)
  then obtain wx where w: "calculate_swing_duration (cq_candle gold_request) [] ''15m'' (cq_durations gold_request)
      (cq_effective_n gold_request) (swing_sample gold_request gold_profile) (Some gold_profile) = Inr wx" "wx_score wx = 0"
    by (simp add: calculate_swing_duration_def knowable_swings_def Let_def)
  have k: "kx_score (calculate_calendar_seasonality t None None (Some gold_profile)) = 0" for t
    by (simp add: calculate_calendar_seasonality_def gold_profile_def uncalibrated_xauusd_profile_def Let_def)
  have p: "is_production_scoring_enabled gold_profile" "cp_name gold_profile = ''GOLD''" "cp_status gold_profile = CY_PRODUCTION_FROZEN"
    by (simp_all add: gold_profile_def is_production_scoring_enabled_def uncalibrated_xauusd_profile_def)
  have "fadd 15 0 = 15" "round2 15 = 15" by (simp_all add: fadd_def round2_def rhe_def fround_eval)
  then show ?thesis
    unfolding analyze_cycle_def gold_effective rbind_simps m Let_def c w(1)
    by (simp add: c(1) gold_session w(2) k p cycle_score_def evaluate_macro_event_risk_def macro_clear_bonus_def)
qed

theorem cycle_contributes_only_with_authority_witness:
  "\<exists>snap p. analyze_cycle winter gold_engine gold_request = Inr snap \<and>
     extract_xauusd_phase3a_score (Some (cycle_snapshot.truncate snap)) (Some (cycle_profile.truncate gold_profile)) 100 ''15m'' \<noteq> 0 \<and>
     effective_profile gold_engine gold_request = Inr p \<and> cp_status p = CY_PRODUCTION_FROZEN"
proof -
  from gold_analysis obtain snap where s: "analyze_cycle winter gold_engine gold_request = Inr snap" "cy_score snap = 15"
    "cy_profile_name snap = ''GOLD''" "cy_status snap = ''PRODUCTION_FROZEN''" by blast
  have "cycle_authority (cycle_snapshot.truncate snap) (cycle_profile.truncate gold_profile) ''15m''"
    using s(3,4) by (simp add: cycle_authority_def cycle_snapshot.defs cycle_profile.defs gold_profile_def
        uncalibrated_xauusd_profile_def normalize_xauusd_target_def py_upper_def py_upper_char_def py_strip_def py_space_def)
  moreover have "clamp_score 100 15 = 15" by (simp add: clamp_score_def round2_def rhe_def fround_eval)
  ultimately have e: "extract_xauusd_phase3a_score (Some (cycle_snapshot.truncate snap)) (Some (cycle_profile.truncate gold_profile))
      100 ''15m'' \<noteq> 0" using s(2) by (simp add: extract_xauusd_phase3a_score_def cycle_snapshot.defs)
  from cycle_contributes_only_with_authority [OF s(1) e] s(1) e show ?thesis by blast
qed

theorem cycle_score_bounds_witness:
  "\<exists>snap. analyze_cycle winter gold_engine gold_request = Inr snap \<and> cy_score snap = 15 \<and> cy_score snap \<le> maximal_score gold_profile"
proof -
  from gold_analysis obtain snap where s: "analyze_cycle winter gold_engine gold_request = Inr snap" "cy_score snap = 15" by blast
  have "sane_profile gold_profile"
    by (simp add: sane_profile_def float_points_def or_zero_def gold_profile_def uncalibrated_xauusd_profile_def fround_eval)
  from cycle_score_bounds [OF s(1) gold_effective this] s show ?thesis by blast
qed

definition late_swing :: swing_point where
  "late_swing = \<lparr>sw_index = 0, sw_timestamp = Aware 0, detected_at = Aware (44101 * second), sw_price = 100,
     swing_kind = SWING_HIGH, is_confirmed = True\<rparr>"

theorem cycle_analysis_point_in_time_witness:
  "\<exists>snap. analyze_cycle winter gold_engine (gold_request\<lparr>cq_swings := [late_swing], cq_events := None\<rparr>) = Inr snap \<and> cy_score snap = 15"
proof -
  have "timestamp_close (cq_candle gold_request) = Aware (44100 * second)" by (simp add: gold_request_def bar_at_def)
  moreover have "\<forall>s \<in> set [late_swing]. \<not> is_confirmed s \<or> (\<exists>u. detected_at s = Aware u \<and> 44100 * second < u)"
    by (simp add: late_swing_def second_def)
  moreover have "cq_swings gold_request = []" "cq_events gold_request = None" by (simp_all add: gold_request_def)
  ultimately show ?thesis
    using cycle_analysis_point_in_time [of gold_request "44100 * second" "[late_swing]" winter gold_engine] gold_analysis by auto
qed

end
