(* ===== verification/Macro_Vintages.thy ===== *)
theory Macro_Vintages
  imports Macro_Events
begin

text \<open>
  \<open>apps/market_data/macro/replay.py\<close>: the macro events as they were known at a time, resolved from
  the append-only tables of schedule and observation vintages. Times are UTC instants, the rendering
  of a stored decimal is the parameter \<open>dec_text\<close>. Of one event and period no two schedule vintages
  are known at the same time and no two observations have one revision number (unique constraints
  of the tables).
\<close>

section \<open>The tables\<close>

record macro_identity =
  mi_family :: string
  mi_name :: string
  mi_impact :: string

datatype schedule_status = SCHEDULED | RESCHEDULED | CANCELLED

record schedule_vintage =
  sv_event :: string
  sv_period :: string
  sv_scheduled :: int
  sv_status :: schedule_status
  sv_known :: int

datatype publication_status =
  PUBLISHED | PUBLISHED_LATE_OR_BUNDLED | OFFICIALLY_NOT_PUBLISHED | MISSING_UNEXPLAINED | INVALID_PUBLICATION

record observation_vintage =
  ov_event :: string
  ov_period :: string
  ov_revision :: int
  ov_scheduled :: "int option"
  ov_published :: "int option"
  ov_known :: int
  ov_raw :: string
  ov_level :: "rat option"
  ov_change :: "rat option"
  ov_status :: publication_status

section \<open>Resolution\<close>

text \<open>\<open>getattr(EventImpact, impact, EventImpact.HIGH)\<close>.\<close>

definition impact_of :: "string \<Rightarrow> event_impact" where
  "impact_of s = (if s = ''MEDIUM'' then IMPACT_MEDIUM else if s = ''LOW'' then IMPACT_LOW else IMPACT_HIGH)"

definition known_schedule :: "(string \<Rightarrow> macro_identity) \<Rightarrow> string list option \<Rightarrow> int \<Rightarrow> schedule_vintage \<Rightarrow> bool" where
  "known_schedule idents families t v \<longleftrightarrow> sv_known v \<le> t \<and>
     (case families of None \<Rightarrow> True | Some fs \<Rightarrow> fs = [] \<or> mi_family (idents (sv_event v)) \<in> set fs)"

definition schedule_key :: "schedule_vintage \<Rightarrow> string \<times> string" where
  "schedule_key v = (sv_event v, sv_period v)"

text \<open>The schedule known last, for each event and period, in the order of the keys.\<close>

definition latest_schedules :: "schedule_vintage list \<Rightarrow> schedule_vintage list" where
  "latest_schedules vs =
     map (\<lambda>k. the (first_sorted (\<lambda>v. - sv_known v) (filter (\<lambda>v. schedule_key v = k) vs)))
       (sort (remdups (map schedule_key vs)))"

definition known_observation :: "int \<Rightarrow> observation_vintage \<Rightarrow> bool" where
  "known_observation t ob \<longleftrightarrow> ov_known ob \<le> t \<and> (case ov_published ob of None \<Rightarrow> False | Some u \<Rightarrow> u \<le> t)"

definition observations_of :: "int \<Rightarrow> schedule_vintage \<Rightarrow> observation_vintage list \<Rightarrow> observation_vintage list" where
  "observations_of t v obs =
     sort_key ov_revision (filter (\<lambda>ob. ov_event ob = sv_event v \<and> ov_period ob = sv_period v \<and> known_observation t ob) obs)"

definition numeric_observation :: "observation_vintage \<Rightarrow> bool" where
  "numeric_observation ob \<longleftrightarrow> ov_status ob \<noteq> OFFICIALLY_NOT_PUBLISHED \<and>
     (ov_level ob \<noteq> None \<or> ov_change ob \<noteq> None \<or> (ov_raw ob \<noteq> [] \<and> ov_raw ob \<noteq> ''OFFICIALLY_NOT_PUBLISHED''))"

definition observed_value :: "(rat \<Rightarrow> string) \<Rightarrow> observation_vintage \<Rightarrow> string" where
  "observed_value dec_text ob =
     (if ov_raw ob \<noteq> [] then ov_raw ob
      else (case ov_change ob of Some x \<Rightarrow> dec_text x
            | None \<Rightarrow> (case ov_level ob of Some x \<Rightarrow> dec_text x | None \<Rightarrow> ''None'')))"

text \<open>\<open>source_published_at or known_at\<close>.\<close>

definition observed_at :: "observation_vintage \<Rightarrow> int" where
  "observed_at ob = (case ov_published ob of Some u \<Rightarrow> u | None \<Rightarrow> ov_known ob)"

definition resolve_schedule ::
  "(rat \<Rightarrow> string) \<Rightarrow> (string \<Rightarrow> macro_identity) \<Rightarrow> int \<Rightarrow> observation_vintage list \<Rightarrow> schedule_vintage \<Rightarrow> macro_event option" where
  "resolve_schedule dec_text idents t obs v =
     (let ident = idents (sv_event v);
          plain = \<lparr>ev_id = sv_event v @ ''_'' @ sv_period v, ev_name = mi_name ident @ '' ('' @ sv_period v @ '')'',
                    scheduled_at = Aware (sv_scheduled v), released_at = None, initial_value = None, revised_at = None,
                    revised_value = None, ev_impact = impact_of (mi_impact ident)\<rparr>
      in case filter numeric_observation (observations_of t v obs) of
           [] \<Rightarrow> if sv_status v = CANCELLED then None else Some plain
         | ob # rest \<Rightarrow>
             Some (plain\<lparr>scheduled_at := Aware (if sv_status v = CANCELLED
                            then (case ov_scheduled ob of Some u \<Rightarrow> u | None \<Rightarrow> sv_scheduled v) else sv_scheduled v),
               released_at := Some (Aware (observed_at ob)), initial_value := Some (observed_value dec_text ob),
               revised_at := (if rest = [] then None else Some (Aware (observed_at (last rest)))),
               revised_value := (if rest = [] then None else Some (observed_value dec_text (last rest)))\<rparr>))"

definition resolve_macro_events_as_of ::
  "(rat \<Rightarrow> string) \<Rightarrow> (string \<Rightarrow> macro_identity) \<Rightarrow> schedule_vintage list \<Rightarrow> observation_vintage list \<Rightarrow>
    string list option \<Rightarrow> datetime \<Rightarrow> macro_event list" where
  "resolve_macro_events_as_of dec_text idents schedules obs families as_of =
     (let t = assume_utc as_of in
      sort_key (\<lambda>e. (instant (scheduled_at e), ev_id e))
        (List.map_filter (resolve_schedule dec_text idents t obs)
           (latest_schedules (filter (known_schedule idents families t) schedules))))"

lemmas [eval_defs] = impact_of_def known_schedule_def schedule_key_def latest_schedules_def known_observation_def
  observations_of_def numeric_observation_def observed_value_def observed_at_def resolve_schedule_def
  resolve_macro_events_as_of_def

section \<open>Properties\<close>

lemma observations_known: "observations_of t v (filter (known_observation t) obs) = observations_of t v obs"
  by (simp add: observations_of_def conj_commute conj_left_commute)

lemma resolve_known: "resolve_schedule dec_text idents t (filter (known_observation t) obs) v = resolve_schedule dec_text idents t obs v"
  by (simp add: resolve_schedule_def observations_known)

lemma observed_by:
  assumes "ob \<in> set (filter numeric_observation (observations_of t v obs))"
  shows "ob \<in> set obs \<and> numeric_observation ob \<and> observed_at ob \<le> t \<and> ov_event ob = sv_event v \<and> ov_period ob = sv_period v"
  using assms by (auto simp: observations_of_def known_observation_def observed_at_def split: option.splits)

lemma latest_schedule_of:
  assumes "v \<in> set (latest_schedules vs)"
  shows "v \<in> set vs \<and> (\<forall>w \<in> set vs. schedule_key w = schedule_key v \<longrightarrow> sv_known w \<le> sv_known v)"
proof -
  from assms obtain k where k: "k \<in> schedule_key ` set vs"
    and v: "v = the (first_sorted (\<lambda>v. - sv_known v) (filter (\<lambda>v. schedule_key v = k) vs))"
    by (auto simp: latest_schedules_def)
  from k obtain w where "first_sorted (\<lambda>v. - sv_known v) (filter (\<lambda>v. schedule_key v = k) vs) = Some w"
    by (cases "first_sorted (\<lambda>v. - sv_known v) (filter (\<lambda>v. schedule_key v = k) vs)") (auto simp: filter_empty_conv)
  with first_sorted_least [OF this] v show ?thesis by auto
qed

lemma latest_schedule_exists:
  assumes "w \<in> set vs"
  shows "\<exists>v \<in> set (latest_schedules vs). schedule_key v = schedule_key w"
proof -
  from assms obtain v where f: "first_sorted (\<lambda>v. - sv_known v) (filter (\<lambda>v. schedule_key v = schedule_key w) vs) = Some v"
    by (cases "first_sorted (\<lambda>v. - sv_known v) (filter (\<lambda>v. schedule_key v = schedule_key w) vs)") (auto simp: filter_empty_conv)
  with first_sorted_least [OF f] assms show ?thesis by (force simp: latest_schedules_def)
qed

lemma resolve_schedule_Some:
  assumes "resolve_schedule dec_text idents t obs v = Some e"
  shows "ev_id e = sv_event v @ ''_'' @ sv_period v \<and> (\<forall>u. released_at e = Some u \<longrightarrow> instant u \<le> t) \<and>
    (\<forall>u. revised_at e = Some u \<longrightarrow> instant u \<le> t) \<and> (sv_status v = CANCELLED \<longrightarrow> released_at e \<noteq> None) \<and>
    (sv_status v \<noteq> CANCELLED \<longrightarrow> scheduled_at e = Aware (sv_scheduled v))"
proof (cases "filter numeric_observation (observations_of t v obs)")
  case Nil
  with assms show ?thesis by (auto simp: resolve_schedule_def Let_def split: if_splits)
next
  case (Cons ob rest)
  have "observed_at x \<le> t" if "x \<in> set (ob # rest)" for x
    using observed_by [of x t v obs] that by (simp add: Cons)
  moreover have "last rest \<in> set (ob # rest)" if "rest \<noteq> []" using that by simp
  ultimately show ?thesis using assms by (auto simp: resolve_schedule_def Let_def Cons split: if_splits)
qed

text \<open>
  C21. The macro evidence is resolved point in time: vintages of schedules known later and
  observations known or published later change nothing, wherever they are inserted, and no event
  carries a release or a revision after the time asked for.
\<close>

theorem macro_events_point_in_time:
  assumes "t = assume_utc as_of"
    and "filter (\<lambda>v. sv_known v \<le> t) schedules' = filter (\<lambda>v. sv_known v \<le> t) schedules"
    and "filter (known_observation t) obs' = filter (known_observation t) obs"
  shows "resolve_macro_events_as_of dec_text idents schedules' obs' families as_of =
      resolve_macro_events_as_of dec_text idents schedules obs families as_of \<and>
    (\<forall>e \<in> set (resolve_macro_events_as_of dec_text idents schedules obs families as_of).
       \<forall>u. released_at e = Some u \<or> revised_at e = Some u \<longrightarrow> instant u \<le> t)"
proof
  have f: "filter (known_schedule idents families t) vs =
      filter (\<lambda>v. case families of None \<Rightarrow> True | Some fs \<Rightarrow> fs = [] \<or> mi_family (idents (sv_event v)) \<in> set fs)
        (filter (\<lambda>v. sv_known v \<le> t) vs)" for vs
    by (induction vs) (auto simp: known_schedule_def)
  have r: "resolve_schedule dec_text idents t obs' = resolve_schedule dec_text idents t obs"
    using resolve_known [of dec_text idents t obs'] resolve_known [of dec_text idents t obs] assms(3) by (intro ext) simp
  have g: "filter (known_schedule idents families t) schedules' = filter (known_schedule idents families t) schedules"
    by (rule trans [OF f trans [OF _ f [symmetric]]]) (simp only: assms(2))
  show "resolve_macro_events_as_of dec_text idents schedules' obs' families as_of =
      resolve_macro_events_as_of dec_text idents schedules obs families as_of"
    unfolding resolve_macro_events_as_of_def Let_def assms(1) [symmetric] r g by (rule refl)
  show "\<forall>e \<in> set (resolve_macro_events_as_of dec_text idents schedules obs families as_of).
       \<forall>u. released_at e = Some u \<or> revised_at e = Some u \<longrightarrow> instant u \<le> t"
    using resolve_schedule_Some [of dec_text idents t obs]
    by (auto simp: resolve_macro_events_as_of_def assms(1) [symmetric] Let_def map_filter_def)
qed

text \<open>
  The latest schedule counts: an event that is scheduled for a period appears once it is known,
  at the time of the schedule known last; when that schedule is a cancellation it appears only with
  a release that was published by then.
\<close>

theorem latest_schedule_governs:
  assumes "t = assume_utc as_of" and "v \<in> set schedules" and "sv_known v \<le> t"
    and "\<forall>w \<in> set schedules. schedule_key w = schedule_key v \<and> sv_known w \<le> t \<and> w \<noteq> v \<longrightarrow> sv_known w < sv_known v"
  shows "(sv_status v \<noteq> CANCELLED \<longrightarrow>
      (\<exists>e \<in> set (resolve_macro_events_as_of dec_text idents schedules obs None as_of).
         ev_id e = sv_event v @ ''_'' @ sv_period v \<and> scheduled_at e = Aware (sv_scheduled v))) \<and>
    (sv_status v = CANCELLED \<longrightarrow>
      (\<exists>e. resolve_schedule dec_text idents t obs v = Some e) = (\<exists>ob \<in> set obs. known_observation t ob \<and>
         numeric_observation ob \<and> ov_event ob = sv_event v \<and> ov_period ob = sv_period v))"
proof -
  let ?vs = "filter (known_schedule idents None t) schedules"
  have v: "v \<in> set ?vs" using assms by (simp add: known_schedule_def)
  from latest_schedule_exists [OF v] obtain w where w: "w \<in> set (latest_schedules ?vs)" "schedule_key w = schedule_key v" by blast
  from latest_schedule_of [OF w(1)] v w(2) assms(4) have "w = v" by (fastforce simp: known_schedule_def)
  with w have l: "v \<in> set (latest_schedules ?vs)" by simp
  have "\<exists>e \<in> set (resolve_macro_events_as_of dec_text idents schedules obs None as_of).
         ev_id e = sv_event v @ ''_'' @ sv_period v \<and> scheduled_at e = Aware (sv_scheduled v)" if "sv_status v \<noteq> CANCELLED"
  proof -
    from that obtain e where e: "resolve_schedule dec_text idents t obs v = Some e"
      by (cases "filter numeric_observation (observations_of t v obs)") (simp_all add: resolve_schedule_def Let_def)
    with l have "e \<in> set (resolve_macro_events_as_of dec_text idents schedules obs None as_of)"
      by (force simp: resolve_macro_events_as_of_def assms(1) [symmetric] Let_def map_filter_def)
    with resolve_schedule_Some [OF e] that show ?thesis by blast
  qed
  moreover have "(\<exists>e. resolve_schedule dec_text idents t obs v = Some e) \<longleftrightarrow> filter numeric_observation (observations_of t v obs) \<noteq> []"
    if "sv_status v = CANCELLED"
    using that by (cases "filter numeric_observation (observations_of t v obs)") (simp_all add: resolve_schedule_def Let_def)
  moreover have "filter numeric_observation (observations_of t v obs) \<noteq> [] \<longleftrightarrow> (\<exists>ob \<in> set obs. known_observation t ob \<and>
         numeric_observation ob \<and> ov_event ob = sv_event v \<and> ov_period ob = sv_period v)"
    by (auto simp: filter_empty_conv observations_of_def)
  ultimately show ?thesis by blast
qed

section \<open>Witnesses\<close>

definition cpi_schedule :: "int \<Rightarrow> int \<Rightarrow> schedule_vintage" where
  "cpi_schedule known at_us = \<lparr>sv_event = ''CPI'', sv_period = ''2026-01'', sv_scheduled = at_us, sv_status = RESCHEDULED,
     sv_known = known\<rparr>"

definition cpi_release :: observation_vintage where
  "cpi_release = \<lparr>ov_event = ''CPI'', ov_period = ''2026-01'', ov_revision = 0, ov_scheduled = None, ov_published = Some 900,
     ov_known = 901, ov_raw = ''3.1'', ov_level = None, ov_change = None, ov_status = PUBLISHED\<rparr>"

definition cpi_identity :: "string \<Rightarrow> macro_identity" where
  "cpi_identity s = \<lparr>mi_family = ''INFLATION'', mi_name = ''CPI'', mi_impact = ''HIGH''\<rparr>"

theorem macro_events_point_in_time_witness:
  "resolve_macro_events_as_of (\<lambda>_. []) cpi_identity [cpi_schedule 10 800, cpi_schedule 600 900] [cpi_release] None (Aware 500) =
   resolve_macro_events_as_of (\<lambda>_. []) cpi_identity [cpi_schedule 10 800] [] None (Aware 500)"
  using macro_events_point_in_time [of 500 "Aware 500" "[cpi_schedule 10 800, cpi_schedule 600 900]" "[cpi_schedule 10 800]"
      "[cpi_release]" "[]" "\<lambda>_. []" cpi_identity None]
  by (simp add: cpi_schedule_def cpi_release_def known_observation_def)

theorem latest_schedule_governs_witness:
  "\<exists>e \<in> set (resolve_macro_events_as_of (\<lambda>_. []) cpi_identity [cpi_schedule 10 800, cpi_schedule 600 900] [] None (Aware 700)).
     ev_id e = ''CPI_2026-01'' \<and> scheduled_at e = Aware 900"
  using latest_schedule_governs [of 700 "Aware 700" "cpi_schedule 600 900" "[cpi_schedule 10 800, cpi_schedule 600 900]"
      "\<lambda>_. []" cpi_identity "[]"]
  by (simp add: cpi_schedule_def)

end
