(* ===== verification/Live_State.thy ===== *)
theory Live_State
  imports Planner Signal_Engine Continuity Civil_Time
begin

text \<open>
  The database of the live monitor: \<open>LiveMonitorState\<close> of \<open>apps/live_monitor/models.py\<close>, the value
  objects of \<open>apps/live_monitor/types.py\<close>, and tables with unique keys. A table is the list of
  its rows in the order of their creation. How a \<open>DecimalField\<close> stores a number is the parameter
  \<open>db\<close> of the operations: maximal digits and decimal places, and a value or an error.
\<close>

section \<open>Tables with a unique key\<close>

definition find_row :: "('a \<Rightarrow> 'k) \<Rightarrow> 'k \<Rightarrow> 'a list \<Rightarrow> 'a option" where
  "find_row ident k rows = find_first (\<lambda>r. ident r = k) rows"

definition get_or_create :: "('a \<Rightarrow> 'k) \<Rightarrow> 'a \<Rightarrow> 'a list \<Rightarrow> 'a \<times> 'a list" where
  "get_or_create ident a rows =
     (case find_row ident (ident a) rows of Some r \<Rightarrow> (r, rows) | None \<Rightarrow> (a, rows @ [a]))"

text \<open>Create a row unless its key exists; the answer tells whether it is new.\<close>

definition create_if_absent :: "('a \<Rightarrow> 'k) \<Rightarrow> 'a \<Rightarrow> 'a list \<Rightarrow> 'a option \<times> 'a list" where
  "create_if_absent ident a rows =
     (case find_row ident (ident a) rows of Some r \<Rightarrow> (None, rows) | None \<Rightarrow> (Some a, rows @ [a]))"

fun post_all :: "('a \<Rightarrow> 's \<Rightarrow> 'a option \<times> 's) \<Rightarrow> 'a list \<Rightarrow> 's \<Rightarrow> 'a list \<times> 's" where
  "post_all post [] s = ([], s)"
| "post_all post (a # as) s =
     (let (made, s1) = post a s; (rest, s2) = post_all post as s1
      in (case made of Some r \<Rightarrow> r # rest | None \<Rightarrow> rest, s2))"

text \<open>
  What the services rely on: posting a known key changes nothing and reports nothing, posting a
  new key appends the row and reports it.
\<close>

locale outbox =
  fixes ident :: "'a \<Rightarrow> 'k"
    and post :: "'a \<Rightarrow> 'a list \<Rightarrow> 'a option \<times> 'a list"
  assumes post_known: "ident a \<in> ident ` set s \<Longrightarrow> post a s = (None, s)"
    and post_new: "ident a \<notin> ident ` set s \<Longrightarrow> post a s = (Some a, s @ [a])"
begin

lemma post_cases:
  obtains "ident a \<in> ident ` set s" "post a s = (None, s)" | "ident a \<notin> ident ` set s" "post a s = (Some a, s @ [a])"
  using post_known post_new by blast

lemma all_appends: "snd (post_all post as s) = s @ fst (post_all post as s)"
proof (induction as arbitrary: s)
  case (Cons a as)
  show ?case
    by (cases rule: post_cases [of a s]) (use Cons.IH [of s] Cons.IH [of "s @ [a]"] in \<open>auto split: prod.splits\<close>)
qed simp

lemma all_from_drafts: "set (fst (post_all post as s)) \<subseteq> set as"
proof (induction as arbitrary: s)
  case (Cons a as)
  show ?case
    by (cases rule: post_cases [of a s]) (use Cons.IH [of s] Cons.IH [of "s @ [a]"] in \<open>auto split: prod.splits\<close>)
qed simp

lemma all_count: "length (filter P (fst (post_all post as s))) \<le> length (filter P as)"
proof (induction as arbitrary: s)
  case (Cons a as)
  show ?case
    by (cases rule: post_cases [of a s]) (use Cons.IH [of s] Cons.IH [of "s @ [a]"] in \<open>auto split: prod.splits\<close>)
qed simp

lemma all_distinct: "distinct (map ident s) \<Longrightarrow> distinct (map ident (snd (post_all post as s)))"
proof (induction as arbitrary: s)
  case (Cons a as)
  show ?case
    by (cases rule: post_cases [of a s]) (use Cons.prems Cons.IH [of s] Cons.IH [of "s @ [a]"] in \<open>auto split: prod.splits\<close>)
qed simp

lemma all_new: "a \<in> set (fst (post_all post as s)) \<Longrightarrow> ident a \<notin> ident ` set s"
proof (induction as arbitrary: s)
  case (Cons b as)
  show ?case
    by (cases rule: post_cases [of b s]) (use Cons.prems Cons.IH [of s] Cons.IH [of "s @ [b]"] in \<open>auto split: prod.splits\<close>)
qed simp

lemma all_known: "ident ` set as \<subseteq> ident ` set s \<Longrightarrow> post_all post as s = ([], s)"
  by (induction as arbitrary: s) (simp_all add: post_known)

lemma all_covered: "ident ` set as \<subseteq> ident ` set (snd (post_all post as s))"
proof (induction as arbitrary: s)
  case (Cons a as)
  show ?case
    by (cases rule: post_cases [of a s]) (use Cons.IH [of s] Cons.IH [of "s @ [a]"] all_appends [of as s] all_appends [of as "s @ [a]"] in
        \<open>auto split: prod.splits\<close>)
qed simp

lemma all_twice: "post_all post as (snd (post_all post as s)) = ([], snd (post_all post as s))"
  by (rule all_known [OF all_covered])

end

lemma find_row_Some: "find_row ident k rows = Some r \<Longrightarrow> r \<in> set rows \<and> ident r = k"
  using find_first_Some [of "\<lambda>r. ident r = k" rows r] by (simp add: find_row_def)

lemma find_row_None: "find_row ident k rows = None \<longleftrightarrow> k \<notin> ident ` set rows"
  by (auto simp: find_row_def find_first_None)

lemma create_if_absent_laws:
  "ident a \<in> ident ` set s \<Longrightarrow> create_if_absent ident a s = (None, s)"
  "ident a \<notin> ident ` set s \<Longrightarrow> create_if_absent ident a s = (Some a, s @ [a])"
  using find_row_None [of ident "ident a" s] by (auto simp: create_if_absent_def split: option.split)

lemma get_or_create_distinct: "distinct (map ident s) \<Longrightarrow> distinct (map ident (snd (get_or_create ident a s)))"
  by (auto simp: get_or_create_def find_row_None split: option.split)

lemma get_or_create_row: "fst (get_or_create ident a s) \<in> set (snd (get_or_create ident a s)) \<and>
    ident (fst (get_or_create ident a s)) = ident a"
  by (auto simp: get_or_create_def split: option.split dest: find_row_Some)

section \<open>Stored numbers\<close>

type_synonym column = "nat \<Rightarrow> nat \<Rightarrow> rat \<Rightarrow> rat result"

definition store_opt :: "column \<Rightarrow> nat \<Rightarrow> nat \<Rightarrow> rat option \<Rightarrow> rat option result" where
  "store_opt db digs places v =
     (case v of None \<Rightarrow> Inr None | Some x \<Rightarrow> rbind (db digs places x) (\<lambda>y. Inr (Some y)))"

text \<open>The documented behaviour the theorems use: a column rounds, it keeps the order.\<close>

definition monotone_column :: "column \<Rightarrow> bool" where
  "monotone_column db \<longleftrightarrow>
     (\<forall>m k x y a b. x \<le> y \<longrightarrow> db m k x = Inr a \<longrightarrow> db m k y = Inr b \<longrightarrow> a \<le> b)"

text \<open>A number that was stored is stored again as it is.\<close>

definition stable_column :: "column \<Rightarrow> bool" where
  "stable_column db \<longleftrightarrow> (\<forall>m k x y. db m k x = Inr y \<longrightarrow> db m k y = Inr y)"

text \<open>A value of Python is true when it is neither missing nor zero nor empty.\<close>

definition truthy :: "rat option \<Rightarrow> bool" where
  "truthy v = (case v of None \<Rightarrow> False | Some x \<Rightarrow> x \<noteq> 0)"

definition text_or :: "string option \<Rightarrow> string option \<Rightarrow> string option" where
  "text_or a b = (case a of None \<Rightarrow> b | Some s \<Rightarrow> if s = [] then b else a)"

section \<open>The monitor\<close>

datatype zone_status = INSIDE_ZONE | ABOVE_ZONE | BELOW_ZONE | NO_ACTIVE_ZONE

text \<open>
  The keys of \<open>feed_health_data\<close>: the feeds as the last decision saw them, the two incident flags
  of the quote path, the reference price and the reasons of an invalid plan. The breakdown of the
  components, a copy from the signal, is left out.
\<close>

record feed_data =
  fd_primary :: "string option"
  fd_secondary :: "string option"
  fd_macro :: "string option"
  fd_sync :: "string option"
  fd_primary_15m :: "string option"
  stale_incident :: "bool option"
  unhealthy_incident :: "bool option"
  fd_reference_price :: "pynum option"
  fd_reference_time :: "datetime option"
  fd_reference_source :: "string option"
  fd_invalidation :: "plan_reason list option"

definition no_feed_data :: feed_data where
  "no_feed_data = \<lparr>fd_primary = None, fd_secondary = None, fd_macro = None, fd_sync = None, fd_primary_15m = None,
     stale_incident = None, unhealthy_incident = None, fd_reference_price = None, fd_reference_time = None,
     fd_reference_source = None, fd_invalidation = None\<rparr>"

text \<open>The decision-owned columns, then the quote-owned ones and the two shared ones.\<close>

record decision_columns =
  lm_candle_ts :: "int option"
  lm_analysis_ts :: "int option"
  lm_signal_fp :: "string option"
  lm_signal_state :: signal_state
  lm_signal_decision :: user_decision
  lm_candidate_state :: "signal_state option"
  lm_candidate_decision :: "user_decision option"
  lm_published_state :: "signal_state option"
  lm_published_decision :: "user_decision option"
  lm_long_direction :: "rat option"
  lm_short_direction :: "rat option"
  lm_long_timing :: "rat option"
  lm_short_timing :: "rat option"
  lm_plan_valid :: bool
  lm_eligible :: bool
  lm_effective_action :: user_decision
  lm_risk_side :: "risk_side option"
  lm_risk_status :: "risk_candidate_status option"
  lm_candidate_action :: "user_decision option"
  lm_publication_action :: "user_decision option"
  lm_entry_min :: "rat option"
  lm_entry_mid :: "rat option"
  lm_entry_max :: "rat option"
  lm_stop_structure :: "rat option"
  lm_stop_atr :: "rat option"
  lm_stop_final :: "rat option"
  lm_stop_distance :: "rat option"
  lm_tp1 :: "rat option"
  lm_tp2 :: "rat option"
  lm_rr1 :: "rat option"
  lm_rr2 :: "rat option"
  lm_analysis_fp :: "string option"
  lm_policy_fp :: "string option"
  lm_plan_fp :: "string option"
  lm_source_fp :: "string option"
  lm_candidate_reason :: "resolution option"
  lm_publication_reason :: "publication_reason option"
  lm_profile_name :: "string option"
  lm_calibration :: "string option"
  lm_gate_reasons :: "gate_reason list"
  lm_reasons_positive :: "component_score list"
  lm_reasons_negative :: "component_score list"
  lm_versions :: "string list"
  lm_decision_sequence :: int

record monitor_state = decision_columns +
  lm_instrument :: string
  current_bid :: "rat option"
  current_ask :: "rat option"
  lm_spread :: "rat option"
  lm_spread_pct :: "rat option"
  quote_source_ts :: "int option"
  quote_received_ts :: "int option"
  quote_age :: "rat option"
  is_quote_stale :: bool
  quote_sequence :: "int option"
  entry_zone_status :: zone_status
  zone_distance :: "rat option"
  feed_health_data :: feed_data

text \<open>A new row with the defaults of the columns.\<close>

definition blank_monitor :: "string \<Rightarrow> monitor_state" where
  "blank_monitor instrument = \<lparr>lm_candle_ts = None, lm_analysis_ts = None, lm_signal_fp = None, lm_signal_state = NO_TRADE,
     lm_signal_decision = WAIT, lm_candidate_state = None, lm_candidate_decision = None, lm_published_state = None,
     lm_published_decision = None, lm_long_direction = None, lm_short_direction = None, lm_long_timing = None,
     lm_short_timing = None, lm_plan_valid = False, lm_eligible = False, lm_effective_action = WAIT, lm_risk_side = None,
     lm_risk_status = None, lm_candidate_action = None, lm_publication_action = None, lm_entry_min = None,
     lm_entry_mid = None, lm_entry_max = None, lm_stop_structure = None, lm_stop_atr = None, lm_stop_final = None,
     lm_stop_distance = None, lm_tp1 = None, lm_tp2 = None, lm_rr1 = None, lm_rr2 = None, lm_analysis_fp = None,
     lm_policy_fp = None, lm_plan_fp = None, lm_source_fp = None, lm_candidate_reason = None,
     lm_publication_reason = None, lm_profile_name = None, lm_calibration = None, lm_gate_reasons = [],
     lm_reasons_positive = [], lm_reasons_negative = [],
     lm_versions = [''4.0.0'', ''cfg-2026-v1'', ''feat-2026-v1'', ''3.0.0-3A'', ''5.0.0'', ''15d388d1''],
     lm_decision_sequence = 0, lm_instrument = instrument, current_bid = None, current_ask = None, lm_spread = None,
     lm_spread_pct = None, quote_source_ts = None, quote_received_ts = None, quote_age = None, is_quote_stale = False,
     quote_sequence = None, entry_zone_status = NO_ACTIVE_ZONE, zone_distance = None, feed_health_data = no_feed_data\<rparr>"

text \<open>The side whose zone is watched: of the plan, else of the candidate action.\<close>

definition watched_side :: "'a decision_columns_scheme \<Rightarrow> risk_side option" where
  "watched_side st =
     (case lm_risk_side st of
        Some s \<Rightarrow> Some s
      | None \<Rightarrow> (case lm_candidate_action st of Some BUY \<Rightarrow> Some LONG | Some SELL \<Rightarrow> Some SHORT | _ \<Rightarrow> None))"

definition side_price :: "risk_side \<Rightarrow> 'p \<Rightarrow> 'p \<Rightarrow> 'p" where
  "side_price side b a = (case side of LONG \<Rightarrow> a | SHORT \<Rightarrow> b)"

text \<open>\<open>Decimal.quantize(Decimal("0.01"))\<close>.\<close>

definition quantize2 :: "rat \<Rightarrow> rat result" where
  "quantize2 x =
     (let k = rhe (x * 100)
      in if \<bar>k\<bar> < 10 ^ 28 then Inr (of_int k / 100) else Inl InvalidOperation)"

text \<open>Distance from a bound in percent. The quote path asks for a positive bound, the decision path does not.\<close>

definition zone_gap :: "bool \<Rightarrow> rat \<Rightarrow> rat \<Rightarrow> rat option result" where
  "zone_gap guarded gap bound =
     (if \<not> guarded \<or> bound > 0 then rbind (quantize2 (dmul (ddiv gap bound) 100)) (\<lambda>d. Inr (Some d)) else Inr None)"

definition read_zone :: "bool \<Rightarrow> rat \<Rightarrow> rat \<Rightarrow> rat \<Rightarrow> (zone_status \<times> rat option) result" where
  "read_zone guarded lo hi p =
     (if lo \<le> p \<and> p \<le> hi then Inr (INSIDE_ZONE, Some 0)
      else if p > hi then rbind (zone_gap guarded (dsub p hi) hi) (\<lambda>d. Inr (ABOVE_ZONE, d))
      else rbind (zone_gap guarded (dsub lo p) lo) (\<lambda>d. Inr (BELOW_ZONE, d)))"

text \<open>What a status says of a price; it survives the rounding of the columns.\<close>

definition status_sound :: "zone_status \<Rightarrow> rat \<Rightarrow> rat \<Rightarrow> rat \<Rightarrow> bool" where
  "status_sound s lo hi p =
     (case s of INSIDE_ZONE \<Rightarrow> lo \<le> p \<and> p \<le> hi | ABOVE_ZONE \<Rightarrow> hi \<le> p | BELOW_ZONE \<Rightarrow> p \<le> lo | NO_ACTIVE_ZONE \<Rightarrow> False)"

lemma read_zone_sound:
  assumes "read_zone guarded lo hi p = Inr (s, d)"
  shows "status_sound s lo hi p"
  using assms by (auto simp: read_zone_def status_sound_def rbind_Inr_iff split: if_splits)

lemma status_sound_stored:
  assumes "monotone_column db" "status_sound s lo hi p"
    and "db m k lo = Inr lo'" "db m k hi = Inr hi'" "db m k p = Inr p'"
  shows "status_sound s lo' hi' p'"
  using assms unfolding monotone_column_def by (cases s) (auto simp: status_sound_def; metis)+

text \<open>A column that rounds to its places, ties to even, and refuses what has too many digits.\<close>

definition sample_column :: column where
  "sample_column m k x =
     (let n = rhe (x * 10 ^ k) in if \<bar>n\<bar> < 10 ^ m then Inr (of_int n / 10 ^ k) else Inl InvalidOperation)"

lemma sample_column_stable: "stable_column sample_column"
  by (auto simp: stable_column_def sample_column_def Let_def rhe_def split: if_splits)

lemma sample_column_monotone: "monotone_column sample_column"
  unfolding monotone_column_def sample_column_def Let_def
  by (auto split: if_splits intro!: divide_right_mono rhe_mono mult_right_mono)

lemmas [eval_defs] = find_row_def get_or_create_def create_if_absent_def store_opt_def truthy_def text_or_def
  no_feed_data_def blank_monitor_def watched_side_def side_price_def quantize2_def zone_gap_def read_zone_def
  sample_column_def

end
