(* ===== verification/Alerts.thy ===== *)
theory Alerts
  imports Live_State
begin

text \<open>
  \<open>apps/alerts/services.py\<close>: the informational alerts of closed candles and of live quotes, which
  an outbox keeps once per event. The identifier of an event is a digest of its text, the
  parameter \<open>hash\<close>. An alert is modelled by its payload (\<open>apps/alerts/types.py\<close>), without the
  disclaimer; its delivery by the transports is not modelled.
\<close>

section \<open>Alerts\<close>

datatype alert_type =
    WATCH_LONG_CREATED | READY_LONG_ALERT | BUY_WINDOW_CANDIDATE
  | WATCH_SHORT_CREATED | READY_SHORT_ALERT | SELL_WINDOW_CANDIDATE
  | CONFLICT_ALERT | MACRO_BLACKOUT_ACTIVE | SYSTEM_SAFETY_HOLD
  | ENTRY_ZONE_REACHED | INVALIDATION_TOUCHED
  | LIVE_DATA_STALE | PROVIDER_UNHEALTHY

fun alert_type_value :: "alert_type \<Rightarrow> string" where
  "alert_type_value WATCH_LONG_CREATED = ''WATCH_LONG_CREATED''"
| "alert_type_value READY_LONG_ALERT = ''READY_LONG''"
| "alert_type_value BUY_WINDOW_CANDIDATE = ''BUY_WINDOW_CANDIDATE''"
| "alert_type_value WATCH_SHORT_CREATED = ''WATCH_SHORT_CREATED''"
| "alert_type_value READY_SHORT_ALERT = ''READY_SHORT''"
| "alert_type_value SELL_WINDOW_CANDIDATE = ''SELL_WINDOW_CANDIDATE''"
| "alert_type_value CONFLICT_ALERT = ''CONFLICT''"
| "alert_type_value MACRO_BLACKOUT_ACTIVE = ''MACRO_BLACKOUT_ACTIVE''"
| "alert_type_value SYSTEM_SAFETY_HOLD = ''SYSTEM_SAFETY_HOLD''"
| "alert_type_value ENTRY_ZONE_REACHED = ''ENTRY_ZONE_REACHED''"
| "alert_type_value INVALIDATION_TOUCHED = ''INVALIDATION_TOUCHED''"
| "alert_type_value LIVE_DATA_STALE = ''LIVE_DATA_STALE''"
| "alert_type_value PROVIDER_UNHEALTHY = ''PROVIDER_UNHEALTHY''"

record alert =
  al_id :: string
  al_type :: alert_type
  al_instrument :: string
  al_display :: string
  al_candidate_state :: signal_state
  al_candidate_decision :: user_decision
  al_published_state :: signal_state
  al_published_decision :: user_decision
  al_side :: "risk_side option"
  al_bid :: "rat option"
  al_ask :: "rat option"
  al_entry_min :: "rat option"
  al_entry_max :: "rat option"
  al_stop_final :: "rat option"
  al_tp1 :: "rat option"
  al_tp2 :: "rat option"
  al_rr1 :: "rat option"
  al_analysis_ts :: "int option"
  al_quote_ts :: "int option"
  al_analysis_fp :: "string option"
  al_plan_fp :: "string option"
  al_calibration :: string
  al_gate_reasons :: "gate_reason list"
  al_reasons :: "component_score list"

type_synonym text_hash = "string \<Rightarrow> string"

definition generate_event_id :: "text_hash \<Rightarrow> string \<Rightarrow> alert_type \<Rightarrow> string \<Rightarrow> string" where
  "generate_event_id hash instrument kind key = hash (instrument @ '':'' @ alert_type_value kind @ '':'' @ key)"

definition display_symbol :: "string \<Rightarrow> string" where
  "display_symbol instrument = (if instrument = ''XAUUSD'' then ''XAU/USD'' else instrument)"

text \<open>\<open>_create_or_get_alert\<close> and \<open>_create_or_get_quote_alert\<close> skip an event that is known.\<close>

definition create_or_get_alert :: "alert \<Rightarrow> alert list \<Rightarrow> alert option \<times> alert list" where
  "create_or_get_alert = create_if_absent al_id"

interpretation alert_box: outbox al_id create_or_get_alert
  unfolding create_or_get_alert_def by unfold_locales (simp_all add: create_if_absent_laws)

definition raise_alerts :: "alert list \<Rightarrow> alert list \<Rightarrow> alert list \<times> alert list" where
  "raise_alerts = post_all create_or_get_alert"

section \<open>Alerts of a closed candle\<close>

text \<open>The payload of a signal and its plan; \<open>fp\<close> is the analysis fingerprint.\<close>

definition candle_alert ::
  "text_hash \<Rightarrow> string \<Rightarrow> signal_decision \<Rightarrow> risk_plan option \<Rightarrow> alert_type \<Rightarrow> string \<Rightarrow> risk_side option \<Rightarrow> alert" where
  "candle_alert hash fp d plan kind key side =
     (let level = (\<lambda>f. case plan of None \<Rightarrow> None | Some p \<Rightarrow> f p)
      in \<lparr>al_id = generate_event_id hash (sd_instrument d) kind key, al_type = kind, al_instrument = sd_instrument d,
          al_display = display_symbol (sd_instrument d), al_candidate_state = cg_state (sd_candidate d),
          al_candidate_decision = cg_decision (sd_candidate d), al_published_state = sd_state d,
          al_published_decision = sd_decision d,
          al_side = (case side of Some s \<Rightarrow> Some s | None \<Rightarrow> map_option rp_side plan),
          al_bid = None, al_ask = None, al_entry_min = level entry_min, al_entry_max = level entry_max,
          al_stop_final = level stop_final, al_tp1 = level tp1, al_tp2 = level tp2, al_rr1 = level rr_tp1,
          al_analysis_ts = Some (sd_timestamp d), al_quote_ts = None, al_analysis_fp = Some fp,
          al_plan_fp = map_option risk_plan_fp plan, al_calibration = sd_calibration d,
          al_gate_reasons = ex_hard_gate (sd_explanation d),
          al_reasons = ex_long_pos (sd_explanation d) @ ex_short_pos (sd_explanation d)\<rparr>)"

text \<open>The candidate alert of a state, with its key and side.\<close>

definition candidate_event :: "string \<Rightarrow> string \<Rightarrow> signal_state \<Rightarrow> user_decision \<Rightarrow> (alert_type \<times> string \<times> risk_side option) option" where
  "candidate_event fp plan_key state decision =
     (if state = CONFLICT then Some (CONFLICT_ALERT, fp, None)
      else if state = BUY_WINDOW \<and> decision = BUY then Some (BUY_WINDOW_CANDIDATE, fp @ '':'' @ plan_key, Some LONG)
      else if state = SELL_WINDOW \<and> decision = SELL then Some (SELL_WINDOW_CANDIDATE, fp @ '':'' @ plan_key, Some SHORT)
      else if state = READY_LONG then Some (READY_LONG_ALERT, fp, Some LONG)
      else if state = READY_SHORT then Some (READY_SHORT_ALERT, fp, Some SHORT)
      else if state = WATCH_LONG then Some (WATCH_LONG_CREATED, fp, Some LONG)
      else if state = WATCH_SHORT then Some (WATCH_SHORT_CREATED, fp, Some SHORT)
      else None)"

definition closed_candle_drafts ::
  "text_hash \<Rightarrow> string \<Rightarrow> signal_decision \<Rightarrow> risk_plan option \<Rightarrow> int \<Rightarrow> alert list" where
  "closed_candle_drafts hash fp d plan now =
     (let hg = sd_hard_gate d; plan_key = (case plan of Some p \<Rightarrow> risk_plan_fp p | None \<Rightarrow> ''NO_RISK_PLAN'')
      in (if is_macro_blackout (hg_health hg) then [candle_alert hash fp d plan MACRO_BLACKOUT_ACTIVE fp None] else []) @
         (if is_blocked hg \<or> is_unclosed_candle (hg_health hg)
          then [candle_alert hash fp d plan SYSTEM_SAFETY_HOLD fp None] else []) @
         (if closed_at now then []
          else (case candidate_event fp plan_key (cg_state (sd_candidate d)) (cg_decision (sd_candidate d)) of
                  None \<Rightarrow> []
                | Some (kind, key, side) \<Rightarrow> [candle_alert hash fp d plan kind key side])))"

definition evaluate_closed_candle_alerts ::
  "text_hash \<Rightarrow> string \<Rightarrow> signal_decision \<Rightarrow> risk_plan option \<Rightarrow> int \<Rightarrow> alert list \<Rightarrow> alert list \<times> alert list" where
  "evaluate_closed_candle_alerts hash fp d plan now rows = raise_alerts (closed_candle_drafts hash fp d plan now) rows"

section \<open>Alerts of a live quote\<close>

definition quote_alert ::
  "text_hash \<Rightarrow> monitor_state \<Rightarrow> rat \<Rightarrow> rat \<Rightarrow> int \<Rightarrow> alert_type \<Rightarrow> string \<Rightarrow> risk_side option \<Rightarrow> alert" where
  "quote_alert hash st b a ts kind key side = \<lparr>
     al_id = generate_event_id hash (lm_instrument st) kind key, al_type = kind, al_instrument = lm_instrument st,
     al_display = display_symbol (lm_instrument st),
     al_candidate_state = (case lm_candidate_state st of Some s \<Rightarrow> s | None \<Rightarrow> lm_signal_state st),
     al_candidate_decision = (case lm_candidate_decision st of Some d \<Rightarrow> d | None \<Rightarrow> lm_signal_decision st),
     al_published_state = (case lm_published_state st of Some s \<Rightarrow> s | None \<Rightarrow> lm_signal_state st),
     al_published_decision = (case lm_published_decision st of Some d \<Rightarrow> d | None \<Rightarrow> WAIT),
     al_side = (case side of Some s \<Rightarrow> Some s | None \<Rightarrow> lm_risk_side st), al_bid = Some b, al_ask = Some a,
     al_entry_min = lm_entry_min st, al_entry_max = lm_entry_max st, al_stop_final = lm_stop_final st,
     al_tp1 = lm_tp1 st, al_tp2 = lm_tp2 st, al_rr1 = lm_rr1 st, al_analysis_ts = lm_candle_ts st,
     al_quote_ts = Some ts, al_analysis_fp = text_or (lm_analysis_fp st) (lm_signal_fp st), al_plan_fp = lm_plan_fp st,
     al_calibration = (case text_or (lm_calibration st) None of Some c \<Rightarrow> c | None \<Rightarrow> ''CALIBRATION_REQUIRED''),
     al_gate_reasons = lm_gate_reasons st, al_reasons = lm_reasons_positive st\<rparr>"

text \<open>\<open>int(quote_ts.timestamp())\<close> as text.\<close>

definition whole_seconds :: "int \<Rightarrow> int" where
  "whole_seconds ts = (let s = total_seconds ts in if s \<ge> 0 then \<lfloor>s\<rfloor> else \<lceil>s\<rceil>)"

definition int_text :: "int \<Rightarrow> string" where
  "int_text k = (if k < 0 then ''-'' @ digits (nat (- k)) else digits (nat k))"

text \<open>An incident opens with an alert when a condition appears, and closes when it is gone.\<close>

definition incident_drafts ::
  "text_hash \<Rightarrow> monitor_state \<Rightarrow> rat \<Rightarrow> rat \<Rightarrow> int \<Rightarrow> alert_type \<Rightarrow> string \<Rightarrow> bool \<Rightarrow> bool option \<Rightarrow> alert list" where
  "incident_drafts hash st b a ts kind prefix bad flag =
     (if bad \<and> flag \<noteq> Some True
      then [quote_alert hash st b a ts kind (prefix @ int_text (whole_seconds ts)) None] else [])"

definition incident_flag :: "bool \<Rightarrow> bool option \<Rightarrow> bool option" where
  "incident_flag bad flag =
     (if bad then (if flag = Some True then flag else Some True)
      else (if flag = Some True then Some False else flag))"

text \<open>The key of a zone alert: signal, plan and side.\<close>

definition zone_key_text :: "monitor_state \<Rightarrow> risk_side \<Rightarrow> string" where
  "zone_key_text st side =
     (case text_or (lm_signal_fp st) (text_or (lm_analysis_fp st) (Some ''P4'')) of Some s \<Rightarrow> s | None \<Rightarrow> []) @ '':'' @
     (case text_or (lm_plan_fp st) (Some ''P5'') of Some s \<Rightarrow> s | None \<Rightarrow> []) @ '':'' @ risk_side_value side"

definition invalidated :: "risk_side \<Rightarrow> rat \<Rightarrow> rat \<Rightarrow> rat \<Rightarrow> bool" where
  "invalidated side b a stop = (case side of LONG \<Rightarrow> b \<le> stop | SHORT \<Rightarrow> a \<ge> stop)"

definition zone_drafts :: "text_hash \<Rightarrow> monitor_state \<Rightarrow> rat \<Rightarrow> rat \<Rightarrow> int \<Rightarrow> bool \<Rightarrow> bool \<Rightarrow> alert list" where
  "zone_drafts hash st b a ts stale up =
     (if stale \<or> \<not> up \<or> lm_gate_reasons st \<noteq> [] then []
      else if \<not> lm_plan_valid st \<or> \<not> lm_eligible st then []
      else if \<not> truthy (lm_entry_min st) \<or> \<not> truthy (lm_entry_max st) then []
      else (case watched_side st of
              None \<Rightarrow> []
            | Some side \<Rightarrow>
                (if the (lm_entry_min st) \<le> side_price side b a \<and> side_price side b a \<le> the (lm_entry_max st)
                 then [quote_alert hash st b a ts ENTRY_ZONE_REACHED (zone_key_text st side) (Some side)] else []) @
                (if truthy (lm_stop_final st) \<and> invalidated side b a (the (lm_stop_final st))
                 then [quote_alert hash st b a ts INVALIDATION_TOUCHED (zone_key_text st side) (Some side)] else [])))"

definition evaluate_live_quote_alerts ::
  "text_hash \<Rightarrow> monitor_state \<Rightarrow> rat \<Rightarrow> rat \<Rightarrow> int \<Rightarrow> bool \<Rightarrow> bool \<Rightarrow> alert list \<Rightarrow>
    alert list \<times> monitor_state \<times> alert list" where
  "evaluate_live_quote_alerts hash st b a ts stale up rows =
     (let fd = feed_health_data st;
          drafts = incident_drafts hash st b a ts LIVE_DATA_STALE ''STALE_INCIDENT_'' stale (stale_incident fd) @
            incident_drafts hash st b a ts PROVIDER_UNHEALTHY ''UNHEALTHY_INCIDENT_'' (\<not> up) (unhealthy_incident fd) @
            zone_drafts hash st b a ts stale up;
          (emitted, rows') = raise_alerts drafts rows
      in (emitted,
          st\<lparr>feed_health_data := fd\<lparr>stale_incident := incident_flag stale (stale_incident fd),
               unhealthy_incident := incident_flag (\<not> up) (unhealthy_incident fd)\<rparr>\<rparr>,
          rows'))"

lemmas [eval_defs] = generate_event_id_def display_symbol_def create_or_get_alert_def raise_alerts_def candle_alert_def
  candidate_event_def closed_candle_drafts_def evaluate_closed_candle_alerts_def quote_alert_def whole_seconds_def
  int_text_def incident_drafts_def incident_flag_def zone_key_text_def invalidated_def zone_drafts_def
  evaluate_live_quote_alerts_def

section \<open>Lemmas\<close>

text \<open>The kinds of alert that speak of a setup in progress, and those of a candidate.\<close>

definition zone_kind :: "alert_type \<Rightarrow> bool" where
  "zone_kind k \<longleftrightarrow> k = ENTRY_ZONE_REACHED \<or> k = INVALIDATION_TOUCHED"

definition candidate_kind :: "alert_type \<Rightarrow> bool" where
  "candidate_kind k \<longleftrightarrow> k \<in> {WATCH_LONG_CREATED, READY_LONG_ALERT, BUY_WINDOW_CANDIDATE, WATCH_SHORT_CREATED,
     READY_SHORT_ALERT, SELL_WINDOW_CANDIDATE, CONFLICT_ALERT}"

text \<open>What a zone alert claims, read off its own payload.\<close>

definition alert_truthful :: "alert \<Rightarrow> bool" where
  "alert_truthful r \<longleftrightarrow>
     (zone_kind (al_type r) \<longrightarrow>
       (\<exists>side b a. al_side r = Some side \<and> al_bid r = Some b \<and> al_ask r = Some a \<and> al_gate_reasons r = [] \<and>
          (al_type r = ENTRY_ZONE_REACHED \<longrightarrow>
             (\<exists>lo hi. al_entry_min r = Some lo \<and> al_entry_max r = Some hi \<and>
                lo \<le> side_price side b a \<and> side_price side b a \<le> hi)) \<and>
          (al_type r = INVALIDATION_TOUCHED \<longrightarrow> (\<exists>stop. al_stop_final r = Some stop \<and> invalidated side b a stop))))"

lemma quote_alert_sel [simp]:
  "al_type (quote_alert hash st b a ts kind key side) = kind"
  "al_side (quote_alert hash st b a ts kind key (Some s)) = Some s"
  "al_bid (quote_alert hash st b a ts kind key side) = Some b"
  "al_ask (quote_alert hash st b a ts kind key side) = Some a"
  "al_entry_min (quote_alert hash st b a ts kind key side) = lm_entry_min st"
  "al_entry_max (quote_alert hash st b a ts kind key side) = lm_entry_max st"
  "al_stop_final (quote_alert hash st b a ts kind key side) = lm_stop_final st"
  "al_gate_reasons (quote_alert hash st b a ts kind key side) = lm_gate_reasons st"
  by (simp_all add: quote_alert_def)

lemma candle_alert_sel [simp]: "al_type (candle_alert hash fp d plan kind key side) = kind"
  by (simp add: candle_alert_def Let_def)

lemma incident_draft_kind: "r \<in> set (incident_drafts hash st b a ts kind prefix bad flag) \<Longrightarrow> al_type r = kind \<and> bad \<and> flag \<noteq> Some True"
  by (auto simp: incident_drafts_def split: if_splits)

lemma truthy_the: "truthy v \<Longrightarrow> v = Some (the v)"
  by (cases v) (simp_all add: truthy_def)

lemma zone_draft:
  assumes "r \<in> set (zone_drafts hash st b a ts stale up)"
  shows "zone_kind (al_type r) \<and> alert_truthful r \<and> \<not> stale \<and> up \<and> lm_gate_reasons st = [] \<and> lm_plan_valid st \<and>
    lm_eligible st"
proof -
  from assms have g: "\<not> stale" "up" "lm_gate_reasons st = []" "lm_plan_valid st" "lm_eligible st"
    "truthy (lm_entry_min st)" "truthy (lm_entry_max st)"
    by (simp_all add: zone_drafts_def split: if_splits)
  from assms g obtain side where w: "watched_side st = Some side"
    by (cases "watched_side st") (simp_all add: zone_drafts_def)
  note e = truthy_the [OF g(6)] truthy_the [OF g(7)]
  from assms g w consider
      "r = quote_alert hash st b a ts ENTRY_ZONE_REACHED (zone_key_text st side) (Some side)"
      "the (lm_entry_min st) \<le> side_price side b a" "side_price side b a \<le> the (lm_entry_max st)"
    | "r = quote_alert hash st b a ts INVALIDATION_TOUCHED (zone_key_text st side) (Some side)"
      "truthy (lm_stop_final st)" "invalidated side b a (the (lm_stop_final st))"
    by (auto simp: zone_drafts_def split: if_splits)
  then show ?thesis
  proof cases
    case 1
    with e g show ?thesis by (simp add: zone_kind_def alert_truthful_def) metis
  next
    case 2
    with truthy_the [OF 2(2)] g show ?thesis by (simp add: zone_kind_def alert_truthful_def) metis
  qed
qed

lemma closed_candle_draft:
  assumes "r \<in> set (closed_candle_drafts hash fp d plan now)"
  shows "al_type r = MACRO_BLACKOUT_ACTIVE \<or> al_type r = SYSTEM_SAFETY_HOLD \<or>
    candidate_kind (al_type r) \<and> \<not> closed_at now"
  using assms
  by (auto simp: closed_candle_drafts_def candidate_event_def candidate_kind_def Let_def split: if_splits option.splits)

lemma candle_alert_truthful: "r \<in> set (closed_candle_drafts hash fp d plan now) \<Longrightarrow> alert_truthful r"
  using closed_candle_draft [of r hash fp d plan now] by (auto simp: alert_truthful_def zone_kind_def candidate_kind_def)

end
