(* ===== verification/Live_Quotes.thy ===== *)
theory Live_Quotes
  imports Alerts
begin

text \<open>
  The quote path of the live monitor: \<open>LiveQuoteService.process_quote\<close> of
  \<open>apps/live_monitor/services.py\<close> with the quote adapter of \<open>adapter.py\<close>. Prices are finite
  decimals. The body runs in a transaction, so an error leaves the database as it was. The cache
  of the last quote and the broadcast, which leave the database, are not modelled.
\<close>

section \<open>Quotes\<close>

record live_quote =
  lq_instrument :: string
  lq_provider :: string
  lq_bid :: rat
  lq_ask :: rat
  lq_source :: datetime
  lq_received :: datetime
  lq_sequence :: "int option"

definition create_xauusd_quote_event ::
  "string \<Rightarrow> string \<Rightarrow> rat \<Rightarrow> rat \<Rightarrow> datetime \<Rightarrow> datetime option \<Rightarrow> int option \<Rightarrow> int \<Rightarrow> live_quote result" where
  "create_xauusd_quote_event instrument provider b a source received seq now =
     (if py_upper (py_strip instrument) \<noteq> ''XAUUSD'' \<and> py_upper (py_strip instrument) \<noteq> ''XAU/USD'' then Inl ValueError
      else if \<not> is_aware source then Inl ValueError
      else if (case received of Some r \<Rightarrow> \<not> is_aware r | None \<Rightarrow> False) then Inl ValueError
      else if b \<le> 0 \<or> a \<le> 0 then Inl ValueError
      else if b > a then Inl ValueError
      else Inr \<lparr>lq_instrument = ''XAUUSD'', lq_provider = provider, lq_bid = b, lq_ask = a, lq_source = source,
        lq_received = (case received of Some r \<Rightarrow> r | None \<Rightarrow> Aware now), lq_sequence = seq\<rparr>)"

definition quote_spread :: "live_quote \<Rightarrow> rat result" where
  "quote_spread q = quantize2 (dsub (lq_ask q) (lq_bid q))"

definition quote_spread_pct :: "live_quote \<Rightarrow> rat result" where
  "quote_spread_pct q = (if lq_ask q > 0 then quantize4 (ddiv (dsub (lq_ask q) (lq_bid q)) (lq_ask q)) else Inr 0)"

text \<open>The settings, all of which may be missing.\<close>

record quote_settings =
  qs_stale_seconds :: "rat option"
  qs_future_skew_seconds :: "rat option"

definition quote_freshness :: "rat option \<Rightarrow> rat option \<Rightarrow> int \<Rightarrow> int \<Rightarrow> int \<Rightarrow> rat \<times> bool" where
  "quote_freshness stale_limit skew_limit now src rcv =
     (let skewed = (case skew_limit of None \<Rightarrow> True | Some k \<Rightarrow> total_seconds (src - rcv) > k);
          age = (if \<not> skewed then max 0 (total_seconds (now - src)) else 9999)
      in (age, case (stale_limit, skew_limit) of (Some s, Some k) \<Rightarrow> age > s \<or> skewed | _ \<Rightarrow> True))"

section \<open>The database of the quote path\<close>

record quote_db =
  db_states :: "string \<Rightarrow> monitor_state option"
  db_alerts :: "alert list"

text \<open>\<open>get_or_create\<close> of the monitor row.\<close>

definition monitor_for_quote :: "string \<Rightarrow> 'a quote_db_scheme \<Rightarrow> monitor_state" where
  "monitor_for_quote instrument d =
     (case db_states d instrument of
        Some st \<Rightarrow> st
      | None \<Rightarrow> (blank_monitor instrument)\<lparr>lm_candidate_state := Some NO_TRADE, lm_candidate_decision := Some WAIT,
          lm_published_state := Some NO_TRADE, lm_published_decision := Some WAIT\<rparr>)"

definition save_monitor :: "string \<Rightarrow> monitor_state \<Rightarrow> 'a quote_db_scheme \<Rightarrow> 'a quote_db_scheme" where
  "save_monitor instrument st d = d\<lparr>db_states := (db_states d)(instrument := Some st)\<rparr>"

text \<open>Ordering by sequence number where both have one, else by the time of the source.\<close>

definition quote_discarded :: "monitor_state \<Rightarrow> live_quote \<Rightarrow> bool" where
  "quote_discarded st q =
     (case (lq_sequence q, quote_sequence st) of
        (Some n, Some m) \<Rightarrow> n \<le> m
      | _ \<Rightarrow> (case quote_source_ts st of Some t \<Rightarrow> instant (lq_source q) < t | None \<Rightarrow> False))"

definition quote_zone :: "monitor_state \<Rightarrow> rat \<Rightarrow> rat \<Rightarrow> (zone_status \<times> rat option) result" where
  "quote_zone st b a =
     (if lm_plan_valid st \<and> lm_eligible st \<and> truthy (lm_entry_min st) \<and> truthy (lm_entry_max st)
      then (case watched_side st of
              Some side \<Rightarrow> read_zone True (the (lm_entry_min st)) (the (lm_entry_max st)) (side_price side b a)
            | None \<Rightarrow> Inr (NO_ACTIVE_ZONE, None))
      else Inr (NO_ACTIVE_ZONE, None))"

text \<open>The field-scoped update of the quote-owned columns.\<close>

definition update_quote_columns ::
  "column \<Rightarrow> live_quote \<Rightarrow> rat \<Rightarrow> bool \<Rightarrow> zone_status \<Rightarrow> rat option \<Rightarrow> monitor_state \<Rightarrow> monitor_state result" where
  "update_quote_columns db q age stale zone gap st =
     rbind (db 18 4 (lq_bid q)) (\<lambda>b.
     rbind (db 18 4 (lq_ask q)) (\<lambda>a.
     rbind (rbind (quote_spread q) (db 10 4)) (\<lambda>s.
     rbind (rbind (quote_spread_pct q) (db 8 6)) (\<lambda>pct.
     rbind (store_opt db 8 4 gap) (\<lambda>dp.
       Inr (st\<lparr>current_bid := Some b, current_ask := Some a, lm_spread := Some s, lm_spread_pct := Some pct,
         quote_source_ts := Some (instant (lq_source q)), quote_received_ts := Some (instant (lq_received q)),
         quote_age := Some age, is_quote_stale := stale, quote_sequence := lq_sequence q, entry_zone_status := zone,
         zone_distance := dp\<rparr>))))))"

definition provider_healthy :: "monitor_state \<Rightarrow> bool" where
  "provider_healthy st \<longleftrightarrow> fd_primary (feed_health_data st) = Some ''HEALTHY''"

definition judge_quote :: "quote_settings \<Rightarrow> rat option \<Rightarrow> int \<Rightarrow> live_quote \<Rightarrow> rat \<times> bool" where
  "judge_quote qs override now q =
     quote_freshness (case override of Some s \<Rightarrow> Some s | None \<Rightarrow> qs_stale_seconds qs) (qs_future_skew_seconds qs) now
       (instant (lq_source q)) (instant (lq_received q))"

definition valid_quote :: "live_quote \<Rightarrow> bool" where
  "valid_quote q \<longleftrightarrow> \<not> (lq_bid q \<le> 0 \<or> lq_ask q \<le> 0) \<and> \<not> lq_ask q < lq_bid q \<and> is_aware (lq_source q) \<and>
     is_aware (lq_received q)"

definition process_quote ::
  "column \<Rightarrow> text_hash \<Rightarrow> quote_settings \<Rightarrow> rat option \<Rightarrow> int \<Rightarrow> live_quote \<Rightarrow> 'a quote_db_scheme \<Rightarrow>
    (monitor_state \<times> 'a quote_db_scheme) result" where
  "process_quote db hash qs override now q d =
     (if \<not> valid_quote q then Inl ValueError
      else let (age, stale) = judge_quote qs override now q;
               st = monitor_for_quote (lq_instrument q) d
           in if quote_discarded st q then Inr (st, save_monitor (lq_instrument q) st d)
              else rbind (quote_zone st (lq_bid q) (lq_ask q)) (\<lambda>(zone, gap).
                   rbind (update_quote_columns db q age stale zone gap st) (\<lambda>st1.
                   case evaluate_live_quote_alerts hash st1 (lq_bid q) (lq_ask q) (instant (lq_source q)) stale
                          (provider_healthy st1) (db_alerts d) of
                     (emitted, st2, rows) \<Rightarrow> Inr (st2, (save_monitor (lq_instrument q) st2 d)\<lparr>db_alerts := rows\<rparr>))))"

text \<open>A run of quotes, each with the time at which it is processed.\<close>

fun process_quotes ::
  "column \<Rightarrow> text_hash \<Rightarrow> quote_settings \<Rightarrow> (int \<times> live_quote) list \<Rightarrow> 'a quote_db_scheme \<Rightarrow> 'a quote_db_scheme result" where
  "process_quotes db hash qs [] d = Inr d"
| "process_quotes db hash qs ((now, q) # rest) d =
     rbind (process_quote db hash qs None now q d) (\<lambda>(_, d1). process_quotes db hash qs rest d1)"

lemmas [eval_defs] = create_xauusd_quote_event_def quote_spread_def quote_spread_pct_def quote_freshness_def
  monitor_for_quote_def save_monitor_def quote_discarded_def quote_zone_def update_quote_columns_def
  provider_healthy_def judge_quote_def valid_quote_def process_quote_def

section \<open>Lemmas\<close>

text \<open>An accepted quote, with every intermediate result.\<close>

lemma process_quote_cases:
  assumes "process_quote db hash qs override now q d = Inr (st', d')"
  obtains "valid_quote q" "quote_discarded (monitor_for_quote (lq_instrument q) d) q"
      "st' = monitor_for_quote (lq_instrument q) d" "d' = save_monitor (lq_instrument q) st' d"
    | age stale zone gap st1 emitted rows where "valid_quote q"
      "\<not> quote_discarded (monitor_for_quote (lq_instrument q) d) q" "judge_quote qs override now q = (age, stale)"
      "quote_zone (monitor_for_quote (lq_instrument q) d) (lq_bid q) (lq_ask q) = Inr (zone, gap)"
      "update_quote_columns db q age stale zone gap (monitor_for_quote (lq_instrument q) d) = Inr st1"
      "evaluate_live_quote_alerts hash st1 (lq_bid q) (lq_ask q) (instant (lq_source q)) stale (provider_healthy st1)
         (db_alerts d) = (emitted, st', rows)"
      "d' = (save_monitor (lq_instrument q) st' d)\<lparr>db_alerts := rows\<rparr>"
proof -
  obtain age stale where j: "judge_quote qs override now q = (age, stale)" by (cases "judge_quote qs override now q")
  show thesis
  proof (cases "quote_discarded (monitor_for_quote (lq_instrument q) d) q")
    case True
    with assms j that(1) show ?thesis by (auto simp: process_quote_def Let_def split: if_splits)
  next
    case False
    with assms j obtain zone gap st1 where v: "valid_quote q"
      and z: "quote_zone (monitor_for_quote (lq_instrument q) d) (lq_bid q) (lq_ask q) = Inr (zone, gap)"
      and u: "update_quote_columns db q age stale zone gap (monitor_for_quote (lq_instrument q) d) = Inr st1"
      by (auto simp: process_quote_def Let_def rbind_Inr_iff split: if_splits)
    obtain emitted st2 rows where e: "evaluate_live_quote_alerts hash st1 (lq_bid q) (lq_ask q) (instant (lq_source q)) stale
        (provider_healthy st1) (db_alerts d) = (emitted, st2, rows)" by (rule prod_cases3)
    from assms j False v z u e have "st2 = st'" "d' = (save_monitor (lq_instrument q) st' d)\<lparr>db_alerts := rows\<rparr>"
      by (auto simp: process_quote_def Let_def)
    with v False j z u e that(2) show ?thesis by blast
  qed
qed

lemma update_quote_columns_Inr:
  assumes "update_quote_columns db q age stale zone gap st = Inr st1"
  shows "decision_columns.truncate st1 = decision_columns.truncate st \<and> lm_instrument st1 = lm_instrument st \<and>
    feed_health_data st1 = feed_health_data st \<and> entry_zone_status st1 = zone \<and> is_quote_stale st1 = stale \<and>
    quote_sequence st1 = lq_sequence q \<and> quote_source_ts st1 = Some (instant (lq_source q)) \<and>
    (\<exists>b a. db 18 4 (lq_bid q) = Inr b \<and> db 18 4 (lq_ask q) = Inr a \<and> current_bid st1 = Some b \<and> current_ask st1 = Some a)"
  using assms by (auto simp: update_quote_columns_def rbind_Inr_iff decision_columns.defs)

lemma evaluate_live_quote_alerts_Inr:
  assumes "evaluate_live_quote_alerts hash st b a ts stale up rows = (emitted, st', rows')"
  shows "st' = st\<lparr>feed_health_data := (feed_health_data st)
      \<lparr>stale_incident := incident_flag stale (stale_incident (feed_health_data st)),
       unhealthy_incident := incident_flag (\<not> up) (unhealthy_incident (feed_health_data st))\<rparr>\<rparr> \<and>
    rows' = rows @ emitted \<and> (distinct (map al_id rows) \<longrightarrow> distinct (map al_id rows')) \<and>
    set emitted \<subseteq> set (incident_drafts hash st b a ts LIVE_DATA_STALE ''STALE_INCIDENT_'' stale (stale_incident (feed_health_data st))) \<union>
      set (incident_drafts hash st b a ts PROVIDER_UNHEALTHY ''UNHEALTHY_INCIDENT_'' (\<not> up) (unhealthy_incident (feed_health_data st))) \<union>
      set (zone_drafts hash st b a ts stale up)"
proof -
  define drafts where "drafts = incident_drafts hash st b a ts LIVE_DATA_STALE ''STALE_INCIDENT_'' stale (stale_incident (feed_health_data st)) @
    incident_drafts hash st b a ts PROVIDER_UNHEALTHY ''UNHEALTHY_INCIDENT_'' (\<not> up) (unhealthy_incident (feed_health_data st)) @
    zone_drafts hash st b a ts stale up"
  from assms have e: "raise_alerts drafts rows = (emitted, rows')" and s: "st' = st\<lparr>feed_health_data := (feed_health_data st)
      \<lparr>stale_incident := incident_flag stale (stale_incident (feed_health_data st)),
       unhealthy_incident := incident_flag (\<not> up) (unhealthy_incident (feed_health_data st))\<rparr>\<rparr>"
    by (auto simp: evaluate_live_quote_alerts_def drafts_def Let_def split: prod.splits)
  from e alert_box.all_appends [of drafts rows] alert_box.all_from_drafts [of drafts rows]
    alert_box.all_distinct [of rows drafts] s
  show ?thesis by (auto simp: raise_alerts_def drafts_def)
qed

lemma decision_same:
  assumes "decision_columns.truncate st = decision_columns.truncate st'"
  shows "lm_plan_valid st = lm_plan_valid st' \<and> lm_eligible st = lm_eligible st' \<and> lm_gate_reasons st = lm_gate_reasons st' \<and>
    lm_published_decision st = lm_published_decision st' \<and> lm_publication_action st = lm_publication_action st' \<and>
    lm_effective_action st = lm_effective_action st' \<and>
    lm_entry_min st = lm_entry_min st' \<and> lm_entry_max st = lm_entry_max st' \<and> watched_side st = watched_side st'"
  using assms by (simp add: decision_columns.defs watched_side_def cong: option.case_cong)

section \<open>Properties\<close>

text \<open>
  C19. The quote path never decides: processing a quote changes no decision-owned column of the
  monitor, no other instrument, nothing else of the database, and of the feed health only the two
  incident flags; alerts are only ever appended.
\<close>

theorem quote_path_never_decides:
  assumes "process_quote db hash qs override now q d = Inr (st', d')"
  shows "decision_columns.truncate st' = decision_columns.truncate (monitor_for_quote (lq_instrument q) d) \<and>
    db_states d' = (db_states d)(lq_instrument q := Some st') \<and> quote_db.more d' = quote_db.more d \<and>
    (feed_health_data st')\<lparr>stale_incident := None, unhealthy_incident := None\<rparr> =
      (feed_health_data (monitor_for_quote (lq_instrument q) d))\<lparr>stale_incident := None, unhealthy_incident := None\<rparr> \<and>
    (\<exists>emitted. db_alerts d' = db_alerts d @ emitted)"
  using assms
proof (cases rule: process_quote_cases)
  case 1
  then show ?thesis by (simp add: save_monitor_def)
next
  case (2 age stale zone gap st1 emitted rows)
  note u = update_quote_columns_Inr [OF 2(5)] and e = evaluate_live_quote_alerts_Inr [OF 2(6)]
  from u e have "decision_columns.truncate st' = decision_columns.truncate st1" by (simp add: decision_columns.defs)
  with u e 2(7) show ?thesis by (simp add: save_monitor_def)
qed

text \<open>
  C20. Zone alerts fail closed: a quote that raises an entry zone or an invalidation alert is fresh
  under configured limits, its provider is reported healthy, no hard gate is active, the plan is
  valid and eligible, and the alert is true of the prices and levels it carries.
\<close>

theorem zone_alerts_fail_closed:
  assumes "process_quote db hash qs override now q d = Inr (st', d')"
    and "r \<in> set (drop (length (db_alerts d)) (db_alerts d'))" and "zone_kind (al_type r)"
  shows "snd (judge_quote qs override now q) = False \<and> qs_future_skew_seconds qs \<noteq> None \<and>
    fd_primary (feed_health_data st') = Some ''HEALTHY'' \<and> lm_gate_reasons st' = [] \<and> lm_plan_valid st' \<and>
    lm_eligible st' \<and> alert_truthful r"
  using assms(1)
proof (cases rule: process_quote_cases)
  case 1
  with assms(2) show ?thesis by (simp add: save_monitor_def)
next
  case (2 age stale zone gap st1 emitted rows)
  note e = evaluate_live_quote_alerts_Inr [OF 2(6)]
  from assms(2) e 2(7) have "r \<in> set emitted" by simp
  with e have "r \<in> set (zone_drafts hash st1 (lq_bid q) (lq_ask q) (instant (lq_source q)) stale (provider_healthy st1)) \<or>
      al_type r = LIVE_DATA_STALE \<or> al_type r = PROVIDER_UNHEALTHY"
    by (blast dest: incident_draft_kind)
  with assms(3) have "r \<in> set (zone_drafts hash st1 (lq_bid q) (lq_ask q) (instant (lq_source q)) stale (provider_healthy st1))"
    by (auto simp: zone_kind_def)
  note z = zone_draft [OF this]
  moreover from e have "lm_gate_reasons st' = lm_gate_reasons st1 \<and> lm_plan_valid st' = lm_plan_valid st1 \<and>
      lm_eligible st' = lm_eligible st1 \<and> fd_primary (feed_health_data st') = fd_primary (feed_health_data st1)" by simp
  moreover from z 2(3) have "qs_future_skew_seconds qs \<noteq> None"
    by (auto simp: judge_quote_def quote_freshness_def Let_def split: option.splits)
  ultimately show ?thesis using 2(3) by (simp add: provider_healthy_def)
qed

text \<open>
  Quotes are applied in order: against a numbered state a numbered quote leaves the sequence
  number at the larger of both, and where one of them has no number the time of the source never
  goes back; a discarded quote changes nothing of the monitor.
\<close>

theorem quotes_apply_in_order:
  assumes "process_quote db hash qs override now q d = Inr (st', d')"
    and "db_states d (lq_instrument q) = Some st"
  shows "(\<forall>n m. lq_sequence q = Some n \<and> quote_sequence st = Some m \<longrightarrow> quote_sequence st' = Some (max n m)) \<and>
    (\<forall>t. quote_source_ts st = Some t \<and> (lq_sequence q = None \<or> quote_sequence st = None) \<longrightarrow>
       quote_source_ts st' = Some (max t (instant (lq_source q)))) \<and>
    (quote_discarded st q \<longrightarrow> st' = st \<and> db_alerts d' = db_alerts d)"
  using assms(1)
proof (cases rule: process_quote_cases)
  case 1
  with assms(2) show ?thesis
    by (auto simp: monitor_for_quote_def quote_discarded_def save_monitor_def max_def split: option.splits)
next
  case (2 age stale zone gap st1 emitted rows)
  note u = update_quote_columns_Inr [OF 2(5)] and e = evaluate_live_quote_alerts_Inr [OF 2(6)]
  from u e 2(2) assms(2) show ?thesis
    by (auto simp: monitor_for_quote_def quote_discarded_def max_def split: option.splits)
qed

definition stale_alerts :: "alert list \<Rightarrow> alert list" where
  "stale_alerts = filter (\<lambda>r. al_type r = LIVE_DATA_STALE)"

definition incident_open :: "string \<Rightarrow> 'a quote_db_scheme \<Rightarrow> bool" where
  "incident_open instrument d =
     (case db_states d instrument of Some st \<Rightarrow> stale_incident (feed_health_data st) = Some True | None \<Rightarrow> False)"

lemma stale_alerts_append [simp]: "stale_alerts (xs @ ys) = stale_alerts xs @ stale_alerts ys"
  by (simp add: stale_alerts_def)

lemma stale_emitted:
  assumes "evaluate_live_quote_alerts hash st b a ts stale up rows = (emitted, st', rows')"
  shows "length (stale_alerts emitted) \<le> (if stale \<and> stale_incident (feed_health_data st) \<noteq> Some True then 1 else 0)"
proof -
  define drafts where "drafts = incident_drafts hash st b a ts LIVE_DATA_STALE ''STALE_INCIDENT_'' stale (stale_incident (feed_health_data st)) @
    incident_drafts hash st b a ts PROVIDER_UNHEALTHY ''UNHEALTHY_INCIDENT_'' (\<not> up) (unhealthy_incident (feed_health_data st)) @
    zone_drafts hash st b a ts stale up"
  from assms have "raise_alerts drafts rows = (emitted, rows')"
    by (auto simp: evaluate_live_quote_alerts_def drafts_def Let_def split: prod.splits)
  then have "length (stale_alerts emitted) \<le> length (stale_alerts drafts)"
    using alert_box.all_count [of "\<lambda>r. al_type r = LIVE_DATA_STALE" drafts rows] by (simp add: raise_alerts_def stale_alerts_def)
  moreover have "stale_alerts (zone_drafts hash st b a ts stale up) = []"
    using zone_draft by (fastforce simp: stale_alerts_def filter_empty_conv zone_kind_def)
  ultimately show ?thesis
    by (simp add: drafts_def stale_alerts_def incident_drafts_def split: if_splits)
qed

lemma stale_step:
  assumes "process_quote db hash qs override now q d = Inr (st', d')" and "snd (judge_quote qs override now q)"
  shows "(incident_open (lq_instrument q) d' \<and>
      length (stale_alerts (db_alerts d')) \<le> length (stale_alerts (db_alerts d)) + (if incident_open (lq_instrument q) d then 0 else 1)) \<or>
    (\<not> incident_open (lq_instrument q) d \<and> stale_alerts (db_alerts d') = stale_alerts (db_alerts d))"
  using assms(1)
proof (cases rule: process_quote_cases)
  case 1
  then show ?thesis
    by (auto simp: save_monitor_def incident_open_def monitor_for_quote_def split: option.splits)
next
  case (2 age stale zone gap st1 emitted rows)
  note u = update_quote_columns_Inr [OF 2(5)] and e = evaluate_live_quote_alerts_Inr [OF 2(6)]
  from 2(3) assms(2) have s: stale by simp
  with e 2(7) have "incident_open (lq_instrument q) d'"
    by (simp add: save_monitor_def incident_open_def incident_flag_def)
  moreover have "incident_open (lq_instrument q) d \<longleftrightarrow> stale_incident (feed_health_data st1) = Some True"
    using u by (simp add: incident_open_def monitor_for_quote_def blank_monitor_def no_feed_data_def split: option.splits)
  ultimately show ?thesis
    using stale_emitted [OF 2(6)] e 2(7) s by (simp split: if_splits)
qed

text \<open>
  C39. One alert per incident: while the quotes of an instrument stay stale, at most one stale data
  alert is raised, however many of them arrive, and none when the incident was already open.
\<close>

theorem one_alert_per_incident:
  assumes "process_quotes db hash qs run d = Inr d'"
    and "\<forall>(now, q) \<in> set run. lq_instrument q = instrument \<and> snd (judge_quote qs None now q)"
  shows "length (stale_alerts (db_alerts d')) \<le>
    length (stale_alerts (db_alerts d)) + (if incident_open instrument d then 0 else 1)"
  using assms
proof (induction run arbitrary: d)
  case (Cons e run)
  obtain now q where e: "e = (now, q)" by (cases e)
  with Cons.prems obtain st1 d1 where p: "process_quote db hash qs None now q d = Inr (st1, d1)"
    and r: "process_quotes db hash qs run d1 = Inr d'" by (auto simp: rbind_Inr_iff)
  from e Cons.prems(2) have q: "lq_instrument q = instrument" "snd (judge_quote qs None now q)" by auto
  from Cons.IH [OF r] Cons.prems(2) stale_step [OF p q(2)] q(1) show ?case by (auto split: if_splits)
qed simp

section \<open>Witnesses\<close>

text \<open>A monitor with a valid LONG plan, and quotes of a minute.\<close>

definition watching :: monitor_state where
  "watching = (blank_monitor ''XAUUSD'')\<lparr>lm_plan_valid := True, lm_eligible := True, lm_risk_side := Some LONG,
     lm_entry_min := Some 1998, lm_entry_max := Some 2001, lm_stop_final := Some 1990,
     quote_sequence := Some 7, quote_source_ts := Some (59 * second),
     feed_health_data := no_feed_data\<lparr>fd_primary := Some ''HEALTHY''\<rparr>\<rparr>"

definition sample_settings :: quote_settings where
  "sample_settings = \<lparr>qs_stale_seconds = Some 5, qs_future_skew_seconds = Some 2\<rparr>"

definition watching_db :: quote_db where
  "watching_db = \<lparr>db_states = [''XAUUSD'' \<mapsto> watching], db_alerts = []\<rparr>"

definition quote_in_zone :: live_quote where
  "quote_in_zone = \<lparr>lq_instrument = ''XAUUSD'', lq_provider = ''feed'', lq_bid = 1999, lq_ask = 2000,
     lq_source = Aware (60 * second), lq_received = Aware (60 * second), lq_sequence = Some 8\<rparr>"

lemma watching_quote_at:
  fixes d :: "'a quote_db_scheme"
  assumes "db_states d ''XAUUSD'' = Some watching" "db_alerts d = []"
  shows "\<exists>st rows. process_quote sample_column id sample_settings None (61 * second) quote_in_zone d =
     Inr (st, (save_monitor ''XAUUSD'' st d)\<lparr>db_alerts := rows\<rparr>) \<and>
     (\<exists>r. rows = [r] \<and> al_type r = ENTRY_ZONE_REACHED) \<and> quote_sequence st = Some 8 \<and> lm_eligible st \<and> entry_zone_status st = INSIDE_ZONE"
proof -
  have v: "valid_quote quote_in_zone" by (simp add: valid_quote_def quote_in_zone_def)
  have j: "judge_quote sample_settings None (61 * second) quote_in_zone = (1, False)"
    by (simp add: judge_quote_def quote_freshness_def sample_settings_def quote_in_zone_def total_seconds_def time_units fround_eval)
  have m: "monitor_for_quote (lq_instrument quote_in_zone) d = watching"
    by (simp add: monitor_for_quote_def quote_in_zone_def assms(1))
  have n: "\<not> quote_discarded watching quote_in_zone" by (simp add: quote_discarded_def watching_def quote_in_zone_def)
  have z: "quote_zone watching (lq_bid quote_in_zone) (lq_ask quote_in_zone) = Inr (INSIDE_ZONE, Some 0)"
    by (simp add: quote_zone_def watching_def quote_in_zone_def truthy_def watched_side_def read_zone_def side_price_def)
  obtain st1 where u: "update_quote_columns sample_column quote_in_zone 1 False INSIDE_ZONE (Some 0) watching = Inr st1"
    by (simp add: update_quote_columns_def quote_in_zone_def sample_column_def quote_spread_def quote_spread_pct_def
        quantize2_def quantize4_def store_opt_def dsub_def ddiv_def rhe_def dround_eval)
  note c = update_quote_columns_Inr [OF u]
  then have d: "decision_columns.truncate st1 = decision_columns.truncate watching" by simp
  have w: "lm_plan_valid watching" "lm_eligible watching" "lm_gate_reasons watching = []" "watched_side watching = Some LONG"
    "lm_entry_min watching = Some 1998" "lm_entry_max watching = Some 2001" "lm_stop_final watching = Some 1990"
    by (simp_all add: watching_def watched_side_def blank_monitor_def)
  have "lm_stop_final st1 = lm_stop_final watching" using d by (simp add: decision_columns.defs)
  with decision_same [OF d] w have z1: "zone_drafts id st1 (lq_bid quote_in_zone) (lq_ask quote_in_zone) ts False True =
      [quote_alert id st1 (lq_bid quote_in_zone) (lq_ask quote_in_zone) ts ENTRY_ZONE_REACHED (zone_key_text st1 LONG) (Some LONG)]" for ts
    by (simp add: zone_drafts_def truthy_def side_price_def invalidated_def quote_in_zone_def)
  have h: "provider_healthy st1" "stale_incident (feed_health_data st1) = None" "unhealthy_incident (feed_health_data st1) = None"
    using c by (simp_all add: provider_healthy_def watching_def no_feed_data_def)
  obtain emitted st2 rows where e: "evaluate_live_quote_alerts id st1 (lq_bid quote_in_zone) (lq_ask quote_in_zone)
      (instant (lq_source quote_in_zone)) False True [] = (emitted, st2, rows)" by (rule prod_cases3)
  then have "rows = [quote_alert id st1 (lq_bid quote_in_zone) (lq_ask quote_in_zone) (instant (lq_source quote_in_zone))
      ENTRY_ZONE_REACHED (zone_key_text st1 LONG) (Some LONG)]"
    by (auto simp: evaluate_live_quote_alerts_def h incident_drafts_def z1 raise_alerts_def create_or_get_alert_def
        create_if_absent_def find_row_def)
  moreover have "process_quote sample_column id sample_settings None (61 * second) quote_in_zone d =
     Inr (st2, (save_monitor ''XAUUSD'' st2 d)\<lparr>db_alerts := rows\<rparr>)"
    using v j m n z u h e by (simp add: process_quote_def Let_def assms(2)) (simp add: quote_in_zone_def)
  moreover have "quote_sequence st2 = Some 8 \<and> lm_eligible st2 \<and> entry_zone_status st2 = INSIDE_ZONE"
    using evaluate_live_quote_alerts_Inr [OF e] c decision_same [OF d] w by (simp add: quote_in_zone_def)
  ultimately show ?thesis by auto
qed

lemma watching_quote:
  "\<exists>st rows. process_quote sample_column id sample_settings None (61 * second) quote_in_zone watching_db =
     Inr (st, (save_monitor ''XAUUSD'' st watching_db)\<lparr>db_alerts := rows\<rparr>) \<and>
     (\<exists>r. rows = [r] \<and> al_type r = ENTRY_ZONE_REACHED) \<and> quote_sequence st = Some 8 \<and> lm_eligible st \<and> entry_zone_status st = INSIDE_ZONE"
  by (rule watching_quote_at) (simp_all add: watching_db_def)

theorem quote_path_never_decides_witness:
  "\<exists>st' (d' :: quote_db). decision_columns.truncate st' = decision_columns.truncate watching \<and> db_states d' = [''XAUUSD'' \<mapsto> st'] \<and>
     entry_zone_status st' = INSIDE_ZONE"
proof -
  from watching_quote obtain st d' where p: "process_quote sample_column id sample_settings None (61 * second) quote_in_zone watching_db = Inr (st, d')"
    and "entry_zone_status st = INSIDE_ZONE" by blast
  with quote_path_never_decides [OF p] show ?thesis
    by (intro exI [of _ st] exI [of _ d']) (simp add: monitor_for_quote_def watching_db_def quote_in_zone_def)
qed

theorem zone_alerts_fail_closed_witness:
  "\<exists>r. al_type r = ENTRY_ZONE_REACHED \<and> alert_truthful r \<and> snd (judge_quote sample_settings None (61 * second) quote_in_zone) = False"
proof -
  from watching_quote obtain st d' r where p: "process_quote sample_column id sample_settings None (61 * second) quote_in_zone watching_db = Inr (st, d')"
    and r: "db_alerts d' = [r]" "al_type r = ENTRY_ZONE_REACHED" by auto
  have "r \<in> set (drop (length (db_alerts watching_db)) (db_alerts d'))" using r by (simp add: watching_db_def)
  with zone_alerts_fail_closed [OF p this] r show ?thesis by (auto simp: zone_kind_def)
qed

theorem quotes_apply_in_order_witness:
  "\<exists>st' d'. process_quote sample_column id sample_settings None (61 * second) quote_in_zone watching_db = Inr (st', d') \<and>
     quote_sequence st' = Some (max 8 7)"
proof -
  from watching_quote obtain st d' where p: "process_quote sample_column id sample_settings None (61 * second) quote_in_zone watching_db = Inr (st, d')" by blast
  have w: "db_states watching_db (lq_instrument quote_in_zone) = Some watching" by (simp add: watching_db_def quote_in_zone_def)
  from quotes_apply_in_order [OF p w] p show ?thesis by (auto simp: quote_in_zone_def watching_def)
qed

text \<open>
  An accepted quote replaces the sequence number by its own: one without a number erases it, so
  that an older number is accepted after it.
\<close>

lemma accepted_quote_saved:
  assumes "process_quote db hash qs override now q d = Inr (st', d')"
    and "\<not> quote_discarded (monitor_for_quote (lq_instrument q) d) q"
  shows "quote_sequence st' = lq_sequence q \<and> db_states d' = (db_states d)(lq_instrument q := Some st')"
  using assms(1)
proof (cases rule: process_quote_cases)
  case (2 age stale zone gap st1 emitted rows)
  with update_quote_columns_Inr [OF 2(5)] evaluate_live_quote_alerts_Inr [OF 2(6)] show ?thesis by (simp add: save_monitor_def)
qed (simp add: assms(2))

text \<open>A quote that arrives an hour late, twice.\<close>

definition late_run :: "(int \<times> live_quote) list" where
  "late_run = [(3660 * second, quote_in_zone), (3661 * second, quote_in_zone)]"

lemma process_quote_total:
  assumes "valid_quote q" "\<not> quote_discarded (monitor_for_quote (lq_instrument q) d) q"
    and "quote_zone (monitor_for_quote (lq_instrument q) d) (lq_bid q) (lq_ask q) = Inr (zone, gap)"
    and "\<And>age stale. \<exists>st1. update_quote_columns db q age stale zone gap (monitor_for_quote (lq_instrument q) d) = Inr st1"
  shows "\<exists>st' d'. process_quote db hash qs override now q d = Inr (st', d')"
proof -
  obtain age stale where j: "judge_quote qs override now q = (age, stale)" by (cases "judge_quote qs override now q")
  from assms(4) obtain st1 where "update_quote_columns db q age stale zone gap (monitor_for_quote (lq_instrument q) d) = Inr st1" by blast
  with assms j show ?thesis by (simp add: process_quote_def Let_def split: prod.split)
qed

theorem one_alert_per_incident_witness:
  "\<exists>d'. process_quotes sample_column id sample_settings late_run watching_db = Inr d' \<and> length (stale_alerts (db_alerts d')) \<le> 1"
proof -
  have v: "valid_quote quote_in_zone" by (simp add: valid_quote_def quote_in_zone_def)
  have m: "monitor_for_quote (lq_instrument quote_in_zone) watching_db = watching"
    by (simp add: monitor_for_quote_def quote_in_zone_def watching_db_def)
  have n: "\<not> quote_discarded watching quote_in_zone" by (simp add: quote_discarded_def watching_def quote_in_zone_def)
  have z: "quote_zone watching (lq_bid quote_in_zone) (lq_ask quote_in_zone) = Inr (INSIDE_ZONE, Some 0)"
    by (simp add: quote_zone_def watching_def quote_in_zone_def truthy_def watched_side_def read_zone_def side_price_def)
  have u: "\<exists>st1. update_quote_columns sample_column quote_in_zone age stale INSIDE_ZONE (Some 0) watching = Inr st1" for age stale
    by (simp add: update_quote_columns_def quote_in_zone_def sample_column_def quote_spread_def quote_spread_pct_def
        quantize2_def quantize4_def store_opt_def dsub_def ddiv_def rhe_def dround_eval)
  from process_quote_total [where q = quote_in_zone and d = watching_db and zone = INSIDE_ZONE and gap = "Some 0", unfolded m, OF v n z u]
  obtain st1 d1 where p: "process_quote sample_column id sample_settings None (3660 * second) quote_in_zone watching_db = Inr (st1, d1)" by blast
  from accepted_quote_saved [OF p] n m
  have s: "quote_sequence st1 = Some 8" "monitor_for_quote (lq_instrument quote_in_zone) d1 = st1"
    by (simp_all add: quote_in_zone_def watching_def watching_db_def monitor_for_quote_def)
  then have "process_quote sample_column id sample_settings None (3661 * second) quote_in_zone d1 =
      Inr (st1, save_monitor ''XAUUSD'' st1 d1)"
    using v by (simp add: process_quote_def Let_def quote_discarded_def split: prod.split) (simp add: quote_in_zone_def)
  with p have r: "process_quotes sample_column id sample_settings late_run watching_db = Inr (save_monitor ''XAUUSD'' st1 d1)"
    by (simp add: late_run_def)
  have "\<forall>(now, q) \<in> set late_run. lq_instrument q = ''XAUUSD'' \<and> snd (judge_quote sample_settings None now q)"
    by (simp add: late_run_def judge_quote_def quote_freshness_def sample_settings_def quote_in_zone_def total_seconds_def time_units fround_eval)
  from one_alert_per_incident [OF r this] r show ?thesis
    by (auto simp: stale_alerts_def watching_db_def split: if_splits)
qed

end
