(* ===== verification/Live_Evidence.thy ===== *)
theory Live_Evidence
  imports Market_Cache Cycle_Engine Macro_Vintages Live_Quotes
begin

text \<open>
  The evidence of the live decision pipeline (\<open>XauUsdLiveDecisionPipelineService\<close> of
  \<open>apps/live_monitor/services.py\<close>): the selection of the candles, the continuity check with the
  gap classification of \<open>apps/dashboard/api.py\<close>, the source aliases of
  \<open>apps/market_data/providers/registry.py\<close>, the health of the provider, and the stored cycle
  snapshots of \<open>apps/analysis/services.py\<close>. The database answers are rows; times are UTC.
\<close>

section \<open>Sources and candles\<close>

definition canonical_source_aliases :: "(string \<times> string) list" where
  "canonical_source_aliases = [(''twelve_data'', ''twelve_data_xauusd''), (''twelve_data_xauusd'', ''twelve_data_xauusd'')]"

definition normalize_canonical_source :: "string \<Rightarrow> string" where
  "normalize_canonical_source source =
     (let s = py_lower (py_strip source) in case map_of canonical_source_aliases s of Some c \<Rightarrow> c | None \<Rightarrow> s)"

definition get_canonical_source_aliases :: "string \<Rightarrow> string list" where
  "get_canonical_source_aliases provider =
     (let pid = py_lower (py_strip provider);
          aliases = map fst (filter (\<lambda>(_, c). c = normalize_canonical_source pid) canonical_source_aliases)
      in if pid \<in> set aliases then aliases else aliases @ [pid])"

text \<open>A stored candle; the rows are in the order of their identifiers.\<close>

record market_row =
  mr_timeframe :: string
  mr_candle :: candle

text \<open>Of neighbours with one closing time the last stays.\<close>

fun keep_last :: "candle list \<Rightarrow> candle list" where
  "keep_last (c # d # cs) = (if timestamp_close c = timestamp_close d then keep_last (d # cs) else c # keep_last (d # cs))"
| "keep_last cs = cs"

definition get_engine_candles :: "string option \<Rightarrow> market_row list \<Rightarrow> string \<Rightarrow> int \<Rightarrow> candle list" where
  "get_engine_candles listing rows timeframe ts =
     (case listing of
        None \<Rightarrow> []
      | Some provider \<Rightarrow>
          if provider = [] then []
          else let name = py_lower provider; aliases = get_canonical_source_aliases provider;
                   allowed = (if name \<in> set aliases then aliases else aliases @ [name])
               in keep_last (sort_key (\<lambda>c. instant (timestamp_close c))
                    (map (\<lambda>r. (mr_candle r)\<lparr>volume_evidence := VOLUME_UNAVAILABLE\<rparr>) (filter (\<lambda>r. mr_timeframe r = timeframe \<and> instant (timestamp_close (mr_candle r)) \<le> ts \<and>
                       is_closed (mr_candle r) \<and> source_id (mr_candle r) \<in> set allowed) rows))))"

text \<open>
  Stored candles are rebuilt without their volume evidence, which takes its default. The candle
  of the event is appended when the database has none at its time and its source is
  the primary provider.
\<close>

definition matches_primary :: "string option \<Rightarrow> string \<Rightarrow> bool" where
  "matches_primary listing source =
     (case listing of
        None \<Rightarrow> False
      | Some provider \<Rightarrow> provider \<noteq> [] \<and> py_lower (py_strip provider) \<noteq> [] \<and> py_strip source \<noteq> [] \<and>
          normalize_canonical_source (py_lower (py_strip source)) =
            normalize_canonical_source (py_lower (py_strip provider)))"

definition candles_with_event :: "string option \<Rightarrow> int \<Rightarrow> candle \<Rightarrow> candle list \<Rightarrow> candle list" where
  "candles_with_event listing ts c cs =
     (if \<not> list_ex (\<lambda>x. timestamp_close x = Aware ts) cs \<and> matches_primary listing (source_id c)
      then cs @ [c\<lparr>timestamp_open := Aware (instant (timestamp_open c)), timestamp_close := Aware ts, is_closed := True,
                    close_usd := None, volume_evidence := VOLUME_UNAVAILABLE\<rparr>] else cs)"

section \<open>Continuity\<close>

datatype gap_class =
  NORMAL_GAP | PROVIDER_MARKET_CLOSURE | INTRASESSION_DATA_GAP | PROVIDER_ALIGNMENT_TRANSITION | UNRESOLVED_GAP

definition classify_candle_gap :: "int \<Rightarrow> int \<Rightarrow> string \<Rightarrow> gap_class" where
  "classify_candle_gap prev_close next_open timeframe =
     (let gap = next_open - prev_close; wc = weekday prev_close; wo = weekday next_open in
      if gap \<le> 0 then NORMAL_GAP
      else if gap > 14 * day then UNRESOLVED_GAP
      else if ((wc = 4 \<and> hour_of prev_close \<ge> 15) \<or> wc = 5) \<and> (wo = 6 \<or> (wo = 0 \<and> hour_of next_open \<le> 3)) \<and>
              20 * hour \<le> gap \<and> gap \<le> 65 * hour then PROVIDER_MARKET_CLOSURE
      else if gap \<le> hour + 15 * minute \<and> (hour_of prev_close = 21 \<or> hour_of prev_close = 22) then PROVIDER_MARKET_CLOSURE
      else if timeframe = ''4h'' \<and> 3 * hour \<le> gap \<and> gap \<le> 5 * hour \<and> gap \<noteq> 4 * hour then PROVIDER_ALIGNMENT_TRANSITION
      else if wc \<in> {0, 1, 2, 3, 4} \<and> wo \<in> {0, 1, 2, 3, 4} then INTRASESSION_DATA_GAP
      else UNRESOLVED_GAP)"

text \<open>\<open>timedelta(minutes=15) * 1.5\<close>.\<close>

definition gap_between :: "candle \<Rightarrow> candle \<Rightarrow> bool" where
  "gap_between c e \<longleftrightarrow>
     instant (timestamp_open e) - instant (timestamp_close c) > 22 * minute + 30 * second \<and>
     classify_candle_gap (instant (timestamp_close c)) (instant (timestamp_open e)) ''15m'' = INTRASESSION_DATA_GAP"

fun continuity_gap :: "candle list \<Rightarrow> bool" where
  "continuity_gap (c # e # cs) \<longleftrightarrow> gap_between c e \<or> continuity_gap (e # cs)"
| "continuity_gap _ \<longleftrightarrow> False"

section \<open>Health of the provider\<close>

definition map_provider_status :: "string option \<Rightarrow> feed_health" where
  "map_provider_status status =
     (case status of
        None \<Rightarrow> MISSING
      | Some v \<Rightarrow> let s = py_upper v in
          if v = [] then MISSING
          else if s = ''HEALTHY'' then HEALTHY
          else if s \<in> {''UNHEALTHY'', ''DEGRADED'', ''QUARANTINED'', ''DOWN''} then UNHEALTHY
          else if s = ''STALE'' then STALE
          else if s = ''TRANSITION'' then TRANSITION
          else MISSING)"

text \<open>The persisted status of the primary listing; the caller may only make it worse.\<close>

definition primary_feed_health :: "bool \<Rightarrow> string option \<Rightarrow> string option \<Rightarrow> feed_health" where
  "primary_feed_health listed persisted caller =
     (if \<not> listed then MISSING
      else (case persisted of
        None \<Rightarrow> MISSING
      | Some _ \<Rightarrow>
          (case caller of
             None \<Rightarrow> map_provider_status persisted
           | Some _ \<Rightarrow>
               if map_provider_status persisted \<noteq> HEALTHY then map_provider_status persisted
               else if map_provider_status caller \<noteq> HEALTHY then map_provider_status caller
               else HEALTHY)))"

definition provider_sync_status :: "bool \<Rightarrow> string option \<Rightarrow> string option \<Rightarrow> bool \<Rightarrow> feed_health \<Rightarrow> string" where
  "provider_sync_status listed persisted caller transition primary =
     (case persisted of
        None \<Rightarrow> ''MISSING''
      | Some status \<Rightarrow>
          if \<not> listed then ''MISSING''
          else if transition then ''TRANSITION''
          else if primary \<noteq> HEALTHY
          then (if status \<noteq> ''HEALTHY'' then status
                else (case caller of Some c \<Rightarrow> if c = [] then ''UNHEALTHY'' else c | None \<Rightarrow> ''UNHEALTHY''))
          else (case caller of Some c \<Rightarrow> c | None \<Rightarrow> status))"

text \<open>Market evidence and provider health merged: healthy only when both are.\<close>

definition market_15m_health :: "bool \<Rightarrow> bool \<Rightarrow> candle list \<Rightarrow> feed_health" where
  "market_15m_health gap stale cs =
     (if gap then UNHEALTHY else if stale then STALE else if cs \<noteq> [] then HEALTHY else MISSING)"

definition effective_primary_15m :: "feed_health \<Rightarrow> feed_health \<Rightarrow> feed_health" where
  "effective_primary_15m market primary =
     (if market = HEALTHY \<and> primary = HEALTHY then HEALTHY
      else if market = STALE \<or> primary = STALE then STALE
      else if market = UNHEALTHY \<or> primary = UNHEALTHY then UNHEALTHY
      else if market = TRANSITION \<or> primary = TRANSITION then TRANSITION
      else MISSING)"

section \<open>Rows by time\<close>

text \<open>\<open>filter(time__lte=ts).order_by("-time").first()\<close>.\<close>

definition latest_upto :: "int \<Rightarrow> (int \<times> 'a) list \<Rightarrow> 'a option" where
  "latest_upto ts rows = map_option snd (first_sorted (\<lambda>r. - fst r) (filter (\<lambda>r. fst r \<le> ts) rows))"

section \<open>Stored cycle snapshots\<close>

text \<open>\<open>CycleSnapshotRecord\<close>, its columns and the keys of its details. The local times and day name are left out.\<close>

record cycle_row =
  cw_timestamp :: int
  cw_version :: string
  cw_session :: session_type
  cw_progress :: rat
  cw_high_liquidity :: bool
  cw_bars_since :: int
  cw_percentile :: "rat option"
  cw_mature :: bool
  cw_blocked :: bool
  cw_score :: rat
  cw_profile :: string
  cw_status :: string
  cw_artifact :: "string option"
  cw_session_score :: rat
  cw_session_quality :: sample_quality
  cw_session_n :: rat
  cw_market_bars :: int
  cw_market_hours :: rat
  cw_known_bars :: int
  cw_known_hours :: rat
  cw_swing_score :: rat
  cw_swing_quality :: sample_quality
  cw_swing_n :: rat
  cw_calendar_day :: int
  cw_calendar_hour :: int
  cw_calendar_month :: int
  cw_calendar_month_end :: bool
  cw_calendar_score :: rat
  cw_calendar_stability :: rat
  cw_calendar_quality :: sample_quality
  cw_calendar_n :: rat
  cw_macro_next :: "int option"
  cw_macro_since :: "int option"
  cw_macro_value :: "string option"
  cw_macro_event :: "string option"
  cw_macro_healthy :: bool

text \<open>The row of a snapshot with macro context \<open>m\<close>.\<close>

definition cycle_row_of :: "full_snapshot \<Rightarrow> macro_context \<Rightarrow> cycle_row" where
  "cycle_row_of s m = \<lparr>cw_timestamp = assume_utc (cy_timestamp s), cw_version = cy_version s,
     cw_session = sx_session (cy_session s), cw_progress = sx_progress (cy_session s),
     cw_high_liquidity = sx_high_liquidity (cy_session s), cw_bars_since = wx_known_bars (cy_swing s),
     cw_percentile = wx_percentile (cy_swing s), cw_mature = wx_mature (cy_swing s), cw_blocked = cy_blocked s,
     cw_score = cy_score s, cw_profile = cy_profile_name s, cw_status = cy_status s, cw_artifact = cy_artifact s,
     cw_session_score = sx_score (cy_session s), cw_session_quality = sx_quality (cy_session s),
     cw_session_n = sx_effective_n (cy_session s), cw_market_bars = wx_market_bars (cy_swing s),
     cw_market_hours = wx_market_hours (cy_swing s), cw_known_bars = wx_known_bars (cy_swing s),
     cw_known_hours = wx_known_hours (cy_swing s), cw_swing_score = wx_score (cy_swing s),
     cw_swing_quality = wx_quality (cy_swing s), cw_swing_n = wx_effective_n (cy_swing s),
     cw_calendar_day = kx_day_of_week (cy_calendar s), cw_calendar_hour = kx_hour_utc (cy_calendar s),
     cw_calendar_month = kx_month (cy_calendar s), cw_calendar_month_end = kx_month_end (cy_calendar s),
     cw_calendar_score = kx_score (cy_calendar s), cw_calendar_stability = kx_stability (cy_calendar s),
     cw_calendar_quality = kx_quality (cy_calendar s), cw_calendar_n = kx_effective_n (cy_calendar s),
     cw_macro_next = minutes_to_next_event m, cw_macro_since = minutes_since_last_event m,
     cw_macro_value = point_in_time_value m, cw_macro_event = active_event_name m, cw_macro_healthy = is_feed_healthy m\<rparr>"

definition rehydrate_cycle_3a_snapshot :: "cycle_row \<Rightarrow> full_snapshot" where
  "rehydrate_cycle_3a_snapshot r = \<lparr>cy_timestamp = Aware (cw_timestamp r),
     cy_macro = Some \<lparr>is_in_blackout = cw_blocked r, minutes_to_next_event = cw_macro_next r,
       minutes_since_last_event = cw_macro_since r, active_event_name = cw_macro_event r,
       point_in_time_value = cw_macro_value r, is_feed_healthy = cw_macro_healthy r\<rparr>,
     cy_version = cw_version r, cy_profile_name = (if cw_profile r = [] then ''UNKNOWN_PROFILE'' else cw_profile r),
     cy_status = (if cw_status r = [] then ''UNKNOWN'' else cw_status r), cy_score = cw_score r,
     cy_session = \<lparr>sx_session = cw_session r, sx_progress = cw_progress r, sx_high_liquidity = cw_high_liquidity r,
       sx_score = cw_session_score r, sx_quality = cw_session_quality r, sx_effective_n = cw_session_n r\<rparr>,
     cy_swing = \<lparr>wx_market_bars = cw_market_bars r, wx_market_hours = cw_market_hours r, wx_known_bars = cw_bars_since r,
       wx_known_hours = cw_known_hours r, wx_percentile = cw_percentile r, wx_mature = cw_mature r,
       wx_score = cw_swing_score r, wx_quality = cw_swing_quality r, wx_effective_n = cw_swing_n r\<rparr>,
     cy_calendar = \<lparr>kx_day_of_week = cw_calendar_day r, kx_hour_utc = cw_calendar_hour r, kx_month = cw_calendar_month r,
       kx_month_end = cw_calendar_month_end r, kx_stability = cw_calendar_stability r, kx_score = cw_calendar_score r,
       kx_quality = cw_calendar_quality r, kx_effective_n = cw_calendar_n r\<rparr>,
     cy_blocked = cw_blocked r, cy_artifact = cw_artifact r\<rparr>"

text \<open>\<open>update_or_create\<close> on the unique time and version; a snapshot without macro context has no \<open>minutes_to_next_event\<close>.\<close>

definition save_cycle_snapshot :: "full_snapshot \<Rightarrow> cycle_row list \<Rightarrow> cycle_row list result" where
  "save_cycle_snapshot s rows =
     (case cy_macro s of
        None \<Rightarrow> Inl AttributeError
      | Some m \<Rightarrow> let r = cycle_row_of s m in
          Inr (if (\<exists>x \<in> set rows. cw_timestamp x = cw_timestamp r \<and> cw_version x = cw_version r)
               then map (\<lambda>x. if cw_timestamp x = cw_timestamp r \<and> cw_version x = cw_version r then r else x) rows
               else rows @ [r]))"

definition find_cycle :: "string \<Rightarrow> int \<Rightarrow> cycle_row list \<Rightarrow> cycle_row option" where
  "find_cycle version ts rows =
     (case find_first (\<lambda>r. cw_timestamp r = ts \<and> cw_version r = version) rows of
        Some r \<Rightarrow> Some r
      | None \<Rightarrow> first_sorted (\<lambda>r. - cw_timestamp r) (filter (\<lambda>r. cw_timestamp r \<le> ts \<and> cw_version r = version) rows))"

lemmas [eval_defs] = canonical_source_aliases_def normalize_canonical_source_def get_canonical_source_aliases_def
  get_engine_candles_def matches_primary_def candles_with_event_def classify_candle_gap_def gap_between_def
  map_provider_status_def primary_feed_health_def provider_sync_status_def market_15m_health_def
  effective_primary_15m_def latest_upto_def cycle_row_of_def rehydrate_cycle_3a_snapshot_def save_cycle_snapshot_def
  find_cycle_def

section \<open>Lemmas on the candles\<close>

lemma keep_last_subset: "set (keep_last cs) \<subseteq> set cs"
  by (induction cs rule: keep_last.induct) auto

lemma keep_last_closes: "timestamp_close ` set (keep_last cs) = timestamp_close ` set cs"
  by (induction cs rule: keep_last.induct) auto

lemma keep_last_Nil [simp]: "keep_last cs = [] \<longleftrightarrow> cs = []"
  by (induction cs rule: keep_last.induct) auto

lemma keep_last_sorted:
  assumes "sorted (map (\<lambda>c. instant (timestamp_close c)) cs)" "\<forall>c \<in> set cs. is_aware (timestamp_close c)"
  shows "sorted_wrt (\<lambda>c e. instant (timestamp_close c) < instant (timestamp_close e)) (keep_last cs)"
  using assms
proof (induction cs rule: keep_last.induct)
  case (1 c d cs)
  have IH: "sorted_wrt (\<lambda>c e. instant (timestamp_close c) < instant (timestamp_close e)) (keep_last (d # cs))"
    using 1 by (cases "timestamp_close c = timestamp_close d") auto
  show ?case
  proof (cases "timestamp_close c = timestamp_close d")
    case True
    with IH show ?thesis by simp
  next
    case False
    from 1(4) False have "instant (timestamp_close c) \<noteq> instant (timestamp_close d)"
      by (cases "timestamp_close c"; cases "timestamp_close d") auto
    with 1(3) have "\<forall>e \<in> set (d # cs). instant (timestamp_close c) < instant (timestamp_close e)" by auto
    with False IH keep_last_subset [of "d # cs"] show ?thesis by auto
  qed
qed simp_all

text \<open>Of the rows of one time the last one stays, and of every time of a row one stays.\<close>

lemma keep_last_exact:
  assumes "sorted (map (\<lambda>c. instant (timestamp_close c)) cs)" "\<forall>c \<in> set cs. is_aware (timestamp_close c)"
  shows "filter (\<lambda>c. instant (timestamp_close c) = t) (keep_last cs) =
    (let xs = filter (\<lambda>c. instant (timestamp_close c) = t) cs in if xs = [] then [] else [List.last xs])"
  using assms
proof (induction cs rule: keep_last.induct)
  case (1 c d cs)
  have IH: "filter (\<lambda>c. instant (timestamp_close c) = t) (keep_last (d # cs)) =
      (let xs = filter (\<lambda>c. instant (timestamp_close c) = t) (d # cs) in if xs = [] then [] else [List.last xs])"
    using 1 by (cases "timestamp_close c = timestamp_close d") auto
  show ?case
  proof (cases "timestamp_close c = timestamp_close d")
    case True
    with IH show ?thesis by (simp add: Let_def)
  next
    case False
    with 1(4) have "instant (timestamp_close c) \<noteq> instant (timestamp_close d)"
      by (cases "timestamp_close c"; cases "timestamp_close d") auto
    with 1(3) have "filter (\<lambda>e. instant (timestamp_close e) = instant (timestamp_close c)) (d # cs) = []"
      by (auto simp: filter_empty_conv)
    with False IH show ?thesis by (cases "instant (timestamp_close c) = t") (auto simp: Let_def)
  qed
qed simp_all

section \<open>Lemmas on the sources\<close>

lemma of_char_lower:
  "(of_char (if 65 \<le> (of_char c :: nat) \<and> of_char c \<le> (90 :: nat) then char_of (of_char c + 32 :: nat) else c) :: nat) =
    (if 65 \<le> (of_char c :: nat) \<and> of_char c \<le> (90 :: nat) then of_char c + 32 else of_char c)"
  by simp

lemma py_lower_idem [simp]: "py_lower (py_lower s) = py_lower s"
  unfolding py_lower_def map_map by (rule map_cong [OF refl]) (auto simp: Let_def of_char_lower)

lemma dropWhile_lower: "dropWhile py_space (py_lower s) = py_lower (dropWhile py_space s)"
  unfolding py_lower_def by (induction s) (auto simp: py_space_def Let_def of_char_lower)

lemma py_strip_lower: "py_strip (py_lower s) = py_lower (py_strip s)"
proof -
  have r: "rev (py_lower x) = py_lower (rev x)" for x by (simp add: py_lower_def rev_map)
  show ?thesis by (simp add: py_strip_def dropWhile_lower r)
qed

lemma dropWhile_strip:
  assumes "dropWhile P t = t"
  shows "dropWhile P (rev (dropWhile P (rev t))) = rev (dropWhile P (rev t))"
proof (cases "rev (dropWhile P (rev t))")
  case (Cons a u)
  have "t = rev (dropWhile P (rev t)) @ rev (takeWhile P (rev t))"
    by (metis rev_append rev_rev_ident takeWhile_dropWhile_id)
  with Cons have "hd t = a" "t \<noteq> []" by (metis append_Cons list.sel(1)) (use Cons in auto)
  with assms have "\<not> P a" by (metis hd_dropWhile)
  then show ?thesis unfolding Cons by simp
next
  case Nil
  show ?thesis unfolding Nil by simp
qed

lemma py_strip_idem [simp]: "py_strip (py_strip s) = py_strip s"
proof -
  have "dropWhile py_space (py_strip s) = py_strip s"
    unfolding py_strip_def by (rule dropWhile_strip) simp
  then show ?thesis by (simp add: py_strip_def [of "py_strip s"]) (simp add: py_strip_def)
qed

text \<open>
  What the sources of the primary listing are: its provider as written or without surrounding
  spaces, in lower case, and the two names of Twelve Data for each other.
\<close>

definition of_primary :: "string \<Rightarrow> string \<Rightarrow> bool" where
  "of_primary provider s \<longleftrightarrow> s = py_lower provider \<or> s = py_lower (py_strip provider) \<or>
     (let twelve = {''twelve_data'', ''twelve_data_xauusd''} in s \<in> twelve \<and> py_lower (py_strip provider) \<in> twelve)"

lemma canonical_aliases_exact:
  "set (get_canonical_source_aliases provider) = {s. s = py_lower (py_strip provider) \<or>
     (let twelve = {''twelve_data'', ''twelve_data_xauusd''} in s \<in> twelve \<and> py_lower (py_strip provider) \<in> twelve)}"
proof -
  define pid where "pid = py_lower (py_strip provider)"
  have "py_lower (py_strip pid) = pid" by (simp add: pid_def py_strip_lower)
  then have "normalize_canonical_source pid = (if pid = ''twelve_data'' then ''twelve_data_xauusd'' else pid)"
    by (auto simp: normalize_canonical_source_def canonical_source_aliases_def)
  then show ?thesis
    unfolding get_canonical_source_aliases_def pid_def [symmetric] Let_def
    by (auto simp: canonical_source_aliases_def)
qed

section \<open>Properties\<close>

definition eligible_rows :: "string option \<Rightarrow> string \<Rightarrow> int \<Rightarrow> int \<Rightarrow> market_row list \<Rightarrow> market_row list" where
  "eligible_rows listing timeframe ts t = filter (\<lambda>r. mr_timeframe r = timeframe \<and>
     instant (timestamp_close (mr_candle r)) = t \<and> t \<le> ts \<and> is_closed (mr_candle r) \<and>
     (\<exists>provider. listing = Some provider \<and> provider \<noteq> [] \<and> of_primary provider (source_id (mr_candle r))))"

text \<open>
  C22. The candles of a live decision are exactly the point in time evidence of the primary source.
  Their closing times are strictly increasing, and for every time the list has the candle of the last
  row stored for that time among the rows that are eligible (of the timeframe, not after the
  decision, closed, and of the provider of the active primary listing, by one of its
  names), and none when there is no eligible row: so none at all without a listing or a provider.
  Rows that close after the decision change nothing, wherever in the table they are.
\<close>

theorem live_candles_point_in_time:
  assumes "\<forall>r \<in> set rows. is_aware (timestamp_close (mr_candle r))"
    and "filter (\<lambda>r. instant (timestamp_close (mr_candle r)) \<le> ts) rows' =
      filter (\<lambda>r. instant (timestamp_close (mr_candle r)) \<le> ts) rows"
    and cs_def: "cs = get_engine_candles listing rows timeframe ts"
  shows "sorted_wrt (\<lambda>c e. instant (timestamp_close c) < instant (timestamp_close e)) cs \<and>
    (\<forall>t. filter (\<lambda>c. instant (timestamp_close c) = t) cs =
       (let rs = eligible_rows listing timeframe ts t rows in
        if rs = [] then [] else [(mr_candle (List.last rs))\<lparr>volume_evidence := VOLUME_UNAVAILABLE\<rparr>])) \<and>
    get_engine_candles listing rows' timeframe ts = cs"
proof (cases "\<exists>provider. listing = Some provider \<and> provider \<noteq> []")
  case False
  then have "eligible_rows listing timeframe ts t rows = []" "get_engine_candles listing rs timeframe ts = []" for t rs
    by (auto simp: eligible_rows_def get_engine_candles_def split: option.split)
  then show ?thesis by (simp add: cs_def)
next
  case True
  then obtain provider where p: "listing = Some provider" "provider \<noteq> []" by blast
  let ?t = "\<lambda>r. instant (timestamp_close (mr_candle r))"
  let ?E = "\<lambda>r. mr_timeframe r = timeframe \<and> ?t r \<le> ts \<and> is_closed (mr_candle r) \<and> of_primary provider (source_id (mr_candle r))"
  let ?c = "\<lambda>r. (mr_candle r)\<lparr>volume_evidence := VOLUME_UNAVAILABLE\<rparr>"
  have engine: "get_engine_candles listing rs timeframe ts =
      keep_last (sort_key (\<lambda>c. instant (timestamp_close c)) (map ?c (filter ?E rs)))" for rs
  proof -
    define A where "A = get_canonical_source_aliases provider"
    define B where "B = (if py_lower provider \<in> set A then A else A @ [py_lower provider])"
    have "set B = insert (py_lower provider) (set A)" by (auto simp: B_def)
    then have B: "s \<in> set B \<longleftrightarrow> of_primary provider s" for s
      by (simp only: A_def canonical_aliases_exact of_primary_def Un_iff insert_iff mem_Collect_eq)
    have "get_engine_candles listing rs timeframe ts = keep_last (sort_key (\<lambda>c. instant (timestamp_close c))
        (map ?c (filter (\<lambda>r. mr_timeframe r = timeframe \<and> ?t r \<le> ts \<and> is_closed (mr_candle r) \<and> source_id (mr_candle r) \<in> set B) rs)))"
      using p by (simp add: get_engine_candles_def Let_def A_def B_def)
    then show ?thesis unfolding B .
  qed
  let ?xs = "map ?c (filter ?E rows)"
  have cs: "cs = keep_last (sort_key (\<lambda>c. instant (timestamp_close c)) ?xs)" unfolding cs_def engine ..
  have aware: "\<forall>c \<in> set (sort_key (\<lambda>c. instant (timestamp_close c)) ?xs). is_aware (timestamp_close c)"
    using assms(1) by auto
  have srt: "sorted (map (\<lambda>c. instant (timestamp_close c)) (sort_key (\<lambda>c. instant (timestamp_close c)) ?xs))" by simp
  have elig: "filter (\<lambda>c. instant (timestamp_close c) = t) ?xs = map ?c (eligible_rows listing timeframe ts t rows)" for t
    by (auto simp: filter_map o_def p eligible_rows_def intro!: arg_cong [of _ _ "map ?c"] filter_cong)
  have exact: "filter (\<lambda>c. instant (timestamp_close c) = t) cs =
      (let rs = eligible_rows listing timeframe ts t rows in if rs = [] then [] else [?c (List.last rs)])" for t
    unfolding cs keep_last_exact [OF srt aware] sort_key_stable elig by (simp add: Let_def last_map)
  have "filter ?E rows' = filter ?E (filter (\<lambda>r. ?t r \<le> ts) rows')" by (auto intro: filter_cong)
  also have "\<dots> = filter ?E rows" unfolding assms(2) by (auto intro: filter_cong)
  finally have "get_engine_candles listing rows' timeframe ts = cs" unfolding cs engine by simp
  with exact keep_last_sorted [OF srt aware] cs show ?thesis by blast
qed

text \<open>
  C40. A cycle snapshot survives its storage: the snapshot of an analysis, saved and found again by
  its time and version, is the same snapshot, and the rows of other times and versions are untouched.
\<close>

theorem cycle_snapshot_roundtrip:
  assumes "analyze_cycle tz eng q = Inr s" and "timestamp_close (cq_candle q) = Aware t"
    and "cy_profile_name s \<noteq> []"
  shows "\<exists>rows'. save_cycle_snapshot s rows = Inr rows' \<and>
    map_option rehydrate_cycle_3a_snapshot (find_cycle (cy_version s) t rows') = Some s \<and>
    filter (\<lambda>r. cw_timestamp r \<noteq> t \<or> cw_version r \<noteq> cy_version s) rows' =
      filter (\<lambda>r. cw_timestamp r \<noteq> t \<or> cw_version r \<noteq> cy_version s) rows"
proof -
  obtain p :: full_profile and m where s: "cy_macro s = Some m" "cy_timestamp s = timestamp_close (cq_candle q)"
    "cy_blocked s = is_in_blackout m" and p: "cy_status s = cycle_status_value (cp_status p)"
    by (rule analyze_cycle_Inr [OF assms(1)]) blast
  let ?r = "cycle_row_of s m"
  have "cy_status s \<noteq> []" unfolding p by (cases "cp_status p") simp_all
  with s assms(2,3) have re: "rehydrate_cycle_3a_snapshot ?r = s"
    by (simp add: rehydrate_cycle_3a_snapshot_def cycle_row_of_def)
  have k: "cw_timestamp ?r = t" "cw_version ?r = cy_version s" using s assms(2) by (simp_all add: cycle_row_of_def)
  define P :: "cycle_row \<Rightarrow> bool" where "P = (\<lambda>x. cw_timestamp x = t \<and> cw_version x = cy_version s)"
  define r where "r = ?r"
  define rows' where "rows' = (if \<exists>x \<in> set rows. P x then map (\<lambda>x. if P x then r else x) rows else rows @ [r])"
  have Pr: "P r" by (simp add: P_def r_def k)
  have save: "save_cycle_snapshot s rows = Inr rows'"
    by (simp add: save_cycle_snapshot_def s(1) k rows'_def P_def r_def Let_def)
  have in_rows: "r \<in> set rows'" "\<forall>x \<in> set rows'. P x \<longrightarrow> x = r"
    by (auto simp: rows'_def)
  have "find_first P rows' = Some r"
  proof (cases "find_first P rows'")
    case None
    with in_rows(1) Pr show ?thesis unfolding find_first_None by blast
  next
    case (Some x)
    with find_first_Some [OF Some] in_rows(2) show ?thesis by blast
  qed
  then have f: "find_first (\<lambda>x. cw_timestamp x = t \<and> cw_version x = cy_version s) rows' = Some r" by (simp add: P_def)
  have "map_option rehydrate_cycle_3a_snapshot (find_cycle (cy_version s) t rows') = Some s"
    unfolding find_cycle_def f by (simp add: r_def re)
  moreover have "filter (\<lambda>x. \<not> P x) rows' = filter (\<lambda>x. \<not> P x) rows"
  proof -
    have "filter (\<lambda>x. \<not> P x) (map (\<lambda>x. if P x then r else x) xs) = filter (\<lambda>x. \<not> P x) xs" for xs
      by (induction xs) (simp_all add: Pr)
    then show ?thesis by (simp add: rows'_def Pr)
  qed
  then have "filter (\<lambda>r. cw_timestamp r \<noteq> t \<or> cw_version r \<noteq> cy_version s) rows' =
      filter (\<lambda>r. cw_timestamp r \<noteq> t \<or> cw_version r \<noteq> cy_version s) rows" by (simp add: P_def)
  ultimately show ?thesis using save by blast
qed

section \<open>What the continuity check does not see\<close>

text \<open>
  The threshold of one and a half bars is held against the distance from a close to the next open,
  which is zero without a gap: a single missing 15 minute candle goes unnoticed.
\<close>

lemma single_missing_candle_unnoticed:
  "instant (timestamp_open e) = instant (timestamp_close c) + 15 * minute \<Longrightarrow> \<not> gap_between c e"
  by (simp add: gap_between_def time_units)

text \<open>
  A gap that starts on a Sunday evening, when the market is open, is unresolved and passes; so is a
  Friday morning without candles up to the Sunday opening.
\<close>

lemma open_market_gaps_unresolved:
  "classify_candle_gap (3 * day + 22 * hour) (4 * day + 6 * hour) ''15m'' = UNRESOLVED_GAP"
  "\<not> closed_at (3 * day + 22 * hour)"
  "classify_candle_gap (1 * day + 8 * hour) (3 * day + 22 * hour) ''15m'' = UNRESOLVED_GAP"
  by (simp_all add: classify_candle_gap_def closed_at_def weekday_def hour_of_def time_units Let_def)

section \<open>Witnesses\<close>

definition stored_bars :: "market_row list" where
  "stored_bars = [\<lparr>mr_timeframe = ''15m'', mr_candle = (bar_at 0 900 100 102 99 101)\<lparr>source_id := ''other''\<rparr>\<rparr>,
     \<lparr>mr_timeframe = ''15m'', mr_candle = (bar_at 0 900 100 101 99 100)\<lparr>source_id := ''twelve_data''\<rparr>\<rparr>]"

definition later_bars :: "market_row list" where
  "later_bars = [\<lparr>mr_timeframe = ''15m'', mr_candle = (bar_at 900 1800 100 101 99 100)\<lparr>source_id := ''twelve_data''\<rparr>\<rparr>]"

theorem live_candles_point_in_time_witness:
  "(let cs = get_engine_candles (Some ''Twelve_Data_XAUUSD'') stored_bars ''15m'' (900 * second) in
    filter (\<lambda>c. instant (timestamp_close c) = 900 * second) cs =
      [(bar_at 0 900 100 101 99 100)\<lparr>source_id := ''twelve_data'', volume_evidence := VOLUME_UNAVAILABLE\<rparr>] \<and>
    get_engine_candles (Some ''Twelve_Data_XAUUSD'') (later_bars @ stored_bars) ''15m'' (900 * second) = cs)"
proof -
  have a: "\<forall>r \<in> set stored_bars. is_aware (timestamp_close (mr_candle r))" by (simp add: stored_bars_def bar_at_def)
  have f: "filter (\<lambda>r. instant (timestamp_close (mr_candle r)) \<le> 900 * second) (later_bars @ stored_bars) =
      filter (\<lambda>r. instant (timestamp_close (mr_candle r)) \<le> 900 * second) stored_bars"
    by (simp add: stored_bars_def later_bars_def bar_at_def time_units)
  have e: "eligible_rows (Some ''Twelve_Data_XAUUSD'') ''15m'' (900 * second) (900 * second) stored_bars =
      [\<lparr>mr_timeframe = ''15m'', mr_candle = (bar_at 0 900 100 101 99 100)\<lparr>source_id := ''twelve_data''\<rparr>\<rparr>]"
    by (simp add: eligible_rows_def stored_bars_def bar_at_def of_primary_def py_lower_def py_strip_def py_space_def time_units char_of_def bit_0)
  show ?thesis
    using live_candles_point_in_time [OF a f refl, of "Some ''Twelve_Data_XAUUSD''" "''15m''"]
    unfolding Let_def by (elim conjE allE [of _ "900 * second"]) (simp add: e bar_at_def)
qed

theorem cycle_snapshot_roundtrip_witness:
  "\<exists>snap rows'. save_cycle_snapshot snap [] = Inr rows' \<and> cy_score snap = 15 \<and>
     map_option rehydrate_cycle_3a_snapshot (find_cycle (cy_version snap) (44100 * second) rows') = Some snap"
proof -
  from gold_analysis obtain snap where s: "analyze_cycle winter gold_engine gold_request = Inr snap" "cy_score snap = 15"
    "cy_profile_name snap = ''GOLD''" by blast
  have "timestamp_close (cq_candle gold_request) = Aware (44100 * second)" by (simp add: gold_request_def bar_at_def)
  moreover have "cy_profile_name snap \<noteq> []" using s by simp
  ultimately show ?thesis using cycle_snapshot_roundtrip [OF s(1)] s(2) by blast
qed

end
