(* ===== verification/Live_Decision.thy ===== *)
theory Live_Decision
  imports Live_Evidence
begin

text \<open>
  The decision path of the live monitor: \<open>XauUsdLiveDecisionPipelineService.process_closed_candle\<close>
  of \<open>apps/live_monitor/services.py\<close>, with the candle adapter of \<open>adapter.py\<close> and the signal rows
  of \<open>apps/signals/services.py\<close>. The steps of the service are the stages below, in its order. Only
  the last one runs in a transaction, so the pipeline returns the database next to its answer or
  its error: what was saved before an error stays. The clock is read once. Text columns are taken
  as wide enough; the broadcasts leave the database and are not modelled, and neither are the rows
  of features, regime and structure that are saved with a cycle snapshot: the pipeline never reads
  them.
\<close>

section \<open>The call\<close>

record candle_event =
  ce_instrument :: string
  ce_timeframe :: string
  ce_candle :: candle

definition create_xauusd_candle_event ::
  "string \<Rightarrow> string \<Rightarrow> datetime \<Rightarrow> datetime \<Rightarrow> rat \<Rightarrow> rat \<Rightarrow> rat \<Rightarrow> rat \<Rightarrow> rat \<Rightarrow> string \<Rightarrow> bool \<Rightarrow> candle_event result" where
  "create_xauusd_candle_event instrument timeframe t_open t_close p_open p_high p_low p_close vol source is_final =
     (if py_upper (py_strip instrument) \<noteq> ''XAUUSD'' \<and> py_upper (py_strip instrument) \<noteq> ''XAU/USD'' then Inl ValueError
      else if \<not> is_aware t_open \<or> \<not> is_aware t_close then Inl ValueError
      else if timeframe \<noteq> ''15m'' then Inl ValueError
      else if \<not> is_final then Inl ValueError
      else if p_open \<le> 0 \<or> p_high \<le> 0 \<or> p_low \<le> 0 \<or> p_close \<le> 0 then Inl ValueError
      else if p_high < p_low \<or> p_high < p_open \<or> p_high < p_close \<or> p_low > p_open \<or> p_low > p_close then Inl ValueError
      else Inr \<lparr>ce_instrument = ''XAUUSD'', ce_timeframe = timeframe,
        ce_candle = \<lparr>timestamp_open = t_open, timestamp_close = t_close, c_open = Fin p_open, c_high = Fin p_high, c_low = Fin p_low,
          c_close = Fin p_close, volume = Fin vol, is_closed = is_final, source_id = source, quote_rate = None, close_usd = None,
          volume_evidence = VOLUME_UNAVAILABLE\<rparr>\<rparr>)"

text \<open>The tables the pipeline only reads; the rows of health and quality carry their times.\<close>

record live_tables =
  lt_configured :: bool
  lt_primary :: "string option"
  lt_secondary :: bool
  lt_rows :: "market_row list"
  lt_quality :: "(int \<times> bool) list"
  lt_primary_health :: "(int \<times> string) list"
  lt_secondary_health :: "(int \<times> string) list"
  lt_schedules :: "schedule_vintage list"
  lt_observations :: "observation_vintage list"
  lt_identities :: "string \<Rightarrow> macro_identity"

record live_call =
  lc_revision :: string
  lc_engine_version :: string
  lc_config_version :: string
  lc_feature_version :: string
  lc_cycle_version :: string
  lc_risk_version :: string
  lc_provider_status :: "string option"
  lc_transition :: "bool option"
  lc_stale :: "bool option"
  lc_macro :: "macro_context option"
  lc_signal_profile :: "signal_profile option"
  lc_risk_profile :: "risk_profile option"
  lc_cycle_profile :: "full_profile option"
  lc_dry_run :: bool

text \<open>What is not under src or outside the model: digests, the analysis fingerprint, the feature engine, zones, columns.\<close>

record live_env =
  lv_sha :: digest
  lv_hash :: text_hash
  lv_afp :: "signal_request \<Rightarrow> string \<Rightarrow> signal_decision \<Rightarrow> string"
  lv_features :: feature_engine
  lv_zones :: time_zones
  lv_column :: column
  lv_dec_text :: "rat \<Rightarrow> string"

text \<open>The tables the pipeline writes, besides those of the quote path.\<close>

record signal_row =
  sn_fp :: string
  sn_decision :: signal_decision

record live_db = quote_db +
  db_signals :: "signal_row list"
  db_plans :: "risk_plan list"
  db_cycles :: "cycle_row list"

type_synonym live_answer = "signal_row \<times> risk_plan option \<times> monitor_state"

definition with_db :: "'a result \<Rightarrow> 'd \<Rightarrow> ('a \<Rightarrow> 'b result \<times> 'd) \<Rightarrow> 'b result \<times> 'd" where
  "with_db r d f = (case r of Inl e \<Rightarrow> (Inl e, d) | Inr x \<Rightarrow> f x)"

section \<open>Validation\<close>

definition forbidden_active_aliases :: "string list" where
  "forbidden_active_aliases = [''XAUT'', ''XAUTUSD'', ''XAUTUSDT'', ''GOLD'', ''GOLD_REFERENCE'', ''XAU'']"

definition validate_event :: "bool \<Rightarrow> candle_event \<Rightarrow> int result" where
  "validate_event configured ev =
     (let c = ce_candle ev; plain = plain_instrument (ce_instrument ev) in
      if \<not> is_closed c then Inl ValueError
      else if ce_timeframe ev \<noteq> ''15m'' then Inl ValueError
      else rbind (is_expected_market_interval_closed (timestamp_open c) (timestamp_close c)) (\<lambda>shut.
        if shut then Inl ValueError
        else if py_upper (ce_instrument ev) \<in> set forbidden_active_aliases \<or> plain \<in> set forbidden_active_aliases
        then Inl ValueError
        else if plain \<noteq> ''XAUUSD'' \<and> plain \<noteq> ''XAU_USD'' then Inl ValueError
        else if \<not> configured then Inl ValueError
        else if \<not> is_aware (timestamp_close c) \<or> \<not> is_aware (timestamp_open c) then Inl ValueError
        else Inr (instant (timestamp_close c))))"

text \<open>The signal that a candle already has.\<close>

definition signal_at :: "string \<Rightarrow> int \<Rightarrow> signal_row list \<Rightarrow> signal_row option" where
  "signal_at timeframe ts rows =
     find_first (\<lambda>r. sd_timeframe (sn_decision r) = timeframe \<and> sd_timestamp (sn_decision r) = ts) rows"

section \<open>Evidence\<close>

record live_evidence =
  lx_15m :: "candle list"
  lx_1h :: "candle list"
  lx_4h :: "candle list"
  lx_1d :: "candle list"
  lx_gap :: bool
  lx_stale :: bool
  lx_primary :: feed_health
  lx_secondary :: feed_health
  lx_secondary_status :: "string option"
  lx_sync :: string

text \<open>Without an explicit flag the last quality row decides; no row means stale.\<close>

definition feed_stale :: "bool option \<Rightarrow> (int \<times> bool) list \<Rightarrow> int \<Rightarrow> bool" where
  "feed_stale flag rows ts =
     (case flag of Some b \<Rightarrow> b | None \<Rightarrow> (case latest_upto ts rows of Some b \<Rightarrow> b | None \<Rightarrow> True))"

definition persisted_status :: "live_tables \<Rightarrow> int \<Rightarrow> string option" where
  "persisted_status t ts = (if lt_primary t = None then None else latest_upto ts (lt_primary_health t))"

definition provider_transition :: "bool option \<Rightarrow> string option \<Rightarrow> feed_health \<Rightarrow> bool" where
  "provider_transition flag persisted primary =
     (case flag of Some b \<Rightarrow> b | None \<Rightarrow> persisted = Some ''TRANSITION'' \<or> primary = TRANSITION)"

definition gather_evidence :: "live_tables \<Rightarrow> live_call \<Rightarrow> candle_event \<Rightarrow> int \<Rightarrow> live_evidence" where
  "gather_evidence t call ev ts =
     (let candles = (\<lambda>timeframe. get_engine_candles (lt_primary t) (lt_rows t) timeframe ts);
          c15 = candles_with_event (lt_primary t) ts (ce_candle ev) (candles ''15m'');
          gap = continuity_gap c15;
          persisted = persisted_status t ts;
          secondary = (if lt_secondary t then latest_upto ts (lt_secondary_health t) else None);
          primary = primary_feed_health (lt_primary t \<noteq> None) persisted (lc_provider_status call)
      in \<lparr>lx_15m = c15, lx_1h = candles ''1h'', lx_4h = candles ''4h'', lx_1d = candles ''1d'', lx_gap = gap,
          lx_stale = (gap \<or> feed_stale (lc_stale call) (lt_quality t) ts), lx_primary = primary,
          lx_secondary = map_provider_status secondary, lx_secondary_status = secondary,
          lx_sync = provider_sync_status (lt_primary t \<noteq> None) persisted (lc_provider_status call)
            (provider_transition (lc_transition call) persisted primary) primary\<rparr>)"

text \<open>The health of the 15 minute feed: the market evidence merged with the provider.\<close>

definition live_primary_15m :: "live_evidence \<Rightarrow> feed_health" where
  "live_primary_15m e = effective_primary_15m (market_15m_health (lx_gap e) (lx_stale e) (lx_15m e)) (lx_primary e)"

section \<open>Cycle snapshot and macro context\<close>

text \<open>The schedule evidence covers the candle when the last known release is at most 45 days old.\<close>

definition known_schedules :: "live_tables \<Rightarrow> int \<Rightarrow> schedule_vintage list" where
  "known_schedules t ts = filter (\<lambda>v. sv_known v \<le> ts) (lt_schedules t)"

definition coverage_healthy :: "live_tables \<Rightarrow> int \<Rightarrow> bool" where
  "coverage_healthy t ts =
     (case first_sorted (\<lambda>v. - sv_scheduled v) (known_schedules t ts) of
        None \<Rightarrow> False
      | Some v \<Rightarrow> fdiv (total_seconds (ts - sv_scheduled v)) 86400 \<le> 45)"

definition live_macro_events :: "live_env \<Rightarrow> live_tables \<Rightarrow> int \<Rightarrow> macro_event list" where
  "live_macro_events env t ts =
     (if coverage_healthy t ts
      then resolve_macro_events_as_of (lv_dec_text env) (lt_identities t) (lt_schedules t) (lt_observations t) None (Aware ts)
      else [])"

definition live_macro_context ::
  "live_env \<Rightarrow> live_tables \<Rightarrow> live_call \<Rightarrow> int \<Rightarrow> cycle_row option \<Rightarrow> macro_context option" where
  "live_macro_context env t call ts row =
     (case lc_macro call of
        Some m \<Rightarrow> Some m
      | None \<Rightarrow>
          if known_schedules t ts = []
          then (case row of None \<Rightarrow> None | Some r \<Rightarrow> cy_macro (rehydrate_cycle_3a_snapshot r))
          else if row \<noteq> None \<and> cw_timestamp (the row) = ts then cy_macro (rehydrate_cycle_3a_snapshot (the row))
          else Some (evaluate_macro_event_risk (Aware ts) (Some (live_macro_events env t ts)) None None None None
                       (Some (coverage_healthy t ts))))"

text \<open>A fresh analysis. The factory of the engine fixes the version.\<close>

definition compute_cycle ::
  "live_env \<Rightarrow> live_call \<Rightarrow> candle list \<Rightarrow> regime_result option \<Rightarrow> structure_result option \<Rightarrow> macro_event list \<Rightarrow>
    full_snapshot result" where
  "compute_cycle env call c15 regime structure events =
     rbind (cycle_engine_for_xauusd (lc_cycle_profile call) (Some ''15m'') ''3.0.0-3A'') (\<lambda>eng.
       analyze_cycle (lv_zones env) eng \<lparr>cq_candle = last c15,
         cq_swings = (case structure of Some s \<Rightarrow> swings s | None \<Rightarrow> []), cq_timeframe = ''15m'',
         cq_regime = map_option rg_regime regime, cq_session_table = None, cq_events = Some events, cq_durations = None,
         cq_effective_n = None, cq_sample = None, cq_stabilities = None, cq_calendar_table = None,
         cq_instrument = Some ''XAUUSD'', cq_profile = lc_cycle_profile call\<rparr>)"

text \<open>
  The stored snapshot, or a fresh one that is saved; an error of the analysis or of the saving is
  swallowed and leaves the stored one.
\<close>

definition cycle_stage ::
  "live_env \<Rightarrow> live_tables \<Rightarrow> live_call \<Rightarrow> int \<Rightarrow> candle list \<Rightarrow> regime_result option \<Rightarrow> structure_result option \<Rightarrow>
    live_db \<Rightarrow> (full_snapshot option \<times> macro_context option) result \<times> live_db" where
  "cycle_stage env t call ts c15 regime structure d =
     (let row = find_cycle (lc_cycle_version call) ts (db_cycles d);
          stored = map_option rehydrate_cycle_3a_snapshot row;
          macro = live_macro_context env t call ts row
      in if known_schedules t ts \<noteq> [] \<and> coverage_healthy t ts \<and> (row = None \<or> cw_timestamp (the row) < ts) \<and> length c15 \<ge> 5
         then with_db (is_expected_market_interval_closed (timestamp_open (last c15)) (timestamp_close (last c15))) d (\<lambda>shut.
           if shut then (Inr (stored, macro), d)
           else (case compute_cycle env call c15 regime structure (live_macro_events env t ts) of
                   Inl _ \<Rightarrow> (Inr (stored, macro), d)
                 | Inr s \<Rightarrow> (Inr (Some s, macro),
                     if lc_dry_run call then d
                     else (case save_cycle_snapshot s (db_cycles d) of Inl _ \<Rightarrow> d | Inr rows \<Rightarrow> d\<lparr>db_cycles := rows\<rparr>))))
         else (Inr (stored, macro), d))"

section \<open>Signal\<close>

record live_features =
  lf_15m :: "feature_snapshot option"
  lf_1h :: "feature_snapshot option"
  lf_4h :: "feature_snapshot option"
  lf_1d :: "feature_snapshot option"
  lf_regime :: "regime_result option"
  lf_structure_15m :: "structure_result option"
  lf_structure_4h :: "structure_result option"

definition features_15m :: "live_env \<Rightarrow> live_evidence \<Rightarrow> live_features result" where
  "features_15m env e =
     rbind (features_of (lv_features env) (lx_15m e)) (\<lambda>f.
     rbind (structure_of (lx_15m e) f) (\<lambda>s.
       Inr \<lparr>lf_15m = f, lf_1h = None, lf_4h = None, lf_1d = None,
            lf_regime = map_option (\<lambda>x. classify_regime (for_xauusd None) x (Some ''XAUUSD'')) f,
            lf_structure_15m = s, lf_structure_4h = None\<rparr>))"

definition higher_features :: "live_env \<Rightarrow> live_evidence \<Rightarrow> live_features \<Rightarrow> live_features result" where
  "higher_features env e fs =
     rbind (features_of (lv_features env) (lx_1h e)) (\<lambda>f1h.
     rbind (features_of (lv_features env) (lx_4h e)) (\<lambda>f4h.
     rbind (features_of (lv_features env) (lx_1d e)) (\<lambda>f1d.
     rbind (structure_of (lx_4h e) f4h) (\<lambda>s4h.
       Inr (fs\<lparr>lf_1h := f1h, lf_4h := f4h, lf_1d := f1d, lf_structure_4h := s4h\<rparr>)))))"

definition live_health ::
  "live_evidence \<Rightarrow> live_features \<Rightarrow> full_snapshot option \<Rightarrow> macro_context option \<Rightarrow> runtime_feed_health" where
  "live_health e fs cyc macro = \<lparr>primary_15m = live_primary_15m e, primary_1h = feed_if (lx_1h e \<noteq> []),
     primary_4h = feed_if (lx_4h e \<noteq> []), primary_1d = feed_if (lx_1d e \<noteq> []), secondary_provider = lx_secondary e,
     secondary_provider_disagreement = False, macro_blackout_feed = fst (macro_feed macro None),
     is_macro_blackout = snd (macro_feed macro None), volume_feed = volume_health (lf_15m fs),
     phase3a_feed = feed_if (cyc \<noteq> None), phase3b_feed = MISSING, is_unclosed_candle = False\<rparr>"

definition live_request ::
  "live_call \<Rightarrow> int \<Rightarrow> live_evidence \<Rightarrow> live_features \<Rightarrow> full_snapshot option \<Rightarrow> macro_context option \<Rightarrow> signal_request" where
  "live_request call ts e fs cyc macro = \<lparr>sr_15m = lx_15m e, sr_1h = some_list (lx_1h e), sr_4h = some_list (lx_4h e),
     sr_1d = some_list (lx_1d e), sr_regime = lf_regime fs, sr_features_15m = lf_15m fs, sr_features_1h = lf_1h fs,
     sr_features_4h = lf_4h fs, sr_features_1d = lf_1d fs, sr_structure = lf_structure_15m fs,
     sr_cycle = map_option cycle_snapshot.truncate cyc, sr_cycle_profile = map_option cycle_profile.truncate (lc_cycle_profile call),
     sr_health = Some (live_health e fs cyc macro),
     sr_profile = Some (case lc_signal_profile call of Some p \<Rightarrow> p | None \<Rightarrow> uncalibrated_xauusd_signal_profile),
     sr_instrument = Some ''XAUUSD'', sr_timeframe = ''15m'', sr_as_of = Some (Aware ts)\<rparr>"

definition live_signal :: "string \<Rightarrow> string \<Rightarrow> signal_decision \<Rightarrow> signal_snapshot" where
  "live_signal fp rev_id d = \<lparr>sg_timestamp = Aware (sd_timestamp d), sg_instrument = sd_instrument d,
     sg_timeframe = sd_timeframe d, sg_state = sd_state d, sg_decision = sd_decision d,
     candidate_state = cg_state (sd_candidate d), candidate_decision = cg_decision (sd_candidate d),
     sg_long_direction = ds_long (sd_direction d), sg_short_direction = ds_short (sd_direction d),
     sg_long_timing = ds_long (sd_timing d), sg_short_timing = ds_short (sd_timing d),
     sg_hard_gate = sd_hard_gate d, sg_candidate_reason = cg_reason (sd_candidate d),
     analysis_fingerprint = fp, phase4_policy_fingerprint = sd_policy_fp d, sg_code_revision = rev_id\<rparr>"

text \<open>\<open>save_dual_side_snapshot\<close>: one row per fingerprint.\<close>

definition save_signal :: "bool \<Rightarrow> signal_row \<Rightarrow> live_db \<Rightarrow> signal_row \<times> live_db" where
  "save_signal dry r d =
     (if dry then (r, d)
      else case get_or_create sn_fp r (db_signals d) of (row, rows) \<Rightarrow> (row, d\<lparr>db_signals := rows\<rparr>))"

section \<open>Risk plan\<close>

text \<open>Only a window candidate with its decision is planned.\<close>

definition plan_candidate ::
  "digest \<Rightarrow> planner \<Rightarrow> signal_snapshot \<Rightarrow> structure_result option \<Rightarrow> rat option \<Rightarrow> structure_result option \<Rightarrow>
    risk_plan option result" where
  "plan_candidate sha pl sg s15 atr s4h =
     (let a = (case atr of Some x \<Rightarrow> Fin x | None \<Rightarrow> NotDec) in
      if candidate_state sg = BUY_WINDOW \<and> candidate_decision sg = BUY
      then rbind (plan_long sha pl sg s15 a s4h) (\<lambda>p. Inr (Some p))
      else if candidate_state sg = SELL_WINDOW \<and> candidate_decision sg = SELL
      then rbind (plan_short sha pl sg s15 a s4h) (\<lambda>p. Inr (Some p))
      else Inr None)"

text \<open>The levels as the columns of both tables store them.\<close>

definition stored_plan :: "column \<Rightarrow> risk_plan \<Rightarrow> risk_plan result" where
  "stored_plan db p =
     rbind (store_opt db 18 4 (entry_min p)) (\<lambda>e1.
     rbind (store_opt db 18 4 (entry_mid p)) (\<lambda>e2.
     rbind (store_opt db 18 4 (entry_max p)) (\<lambda>e3.
     rbind (store_opt db 18 4 (stop_structure p)) (\<lambda>s1.
     rbind (store_opt db 18 4 (stop_atr p)) (\<lambda>s2.
     rbind (store_opt db 18 4 (stop_final p)) (\<lambda>s3.
     rbind (store_opt db 8 4 (stop_distance_atr p)) (\<lambda>s4.
     rbind (store_opt db 18 4 (tp1 p)) (\<lambda>t1.
     rbind (store_opt db 18 4 (tp2 p)) (\<lambda>t2.
     rbind (store_opt db 8 4 (rr_tp1 p)) (\<lambda>r1.
     rbind (store_opt db 8 4 (rr_tp2 p)) (\<lambda>r2.
       Inr (p\<lparr>entry_min := e1, entry_mid := e2, entry_max := e3, stop_structure := s1, stop_atr := s2, stop_final := s3,
              stop_distance_atr := s4, tp1 := t1, tp2 := t2, rr_tp1 := r1, rr_tp2 := r2\<rparr>))))))))))))"

definition save_plan :: "column \<Rightarrow> bool \<Rightarrow> risk_plan option \<Rightarrow> live_db \<Rightarrow> risk_plan option result \<times> live_db" where
  "save_plan db dry plan d =
     (case plan of
        None \<Rightarrow> (Inr None, d)
      | Some p \<Rightarrow>
          if dry then (Inr (Some p), d)
          else (case find_row risk_plan_fp (risk_plan_fp p) (db_plans d) of
                  Some r \<Rightarrow> (Inr (Some r), d)
                | None \<Rightarrow> with_db (stored_plan db p) d (\<lambda>q. (Inr (Some p), d\<lparr>db_plans := db_plans d @ [q]\<rparr>))))"

section \<open>Publication\<close>

fun feed_health_value :: "feed_health \<Rightarrow> string" where
  "feed_health_value HEALTHY = ''HEALTHY''"
| "feed_health_value UNHEALTHY = ''UNHEALTHY''"
| "feed_health_value STALE = ''STALE''"
| "feed_health_value TRANSITION = ''TRANSITION''"
| "feed_health_value MISSING = ''MISSING''"
| "feed_health_value UNKNOWN_HEALTH = ''UNKNOWN''"

text \<open>The merged feed data: the flags of the open incidents stay, everything else is replaced.\<close>

definition merged_feed_data ::
  "live_evidence \<Rightarrow> runtime_feed_health \<Rightarrow> candle \<Rightarrow> risk_plan option \<Rightarrow> feed_data \<Rightarrow> feed_data" where
  "merged_feed_data e rfh c plan fd = fd\<lparr>
     fd_primary := Some (feed_health_value (lx_primary e)),
     fd_secondary := Some (case lx_secondary_status e of Some s \<Rightarrow> s | None \<Rightarrow> ''MISSING''),
     fd_macro := Some (feed_health_value (macro_blackout_feed rfh)), fd_sync := Some (lx_sync e),
     fd_primary_15m := Some (feed_health_value (primary_15m rfh)), fd_reference_price := Some (c_close c),
     fd_reference_time := Some (timestamp_close c),
     fd_reference_source := Some (if source_id c = [] then ''twelve_data'' else source_id c),
     fd_invalidation :=
       (case plan of Some p \<Rightarrow> if \<not> rp_valid p \<and> rp_reasons p \<noteq> [] then Some (rp_reasons p) else None | None \<Rightarrow> None)\<rparr>"

text \<open>The entry zone of the plan against the last stored quote.\<close>

definition decision_zone :: "risk_plan option \<Rightarrow> monitor_state \<Rightarrow> (zone_status \<times> rat option) result" where
  "decision_zone plan st =
     (case plan of
        None \<Rightarrow> Inr (NO_ACTIVE_ZONE, None)
      | Some p \<Rightarrow>
          if rp_valid p \<and> simulation_eligible p \<and> truthy (entry_min p) \<and> truthy (entry_max p)
          then (case side_price (rp_side p) (current_bid st) (current_ask st) of
                  Some x \<Rightarrow> read_zone False (the (entry_min p)) (the (entry_max p)) x
                | None \<Rightarrow> Inr (NO_ACTIVE_ZONE, None))
          else Inr (NO_ACTIVE_ZONE, None))"

text \<open>The field-scoped update of the decision-owned columns.\<close>

definition update_decision_columns ::
  "column \<Rightarrow> live_call \<Rightarrow> int \<Rightarrow> int \<Rightarrow> string \<Rightarrow> signal_decision \<Rightarrow> risk_plan option \<Rightarrow> feed_data \<Rightarrow> zone_status \<Rightarrow>
    rat option \<Rightarrow> monitor_state \<Rightarrow> monitor_state result" where
  "update_decision_columns db call now ts fp dec plan fd zone gap st =
     rbind (case plan of None \<Rightarrow> Inr None | Some p \<Rightarrow> rbind (stored_plan db p) (\<lambda>q. Inr (Some q))) (\<lambda>row.
     rbind (store_opt db 8 4 gap) (\<lambda>dp.
     let level = (\<lambda>f. case row of None \<Rightarrow> None | Some q \<Rightarrow> f q);
         action = (case plan of None \<Rightarrow> WAIT | Some p \<Rightarrow> publication_action p) in
     Inr (st\<lparr>lm_candle_ts := Some ts, lm_analysis_ts := Some now, lm_candidate_state := Some (cg_state (sd_candidate dec)),
       lm_candidate_decision := Some (cg_decision (sd_candidate dec)), lm_published_state := Some (sd_state dec),
       lm_published_decision := Some (sd_decision dec), lm_long_direction := total_score (ds_long (sd_direction dec)),
       lm_short_direction := total_score (ds_short (sd_direction dec)), lm_long_timing := total_score (ds_long (sd_timing dec)),
       lm_short_timing := total_score (ds_short (sd_timing dec)), lm_risk_side := map_option rp_side plan,
       lm_risk_status := map_option rp_status plan,
       lm_candidate_action := Some (case plan of None \<Rightarrow> WAIT | Some p \<Rightarrow> candidate_action p),
       lm_publication_action := Some action, lm_effective_action := action,
       lm_plan_valid := (case plan of None \<Rightarrow> False | Some p \<Rightarrow> rp_valid p),
       lm_eligible := (case plan of None \<Rightarrow> False | Some p \<Rightarrow> simulation_eligible p),
       lm_entry_min := level entry_min, lm_entry_mid := level entry_mid, lm_entry_max := level entry_max,
       lm_stop_structure := level stop_structure, lm_stop_atr := level stop_atr, lm_stop_final := level stop_final,
       lm_stop_distance := level stop_distance_atr, lm_tp1 := level tp1, lm_tp2 := level tp2, lm_rr1 := level rr_tp1,
       lm_rr2 := level rr_tp2, lm_candidate_reason := Some (ex_candidate (sd_explanation dec)),
       lm_publication_reason := Some (ex_publication (sd_explanation dec)), lm_profile_name := Some (sd_profile_name dec),
       lm_calibration := Some (sd_calibration dec), lm_policy_fp := Some (sd_policy_fp dec), lm_analysis_fp := Some fp,
       lm_plan_fp := map_option risk_plan_fp plan, lm_source_fp := Some fp,
       lm_reasons_positive := ex_long_pos (sd_explanation dec) @ ex_short_pos (sd_explanation dec),
       lm_reasons_negative := ex_long_neg (sd_explanation dec) @ ex_short_neg (sd_explanation dec),
       lm_gate_reasons := ex_hard_gate (sd_explanation dec), feed_health_data := fd, entry_zone_status := zone,
       zone_distance := dp,
       lm_versions := [lc_engine_version call, lc_config_version call, lc_feature_version call, lc_cycle_version call,
         lc_risk_version call, lc_revision call],
       lm_decision_sequence := lm_decision_sequence st + 1\<rparr>)))"

definition monitor_or_blank :: "live_db \<Rightarrow> monitor_state" where
  "monitor_or_blank d = (case db_states d ''XAUUSD'' of Some st \<Rightarrow> st | None \<Rightarrow> blank_monitor ''XAUUSD'')"

text \<open>The transaction: the monitor and the alerts, or nothing.\<close>

definition publish_decision ::
  "live_env \<Rightarrow> live_call \<Rightarrow> int \<Rightarrow> int \<Rightarrow> candle \<Rightarrow> live_evidence \<Rightarrow> runtime_feed_health \<Rightarrow> string \<Rightarrow> signal_decision \<Rightarrow>
    risk_plan option \<Rightarrow> live_db \<Rightarrow> monitor_state result \<times> live_db" where
  "publish_decision env call now ts c e rfh fp dec plan d =
     (let st = monitor_or_blank d in
      with_db (decision_zone plan st) d (\<lambda>(zone, gap).
      with_db (update_decision_columns (lv_column env) call now ts fp dec plan
                 (merged_feed_data e rfh c plan (feed_health_data st)) zone gap st) d (\<lambda>st1.
        (Inr st1, (save_monitor ''XAUUSD'' st1 d)\<lparr>db_alerts :=
           snd (evaluate_closed_candle_alerts (lv_hash env) fp dec plan now (db_alerts d))\<rparr>))))"

section \<open>The pipeline\<close>

text \<open>From the signal on.\<close>

definition act_on_signal ::
  "live_env \<Rightarrow> live_call \<Rightarrow> int \<Rightarrow> int \<Rightarrow> candle \<Rightarrow> live_evidence \<Rightarrow> live_features \<Rightarrow> signal_request \<Rightarrow> signal_decision \<Rightarrow>
    live_db \<Rightarrow> live_answer result \<times> live_db" where
  "act_on_signal env call now ts c e fs req dec d =
     (let rev_id = py_strip (lc_revision call); fp = lv_afp env req rev_id dec;
          (row, d1) = save_signal (lc_dry_run call) \<lparr>sn_fp = fp, sn_decision = dec\<rparr> d in
      with_db (make_planner (lv_sha env) (lc_revision call) (lc_risk_profile call) (lc_risk_version call)) d1 (\<lambda>pl.
      with_db (plan_candidate (lv_sha env) pl (live_signal fp rev_id dec) (lf_structure_15m fs)
                 (case lf_15m fs of Some f \<Rightarrow> atr14 f | None \<Rightarrow> None) (lf_structure_4h fs)) d1 (\<lambda>plan.
      case save_plan (lv_column env) (lc_dry_run call) plan d1 of
        (Inl err, d2) \<Rightarrow> (Inl err, d2)
      | (Inr rec, d2) \<Rightarrow>
          if lc_dry_run call then (Inr (row, rec, monitor_or_blank d2), d2)
          else (case publish_decision env call now ts c e (the (sr_health req)) fp dec plan d2 of
                  (Inl err, d3) \<Rightarrow> (Inl err, d3)
                | (Inr st, d3) \<Rightarrow> (Inr (row, rec, st), d3)))))"

definition decide_candle ::
  "live_env \<Rightarrow> live_tables \<Rightarrow> live_call \<Rightarrow> int \<Rightarrow> candle_event \<Rightarrow> int \<Rightarrow> live_db \<Rightarrow> live_answer result \<times> live_db" where
  "decide_candle env t call now ev ts d =
     (let e = gather_evidence t call ev ts in
      with_db (features_15m env e) d (\<lambda>f15.
      case cycle_stage env t call ts (lx_15m e) (lf_regime f15) (lf_structure_15m f15) d of
        (Inl err, d1) \<Rightarrow> (Inl err, d1)
      | (Inr (cyc, macro), d1) \<Rightarrow>
          with_db (higher_features env e f15) d1 (\<lambda>fs.
          if py_strip (lc_revision call) = [] then (Inl ValueError, d1)
          else with_db (analyze (lv_sha env) (live_request call ts e fs cyc macro)) d1 (\<lambda>dec.
            act_on_signal env call now ts (ce_candle ev) e fs (live_request call ts e fs cyc macro) dec d1))))"

definition process_closed_candle ::
  "live_env \<Rightarrow> live_tables \<Rightarrow> live_call \<Rightarrow> int \<Rightarrow> candle_event \<Rightarrow> live_db \<Rightarrow> live_answer result \<times> live_db" where
  "process_closed_candle env t call now ev d =
     with_db (validate_event (lt_configured t) ev) d (\<lambda>ts.
     case (if lc_dry_run call then None else signal_at (ce_timeframe ev) ts (db_signals d)) of
       Some r \<Rightarrow>
         (Inr (r, find_row rp_source_fingerprint (sn_fp r) (db_plans d), monitor_or_blank d),
          save_monitor ''XAUUSD'' (monitor_or_blank d) d)
     | None \<Rightarrow> decide_candle env t call now ev ts d)"

lemmas [eval_defs] = create_xauusd_candle_event_def with_db_def forbidden_active_aliases_def validate_event_def signal_at_def
  feed_stale_def persisted_status_def provider_transition_def gather_evidence_def live_primary_15m_def known_schedules_def
  coverage_healthy_def live_macro_events_def live_macro_context_def compute_cycle_def cycle_stage_def features_15m_def
  higher_features_def live_health_def live_request_def live_signal_def save_signal_def plan_candidate_def stored_plan_def
  save_plan_def merged_feed_data_def decision_zone_def update_decision_columns_def monitor_or_blank_def publish_decision_def
  act_on_signal_def decide_candle_def process_closed_candle_def

section \<open>What the stages leave\<close>

lemma with_db_simps [simp]: "with_db (Inl e) d f = (Inl e, d)" "with_db (Inr x) d f = f x"
  by (simp_all add: with_db_def)

lemma with_db_cases:
  assumes "with_db x d f = (r, d')"
  obtains err where "x = Inl err" "r = Inl err" "d' = d" | y where "x = Inr y" "f y = (r, d')"
  using assms by (cases x) auto

definition only_cycles :: "live_call \<Rightarrow> live_db \<Rightarrow> live_db \<Rightarrow> bool" where
  "only_cycles call d d' \<longleftrightarrow> (\<exists>rows. d' = d\<lparr>db_cycles := rows\<rparr> \<and> (lc_dry_run call \<longrightarrow> rows = db_cycles d))"

lemma only_cycles_refl [simp]: "only_cycles call d d"
  unfolding only_cycles_def by (rule exI [of _ "db_cycles d"]) simp

lemma only_cycles_saved [simp]: "\<not> lc_dry_run call \<Longrightarrow> only_cycles call d (d\<lparr>db_cycles := rows\<rparr>)"
  unfolding only_cycles_def by blast

lemma cycle_stage_leaves: "only_cycles call d (snd (cycle_stage env t call ts cs rg s d))"
  unfolding cycle_stage_def Let_def with_db_def by (simp split: sum.split)

text \<open>A candle that is decided: what is evaluated, and the database handed to the signal stage.\<close>

lemma decide_candle_cases:
  assumes "decide_candle env t call now ev ts d = (r, d')"
  obtains err where "r = Inl err" "only_cycles call d d'"
    | e fs cyc macro dec d1 where "e = gather_evidence t call ev ts" "only_cycles call d d1"
      "analyze (lv_sha env) (live_request call ts e fs cyc macro) = Inr dec"
      "act_on_signal env call now ts (ce_candle ev) e fs (live_request call ts e fs cyc macro) dec d1 = (r, d')"
  using assms unfolding decide_candle_def Let_def
proof (cases rule: with_db_cases)
  case (1 err)
  then show ?thesis by (intro that(1) [of err]) simp_all
next
  case (2 f15)
  define e where "e = gather_evidence t call ev ts"
  obtain out d1 where c: "cycle_stage env t call ts (lx_15m e) (lf_regime f15) (lf_structure_15m f15) d = (out, d1)"
    by (metis prod.exhaust)
  with cycle_stage_leaves have kept: "only_cycles call d d1" by (metis snd_conv)
  show ?thesis
  proof (cases out)
    case (Inl err)
    with 2(2) c kept show ?thesis by (intro that(1) [of err]) (simp_all add: e_def)
  next
    case (Inr cm)
    obtain cyc macro where cm: "cm = (cyc, macro)" by (cases cm)
    from 2(2) c [unfolded Inr cm] have "with_db (higher_features env e f15) d1 (\<lambda>fs. if py_strip (lc_revision call) = [] then (Inl ValueError, d1)
        else with_db (analyze (lv_sha env) (live_request call ts e fs cyc macro)) d1 (\<lambda>dec.
          act_on_signal env call now ts (ce_candle ev) e fs (live_request call ts e fs cyc macro) dec d1)) = (r, d')"
      unfolding e_def by simp
    then show ?thesis
    proof (cases rule: with_db_cases)
      case (1 err)
      with kept show ?thesis by (intro that(1) [of err]) simp_all
    next
      case fs: (2 fs)
      show ?thesis
      proof (cases "py_strip (lc_revision call) = []")
        case True
        with fs kept show ?thesis by (intro that(1) [of ValueError]) simp_all
      next
        case False
        with fs have "with_db (analyze (lv_sha env) (live_request call ts e fs cyc macro)) d1 (\<lambda>dec.
          act_on_signal env call now ts (ce_candle ev) e fs (live_request call ts e fs cyc macro) dec d1) = (r, d')" by simp
        then show ?thesis by (rule with_db_cases) (use kept that in \<open>auto simp: e_def\<close>)
      qed
    qed
  qed
qed

text \<open>The plan of a decision: what the planner made of it, or none.\<close>

definition planned :: "live_env \<Rightarrow> live_call \<Rightarrow> live_features \<Rightarrow> string \<Rightarrow> signal_decision \<Rightarrow> risk_plan option \<Rightarrow> bool" where
  "planned env call fs fp dec plan \<longleftrightarrow>
     (\<exists>pl. make_planner (lv_sha env) (lc_revision call) (lc_risk_profile call) (lc_risk_version call) = Inr pl \<and>
        plan_candidate (lv_sha env) pl (live_signal fp (py_strip (lc_revision call)) dec) (lf_structure_15m fs)
          (case lf_15m fs of Some f \<Rightarrow> atr14 f | None \<Rightarrow> None) (lf_structure_4h fs) = Inr plan)"

definition plan_added :: "column \<Rightarrow> bool \<Rightarrow> risk_plan option \<Rightarrow> live_db \<Rightarrow> live_db \<Rightarrow> bool" where
  "plan_added db dry plan d d' \<longleftrightarrow>
     d' = d \<or> (\<exists>p q. plan = Some p \<and> \<not> dry \<and> stored_plan db p = Inr q \<and> risk_plan_fp p \<notin> risk_plan_fp ` set (db_plans d) \<and>
       d' = d\<lparr>db_plans := db_plans d @ [q]\<rparr>)"

lemma save_plan_leaves: "plan_added db dry plan d (snd (save_plan db dry plan d))"
  by (auto simp: plan_added_def save_plan_def with_db_def find_row_None split: option.split sum.split)

lemma save_plan_None: "save_plan db dry None d = (Inr None, d)"
  by (simp add: save_plan_def)

lemma publish_decision_cases:
  assumes "publish_decision env call now ts c e rfh fp dec plan d = (r, d')"
  obtains err where "r = Inl err" "d' = d"
    | zone gap st where "decision_zone plan (monitor_or_blank d) = Inr (zone, gap)"
      "update_decision_columns (lv_column env) call now ts fp dec plan
         (merged_feed_data e rfh c plan (feed_health_data (monitor_or_blank d))) zone gap (monitor_or_blank d) = Inr st"
      "r = Inr st" "d' = (save_monitor ''XAUUSD'' st d)\<lparr>db_alerts :=
         snd (evaluate_closed_candle_alerts (lv_hash env) fp dec plan now (db_alerts d))\<rparr>"
  using assms unfolding publish_decision_def Let_def
proof (cases rule: with_db_cases)
  case (1 err)
  then show ?thesis by (intro that(1) [of err]) simp_all
next
  case (2 zg)
  obtain zone gap where zg: "zg = (zone, gap)" by (cases zg)
  from 2(2) [unfolded zg prod.case] show ?thesis
  proof (cases rule: with_db_cases)
    case (1 err)
    then show ?thesis by (intro that(1) [of err]) simp_all
  next
    case (2 st)
    with \<open>decision_zone plan (monitor_or_blank d) = Inr zg\<close> zg show ?thesis by (intro that(2) [of zone gap st]) auto
  qed
qed

text \<open>The signal is saved first, whatever happens next.\<close>

lemma act_on_signal_cases:
  assumes "act_on_signal env call now ts c e fs req dec d = (r, d')"
    and "fp = lv_afp env req (py_strip (lc_revision call)) dec"
    and "save_signal (lc_dry_run call) \<lparr>sn_fp = fp, sn_decision = dec\<rparr> d = (row, d1)"
  obtains err where "r = Inl err" "d' = d1"
    | err plan where "r = Inl err" "planned env call fs fp dec plan" "plan_added (lv_column env) (lc_dry_run call) plan d1 d'"
    | rec where "lc_dry_run call" "r = Inr (row, rec, monitor_or_blank d1)" "d' = d1"
    | plan rec d2 st where "\<not> lc_dry_run call" "planned env call fs fp dec plan"
      "save_plan (lv_column env) False plan d1 = (Inr rec, d2)" "plan_added (lv_column env) False plan d1 d2"
      "publish_decision env call now ts c e (the (sr_health req)) fp dec plan d2 = (Inr st, d')" "r = Inr (row, rec, st)"
  using assms(1) unfolding act_on_signal_def Let_def assms(2) [symmetric] assms(3) prod.case
proof (cases rule: with_db_cases)
  case (1 err)
  then show ?thesis by (intro that(1) [of err]) simp_all
next
  case pl: (2 pl)
  from pl(2) show ?thesis
  proof (cases rule: with_db_cases)
    case (1 err)
    then show ?thesis by (intro that(1) [of err]) simp_all
  next
    case plan: (2 plan)
    from pl(1) plan(1) have p: "planned env call fs fp dec plan" unfolding planned_def by blast
    obtain out d2 where s: "save_plan (lv_column env) (lc_dry_run call) plan d1 = (out, d2)" by (metis prod.exhaust)
    with save_plan_leaves have a: "plan_added (lv_column env) (lc_dry_run call) plan d1 d2" by (metis snd_conv)
    obtain out' d3 where q: "publish_decision env call now ts c e (the (sr_health req)) fp dec plan d2 = (out', d3)" by (metis prod.exhaust)
    show ?thesis
    proof (cases out)
      case (Inl err)
      with plan(2) s p a show ?thesis by (intro that(2) [of err plan]) auto
    next
      case out: (Inr rec)
      show ?thesis
      proof (cases "lc_dry_run call")
        case True
        with a have "d2 = d1" by (simp add: plan_added_def)
        with plan(2) s out True show ?thesis by (intro that(3) [of rec]) auto
      next
        case False
        show ?thesis
        proof (cases out')
          case (Inl err)
          with q have "d3 = d2" by (auto elim: publish_decision_cases)
          with plan(2) s out q Inl False p a show ?thesis by (intro that(2) [of err plan]) auto
        next
          case (Inr st)
          with plan(2) s out q False p a show ?thesis by (intro that(4) [of plan rec d2 st]) auto
        qed
      qed
    qed
  qed
qed

text \<open>A decision that succeeded, with everything it was made of.\<close>

lemma decision_taken:
  assumes "process_closed_candle env t call now ev d = (Inr (row, rec, st), d')" "\<not> lc_dry_run call"
    and "validate_event (lt_configured t) ev = Inr ts" "signal_at (ce_timeframe ev) ts (db_signals d) = None"
  obtains e fs cyc macro req dec d1 fp d2 plan d3 where "e = gather_evidence t call ev ts" "only_cycles call d d1"
    "req = live_request call ts e fs cyc macro" "analyze (lv_sha env) req = Inr dec"
    "fp = lv_afp env req (py_strip (lc_revision call)) dec" "save_signal False \<lparr>sn_fp = fp, sn_decision = dec\<rparr> d1 = (row, d2)"
    "planned env call fs fp dec plan" "save_plan (lv_column env) False plan d2 = (Inr rec, d3)"
    "plan_added (lv_column env) False plan d2 d3"
    "publish_decision env call now ts (ce_candle ev) e (the (sr_health req)) fp dec plan d3 = (Inr st, d')"
proof -
  from assms have "decide_candle env t call now ev ts d = (Inr (row, rec, st), d')" by (simp add: process_closed_candle_def)
  then show thesis
  proof (cases rule: decide_candle_cases)
    case (2 e fs cyc macro dec d1)
    obtain fp where fp: "fp = lv_afp env (live_request call ts e fs cyc macro) (py_strip (lc_revision call)) dec" by blast
    obtain row' d2 where s: "save_signal (lc_dry_run call) \<lparr>sn_fp = fp, sn_decision = dec\<rparr> d1 = (row', d2)" by (metis prod.exhaust)
    from act_on_signal_cases [OF 2(4) fp s] show ?thesis
    proof cases
      case (4 plan rec' d3 st')
      then have "row' = row" "rec' = rec" "st' = st" by simp_all
      with 2(1,2,3) fp s 4 assms(2) show ?thesis by (intro that [of e d1 _ fs cyc macro dec fp d2 plan d3]) simp_all
    qed (use assms(2) in simp_all)
  qed simp
qed

lemma update_decision_columns_Inr:
  assumes "update_decision_columns db call now ts fp dec plan fd zone gap st = Inr st'"
  shows "lm_candle_ts st' = Some ts \<and> lm_candidate_state st' = Some (cg_state (sd_candidate dec)) \<and>
    lm_candidate_decision st' = Some (cg_decision (sd_candidate dec)) \<and> lm_published_state st' = Some (sd_state dec) \<and>
    lm_published_decision st' = Some (sd_decision dec) \<and>
    lm_effective_action st' = (case plan of None \<Rightarrow> WAIT | Some p \<Rightarrow> publication_action p) \<and>
    lm_publication_action st' = Some (case plan of None \<Rightarrow> WAIT | Some p \<Rightarrow> publication_action p) \<and>
    lm_plan_valid st' = (case plan of None \<Rightarrow> False | Some p \<Rightarrow> rp_valid p) \<and>
    lm_eligible st' = (case plan of None \<Rightarrow> False | Some p \<Rightarrow> simulation_eligible p) \<and>
    lm_risk_side st' = map_option rp_side plan \<and> entry_zone_status st' = zone \<and>
    current_bid st' = current_bid st \<and> current_ask st' = current_ask st \<and> lm_instrument st' = lm_instrument st"
  using assms by (auto simp: update_decision_columns_def rbind_Inr_iff Let_def)

lemma live_primary_unhealthy:
  assumes "e = gather_evidence t call ev ts"
    and "map_provider_status (persisted_status t ts) \<noteq> HEALTHY \<or> lx_gap e \<or> lx_stale e \<or> lx_15m e = []"
  shows "live_primary_15m e \<noteq> HEALTHY"
proof (cases "map_provider_status (persisted_status t ts) = HEALTHY")
  case True
  with assms(2) have "market_15m_health (lx_gap e) (lx_stale e) (lx_15m e) \<noteq> HEALTHY" by (auto simp: market_15m_health_def)
  then show ?thesis by (simp add: live_primary_15m_def effective_primary_15m_def)
next
  case False
  then have "lx_primary e \<noteq> HEALTHY"
    by (auto simp: assms(1) gather_evidence_def Let_def primary_feed_health_def split: option.split)
  then show ?thesis by (simp add: live_primary_15m_def effective_primary_15m_def)
qed

lemma plan_needs_window:
  assumes "planned env call fs fp dec plan" "cg_state (sd_candidate dec) = FORCE_WAIT"
  shows "plan = None"
  using assms by (auto simp: planned_def plan_candidate_def live_signal_def Let_def)

text \<open>What any call leaves behind, errors included.\<close>

lemma process_leaves:
  assumes "process_closed_candle env t call now ev d = (r, d')"
  obtains "only_cycles call d d'"
    | "d' = save_monitor ''XAUUSD'' (monitor_or_blank d) d"
    | ts e fs cyc macro req dec d1 fp row d2 plan d3 where "validate_event (lt_configured t) ev = Inr ts"
      "lc_dry_run call \<or> signal_at ''15m'' ts (db_signals d) = None" "only_cycles call d d1"
      "req = live_request call ts e fs cyc macro" "analyze (lv_sha env) req = Inr dec"
      "save_signal (lc_dry_run call) \<lparr>sn_fp = fp, sn_decision = dec\<rparr> d1 = (row, d2)"
      "plan = None \<or> planned env call fs fp dec plan" "plan_added (lv_column env) (lc_dry_run call) plan d2 d3"
      "d' = d3 \<or> \<not> lc_dry_run call \<and> (\<exists>st. publish_decision env call now ts (ce_candle ev) e (the (sr_health req)) fp dec plan d3 = (Inr st, d'))"
  using assms unfolding process_closed_candle_def
proof (cases rule: with_db_cases)
  case (1 err)
  then show ?thesis by (intro that(1)) simp
next
  case (2 ts)
  have tf: "ce_timeframe ev = ''15m''" using 2(1) by (auto simp: validate_event_def Let_def split: if_splits)
  show ?thesis
  proof (cases "if lc_dry_run call then None else signal_at (ce_timeframe ev) ts (db_signals d)")
    case (Some row)
    with 2(2) show ?thesis by (intro that(2)) simp
  next
    case None
    with tf have n: "lc_dry_run call \<or> signal_at ''15m'' ts (db_signals d) = None" by (simp split: if_splits)
    from 2(2) None have "decide_candle env t call now ev ts d = (r, d')" by simp
    then show ?thesis
    proof (cases rule: decide_candle_cases)
      case (1 err)
      then show ?thesis by (intro that(1))
    next
      case c: (2 e fs cyc macro dec d1)
      define req where "req = live_request call ts e fs cyc macro"
      define fp where "fp = lv_afp env req (py_strip (lc_revision call)) dec"
      obtain row d2 where s: "save_signal (lc_dry_run call) \<lparr>sn_fp = fp, sn_decision = dec\<rparr> d1 = (row, d2)" by (metis prod.exhaust)
      note made = that(3) [OF 2(1) n c(2) req_def c(3) [folded req_def] s]
      from act_on_signal_cases [OF c(4) [folded req_def] fp_def s] show ?thesis
      proof cases
        case (1 err)
        then show ?thesis by (intro made [of None d2]) (simp_all add: plan_added_def)
      next
        case (2 err plan)
        then show ?thesis by (intro made [of plan d']) simp_all
      next
        case (3 rec)
        then show ?thesis by (intro made [of None d2]) (simp_all add: plan_added_def)
      next
        case (4 plan rec d3 st)
        then show ?thesis by (intro made [of plan d3]) auto
      qed
    qed
  qed
qed

lemma find_first_append: "find_first p (xs @ ys) = (case find_first p xs of Some x \<Rightarrow> Some x | None \<Rightarrow> find_first p ys)"
  by (induction xs) simp_all

lemma decided_for:
  assumes "analyze sha (live_request call ts e fs cyc macro) = Inr dec"
  shows "sd_timestamp dec = ts \<and> sd_timeframe dec = ''15m'' \<and> sd_decision dec = WAIT"
proof -
  from analyze_timestamp [OF assms] have "sd_timestamp dec = ts" by (simp add: live_request_def decision_timestamp_def)
  moreover from analyze_decides [OF assms] obtain sp dir tim h t fp where
    "decide sp dir tim h t ''XAUUSD'' (sr_timeframe (live_request call ts e fs cyc macro)) fp = Inr dec" by blast
  then have "sd_timeframe dec = ''15m'' \<and> sd_decision dec = WAIT"
    using publish_waits by (auto simp: decide_def Let_def rbind_Inr_iff live_request_def)
  ultimately show ?thesis by blast
qed

lemma plan_added_fields:
  "plan_added db dry plan d d' \<Longrightarrow> db_states d' = db_states d \<and> db_alerts d' = db_alerts d \<and> db_signals d' = db_signals d"
  by (auto simp: plan_added_def)

lemma publish_fields:
  assumes "publish_decision env call now ts c e rfh fp dec plan d = (r, d')"
  shows "db_signals d' = db_signals d \<and> db_plans d' = db_plans d"
  using assms by (rule publish_decision_cases) (simp_all add: save_monitor_def)

lemma only_cycles_fields:
  "only_cycles call d d' \<Longrightarrow> db_states d' = db_states d \<and> db_alerts d' = db_alerts d \<and> db_signals d' = db_signals d \<and> db_plans d' = db_plans d"
  by (auto simp: only_cycles_def)

lemma save_signal_cases:
  assumes "save_signal dry r d = (row, d')"
  obtains "dry" "d' = d" | "\<not> dry" "d' = d" "sn_fp r \<in> sn_fp ` set (db_signals d)"
    | "\<not> dry" "d' = d\<lparr>db_signals := db_signals d @ [r]\<rparr>" "row = r" "sn_fp r \<notin> sn_fp ` set (db_signals d)"
proof (cases dry)
  case False
  show ?thesis
  proof (cases "find_row sn_fp (sn_fp r) (db_signals d)")
    case None
    with False assms have "row = r" "d' = d\<lparr>db_signals := db_signals d @ [r]\<rparr>" by (auto simp: save_signal_def get_or_create_def)
    with None False show ?thesis by (intro that(3)) (simp_all only: find_row_None not_False_eq_True)
  next
    case (Some x)
    with False assms have "d' = d" by (simp add: save_signal_def get_or_create_def)
    with find_row_Some [OF Some] False show ?thesis by (intro that(2)) (simp_all add: image_iff, metis)
  qed
qed (use assms that(1) in \<open>simp add: save_signal_def\<close>)

section \<open>Properties\<close>

text \<open>
  C5. The decision path fails closed. A call that is no dry run decides a candle that has no signal
  yet, the effective profile holds the 15 minute feed critical (as the default does and every profile
  of the repository), and the call returns. When the stored status of the primary provider is not
  healthy at the time of the candle, whatever status the caller passes, or the candles have an
  intrasession gap, whatever the caller passes, or there are none, or the data are stale (the caller
  says so or, when it says nothing, the stored quality row of that time does, or there is no such
  row), then both layers are forced to wait, no plan is made or stored, and the row of the monitor that
  it leaves has no active zone, from which no quote drafts an alert of an entry zone. A caller that passes
  \<open>is_feed_stale=False\<close> overrides a stored stale quality row: the code lets it.
\<close>

theorem live_decision_fails_closed:
  assumes "process_closed_candle env t call now ev d = (Inr (row, rec, st), d')" "\<not> lc_dry_run call"
    and "validate_event (lt_configured t) ev = Inr ts" "signal_at (ce_timeframe ev) ts (db_signals d) = None"
    and "fp_primary_15m (sp_feed_policy (case lc_signal_profile call of Some p \<Rightarrow> p
           | None \<Rightarrow> uncalibrated_xauusd_signal_profile)) = CRITICAL"
    and "cs = candles_with_event (lt_primary t) ts (ce_candle ev) (get_engine_candles (lt_primary t) (lt_rows t) ''15m'' ts)"
    and "map_provider_status (persisted_status t ts) \<noteq> HEALTHY \<or> continuity_gap cs \<or> cs = [] \<or>
      lc_stale call = Some True \<or> lc_stale call = None \<and> latest_upto ts (lt_quality t) \<noteq> Some False"
  shows "rec = None \<and> db_plans d' = db_plans d \<and> lm_candidate_state st = Some FORCE_WAIT \<and>
    lm_candidate_decision st = Some WAIT \<and> lm_published_state st = Some FORCE_WAIT \<and> lm_published_decision st = Some WAIT \<and>
    lm_effective_action st = WAIT \<and> \<not> lm_plan_valid st \<and> \<not> lm_eligible st \<and> entry_zone_status st = NO_ACTIVE_ZONE \<and>
    db_states d' ''XAUUSD'' = Some st \<and> (\<forall>hash b a u stale up. zone_drafts hash st b a u stale up = [])"
proof (rule decision_taken [OF assms(1-4)])
  fix e' fs cyc macro req dec d1 fp d2 plan d3
  assume e: "e' = gather_evidence t call ev ts" and o: "only_cycles call d d1"
    and req: "req = live_request call ts e' fs cyc macro" and dec: "analyze (lv_sha env) req = Inr dec"
    and s: "save_signal False \<lparr>sn_fp = fp, sn_decision = dec\<rparr> d1 = (row, d2)"
    and p: "planned env call fs fp dec plan" and sp: "save_plan (lv_column env) False plan d2 = (Inr rec, d3)"
    and q: "publish_decision env call now ts (ce_candle ev) e' (the (sr_health req)) fp dec plan d3 = (Inr st, d')"
  have cs: "lx_15m e' = cs" "lx_gap e' = continuity_gap cs" "lx_stale e' = (continuity_gap cs \<or> feed_stale (lc_stale call) (lt_quality t) ts)"
    by (simp_all add: e gather_evidence_def Let_def assms(6))
  have "feed_stale (lc_stale call) (lt_quality t) ts"
    if "lc_stale call = Some True \<or> lc_stale call = None \<and> latest_upto ts (lt_quality t) \<noteq> Some False"
    using that by (auto simp: feed_stale_def split: option.split)
  then have "live_primary_15m e' \<noteq> HEALTHY" using live_primary_unhealthy [OF e] assms(7) cs by auto
  then have "is_blocked (sd_hard_gate dec)"
    using assms(5) by (intro unhealthy_blocks [OF dec]) (simp_all add: req live_request_def live_health_def profile_of_def)
  note w = blocked_waits [OF dec this]
  with plan_needs_window [OF p] have plan: "plan = None" by blast
  with sp have r: "rec = None" "d3 = d2" by (simp_all add: save_plan_None)
  have k: "db_plans d2 = db_plans d" using o s
    by (auto simp: only_cycles_def save_signal_def split: prod.splits)
  from q show ?thesis
  proof (cases rule: publish_decision_cases)
    case (2 zone gap st')
    from 2(1) plan have z: "zone = NO_ACTIVE_ZONE" by (simp add: decision_zone_def)
    from 2(3) have "st' = st" by simp
    with update_decision_columns_Inr [OF 2(2)] plan z w r k 2(4) show ?thesis
      by (simp add: save_monitor_def zone_drafts_def)
  qed simp
qed

text \<open>
  C8. One candle, one decision: when a call has added a signal, that row is the only one of its
  candle, and every later call for the same candle, with whatever evidence and profiles, answers
  that row and changes no table but for creating a missing monitor row. This holds when the first
  call failed after saving the signal, so that its plan and its alerts are never made up for.
\<close>

theorem one_decision_per_candle:
  assumes "process_closed_candle env t call now ev d = (r, d')" "db_signals d' \<noteq> db_signals d"
    and "validate_event (lt_configured t) ev = Inr ts" "validate_event (lt_configured t2) ev2 = Inr ts" "\<not> lc_dry_run call2"
  shows "\<exists>row st. filter (\<lambda>x. sd_timeframe (sn_decision x) = ''15m'' \<and> sd_timestamp (sn_decision x) = ts) (db_signals d') = [row] \<and>
    process_closed_candle env2 t2 call2 now2 ev2 d' =
      (Inr (row, find_row rp_source_fingerprint (sn_fp row) (db_plans d'), st), save_monitor ''XAUUSD'' st d') \<and>
    st = monitor_or_blank d'"
  using assms(1)
proof (cases rule: process_leaves)
  case 1
  with assms(2) only_cycles_fields show ?thesis by blast
next
  case 2
  with assms(2) show ?thesis by (simp add: save_monitor_def)
next
  case (3 ts' e fs cyc macro req dec d1 fp row d2 plan d3)
  from 3(1) assms(3) have ts: "ts' = ts" by simp
  have sig: "db_signals d' = db_signals d2" "db_signals d1 = db_signals d"
    using 3(9) publish_fields plan_added_fields [OF 3(8)] only_cycles_fields [OF 3(3)] by (auto dest: publish_fields)
  with assms(2) 3(6) have new: "db_signals d' = db_signals d @ [\<lparr>sn_fp = fp, sn_decision = dec\<rparr>]" and "\<not> lc_dry_run call"
    by (auto elim!: save_signal_cases)
  with 3(2) ts have none: "find_first (\<lambda>x. sd_timeframe (sn_decision x) = ''15m'' \<and> sd_timestamp (sn_decision x) = ts) (db_signals d) = None"
    by (simp add: signal_at_def)
  from decided_for [of "lv_sha env" call ts' e fs cyc macro dec] 3(4,5) ts
  have dec: "sd_timestamp dec = ts" "sd_timeframe dec = ''15m''" by simp_all
  let ?row = "\<lparr>sn_fp = fp, sn_decision = dec\<rparr>"
  from none have empty: "filter (\<lambda>x. sd_timeframe (sn_decision x) = ''15m'' \<and> sd_timestamp (sn_decision x) = ts) (db_signals d) = []"
    by (simp add: find_first_None filter_empty_conv)
  have "signal_at ''15m'' ts (db_signals d') = Some ?row"
    using none dec by (simp add: signal_at_def new find_first_append)
  moreover have "ce_timeframe ev2 = ''15m''" using assms(4) by (auto simp: validate_event_def Let_def split: if_splits)
  ultimately have "process_closed_candle env2 t2 call2 now2 ev2 d' =
      (Inr (?row, find_row rp_source_fingerprint (sn_fp ?row) (db_plans d'), monitor_or_blank d'),
       save_monitor ''XAUUSD'' (monitor_or_blank d') d')"
    using assms(4,5) by (simp add: process_closed_candle_def)
  moreover have "filter (\<lambda>x. sd_timeframe (sn_decision x) = ''15m'' \<and> sd_timestamp (sn_decision x) = ts) (db_signals d') = [?row]"
    using empty dec by (simp add: new)
  ultimately show ?thesis by blast
qed

text \<open>C24. A dry run writes nothing, whatever it answers and wherever it fails.\<close>

theorem dry_run_writes_nothing:
  "snd (process_closed_candle env t (call\<lparr>lc_dry_run := True\<rparr>) now ev d) = d"
proof -
  obtain r d' where p: "process_closed_candle env t (call\<lparr>lc_dry_run := True\<rparr>) now ev d = (r, d')" by (metis prod.exhaust)
  have kept: "d1 = d" if "only_cycles (call\<lparr>lc_dry_run := True\<rparr>) d d1" for d1
    using that by (auto simp: only_cycles_def)
  have "d' = d"
  proof (cases "\<exists>ts. validate_event (lt_configured t) ev = Inr ts")
    case False
    with p show ?thesis by (cases "validate_event (lt_configured t) ev") (simp_all add: process_closed_candle_def)
  next
    case True
    with p obtain ts where "decide_candle env t (call\<lparr>lc_dry_run := True\<rparr>) now ev ts d = (r, d')"
      by (auto simp: process_closed_candle_def)
    then show ?thesis
    proof (cases rule: decide_candle_cases)
      case (1 err)
      with kept show ?thesis by blast
    next
      case (2 e fs cyc macro dec d1)
      obtain row d2 where s: "save_signal (lc_dry_run (call\<lparr>lc_dry_run := True\<rparr>))
          \<lparr>sn_fp = lv_afp env (live_request (call\<lparr>lc_dry_run := True\<rparr>) ts e fs cyc macro) (py_strip (lc_revision (call\<lparr>lc_dry_run := True\<rparr>))) dec,
           sn_decision = dec\<rparr> d1 = (row, d2)" by (metis prod.exhaust)
      have "d2 = d1" using s by (simp add: save_signal_def)
      moreover have "d' = d2" by (rule act_on_signal_cases [OF 2(4) refl s]) (simp_all add: plan_added_def)
      ultimately show ?thesis using kept [OF 2(2)] by simp
    qed
  qed
  with p show ?thesis by simp
qed

section \<open>Witnesses\<close>

text \<open>A cold start: the instrument is configured, there is nothing else.\<close>

definition cold_env :: live_env where
  "cold_env = \<lparr>lv_sha = sample_digest, lv_hash = id, lv_afp = (\<lambda>_ _ _. ''p4''), lv_features = (\<lambda>_. Inl ValueError),
     lv_zones = winter, lv_column = sample_column, lv_dec_text = (\<lambda>_. [])\<rparr>"

definition cold_tables :: live_tables where
  "cold_tables = \<lparr>lt_configured = True, lt_primary = None, lt_secondary = False, lt_rows = [], lt_quality = [],
     lt_primary_health = [], lt_secondary_health = [], lt_schedules = [], lt_observations = [], lt_identities = cpi_identity\<rparr>"

definition plain_call :: live_call where
  "plain_call = \<lparr>lc_revision = ''r1'', lc_engine_version = ''4.0.0'', lc_config_version = ''c'', lc_feature_version = ''f'',
     lc_cycle_version = ''3.0.0-3A'', lc_risk_version = ''5.0.0'', lc_provider_status = Some ''HEALTHY'', lc_transition = None,
     lc_stale = Some False, lc_macro = None, lc_signal_profile = None, lc_risk_profile = None, lc_cycle_profile = None,
     lc_dry_run = False\<rparr>"

definition first_candle :: candle_event where
  "first_candle = \<lparr>ce_instrument = ''XAU/USD'', ce_timeframe = ''15m'', ce_candle = bar_at 0 900 100 101 99 100\<rparr>"

definition empty_live_db :: live_db where
  "empty_live_db = \<lparr>db_states = Map.empty, db_alerts = [], db_signals = [], db_plans = [], db_cycles = []\<rparr>"

lemma first_candle_valid: "validate_event True first_candle = Inr (900 * second)"
  by (simp add: validate_event_def first_candle_def bar_at_def is_expected_market_interval_closed_def closed_at_def weekday_def
      hour_of_def time_units plain_instrument_def py_upper_def py_upper_char_def forbidden_active_aliases_def Let_def)

lemma cold_evidence:
  "gather_evidence cold_tables plain_call first_candle ts = \<lparr>lx_15m = [], lx_1h = [], lx_4h = [], lx_1d = [], lx_gap = False,
     lx_stale = False, lx_primary = MISSING, lx_secondary = MISSING, lx_secondary_status = None, lx_sync = ''MISSING''\<rparr>"
  by (simp add: gather_evidence_def cold_tables_def plain_call_def get_engine_candles_def candles_with_event_def
      matches_primary_def persisted_status_def primary_feed_health_def map_provider_status_def feed_stale_def
      provider_sync_status_def Let_def)

lemma cold_analysis:
  assumes "e = gather_evidence cold_tables plain_call first_candle ts"
  shows "\<exists>dec. analyze sha (live_request plain_call ts e fs cyc macro) = Inr dec"
proof -
  let ?sr = "live_request plain_call ts e fs cyc macro"
  have sp: "profile_of ?sr = uncalibrated_xauusd_signal_profile" by (simp add: profile_of_def live_request_def plain_call_def)
  obtain fp where fp: "compute_phase4_policy_fingerprint sha uncalibrated_xauusd_signal_profile = Inr fp"
    using uncalibrated_fingerprint by blast
  have t: "decision_timestamp (sr_15m ?sr) (sr_as_of ?sr) = Inr ts" by (simp add: decision_timestamp_def live_request_def)
  have pit: "fst (pit_context ?sr ts) = []"
    by (simp add: pit_context_def filter_pit_candles_def live_request_def assms cold_evidence)
  have u: "feed_reported_unhealthy (sr_health ?sr)"
    by (simp add: feed_reported_unhealthy_def live_request_def live_health_def live_primary_15m_def effective_primary_15m_def
        market_15m_health_def assms cold_evidence)
  have cal: "profile_calibrated (Some uncalibrated_xauusd_signal_profile) = Inr False"
    by (simp add: profile_calibrated_def uncalibrated_not_fully_configured)
  obtain dir where dir: "calculate_xauusd_dual_direction (direction_evidence_of ?sr) (Some uncalibrated_xauusd_signal_profile) = Inr dir"
    by (simp add: calculate_xauusd_dual_direction_def cal)
  obtain tim where tim: "calculate_xauusd_dual_timing None (timing_evidence_of ?sr) (Some uncalibrated_xauusd_signal_profile) = Inr tim"
    by (simp add: calculate_xauusd_dual_timing_def cal)
  have i: "normalize_xauusd_target (sr_instrument ?sr) = Inr ''XAUUSD''"
    by (simp only: live_request_def signal_request.simps py_upper_xauusd)
  obtain dec where "decide uncalibrated_xauusd_signal_profile dir tim
      (effective_health (sr_health ?sr) (snd (pit_context ?sr ts))) ts ''XAUUSD'' (sr_timeframe ?sr) fp = Inr dec"
    using uncalibrated_decides by blast
  then show ?thesis unfolding analyze_def i rbind_simps sp Let_def fp t pit
    using dir tim u by simp
qed

lemma uncalibrated_policy_fingerprint: "\<exists>fp. compute_phase5_policy_fingerprint sha uncalibrated_xauusd_risk_profile = Inr fp"
  by (simp add: compute_phase5_policy_fingerprint_def phase5_policy_payload_def enc_exec_def enc_flt_def
      uncalibrated_xauusd_risk_profile_def empty_execution_policy_def)

lemma cold_decision:
  assumes "signal_at ''15m'' (900 * second) (db_signals d) = None" "''p4'' \<notin> sn_fp ` set (db_signals d)"
  shows "\<exists>row st d'. process_closed_candle cold_env cold_tables plain_call now first_candle d = (Inr (row, None, st), d') \<and>
    db_signals d' = db_signals d @ [row]"
proof -
  define e where e: "e = gather_evidence cold_tables plain_call first_candle (900 * second)"
  define fs :: live_features where "fs = \<lparr>lf_15m = None, lf_1h = None, lf_4h = None, lf_1d = None, lf_regime = None,
    lf_structure_15m = None, lf_structure_4h = None\<rparr>"
  define cyc where "cyc = map_option rehydrate_cycle_3a_snapshot (find_cycle ''3.0.0-3A'' (900 * second) (db_cycles d))"
  define macro where "macro = live_macro_context cold_env cold_tables plain_call (900 * second)
      (find_cycle ''3.0.0-3A'' (900 * second) (db_cycles d))"
  define req where req: "req = live_request plain_call (900 * second) e fs cyc macro"
  obtain dec where dec: "analyze sample_digest req = Inr dec" using cold_analysis [OF e] unfolding req by blast
  have "fp_primary_15m (sp_feed_policy (profile_of req)) = CRITICAL"
    by (simp add: req live_request_def profile_of_def plain_call_def uncalibrated_xauusd_signal_profile_def default_feed_policy_def)
  moreover have "case sr_health req of None \<Rightarrow> True | Some h \<Rightarrow> primary_15m h \<noteq> HEALTHY"
    by (simp add: req live_request_def live_health_def live_primary_15m_def effective_primary_15m_def market_15m_health_def e cold_evidence)
  ultimately have "cg_state (sd_candidate dec) = FORCE_WAIT" using blocked_waits [OF dec unhealthy_blocks [OF dec]] by blast
  then have none: "plan_candidate sample_digest pl (live_signal fp v dec) s15 a s4 = Inr None" for pl fp v s15 a s4
    by (simp add: plan_candidate_def live_signal_def Let_def)
  have lists: "lx_15m e = []" "lx_1h e = []" "lx_4h e = []" "lx_1d e = []" by (simp_all add: e cold_evidence)
  have f: "features_15m cold_env e = Inr fs" "higher_features cold_env e fs = Inr fs"
    by (simp_all add: features_15m_def higher_features_def features_of_def structure_of_def lists fs_def)
  have c: "cycle_stage cold_env cold_tables plain_call (900 * second) (lx_15m e) (lf_regime fs) (lf_structure_15m fs) d = (Inr (cyc, macro), d)"
    by (simp add: cycle_stage_def known_schedules_def cold_tables_def plain_call_def Let_def cyc_def macro_def)
  have rev: "py_strip (lc_revision plain_call) = ''r1''" by (simp add: plain_call_def py_strip_def py_space_def)
  obtain policy_fp where "compute_phase5_policy_fingerprint sample_digest uncalibrated_xauusd_risk_profile = Inr policy_fp"
    using uncalibrated_policy_fingerprint by blast
  then obtain pl where pl: "make_planner sample_digest (lc_revision plain_call) None ''5.0.0'' = Inr pl"
    using rev by (simp add: make_planner_def)
  define row where "row = \<lparr>sn_fp = ''p4'', sn_decision = dec\<rparr>"
  define d1 where "d1 = d\<lparr>db_signals := db_signals d @ [row]\<rparr>"
  have s: "save_signal False row d = (row, d1)"
    using assms(2) by (simp add: save_signal_def get_or_create_def row_def d1_def find_row_None [THEN iffD2])
  obtain st d2 where q: "publish_decision cold_env plain_call now (900 * second) (ce_candle first_candle) e (the (sr_health req)) ''p4'' dec None d1 = (Inr st, d2)"
    by (simp add: publish_decision_def decision_zone_def update_decision_columns_def store_opt_def Let_def)
  have env: "lv_sha cold_env = sample_digest" "\<And>x y z. lv_afp cold_env x y z = ''p4''"
    and call: "lc_dry_run plain_call = False" "lc_risk_profile plain_call = None" "lc_risk_version plain_call = ''5.0.0''"
    by (simp_all add: cold_env_def plain_call_def)
  have "act_on_signal cold_env plain_call now (900 * second) (ce_candle first_candle) e fs req dec d = (Inr (row, None, st), d2)"
    unfolding act_on_signal_def Let_def env call rev s [unfolded row_def] prod.case pl with_db_simps none save_plan_None sum.case if_False q
    by (simp add: row_def)
  then have "decide_candle cold_env cold_tables plain_call now first_candle (900 * second) d = (Inr (row, None, st), d2)"
    unfolding decide_candle_def Let_def env e [symmetric] f with_db_simps c prod.case sum.case rev req [symmetric] dec by simp
  moreover have "lt_configured cold_tables = True" "ce_timeframe first_candle = ''15m''"
    by (simp_all add: cold_tables_def first_candle_def)
  ultimately have "process_closed_candle cold_env cold_tables plain_call now first_candle d = (Inr (row, None, st), d2)"
    by (simp add: process_closed_candle_def first_candle_valid call assms(1))
  moreover have "db_signals d2 = db_signals d @ [row]" using publish_fields [OF q] by (simp add: d1_def)
  ultimately show ?thesis by blast
qed

lemma cold_start: "\<exists>row st d'. process_closed_candle cold_env cold_tables plain_call 0 first_candle empty_live_db = (Inr (row, None, st), d') \<and>
    db_signals d' = [row]"
  using cold_decision [of empty_live_db 0] by (simp add: empty_live_db_def signal_at_def)

lemma live_decision_fails_closed_witness:
  "\<exists>row st d'. process_closed_candle cold_env cold_tables plain_call 0 first_candle empty_live_db = (Inr (row, None, st), d') \<and>
    db_plans d' = [] \<and> lm_candidate_state st = Some FORCE_WAIT \<and> db_states d' ''XAUUSD'' = Some st"
proof -
  obtain row st d' where p: "process_closed_candle cold_env cold_tables plain_call 0 first_candle empty_live_db = (Inr (row, None, st), d')"
    using cold_start by blast
  have "lt_configured cold_tables = True" "\<not> lc_dry_run plain_call" "lc_signal_profile plain_call = None"
    by (simp_all add: cold_tables_def plain_call_def)
  moreover have "signal_at (ce_timeframe first_candle) (900 * second) (db_signals empty_live_db) = None" "db_plans empty_live_db = []"
    by (simp_all add: signal_at_def empty_live_db_def)
  moreover have "fp_primary_15m (sp_feed_policy uncalibrated_xauusd_signal_profile) = CRITICAL"
    by (simp add: uncalibrated_xauusd_signal_profile_def default_feed_policy_def)
  moreover have "map_provider_status (persisted_status cold_tables (900 * second)) \<noteq> HEALTHY"
    by (simp add: persisted_status_def cold_tables_def map_provider_status_def)
  ultimately show ?thesis
    using live_decision_fails_closed [OF p _ _ _ _ refl, of "900 * second"] p by (simp add: first_candle_valid)
qed

lemma one_decision_per_candle_witness:
  "\<exists>r d' row st. process_closed_candle cold_env cold_tables plain_call 0 first_candle empty_live_db = (r, d') \<and>
    process_closed_candle cold_env cold_tables plain_call 5 first_candle d' = (Inr (row, find_row rp_source_fingerprint (sn_fp row) (db_plans d'), st),
      save_monitor ''XAUUSD'' st d')"
proof -
  obtain row st d' where p: "process_closed_candle cold_env cold_tables plain_call 0 first_candle empty_live_db = (Inr (row, None, st), d')"
    and s: "db_signals d' = [row]" using cold_start by blast
  have "lt_configured cold_tables = True" "\<not> lc_dry_run plain_call" by (simp_all add: cold_tables_def plain_call_def)
  moreover have "db_signals d' \<noteq> db_signals empty_live_db" by (simp add: s empty_live_db_def)
  ultimately show ?thesis
    using one_decision_per_candle [OF p, of "900 * second" cold_tables first_candle plain_call cold_env 5] p
    by (auto simp: first_candle_valid)
qed

end
