(* ===== verification/Live_Monitor.thy ===== *)
theory Live_Monitor
  imports Live_Decision
begin

text \<open>
  The live monitor as a whole. Quotes and closed candles reach it in any order, each handled in
  turn: the quote path with its transaction, the decision path with the partial writes it leaves
  when it fails. A step relation over the database joins both; the theorems hold for every run.
  The clock, the tables that are only read and the arguments of the callers change freely
  between steps; the settings of the quote path and the environment do not.
\<close>

section \<open>Steps\<close>

inductive live_step :: "live_env \<Rightarrow> quote_settings \<Rightarrow> live_db \<Rightarrow> live_db \<Rightarrow> bool" for env qs where
  quote_step: "process_quote (lv_column env) (lv_hash env) qs override now q d = Inr (st, d') \<Longrightarrow> live_step env qs d d'"
| candle_step: "process_closed_candle env t call now ev d = (r, d') \<Longrightarrow> live_step env qs d d'"

inductive_cases live_stepE: "live_step env qs d d'"

section \<open>Invariants\<close>

text \<open>Nothing the monitor publishes asks for action.\<close>

definition monitor_waits :: "monitor_state \<Rightarrow> bool" where
  "monitor_waits st \<longleftrightarrow> lm_effective_action st = WAIT \<and> lm_published_decision st \<in> {None, Some WAIT} \<and>
     lm_publication_action st \<in> {None, Some WAIT}"

definition signal_candle :: "signal_row \<Rightarrow> string \<times> int" where
  "signal_candle r = (sd_timeframe (sn_decision r), sd_timestamp (sn_decision r))"

definition alerts_wf :: "alert list \<Rightarrow> bool" where
  "alerts_wf rows \<longleftrightarrow> distinct (map al_id rows) \<and> (\<forall>r \<in> set rows. alert_truthful r)"

definition signals_wf :: "signal_row list \<Rightarrow> bool" where
  "signals_wf rows \<longleftrightarrow> distinct (map sn_fp rows) \<and> distinct (map signal_candle rows) \<and>
     (\<forall>r \<in> set rows. sd_decision (sn_decision r) = WAIT)"

definition plans_wf :: "signal_row list \<Rightarrow> risk_plan list \<Rightarrow> bool" where
  "plans_wf rows ps \<longleftrightarrow> distinct (map risk_plan_fp ps) \<and>
     (\<forall>p \<in> set ps. publication_action p = WAIT \<and> rp_source_fingerprint p \<in> sn_fp ` set rows)"

text \<open>An entry zone is shown only for a valid plan, and truly of the stored price and levels.\<close>

definition zone_shown :: "monitor_state \<Rightarrow> bool" where
  "zone_shown st \<longleftrightarrow> entry_zone_status st = NO_ACTIVE_ZONE \<or>
     lm_plan_valid st \<and> lm_eligible st \<and>
     (\<exists>side lo hi p. watched_side st = Some side \<and> lm_entry_min st = Some lo \<and> lm_entry_max st = Some hi \<and>
        side_price side (current_bid st) (current_ask st) = Some p \<and> status_sound (entry_zone_status st) lo hi p)"

definition stored_as_is :: "column \<Rightarrow> rat option \<Rightarrow> bool" where
  "stored_as_is db v \<longleftrightarrow> (case v of None \<Rightarrow> True | Some x \<Rightarrow> db 18 4 x = Inr x)"

definition monitor_wf :: "column \<Rightarrow> monitor_state \<Rightarrow> bool" where
  "monitor_wf db st \<longleftrightarrow> monitor_waits st \<and> zone_shown st \<and> stored_as_is db (lm_entry_min st) \<and>
     stored_as_is db (lm_entry_max st) \<and> stored_as_is db (current_bid st) \<and> stored_as_is db (current_ask st)"

definition live_wf :: "column \<Rightarrow> live_db \<Rightarrow> bool" where
  "live_wf db d \<longleftrightarrow> alerts_wf (db_alerts d) \<and> signals_wf (db_signals d) \<and> plans_wf (db_signals d) (db_plans d) \<and>
     (\<forall>i st. db_states d i = Some st \<longrightarrow> monitor_wf db st)"

section \<open>Lemmas\<close>

lemma monitor_waits_blank [simp]: "monitor_waits (blank_monitor i)"
  by (simp add: monitor_waits_def blank_monitor_def)

lemma monitor_wf_blank [simp]: "monitor_wf db (blank_monitor i)"
  by (simp add: monitor_wf_def zone_shown_def stored_as_is_def monitor_waits_def blank_monitor_def)

lemma monitor_wf_feed: "monitor_wf db (st\<lparr>feed_health_data := fd\<rparr>) = monitor_wf db st"
  by (simp add: monitor_wf_def monitor_waits_def zone_shown_def watched_side_def cong: option.case_cong)

lemma monitor_for_quote_wf:
  assumes "\<forall>i st. db_states d i = Some st \<longrightarrow> monitor_wf db st"
  shows "monitor_wf db (monitor_for_quote i d)"
proof (cases "db_states d i")
  case None
  then show ?thesis
    by (simp add: monitor_for_quote_def monitor_wf_def zone_shown_def stored_as_is_def monitor_waits_def blank_monitor_def)
next
  case (Some st)
  with assms show ?thesis by (simp add: monitor_for_quote_def)
qed

lemma monitor_or_blank_wf: "\<forall>i st. db_states d i = Some st \<longrightarrow> monitor_wf db st \<Longrightarrow> monitor_wf db (monitor_or_blank d)"
  by (simp add: monitor_or_blank_def split: option.split)

lemma stored_now: "stable_column db \<Longrightarrow> db 18 4 x = Inr y \<Longrightarrow> stored_as_is db (Some y)"
  unfolding stable_column_def stored_as_is_def option.case by blast

lemma store_opt_now: "stable_column db \<Longrightarrow> store_opt db 18 4 v = Inr w \<Longrightarrow> stored_as_is db w"
  by (cases v) (auto simp: store_opt_def rbind_Inr_iff stored_as_is_def stable_column_def)

subsection \<open>Alerts\<close>

lemma raise_alerts_wf:
  assumes "alerts_wf rows" "\<forall>r \<in> set drafts. alert_truthful r"
  shows "alerts_wf (snd (raise_alerts drafts rows))"
  using assms alert_box.all_distinct [of rows drafts] alert_box.all_from_drafts [of drafts rows]
  unfolding alerts_wf_def raise_alerts_def alert_box.all_appends [of drafts rows] by auto

lemma incident_draft_truthful: "r \<in> set (incident_drafts hash st b a ts kind key bad flag) \<Longrightarrow> \<not> zone_kind kind \<Longrightarrow> alert_truthful r"
  using incident_draft_kind [of r hash st b a ts kind key bad flag] by (simp add: alert_truthful_def)

lemma quote_alerts_wf:
  assumes "evaluate_live_quote_alerts hash st b a ts stale up rows = (emitted, st', rows')" "alerts_wf rows"
  shows "alerts_wf rows'"
proof -
  note e = evaluate_live_quote_alerts_Inr [OF assms(1)]
  have "\<not> zone_kind LIVE_DATA_STALE" "\<not> zone_kind PROVIDER_UNHEALTHY" by (simp_all add: zone_kind_def)
  with e have "\<forall>r \<in> set emitted. alert_truthful r" by (blast dest: incident_draft_truthful zone_draft)
  moreover from e assms(2) have "distinct (map al_id rows')" unfolding alerts_wf_def by blast
  moreover from e have "set rows' = set rows \<union> set emitted" by simp
  ultimately show ?thesis using assms(2) unfolding alerts_wf_def by blast
qed

lemma candle_alerts_wf: "alerts_wf rows \<Longrightarrow> alerts_wf (snd (evaluate_closed_candle_alerts hash fp dec plan now rows))"
  unfolding evaluate_closed_candle_alerts_def by (rule raise_alerts_wf) (blast intro: candle_alert_truthful)+

subsection \<open>Monitor\<close>

lemma quote_monitor_wf:
  assumes "monotone_column db" "stable_column db" "monitor_wf db st"
    and z: "quote_zone st (lq_bid q) (lq_ask q) = Inr (zone, gap)"
    and u: "update_quote_columns db q age stale zone gap st = Inr st1"
  shows "monitor_wf db st1"
proof -
  note c = update_quote_columns_Inr [OF u]
  then obtain b a where ba: "db 18 4 (lq_bid q) = Inr b" "db 18 4 (lq_ask q) = Inr a" "current_bid st1 = Some b" "current_ask st1 = Some a"
    by blast
  from c have d: "decision_columns.truncate st1 = decision_columns.truncate st" by simp
  have "zone_shown st1"
  proof (cases "zone = NO_ACTIVE_ZONE")
    case True
    with c show ?thesis by (simp add: zone_shown_def)
  next
    case False
    have g: "lm_plan_valid st \<and> lm_eligible st \<and> truthy (lm_entry_min st) \<and> truthy (lm_entry_max st)"
      using z False unfolding quote_zone_def by (simp split: if_split_asm)
    then obtain lo hi where l: "lm_entry_min st = Some lo" "lm_entry_max st = Some hi" by (meson truthy_the)
    have "watched_side st \<noteq> None"
    proof
      assume "watched_side st = None"
      with z g False show False by (simp add: quote_zone_def)
    qed
    then obtain side where w: "watched_side st = Some side" by blast
    with z g l have r: "read_zone True lo hi (side_price side (lq_bid q) (lq_ask q)) = Inr (zone, gap)" by (simp add: quote_zone_def)
    from assms(3) l have levels: "db 18 4 lo = Inr lo" "db 18 4 hi = Inr hi" by (simp_all add: monitor_wf_def stored_as_is_def)
    have p: "db 18 4 (side_price side (lq_bid q) (lq_ask q)) = Inr (side_price side b a)"
      using ba by (cases side) (simp_all add: side_price_def)
    from status_sound_stored [OF assms(1) read_zone_sound [OF r] levels p]
    have "status_sound (entry_zone_status st1) lo hi (side_price side b a)" using c by simp
    moreover have "side_price side (current_bid st1) (current_ask st1) = Some (side_price side b a)"
      using ba by (cases side) (simp_all add: side_price_def)
    ultimately show ?thesis using decision_same [OF d] g l w by (simp add: zone_shown_def)
  qed
  moreover from assms(3) decision_same [OF d] have "monitor_waits st1" "stored_as_is db (lm_entry_min st1)" "stored_as_is db (lm_entry_max st1)"
    by (simp_all add: monitor_wf_def monitor_waits_def)
  moreover have "stored_as_is db (current_bid st1)" "stored_as_is db (current_ask st1)"
    using stored_now [OF assms(2)] ba by simp_all
  ultimately show ?thesis by (simp add: monitor_wf_def)
qed

lemma stored_plan_Inr:
  assumes "stored_plan db p = Inr q"
  shows "store_opt db 18 4 (entry_min p) = Inr (entry_min q) \<and> store_opt db 18 4 (entry_max p) = Inr (entry_max q) \<and>
    risk_plan_fp q = risk_plan_fp p \<and> publication_action q = publication_action p \<and>
    rp_source_fingerprint q = rp_source_fingerprint p"
  using assms by (auto simp: stored_plan_def rbind_Inr_iff)

lemma update_decision_levels:
  assumes "update_decision_columns db call now ts fp dec plan fd zone gap st = Inr st'"
  obtains "plan = None" "lm_entry_min st' = None" "lm_entry_max st' = None"
    | p q where "plan = Some p" "stored_plan db p = Inr q" "lm_entry_min st' = entry_min q" "lm_entry_max st' = entry_max q"
  using assms by (cases plan) (auto simp: update_decision_columns_def rbind_Inr_iff Let_def)

lemma decision_monitor_wf:
  assumes "monotone_column db" "stable_column db" "monitor_wf db st"
    and z: "decision_zone plan st = Inr (zone, gap)"
    and u: "update_decision_columns db call now ts fp dec plan fd zone gap st = Inr st1"
    and w: "sd_decision dec = WAIT" "\<And>p. plan = Some p \<Longrightarrow> publication_action p = WAIT"
  shows "monitor_wf db st1"
proof -
  note c = update_decision_columns_Inr [OF u]
  from c w have waits: "monitor_waits st1" by (cases plan) (simp_all add: monitor_waits_def)
  from c assms(3) have prices: "stored_as_is db (current_bid st1)" "stored_as_is db (current_ask st1)" by (simp_all add: monitor_wf_def)
  show ?thesis
  proof (rule update_decision_levels [OF u])
    assume n: "plan = None" "lm_entry_min st1 = None" "lm_entry_max st1 = None"
    with z c have "zone_shown st1" by (simp add: decision_zone_def zone_shown_def)
    with n waits prices show ?thesis by (simp add: monitor_wf_def stored_as_is_def)
  next
    fix p q
    assume p: "plan = Some p" and s: "stored_plan db p = Inr q" and l: "lm_entry_min st1 = entry_min q" "lm_entry_max st1 = entry_max q"
    note k = stored_plan_Inr [OF s]
    have "zone_shown st1"
    proof (cases "zone = NO_ACTIVE_ZONE")
      case True
      with c show ?thesis by (simp add: zone_shown_def)
    next
      case False
      have v: "rp_valid p \<and> simulation_eligible p \<and> truthy (entry_min p) \<and> truthy (entry_max p)"
        using z p False unfolding decision_zone_def by (simp split: if_split_asm)
      then obtain e1 e2 where e: "entry_min p = Some e1" "entry_max p = Some e2" by (meson truthy_the)
      have "side_price (rp_side p) (current_bid st) (current_ask st) \<noteq> None"
      proof
        assume "side_price (rp_side p) (current_bid st) (current_ask st) = None"
        with z p v False show False by (simp add: decision_zone_def)
      qed
      then obtain x where x: "side_price (rp_side p) (current_bid st) (current_ask st) = Some x" by blast
      with z p v e have r: "read_zone False e1 e2 x = Inr (zone, gap)" by (simp add: decision_zone_def)
      from k e obtain lo hi where levels: "db 18 4 e1 = Inr lo" "db 18 4 e2 = Inr hi" "entry_min q = Some lo" "entry_max q = Some hi"
        by (auto simp: store_opt_def rbind_Inr_iff)
      have "stored_as_is db (Some x)" using assms(3) x by (cases "rp_side p") (simp_all add: side_price_def monitor_wf_def)
      then have "db 18 4 x = Inr x" by (simp add: stored_as_is_def)
      from status_sound_stored [OF assms(1) read_zone_sound [OF r] levels(1,2) this]
      have "status_sound (entry_zone_status st1) lo hi x" using c by simp
      moreover have "side_price (rp_side p) (current_bid st1) (current_ask st1) = Some x" using c x by simp
      moreover have "watched_side st1 = Some (rp_side p)" using c p by (simp add: watched_side_def)
      moreover have "lm_plan_valid st1" "lm_eligible st1" using c p v by simp_all
      ultimately show ?thesis using l levels(3,4) by (simp add: zone_shown_def)
    qed
    with waits prices l k store_opt_now [OF assms(2)] show ?thesis by (simp add: monitor_wf_def) blast
  qed
qed

subsection \<open>Signals and plans\<close>

lemma plan_source:
  "plan_long sha pl sg s15 a s4 = Inr p \<Longrightarrow> rp_source_fingerprint p = analysis_fingerprint sg"
  "plan_short sha pl sg s15 a s4 = Inr p \<Longrightarrow> rp_source_fingerprint p = analysis_fingerprint sg"
  by (auto simp: plan_long_def plan_long_levels_def plan_short_def plan_short_levels_def Let_def rbind_Inr_iff base_plan_def
      with_entry_def with_stops_def with_targets_def build_invalid_snapshot_def build_valid_snapshot_def
      split: if_splits option.splits)

lemma plan_made:
  assumes "planned env call fs fp dec (Some p)"
  shows "publication_action p = WAIT \<and> rp_source_fingerprint p = fp"
proof -
  from assms obtain pl a where "plan_candidate (lv_sha env) pl (live_signal fp (py_strip (lc_revision call)) dec) (lf_structure_15m fs) a
      (lf_structure_4h fs) = Inr (Some p)" unfolding planned_def by blast
  then have "\<exists>x. plan_long (lv_sha env) pl (live_signal fp (py_strip (lc_revision call)) dec) (lf_structure_15m fs) x (lf_structure_4h fs) = Inr p \<or>
      plan_short (lv_sha env) pl (live_signal fp (py_strip (lc_revision call)) dec) (lf_structure_15m fs) x (lf_structure_4h fs) = Inr p"
    by (auto simp: plan_candidate_def Let_def rbind_Inr_iff split: if_splits)
  then show ?thesis
    using long_planner.published_wait short_planner.published_wait plan_source by (auto simp: live_signal_def)
qed

lemma signals_wf_add:
  assumes "signals_wf rows" "fp \<notin> sn_fp ` set rows" "signal_at timeframe ts rows = None"
    and "sd_timestamp dec = ts" "sd_timeframe dec = timeframe" "sd_decision dec = WAIT"
  shows "signals_wf (rows @ [\<lparr>sn_fp = fp, sn_decision = dec\<rparr>])"
  using assms by (auto simp: signals_wf_def signal_candle_def signal_at_def find_first_None)

lemma plans_wf_more: "plans_wf rows ps \<Longrightarrow> plans_wf (rows @ more_rows) ps"
  by (auto simp: plans_wf_def)

lemma plans_wf_add:
  assumes "plans_wf rows ps" "plan_added db dry plan d d'" "db_plans d = ps"
    and "\<And>p. plan = Some p \<Longrightarrow> publication_action p = WAIT \<and> rp_source_fingerprint p \<in> sn_fp ` set rows"
  shows "plans_wf rows (db_plans d')"
  using assms(2) unfolding plan_added_def
proof (elim disjE exE conjE)
  fix p q
  assume p: "plan = Some p" "stored_plan db p = Inr q" "risk_plan_fp p \<notin> risk_plan_fp ` set (db_plans d)"
    and d: "d' = d\<lparr>db_plans := db_plans d @ [q]\<rparr>"
  from stored_plan_Inr [OF p(2)] assms(4) [OF p(1)] p(3) assms(1,3) show ?thesis by (simp add: plans_wf_def d)
qed (use assms in simp)

section \<open>Steps keep the invariant\<close>

lemma quote_keeps:
  fixes d :: live_db
  assumes "monotone_column db" "stable_column db" "live_wf db d"
    and "process_quote db hash qs override now q d = Inr (st, d')"
  shows "live_wf db d'"
  using assms(4)
proof (cases rule: process_quote_cases)
  case 1
  from assms(3) monitor_for_quote_wf have "monitor_wf db st" unfolding 1(3) live_wf_def by blast
  with assms(3) 1 show ?thesis by (simp add: live_wf_def save_monitor_def)
next
  case (2 age stale zone gap st1 emitted rows)
  from assms(3) have "monitor_wf db (monitor_for_quote (lq_instrument q) d)" unfolding live_wf_def by (intro monitor_for_quote_wf) blast
  from quote_monitor_wf [OF assms(1,2) this 2(4,5)] have w: "monitor_wf db st1" .
  from evaluate_live_quote_alerts_Inr [OF 2(6)] obtain fd where "st = st1\<lparr>feed_health_data := fd\<rparr>" by blast
  with w have "monitor_wf db st" by (simp only: monitor_wf_feed)
  moreover from assms(3) have "alerts_wf (db_alerts d)" by (simp add: live_wf_def)
  note quote_alerts_wf [OF 2(6) this]
  ultimately show ?thesis using assms(3) 2(7) by (simp add: live_wf_def save_monitor_def)
qed

lemma publish_keeps:
  assumes "monotone_column (lv_column env)" "stable_column (lv_column env)" "live_wf (lv_column env) d"
    and "publish_decision env call now ts c e rfh fp dec plan d = (r, d')"
    and "sd_decision dec = WAIT" "\<And>p. plan = Some p \<Longrightarrow> publication_action p = WAIT"
  shows "live_wf (lv_column env) d'"
  using assms(4)
proof (cases rule: publish_decision_cases)
  case (1 err)
  with assms(3) show ?thesis by simp
next
  case (2 zone gap st)
  from assms(3) have "monitor_wf (lv_column env) (monitor_or_blank d)" unfolding live_wf_def by (intro monitor_or_blank_wf) blast
  from decision_monitor_wf [OF assms(1,2) this 2(1,2) assms(5,6)] have w: "monitor_wf (lv_column env) st" .
  from assms(3) have "alerts_wf (db_alerts d)" by (simp add: live_wf_def)
  from candle_alerts_wf [OF this] w assms(3) 2(4) show ?thesis by (simp add: live_wf_def save_monitor_def)
qed

lemma candle_keeps:
  assumes "monotone_column (lv_column env)" "stable_column (lv_column env)" "live_wf (lv_column env) d"
    and "process_closed_candle env t call now ev d = (r, d')"
  shows "live_wf (lv_column env) d'"
  using assms(4)
proof (cases rule: process_leaves)
  case 1
  with only_cycles_fields [OF 1] assms(3) show ?thesis by (simp add: live_wf_def)
next
  case 2
  have "monitor_wf (lv_column env) (monitor_or_blank d)" using assms(3) unfolding live_wf_def by (intro monitor_or_blank_wf) blast
  with 2 assms(3) show ?thesis by (simp add: live_wf_def save_monitor_def)
next
  case (3 ts e fs cyc macro req dec d1 fp row d2 plan d3)
  note cyc = only_cycles_fields [OF 3(3)]
  from decided_for [of "lv_sha env" call ts e fs cyc macro dec] 3(4,5)
  have dec: "sd_timestamp dec = ts" "sd_timeframe dec = ''15m''" "sd_decision dec = WAIT" by simp_all
  have made: "publication_action p = WAIT \<and> rp_source_fingerprint p = fp" if "plan = Some p" for p
    using 3(7) that plan_made by blast
  from assms(3) cyc have d1: "signals_wf (db_signals d1)" "plans_wf (db_signals d1) (db_plans d1)" by (simp_all add: live_wf_def)
  have d3: "live_wf (lv_column env) d3"
  proof (cases "lc_dry_run call")
    case True
    with 3(6,8) have "d3 = d1" by (simp add: save_signal_def plan_added_def)
    with assms(3) cyc show ?thesis by (simp add: live_wf_def)
  next
    case False
    with 3(2) cyc have none: "signal_at ''15m'' ts (db_signals d1) = None" by simp
    have d2: "signals_wf (db_signals d2) \<and> plans_wf (db_signals d2) (db_plans d2) \<and> fp \<in> sn_fp ` set (db_signals d2) \<and>
        db_states d2 = db_states d1 \<and> db_alerts d2 = db_alerts d1"
      using 3(6)
    proof (cases rule: save_signal_cases)
      case 1
      with False show ?thesis by simp
    next
      case 2
      with d1 show ?thesis by simp
    next
      case new: 3
      with signals_wf_add [OF d1(1) _ none dec] plans_wf_more [OF d1(2)] show ?thesis by simp
    qed
    with plans_wf_add [OF _ 3(8) refl] made have "plans_wf (db_signals d2) (db_plans d3)" by blast
    with d2 plan_added_fields [OF 3(8)] assms(3) cyc show ?thesis by (simp add: live_wf_def)
  qed
  from 3(9) show ?thesis
  proof (elim disjE conjE exE)
    assume "d' = d3"
    with d3 show ?thesis by simp
  next
    fix st
    assume "publish_decision env call now ts (ce_candle ev) e (the (sr_health req)) fp dec plan d3 = (Inr st, d')"
    from publish_keeps [OF assms(1,2) d3 this dec(3)] made show ?thesis by blast
  qed
qed

lemma run_keeps:
  assumes "monotone_column (lv_column env)" "stable_column (lv_column env)"
    and "(live_step env qs)\<^sup>*\<^sup>* d d'" "live_wf (lv_column env) d"
  shows "live_wf (lv_column env) d'"
  using assms(3,4)
proof (induction rule: rtranclp_induct)
  case (step d1 d2)
  from step(2) step.IH [OF step.prems] assms(1,2) show ?case
    by (cases rule: live_step.cases) (blast intro: quote_keeps candle_keeps)+
qed

section \<open>Steps only add records\<close>

definition grows :: "live_db \<Rightarrow> live_db \<Rightarrow> bool" where
  "grows d d' \<longleftrightarrow> prefix (db_signals d) (db_signals d') \<and> prefix (db_plans d) (db_plans d') \<and> prefix (db_alerts d) (db_alerts d')"

lemma grows_trans: "grows d d1 \<Longrightarrow> grows d1 d2 \<Longrightarrow> grows d d2"
  by (auto simp: grows_def dest: prefix_order.trans)

lemma quote_grows:
  fixes d :: live_db
  assumes "process_quote db hash qs override now q d = Inr (st, d')"
  shows "grows d d'"
  using assms
proof (cases rule: process_quote_cases)
  case (2 age stale zone gap st1 emitted rows)
  with evaluate_live_quote_alerts_Inr [OF 2(6)] show ?thesis by (simp add: grows_def save_monitor_def)
qed (simp add: grows_def save_monitor_def)

lemma candle_grows:
  assumes "process_closed_candle env t call now ev d = (r, d')"
  shows "grows d d'"
  using assms
proof (cases rule: process_leaves)
  case 1
  with only_cycles_fields [OF 1] show ?thesis by (simp add: grows_def)
next
  case 2
  then show ?thesis by (simp add: grows_def save_monitor_def)
next
  case (3 ts e fs cyc macro req dec d1 fp row d2 plan d3)
  have d1: "grows d d1" using only_cycles_fields [OF 3(3)] by (simp add: grows_def)
  have d2: "grows d1 d2" using 3(6) by (rule save_signal_cases) (simp_all add: grows_def)
  have d3: "grows d2 d3" using 3(8) by (auto simp: plan_added_def grows_def)
  have "grows d3 d'" using 3(9)
  proof (elim disjE conjE exE)
    fix st
    assume "publish_decision env call now ts (ce_candle ev) e (the (sr_health req)) fp dec plan d3 = (Inr st, d')"
    then show ?thesis
      by (rule publish_decision_cases)
        (simp_all add: grows_def save_monitor_def evaluate_closed_candle_alerts_def raise_alerts_def alert_box.all_appends)
  qed (simp add: grows_def)
  with d1 d2 d3 show ?thesis by (blast intro: grows_trans)
qed

lemma run_grows: "(live_step env qs)\<^sup>*\<^sup>* d d' \<Longrightarrow> grows d d'"
proof (induction rule: rtranclp_induct)
  case base
  show ?case by (simp add: grows_def)
next
  case (step d1 d2)
  from step(2) have "grows d1 d2" by (cases rule: live_step.cases) (blast intro: quote_grows candle_grows)+
  with step.IH show ?case by (rule grows_trans)
qed

lemma signal_at_prefix: "prefix xs ys \<Longrightarrow> signal_at timeframe ts xs = Some r \<Longrightarrow> signal_at timeframe ts ys = Some r"
  by (auto simp: prefix_def signal_at_def find_first_append)

section \<open>Properties\<close>

text \<open>
  C6. The records of the monitor stay consistent under every interleaving of quotes and candles,
  failing and repeated ones included: no two alerts share an event id and each zone alert is true
  of its own payload; no two signals share a fingerprint or a candle and each publishes WAIT; no
  two plans share a fingerprint, each publishes WAIT and belongs to a stored signal.
\<close>

theorem live_records_consistent:
  assumes "monotone_column (lv_column env)" "stable_column (lv_column env)" "live_wf (lv_column env) d"
    and "(live_step env qs)\<^sup>*\<^sup>* d d'"
  shows "distinct (map al_id (db_alerts d')) \<and> (\<forall>r \<in> set (db_alerts d'). alert_truthful r) \<and>
    distinct (map sn_fp (db_signals d')) \<and> distinct (map signal_candle (db_signals d')) \<and>
    (\<forall>r \<in> set (db_signals d'). sd_decision (sn_decision r) = WAIT) \<and>
    distinct (map risk_plan_fp (db_plans d')) \<and>
    (\<forall>p \<in> set (db_plans d'). publication_action p = WAIT \<and> (\<exists>r \<in> set (db_signals d'). sn_fp r = rp_source_fingerprint p))"
proof -
  note w = run_keeps [OF assms(1,2,4,3)]
  then have "plans_wf (db_signals d') (db_plans d')" by (simp add: live_wf_def)
  then have "\<exists>r \<in> set (db_signals d'). sn_fp r = rp_source_fingerprint p" if "p \<in> set (db_plans d')" for p
    using that unfolding plans_wf_def by (metis imageE)
  with w show ?thesis by (simp add: live_wf_def alerts_wf_def signals_wf_def plans_wf_def)
qed

text \<open>
  C7. What the monitor shows is true and asks for nothing: in every state that a run reaches, a
  monitor publishes WAIT, and where it shows an entry zone its plan is valid and eligible and the
  status holds of the price of the plan's side and of the levels that are stored next to it,
  although both were rounded when they were stored and either path may have written them.
\<close>

theorem shown_zone_is_true:
  assumes "monotone_column (lv_column env)" "stable_column (lv_column env)" "live_wf (lv_column env) d"
    and "(live_step env qs)\<^sup>*\<^sup>* d d'" "db_states d' i = Some st"
  shows "lm_effective_action st = WAIT \<and> lm_published_decision st \<in> {None, Some WAIT} \<and>
    (entry_zone_status st \<noteq> NO_ACTIVE_ZONE \<longrightarrow>
       lm_plan_valid st \<and> lm_eligible st \<and>
       (\<exists>side lo hi p. watched_side st = Some side \<and> lm_entry_min st = Some lo \<and> lm_entry_max st = Some hi \<and>
          side_price side (current_bid st) (current_ask st) = Some p \<and> status_sound (entry_zone_status st) lo hi p))"
proof -
  from run_keeps [OF assms(1,2,4,3)] assms(5) have w: "monitor_waits st" "zone_shown st"
    by (auto simp: live_wf_def monitor_wf_def)
  then show ?thesis by (auto simp: monitor_waits_def zone_shown_def)
qed

text \<open>
  C23. The audit trail only grows: signals, plans and alerts are never changed or removed, whatever
  happens, and the signal that a candle has is the one it keeps.
\<close>

theorem audit_trail_only_grows:
  assumes "(live_step env qs)\<^sup>*\<^sup>* d d'"
  shows "prefix (db_signals d) (db_signals d') \<and> prefix (db_plans d) (db_plans d') \<and> prefix (db_alerts d) (db_alerts d') \<and>
    (\<forall>timeframe ts r. signal_at timeframe ts (db_signals d) = Some r \<longrightarrow> signal_at timeframe ts (db_signals d') = Some r)"
  using run_grows [OF assms] signal_at_prefix unfolding grows_def by blast

section \<open>Witnesses\<close>

lemma cold_env_column [simp]: "lv_column cold_env = sample_column"
  by (simp add: cold_env_def)

lemma empty_live_wf: "live_wf db empty_live_db"
  by (simp add: live_wf_def empty_live_db_def alerts_wf_def signals_wf_def plans_wf_def)

lemma cold_run: "\<exists>d' row. (live_step cold_env sample_settings)\<^sup>*\<^sup>* empty_live_db d' \<and> db_signals d' = [row]"
proof -
  obtain row st d' where "process_closed_candle cold_env cold_tables plain_call 0 first_candle empty_live_db = (Inr (row, None, st), d')"
    "db_signals d' = [row]" using cold_start by blast
  then show ?thesis by (blast intro: candle_step)
qed

lemma live_records_consistent_witness:
  "\<exists>d' row. (live_step cold_env sample_settings)\<^sup>*\<^sup>* empty_live_db d' \<and> db_signals d' = [row] \<and> sd_decision (sn_decision row) = WAIT"
proof -
  obtain d' row where r: "(live_step cold_env sample_settings)\<^sup>*\<^sup>* empty_live_db d'" "db_signals d' = [row]" using cold_run by blast
  with live_records_consistent [OF _ _ _ r(1)] show ?thesis
    by (auto simp: sample_column_monotone sample_column_stable empty_live_wf)
qed

definition watching_live_db :: live_db where
  "watching_live_db = empty_live_db\<lparr>db_states := [''XAUUSD'' \<mapsto> watching]\<rparr>"

lemma watching_live_wf: "live_wf sample_column watching_live_db"
proof -
  have "monitor_wf sample_column watching"
    by (simp add: monitor_wf_def monitor_waits_def zone_shown_def stored_as_is_def watching_def blank_monitor_def sample_column_def
        rhe_def)
  then show ?thesis
    by (simp add: watching_live_db_def empty_live_db_def live_wf_def alerts_wf_def signals_wf_def plans_wf_def)
qed

lemma watching_run: "\<exists>d' st. (live_step (cold_env\<lparr>lv_hash := id\<rparr>) sample_settings)\<^sup>*\<^sup>* watching_live_db d' \<and>
    db_states d' ''XAUUSD'' = Some st \<and> entry_zone_status st = INSIDE_ZONE"
proof -
  obtain st d' where p: "process_quote sample_column id sample_settings None (61 * second) quote_in_zone watching_live_db = Inr (st, d')"
    and "entry_zone_status st = INSIDE_ZONE" "db_states d' ''XAUUSD'' = Some st"
    using watching_quote_at [of watching_live_db] by (auto simp: watching_live_db_def empty_live_db_def save_monitor_def)
  moreover from p have "live_step (cold_env\<lparr>lv_hash := id\<rparr>) sample_settings watching_live_db d'"
    by (intro quote_step [where q = quote_in_zone and now = "61 * second" and override = None and st = st]) (simp add: cold_env_def)
  ultimately show ?thesis by blast
qed

lemma shown_zone_is_true_witness:
  "\<exists>d' st lo hi p. (live_step (cold_env\<lparr>lv_hash := id\<rparr>) sample_settings)\<^sup>*\<^sup>* watching_live_db d' \<and>
    db_states d' ''XAUUSD'' = Some st \<and> lm_entry_min st = Some lo \<and> lm_entry_max st = Some hi \<and> status_sound INSIDE_ZONE lo hi p"
proof -
  obtain d' st where r: "(live_step (cold_env\<lparr>lv_hash := id\<rparr>) sample_settings)\<^sup>*\<^sup>* watching_live_db d'"
    and st: "db_states d' ''XAUUSD'' = Some st" "entry_zone_status st = INSIDE_ZONE" using watching_run by blast
  from shown_zone_is_true [OF _ _ _ r st(1)] st obtain lo hi p where "lm_entry_min st = Some lo" "lm_entry_max st = Some hi"
    "status_sound INSIDE_ZONE lo hi p"
    by (auto simp: cold_env_def sample_column_monotone sample_column_stable watching_live_wf)
  with r st show ?thesis by blast
qed

lemma audit_trail_only_grows_witness:
  "\<exists>d' row. (live_step cold_env sample_settings)\<^sup>*\<^sup>* empty_live_db d' \<and> db_signals d' = [row] \<and> prefix (db_alerts empty_live_db) (db_alerts d')"
  using audit_trail_only_grows cold_run by blast

end
