(* ===== verification/Spec2Isabelle.thy ===== *)
theory Spec2Isabelle
  imports Signal_Mirror Walk_Forward Governance Cycle_Engine Live_Monitor
begin

text \<open>
  Verification of the decision core of AurumIQ, a paper-only signal and backtest platform for
  XAUUSD. The core is a chain of pure engines under \<open>engine/\<close>; the Django applications under
  \<open>apps/\<close> feed them from a database and store what they return. This development models the
  XAUUSD chain, from the stored candles to the result of a simulated trade, and the replay that
  drives it:

    dataset --> features, regime, structure (point in time) --> market snapshots
      --> direction and timing scores --> gates --> candidate --> publication
      --> risk plan (stops, targets) --> entry fill --> barrier resolution --> trade
      --> partition purging --> folds --> metrics of the walk-forward;
    beside it the time cycle engine, which feeds the timing scores, with its macro event gate and
    sample guard, the governance of backtest windows, and the continuity gate of the paper phase;
    around it the live monitor: its decision path runs the chain on every closed candle and stores
    signal, plan, monitor row and alerts; its quote path watches the entry zone in between.

  \<^bold>\<open>Theories and the code they model.\<close>

  \<^item> Prelude: exceptions as a datatype and results as sums, sequencing with \<open>rbind\<close>, numbers
    that may be infinite or NaN, naive and aware datetimes in microseconds since the epoch,
    string functions, generic list lemmas. The collection \<open>eval_defs\<close> holds the defining
    equations that evaluate a concrete input. Civil_Time: the civil date of a day number, and
    digits.
  \<^item> Decimal_Arith: the \<open>decimal\<close> module at its default context (28 digits, ties to even) on
    rationals, \<open>quantize\<close> to four places, and the locale \<open>rounding\<close>: the laws of a rounding
    (monotone, odd, idempotent, positive on positive numbers). It is interpreted for decimals
    here and for IEEE doubles in Signal_Profile.
  \<^item> Core_Types: the enums and dataclasses of \<open>engine/core/types.py\<close> the chain exchanges.
  \<^item> Signal_Profile: \<open>engine/signals/profile.py\<close>, weights, thresholds, their validation, the
    policy fingerprint. Signal_Gate: \<open>engine/signals/gate.py\<close>, hard gates, tiers, the conflict
    matrix. Direction and Timing: \<open>engine/signals/direction.py\<close> and \<open>timing.py\<close> in double
    precision. Signal_Engine: \<open>XauUsdSignalEngine.analyze\<close> of \<open>engine/signals/engine.py\<close> with
    the explanation of \<open>explainer.py\<close>. Signal_Mirror: the symmetry of both sides.
  \<^item> Structure: \<open>engine/structure/\<close>, swings, zones and the structure engine. Features:
    \<open>engine/features/\<close>, every indicator, in decimals or floats as the code computes it; the
    functions \<open>math.sqrt\<close>, \<open>math.log\<close> and the printing of a float are the parameter \<open>float_lib\<close>.
    Regime: \<open>engine/regime/engine.py\<close>.
  \<^item> Repository: \<open>PointInTimeDataset\<close> and \<open>ReplayClock\<close> of \<open>engine/backtest/repository.py\<close> and
    \<open>clock.py\<close>, with the bisection of the standard library written out.
  \<^item> Fingerprints and Risk_Policy: \<open>engine/risk/xauusd_fingerprints.py\<close> and
    \<open>xauusd_policy.py\<close>. Stops, Targets, Planner: \<open>xauusd_stops.py\<close>, \<open>xauusd_targets.py\<close>,
    \<open>xauusd_planner.py\<close>, for both sides. Execution: \<open>xauusd_execution.py\<close>, the three order
    types. Intrabar: \<open>xauusd_intrabar.py\<close>, which barrier a candle hit first.
  \<^item> Outcomes: \<open>engine/backtest/xauusd_outcomes.py\<close>, \<open>resolve_trade\<close> from plan to settled
    trade. Purge: \<open>engine/backtest/purge.py\<close>.
  \<^item> Replay, Market_Cache and Direct_Replay: \<open>engine/backtest/xauusd_replay.py\<close>. Replay models
    \<open>run_from_cache\<close>, which decides and simulates on prepared snapshots; Market_Cache models
    \<open>build_market_snapshot_cache\<close>, which prepares them incrementally; Direct_Replay models
    \<open>run\<close>, which computes the evidence at every instant. Both runs are one loop, \<open>drive\<close>, seen
    through the locale \<open>replay_driver\<close>, which is interpreted for each. They take the feature
    engine as a parameter and hold for every one; Features models the one the code uses.
  \<^item> Metrics: \<open>engine/backtest/xauusd_metrics.py\<close>, the statistics of a ledger. Walk_Forward:
    \<open>xauusd_walkforward.py\<close>, folds, parameter selection and the run, which evaluates one direct
    replay per fold after purging. Governance: \<open>xauusd_governance.py\<close>, which windows a backtest
    may ask for.
  \<^item> Macro_Events: \<open>engine/cycles/events.py\<close>, the blackout gate and the value known at a time.
    Sample_Guard: \<open>engine/guards/sample_guard.py\<close>, the effective size of a sample and its
    rating. Cycle_Context: \<open>engine/cycles/session.py\<close>, \<open>swing_duration.py\<close>, \<open>calendar.py\<close> and
    the numbers of \<open>profile.py\<close>; the time zone database is the parameter \<open>tz\<close>. Cycle_Engine:
    \<open>engine/cycles/engine.py\<close>, the profile of a request and the whole analysis, whose snapshot
    is what Timing reads.
  \<^item> Continuity: \<open>engine/paper/continuity.py\<close>, closure, schedule, tracker and gate; the
    tracker's histories are a step relation.
  \<^item> Live_State: the database of the live monitor (\<open>apps/live_monitor/models.py\<close>), tables with a
    unique key, and the locale \<open>outbox\<close>: the laws of creating a row unless its key exists. Alerts:
    \<open>apps/alerts/services.py\<close>, whose creation of an alert interprets it. Live_Quotes:
    \<open>LiveQuoteService.process_quote\<close> of \<open>apps/live_monitor/services.py\<close> with the quote adapter.
    Macro_Vintages: \<open>apps/market_data/macro/replay.py\<close>. Live_Evidence: what the live decision reads,
    candles, gaps, provider health and stored cycle snapshots. Live_Decision:
    \<open>XauUsdLiveDecisionPipelineService.process_closed_candle\<close>, stage by stage in its order; it
    returns the database next to the answer or the error, since only its last stage is a
    transaction. Live_Monitor: quotes and candles in any order, as a step relation.
  \<^item> Samples: the concrete policies, candles and signals the witnesses evaluate.

  \<^bold>\<open>Correspondence.\<close> A dataclass is a record with its fields, an enum a datatype. A method that
  may raise returns \<open>pyerr + 'a\<close> and every raise, early return and guard of the source is a
  branch. Decimals are rationals with explicit rounding after each operation; floats are
  rationals rounded to 53 bits, which is exact in the absence of overflow and underflow. SHA-256
  is a parameter \<open>digest\<close>; the payloads it is applied to are modelled field by field. The
  host's time zone, which reads naive datetimes where the code calls \<open>astimezone\<close> on them, is
  a parameter too. A table is the list of its rows in the order of creation; how a decimal column
  rounds is the parameter \<open>db\<close>, how a stored decimal prints \<open>dec_text\<close>; services take the database
  and return it, and the clock they read is an argument.

  \<^bold>\<open>What the lemmas show.\<close> Plans: geometry of valid plans, causality, no promotion, and when
  planning raises. Fills: never better than the quote, never worse than the limit, inside the
  window. Intrabar: validated sequences are exactly grids of sub-bars, collisions are never
  resolved optimistically without evidence. Outcomes: exits at a barrier or a skip, costs never help,
  the risk denominator is frozen, evidence after the run is ignored. Signals: nothing but WAIT
  is published, missing evidence fails closed, analyses are causal, score bounds, refinement of
  an abstract conflict rule, symmetry of the sides. Structure: swings are the confirmed extrema
  and never repaint, zones are well formed. Features: ranges, and volume evidence that fails
  closed. Regime: it fails neutral, exactly. Repository: stores stay ordered, queries are point
  in time, the bisection finds the boundary. Replay: one trade per trigger, nothing depends on
  evidence beyond the run, the incremental cache equals recomputation and never repaints, the
  cached and the direct run emit the same signals. Fingerprints: lossless encodings. Purging:
  equivalence with three filters. Walk-forward: chronological folds, isolation of the test data
  and of every partition's evidence, the first best candidate is selected. Metrics: the counts
  partition the ledger, drawdown and streak meet declarative specifications. Governance:
  accepted windows never touch protected data. Macro events: every documented
  blackout window blocks, and nothing else on whole minutes; the blackout is exact to the microsecond
  in terms of started minutes; later publications have no effect. Cycle engine: it is point in time, bounded by its
  profile, reaches a signal only with authority, and daylight saving leaves no gap between its
  sessions. Sample guard: it only discounts, and fails closed. Continuity: the closure test is containment, the schedule is
  exact, the gate's conditions are exact and failures are never forgotten. Live monitor: the
  quote path writes no decision, applies quotes in order, raises zone alerts only on fresh and
  healthy evidence and one alert per incident; macro vintages and live candles are point in time;
  stored cycle snapshots come back as they were saved. The decision path fails closed, decides a
  candle at most once and writes nothing in a dry run; under every interleaving of both paths the
  records stay unique, consistent and append only, nothing but WAIT is published, and a zone that
  is shown is true of what is stored. These two hold for every column that rounds monotonically
  and stores a stored number as it is (\<open>monotone_column\<close>, \<open>stable_column\<close>).

  \<^bold>\<open>Bounds and fuel.\<close> No fuel is used: all recursions are structural or have a measure (the
  sampling and schedule loops of Continuity advance by 15 minutes towards their end, the
  bisection of Repository halves its interval).

  \<^bold>\<open>Not modelled.\<close> The texts of messages; hashing of candles; saving and loading the snapshot
  cache; the legacy XAUT variants; the calibration of cycle profiles, their files, the
  replay of their evidence and the experimental cycle engine; the local time texts and day names
  of a cycle snapshot; the calibration's policies, candidate generators and ablation; the
  bootstrap guards; ingestion, network and web code, and persistence but for the live monitor;
  of the live monitor the cache of the last quote, the broadcasts, the alert transports, the
  rows of features, regime and structure saved beside a cycle snapshot, the projections and the recovery, and the legacy XAUT pipeline. The square root that ends
  \<open>statistics.stdev\<close> and the parser of ISO times are parameters. Arithmetic on infinite or NaN operands past the code's own checks is the
  error \<open>NonFiniteOperand\<close>, and the theorems speak of results without it.
\<close>

end
